(* ===== verification/Prelude.thy ===== *)
theory Prelude
  imports Complex_Main "HOL-Library.Char_ord" "HOL-Library.List_Lexorder"
begin

text \<open>
  The vocabulary the components share: the JavaScript values the sources compute with, the
  small character grammars they test identifiers and digests against, the order checks on
  arrays of strings, and the result type of code that may throw.

  Strings are lists of \<^typ>\<open>char\<close>: the JavaScript strings whose UTF-16 code units are below
  256. The lexicographic order on them is the code-unit order of \<open><\<close>, \<open>sort()\<close> and
  \<open>Object.keys(...).sort()\<close>.
\<close>

named_theorems guard_defs \<open>the boolean checks the components unfold\<close>
named_theorems codec_simps \<open>equations of encoders and decoders\<close>


section \<open>Results of code that may throw\<close>

type_synonym ('e, 'a) result = "'e + 'a"

definition bind_result :: "('e, 'a) result \<Rightarrow> ('a \<Rightarrow> ('e, 'b) result) \<Rightarrow> ('e, 'b) result" where
  "bind_result r f = (case r of Inl e \<Rightarrow> Inl e | Inr a \<Rightarrow> f a)"

definition guard_result :: "bool \<Rightarrow> 'e \<Rightarrow> ('e, 'a) result \<Rightarrow> ('e, 'a) result" where
  "guard_result ok e k = (if ok then k else Inl e)"

lemma bind_result_simps [simp]:
  "bind_result (Inl e) f = Inl e"
  "bind_result (Inr a) f = f a"
  by (simp_all add: bind_result_def)

lemma bind_result_Inr_iff [simp]:
  "bind_result r f = Inr b \<longleftrightarrow> (\<exists>a. r = Inr a \<and> f a = Inr b)"
  by (cases r) auto

lemma bind_result_Inl_iff:
  "bind_result r f = Inl e \<longleftrightarrow> r = Inl e \<or> (\<exists>a. r = Inr a \<and> f a = Inl e)"
  by (cases r) auto

lemma guard_result_Inr_iff [simp]:
  "guard_result ok e k = Inr b \<longleftrightarrow> ok \<and> k = Inr b"
  by (simp add: guard_result_def)

lemma guard_result_True [simp]: "guard_result True e k = k"
  and guard_result_False [simp]: "guard_result False e k = Inl e"
  by (simp_all add: guard_result_def)

lemma guard_result_Inl_iff:
  "guard_result ok e k = Inl x \<longleftrightarrow> \<not> ok \<and> x = e \<or> ok \<and> k = Inl x"
  by (auto simp: guard_result_def)


section \<open>JavaScript numbers\<close>

text \<open>
  A finite number is represented by the rational its decimal text denotes (the shortest
  decimal that rounds to it). The representation is injective and monotone on the doubles, so
  the comparisons, the equality tests and the texts of the modelled code are exact; the only
  arithmetic the modelled code performs is on integers of magnitude below \<open>2 ^ 53\<close>.
\<close>

datatype jsnum = Fin rat | NaN | PosInf | NegInf

definition num_of_int :: "int \<Rightarrow> jsnum" where
  "num_of_int i = Fin (of_int i)"

fun is_finite :: "jsnum \<Rightarrow> bool" where
  "is_finite (Fin _) = True"
| "is_finite _ = False"

fun is_integer :: "jsnum \<Rightarrow> bool" where
  "is_integer (Fin r) = (of_int \<lfloor>r\<rfloor> = r)"
| "is_integer _ = False"

definition max_safe_integer :: int where
  "max_safe_integer = 9007199254740991"

fun is_safe_integer :: "jsnum \<Rightarrow> bool" where
  "is_safe_integer (Fin r) = (of_int \<lfloor>r\<rfloor> = r \<and> \<bar>r\<bar> \<le> 9007199254740991)"
| "is_safe_integer _ = False"

text \<open>The comparisons of the language: every comparison with \<open>NaN\<close> is false.\<close>

fun num_lt :: "jsnum \<Rightarrow> jsnum \<Rightarrow> bool" where
  "num_lt (Fin a) (Fin b) = (a < b)"
| "num_lt (Fin _) PosInf = True"
| "num_lt NegInf (Fin _) = True"
| "num_lt NegInf PosInf = True"
| "num_lt _ _ = False"

definition num_eq :: "jsnum \<Rightarrow> jsnum \<Rightarrow> bool" where
  "num_eq a b \<longleftrightarrow> a = b \<and> a \<noteq> NaN"

definition num_le :: "jsnum \<Rightarrow> jsnum \<Rightarrow> bool" where
  "num_le a b \<longleftrightarrow> num_lt a b \<or> num_eq a b"

fun num_value :: "jsnum \<Rightarrow> rat" where
  "num_value (Fin r) = r"
| "num_value _ = 0"

definition num_int :: "jsnum \<Rightarrow> int" where
  "num_int n = \<lfloor>num_value n\<rfloor>"

lemma num_le_Fin [simp]: "num_le (Fin a) (Fin b) \<longleftrightarrow> a \<le> b"
  by (auto simp: num_le_def num_eq_def)

lemma num_eq_Fin [simp]: "num_eq (Fin a) (Fin b) \<longleftrightarrow> a = b"
  by (simp add: num_eq_def)

lemma is_integer_finite: "is_integer n \<Longrightarrow> is_finite n"
  by (cases n) simp_all

lemma is_safe_integer_integer: "is_safe_integer n \<Longrightarrow> is_integer n"
  by (cases n) simp_all

lemma is_finite_cases: "is_finite n \<longleftrightarrow> (\<exists>r. n = Fin r)"
  by (cases n) simp_all

lemma is_integer_num_int: "is_integer n \<Longrightarrow> n = Fin (of_int (num_int n))"
  by (cases n) (auto simp: num_int_def)

lemma num_lt_trans: "num_lt a b \<Longrightarrow> num_lt b c \<Longrightarrow> num_lt a c"
  by (cases a; cases b; cases c) auto

lemma not_num_lt_le: "a \<noteq> NaN \<Longrightarrow> b \<noteq> NaN \<Longrightarrow> \<not> num_lt a b \<Longrightarrow> num_le b a"
  by (cases a; cases b) (auto simp: num_le_def num_eq_def)

lemma num_le_trans: "num_le a b \<Longrightarrow> num_le b c \<Longrightarrow> num_le a c"
  unfolding num_le_def num_eq_def by (auto intro: num_lt_trans)

lemma num_le_not_lt: "num_le a b \<Longrightarrow> \<not> num_lt b a"
  by (cases a; cases b) (auto simp: num_le_def num_eq_def)

lemma num_le_refl: "a \<noteq> NaN \<Longrightarrow> num_le a a"
  by (simp add: num_le_def num_eq_def)


section \<open>Characters and the identifier grammars of the sources\<close>

definition is_lower :: "char \<Rightarrow> bool" where
  "is_lower c \<longleftrightarrow> CHR ''a'' \<le> c \<and> c \<le> CHR ''z''"

definition is_upper :: "char \<Rightarrow> bool" where
  "is_upper c \<longleftrightarrow> CHR ''A'' \<le> c \<and> c \<le> CHR ''Z''"

definition is_digit :: "char \<Rightarrow> bool" where
  "is_digit c \<longleftrightarrow> CHR ''0'' \<le> c \<and> c \<le> CHR ''9''"

definition is_alnum :: "char \<Rightarrow> bool" where
  "is_alnum c \<longleftrightarrow> is_lower c \<or> is_upper c \<or> is_digit c"

definition is_hex :: "char \<Rightarrow> bool" where
  "is_hex c \<longleftrightarrow> is_digit c \<or> (CHR ''a'' \<le> c \<and> c \<le> CHR ''f'')"

definition is_id_char :: "char \<Rightarrow> bool" where
  "is_id_char c \<longleftrightarrow> is_alnum c \<or> c \<in> set ''._:-''"

text \<open>\<open>/^[a-zA-Z0-9][a-zA-Z0-9._:-]*$/\<close>\<close>

fun safe_id_pattern :: "string \<Rightarrow> bool" where
  "safe_id_pattern [] = False"
| "safe_id_pattern (c # cs) = (is_alnum c \<and> list_all is_id_char cs)"

text \<open>\<open>/^sha256:[a-f0-9]{64}$/\<close>\<close>

definition digest_pattern :: "string \<Rightarrow> bool" where
  "digest_pattern s \<longleftrightarrow> take 7 s = ''sha256:'' \<and> length s = 71 \<and> list_all is_hex (drop 7 s)"

text \<open>\<open>/^[a-z0-9_]{1,64}$/\<close>\<close>

definition failure_code_pattern :: "string \<Rightarrow> bool" where
  "failure_code_pattern s \<longleftrightarrow> 1 \<le> length s \<and> length s \<le> 64 \<and>
     list_all (\<lambda>c. is_lower c \<or> is_digit c \<or> c = CHR ''_'') s"

text \<open>\<open>/^[A-Za-z0-9_-]+$/\<close> with the length bounds of the signature schemas.\<close>

definition base64url_pattern :: "string \<Rightarrow> bool" where
  "base64url_pattern s \<longleftrightarrow> s \<noteq> [] \<and> list_all (\<lambda>c. is_alnum c \<or> c \<in> set ''_-'') s"

lemmas char_class_defs [guard_defs] =
  is_lower_def is_upper_def is_digit_def is_alnum_def is_hex_def is_id_char_def


section \<open>Arrays of strings\<close>

text \<open>\<open>new Set(values).size === values.length\<close>, and strictly increasing neighbours.\<close>

definition sorted_unique :: "string list \<Rightarrow> bool" where
  "sorted_unique xs \<longleftrightarrow> distinct xs \<and> sorted xs"

fun increasing :: "string list \<Rightarrow> bool" where
  "increasing (x # y # zs) = (x < y \<and> increasing (y # zs))"
| "increasing _ = True"

lemma increasing_Cons: "increasing (x # xs) \<longleftrightarrow> (\<forall>y \<in> set xs. x < y) \<and> increasing xs"
  by (induction xs arbitrary: x) (auto intro: less_trans)

lemma increasing_iff_sorted_unique: "increasing xs \<longleftrightarrow> sorted_unique xs"
  by (induction xs) (auto simp: increasing_Cons sorted_unique_def less_le)

definition subset_list :: "'a list \<Rightarrow> 'a list \<Rightarrow> bool" where
  "subset_list xs ys \<longleftrightarrow> list_all (\<lambda>x. List.member ys x) xs"

lemma subset_list_iff [simp]: "subset_list xs ys \<longleftrightarrow> set xs \<subseteq> set ys"
  by (auto simp: subset_list_def list_all_iff)

definition starts_with :: "string \<Rightarrow> string \<Rightarrow> bool" where
  "starts_with s p \<longleftrightarrow> take (length p) s = p"

definition ends_with :: "string \<Rightarrow> string \<Rightarrow> bool" where
  "ends_with s p \<longleftrightarrow> length p \<le> length s \<and> drop (length s - length p) s = p"

lemma starts_with_iff: "starts_with s p \<longleftrightarrow> (\<exists>r. s = p @ r)"
proof
  assume "starts_with s p"
  then have "s = p @ drop (length p) s"
    by (metis append_take_drop_id starts_with_def)
  then show "\<exists>r. s = p @ r" ..
qed (auto simp: starts_with_def)

text \<open>\<open>value.includes(needle)\<close> on strings.\<close>

fun contains_text :: "string \<Rightarrow> string \<Rightarrow> bool" where
  "contains_text [] p = (p = [])"
| "contains_text (c # cs) p = (starts_with (c # cs) p \<or> contains_text cs p)"

text \<open>\<open>value.split(separator)\<close> for a one-character separator.\<close>

fun split_char :: "char \<Rightarrow> string \<Rightarrow> string list" where
  "split_char d [] = [[]]"
| "split_char d (c # cs) =
     (if c = d then [] # split_char d cs
      else (case split_char d cs of [] \<Rightarrow> [[c]] | w # ws \<Rightarrow> (c # w) # ws))"

lemma split_char_ne [simp]: "split_char d s \<noteq> []"
  by (cases s) (auto split: list.splits)

lemma split_char_append: "split_char d (r @ d # t) = split_char d r @ split_char d t"
proof (induction r)
  case (Cons c r)
  then show ?case by (cases "split_char d r") auto
qed simp

lemma split_char_single: "d \<notin> set w \<Longrightarrow> split_char d w = [w]"
  by (induction w) auto

text \<open>\<open>values.join(separator)\<close> for a one-character separator.\<close>

fun join_char :: "char \<Rightarrow> string list \<Rightarrow> string" where
  "join_char d [] = []"
| "join_char d [w] = w"
| "join_char d (w # ws) = w @ d # join_char d ws"

lemma split_join_char:
  "ws \<noteq> [] \<Longrightarrow> \<forall>w \<in> set ws. d \<notin> set w \<Longrightarrow> split_char d (join_char d ws) = ws"
  by (induction d ws rule: join_char.induct) (auto simp: split_char_append split_char_single)

lemma join_split_char: "join_char d (split_char d s) = s"
proof (induction s)
  case (Cons c s)
  then show ?case by (cases "split_char d s") (auto, (metis append_Cons join_char.simps(2,3) neq_Nil_conv)+)
qed simp

lemma split_char_no_sep: "w \<in> set (split_char d s) \<Longrightarrow> d \<notin> set w"
  by (induction s arbitrary: w) (auto split: if_splits list.splits)


section \<open>Optional fields\<close>

definition opt_all :: "('a \<Rightarrow> bool) \<Rightarrow> 'a option \<Rightarrow> bool" where
  "opt_all P x = (case x of None \<Rightarrow> True | Some a \<Rightarrow> P a)"

lemma opt_all_simps [simp]: "opt_all P None" "opt_all P (Some a) = P a"
  by (simp_all add: opt_all_def)

lemma opt_all_iff: "opt_all P x \<longleftrightarrow> (\<forall>a. x = Some a \<longrightarrow> P a)"
  by (cases x) simp_all

text \<open>\<open>Boolean(value)\<close> of an optional string: absent and empty are both false.\<close>

definition truthy_text :: "string option \<Rightarrow> bool" where
  "truthy_text x = (case x of None \<Rightarrow> False | Some s \<Rightarrow> s \<noteq> [])"

lemma truthy_text_simps [simp]: "\<not> truthy_text None" "truthy_text (Some s) = (s \<noteq> [])"
  by (simp_all add: truthy_text_def)

end
