(* ===== verification/Js_Date.thy ===== *)
theory Js_Date
  imports Prelude
begin

text \<open>
  \<open>Date.parse\<close> and \<open>Date.prototype.toISOString\<close> on the ECMAScript date-time interchange
  format: four-digit or signed six-digit years, the date alone, or a date and a time with
  optional seconds and fraction and a zone (\<open>Z\<close> or an offset). A time value is an integer of
  milliseconds since the epoch; \<open>None\<close> is an invalid date (\<open>NaN\<close>). Texts outside this format,
  and local times without a zone, whose reading the language leaves to the host, are invalid
  dates here.

  The results are the laws every component that handles instants relies on, collected in the
  locale \<open>instant_codec\<close> and discharged for these definitions.
\<close>

section \<open>Decimal digits\<close>

definition digit_char :: "int \<Rightarrow> char" where
  "digit_char n = (''0123456789'' ! nat n)"

definition digit_val :: "char \<Rightarrow> int" where
  "digit_val c = of_char c - 48"

fun dec_fixed :: "nat \<Rightarrow> int \<Rightarrow> string" where
  "dec_fixed 0 n = []"
| "dec_fixed (Suc w) n = dec_fixed w (n div 10) @ [digit_char (n mod 10)]"

definition read_dec :: "string \<Rightarrow> int" where
  "read_dec s = foldl (\<lambda>a c. 10 * a + digit_val c) 0 s"

lemma digit_cases:
  "0 \<le> n \<Longrightarrow> n < (10::int) \<Longrightarrow>
   n = 0 \<or> n = 1 \<or> n = 2 \<or> n = 3 \<or> n = 4 \<or> n = 5 \<or> n = 6 \<or> n = 7 \<or> n = 8 \<or> n = 9"
  by arith

lemma digit_char_codec [simp]: "0 \<le> n \<Longrightarrow> n < 10 \<Longrightarrow> digit_val (digit_char n) = n"
  by (drule (1) digit_cases, elim disjE) (simp_all add: digit_val_def digit_char_def)

lemma digit_char_is_digit [simp]: "0 \<le> n \<Longrightarrow> n < 10 \<Longrightarrow> is_digit (digit_char n)"
  by (drule (1) digit_cases, elim disjE) (simp_all add: is_digit_def digit_char_def less_eq_char_def)

lemma length_dec_fixed [simp]: "length (dec_fixed w n) = w"
  by (induction w arbitrary: n) simp_all

lemma dec_fixed_digits [simp]: "list_all is_digit (dec_fixed w n)"
  by (induction w arbitrary: n) simp_all

lemma read_dec_dec_fixed [simp]: "read_dec (dec_fixed w n) = n mod 10 ^ w"
proof (induction w arbitrary: n)
  case 0
  show ?case by (simp add: read_dec_def)
next
  case (Suc w)
  have "read_dec (dec_fixed (Suc w) n) = 10 * read_dec (dec_fixed w (n div 10)) + n mod 10"
    by (simp add: read_dec_def)
  also have "\<dots> = 10 * (n div 10 mod 10 ^ w) + n mod 10"
    by (simp add: Suc.IH)
  also have "\<dots> = n mod (10 * 10 ^ w)"
    by (simp add: zmod_zmult2_eq)
  finally show ?case by simp
qed

lemma dec_fixed_eval:
  "dec_fixed 2 n = [digit_char (n div 10 mod 10), digit_char (n mod 10)]"
  "dec_fixed 3 n = [digit_char (n div 100 mod 10), digit_char (n div 10 mod 10), digit_char (n mod 10)]"
  "dec_fixed 4 n = [digit_char (n div 1000 mod 10), digit_char (n div 100 mod 10),
     digit_char (n div 10 mod 10), digit_char (n mod 10)]"
  by (simp_all add: eval_nat_numeral flip: zdiv_zmult2_eq)


section \<open>The proleptic Gregorian calendar\<close>

definition leap_year :: "int \<Rightarrow> bool" where
  "leap_year y \<longleftrightarrow> y mod 4 = 0 \<and> y mod 100 \<noteq> 0 \<or> y mod 400 = 0"

text \<open>Days from the epoch to the first of January of a year.\<close>

definition days_before_year :: "int \<Rightarrow> int" where
  "days_before_year y =
     365 * (y - 1970) + ((y - 1) div 4 - (y - 1) div 100 + (y - 1) div 400) - 477"

definition month_days :: "int \<Rightarrow> int list" where
  "month_days y = [31, if leap_year y then 29 else 28, 31, 30, 31, 30, 31, 31, 30, 31, 30, 31]"

text \<open>The month (from 1) and the day (from 1) of a zero-based day of the year.\<close>

fun scan_month :: "int list \<Rightarrow> nat \<Rightarrow> int \<Rightarrow> nat \<times> int" where
  "scan_month [] m d = (m, d + 1)"
| "scan_month [l] m d = (m, d + 1)"
| "scan_month (l # l' # ls) m d = (if d < l then (m, d + 1) else scan_month (l' # ls) (Suc m) (d - l))"

definition adjust_year :: "int \<Rightarrow> int \<Rightarrow> int" where
  "adjust_year d y =
     (if d < days_before_year y then y - 1
      else if days_before_year (y + 1) \<le> d then y + 1 else y)"

definition year_of_day :: "int \<Rightarrow> int" where
  "year_of_day d = adjust_year d (1970 + (400 * d) div 146097)"

definition make_day :: "int \<Rightarrow> nat \<Rightarrow> int \<Rightarrow> int" where
  "make_day y m d = days_before_year y + sum_list (take (m - 1) (month_days y)) + d - 1"

lemma div_bounds: "0 < k \<Longrightarrow> k * (z div k) \<le> z" "0 < k \<Longrightarrow> z < k * (z div k) + k" for k z :: int
  using pos_mod_bound [of k z] pos_mod_sign [of k z] mult_div_mod_eq [of k z] by linarith+

lemma days_before_year_near:
  "146097 * y - 287811597 \<le> 400 * days_before_year y \<and>
   400 * days_before_year y \<le> 146097 * y - 287810499"
proof -
  define a b c where "a = (y - 1) div 4" and "b = (y - 1) div 100" and "c = (y - 1) div 400"
  have a: "4 * a \<le> y - 1" "y - 1 < 4 * a + 4"
    unfolding a_def by (rule div_bounds, simp)+
  have b: "100 * b \<le> y - 1" "y - 1 < 100 * b + 100"
    unfolding b_def by (rule div_bounds, simp)+
  have c: "400 * c \<le> y - 1" "y - 1 < 400 * c + 400"
    unfolding c_def by (rule div_bounds, simp)+
  have "days_before_year y = 365 * y + a - b + c - 719527"
    by (simp add: days_before_year_def a_def b_def c_def)
  with a b c show ?thesis by (intro conjI) linarith+
qed

lemmas days_before_year_bounds =
  days_before_year_near [THEN conjunct1] days_before_year_near [THEN conjunct2]

lemma year_of_day_correct:
  "days_before_year (year_of_day d) \<le> d \<and> d < days_before_year (year_of_day d + 1)"
proof -
  define q where "q = (400 * d) div 146097"
  have q: "146097 * q \<le> 400 * d" "400 * d < 146097 * q + 146097"
    unfolding q_def by (rule div_bounds, simp)+
  have lo: "days_before_year (1970 + q - 1) \<le> d"
    using days_before_year_bounds(2) [of "1970 + q - 1"] q by simp
  have hi: "d < days_before_year (1970 + q + 1 + 1)"
    using days_before_year_bounds(1) [of "1970 + q + 1 + 1"] q by simp
  show ?thesis
    unfolding year_of_day_def q_def [symmetric] adjust_year_def using lo hi
    by (cases "d < days_before_year (1970 + q)";
        cases "days_before_year (1970 + q + 1) \<le> d") auto
qed

lemma div_pred:
  fixes k z :: int
  assumes k: "0 < k"
  shows "z div k = (z - 1) div k + (if z mod k = 0 then 1 else 0)"
proof -
  define q r where "q = z div k" and "r = z mod k"
  have z: "z = k * q + r" by (simp add: q_def r_def)
  have r: "0 \<le> r" "r < k" using k by (simp_all add: r_def)
  show ?thesis
  proof (cases "r = 0")
    case True
    then have "(z - 1) div k = ((k - 1) + k * (q - 1)) div k"
      by (simp add: z algebra_simps)
    also have "\<dots> = q - 1" using k by (subst div_mult_self2) auto
    finally show ?thesis using True by (simp flip: q_def r_def)
  next
    case False
    then have "(z - 1) div k = ((r - 1) + k * q) div k"
      by (simp add: z algebra_simps)
    also have "\<dots> = q" using k r False by (subst div_mult_self2) auto
    finally show ?thesis using False by (simp flip: q_def r_def)
  qed
qed

lemma leap_year_div:
  "y div 4 - y div 100 + y div 400 =
     (y - 1) div 4 - (y - 1) div 100 + (y - 1) div 400 + (if leap_year y then 1 else 0)"
proof -
  define A B C where "A = (y - 1) div 4" and "B = (y - 1) div 100" and "C = (y - 1) div 400"
  define p q r l :: int where "p = (if y mod 4 = 0 then 1 else 0)" and "q = (if y mod 100 = 0 then 1 else 0)"
    and "r = (if y mod 400 = 0 then 1 else 0)" and "l = (if leap_year y then 1 else 0)"
  have "y mod 400 = 0 \<Longrightarrow> y mod 100 = 0" "y mod 100 = 0 \<Longrightarrow> y mod 4 = 0"
    using dvd_trans [of 100 400 y] dvd_trans [of 4 100 y] by (simp_all add: mod_eq_0_iff_dvd)
  then have leap: "p - q + r = l"
    unfolding leap_year_def p_def q_def r_def l_def by (cases "y mod 400 = 0"; cases "y mod 100 = 0"; cases "y mod 4 = 0") simp_all
  have quotients: "y div 4 = A + p" "y div 100 = B + q" "y div 400 = C + r"
    unfolding A_def B_def C_def p_def q_def r_def by (rule div_pred, simp)+
  show ?thesis unfolding A_def [symmetric] B_def [symmetric] C_def [symmetric] l_def [symmetric] quotients using leap by linarith
qed

lemma year_length:
  "days_before_year (y + 1) = days_before_year y + (if leap_year y then 366 else 365)"
  using leap_year_div [of y] by (simp add: days_before_year_def)

lemma sum_month_days: "sum_list (month_days y) = (if leap_year y then 366 else 365)"
  by (simp add: month_days_def)

lemma scan_month_correct:
  assumes "ls \<noteq> []" and "0 \<le> d" and "d < sum_list ls"
  shows "m \<le> fst (scan_month ls m d) \<and> fst (scan_month ls m d) < m + length ls \<and>
     1 \<le> snd (scan_month ls m d) \<and>
     snd (scan_month ls m d) \<le> ls ! (fst (scan_month ls m d) - m) \<and>
     sum_list (take (fst (scan_month ls m d) - m) ls) + snd (scan_month ls m d) - 1 = d"
  using assms
proof (induction ls m d rule: scan_month.induct)
  case (3 l l' ls m d)
  show ?case
  proof (cases "d < l")
    case True
    with 3 show ?thesis by simp
  next
    case False
    define r where "r = scan_month (l' # ls) (Suc m) (d - l)"
    have IH: "Suc m \<le> fst r \<and> fst r < Suc m + length (l' # ls) \<and> 1 \<le> snd r \<and>
        snd r \<le> (l' # ls) ! (fst r - Suc m) \<and>
        sum_list (take (fst r - Suc m) (l' # ls)) + snd r - 1 = d - l"
      unfolding r_def using "3.IH" [OF False] "3.prems" False by simp
    then have "fst r - m = Suc (fst r - Suc m)" by arith
    with IH False show ?thesis by (simp flip: r_def)
  qed
qed auto


section \<open>Formatting and parsing instants\<close>

definition ms_per_day :: int where
  "ms_per_day = 86400000"

definition valid_time :: "int \<Rightarrow> bool" where
  "valid_time t \<longleftrightarrow> \<bar>t\<bar> \<le> 8640000000000000"

definition iso_year :: "int \<Rightarrow> string" where
  "iso_year y =
     (if 0 \<le> y \<and> y \<le> 9999 then dec_fixed 4 y
      else (if y < 0 then CHR ''-'' else CHR ''+'') # dec_fixed 6 \<bar>y\<bar>)"

definition iso_date :: "int \<Rightarrow> nat \<times> int \<Rightarrow> string" where
  "iso_date y md = iso_year y @ CHR ''-'' # dec_fixed 2 (int (fst md)) @ CHR ''-'' # dec_fixed 2 (snd md)"

definition iso_day :: "int \<Rightarrow> int \<Rightarrow> string" where
  "iso_day d y = iso_date y (scan_month (month_days y) 1 (d - days_before_year y))"

definition iso_time :: "int \<Rightarrow> string" where
  "iso_time r =
     CHR ''T'' # dec_fixed 2 (r div 3600000) @ CHR '':'' # dec_fixed 2 (r div 60000 mod 60)
       @ CHR '':'' # dec_fixed 2 (r div 1000 mod 60) @ CHR ''.'' # dec_fixed 3 (r mod 1000) @ ''Z''"

text \<open>\<open>new Date(t).toISOString()\<close>; outside the time range it raises (\<open>None\<close>).\<close>

definition to_iso :: "int \<Rightarrow> string option" where
  "to_iso t =
     (if valid_time t
      then Some (iso_day (t div ms_per_day) (year_of_day (t div ms_per_day)) @ iso_time (t mod ms_per_day))
      else None)"

definition dec_field :: "nat \<Rightarrow> string \<Rightarrow> (int \<times> string) option" where
  "dec_field w s =
     (if w \<le> length s \<and> list_all is_digit (take w s)
      then Some (read_dec (take w s), drop w s) else None)"

definition expect :: "char \<Rightarrow> string \<Rightarrow> string option" where
  "expect c s = (case s of [] \<Rightarrow> None | x # xs \<Rightarrow> if x = c then Some xs else None)"

definition parse_year :: "string \<Rightarrow> (int \<times> string) option" where
  "parse_year s =
     (case s of [] \<Rightarrow> None
      | c # cs \<Rightarrow>
         if c = CHR ''+'' \<or> c = CHR ''-'' then
           (case dec_field 6 cs of None \<Rightarrow> None
            | Some (n, r) \<Rightarrow> if c = CHR ''-'' \<and> n = 0 then None
                 else Some (if c = CHR ''-'' then - n else n, r))
         else (case dec_field 4 s of None \<Rightarrow> None | Some (n, r) \<Rightarrow> Some (n, r)))"

text \<open>The fraction of a second in milliseconds: digits after the third are ignored.\<close>

definition parse_fraction :: "string \<Rightarrow> (int \<times> string) option" where
  "parse_fraction s =
     (case expect CHR ''.'' s of None \<Rightarrow> Some (0, s)
      | Some r \<Rightarrow>
         if takeWhile is_digit r = [] then None
         else Some (read_dec (take 3 (takeWhile is_digit r @ ''00'')), dropWhile is_digit r))"

definition parse_seconds :: "string \<Rightarrow> (int \<times> int \<times> string) option" where
  "parse_seconds s =
     (case expect CHR '':'' s of None \<Rightarrow> Some (0, 0, s)
      | Some r \<Rightarrow> Option.bind (dec_field 2 r) (\<lambda>(sec, r').
          Option.bind (parse_fraction r') (\<lambda>(ms, r''). Some (sec, ms, r''))))"

definition parse_zone :: "string \<Rightarrow> int option" where
  "parse_zone s =
     (if s = ''Z'' then Some 0
      else case s of [] \<Rightarrow> None
      | c # cs \<Rightarrow>
         if c = CHR ''+'' \<or> c = CHR ''-'' then
           Option.bind (dec_field 2 cs) (\<lambda>(h, r1). Option.bind (expect CHR '':'' r1) (\<lambda>r2.
           Option.bind (dec_field 2 r2) (\<lambda>(m, r3).
             if r3 = [] \<and> h \<le> 23 \<and> m \<le> 59
             then Some ((if c = CHR ''-'' then -1 else 1) * (60 * h + m)) else None)))
         else None)"

text \<open>The milliseconds of the day, and the zone offset in minutes, of the text after the date.\<close>

definition parse_time :: "string \<Rightarrow> (int \<times> int) option" where
  "parse_time s =
     (if s = [] then Some (0, 0)
      else Option.bind (expect CHR ''T'' s) (\<lambda>r0. Option.bind (dec_field 2 r0) (\<lambda>(h, r1).
        Option.bind (expect CHR '':'' r1) (\<lambda>r2. Option.bind (dec_field 2 r2) (\<lambda>(m, r3).
        Option.bind (parse_seconds r3) (\<lambda>(sec, ms, r4). Option.bind (parse_zone r4) (\<lambda>z.
          if (h \<le> 23 \<and> m \<le> 59 \<and> sec \<le> 59) \<or> (h = 24 \<and> m = 0 \<and> sec = 0 \<and> ms = 0)
          then Some (3600000 * h + 60000 * m + 1000 * sec + ms, z) else None)))))))"

definition time_clip :: "int \<Rightarrow> int option" where
  "time_clip t = (if valid_time t then Some t else None)"

text \<open>
  \<open>Date.parse(s)\<close>. A day up to 31 is accepted in every month and rolls over into the next, as
  the runtime does; the sources compare the text with \<open>toISOString\<close> to refuse such dates.
\<close>

definition date_parse :: "string \<Rightarrow> int option" where
  "date_parse s =
     Option.bind (parse_year s) (\<lambda>(y, r0). Option.bind (expect CHR ''-'' r0) (\<lambda>r1.
     Option.bind (dec_field 2 r1) (\<lambda>(m, r2). Option.bind (expect CHR ''-'' r2) (\<lambda>r3.
     Option.bind (dec_field 2 r3) (\<lambda>(d, r4). Option.bind (parse_time r4) (\<lambda>(ms, z).
       if 1 \<le> m \<and> m \<le> 12 \<and> 1 \<le> d \<and> d \<le> 31
       then time_clip (make_day y (nat m) d * ms_per_day + ms - z * 60000) else None))))))"

text \<open>\<open>const parsed = new Date(value); !isNaN(parsed.getTime()) && parsed.toISOString() === value\<close>\<close>

definition instant :: "string \<Rightarrow> bool" where
  "instant s = (case date_parse s of None \<Rightarrow> False | Some t \<Rightarrow> to_iso t = Some s)"


section \<open>Parsing inverts formatting\<close>

lemma dec_field_fixed [simp]: "dec_field w (dec_fixed w n @ r) = Some (n mod 10 ^ w, r)"
  by (simp add: dec_field_def)

lemma expect_Cons [simp]: "expect c (x # xs) = (if x = c then Some xs else None)"
  by (simp add: expect_def)

lemma dec_fixed_not_sign:
  "0 < w \<Longrightarrow> dec_fixed w n @ r = c # cs \<Longrightarrow> is_digit c"
  using dec_fixed_digits [of w n] length_dec_fixed [of w n] by (cases "dec_fixed w n") auto

lemma parse_year_iso_year: "\<bar>y\<bar> < 1000000 \<Longrightarrow> parse_year (iso_year y @ r) = Some (y, r)"
proof (cases "0 \<le> y \<and> y \<le> 9999")
  case True
  then obtain c cs where c: "dec_fixed 4 y @ r = c # cs"
    by (cases "dec_fixed 4 y @ r") (auto simp: dec_fixed_eval)
  then have "is_digit c" using dec_fixed_not_sign [of 4 y r c cs] by simp
  then have "c \<noteq> CHR ''+''" "c \<noteq> CHR ''-''"
    by (auto simp: is_digit_def less_eq_char_def)
  moreover have "dec_field 4 (c # cs) = Some (y, r)"
    using True by (simp flip: c)
  ultimately show ?thesis
    using True by (simp add: iso_year_def parse_year_def c)
next
  case False
  assume "\<bar>y\<bar> < 1000000"
  then have "\<bar>y\<bar> mod 10 ^ 6 = \<bar>y\<bar>" by simp
  with False show ?thesis
    by (auto simp: iso_year_def parse_year_def)
qed

lemma takeWhile_dec_fixed [simp]:
  "takeWhile is_digit (dec_fixed w n @ ''Z'') = dec_fixed w n"
  "dropWhile is_digit (dec_fixed w n @ ''Z'') = ''Z''"
proof -
  have "\<And>c. c \<in> set (dec_fixed w n) \<Longrightarrow> is_digit c"
    using dec_fixed_digits [of w n] by (simp add: list_all_iff)
  moreover have "\<not> is_digit CHR ''Z''" by (simp add: is_digit_def less_eq_char_def)
  ultimately show "takeWhile is_digit (dec_fixed w n @ ''Z'') = dec_fixed w n"
    "dropWhile is_digit (dec_fixed w n @ ''Z'') = ''Z''"
    by (simp_all add: takeWhile_append2 dropWhile_append2)
qed

lemma parse_fraction_fixed [simp]:
  "parse_fraction (CHR ''.'' # dec_fixed 3 n @ ''Z'') = Some (n mod 1000, ''Z'')"
proof -
  have "dec_fixed 3 n \<noteq> []" by (simp add: dec_fixed_eval)
  then show ?thesis by (simp add: parse_fraction_def)
qed

lemma day_fields_sum:
  fixes s m h ms sec mi r :: int
  assumes "1000 * s + ms = r" and "60 * m + sec = s" and "60 * h + mi = m"
  shows "3600000 * h + 60000 * mi + 1000 * sec + ms = r"
  using assms by linarith

lemma day_fields:
  fixes r :: int
  shows "3600000 * (r div 3600000) + 60000 * (r div 60000 mod 60) + 1000 * (r div 1000 mod 60) + r mod 1000 = r"
proof (rule day_fields_sum)
  show "1000 * (r div 1000) + r mod 1000 = r" by simp
  have m: "r div 60000 = r div 1000 div 60" by (simp flip: zdiv_zmult2_eq)
  show "60 * (r div 60000) + r div 1000 mod 60 = r div 1000" unfolding m by (rule mult_div_mod_eq)
  have h: "r div 3600000 = r div 60000 div 60" by (simp flip: zdiv_zmult2_eq)
  show "60 * (r div 3600000) + r div 60000 mod 60 = r div 60000" unfolding h by (rule mult_div_mod_eq)
qed

lemma parse_time_fields:
  assumes h: "0 \<le> h" "h \<le> 23" and m: "0 \<le> m" "m < 60" and sec: "0 \<le> sec" "sec < 60"
    and ms: "0 \<le> ms" "ms < 1000"
  shows "parse_time (CHR ''T'' # dec_fixed 2 h @ CHR '':'' # dec_fixed 2 m @ CHR '':'' # dec_fixed 2 sec
      @ CHR ''.'' # dec_fixed 3 ms @ ''Z'') = Some (3600000 * h + 60000 * m + 1000 * sec + ms, 0)"
proof -
  have "h mod 10 ^ 2 = h" "m mod 10 ^ 2 = m" "sec mod 10 ^ 2 = sec" "ms mod 1000 = ms"
    using assms by simp_all
  then show ?thesis using assms by (simp add: parse_time_def parse_seconds_def parse_zone_def)
qed

lemma parse_time_iso_time:
  assumes "0 \<le> r" and "r < 86400000"
  shows "parse_time (iso_time r) = Some (r, 0)"
proof -
  define h where "h = r div 3600000"
  have "3600000 * h \<le> r" unfolding h_def by (rule div_bounds) simp
  moreover have "0 \<le> h" using assms by (simp add: h_def pos_imp_zdiv_nonneg_iff)
  ultimately have "0 \<le> r div 3600000" "r div 3600000 \<le> 23"
    unfolding h_def [symmetric] using assms by linarith+
  then have "parse_time (iso_time r) = Some (3600000 * (r div 3600000) + 60000 * (r div 60000 mod 60)
      + 1000 * (r div 1000 mod 60) + r mod 1000, 0)"
    unfolding iso_time_def by (rule parse_time_fields) simp_all
  then show ?thesis by (simp only: day_fields)
qed

lemma valid_time_year:
  assumes "valid_time t"
  shows "\<bar>year_of_day (t div ms_per_day)\<bar> < 1000000"
proof -
  define d where "d = t div ms_per_day"
  have "- 100000001 < d" "d \<le> 100000000"
    using assms unfolding d_def valid_time_def ms_per_day_def by linarith+
  moreover have "days_before_year (year_of_day d) \<le> d" "d < days_before_year (year_of_day d + 1)"
    using year_of_day_correct by blast+
  moreover have "146097 * year_of_day d \<le> 400 * days_before_year (year_of_day d) + 287811597"
    "400 * days_before_year (year_of_day d + 1) \<le> 146097 * year_of_day d - 287664402"
    using days_before_year_bounds(1) [of "year_of_day d"]
      days_before_year_bounds(2) [of "year_of_day d + 1"] by simp_all
  ultimately have "year_of_day d < 1000000" "- 1000000 < year_of_day d" by linarith+
  then show ?thesis unfolding d_def by simp
qed

lemma length_month_days [simp]: "length (month_days y) = 12"
  by (simp add: month_days_def)

lemma month_days_bound:
  assumes "m < 12"
  shows "month_days y ! m \<le> 31"
proof -
  have "\<forall>l \<in> set (month_days y). l \<le> 31" by (simp add: month_days_def)
  moreover have "month_days y ! m \<in> set (month_days y)" using assms by (intro nth_mem) simp
  ultimately show ?thesis by blast
qed

theorem date_parse_to_iso:
  assumes "valid_time t"
  shows "\<exists>s. to_iso t = Some s \<and> date_parse s = Some t"
proof -
  define d r y where "d = t div ms_per_day" and "r = t mod ms_per_day" and "y = year_of_day d"
  define md where "md = scan_month (month_days y) 1 (d - days_before_year y)"
  have y: "days_before_year y \<le> d" "d < days_before_year (y + 1)"
    using year_of_day_correct unfolding y_def by blast+
  have md: "1 \<le> fst md" "fst md < 13" "1 \<le> snd md" "snd md \<le> month_days y ! (fst md - 1)"
      "sum_list (take (fst md - 1) (month_days y)) + snd md - 1 = d - days_before_year y"
    using scan_month_correct [of "month_days y" "d - days_before_year y" 1] y
    unfolding md_def by (simp_all add: sum_month_days year_length flip: length_greater_0_conv)
  then have "month_days y ! (fst md - 1) \<le> 31" by (intro month_days_bound) arith
  with md have day: "make_day y (fst md) (snd md) = d" "snd md \<le> 31"
    by (simp_all add: make_day_def)
  have r: "0 \<le> r" "r < 86400000" by (simp_all add: r_def ms_per_day_def)
  have t: "d * ms_per_day + r = t" by (simp add: d_def r_def ms_per_day_def)
  have yb: "\<bar>y\<bar> < 1000000" using valid_time_year [OF assms] by (simp add: y_def d_def)
  have "date_parse (iso_date y md @ iso_time r) = Some t"
    using md(1-3) day parse_time_iso_time [OF r] t assms
    by (simp add: date_parse_def iso_date_def parse_year_iso_year [OF yb] time_clip_def)
  then show ?thesis
    using assms by (simp add: to_iso_def iso_day_def d_def r_def y_def md_def)
qed

lemma to_iso_parse: "to_iso t = Some s \<Longrightarrow> date_parse s = Some t"
  using date_parse_to_iso [of t] by (auto simp: to_iso_def split: if_splits)

lemma to_iso_instant: "to_iso t = Some s \<Longrightarrow> instant s"
  by (simp add: instant_def to_iso_parse)

lemma date_parse_valid: "date_parse s = Some t \<Longrightarrow> valid_time t"
  by (auto simp: date_parse_def time_clip_def bind_eq_Some_conv split: if_splits)

lemma instant_iff: "instant s \<longleftrightarrow> (\<exists>t. to_iso t = Some s)"
  by (auto simp: instant_def to_iso_parse split: option.splits)

lemma instant_inject: "instant s \<Longrightarrow> instant s' \<Longrightarrow> date_parse s = date_parse s' \<Longrightarrow> s = s'"
  by (auto simp: instant_def split: option.splits)


section \<open>The interface\<close>

text \<open>
  What a component that normalises, compares and stores instants relies on: formatting produces
  texts that parse back to the same time value. The consequences are proved once here.
\<close>

locale instant_codec =
  fixes parse :: "string \<Rightarrow> int option" and format :: "int \<Rightarrow> string option"
  assumes parse_format: "format t = Some s \<Longrightarrow> parse s = Some t"
    and format_parsed: "parse s = Some t \<Longrightarrow> \<exists>s'. format t = Some s'"
begin

lemma format_inject: "format t = Some s \<Longrightarrow> format t' = Some s \<Longrightarrow> t = t'"
  by (metis option.inject parse_format)

lemma normalize_total: "parse s = Some t \<Longrightarrow> \<exists>s'. Option.bind (parse s) format = Some s' \<and> parse s' = Some t"
  using format_parsed parse_format by fastforce

lemma normalize_idem:
  "Option.bind (parse s) format = Some s' \<Longrightarrow> Option.bind (parse s') format = Some s'"
  using parse_format by (auto simp: bind_eq_Some_conv)

lemma normalize_preserves: "Option.bind (parse s) format = Some s' \<Longrightarrow> parse s' = parse s"
  using parse_format by (auto simp: bind_eq_Some_conv)

end

interpretation iso: instant_codec date_parse to_iso
proof
  show "\<And>t s. to_iso t = Some s \<Longrightarrow> date_parse s = Some t" by (rule to_iso_parse)
  show "\<And>s t. date_parse s = Some t \<Longrightarrow> \<exists>s'. to_iso t = Some s'"
    by (drule date_parse_valid) (simp add: to_iso_def)
qed

text \<open>Comparisons of parsed instants: an invalid date makes every comparison false.\<close>

definition ms_less :: "int option \<Rightarrow> int option \<Rightarrow> bool" where
  "ms_less a b = (case (a, b) of (Some x, Some y) \<Rightarrow> x < y | _ \<Rightarrow> False)"

definition ms_leq :: "int option \<Rightarrow> int option \<Rightarrow> bool" where
  "ms_leq a b = (case (a, b) of (Some x, Some y) \<Rightarrow> x \<le> y | _ \<Rightarrow> False)"

lemma ms_compare_simps [simp]:
  "ms_less (Some x) (Some y) = (x < y)" "\<not> ms_less None b" "\<not> ms_less a None"
  "ms_leq (Some x) (Some y) = (x \<le> y)" "\<not> ms_leq None b" "\<not> ms_leq a None"
  by (auto simp: ms_less_def ms_leq_def split: option.splits)

lemma ms_less_iff: "ms_less a b \<longleftrightarrow> (\<exists>x y. a = Some x \<and> b = Some y \<and> x < y)"
  and ms_leq_iff: "ms_leq a b \<longleftrightarrow> (\<exists>x y. a = Some x \<and> b = Some y \<and> x \<le> y)"
  by (auto simp: ms_less_def ms_leq_def split: option.splits)

text \<open>The equations that evaluate concrete instants by rewriting.\<close>

lemmas date_eval =
  instant_def date_parse_def parse_year_def dec_field_def expect_def parse_time_def parse_seconds_def
  parse_fraction_def parse_zone_def read_dec_def digit_val_def is_digit_def less_eq_char_def make_day_def
  days_before_year_def month_days_def leap_year_def valid_time_def ms_per_day_def time_clip_def
  to_iso_def iso_day_def iso_date_def iso_year_def iso_time_def dec_fixed_eval year_of_day_def
  adjust_year_def digit_char_def

end
