(* ===== verification/Canonical_Json.thy ===== *)
theory Canonical_Json
  imports Js_Date "HOL-Library.Multiset"
begin

text \<open>
  Canonical JSON and digests: \<open>src/security/canonical-digest.ts\<close>. A value is a \<open>json\<close> term;
  its numbers are finite, as every number read by \<open>JSON.parse\<close> is, and an object is its list of
  own enumerable properties, with distinct keys and no \<open>undefined\<close> among the values.

  The main result is that the canonical text determines the value up to the order of object
  keys: two values have the same text exactly when sorting their keys makes them equal. Digests
  of different values therefore differ unless SHA-256 itself collides.
\<close>

section \<open>Values\<close>

datatype json = JNull | JBool bool | JNum rat | JStr string | JArr "json list" | JObj "(string \<times> json) list"

section \<open>Texts of numbers and strings\<close>

text \<open>Decimal digits of a nonnegative integer, most significant first.\<close>

function int_text :: "int \<Rightarrow> string" where
  "int_text n = (if n < 10 then [digit_char n] else int_text (n div 10) @ [digit_char (n mod 10)])"
  by pat_completeness auto
termination
  by (relation "measure nat") auto

declare int_text.simps [simp del]

text \<open>
  \<open>Number::toString\<close>: the digits and the decimal exponent of a positive number, with at most
  \<open>fuel\<close> decimals, and their layout. Every finite double has fewer than 400 decimals in its
  shortest text.
\<close>

fun strip_zeros :: "nat \<Rightarrow> int \<Rightarrow> int \<Rightarrow> int \<times> int" where
  "strip_zeros 0 m e = (m, e)"
| "strip_zeros (Suc fuel) m e = (if m mod 10 = 0 \<and> m \<noteq> 0 then strip_zeros fuel (m div 10) (e + 1) else (m, e))"

fun decimal_parts :: "nat \<Rightarrow> rat \<Rightarrow> int \<Rightarrow> int \<times> int" where
  "decimal_parts 0 r e = (\<lfloor>r\<rfloor>, e)"
| "decimal_parts (Suc fuel) r e =
     (if of_int \<lfloor>r\<rfloor> = r then strip_zeros 400 \<lfloor>r\<rfloor> e else decimal_parts fuel (10 * r) (e - 1))"

definition layout_digits :: "string \<Rightarrow> int \<Rightarrow> string" where
  "layout_digits ds n =
     (let k = int (length ds) in
      if k \<le> n \<and> n \<le> 21 then ds @ replicate (nat (n - k)) CHR ''0''
      else if 0 < n \<and> n \<le> 21 then take (nat n) ds @ CHR ''.'' # drop (nat n) ds
      else if -6 < n \<and> n \<le> 0 then ''0.'' @ replicate (nat (- n)) CHR ''0'' @ ds
      else take 1 ds @ (if k = 1 then [] else CHR ''.'' # drop 1 ds) @ CHR ''e''
        # (if 0 < n then CHR ''+'' else CHR ''-'') # int_text \<bar>n - 1\<bar>)"

definition positive_text :: "rat \<Rightarrow> string" where
  "positive_text r =
     (case decimal_parts 400 r 0 of (m, e) \<Rightarrow> layout_digits (int_text m) (int (length (int_text m)) + e))"

definition num_text :: "rat \<Rightarrow> string" where
  "num_text r = (if r = 0 then ''0'' else if r < 0 then CHR ''-'' # positive_text (- r) else positive_text r)"

text \<open>\<open>JSON.stringify\<close> of a string.\<close>

definition hex_char :: "nat \<Rightarrow> char" where
  "hex_char n = ''0123456789abcdef'' ! n"

definition escape_char :: "char \<Rightarrow> string" where
  "escape_char c =
     (if c = CHR 0x22 then [CHR 0x5C, CHR 0x22]
      else if c = CHR 0x5C then [CHR 0x5C, CHR 0x5C]
      else if c = CHR 0x08 then [CHR 0x5C, CHR ''b'']
      else if c = CHR 0x09 then [CHR 0x5C, CHR ''t'']
      else if c = CHR 0x0A then [CHR 0x5C, CHR ''n'']
      else if c = CHR 0x0C then [CHR 0x5C, CHR ''f'']
      else if c = CHR 0x0D then [CHR 0x5C, CHR ''r'']
      else if c < CHR 0x20
      then [CHR 0x5C, CHR ''u'', CHR ''0'', CHR ''0'', hex_char (of_char c div 16), hex_char (of_char c mod 16)]
      else [c])"

definition quote_text :: "string \<Rightarrow> string" where
  "quote_text s = CHR 0x22 # concat (map escape_char s) @ [CHR 0x22]"


section \<open>The canonical text\<close>

fun join_texts :: "string list \<Rightarrow> string" where
  "join_texts [] = []"
| "join_texts [s] = s"
| "join_texts (s # ss) = s @ CHR '','' # join_texts ss"

text \<open>Objects with their keys in order, at every level.\<close>

fun sort_keys :: "json \<Rightarrow> json" where
  "sort_keys (JArr vs) = JArr (map sort_keys vs)"
| "sort_keys (JObj kvs) = JObj (sort_key fst (map (\<lambda>kv. (fst kv, sort_keys (snd kv))) kvs))"
| "sort_keys v = v"

fun print_json :: "json \<Rightarrow> string" where
  "print_json JNull = ''null''"
| "print_json (JBool b) = (if b then ''true'' else ''false'')"
| "print_json (JNum r) = num_text r"
| "print_json (JStr s) = quote_text s"
| "print_json (JArr vs) = CHR ''['' # join_texts (map print_json vs) @ '']''"
| "print_json (JObj kvs) =
     CHR ''{'' # join_texts (map (\<lambda>kv. quote_text (fst kv) @ CHR '':'' # print_json (snd kv)) kvs) @ ''}''"

definition canonicalJson :: "json \<Rightarrow> string" where
  "canonicalJson v = print_json (sort_keys v)"

text \<open>
  The host supplies what is not source of the repository: the lower-case hexadecimal SHA-256 of
  a text's UTF-8 bytes (\<open>node:crypto\<close>), zod's date-time check (its argument says whether an
  offset is allowed), the host name a URL parser reads out of a text, and Ed25519 verification
  of a text under a public key (\<open>None\<close> when the key cannot be read or is of another kind).
\<close>

record host =
  sha256_hex :: "string \<Rightarrow> string"
  zod_datetime :: "bool \<Rightarrow> string \<Rightarrow> bool"
  url_hostname :: "string \<Rightarrow> string option"
  ed25519_verify :: "string \<Rightarrow> string \<Rightarrow> string \<Rightarrow> bool option"

definition sha256Digest :: "host \<Rightarrow> json \<Rightarrow> string" where
  "sha256Digest h v = ''sha256:'' @ sha256_hex h (canonicalJson v)"

text \<open>The bodies of \<open>{...(x === undefined ? {} : { key: x })}\<close>.\<close>

definition opt_field :: "string \<Rightarrow> ('a \<Rightarrow> json) \<Rightarrow> 'a option \<Rightarrow> (string \<times> json) list" where
  "opt_field k f x = (case x of None \<Rightarrow> [] | Some a \<Rightarrow> [(k, f a)])"

definition str_array :: "string list \<Rightarrow> json" where
  "str_array xs = JArr (map JStr xs)"

lemma opt_field_simps [simp]: "opt_field k f None = []" "opt_field k f (Some a) = [(k, f a)]"
  by (simp_all add: opt_field_def)



section \<open>Reading tokens back\<close>

definition closes :: "string \<Rightarrow> bool" where
  "closes r \<longleftrightarrow> r = [] \<or> hd r \<in> set '',]}''"

lemma closes_simps [simp]: "closes []" "closes (c # r) \<longleftrightarrow> c \<in> set '',]}''"
  by (simp_all add: closes_def)

lemma split_token:
  assumes "xs @ r = ys @ s" and "list_all P xs" and "list_all P ys"
    and "r = [] \<or> \<not> P (hd r)" and "s = [] \<or> \<not> P (hd s)"
  shows "xs = ys \<and> r = s"
  using assms
proof (induction xs arbitrary: ys)
  case Nil
  then show ?case by (cases ys) auto
next
  case (Cons x xs)
  then show ?case by (cases ys) auto
qed

lemma escape_char_cases:
  "escape_char c = [c] \<and> c \<noteq> CHR 0x22 \<and> c \<noteq> CHR 0x5C \<or>
   (\<exists>d. escape_char c = [CHR 0x5C, d] \<and> d \<noteq> CHR ''u'') \<or>
   escape_char c = [CHR 0x5C, CHR ''u'', CHR ''0'', CHR ''0'', hex_char (of_char c div 16), hex_char (of_char c mod 16)]"
  by (simp add: escape_char_def)

lemma hex_char_inject: "m < 16 \<Longrightarrow> n < 16 \<Longrightarrow> hex_char m = hex_char n \<Longrightarrow> m = n"
proof -
  have "distinct ''0123456789abcdef''" by simp
  then show "m < 16 \<Longrightarrow> n < 16 \<Longrightarrow> hex_char m = hex_char n \<Longrightarrow> m = n"
    unfolding hex_char_def by (subst (asm) nth_eq_iff_index_eq) simp_all
qed

lemma hex_pair_inject:
  assumes "hex_char (of_char c div 16) = hex_char (of_char d div 16)"
    and "hex_char (of_char c mod 16) = hex_char (of_char d mod 16)"
  shows "c = d"
proof -
  have "of_char x div 16 < (16::nat)" for x
    using nat_of_char_less_256 [of x] by linarith
  then have "(of_char c :: nat) div 16 = of_char d div 16" "(of_char c :: nat) mod 16 = of_char d mod 16"
    using assms by (auto intro!: hex_char_inject)
  then have "(of_char c :: nat) = of_char d" by (metis mult_div_mod_eq)
  then show ?thesis by simp
qed

lemma escape_short_inject:
  "escape_char c = [CHR 0x5C, x] \<Longrightarrow> escape_char d = [CHR 0x5C, x] \<Longrightarrow> c = d"
  by (auto simp: escape_char_def split: if_splits)

lemma escape_char_unique:
  assumes "escape_char c @ r = escape_char d @ s"
  shows "c = d \<and> r = s"
  using escape_char_cases [of c] escape_char_cases [of d]
proof (elim disjE exE conjE)
  fix x y
  assume "escape_char c = [CHR 0x5C, x]" "escape_char d = [CHR 0x5C, y]"
  with assms show ?thesis by (auto dest: escape_short_inject)
qed (use assms in \<open>auto dest: hex_pair_inject\<close>)

lemma escape_char_not_quote: "escape_char c @ r \<noteq> CHR 0x22 # s"
  using escape_char_cases [of c] by auto

lemma quote_text_unique:
  assumes "quote_text a @ r = quote_text b @ s"
  shows "a = b \<and> r = s"
proof -
  have "concat (map escape_char a) @ CHR 0x22 # r = concat (map escape_char b) @ CHR 0x22 # s"
    using assms by (simp add: quote_text_def)
  then show ?thesis
  proof (induction a arbitrary: b)
    case Nil
    then show ?case by (cases b) (auto simp: escape_char_not_quote dest: sym)
  next
    case (Cons c a)
    then show ?case
      by (cases b) (auto simp: escape_char_not_quote dest!: escape_char_unique)
  qed
qed


section \<open>Texts of integers\<close>

lemma read_dec_append: "read_dec (xs @ ys) = read_dec xs * 10 ^ length ys + read_dec ys"
proof (induction ys rule: rev_induct)
  case (snoc y ys)
  have "read_dec (xs @ ys @ [y]) = 10 * read_dec (xs @ ys) + digit_val y"
    by (simp add: read_dec_def)
  moreover have "read_dec (ys @ [y]) = 10 * read_dec ys + digit_val y"
    by (simp add: read_dec_def)
  ultimately show ?case using snoc by (simp add: algebra_simps)
qed (simp add: read_dec_def)

lemma read_dec_int_text: "0 \<le> n \<Longrightarrow> read_dec (int_text n) = n"
proof (induction n rule: int_text.induct)
  case (1 n)
  show ?case
  proof (cases "n < 10")
    case True
    with 1 show ?thesis by (simp add: int_text.simps [of n] read_dec_def)
  next
    case False
    with 1 show ?thesis
      by (simp add: int_text.simps [of n] read_dec_append) (simp add: read_dec_def)
  qed
qed

lemma int_text_digits: "0 \<le> n \<Longrightarrow> list_all is_digit (int_text n)"
  by (induction n rule: int_text.induct) (subst int_text.simps, auto)

lemma int_text_length: "0 < n \<Longrightarrow> int_text n \<noteq> [] \<and> 10 ^ (length (int_text n) - 1) \<le> n"
proof (induction n rule: int_text.induct)
  case (1 n)
  show ?case
  proof (cases "n < 10")
    case True
    with 1 show ?thesis by (simp add: int_text.simps [of n])
  next
    case False
    with 1 have IH: "int_text (n div 10) \<noteq> []" "10 ^ (length (int_text (n div 10)) - 1) \<le> n div 10"
      by auto
    then have "10 * 10 ^ (length (int_text (n div 10)) - 1) \<le> n" by linarith
    moreover have "10 * 10 ^ (length (int_text (n div 10)) - 1) = (10::int) ^ length (int_text (n div 10))"
      using IH by (cases "int_text (n div 10)") auto
    ultimately show ?thesis using False by (simp add: int_text.simps [of n])
  qed
qed

lemma strip_zeros_correct:
  assumes "0 < m" and "0 \<le> e" and "strip_zeros fuel m e = (m', e')"
  shows "0 < m' \<and> e \<le> e' \<and> m' * 10 ^ nat (e' - e) = m"
  using assms
proof (induction fuel arbitrary: m e)
  case (Suc fuel)
  show ?case
  proof (cases "m mod 10 = 0")
    case True
    then have m: "m = 10 * (m div 10)" "0 < m div 10" using Suc.prems by auto
    have "0 < m' \<and> e + 1 \<le> e' \<and> m' * 10 ^ nat (e' - (e + 1)) = m div 10"
      using Suc.IH [of "m div 10" "e + 1"] Suc.prems True m by simp
    moreover from this have "nat (e' - e) = Suc (nat (e' - (e + 1)))" by linarith
    ultimately show ?thesis using m by simp
  qed (use Suc in simp)
qed simp

lemma read_dec_zeros: "read_dec (replicate k CHR ''0'') = 0"
  by (induction k) (simp_all add: read_dec_def digit_val_def)

lemma positive_text_int:
  assumes "0 < i" and "i < 10 ^ 21"
  shows "list_all is_digit (positive_text (of_int i)) \<and> read_dec (positive_text (of_int i)) = i"
proof -
  have parts: "decimal_parts 400 (of_int i) 0 = strip_zeros 400 i 0"
    by (simp add: eval_nat_numeral)
  obtain m e where me: "strip_zeros 400 i 0 = (m, e)" by (cases "strip_zeros 400 i 0")
  have m: "0 < m" "0 \<le> e" "m * 10 ^ nat e = i"
    using strip_zeros_correct [OF assms(1) _ me] by auto
  define k where "k = length (int_text m)"
  have k: "0 < k" "10 ^ (k - 1) \<le> m" using int_text_length [OF m(1)] by (simp_all add: k_def)
  have "(10::int) ^ (k - 1 + nat e) \<le> i"
    using m k by (metis mult_right_mono power_add zero_le_numeral zero_le_power)
  with assms(2) have "(10::int) ^ (k - 1 + nat e) < 10 ^ 21" by linarith
  then have "k - 1 + nat e < 21" by (rule power_less_imp_less_exp [rotated]) simp
  with k m have n: "int k + e \<le> 21" by linarith
  have "positive_text (of_int i) = int_text m @ replicate (nat e) CHR ''0''"
    using n m by (simp add: positive_text_def parts me layout_digits_def Let_def k_def)
  moreover have "list_all is_digit (replicate j CHR ''0'')" for j
    by (induction j) (simp_all add: is_digit_def less_eq_char_def)
  ultimately show ?thesis
    using m int_text_digits [of m]
    by (simp add: read_dec_append read_dec_zeros read_dec_int_text)
qed


section \<open>The text determines the value\<close>

text \<open>Every number of the value is an integer below \<open>10 ^ 21\<close>, where the text has no exponent.\<close>

fun plain_numbers :: "json \<Rightarrow> bool" where
  "plain_numbers (JNum r) = (of_int \<lfloor>r\<rfloor> = r \<and> \<bar>r\<bar> < 10 ^ 21)"
| "plain_numbers (JArr vs) = list_all plain_numbers vs"
| "plain_numbers (JObj kvs) = list_all (\<lambda>kv. plain_numbers (snd kv)) kvs"
| "plain_numbers _ = True"

definition num_char :: "char \<Rightarrow> bool" where
  "num_char c \<longleftrightarrow> is_digit c \<or> c = CHR ''-''"

lemma is_digit_num_char: "list_all is_digit ds \<Longrightarrow> list_all num_char ds"
  by (auto simp: num_char_def list_all_iff)

lemma num_text_int:
  assumes "\<bar>i\<bar> < 10 ^ 21"
  shows "list_all num_char (num_text (of_int i)) \<and> num_text (of_int i) \<noteq> []"
proof -
  consider "i = 0" | "0 < i" | "0 < - i" by linarith
  then show ?thesis
  proof cases
    case 2
    with assms have "list_all is_digit (positive_text (of_int i))" "read_dec (positive_text (of_int i)) = i"
      using positive_text_int [of i] by auto
    with 2 show ?thesis by (auto simp: num_text_def is_digit_num_char read_dec_def)
  next
    case 3
    with assms have "list_all is_digit (positive_text (of_int (- i)))" using positive_text_int [of "- i"] by auto
    with 3 show ?thesis by (auto simp: num_text_def is_digit_num_char num_char_def)
  qed (simp add: num_text_def num_char_def is_digit_def less_eq_char_def)
qed

fun read_int :: "string \<Rightarrow> int" where
  "read_int [] = 0"
| "read_int (c # cs) = (if c = CHR ''-'' then - read_dec cs else read_dec (c # cs))"

lemma read_int_num_text:
  assumes "\<bar>i\<bar> < 10 ^ 21"
  shows "read_int (num_text (of_int i)) = i"
proof -
  consider "i = 0" | "0 < i" | "0 < - i" by linarith
  then show ?thesis
  proof cases
    case 2
    with assms have p: "list_all is_digit (positive_text (of_int i))" "read_dec (positive_text (of_int i)) = i"
      using positive_text_int [of i] by auto
    moreover have "\<not> is_digit CHR ''-''" by (simp add: is_digit_def less_eq_char_def)
    ultimately have "read_int (positive_text (of_int i)) = i"
      using 2 by (cases "positive_text (of_int i)") (auto simp: read_dec_def)
    with 2 show ?thesis by (simp add: num_text_def)
  next
    case 3
    with assms have "read_dec (positive_text (of_int (- i))) = - i" using positive_text_int [of "- i"] by auto
    with 3 show ?thesis by (simp add: num_text_def)
  qed (simp add: num_text_def read_dec_def digit_val_def)
qed

lemma num_text_unique:
  assumes "plain_numbers (JNum a)" "plain_numbers (JNum b)"
    and "num_text a @ r = num_text b @ s" "closes r" "closes s"
  shows "a = b \<and> r = s"
proof -
  obtain i j where ij: "a = of_int i" "b = of_int j" using assms(1,2) by (metis plain_numbers.simps(1))
  have bounds: "\<bar>i\<bar> < 10 ^ 21" "\<bar>j\<bar> < 10 ^ 21"
    using assms(1,2) unfolding ij by (simp_all flip: of_int_abs)
  have "\<not> num_char (hd q)" if "closes q" "q \<noteq> []" for q
    using that by (auto simp: closes_def num_char_def is_digit_def less_eq_char_def)
  then have "num_text a = num_text b \<and> r = s"
    using assms(3-5) num_text_int [OF bounds(1)] num_text_int [OF bounds(2)]
    unfolding ij by (intro split_token [where P = num_char]) auto
  with bounds ij show ?thesis using read_int_num_text by metis
qed

text \<open>The first character of a text tells the kind of the value.\<close>

fun kind_of :: "json \<Rightarrow> nat" where
  "kind_of JNull = 0" | "kind_of (JBool b) = (if b then 1 else 2)" | "kind_of (JNum _) = 3"
| "kind_of (JStr _) = 4" | "kind_of (JArr _) = 5" | "kind_of (JObj _) = 6"

definition kind_char :: "char \<Rightarrow> nat" where
  "kind_char c =
     (if c = CHR ''n'' then 0 else if c = CHR ''t'' then 1 else if c = CHR ''f'' then 2
      else if num_char c then 3 else if c = CHR 0x22 then 4 else if c = CHR ''['' then 5
      else if c = CHR ''{'' then 6 else 7)"

lemma print_head:
  assumes "plain_numbers v"
  shows "print_json v \<noteq> [] \<and> kind_char (hd (print_json v)) = kind_of v"
proof (cases v)
  case (JNum a)
  define i where "i = \<lfloor>a\<rfloor>"
  have "of_int i = a" "\<bar>a\<bar> < 10 ^ 21" using assms unfolding JNum plain_numbers.simps i_def by blast+
  then have a: "a = of_int i" "\<bar>a\<bar> < 10 ^ 21" by (simp_all only:)
  have "(of_int \<bar>i\<bar> :: rat) < of_int (10 ^ 21)" using a(2) unfolding a(1) by simp
  then have i: "a = of_int i" "\<bar>i\<bar> < 10 ^ 21" using a(1) by (simp_all only: of_int_less_iff)
  from num_text_int [OF i(2)] obtain c cs where "num_text a = c # cs" "num_char c"
    unfolding i(1) by (cases "num_text (rat_of_int i)") auto
  then show ?thesis using JNum
    by (auto simp: kind_char_def num_char_def is_digit_def less_eq_char_def)
qed (simp_all add: kind_char_def num_char_def is_digit_def less_eq_char_def quote_text_def)

lemma kind_char_not_closing: "kind_char c < 7 \<Longrightarrow> c \<notin> set '',]}''"
  by (auto simp: kind_char_def num_char_def is_digit_def less_eq_char_def)

lemma kind_of_less: "kind_of v < 7"
  by (cases v) auto

lemma print_same_kind:
  assumes "plain_numbers v" "plain_numbers w" "print_json v @ r = print_json w @ s"
  shows "kind_of v = kind_of w"
  using print_head [OF assms(1)] print_head [OF assms(2)] assms(3)
  by (metis hd_append2)

lemma join_unique:
  assumes elem: "\<And>x y r s. x \<in> set xs \<Longrightarrow> Q y \<Longrightarrow> f x @ r = f y @ s \<Longrightarrow> closes r \<Longrightarrow> closes s \<Longrightarrow> x = y \<and> r = s"
    and head: "\<And>x. x \<in> set xs \<union> set ys \<Longrightarrow> f x \<noteq> [] \<and> hd (f x) \<notin> set '',]}''"
    and ys: "list_all Q ys" and c: "c \<in> set '']}''"
    and eq: "join_texts (map f xs) @ c # r = join_texts (map f ys) @ c # s"
  shows "xs = ys \<and> r = s"
  using elem head ys eq
proof (induction xs arbitrary: ys)
  case Nil
  have "ys = []"
  proof (rule ccontr)
    assume "ys \<noteq> []"
    then obtain y ys' where y: "ys = y # ys'" by (cases ys) auto
    then have "hd (join_texts (map f ys) @ c # s) = hd (f y)"
      using Nil.prems(2) [of y] by (cases ys') auto
    moreover have "hd (f y) \<noteq> c" using Nil.prems(2) [of y] c y by auto
    ultimately show False using Nil.prems(4) y by (metis join_texts.simps(1) list.sel(1) list.simps(8) append_Nil)
  qed
  with Nil show ?case by simp
next
  case (Cons x xs)
  have xh: "f x \<noteq> []" "hd (f x) \<notin> set '',]}''" using Cons.prems(2) [of x] by auto
  obtain y ys' where ys: "ys = y # ys'"
  proof (cases ys)
    case Nil
    then have "hd (f x) = c" using Cons.prems(4) xh by (cases xs; cases "f x") auto
    with xh c show ?thesis by auto
  qed auto
  define r' where "r' = (if xs = [] then c # r else CHR '','' # join_texts (map f xs) @ c # r)"
  define s' where "s' = (if ys' = [] then c # s else CHR '','' # join_texts (map f ys') @ c # s)"
  have "f x @ r' = f y @ s'"
    using Cons.prems(4) ys by (cases xs; cases ys') (simp_all add: r'_def s'_def)
  moreover have "closes r'" "closes s'" using c by (auto simp: r'_def s'_def)
  ultimately have xy: "x = y" "r' = s'" using Cons.prems(1) [of x y] Cons.prems(3) ys by auto
  have "c \<noteq> CHR '',''" using c by auto
  with xy(2) have "xs = [] \<longleftrightarrow> ys' = []" by (auto simp: r'_def s'_def split: if_splits)
  moreover have "xs = ys' \<and> r = s" if "xs \<noteq> []" "ys' \<noteq> []"
    using Cons.IH [of ys'] Cons.prems ys xy(2) that by (auto simp: r'_def s'_def)
  ultimately show ?case using xy ys \<open>c \<noteq> CHR '',''\<close> by (auto simp: r'_def s'_def)
qed

lemma print_json_unique:
  assumes "plain_numbers v" "plain_numbers w" "print_json v @ r = print_json w @ s" "closes r" "closes s"
  shows "v = w \<and> r = s"
  using assms
proof (induction v arbitrary: w r s)
  case (JNum a)
  then obtain b where "w = JNum b"
    using print_same_kind [OF JNum.prems(1-3)] by (cases w) (auto split: if_splits)
  with JNum.prems num_text_unique [of a b r s] show ?case by simp
next
  case (JStr a)
  with print_same_kind [OF JStr.prems(1-3)] show ?case
    by (cases w) (auto dest: quote_text_unique split: if_splits)
next
  case (JArr vs)
  then obtain ws where w: "w = JArr ws"
    using print_same_kind [OF JArr.prems(1-3)] by (cases w) (auto split: if_splits)
  have "vs = ws \<and> r = s"
  proof (rule join_unique [where f = print_json and Q = plain_numbers and c = "CHR '']''"])
    show "\<And>x. x \<in> set vs \<union> set ws \<Longrightarrow> print_json x \<noteq> [] \<and> hd (print_json x) \<notin> set '',]}''"
      using JArr.prems(1,2) w print_head kind_char_not_closing kind_of_less
      by (fastforce simp: list_all_iff)
  qed (use JArr w in \<open>auto simp: list_all_iff\<close>)
  with w show ?case by simp
next
  case (JObj kvs)
  then obtain ws where w: "w = JObj ws"
    using print_same_kind [OF JObj.prems(1-3)] by (cases w) (auto split: if_splits)
  have "kvs = ws \<and> r = s"
  proof (rule join_unique [where f = "\<lambda>kv. quote_text (fst kv) @ CHR '':'' # print_json (snd kv)"
        and Q = "\<lambda>kv. plain_numbers (snd kv)" and c = "CHR ''}''"])
    fix kv kv' r s
    assume kv: "kv \<in> set kvs" "plain_numbers (snd kv')" "closes r" "closes s"
      and eq: "(quote_text (fst kv) @ CHR '':'' # print_json (snd kv)) @ r
        = (quote_text (fst kv') @ CHR '':'' # print_json (snd kv')) @ s"
    from eq have "fst kv = fst kv'" "print_json (snd kv) @ r = print_json (snd kv') @ s"
      by (auto dest: quote_text_unique)
    moreover have "plain_numbers (snd kv)" using JObj.prems(1) kv(1) by (simp add: list_all_iff)
    moreover have "snd kv \<in> Basic_BNFs.snds kv" by (cases kv) simp
    ultimately have "snd kv = snd kv' \<and> r = s"
      using kv by (intro JObj.IH [OF kv(1)]) simp_all
    with \<open>fst kv = fst kv'\<close> show "kv = kv' \<and> r = s" by (simp add: prod_eq_iff)
  next
    show "list_all (\<lambda>kv. plain_numbers (snd kv)) ws" using JObj.prems(2) w by simp
    show "join_texts (map (\<lambda>kv. quote_text (fst kv) @ CHR '':'' # print_json (snd kv)) kvs) @ CHR ''}'' # r
        = join_texts (map (\<lambda>kv. quote_text (fst kv) @ CHR '':'' # print_json (snd kv)) ws) @ CHR ''}'' # s"
      using JObj.prems(3) w by simp
  qed (simp_all add: quote_text_def)
  with w show ?case by simp
next
  case JNull
  with print_same_kind [OF JNull.prems(1-3)] show ?case by (cases w) (auto split: if_splits)
next
  case (JBool b)
  with print_same_kind [OF JBool.prems(1-3)] show ?case by (cases w) (auto split: if_splits)
qed


lemma plain_numbers_sort_keys: "plain_numbers (sort_keys v) = plain_numbers v"
proof (induction v)
  case (JArr vs)
  then show ?case by (auto simp: list_all_iff)
next
  case (JObj kvs)
  then show ?case by (fastforce simp: list_all_iff)
qed auto

text \<open>
  C32. Canonical JSON is injective up to key order: two values whose numbers are plain integers
  have the same canonical text exactly when they are equal after sorting the keys of every
  object.
\<close>

theorem canonicalJson_inject:
  assumes "plain_numbers v" and "plain_numbers w"
  shows "canonicalJson v = canonicalJson w \<longleftrightarrow> sort_keys v = sort_keys w"
  using print_json_unique [of "sort_keys v" "sort_keys w" "[]" "[]"] assms
  by (auto simp: canonicalJson_def plain_numbers_sort_keys)

theorem canonicalJson_inject_witness:
  "canonicalJson (JObj [(''b'', JNum 2), (''a'', JArr [JStr ''x'', JNull])]) =
   canonicalJson (JObj [(''a'', JArr [JStr ''x'', JNull]), (''b'', JNum 2)]) \<and>
   canonicalJson (JArr [JNum 12]) \<noteq> canonicalJson (JArr [JNum 1, JNum 2])"
  using canonicalJson_inject [of "JObj [(''b'', JNum 2), (''a'', JArr [JStr ''x'', JNull])]"
      "JObj [(''a'', JArr [JStr ''x'', JNull]), (''b'', JNum 2)]"]
    canonicalJson_inject [of "JArr [JNum 12]" "JArr [JNum 1, JNum 2]"]
  by simp

text \<open>
  The digest of an object does not depend on the order in which its properties were
  created.
\<close>

lemma sha256Digest_key_order:
  assumes "mset kvs = mset kvs'" and "distinct (map fst kvs)"
  shows "sha256Digest h (JObj kvs) = sha256Digest h (JObj kvs')"
proof -
  let ?g = "\<lambda>kv. (fst kv, sort_keys (snd kv))"
  have "distinct (map fst (map ?g kvs))" using assms(2) by (simp add: comp_def)
  then have inj: "inj_on fst (set (map ?g kvs))" by (simp only: distinct_map)
  have "sort_key fst (map ?g kvs) = sort_key fst (map ?g kvs')"
    using assms(1) by (intro sort_key_inj_key_eq inj) simp_all
  then show ?thesis by (simp add: sha256Digest_def canonicalJson_def)
qed

text \<open>Equal digests of different values exhibit a collision of the hash function.\<close>

lemma sha256Digest_binding:
  assumes "plain_numbers v" and "plain_numbers w" and "sha256Digest h v = sha256Digest h w"
  shows "sort_keys v = sort_keys w \<or>
    (canonicalJson v \<noteq> canonicalJson w \<and> sha256_hex h (canonicalJson v) = sha256_hex h (canonicalJson w))"
  using assms print_json_unique [of "sort_keys v" "sort_keys w" "[]" "[]"]
  by (auto simp: sha256Digest_def canonicalJson_def plain_numbers_sort_keys)


section \<open>Fields of objects with the same digest\<close>

definition json_field :: "json \<Rightarrow> string \<Rightarrow> json option" where
  "json_field v k = (case v of JObj kvs \<Rightarrow> map_option sort_keys (map_of kvs k) | _ \<Rightarrow> None)"

lemma sort_keys_field:
  assumes "sort_keys (JObj a) = sort_keys (JObj b)" and "distinct (map fst a)" and "distinct (map fst b)"
  shows "json_field (JObj a) k = json_field (JObj b) k"
proof -
  let ?g = "\<lambda>kv. (fst kv, sort_keys (snd kv))"
  have "sort_key fst (map ?g a) = sort_key fst (map ?g b)" using assms(1) by simp
  then have "set (sort_key fst (map ?g a)) = set (sort_key fst (map ?g b))" by (rule arg_cong)
  then have set_eq: "set (map ?g a) = set (map ?g b)" by (simp only: set_sort)
  have da: "distinct (map fst (map ?g a))" "distinct (map fst (map ?g b))"
    using assms(2,3) by (simp_all add: comp_def)
  have "map_of (map ?g a) = map_of (map ?g b)"
    by (rule map_of_inject_set [OF da, THEN iffD2]) (rule set_eq)
  moreover have "map_of (map ?g xs) k = map_option sort_keys (map_of xs k)" for xs :: "(string \<times> json) list"
    by (induction xs) auto
  ultimately show ?thesis unfolding json_field_def json.case by metis
qed

text \<open>
  Objects with the same digest agree on every field, up to key order inside the field, unless
  the hash collides on their texts.
\<close>

definition hash_collision :: "host \<Rightarrow> json \<Rightarrow> json \<Rightarrow> bool" where
  "hash_collision h v w \<longleftrightarrow>
     canonicalJson v \<noteq> canonicalJson w \<and> sha256_hex h (canonicalJson v) = sha256_hex h (canonicalJson w)"

lemma digest_fields_agree:
  assumes "sha256Digest h (JObj a) = sha256Digest h (JObj b)" and "\<not> hash_collision h (JObj a) (JObj b)"
    and "plain_numbers (JObj a)" and "plain_numbers (JObj b)"
    and "distinct (map fst a)" and "distinct (map fst b)"
  shows "json_field (JObj a) k = json_field (JObj b) k"
proof (rule sort_keys_field [OF _ assms(5,6)])
  show "sort_keys (JObj a) = sort_keys (JObj b)"
    using sha256Digest_binding [OF assms(3,4,1)] assms(2) unfolding hash_collision_def by blast
qed

lemma str_array_inject [simp]: "str_array xs = str_array ys \<longleftrightarrow> xs = ys"
  by (auto simp: str_array_def inj_map_eq_map inj_def)

lemma sort_keys_str_array [simp]: "sort_keys (str_array xs) = str_array xs"
  by (simp add: str_array_def)

lemma plain_numbers_str_array [simp]: "plain_numbers (str_array xs)"
  by (simp add: str_array_def list_all_iff)

text \<open>A host for the concrete runs: a constant hash, and the date formats the model parses.\<close>

definition sample_host :: host where
  "sample_host =
     \<lparr>sha256_hex = (\<lambda>t. replicate 64 CHR ''0''), zod_datetime = (\<lambda>offset t. date_parse t \<noteq> None),
      url_hostname = (\<lambda>t. None), ed25519_verify = (\<lambda>key signature message. Some True)\<rparr>"

end
