(* ===== verification/State_Machines.thy ===== *)
theory State_Machines
  imports Domain_Model
begin

text \<open>
  The transition tables of \<open>src/domain/v1/state-machines.ts\<close>, with \<open>canTransition\<close> and
  \<open>assertTransition\<close>, and the properties of the thirteen lifecycles: a state without successors
  is never left, from every state some run ends in such a state, and the order in which a run
  must pass through the states that carry authority.
\<close>

section \<open>Tables and transitions\<close>

type_synonym 's transition_table = "'s \<Rightarrow> 's list"

fun requestTransitions :: "request_state transition_table" where
  "requestTransitions ReqDraft = [ReqSubmitted, ReqCancelled]"
| "requestTransitions ReqSubmitted = [ReqAccepted, ReqRejected, ReqCancelled]"
| "requestTransitions ReqAccepted = [ReqFulfilled, ReqCancelled]"
| "requestTransitions ReqFulfilled = []"
| "requestTransitions ReqRejected = []"
| "requestTransitions ReqCancelled = []"

fun workflowTransitions :: "workflow_state transition_table" where
  "workflowTransitions WfProposed = [WfActive, WfCancelled]"
| "workflowTransitions WfActive = [WfPaused, WfSucceeded, WfFailed, WfCancelled]"
| "workflowTransitions WfPaused = [WfActive, WfFailed, WfCancelled]"
| "workflowTransitions WfSucceeded = []"
| "workflowTransitions WfFailed = []"
| "workflowTransitions WfCancelled = []"

fun jobTransitions :: "job_state transition_table" where
  "jobTransitions JobProposed = [JobReady, JobRejected, JobCancelled]"
| "jobTransitions JobReady = [JobLeased, JobCancelled]"
| "jobTransitions JobLeased = [JobRunning, JobReady, JobCancelled, JobOrphaned]"
| "jobTransitions JobRunning = [JobWaitingApproval, JobSucceeded, JobFailed, JobCancelled, JobOrphaned]"
| "jobTransitions JobWaitingApproval = [JobRunning, JobCancelled, JobFailed, JobOrphaned]"
| "jobTransitions JobFailed = [JobReady]"
| "jobTransitions JobOrphaned = [JobReady, JobFailed, JobCancelled]"
| "jobTransitions JobSucceeded = []"
| "jobTransitions JobCancelled = []"
| "jobTransitions JobRejected = []"

fun attemptTransitions :: "attempt_state transition_table" where
  "attemptTransitions AttOffered = [AttLeased, AttCancelled]"
| "attemptTransitions AttLeased = [AttRunning, AttCancelled, AttOrphaned]"
| "attemptTransitions AttRunning = [AttWaiting, AttSucceeded, AttFailed, AttCancelled, AttOrphaned]"
| "attemptTransitions AttWaiting = [AttRunning, AttSucceeded, AttFailed, AttCancelled, AttOrphaned]"
| "attemptTransitions AttSucceeded = []"
| "attemptTransitions AttFailed = []"
| "attemptTransitions AttCancelled = []"
| "attemptTransitions AttOrphaned = []"

fun leaseTransitions :: "lease_state transition_table" where
  "leaseTransitions LeaseActive = [LeaseExpired, LeaseReleased, LeaseRevoked]"
| "leaseTransitions LeaseExpired = []"
| "leaseTransitions LeaseReleased = []"
| "leaseTransitions LeaseRevoked = []"

fun checkpointTransitions :: "checkpoint_state transition_table" where
  "checkpointTransitions CkDeclared = [CkStored, CkRejected]"
| "checkpointTransitions CkStored = [CkVerified, CkRejected]"
| "checkpointTransitions CkVerified = []"
| "checkpointTransitions CkRejected = []"

fun effectIntentTransitions :: "effect_intent_state transition_table" where
  "effectIntentTransitions EffProposed = [EffAuthorized, EffCancelled]"
| "effectIntentTransitions EffAuthorized = [EffExecuting, EffCancelled]"
| "effectIntentTransitions EffExecuting = [EffConfirmed, EffFailed, EffAmbiguous]"
| "effectIntentTransitions EffAmbiguous = [EffConfirmed, EffFailed, EffCancelled]"
| "effectIntentTransitions EffConfirmed = []"
| "effectIntentTransitions EffFailed = []"
| "effectIntentTransitions EffCancelled = []"

fun approvalTransitions :: "approval_state transition_table" where
  "approvalTransitions ApPending = [ApApproved, ApDenied, ApExpired]"
| "approvalTransitions ApApproved = [ApRevoked]"
| "approvalTransitions ApDenied = []"
| "approvalTransitions ApExpired = []"
| "approvalTransitions ApRevoked = []"

fun serviceTransitions :: "service_state transition_table" where
  "serviceTransitions SvcActive = [SvcDegraded, SvcPaused, SvcFailed, SvcRetired]"
| "serviceTransitions SvcDegraded = [SvcActive, SvcPaused, SvcFailed, SvcRetired]"
| "serviceTransitions SvcPaused = [SvcActive, SvcRetired]"
| "serviceTransitions SvcFailed = [SvcActive, SvcRetired]"
| "serviceTransitions SvcRetired = []"

fun scheduleTransitions :: "schedule_state transition_table" where
  "scheduleTransitions SchActive = [SchPaused, SchDisabled]"
| "scheduleTransitions SchPaused = [SchActive, SchDisabled]"
| "scheduleTransitions SchDisabled = []"

fun incidentTransitions :: "incident_state transition_table" where
  "incidentTransitions IncOpen = [IncAcknowledged, IncMitigating, IncResolved]"
| "incidentTransitions IncAcknowledged = [IncMitigating, IncResolved]"
| "incidentTransitions IncMitigating = [IncResolved]"
| "incidentTransitions IncResolved = [IncOpen, IncClosed]"
| "incidentTransitions IncClosed = []"

fun artifactTransitions :: "artifact_state transition_table" where
  "artifactTransitions ArtDeclared = [ArtUploaded, ArtQuarantined, ArtRejected]"
| "artifactTransitions ArtUploaded = [ArtVerified, ArtQuarantined, ArtRejected]"
| "artifactTransitions ArtVerified = [ArtQuarantined, ArtDeleted]"
| "artifactTransitions ArtQuarantined = [ArtVerified, ArtRejected, ArtDeleted]"
| "artifactTransitions ArtRejected = [ArtDeleted]"
| "artifactTransitions ArtDeleted = []"

fun nodeTransitions :: "node_state transition_table" where
  "nodeTransitions NodePendingEnrollment = [NodeActive, NodeRevoked]"
| "nodeTransitions NodeActive = [NodeDraining, NodeOffline, NodeQuarantined, NodeRevoked]"
| "nodeTransitions NodeDraining = [NodeActive, NodeOffline, NodeQuarantined, NodeRevoked]"
| "nodeTransitions NodeOffline = [NodeActive, NodeQuarantined, NodeRevoked]"
| "nodeTransitions NodeQuarantined = [NodeActive, NodeRevoked]"
| "nodeTransitions NodeRevoked = []"

definition canTransition :: "'s transition_table \<Rightarrow> 's \<Rightarrow> 's \<Rightarrow> bool" where
  "canTransition table from to \<longleftrightarrow> List.member (table from) to"

text \<open>The error carries the name of the machine and the refused pair of states.\<close>

datatype 's transition_error = IllegalTransition string 's 's

definition assertTransition :: "string \<Rightarrow> 's transition_table \<Rightarrow> 's \<Rightarrow> 's \<Rightarrow> ('s transition_error, unit) result" where
  "assertTransition name table from to =
     (if \<not> canTransition table from to then Inl (IllegalTransition name from to) else Inr ())"

text \<open>A history of a record: each state is entered from the one before by an accepted transition.\<close>

fun run_from :: "'s transition_table \<Rightarrow> 's \<Rightarrow> 's list \<Rightarrow> bool" where
  "run_from table s [] = True"
| "run_from table s (t # ts) = (canTransition table s t \<and> run_from table t ts)"

lemma canTransition_iff [simp]: "canTransition table s t \<longleftrightarrow> t \<in> set (table s)"
  by (simp add: canTransition_def)

lemma assertTransition_Inr [simp]: "assertTransition n table s t = Inr u \<longleftrightarrow> t \<in> set (table s)"
  by (simp add: assertTransition_def)

lemma run_from_append:
  "run_from table s (ts @ us) \<longleftrightarrow> run_from table s ts \<and> run_from table (last (s # ts)) us"
  by (induction ts arbitrary: s) auto


section \<open>The contract of a lifecycle\<close>

locale lifecycle =
  fixes table :: "'s \<Rightarrow> 's list" and rank :: "'s \<Rightarrow> nat"
  assumes progress: "table s \<noteq> [] \<Longrightarrow> \<exists>t \<in> set (table s). rank t < rank s"
    and irreflexive: "s \<notin> set (table s)"
begin

lemma absorbing: "table s = [] \<Longrightarrow> run_from table s ts \<Longrightarrow> ts = []"
  by (cases ts) auto

lemma can_finish: "\<exists>ts. run_from table s ts \<and> table (last (s # ts)) = []"
proof (induction "rank s" arbitrary: s rule: less_induct)
  case less
  show ?case
  proof (cases "table s = []")
    case True
    then show ?thesis by (intro exI [of _ "[]"]) simp
  next
    case False
    then obtain t where t: "t \<in> set (table s)" "rank t < rank s" using progress by blast
    with less obtain ts where "run_from table t ts" "table (last (t # ts)) = []" by blast
    with t show ?thesis by (intro exI [of _ "t # ts"]) simp
  qed
qed

lemma can_finish_shortly: "\<exists>ts. run_from table s ts \<and> table (last (s # ts)) = [] \<and> length ts \<le> rank s"
proof (induction "rank s" arbitrary: s rule: less_induct)
  case less
  show ?case
  proof (cases "table s = []")
    case True
    then show ?thesis by (intro exI [of _ "[]"]) simp
  next
    case False
    then obtain t where t: "t \<in> set (table s)" "rank t < rank s" using progress by blast
    with less obtain ts where "run_from table t ts" "table (last (t # ts)) = []" "length ts \<le> rank t" by blast
    with t show ?thesis by (intro exI [of _ "t # ts"]) simp
  qed
qed

text \<open>
  A cut: when the only way out of the states \<open>C\<close> leads through \<open>g\<close>, every run that starts in
  \<open>C\<close> and gets anywhere else has passed \<open>g\<close> before.
\<close>

lemma cut:
  assumes cut: "\<And>u. u \<in> C \<Longrightarrow> set (table u) \<subseteq> insert g C"
    and "run_from table s ts" and "s \<in> C" and "k < length ts" and "ts ! k \<notin> insert g C"
  shows "\<exists>i < k. ts ! i = g"
  using assms(2-5)
proof (induction ts arbitrary: s k)
  case (Cons t ts)
  have t: "t \<in> insert g C" using Cons.prems(1,2) cut by auto
  with Cons.prems(4) obtain k' where k: "k = Suc k'" by (cases k) auto
  show ?case
  proof (cases "t = g")
    case True
    then show ?thesis using k by (intro exI [of _ 0]) simp
  next
    case False
    with t have "t \<in> C" by simp
    then obtain i where "i < k'" "ts ! i = g" using Cons.IH [of t k'] Cons.prems k by auto
    then show ?thesis using k by (intro exI [of _ "Suc i"]) simp
  qed
qed simp

end


section \<open>The thirteen lifecycles\<close>

fun request_rank :: "request_state \<Rightarrow> nat" where
  "request_rank ReqDraft = 3" | "request_rank ReqSubmitted = 2" | "request_rank ReqAccepted = 1"
| "request_rank _ = 0"

fun workflow_rank :: "workflow_state \<Rightarrow> nat" where
  "workflow_rank WfProposed = 2" | "workflow_rank WfActive = 1" | "workflow_rank WfPaused = 1"
| "workflow_rank _ = 0"

fun job_rank :: "job_state \<Rightarrow> nat" where
  "job_rank JobFailed = 2" | "job_rank JobSucceeded = 0" | "job_rank JobCancelled = 0"
| "job_rank JobRejected = 0" | "job_rank _ = 1"

fun attempt_rank :: "attempt_state \<Rightarrow> nat" where
  "attempt_rank AttOffered = 1" | "attempt_rank AttLeased = 1" | "attempt_rank AttRunning = 1"
| "attempt_rank AttWaiting = 1" | "attempt_rank _ = 0"

fun lease_rank :: "lease_state \<Rightarrow> nat" where
  "lease_rank LeaseActive = 1" | "lease_rank _ = 0"

fun checkpoint_rank :: "checkpoint_state \<Rightarrow> nat" where
  "checkpoint_rank CkDeclared = 1" | "checkpoint_rank CkStored = 1" | "checkpoint_rank _ = 0"

fun effect_rank :: "effect_intent_state \<Rightarrow> nat" where
  "effect_rank EffProposed = 1" | "effect_rank EffAuthorized = 1" | "effect_rank EffExecuting = 1"
| "effect_rank EffAmbiguous = 1" | "effect_rank _ = 0"

fun approval_rank :: "approval_state \<Rightarrow> nat" where
  "approval_rank ApPending = 1" | "approval_rank ApApproved = 1" | "approval_rank _ = 0"

fun service_rank :: "service_state \<Rightarrow> nat" where
  "service_rank SvcRetired = 0" | "service_rank _ = 1"

fun schedule_rank :: "schedule_state \<Rightarrow> nat" where
  "schedule_rank SchDisabled = 0" | "schedule_rank _ = 1"

fun incident_rank :: "incident_state \<Rightarrow> nat" where
  "incident_rank IncClosed = 0" | "incident_rank IncResolved = 1" | "incident_rank _ = 2"

fun artifact_rank :: "artifact_state \<Rightarrow> nat" where
  "artifact_rank ArtDeleted = 0" | "artifact_rank ArtDeclared = 2" | "artifact_rank ArtUploaded = 2"
| "artifact_rank _ = 1"

fun node_rank :: "node_state \<Rightarrow> nat" where
  "node_rank NodeRevoked = 0" | "node_rank _ = 1"

interpretation request: lifecycle requestTransitions request_rank
proof unfold_locales
  fix s show "requestTransitions s \<noteq> [] \<Longrightarrow> \<exists>t \<in> set (requestTransitions s). request_rank t < request_rank s"
    and "s \<notin> set (requestTransitions s)" by (cases s; simp)+
qed

interpretation workflow: lifecycle workflowTransitions workflow_rank
proof unfold_locales
  fix s show "workflowTransitions s \<noteq> [] \<Longrightarrow> \<exists>t \<in> set (workflowTransitions s). workflow_rank t < workflow_rank s"
    and "s \<notin> set (workflowTransitions s)" by (cases s; simp)+
qed

interpretation job: lifecycle jobTransitions job_rank
proof unfold_locales
  fix s show "jobTransitions s \<noteq> [] \<Longrightarrow> \<exists>t \<in> set (jobTransitions s). job_rank t < job_rank s"
    and "s \<notin> set (jobTransitions s)" by (cases s; simp)+
qed

interpretation attempt: lifecycle attemptTransitions attempt_rank
proof unfold_locales
  fix s show "attemptTransitions s \<noteq> [] \<Longrightarrow> \<exists>t \<in> set (attemptTransitions s). attempt_rank t < attempt_rank s"
    and "s \<notin> set (attemptTransitions s)" by (cases s; simp)+
qed

interpretation lease: lifecycle leaseTransitions lease_rank
proof unfold_locales
  fix s show "leaseTransitions s \<noteq> [] \<Longrightarrow> \<exists>t \<in> set (leaseTransitions s). lease_rank t < lease_rank s"
    and "s \<notin> set (leaseTransitions s)" by (cases s; simp)+
qed

interpretation checkpoint: lifecycle checkpointTransitions checkpoint_rank
proof unfold_locales
  fix s show "checkpointTransitions s \<noteq> [] \<Longrightarrow> \<exists>t \<in> set (checkpointTransitions s). checkpoint_rank t < checkpoint_rank s"
    and "s \<notin> set (checkpointTransitions s)" by (cases s; simp)+
qed

interpretation effect_intent: lifecycle effectIntentTransitions effect_rank
proof unfold_locales
  fix s show "effectIntentTransitions s \<noteq> [] \<Longrightarrow> \<exists>t \<in> set (effectIntentTransitions s). effect_rank t < effect_rank s"
    and "s \<notin> set (effectIntentTransitions s)" by (cases s; simp)+
qed

interpretation approval: lifecycle approvalTransitions approval_rank
proof unfold_locales
  fix s show "approvalTransitions s \<noteq> [] \<Longrightarrow> \<exists>t \<in> set (approvalTransitions s). approval_rank t < approval_rank s"
    and "s \<notin> set (approvalTransitions s)" by (cases s; simp)+
qed

interpretation service: lifecycle serviceTransitions service_rank
proof unfold_locales
  fix s show "serviceTransitions s \<noteq> [] \<Longrightarrow> \<exists>t \<in> set (serviceTransitions s). service_rank t < service_rank s"
    and "s \<notin> set (serviceTransitions s)" by (cases s; simp)+
qed

interpretation schedule: lifecycle scheduleTransitions schedule_rank
proof unfold_locales
  fix s show "scheduleTransitions s \<noteq> [] \<Longrightarrow> \<exists>t \<in> set (scheduleTransitions s). schedule_rank t < schedule_rank s"
    and "s \<notin> set (scheduleTransitions s)" by (cases s; simp)+
qed

interpretation incident: lifecycle incidentTransitions incident_rank
proof unfold_locales
  fix s show "incidentTransitions s \<noteq> [] \<Longrightarrow> \<exists>t \<in> set (incidentTransitions s). incident_rank t < incident_rank s"
    and "s \<notin> set (incidentTransitions s)" by (cases s; simp)+
qed

interpretation artifact: lifecycle artifactTransitions artifact_rank
proof unfold_locales
  fix s show "artifactTransitions s \<noteq> [] \<Longrightarrow> \<exists>t \<in> set (artifactTransitions s). artifact_rank t < artifact_rank s"
    and "s \<notin> set (artifactTransitions s)" by (cases s; simp)+
qed

interpretation node: lifecycle nodeTransitions node_rank
proof unfold_locales
  fix s show "nodeTransitions s \<noteq> [] \<Longrightarrow> \<exists>t \<in> set (nodeTransitions s). node_rank t < node_rank s"
    and "s \<notin> set (nodeTransitions s)" by (cases s; simp)+
qed


section \<open>Properties\<close>

text \<open>
  Work cannot succeed without having been leased and started: in every history of a job
  that begins as proposed, a success is preceded by the running state, and that by a lease.
\<close>

lemma job_success_was_leased_and_run:
  assumes "run_from jobTransitions JobProposed ts" and "k < length ts" and "ts ! k = JobSucceeded"
  shows "\<exists>i j. i < j \<and> j < k \<and> ts ! i = JobLeased \<and> ts ! j = JobRunning"
proof -
  have "\<exists>j < k. ts ! j = JobRunning"
    by (rule job.cut [where C = "{JobProposed, JobReady, JobLeased, JobOrphaned, JobFailed, JobCancelled, JobRejected}",
          OF _ assms(1) _ assms(2)]) (use assms(3) in auto)
  then obtain j where j: "j < k" "ts ! j = JobRunning" by blast
  have "\<exists>i < j. ts ! i = JobLeased"
    by (rule job.cut [where C = "{JobProposed, JobReady, JobCancelled, JobRejected}", OF _ assms(1)])
      (use j assms(2) in auto)
  with j show ?thesis by blast
qed

text \<open>
  An effect is confirmed only after it was authorised and then executed: every history of
  an effect intent that reaches the confirmed state starts with exactly these two transitions.
\<close>

lemma effect_confirmed_after_authorization:
  assumes "run_from effectIntentTransitions EffProposed ts" and "EffConfirmed \<in> set ts"
  shows "\<exists>us. ts = EffAuthorized # EffExecuting # us \<and> EffConfirmed \<in> set us"
proof -
  have "ts \<noteq> []" using assms(2) by auto
  then obtain t ts' where ts: "ts = t # ts'" by (cases ts) auto
  have "t = EffAuthorized" using assms ts effect_intent.absorbing [of EffCancelled ts'] by auto
  with assms ts obtain u us where us: "ts' = u # us" by (cases ts') auto
  have "u = EffExecuting" using assms ts us \<open>t = EffAuthorized\<close> effect_intent.absorbing [of EffCancelled us] by auto
  with assms ts us \<open>t = EffAuthorized\<close> show ?thesis by auto
qed

text \<open>
  Withdrawn authority stays withdrawn: after a lease has left the active state, an approval
  was denied, expired or revoked, a node was revoked, or an attempt has ended, the history of
  that record has no further state.
\<close>

lemma withdrawn_is_final:
  "(l \<noteq> LeaseActive \<longrightarrow> run_from leaseTransitions l ls \<longrightarrow> ls = []) \<and>
   (a \<in> {ApDenied, ApExpired, ApRevoked} \<longrightarrow> run_from approvalTransitions a as \<longrightarrow> as = []) \<and>
   (run_from nodeTransitions NodeRevoked ns \<longrightarrow> ns = []) \<and>
   (t \<in> {AttSucceeded, AttFailed, AttCancelled, AttOrphaned} \<longrightarrow> run_from attemptTransitions t ts \<longrightarrow> ts = [])"
  using lease.absorbing [of l ls] approval.absorbing [of a as] node.absorbing [of NodeRevoked ns]
    attempt.absorbing [of t ts]
  by (cases l) auto

end
