(* ===== verification/Node_Policy_Types.thy ===== *)
theory Node_Policy_Types
  imports Domain_Model
begin

text \<open>
  The data of the node's local policy: \<open>src/node-policy/v1/types.ts\<close>. The interfaces are records
  whose literal fields (\<open>schema\<close>, \<open>contractVersion\<close>, algorithms) are kept as texts because the
  schemas check them; the tagged unions (targets and decisions) are datatypes. Amounts of money
  are texts, as in the source.
\<close>

definition NODE_POLICY_CONTRACT_V1 :: string where
  "NODE_POLICY_CONTRACT_V1 = ''control-room-node-policy/v1''"

definition NODE_CEILING_SCHEMA_V1 :: string where
  "NODE_CEILING_SCHEMA_V1 = ''control-room.node-authority-ceiling/v1''"

definition SERVER_TRUST_BUNDLE_SCHEMA_V1 :: string where
  "SERVER_TRUST_BUNDLE_SCHEMA_V1 = ''control-room.server-trust-bundle/v1''"

definition APPROVAL_ATTESTATION_SCHEMA_V1 :: string where
  "APPROVAL_ATTESTATION_SCHEMA_V1 = ''control-room.owner-approval-attestation/v1''"

datatype key_availability_state =
    KeyAvailable | KeyLocked | KeyInteractionRequired | KeyMissing | KeyCorrupt | KeyPermissionDenied
  | KeyUnavailablePlatform

datatype local_denial_detail =
    CeilingMissing | CeilingTampered | CeilingRollback | AuthorityInvalid | AuthorityExpired | AuthorityNotYetValid
  | ExecutorNotAllowed | OperationNotAllowed | CredentialNotAllowed | FilesystemTargetNotAllowed
  | NetworkDestinationNotAllowed | RiskExceeded | EffectPolicyExceeded | ApprovalMissing | ApprovalInvalid
  | ApprovalExpired | DurationExceeded | CostUnmeasurable | CostExceeded | ConcurrencyExceeded
  | KeystoreUnavailable | Paused | EffectInProgress | EffectAmbiguous | StorageUnavailable

datatype wire_denial_category =
    WirePolicy | WireExpired | WireApprovalRequired | WireEffectInProgress | WireAmbiguous | WireMaintenance | WireStorage

datatype node_private_key_provider = MacosKeychain | WindowsDpapiCurrentUser | EncryptedFile | MemoryTest
datatype node_private_key_mode = ModeNative | ModeEncryptedFile | ModeTest
datatype trust_key_state = TrustActive | TrustRetired | TrustRevoked
datatype cost_meter = MeterNone | MonotonicReservable

record node_authority_ceiling =
  nc_schema :: string
  nc_tenantId :: string
  nc_nodeId :: string
  nc_version :: rat
  nc_issuedAt :: string
  nc_issuerKeyId :: string
  nc_projectIds :: "string list"
  nc_executorIds :: "string list"
  nc_operationIds :: "string list"
  nc_credentialRefs :: "string list"
  nc_filesystemRoots :: "string list"
  nc_networkDestinations :: "string list"
  nc_maxRisk :: risk_class
  nc_externalEffects :: effect_policy
  nc_maxDurationSeconds :: rat
  nc_maxConcurrentEffects :: rat
  nc_maxCostUsd :: "string option"
  nc_bodyDigest :: string

record 'b signed_artifact =
  sa_body :: 'b
  sa_signatureAlgorithm :: string
  sa_signature :: string

type_synonym signed_ceiling = "node_authority_ceiling signed_artifact"

record server_trust_key =
  tk_keyId :: string
  tk_algorithm :: string
  tk_spki :: string
  tk_state :: trust_key_state

record trust_bundle_shrink_authorization =
  sh_keyId :: string
  sh_bundleBodyDigest :: string
  sh_signatureAlgorithm :: string
  sh_signature :: string

record server_trust_bundle_body =
  tb_schema :: string
  tb_tenantId :: string
  tb_nodeClass :: string
  tb_epoch :: rat
  tb_issuedAt :: string
  tb_ownerRootKeyId :: string
  tb_keys :: "server_trust_key list"
  tb_bodyDigest :: string

record owner_signed_trust_bundle = "server_trust_bundle_body signed_artifact" +
  shrinkAuthorization :: "trust_bundle_shrink_authorization option"

record owner_approval_attestation_body =
  ob_schema :: string
  ob_tenantId :: string
  ob_nodeId :: "string option"
  ob_nodeClass :: "string option"
  ob_projectId :: string
  ob_jobId :: string
  ob_attemptId :: string
  ob_operationDigest :: string
  ob_risk :: risk_class
  ob_decision :: string
  ob_issuedAt :: string
  ob_expiresAt :: string
  ob_nonce :: string
  ob_approvalKeyId :: string
  ob_bodyDigest :: string

type_synonym owner_approval_attestation = "owner_approval_attestation_body signed_artifact"

datatype normalized_target = TargetNone | TargetFilesystem string | TargetNetwork string
datatype target_kind = KindNone | KindFilesystem | KindNetwork

fun target_kind_of :: "normalized_target \<Rightarrow> target_kind" where
  "target_kind_of TargetNone = KindNone"
| "target_kind_of (TargetFilesystem _) = KindFilesystem"
| "target_kind_of (TargetNetwork _) = KindNetwork"

record local_policy_request =
  lr_contractVersion :: string
  lr_requestId :: string
  lr_tenantId :: string
  lr_nodeId :: string
  lr_nodeClass :: string
  lr_projectId :: string
  lr_jobId :: string
  lr_attemptId :: string
  lr_leaseId :: string
  lr_leaseEpoch :: rat
  lr_executorId :: string
  lr_operationId :: string
  lr_operationDigest :: string
  lr_payloadDigest :: "string option"
  lr_authorityDigest :: string
  lr_credentialRefs :: "string list"
  lr_target :: normalized_target
  lr_risk :: risk_class
  lr_externalEffect :: bool
  lr_estimatedDurationSeconds :: rat
  lr_estimatedCostUsd :: "string option"
  lr_occurredAt :: string
  lr_approval :: "owner_approval_attestation option"

record executor_capability =
  xc_contractVersion :: string
  xc_executorId :: string
  xc_operationIds :: "string list"
  xc_externalEffectOperationIds :: "string list"
  xc_targetKinds :: "target_kind list"
  xc_supportsCancellation :: bool
  xc_supportsNetworkIdentityEnforcement :: bool
  xc_costMeter :: cost_meter

record decision_context =
  dc_requestId :: string
  dc_requestDigest :: string
  dc_ceilingDigest :: string
  dc_authorityDigest :: string
  dc_decidedAt :: string

datatype local_policy_decision =
    Accepted (decision_of: decision_context)
  | Denied (decision_of: decision_context) (denial_detail: local_denial_detail) (denial_category: wire_denial_category)

fun decision_accepted :: "local_policy_decision \<Rightarrow> bool" where
  "decision_accepted (Accepted _) = True"
| "decision_accepted (Denied _ _ _) = False"

record wire_denial_receipt =
  wr_contractVersion :: string
  wr_receiptId :: string
  wr_relatedMessageId :: string
  wr_jobId :: string
  wr_attemptId :: string
  wr_category :: wire_denial_category
  wr_occurredAt :: string

record key_availability =
  ka_state :: key_availability_state
  ka_keyReferenceId :: string
  ka_observedAt :: string

record key_reference =
  kr_contractVersion :: string
  kr_keyId :: string
  kr_referenceId :: string
  kr_provider :: node_private_key_provider
  kr_mode :: node_private_key_mode
  kr_algorithm :: string

record pinned_owner_key =
  pk_keyId :: string
  pk_algorithm :: string
  pk_spki :: string
  pk_fingerprint :: string

record owner_pin_set =
  ceilingProvisioningKey :: pinned_owner_key
  serverTrustRootKey :: pinned_owner_key
  trustShrinkKeys :: "pinned_owner_key list"

record verified_lease_authority =
  vl_tenantId :: string
  vl_nodeId :: string
  vl_jobId :: string
  vl_attemptId :: string
  vl_leaseId :: string
  vl_leaseEpoch :: rat
  vl_validFrom :: string
  vl_expiresAt :: string
  vl_authorityDigest :: string
  vl_authority :: authority_envelope
  vl_parentAuthorities :: "authority_envelope list"

record resolved_approval_key =
  ak_keyId :: string
  ak_publicKeySpki :: string

record local_policy_input =
  pi_request :: local_policy_request
  pi_ceiling :: node_authority_ceiling
  pi_lease :: verified_lease_authority
  pi_executor :: executor_capability
  pi_keyAvailability :: key_availability
  pi_approvalKey :: "resolved_approval_key option"
  pi_activeExternalEffects :: jsnum

end
