(* ===== verification/Authority.thy ===== *)
theory Authority
  imports Domain_Model
begin

text \<open>
  Delegated authority: \<open>src/domain/v1/authority.ts\<close>, \<open>src/domain/v1/proposal-authority.ts\<close> and
  the authority digest of \<open>src/security/digest.ts\<close>.

  \<open>compareDelegatedAuthority\<close> lists the ways a child envelope exceeds its parent. The relation
  \<open>scope_within\<close> is what an accepted comparison guarantees about the scopes; it is transitive along a
  chain, so authority only ever narrows on the way down. \<open>computeAuthorityDigest\<close> commits to
  every field of the envelope.
\<close>

section \<open>Ranks\<close>

fun effectRank :: "effect_policy \<Rightarrow> nat" where
  "effectRank EffectsNone = 0"
| "effectRank ApprovalRequired = 1"
| "effectRank Preauthorized = 2"

fun riskRank :: "risk_class \<Rightarrow> nat" where
  "riskRank Low = 0"
| "riskRank Medium = 1"
| "riskRank High = 2"
| "riskRank Critical = 3"

lemma effectRank_inject [simp]: "effectRank a = effectRank b \<longleftrightarrow> a = b"
  by (cases a; cases b) simp_all

lemma riskRank_inject [simp]: "riskRank a = riskRank b \<longleftrightarrow> a = b"
  by (cases a; cases b) simp_all

text \<open>The risk classes are ordered by their rank.\<close>

instantiation risk_class :: linorder
begin

definition less_eq_risk_class :: "risk_class \<Rightarrow> risk_class \<Rightarrow> bool" where
  "less_eq_risk_class a b \<longleftrightarrow> riskRank a \<le> riskRank b"

definition less_risk_class :: "risk_class \<Rightarrow> risk_class \<Rightarrow> bool" where
  "less_risk_class a b \<longleftrightarrow> riskRank a < riskRank b"

instance
  by standard (auto simp: less_eq_risk_class_def less_risk_class_def simp flip: riskRank_inject)

end


section \<open>Comparison of a child with its parent\<close>

datatype authority_violation =
    ParentDigestMismatch | ProjectScopeExpanded | ExecutorChanged | OperationScopeExpanded
  | CredentialScopeExpanded | FilesystemScopeExpanded | NetworkScopeExpanded | NetworkDestinationExpanded
  | EffectAuthorityExpanded | RiskExpanded | DurationExpanded | ConcurrencyExpanded
  | CostAuthorityAdded | CostAuthorityExpanded | ExpiryExpanded

record authority_comparison =
  allowed :: bool
  violations :: "authority_violation list"

definition flag :: "bool \<Rightarrow> 'v \<Rightarrow> 'v list" where
  "flag c v = (if c then [v] else [])"

lemma flag_Nil [simp]: "flag c v = [] \<longleftrightarrow> \<not> c"
  by (simp add: flag_def)

lemma set_flag [simp]: "set (flag c v) = (if c then {v} else {})"
  by (simp add: flag_def)

definition authority_violations :: "authority_envelope \<Rightarrow> authority_envelope \<Rightarrow> authority_violation list" where
  "authority_violations parent child =
     flag (parentDigest child \<noteq> Some (ae_digest parent)) ParentDigestMismatch
     @ flag (ae_projectId child \<noteq> ae_projectId parent) ProjectScopeExpanded
     @ flag (allowedExecutor child \<noteq> allowedExecutor parent) ExecutorChanged
     @ flag (\<not> subset_list (allowedOperations child) (allowedOperations parent)) OperationScopeExpanded
     @ flag (\<not> subset_list (ae_credentialRefs child) (ae_credentialRefs parent)) CredentialScopeExpanded
     @ flag (\<not> subset_list (filesystemRoots child) (filesystemRoots parent)) FilesystemScopeExpanded
     @ flag (networkPolicy parent = NetNone \<and> networkPolicy child \<noteq> NetNone) NetworkScopeExpanded
     @ flag (\<not> subset_list (allowedNetworkDestinations child) (allowedNetworkDestinations parent))
         NetworkDestinationExpanded
     @ flag (effectRank (effectPolicy child) > effectRank (effectPolicy parent)) EffectAuthorityExpanded
     @ flag (riskRank (maxRisk child) > riskRank (maxRisk parent)) RiskExpanded
     @ flag (maxDurationSeconds child > maxDurationSeconds parent) DurationExpanded
     @ flag (maxConcurrentEffects child > maxConcurrentEffects parent) ConcurrencyExpanded
     @ flag (maxCostUsd parent = None \<and> (case maxCostUsd child of None \<Rightarrow> False | Some c \<Rightarrow> c > 0)) CostAuthorityAdded
     @ flag (case maxCostUsd parent of None \<Rightarrow> False
             | Some p \<Rightarrow> (case maxCostUsd child of None \<Rightarrow> True | Some c \<Rightarrow> c > p)) CostAuthorityExpanded
     @ flag (ms_less (date_parse (ae_expiresAt parent)) (date_parse (ae_expiresAt child))) ExpiryExpanded"

definition compareDelegatedAuthority :: "authority_envelope \<Rightarrow> authority_envelope \<Rightarrow> authority_comparison" where
  "compareDelegatedAuthority parent child =
     (let vs = authority_violations parent child in \<lparr>allowed = (vs = []), violations = vs\<rparr>)"

definition assertDelegatedAuthority ::
    "authority_envelope \<Rightarrow> authority_envelope \<Rightarrow> (authority_violation list, unit) result" where
  "assertDelegatedAuthority parent child =
     (let comparison = compareDelegatedAuthority parent child
      in if \<not> allowed comparison then Inl (violations comparison) else Inr ())"


section \<open>What an accepted comparison guarantees\<close>

definition cost_within :: "rat option \<Rightarrow> rat option \<Rightarrow> bool" where
  "cost_within p c =
     (case p of
        None \<Rightarrow> (case c of None \<Rightarrow> True | Some x \<Rightarrow> x \<le> 0)
      | Some m \<Rightarrow> (case c of None \<Rightarrow> False | Some x \<Rightarrow> x \<le> m))"

definition scope_within :: "authority_envelope \<Rightarrow> authority_envelope \<Rightarrow> bool" where
  "scope_within p c \<longleftrightarrow>
     ae_projectId c = ae_projectId p \<and> allowedExecutor c = allowedExecutor p \<and>
     set (allowedOperations c) \<subseteq> set (allowedOperations p) \<and>
     set (ae_credentialRefs c) \<subseteq> set (ae_credentialRefs p) \<and>
     set (filesystemRoots c) \<subseteq> set (filesystemRoots p) \<and>
     (networkPolicy p = NetNone \<longrightarrow> networkPolicy c = NetNone) \<and>
     set (allowedNetworkDestinations c) \<subseteq> set (allowedNetworkDestinations p) \<and>
     effectRank (effectPolicy c) \<le> effectRank (effectPolicy p) \<and> maxRisk c \<le> maxRisk p \<and>
     maxDurationSeconds c \<le> maxDurationSeconds p \<and> maxConcurrentEffects c \<le> maxConcurrentEffects p \<and>
     cost_within (maxCostUsd p) (maxCostUsd c)"

definition expires_within :: "authority_envelope \<Rightarrow> authority_envelope \<Rightarrow> bool" where
  "expires_within p c \<longleftrightarrow> ms_leq (date_parse (ae_expiresAt c)) (date_parse (ae_expiresAt p))"

lemma cost_within_trans: "cost_within a b \<Longrightarrow> cost_within b c \<Longrightarrow> cost_within a c"
  by (auto simp: cost_within_def split: option.splits)

lemma scope_within_trans: "scope_within a b \<Longrightarrow> scope_within b c \<Longrightarrow> scope_within a c"
  unfolding scope_within_def by (auto intro: cost_within_trans order_trans)

lemma scope_within_refl: "opt_all (\<lambda>x. True) (maxCostUsd a) \<Longrightarrow> scope_within a a"
  by (auto simp: scope_within_def cost_within_def split: option.splits)

lemma expires_within_trans: "expires_within a b \<Longrightarrow> expires_within b c \<Longrightarrow> expires_within a c"
  by (auto simp: expires_within_def ms_leq_iff)

lemma violations_Nil_iff:
  "authority_violations p c = [] \<longleftrightarrow>
     parentDigest c = Some (ae_digest p) \<and> scope_within p c
     \<and> \<not> ms_less (date_parse (ae_expiresAt p)) (date_parse (ae_expiresAt c))"
  by (auto simp: authority_violations_def scope_within_def cost_within_def less_eq_risk_class_def not_less
      split: option.splits)

lemma allowed_iff:
  "allowed (compareDelegatedAuthority p c) \<longleftrightarrow> authority_violations p c = []"
  by (simp add: compareDelegatedAuthority_def Let_def)

text \<open>A chain of envelopes, root first, in which every link was accepted.\<close>

fun delegation_chain :: "authority_envelope list \<Rightarrow> bool" where
  "delegation_chain (p # c # cs) = (allowed (compareDelegatedAuthority p c) \<and> delegation_chain (c # cs))"
| "delegation_chain _ = True"

lemma expires_withinI:
  "\<not> ms_less (date_parse (ae_expiresAt p)) (date_parse (ae_expiresAt c)) \<Longrightarrow>
   date_parse (ae_expiresAt p) \<noteq> None \<Longrightarrow> date_parse (ae_expiresAt c) \<noteq> None \<Longrightarrow> expires_within p c"
  by (auto simp: expires_within_def ms_leq_iff not_less)

lemma delegation_chain_last:
  assumes "delegation_chain (p # cs)" and "\<forall>a \<in> set (p # cs). date_parse (ae_expiresAt a) \<noteq> None"
  shows "scope_within p (last (p # cs)) \<and> expires_within p (last (p # cs))"
  using assms
proof (induction cs arbitrary: p)
  case Nil
  then show ?case by (auto simp: scope_within_refl opt_all_iff expires_within_def ms_leq_iff)
next
  case (Cons c cs)
  then have IH: "scope_within c (last (c # cs)) \<and> expires_within c (last (c # cs))" by simp
  have "scope_within p c" "expires_within p c"
    using Cons.prems by (auto simp: allowed_iff violations_Nil_iff intro: expires_withinI)
  with IH show ?case by (auto intro: scope_within_trans expires_within_trans)
qed


section \<open>Digest of an envelope\<close>

fun network_policy_text :: "network_policy \<Rightarrow> string" where
  "network_policy_text NetNone = ''none''"
| "network_policy_text NetAllowlist = ''allowlist''"

fun effect_policy_text :: "effect_policy \<Rightarrow> string" where
  "effect_policy_text EffectsNone = ''none''"
| "effect_policy_text Preauthorized = ''preauthorized''"
| "effect_policy_text ApprovalRequired = ''approval_required''"

fun risk_text :: "risk_class \<Rightarrow> string" where
  "risk_text Low = ''low''"
| "risk_text Medium = ''medium''"
| "risk_text High = ''high''"
| "risk_text Critical = ''critical''"

lemma network_policy_text_inject [simp]: "network_policy_text a = network_policy_text b \<longleftrightarrow> a = b"
  by (cases a; cases b) simp_all

lemma effect_policy_text_inject [simp]: "effect_policy_text a = effect_policy_text b \<longleftrightarrow> a = b"
  by (cases a; cases b) simp_all

lemma risk_text_inject [simp]: "risk_text a = risk_text b \<longleftrightarrow> a = b"
  by (cases a; cases b) simp_all

definition authority_digest_fields :: "authority_envelope \<Rightarrow> (string \<times> json) list" where
  "authority_digest_fields a =
     [(''projectId'', JStr (ae_projectId a)),
      (''allowedExecutor'', JStr (allowedExecutor a)),
      (''allowedOperations'', str_array (allowedOperations a)),
      (''credentialRefs'', str_array (ae_credentialRefs a)),
      (''filesystemRoots'', str_array (filesystemRoots a)),
      (''networkPolicy'', JStr (network_policy_text (networkPolicy a))),
      (''allowedNetworkDestinations'', str_array (allowedNetworkDestinations a)),
      (''effectPolicy'', JStr (effect_policy_text (effectPolicy a))),
      (''maxRisk'', JStr (risk_text (maxRisk a))),
      (''maxDurationSeconds'', JNum (maxDurationSeconds a)),
      (''maxConcurrentEffects'', JNum (maxConcurrentEffects a))]
     @ opt_field ''maxCostUsd'' JNum (maxCostUsd a)
     @ [(''expiresAt'', JStr (ae_expiresAt a))]
     @ opt_field ''parentDigest'' JStr (parentDigest a)"

definition computeAuthorityDigest :: "host \<Rightarrow> authority_envelope \<Rightarrow> string" where
  "computeAuthorityDigest h a = sha256Digest h (JObj (authority_digest_fields a))"

definition assertAuthorityDigest :: "host \<Rightarrow> authority_envelope \<Rightarrow> (string, unit) result" where
  "assertAuthorityDigest h a =
     (if computeAuthorityDigest h a \<noteq> ae_digest a then Inl ''Authority digest mismatch'' else Inr ())"

definition digestMatches :: "host \<Rightarrow> json \<Rightarrow> string \<Rightarrow> bool" where
  "digestMatches h v expected \<longleftrightarrow> sha256Digest h v = expected"

definition assertDigest :: "host \<Rightarrow> json \<Rightarrow> string \<Rightarrow> string \<Rightarrow> (string, unit) result" where
  "assertDigest h v expected label =
     (if \<not> digestMatches h v expected then Inl (label @ '' digest mismatch'') else Inr ())"

definition computeEffectOperationDigest :: "host \<Rightarrow> effect_intent_record \<Rightarrow> string \<Rightarrow> string" where
  "computeEffectOperationDigest h effect projectId =
     sha256Digest h (JObj
       [(''tenantId'', JStr (rec_tenantId effect)), (''projectId'', JStr projectId),
        (''jobId'', JStr (ef_jobId effect)), (''attemptId'', JStr (ef_attemptId effect)),
        (''operation'', JStr (ef_operation effect)), (''destination'', JStr (ef_destination effect)),
        (''idempotencyKey'', JStr (ef_idempotencyKey effect)), (''risk'', JStr (risk_text (ef_risk effect)))])"

lemma distinct_authority_digest_fields: "distinct (map fst (authority_digest_fields a))"
  by (cases "maxCostUsd a"; cases "parentDigest a") (simp_all add: authority_digest_fields_def)

lemma authority_digest_field:
  "json_field (JObj (authority_digest_fields a)) k =
    (if k = ''projectId'' then Some (JStr (ae_projectId a))
     else if k = ''allowedExecutor'' then Some (JStr (allowedExecutor a))
     else if k = ''allowedOperations'' then Some (str_array (allowedOperations a))
     else if k = ''credentialRefs'' then Some (str_array (ae_credentialRefs a))
     else if k = ''filesystemRoots'' then Some (str_array (filesystemRoots a))
     else if k = ''networkPolicy'' then Some (JStr (network_policy_text (networkPolicy a)))
     else if k = ''allowedNetworkDestinations'' then Some (str_array (allowedNetworkDestinations a))
     else if k = ''effectPolicy'' then Some (JStr (effect_policy_text (effectPolicy a)))
     else if k = ''maxRisk'' then Some (JStr (risk_text (maxRisk a)))
     else if k = ''maxDurationSeconds'' then Some (JNum (maxDurationSeconds a))
     else if k = ''maxConcurrentEffects'' then Some (JNum (maxConcurrentEffects a))
     else if k = ''maxCostUsd'' then map_option JNum (maxCostUsd a)
     else if k = ''expiresAt'' then Some (JStr (ae_expiresAt a))
     else if k = ''parentDigest'' then map_option JStr (parentDigest a) else None)"
  by (cases "maxCostUsd a"; cases "parentDigest a")
    (simp_all add: json_field_def authority_digest_fields_def)

text \<open>
  The authority digest commits to the whole envelope: two envelopes with integral limits
  that have the same digest differ at most in the digest field itself, or SHA-256 collides on
  their canonical texts.
\<close>

lemma computeAuthorityDigest_binding:
  assumes "computeAuthorityDigest h a = computeAuthorityDigest h b"
    and "plain_numbers (JObj (authority_digest_fields a))" and "plain_numbers (JObj (authority_digest_fields b))"
  shows "b = a\<lparr>ae_digest := ae_digest b\<rparr>
    \<or> hash_collision h (JObj (authority_digest_fields a)) (JObj (authority_digest_fields b))"
proof (rule disjCI)
  assume "\<not> hash_collision h (JObj (authority_digest_fields a)) (JObj (authority_digest_fields b))"
  then have field: "json_field (JObj (authority_digest_fields a)) k = json_field (JObj (authority_digest_fields b)) k" for k
    using assms by (intro digest_fields_agree) (simp_all add: computeAuthorityDigest_def distinct_authority_digest_fields)
  note fields = field [of "''projectId''"] field [of "''allowedExecutor''"] field [of "''allowedOperations''"]
    field [of "''credentialRefs''"] field [of "''filesystemRoots''"] field [of "''networkPolicy''"]
    field [of "''allowedNetworkDestinations''"] field [of "''effectPolicy''"] field [of "''maxRisk''"]
    field [of "''maxDurationSeconds''"] field [of "''maxConcurrentEffects''"] field [of "''maxCostUsd''"]
    field [of "''expiresAt''"] field [of "''parentDigest''"]
  have "maxCostUsd a = maxCostUsd b"
    using fields(12) by (cases "maxCostUsd a"; cases "maxCostUsd b") (simp_all add: authority_digest_field)
  moreover have "parentDigest a = parentDigest b"
    using fields(14) by (cases "parentDigest a"; cases "parentDigest b") (simp_all add: authority_digest_field)
  ultimately show "b = a\<lparr>ae_digest := ae_digest b\<rparr>"
    using fields(1-11,13) [unfolded authority_digest_field, simplified] by (intro authority_envelope.equality) simp_all
qed

text \<open>An envelope and a copy of it that carries another digest.\<close>

definition sample_envelope :: "string \<Rightarrow> authority_envelope" where
  "sample_envelope d =
     \<lparr>ae_projectId = ''project:1'', allowedExecutor = ''executor:1'', allowedOperations = [''task.run''],
      ae_credentialRefs = [], filesystemRoots = [''/srv''], networkPolicy = NetNone,
      allowedNetworkDestinations = [], effectPolicy = ApprovalRequired, maxRisk = Medium,
      maxDurationSeconds = 600, maxConcurrentEffects = 1, maxCostUsd = Some 5,
      ae_expiresAt = ''2026-01-01T00:00:00.000Z'', parentDigest = None, ae_digest = d\<rparr>"

section \<open>The envelope of an owner's proposal\<close>

definition PROPOSAL_AUTHORITY_MAX_DURATION_SECONDS_V1 :: rat where
  "PROPOSAL_AUTHORITY_MAX_DURATION_SECONDS_V1 = 3600"

definition PROPOSAL_AUTHORITY_EXPIRES_AT_V1 :: string where
  "PROPOSAL_AUTHORITY_EXPIRES_AT_V1 = ''9999-12-31T23:59:59.000Z''"

text \<open>The material of the envelope; the caller supplies the digest.\<close>

definition proposalAuthorityMaterialV1 ::
    "string \<Rightarrow> string \<Rightarrow> (string, string \<Rightarrow> authority_envelope) result" where
  "proposalAuthorityMaterialV1 projectId created =
     (if date_parse created = None then Inl ''proposal_authority_created_at_invalid''
      else Inr (\<lambda>digest. \<lparr>
        ae_projectId = projectId,
        allowedExecutor = ''executor:unassigned'',
        allowedOperations = [''task.propose''],
        ae_credentialRefs = [],
        filesystemRoots = [],
        networkPolicy = NetNone,
        allowedNetworkDestinations = [],
        effectPolicy = EffectsNone,
        maxRisk = Low,
        maxDurationSeconds = PROPOSAL_AUTHORITY_MAX_DURATION_SECONDS_V1,
        maxConcurrentEffects = 0,
        maxCostUsd = None,
        ae_expiresAt = PROPOSAL_AUTHORITY_EXPIRES_AT_V1,
        parentDigest = None,
        ae_digest = digest\<rparr>))"



end
