(* ===== verification/Domain_Validators.thy ===== *)
theory Domain_Validators
  imports Authority State_Machines
begin

text \<open>
  The record schemas of \<open>src/domain/v1/validators.ts\<close> and the destination grammar of
  \<open>src/security/canonical-network-destination.ts\<close>, as predicates on the records of
  \<open>Domain_Model\<close>. Enumerated fields are datatypes, so \<open>z.enum\<close> holds of them by their type, and
  \<open>.strict()\<close> by the record having no other field; every other constraint is a conjunct.
  Whether a text has the date format of the schema library is the host's \<open>zod_datetime\<close>.

  The section on destinations proves the pattern and its refinement exact against a direct
  description of the accepted texts. The last section combines the envelope schema with the
  delegation comparison.
\<close>

section \<open>Shared constraints\<close>

definition text_between :: "nat \<Rightarrow> nat \<Rightarrow> string \<Rightarrow> bool" where
  "text_between lo hi s \<longleftrightarrow> lo \<le> length s \<and> length s \<le> hi"

text \<open>\<open>z.number().int()\<close>: a safe integer.\<close>

definition z_int :: "rat \<Rightarrow> bool" where
  "z_int r \<longleftrightarrow> is_safe_integer (Fin r)"

definition isoDate :: "host \<Rightarrow> string \<Rightarrow> bool" where
  "isoDate h s = zod_datetime h True s"

definition safeId :: "string \<Rightarrow> bool" where
  "safeId s \<longleftrightarrow> text_between 3 180 s \<and> safe_id_pattern s"

definition safeLabel :: "string \<Rightarrow> bool" where
  "safeLabel s = text_between 1 180 s"

definition is_model_char :: "char \<Rightarrow> bool" where
  "is_model_char c \<longleftrightarrow> is_alnum c \<or> c \<in> set ''._:/+-''"

text \<open>\<open>/^[A-Za-z0-9][A-Za-z0-9._:/+-]{0,179}$/u\<close>\<close>

definition modelIdentifier :: "string \<Rightarrow> bool" where
  "modelIdentifier s \<longleftrightarrow>
     (case s of [] \<Rightarrow> False | c # cs \<Rightarrow> is_alnum c \<and> list_all is_model_char cs \<and> length cs \<le> 179)"

definition nonNegativeMoney :: "rat \<Rightarrow> bool" where
  "nonNegativeMoney r \<longleftrightarrow> 0 \<le> r"

definition actorSchema :: "actor_ref \<Rightarrow> bool" where
  "actorSchema a = safeId (actorId a)"

definition DOMAIN_CONTRACT_VERSION :: string where
  "DOMAIN_CONTRACT_VERSION = ''control-room-domain/v1''"

definition baseRecordShape :: "host \<Rightarrow> 'a domain_record_scheme \<Rightarrow> bool" where
  "baseRecordShape h r \<longleftrightarrow>
     contractVersion r = DOMAIN_CONTRACT_VERSION \<and> safeId (rec_id r) \<and> safeId (rec_tenantId r) \<and>
     z_int (rec_version r) \<and> 0 \<le> rec_version r \<and> isoDate h (createdAt r) \<and> isoDate h (updatedAt r)"

definition orderedRecord :: "host \<Rightarrow> 'a domain_record_scheme \<Rightarrow> bool" where
  "orderedRecord h r \<longleftrightarrow>
     baseRecordShape h r \<and> ms_leq (date_parse (createdAt r)) (date_parse (updatedAt r))"


section \<open>Network destinations\<close>

definition is_host_char :: "char \<Rightarrow> bool" where
  "is_host_char c \<longleftrightarrow> is_lower c \<or> is_digit c \<or> c = CHR ''.'' \<or> c = CHR ''-''"

definition is_lower_alnum :: "char \<Rightarrow> bool" where
  "is_lower_alnum c \<longleftrightarrow> is_lower c \<or> is_digit c"

text \<open>The two groups of \<open>destinationPattern\<close>: the host and the port.\<close>

definition host_group :: "string \<Rightarrow> bool" where
  "host_group s \<longleftrightarrow> s \<noteq> [] \<and> length s \<le> 253 \<and> list_all is_host_char s \<and>
     is_lower_alnum (hd s) \<and> is_lower_alnum (last s)"

definition port_group :: "string \<Rightarrow> bool" where
  "port_group s \<longleftrightarrow> s \<noteq> [] \<and> length s \<le> 5 \<and> list_all is_digit s \<and> hd s \<noteq> CHR ''0''"

text \<open>
  \<open>destinationPattern.exec\<close>. No host character is a colon, so the host ends at the first colon
  after the scheme.
\<close>

definition match_destination :: "string \<Rightarrow> (string \<times> string) option" where
  "match_destination s =
     (if \<not> starts_with s ''https://'' then None
      else (let rest = drop 8 s; h = takeWhile (\<lambda>c. c \<noteq> CHR '':'') rest;
                p = drop (Suc (length h)) rest
            in if length h < length rest \<and> host_group h \<and> port_group p then Some (h, p) else None))"

definition label_ok :: "string \<Rightarrow> bool" where
  "label_ok l \<longleftrightarrow> \<not> (length l > 63 \<or> starts_with l ''-'' \<or> ends_with l ''-''
     \<or> \<not> (l \<noteq> [] \<and> list_all (\<lambda>c. is_lower c \<or> is_digit c \<or> c = CHR ''-'') l))"

definition isCanonicalNetworkDestination :: "host \<Rightarrow> string \<Rightarrow> bool" where
  "isCanonicalNetworkDestination h s =
     (case match_destination s of
        None \<Rightarrow> False
      | Some (name, port) \<Rightarrow>
          if contains_text name ''..'' then False
          else if list_ex (\<lambda>l. \<not> label_ok l) (split_char CHR ''.'' name) then False
          else if read_dec port > 65535 then False
          else url_hostname h (''https://'' @ name) = Some name)"

definition canonicalNetworkDestinationSchema :: "host \<Rightarrow> string \<Rightarrow> bool" where
  "canonicalNetworkDestinationSchema h s \<longleftrightarrow>
     text_between 12 300 s \<and> match_destination s \<noteq> None \<and> isCanonicalNetworkDestination h s"


section \<open>Schemas of the domain records\<close>

definition authorityEnvelopeSchema :: "host \<Rightarrow> authority_envelope \<Rightarrow> bool" where
  "authorityEnvelopeSchema h a \<longleftrightarrow>
     safeId (ae_projectId a) \<and> safeId (allowedExecutor a) \<and>
     list_all safeId (allowedOperations a) \<and> 1 \<le> length (allowedOperations a) \<and> length (allowedOperations a) \<le> 100 \<and>
     list_all safeId (ae_credentialRefs a) \<and> length (ae_credentialRefs a) \<le> 50 \<and>
     list_all (text_between 1 1024) (filesystemRoots a) \<and> length (filesystemRoots a) \<le> 100 \<and>
     list_all (text_between 1 300) (allowedNetworkDestinations a) \<and> length (allowedNetworkDestinations a) \<le> 100 \<and>
     z_int (maxDurationSeconds a) \<and> 0 < maxDurationSeconds a \<and> maxDurationSeconds a \<le> 31536000 \<and>
     z_int (maxConcurrentEffects a) \<and> 0 \<le> maxConcurrentEffects a \<and> maxConcurrentEffects a \<le> 10000 \<and>
     opt_all nonNegativeMoney (maxCostUsd a) \<and> isoDate h (ae_expiresAt a) \<and>
     opt_all digest_pattern (parentDigest a) \<and> digest_pattern (ae_digest a) \<and>
     \<not> (networkPolicy a = NetNone \<and> length (allowedNetworkDestinations a) > 0) \<and>
     \<not> (networkPolicy a = NetAllowlist \<and> length (allowedNetworkDestinations a) = 0) \<and>
     \<not> (effectPolicy a = EffectsNone \<and> maxConcurrentEffects a \<noteq> 0) \<and>
     \<not> (effectPolicy a \<noteq> EffectsNone \<and> maxConcurrentEffects a = 0)"

definition requestRecordSchema :: "host \<Rightarrow> request_record \<Rightarrow> bool" where
  "requestRecordSchema h r \<longleftrightarrow> orderedRecord h r \<and>
     opt_all safeId (rq_projectId r) \<and> safeLabel (rq_title r) \<and> text_between 1 4000 (rq_objective r) \<and>
     z_int (rq_priority r) \<and> 0 \<le> rq_priority r \<and> rq_priority r \<le> 100 \<and>
     actorSchema (rq_requestedBy r) \<and> text_between 12 180 (rq_idempotencyKey r)"

definition workflowRecordSchema :: "host \<Rightarrow> workflow_record \<Rightarrow> bool" where
  "workflowRecordSchema h r \<longleftrightarrow> orderedRecord h r \<and>
     safeId (wf_requestId r) \<and> safeId (wf_projectId r) \<and> safeLabel (wf_definitionVersion r) \<and>
     digest_pattern (wf_definitionDigest r) \<and> list_all safeId (wf_jobIds r) \<and> length (wf_jobIds r) \<le> 10000"

definition retryPolicySchema :: "retry_policy \<Rightarrow> bool" where
  "retryPolicySchema p \<longleftrightarrow>
     z_int (maxAttempts p) \<and> 1 \<le> maxAttempts p \<and> maxAttempts p \<le> 100 \<and>
     z_int (backoffSeconds p) \<and> 0 \<le> backoffSeconds p \<and> backoffSeconds p \<le> 604800 \<and>
     list_all safeId (retryableFailureCodes p) \<and> length (retryableFailureCodes p) \<le> 100"

definition jobRecordSchema :: "host \<Rightarrow> job_record \<Rightarrow> bool" where
  "jobRecordSchema h r \<longleftrightarrow> orderedRecord h r \<and>
     safeId (jb_workflowId r) \<and> safeId (jb_projectId r) \<and> safeId (jb_jobType r) \<and> safeLabel (jb_specVersion r) \<and>
     digest_pattern (jb_inputDigest r) \<and> z_int (jb_priority r) \<and> 0 \<le> jb_priority r \<and> jb_priority r \<le> 100 \<and>
     safeId (jb_requiredCapability r) \<and> list_all safeId (jb_dependsOnJobIds r) \<and> length (jb_dependsOnJobIds r) \<le> 10000 \<and>
     authorityEnvelopeSchema h (jb_authority r) \<and> retryPolicySchema (jb_retryPolicy r) \<and>
     ae_projectId (jb_authority r) = jb_projectId r"

definition terminalAttemptStates :: "attempt_state list" where
  "terminalAttemptStates = [AttSucceeded, AttFailed, AttCancelled, AttOrphaned]"

definition modelSelectionSchema :: "model_selection \<Rightarrow> bool" where
  "modelSelectionSchema m \<longleftrightarrow>
     modelIdentifier (selectionKey m) \<and> modelIdentifier (ms_model m) \<and>
     opt_all modelIdentifier (ms_provider m) \<and> opt_all modelIdentifier (ms_profile m)"

definition attemptRecordSchema :: "host \<Rightarrow> attempt_record \<Rightarrow> bool" where
  "attemptRecordSchema h r \<longleftrightarrow> orderedRecord h r \<and>
     safeId (at_jobId r) \<and> z_int (at_attemptNumber r) \<and> 0 < at_attemptNumber r \<and>
     opt_all safeId (at_workerId r) \<and> opt_all safeId (at_nodeId r) \<and>
     opt_all (\<lambda>e. z_int e \<and> 0 < e) (at_leaseEpoch r) \<and> opt_all modelSelectionSchema (at_modelSelection r) \<and>
     isoDate h (at_offeredAt r) \<and> opt_all (isoDate h) (at_startedAt r) \<and> opt_all (isoDate h) (at_finishedAt r) \<and>
     opt_all safeId (at_safeFailureCode r) \<and>
     (at_state r \<in> set terminalAttemptStates) = truthy_text (at_finishedAt r) \<and>
     \<not> (at_state r \<in> set [AttRunning, AttWaiting, AttSucceeded, AttFailed] \<and> \<not> truthy_text (at_startedAt r)) \<and>
     opt_all (\<lambda>m. truthy_text (ms_provider m) = truthy_text (ms_profile m)
       \<and> (workerKind m = Hermes) = (truthy_text (ms_provider m) \<and> truthy_text (ms_profile m))) (at_modelSelection r)"

definition leaseRecordSchema :: "host \<Rightarrow> lease_record \<Rightarrow> bool" where
  "leaseRecordSchema h r \<longleftrightarrow> orderedRecord h r \<and>
     safeId (ls_jobId r) \<and> safeId (ls_attemptId r) \<and> safeId (ls_nodeId r) \<and>
     z_int (ls_epoch r) \<and> 0 < ls_epoch r \<and> isoDate h (ls_acquiredAt r) \<and> isoDate h (ls_expiresAt r) \<and>
     opt_all (isoDate h) (ls_renewedAt r) \<and>
     ms_less (date_parse (ls_acquiredAt r)) (date_parse (ls_expiresAt r))"

definition checkpointRecordSchema :: "host \<Rightarrow> checkpoint_record \<Rightarrow> bool" where
  "checkpointRecordSchema h r \<longleftrightarrow> orderedRecord h r \<and>
     safeId (ck_attemptId r) \<and> z_int (ck_sequence r) \<and> 0 \<le> ck_sequence r \<and> digest_pattern (ck_payloadDigest r) \<and>
     list_all safeId (ck_artifactIds r) \<and> length (ck_artifactIds r) \<le> 1000 \<and> opt_all (isoDate h) (ck_verifiedAt r) \<and>
     (ck_state r = CkVerified) = truthy_text (ck_verifiedAt r)"

definition effectIntentRecordSchema :: "host \<Rightarrow> effect_intent_record \<Rightarrow> bool" where
  "effectIntentRecordSchema h r \<longleftrightarrow> orderedRecord h r \<and>
     safeId (ef_jobId r) \<and> safeId (ef_attemptId r) \<and> safeId (ef_operation r) \<and> digest_pattern (ef_operationDigest r) \<and>
     (safeId (ef_destination r) \<or> canonicalNetworkDestinationSchema h (ef_destination r)) \<and>
     text_between 12 180 (ef_idempotencyKey r) \<and> opt_all safeId (ef_approvalId r) \<and>
     opt_all (text_between 1 500) (ef_destinationReceipt r) \<and> opt_all safeId (ef_safeFailureCode r) \<and>
     \<not> ((ef_risk r = High \<or> ef_risk r = Critical) \<and> \<not> truthy_text (ef_approvalId r)) \<and>
     \<not> (ef_state r = EffConfirmed \<and> \<not> truthy_text (ef_destinationReceipt r))"

definition approval_decided :: "approval_state \<Rightarrow> bool" where
  "approval_decided s \<longleftrightarrow> s = ApApproved \<or> s = ApDenied \<or> s = ApRevoked"

definition approvalRecordSchema :: "host \<Rightarrow> approval_record \<Rightarrow> bool" where
  "approvalRecordSchema h r \<longleftrightarrow> orderedRecord h r \<and>
     digest_pattern (ap_operationDigest r) \<and> safeId (ap_scope r) \<and> actorSchema (ap_requestedBy r) \<and>
     isoDate h (ap_expiresAt r) \<and> opt_all actorSchema (ap_decidedBy r) \<and> opt_all (isoDate h) (ap_decidedAt r) \<and>
     opt_all safeId (ap_safeReasonCode r) \<and>
     \<not> (approval_decided (ap_state r) \<and> (ap_decidedBy r = None \<or> \<not> truthy_text (ap_decidedAt r))) \<and>
     \<not> (\<not> approval_decided (ap_state r) \<and> (ap_decidedBy r \<noteq> None \<or> truthy_text (ap_decidedAt r)))"

definition serviceRecordSchema :: "host \<Rightarrow> service_record \<Rightarrow> bool" where
  "serviceRecordSchema h r \<longleftrightarrow> orderedRecord h r \<and>
     safeId (sv_projectId r) \<and> safeId (sv_serviceType r) \<and> digest_pattern (sv_desiredStateDigest r) \<and>
     opt_all (isoDate h) (sv_lastObservedAt r) \<and> opt_all (isoDate h) (sv_lastHealthyAt r) \<and>
     opt_all safeId (sv_safeStatusCode r)"

definition scheduleRecordSchema :: "host \<Rightarrow> schedule_record \<Rightarrow> bool" where
  "scheduleRecordSchema h r \<longleftrightarrow> orderedRecord h r \<and>
     safeId (sc_projectId r) \<and> text_between 1 300 (sc_expression r) \<and> text_between 1 100 (sc_timezone r) \<and>
     safeId (sc_targetId r) \<and> opt_all (isoDate h) (sc_nextRunAt r) \<and>
     z_int (sc_idempotencyWindowSeconds r) \<and> 0 < sc_idempotencyWindowSeconds r \<and> sc_idempotencyWindowSeconds r \<le> 31536000"

definition incidentRecordSchema :: "host \<Rightarrow> incident_record \<Rightarrow> bool" where
  "incidentRecordSchema h r \<longleftrightarrow> orderedRecord h r \<and>
     opt_all safeId (ic_projectId r) \<and> opt_all safeId (ic_nodeId r) \<and> safeId (ic_sourceType r) \<and> safeId (ic_sourceId r) \<and>
     text_between 1 1000 (ic_summary r) \<and> isoDate h (ic_openedAt r) \<and> opt_all (isoDate h) (ic_resolvedAt r) \<and>
     (ic_state r = IncResolved \<or> ic_state r = IncClosed) = truthy_text (ic_resolvedAt r)"

definition to_lower :: "char \<Rightarrow> char" where
  "to_lower c = (if is_upper c then char_of (of_char c + 32 :: nat) else c)"

text \<open>\<open>/(?:X-Amz-|token=|signature=)/i\<close>\<close>

definition signed_locator :: "string \<Rightarrow> bool" where
  "signed_locator s \<longleftrightarrow> (let t = map to_lower s in
     contains_text t ''x-amz-'' \<or> contains_text t ''token='' \<or> contains_text t ''signature='')"

definition artifactManifestRecordSchema :: "host \<Rightarrow> artifact_manifest_record \<Rightarrow> bool" where
  "artifactManifestRecordSchema h r \<longleftrightarrow> orderedRecord h r \<and>
     safeId (ar_projectId r) \<and> opt_all safeId (ar_workflowId r) \<and> safeId (ar_jobId r) \<and> safeId (ar_attemptId r) \<and>
     digest_pattern (ar_contentHash r) \<and> z_int (ar_sizeBytes r) \<and> 0 \<le> ar_sizeBytes r \<and> text_between 1 200 (ar_mimeType r) \<and>
     safeId (ar_logicalRole r) \<and> safeLabel (ar_schemaVersion r) \<and> safeId (ar_producerId r) \<and>
     opt_all (text_between 1 1000) (ar_opaqueLocator r) \<and> safeId (ar_retentionClass r) \<and>
     \<not> (ar_state r \<in> set [ArtUploaded, ArtVerified, ArtQuarantined] \<and> \<not> truthy_text (ar_opaqueLocator r)) \<and>
     opt_all (\<lambda>l. \<not> signed_locator l) (ar_opaqueLocator r)"

definition nodeRecordSchema :: "host \<Rightarrow> node_record \<Rightarrow> bool" where
  "nodeRecordSchema h r \<longleftrightarrow> orderedRecord h r \<and>
     safeLabel (nd_displayName r) \<and> safeLabel (nd_architecture r) \<and> safeId (nd_identityKeyId r) \<and>
     digest_pattern (nd_hardwareFingerprint r) \<and> digest_pattern (nd_softwareFingerprint r) \<and>
     safeLabel (nd_policyVersion r) \<and> safeLabel (nd_minimumProtocolVersion r) \<and>
     opt_all (isoDate h) (nd_enrolledAt r) \<and> opt_all (isoDate h) (nd_lastSeenAt r) \<and>
     opt_all safeId (nd_quarantineReasonCode r) \<and>
     \<not> (nd_state r \<noteq> NodePendingEnrollment \<and> \<not> truthy_text (nd_enrolledAt r)) \<and>
     \<not> (nd_state r = NodeQuarantined \<and> \<not> truthy_text (nd_quarantineReasonCode r))"

definition messageEnvelopeSchema :: "host \<Rightarrow> message_envelope \<Rightarrow> bool" where
  "messageEnvelopeSchema h m \<longleftrightarrow>
     safeLabel (me_protocol m) \<and> safeId (me_messageId m) \<and> safeId (me_correlationId m) \<and>
     opt_all safeId (me_causationId m) \<and> safeId (me_actorId m) \<and> safeId (me_tenantId m) \<and>
     isoDate h (me_sentAt m) \<and> isoDate h (me_expiresAt m) \<and> text_between 16 300 (me_nonce m) \<and> safeId (me_type m) \<and>
     digest_pattern (me_bodyDigest m) \<and> text_between 16 10000 (me_signature m) \<and>
     ms_less (date_parse (me_sentAt m)) (date_parse (me_expiresAt m))"

fun domainEntitySchema :: "host \<Rightarrow> domain_entity \<Rightarrow> bool" where
  "domainEntitySchema h (RequestEntity r) = requestRecordSchema h r"
| "domainEntitySchema h (WorkflowEntity r) = workflowRecordSchema h r"
| "domainEntitySchema h (JobEntity r) = jobRecordSchema h r"
| "domainEntitySchema h (AttemptEntity r) = attemptRecordSchema h r"
| "domainEntitySchema h (LeaseEntity r) = leaseRecordSchema h r"
| "domainEntitySchema h (CheckpointEntity r) = checkpointRecordSchema h r"
| "domainEntitySchema h (EffectIntentEntity r) = effectIntentRecordSchema h r"
| "domainEntitySchema h (ApprovalEntity r) = approvalRecordSchema h r"
| "domainEntitySchema h (ServiceEntity r) = serviceRecordSchema h r"
| "domainEntitySchema h (ScheduleEntity r) = scheduleRecordSchema h r"
| "domainEntitySchema h (IncidentEntity r) = incidentRecordSchema h r"
| "domainEntitySchema h (ArtifactManifestEntity r) = artifactManifestRecordSchema h r"
| "domainEntitySchema h (NodeEntity r) = nodeRecordSchema h r"


section \<open>Destinations are exactly the canonical texts\<close>

text \<open>The texts the check accepts, described directly: a scheme, a dotted host name and a port.\<close>

definition destination_text :: "string \<Rightarrow> int \<Rightarrow> string" where
  "destination_text name port = ''https://'' @ name @ '':'' @ int_text port"

definition ldh_label :: "string \<Rightarrow> bool" where
  "ldh_label l \<longleftrightarrow> l \<noteq> [] \<and> length l \<le> 63 \<and> (\<forall>c \<in> set l. is_lower_alnum c \<or> c = CHR ''-'') \<and>
     hd l \<noteq> CHR ''-'' \<and> last l \<noteq> CHR ''-''"

definition host_name :: "string \<Rightarrow> bool" where
  "host_name name \<longleftrightarrow> length name \<le> 253 \<and> (\<forall>l \<in> set (split_char CHR ''.'' name). ldh_label l)"

lemma digit_val_range: "is_digit c \<Longrightarrow> 0 \<le> digit_val c \<and> digit_val c < 10"
  using of_nat_of_char [of c, where ?'a = int] by (auto simp: is_digit_def digit_val_def less_eq_char_def)

lemma digit_char_digit_val:
  assumes "is_digit c" shows "digit_char (digit_val c) = c"
proof -
  have "digit_val (digit_char (digit_val c)) = digit_val c"
    using digit_val_range [OF assms] by simp
  then show ?thesis
    by (simp add: digit_val_def)
qed

lemma read_dec_snoc: "read_dec (xs @ [c]) = 10 * read_dec xs + digit_val c"
  by (simp add: read_dec_def)

lemma read_dec_pos: "list_all is_digit p \<Longrightarrow> p \<noteq> [] \<Longrightarrow> hd p \<noteq> CHR ''0'' \<Longrightarrow> 0 < read_dec p"
proof (induction p rule: rev_induct)
  case (snoc c p)
  have c: "0 \<le> digit_val c" using snoc.prems digit_val_range by simp
  show ?case
  proof (cases p)
    case Nil
    then have "digit_val c \<noteq> 0" using snoc.prems digit_char_digit_val [of c] by (auto simp: digit_char_def)
    with c Nil show ?thesis by (simp add: read_dec_def)
  next
    case (Cons d ds)
    then have "0 < read_dec p" using snoc by simp
    with c show ?thesis by (simp add: read_dec_snoc)
  qed
qed simp

lemma int_text_read_dec:
  "list_all is_digit p \<Longrightarrow> p \<noteq> [] \<Longrightarrow> hd p \<noteq> CHR ''0'' \<Longrightarrow> int_text (read_dec p) = p"
proof (induction p rule: rev_induct)
  case (snoc c p)
  have c: "0 \<le> digit_val c" "digit_val c < 10" "digit_char (digit_val c) = c"
    using snoc.prems digit_val_range digit_char_digit_val by simp_all
  show ?case
  proof (cases p)
    case Nil
    with c show ?thesis by (simp add: read_dec_def int_text.simps)
  next
    case (Cons d ds)
    then have IH: "int_text (read_dec p) = p" "0 < read_dec p" using snoc read_dec_pos [of p] by simp_all
    then have "int_text (10 * read_dec p + digit_val c) = int_text (read_dec p) @ [c]"
      using c by (subst int_text.simps) simp
    with IH show ?thesis by (simp add: read_dec_snoc)
  qed
qed simp

lemma int_text_no_leading_zero: "0 < n \<Longrightarrow> int_text n \<noteq> [] \<and> hd (int_text n) \<noteq> CHR ''0''"
proof (induction n rule: int_text.induct)
  case (1 n)
  show ?case
  proof (cases "n < 10")
    case True
    with 1(2) have "digit_val (digit_char n) = n" by simp
    with 1(2) True show ?thesis by (auto simp: int_text.simps [of n] digit_val_def)
  next
    case False
    with 1 have "int_text (n div 10) \<noteq> [] \<and> hd (int_text (n div 10)) \<noteq> CHR ''0''" by simp
    with False show ?thesis by (simp add: int_text.simps [of n])
  qed
qed

lemma port_group_iff:
  "port_group p \<and> read_dec p \<le> 65535 \<longleftrightarrow> (\<exists>n. 1 \<le> n \<and> n \<le> 65535 \<and> p = int_text n)"
proof (intro iffI; (elim exE conjE)?)
  assume "port_group p" "read_dec p \<le> 65535"
  then show "\<exists>n. 1 \<le> n \<and> n \<le> 65535 \<and> p = int_text n"
    using int_text_read_dec [of p] read_dec_pos [of p] by (intro exI [of _ "read_dec p"]) (auto simp: port_group_def)
next
  fix n assume n: "1 \<le> n" "n \<le> 65535" "p = int_text n"
  have "(10::int) ^ (length p - 1) < 10 ^ 5" using int_text_length [of n] n by simp
  then have "length p - 1 < 5" by (simp add: power_strict_increasing_iff del: power_numeral)
  then show "port_group p \<and> read_dec p \<le> 65535"
    using n int_text_no_leading_zero [of n] int_text_digits [of n] read_dec_int_text [of n]
    by (auto simp: port_group_def)
qed

lemma host_group_no_colon: "host_group name \<Longrightarrow> CHR '':'' \<notin> set name"
  by (auto simp: host_group_def list_all_iff is_host_char_def is_lower_def is_digit_def less_eq_char_def)

lemma first_separator:
  "length (takeWhile (\<lambda>c. c \<noteq> d) r) < length r \<and> takeWhile (\<lambda>c. c \<noteq> d) r = n
   \<and> drop (Suc (length (takeWhile (\<lambda>c. c \<noteq> d) r))) r = p \<longleftrightarrow> d \<notin> set n \<and> r = n @ d # p"
proof (intro iffI; elim conjE)
  let ?w = "takeWhile (\<lambda>c. c \<noteq> d) r"
  assume n: "length ?w < length r" "?w = n" "drop (Suc (length ?w)) r = p"
  have "d \<notin> set n" using n(2) by (auto dest: set_takeWhileD)
  moreover have "r ! length ?w = d" using n(1) nth_length_takeWhile by blast
  then have "r = n @ d # p"
    using n id_take_nth_drop [OF n(1)] takeWhile_eq_take [of _ r] by metis
  ultimately show "d \<notin> set n \<and> r = n @ d # p" ..
next
  assume "d \<notin> set n" "r = n @ d # p"
  moreover from this have "takeWhile (\<lambda>c. c \<noteq> d) r = n" by (simp add: takeWhile_append takeWhile_eq_all_conv)
  ultimately show "length (takeWhile (\<lambda>c. c \<noteq> d) r) < length r \<and> takeWhile (\<lambda>c. c \<noteq> d) r = n
   \<and> drop (Suc (length (takeWhile (\<lambda>c. c \<noteq> d) r))) r = p" by simp
qed

lemma match_destination_iff:
  "match_destination s = Some (name, port) \<longleftrightarrow>
     s = ''https://'' @ name @ '':'' @ port \<and> host_group name \<and> port_group port"
proof (cases "starts_with s ''https://''")
  case True
  then obtain r where s: "s = ''https://'' @ r" using starts_with_iff by blast
  have "match_destination s = Some (name, port) \<longleftrightarrow>
      (length (takeWhile (\<lambda>c. c \<noteq> CHR '':'') r) < length r \<and> takeWhile (\<lambda>c. c \<noteq> CHR '':'') r = name
        \<and> drop (Suc (length (takeWhile (\<lambda>c. c \<noteq> CHR '':'') r))) r = port) \<and> host_group name \<and> port_group port"
    by (simp add: match_destination_def s starts_with_iff Let_def) blast
  then show ?thesis
    unfolding first_separator using host_group_no_colon by (auto simp: s)
next
  case False
  then show ?thesis by (auto simp: match_destination_def starts_with_iff)
qed

lemma label_ok_iff: "label_ok l \<longleftrightarrow> ldh_label l"
proof (cases l rule: rev_cases)
  case Nil
  then show ?thesis by (simp add: label_ok_def ldh_label_def)
next
  case (snoc xs x)
  then show ?thesis
    by (cases xs) (auto simp: label_ok_def ldh_label_def is_lower_alnum_def list_all_iff starts_with_def ends_with_def)
qed

lemma split_char_hd: "hd (split_char d s) \<noteq> [] \<Longrightarrow> s \<noteq> [] \<and> hd s = hd (hd (split_char d s))"
  by (cases s) (auto split: list.splits if_splits)

lemma split_char_last: "last (split_char d s) \<noteq> [] \<Longrightarrow> s \<noteq> [] \<and> last s = last (last (split_char d s))"
proof (induction s)
  case (Cons c s)
  then show ?case by (cases s) (auto split: list.splits if_splits)
qed simp

lemma split_char_set: "set s \<subseteq> insert d (\<Union>l \<in> set (split_char d s). set l)"
proof (induction s)
  case (Cons c s)
  then show ?case by (cases "split_char d s") auto
qed simp

lemma split_char_double: "contains_text s [d, d] \<Longrightarrow> [] \<in> set (tl (split_char d s))"
proof (induction s)
  case (Cons c s)
  show ?case
  proof (cases "starts_with (c # s) [d, d]")
    case True
    then obtain r where "c = d" "s = d # r" by (auto simp: starts_with_iff)
    then show ?thesis by simp
  next
    case False
    with Cons have "[] \<in> set (tl (split_char d s))" by simp
    then show ?thesis by (cases "split_char d s") auto
  qed
qed simp

lemma ldh_label_ends: "ldh_label l \<Longrightarrow> l \<noteq> [] \<and> is_lower_alnum (hd l) \<and> is_lower_alnum (last l)"
  unfolding ldh_label_def by (metis hd_in_set last_in_set)

lemma host_name_group:
  assumes "host_name name" shows "host_group name \<and> \<not> contains_text name ''..''"
proof -
  let ?ls = "split_char CHR ''.'' name"
  have ok: "\<forall>l \<in> set ?ls. ldh_label l" using assms by (simp add: host_name_def)
  have hd: "ldh_label (hd ?ls)" and last: "ldh_label (last ?ls)" using ok by simp_all
  have "\<forall>l \<in> set ?ls. \<forall>c \<in> set l. is_host_char c"
    using ok by (auto simp: ldh_label_def is_host_char_def is_lower_alnum_def)
  then have "list_all is_host_char name"
    using split_char_set [of name "CHR ''.''"] by (auto simp: list_all_iff is_host_char_def)
  moreover have "name \<noteq> []" "is_lower_alnum (hd name)" "is_lower_alnum (last name)"
    using hd last split_char_hd split_char_last by (metis ldh_label_ends)+
  moreover have "\<not> contains_text name ''..''"
    using ok split_char_double [of name "CHR ''.''"] by (cases ?ls) (auto simp: ldh_label_def)
  ultimately show ?thesis using assms by (simp add: host_group_def host_name_def)
qed

text \<open>
  The destination check accepts exactly the texts \<open>https://<host>:<port>\<close> whose host is a
  dotted name of at most 253 characters, with labels of 1 to 63 lower-case letters, digits and
  inner hyphens, which the URL parser leaves unchanged, and whose port is a decimal number
  between 1 and 65535 without leading zeros.
\<close>

lemma isCanonicalNetworkDestination_exact:
  "isCanonicalNetworkDestination h s \<longleftrightarrow>
     (\<exists>name port. s = destination_text name port \<and> host_name name \<and> 1 \<le> port \<and> port \<le> 65535
        \<and> url_hostname h (''https://'' @ name) = Some name)" (is "?check \<longleftrightarrow> ?spec")
proof
  assume ?check
  then obtain name p where m: "match_destination s = Some (name, p)"
      and labels: "\<not> list_ex (\<lambda>l. \<not> label_ok l) (split_char CHR ''.'' name)"
      and port: "read_dec p \<le> 65535" and url: "url_hostname h (''https://'' @ name) = Some name"
    by (auto simp: isCanonicalNetworkDestination_def split: option.splits if_splits)
  from m have s: "s = ''https://'' @ name @ '':'' @ p" "host_group name" "port_group p"
    by (simp_all add: match_destination_iff)
  obtain n where "1 \<le> n" "n \<le> 65535" "p = int_text n" using port_group_iff port s(3) by blast
  moreover have "host_name name"
    using labels s(2) by (auto simp: host_name_def host_group_def list_ex_iff label_ok_iff)
  ultimately show ?spec using s(1) url by (auto simp: destination_text_def)
next
  assume ?spec
  then obtain name port where s: "s = destination_text name port" "host_name name" "1 \<le> port" "port \<le> 65535"
    "url_hostname h (''https://'' @ name) = Some name" by blast
  then have "match_destination s = Some (name, int_text port) \<and> read_dec (int_text port) \<le> 65535"
    using host_name_group [OF s(2)] port_group_iff [of "int_text port"] unfolding match_destination_iff
    by (auto simp: destination_text_def)
  then show ?check
    using s host_name_group [OF s(2)]
    by (auto simp: isCanonicalNetworkDestination_def list_ex_iff label_ok_iff host_name_def)
qed


section \<open>Delegation between validated envelopes\<close>

text \<open>
  Delegation among validated envelopes only narrows: when every envelope of a chain satisfies
  the schema and every link was accepted, the last one stays within every scope of the first,
  expires no later, reaches no network if the first has none, and performs no effects if the first
  permits none. The schema's date format is assumed to admit only texts the language can parse.
\<close>

lemma validated_chain_attenuates:
  assumes dates: "\<And>b t. zod_datetime h b t \<Longrightarrow> date_parse t \<noteq> None"
    and "\<forall>a \<in> set (origin # chain). authorityEnvelopeSchema h a" and "delegation_chain (origin # chain)"
  shows "let leaf = last (origin # chain) in
    scope_within origin leaf \<and> ms_leq (date_parse (ae_expiresAt leaf)) (date_parse (ae_expiresAt origin)) \<and>
    (networkPolicy origin = NetNone \<longrightarrow> networkPolicy leaf = NetNone \<and> allowedNetworkDestinations leaf = []) \<and>
    (effectPolicy origin = EffectsNone \<longrightarrow> effectPolicy leaf = EffectsNone \<and> maxConcurrentEffects leaf = 0)"
proof -
  let ?leaf = "last (origin # chain)"
  have "\<forall>a \<in> set (origin # chain). date_parse (ae_expiresAt a) \<noteq> None"
    using assms(2) dates unfolding authorityEnvelopeSchema_def isoDate_def by blast
  with delegation_chain_last [OF assms(3)]
  have within: "scope_within origin ?leaf" "expires_within origin ?leaf" by simp_all
  have leaf: "authorityEnvelopeSchema h ?leaf" using assms(2) last_in_set [of "origin # chain"] by simp
  have net: "allowedNetworkDestinations ?leaf = []" if "networkPolicy ?leaf = NetNone"
    using leaf that by (simp add: authorityEnvelopeSchema_def)
  have eff: "maxConcurrentEffects ?leaf = 0" if "effectPolicy ?leaf = EffectsNone"
    using leaf that by (simp add: authorityEnvelopeSchema_def)
  have "effectPolicy ?leaf = EffectsNone" if "effectPolicy origin = EffectsNone"
    using within(1) that by (cases "effectPolicy ?leaf") (simp_all add: scope_within_def)
  with within net eff show ?thesis by (simp add: Let_def scope_within_def expires_within_def)
qed

text \<open>A valid envelope and a valid child of it that is read-only and shorter.\<close>

definition sample_digest :: "char \<Rightarrow> string" where
  "sample_digest c = ''sha256:'' @ replicate 64 c"

definition sample_parent :: authority_envelope where
  "sample_parent = sample_envelope (sample_digest CHR ''a'')"

definition sample_child :: authority_envelope where
  "sample_child = sample_parent\<lparr>effectPolicy := EffectsNone, maxConcurrentEffects := 0, maxDurationSeconds := 60,
     parentDigest := Some (ae_digest sample_parent), ae_digest := sample_digest CHR ''b''\<rparr>"

lemma sample_digest_pattern [simp]: "is_hex c \<Longrightarrow> digest_pattern (sample_digest c)"
  by (simp add: sample_digest_def digest_pattern_def list_all_iff)

lemmas schema_eval = authorityEnvelopeSchema_def safeId_def text_between_def z_int_def isoDate_def
  nonNegativeMoney_def sample_host_def sample_envelope_def sample_parent_def sample_child_def
  is_id_char_def is_alnum_def is_lower_def is_upper_def is_digit_def is_hex_def less_eq_char_def

end
