(* ===== verification/Node_Policy_Schemas.thy ===== *)
theory Node_Policy_Schemas
  imports Node_Policy_Types Domain_Validators
begin

text \<open>
  The artifact digests and signatures of \<open>src/node-policy/v1/crypto.ts\<close>, the schemas of
  \<open>src/node-policy/v1/schemas.ts\<close> and the clock check of \<open>src/node-policy/v1/clock.ts\<close>. Each
  artifact body has its JSON value; the digest material is that value without \<open>bodyDigest\<close>.
  Signature verification is the host's \<open>ed25519_verify\<close>, applied to the key, the canonical text
  of the body and the signature; it is \<open>None\<close> where the key cannot be read or has another type,
  which the code throws on.
\<close>

section \<open>JSON values of the artifacts\<close>

definition ceiling_material :: "node_authority_ceiling \<Rightarrow> (string \<times> json) list" where
  "ceiling_material c =
     [(''schema'', JStr (nc_schema c)), (''tenantId'', JStr (nc_tenantId c)), (''nodeId'', JStr (nc_nodeId c)),
      (''version'', JNum (nc_version c)), (''issuedAt'', JStr (nc_issuedAt c)), (''issuerKeyId'', JStr (nc_issuerKeyId c)),
      (''projectIds'', str_array (nc_projectIds c)), (''executorIds'', str_array (nc_executorIds c)),
      (''operationIds'', str_array (nc_operationIds c)), (''credentialRefs'', str_array (nc_credentialRefs c)),
      (''filesystemRoots'', str_array (nc_filesystemRoots c)), (''networkDestinations'', str_array (nc_networkDestinations c)),
      (''maxRisk'', JStr (risk_text (nc_maxRisk c))), (''externalEffects'', JStr (effect_policy_text (nc_externalEffects c))),
      (''maxDurationSeconds'', JNum (nc_maxDurationSeconds c)), (''maxConcurrentEffects'', JNum (nc_maxConcurrentEffects c))]
     @ opt_field ''maxCostUsd'' JStr (nc_maxCostUsd c)"

fun trust_key_state_text :: "trust_key_state \<Rightarrow> string" where
  "trust_key_state_text TrustActive = ''active''"
| "trust_key_state_text TrustRetired = ''retired''"
| "trust_key_state_text TrustRevoked = ''revoked''"

definition trust_key_json :: "server_trust_key \<Rightarrow> json" where
  "trust_key_json k = JObj [(''keyId'', JStr (tk_keyId k)), (''algorithm'', JStr (tk_algorithm k)),
     (''spki'', JStr (tk_spki k)), (''state'', JStr (trust_key_state_text (tk_state k)))]"

definition bundle_material :: "server_trust_bundle_body \<Rightarrow> (string \<times> json) list" where
  "bundle_material b =
     [(''schema'', JStr (tb_schema b)), (''tenantId'', JStr (tb_tenantId b)), (''nodeClass'', JStr (tb_nodeClass b)),
      (''epoch'', JNum (tb_epoch b)), (''issuedAt'', JStr (tb_issuedAt b)), (''ownerRootKeyId'', JStr (tb_ownerRootKeyId b)),
      (''keys'', JArr (map trust_key_json (tb_keys b)))]"

definition approval_material :: "owner_approval_attestation_body \<Rightarrow> (string \<times> json) list" where
  "approval_material b =
     [(''schema'', JStr (ob_schema b)), (''tenantId'', JStr (ob_tenantId b))]
     @ opt_field ''nodeId'' JStr (ob_nodeId b) @ opt_field ''nodeClass'' JStr (ob_nodeClass b)
     @ [(''projectId'', JStr (ob_projectId b)), (''jobId'', JStr (ob_jobId b)), (''attemptId'', JStr (ob_attemptId b)),
        (''operationDigest'', JStr (ob_operationDigest b)), (''risk'', JStr (risk_text (ob_risk b))),
        (''decision'', JStr (ob_decision b)), (''issuedAt'', JStr (ob_issuedAt b)), (''expiresAt'', JStr (ob_expiresAt b)),
        (''nonce'', JStr (ob_nonce b)), (''approvalKeyId'', JStr (ob_approvalKeyId b))]"

definition with_digest :: "(string \<times> json) list \<Rightarrow> string \<Rightarrow> json" where
  "with_digest material d = JObj (material @ [(''bodyDigest'', JStr d)])"


section \<open>Digests and signatures\<close>

definition artifactDigestMaterial :: "json \<Rightarrow> json" where
  "artifactDigestMaterial v =
     (case v of JObj kvs \<Rightarrow> JObj (filter (\<lambda>kv. fst kv \<noteq> ''bodyDigest'') kvs) | _ \<Rightarrow> v)"

definition computeArtifactBodyDigest :: "host \<Rightarrow> json \<Rightarrow> string" where
  "computeArtifactBodyDigest h body = sha256Digest h (artifactDigestMaterial body)"

definition assertArtifactBodyDigest :: "host \<Rightarrow> json \<Rightarrow> string \<Rightarrow> (string, unit) result" where
  "assertArtifactBodyDigest h body bodyDigest =
     (if computeArtifactBodyDigest h body \<noteq> bodyDigest then Inl ''Artifact body digest mismatch'' else Inr ())"

definition verifyArtifactSignature :: "host \<Rightarrow> json \<Rightarrow> string \<Rightarrow> string \<Rightarrow> string \<Rightarrow> (string, bool) result" where
  "verifyArtifactSignature h body bodyDigest signature publicKeySpki =
     bind_result (assertArtifactBodyDigest h body bodyDigest) (\<lambda>_.
       case ed25519_verify h publicKeySpki (canonicalJson body) signature of
         None \<Rightarrow> Inl ''Only Ed25519 artifact keys are accepted''
       | Some ok \<Rightarrow> Inr ok)"

definition trustBundleShrinkAuthorizationMaterial :: "string \<Rightarrow> string \<Rightarrow> json" where
  "trustBundleShrinkAuthorizationMaterial keyId bundleBodyDigest =
     JObj [(''schema'', JStr ''control-room.trust-bundle-shrink-authorization/v1''), (''keyId'', JStr keyId),
       (''bundleBodyDigest'', JStr bundleBodyDigest)]"

definition verifyTrustBundleShrinkAuthorization ::
    "host \<Rightarrow> trust_bundle_shrink_authorization \<Rightarrow> string \<Rightarrow> (string, bool) result" where
  "verifyTrustBundleShrinkAuthorization h a publicKeySpki =
     (case ed25519_verify h publicKeySpki
             (canonicalJson (trustBundleShrinkAuthorizationMaterial (sh_keyId a) (sh_bundleBodyDigest a)))
             (sh_signature a) of
        None \<Rightarrow> Inl ''Only Ed25519 artifact keys are accepted''
      | Some ok \<Rightarrow> Inr ok)"

lemma digest_material_with_digest:
  "''bodyDigest'' \<notin> fst ` set material \<Longrightarrow> artifactDigestMaterial (with_digest material d) = JObj material"
  by (auto simp: artifactDigestMaterial_def with_digest_def image_iff filter_id_conv)

lemma ceiling_material_keys: "''bodyDigest'' \<notin> fst ` set (ceiling_material c)"
  by (cases "nc_maxCostUsd c") (simp_all add: ceiling_material_def)

lemma bundle_material_keys: "''bodyDigest'' \<notin> fst ` set (bundle_material b)"
  by (simp add: bundle_material_def)

lemma approval_material_keys: "''bodyDigest'' \<notin> fst ` set (approval_material a)"
  by (cases "ob_nodeId a"; cases "ob_nodeClass a") (simp_all add: approval_material_def)

lemmas artifact_material [simp] =
  ceiling_material_keys [THEN digest_material_with_digest]
  bundle_material_keys [THEN digest_material_with_digest]
  approval_material_keys [THEN digest_material_with_digest]

definition ceiling_json :: "node_authority_ceiling \<Rightarrow> json" where
  "ceiling_json c = with_digest (ceiling_material c) (nc_bodyDigest c)"

definition bundle_json :: "server_trust_bundle_body \<Rightarrow> json" where
  "bundle_json b = with_digest (bundle_material b) (tb_bodyDigest b)"

definition approval_json :: "owner_approval_attestation_body \<Rightarrow> json" where
  "approval_json b = with_digest (approval_material b) (ob_bodyDigest b)"


section \<open>Clock\<close>

text \<open>\<open>/^\d{4}-\d{2}-\d{2}T\d{2}:\d{2}:\d{2}(?:\.\d{3})?Z$/\<close>, as a picture in which \<open>0\<close> stands for a digit.\<close>

fun matches_picture :: "string \<Rightarrow> string \<Rightarrow> bool" where
  "matches_picture [] [] = True"
| "matches_picture (p # ps) (c # cs) = ((if p = CHR ''0'' then is_digit c else p = c) \<and> matches_picture ps cs)"
| "matches_picture _ _ = False"

definition requireCanonicalClockInstant :: "string \<Rightarrow> (string, string) result" where
  "requireCanonicalClockInstant v =
     (if \<not> (matches_picture ''0000-00-00T00:00:00Z'' v \<or> matches_picture ''0000-00-00T00:00:00.000Z'' v)
         \<or> date_parse v = None
      then Inl ''Clock instant must be canonical RFC 3339 UTC'' else Inr v)"

lemma requireCanonicalClockInstant_Inr:
  "requireCanonicalClockInstant v = Inr w \<Longrightarrow> w = v \<and> (\<exists>t. date_parse v = Some t)"
  by (auto simp: requireCanonicalClockInstant_def split: if_splits)


section \<open>Canonical paths and amounts\<close>

definition non_empty_segments :: "char \<Rightarrow> string \<Rightarrow> string list" where
  "non_empty_segments d s = filter (\<lambda>w. w \<noteq> []) (split_char d s)"

definition unix_path :: "string \<Rightarrow> bool" where
  "unix_path v \<longleftrightarrow> starts_with v ''/'' \<and> \<not> starts_with v ''//'' \<and> CHR 0x5C \<notin> set v"

definition drive_prefix :: "string \<Rightarrow> bool" where
  "drive_prefix v \<longleftrightarrow> 3 \<le> length v \<and> is_upper (v ! 0) \<and> v ! 1 = CHR '':'' \<and> v ! 2 = CHR 0x5C"

definition windows_path :: "string \<Rightarrow> bool" where
  "windows_path v \<longleftrightarrow> drive_prefix v \<and> CHR ''/'' \<notin> set v"

definition to_upper :: "char \<Rightarrow> char" where
  "to_upper c = (if is_lower c then char_of (of_char c - 32 :: nat) else c)"

definition reserved_device :: "string \<Rightarrow> bool" where
  "reserved_device d \<longleftrightarrow>
     d \<in> set [''CON'', ''PRN'', ''AUX'', ''NUL''] \<or>
     (length d = 4 \<and> take 3 d \<in> set [''COM'', ''LPT''] \<and> CHR ''1'' \<le> d ! 3 \<and> d ! 3 \<le> CHR ''9'')"

definition windows_segment_bad :: "string \<Rightarrow> bool" where
  "windows_segment_bad segment \<longleftrightarrow>
     list_ex (\<lambda>c. c \<in> set ''<>:|?*'' \<or> c = CHR 0x22) segment \<or> ends_with segment ''.'' \<or> ends_with segment '' ''
     \<or> reserved_device (map to_upper (hd (split_char CHR ''.'' segment)))"

definition isCanonicalFilesystemPath :: "string \<Rightarrow> bool" where
  "isCanonicalFilesystemPath v =
     (if list_ex (\<lambda>c. (of_char c :: nat) \<le> 31 \<or> (of_char c :: nat) = 127) v then False
      else if \<not> unix_path v \<and> \<not> windows_path v then False
      else if list_ex (\<lambda>w. w = ''.'' \<or> w = ''..'')
                (non_empty_segments (if windows_path v then CHR 0x5C else CHR ''/'') v) then False
      else if windows_path v \<and> list_ex windows_segment_bad (drop 1 (non_empty_segments CHR 0x5C v)) then False
      else if contains_text v (if windows_path v then [CHR 0x5C, CHR 0x5C] else ''//'') then False
      else (if windows_path v then drive_prefix v \<and> length v = 3 else v = ''/'')
        \<or> \<not> ends_with v (if windows_path v then [CHR 0x5C] else ''/''))"

definition canonicalFilesystemPathSchema :: "string \<Rightarrow> bool" where
  "canonicalFilesystemPathSchema v \<longleftrightarrow> text_between 1 1024 v \<and> isCanonicalFilesystemPath v"

text \<open>\<open>/^(?:0|[1-9][0-9]*)(?:\.[0-9]{0,5}[1-9])?$/\<close>: the integral digits end at the first point.\<close>

definition integral_digits :: "string \<Rightarrow> bool" where
  "integral_digits w \<longleftrightarrow> w = ''0'' \<or> (w \<noteq> [] \<and> list_all is_digit w \<and> hd w \<noteq> CHR ''0'')"

definition canonicalMoney :: "string \<Rightarrow> bool" where
  "canonicalMoney v \<longleftrightarrow> text_between 1 32 v \<and>
     (case split_char CHR ''.'' v of
        [w] \<Rightarrow> integral_digits w
      | [w, f] \<Rightarrow> integral_digits w \<and> f \<noteq> [] \<and> length f \<le> 6 \<and> list_all is_digit f \<and> last f \<noteq> CHR ''0''
      | _ \<Rightarrow> False)"

definition sortedUnique :: "('a::linorder \<Rightarrow> bool) \<Rightarrow> nat \<Rightarrow> nat \<Rightarrow> 'a list \<Rightarrow> bool" where
  "sortedUnique item maximum minimum xs \<longleftrightarrow>
     list_all item xs \<and> minimum \<le> length xs \<and> length xs \<le> maximum \<and> distinct xs \<and> sort xs = xs"

definition isoInstant :: "host \<Rightarrow> string \<Rightarrow> bool" where
  "isoInstant h s = zod_datetime h False s"

definition base64url :: "string \<Rightarrow> bool" where
  "base64url s \<longleftrightarrow> text_between 16 16384 s \<and> base64url_pattern s"

definition positive_int :: "rat \<Rightarrow> bool" where
  "positive_int r \<longleftrightarrow> z_int r \<and> 0 < r"

definition nonnegative_int :: "rat \<Rightarrow> bool" where
  "nonnegative_int r \<longleftrightarrow> z_int r \<and> 0 \<le> r"


section \<open>Schemas of the artifacts\<close>

definition signedArtifactShape :: "('b, 'm) signed_artifact_scheme \<Rightarrow> bool" where
  "signedArtifactShape a \<longleftrightarrow> sa_signatureAlgorithm a = ''Ed25519'' \<and> base64url (sa_signature a)"

definition nodeAuthorityCeilingBodySchema :: "host \<Rightarrow> node_authority_ceiling \<Rightarrow> bool" where
  "nodeAuthorityCeilingBodySchema h c \<longleftrightarrow>
     nc_schema c = NODE_CEILING_SCHEMA_V1 \<and> safeId (nc_tenantId c) \<and> safeId (nc_nodeId c) \<and>
     positive_int (nc_version c) \<and> isoInstant h (nc_issuedAt c) \<and> safeId (nc_issuerKeyId c) \<and>
     sortedUnique safeId 1000 1 (nc_projectIds c) \<and> sortedUnique safeId 500 1 (nc_executorIds c) \<and>
     sortedUnique safeId 2000 1 (nc_operationIds c) \<and> sortedUnique safeId 500 0 (nc_credentialRefs c) \<and>
     sortedUnique canonicalFilesystemPathSchema 500 0 (nc_filesystemRoots c) \<and>
     sortedUnique (canonicalNetworkDestinationSchema h) 500 0 (nc_networkDestinations c) \<and>
     positive_int (nc_maxDurationSeconds c) \<and> nc_maxDurationSeconds c \<le> 31536000 \<and>
     nonnegative_int (nc_maxConcurrentEffects c) \<and> nc_maxConcurrentEffects c \<le> 10000 \<and>
     opt_all canonicalMoney (nc_maxCostUsd c) \<and> digest_pattern (nc_bodyDigest c) \<and>
     computeArtifactBodyDigest h (ceiling_json c) = nc_bodyDigest c \<and>
     \<not> (nc_externalEffects c = EffectsNone \<and> nc_maxConcurrentEffects c \<noteq> 0) \<and>
     \<not> (nc_externalEffects c = EffectsNone \<and> length (nc_networkDestinations c) \<noteq> 0) \<and>
     \<not> (nc_externalEffects c \<noteq> EffectsNone \<and> nc_maxConcurrentEffects c = 0)"

definition signedNodeAuthorityCeilingSchema :: "host \<Rightarrow> signed_ceiling \<Rightarrow> bool" where
  "signedNodeAuthorityCeilingSchema h a \<longleftrightarrow> nodeAuthorityCeilingBodySchema h (sa_body a) \<and> signedArtifactShape a"

definition serverTrustKeySchema :: "server_trust_key \<Rightarrow> bool" where
  "serverTrustKeySchema k \<longleftrightarrow> safeId (tk_keyId k) \<and> tk_algorithm k = ''ed25519'' \<and> base64url (tk_spki k)"

definition trustBundleShrinkAuthorizationSchema :: "trust_bundle_shrink_authorization \<Rightarrow> bool" where
  "trustBundleShrinkAuthorizationSchema a \<longleftrightarrow> safeId (sh_keyId a) \<and> digest_pattern (sh_bundleBodyDigest a) \<and>
     sh_signatureAlgorithm a = ''Ed25519'' \<and> base64url (sh_signature a)"

text \<open>\<open>keyIds.some((keyId, index) => index > 0 && keyIds[index - 1] > keyId)\<close>\<close>

fun has_descent :: "string list \<Rightarrow> bool" where
  "has_descent (x # y # zs) = (x > y \<or> has_descent (y # zs))"
| "has_descent _ = False"

definition serverTrustBundleBodySchema :: "host \<Rightarrow> server_trust_bundle_body \<Rightarrow> bool" where
  "serverTrustBundleBodySchema h b \<longleftrightarrow>
     tb_schema b = SERVER_TRUST_BUNDLE_SCHEMA_V1 \<and> safeId (tb_tenantId b) \<and> safeId (tb_nodeClass b) \<and>
     positive_int (tb_epoch b) \<and> isoInstant h (tb_issuedAt b) \<and> safeId (tb_ownerRootKeyId b) \<and>
     list_all serverTrustKeySchema (tb_keys b) \<and> 1 \<le> length (tb_keys b) \<and> length (tb_keys b) \<le> 64 \<and>
     digest_pattern (tb_bodyDigest b) \<and> computeArtifactBodyDigest h (bundle_json b) = tb_bodyDigest b \<and>
     distinct (map tk_keyId (tb_keys b)) \<and> distinct (map tk_spki (tb_keys b)) \<and>
     \<not> list_all (\<lambda>k. tk_state k \<noteq> TrustActive) (tb_keys b) \<and> \<not> has_descent (map tk_keyId (tb_keys b))"

definition ownerSignedTrustBundleSchema :: "host \<Rightarrow> owner_signed_trust_bundle \<Rightarrow> bool" where
  "ownerSignedTrustBundleSchema h a \<longleftrightarrow>
     serverTrustBundleBodySchema h (sa_body a) \<and> signedArtifactShape a \<and>
     opt_all trustBundleShrinkAuthorizationSchema (shrinkAuthorization a) \<and>
     opt_all (\<lambda>s. sh_bundleBodyDigest s = tb_bodyDigest (sa_body a)) (shrinkAuthorization a)"

definition ownerApprovalAttestationBodySchema :: "host \<Rightarrow> owner_approval_attestation_body \<Rightarrow> bool" where
  "ownerApprovalAttestationBodySchema h b \<longleftrightarrow>
     ob_schema b = APPROVAL_ATTESTATION_SCHEMA_V1 \<and> safeId (ob_tenantId b) \<and> opt_all safeId (ob_nodeId b) \<and>
     opt_all safeId (ob_nodeClass b) \<and> safeId (ob_projectId b) \<and> safeId (ob_jobId b) \<and> safeId (ob_attemptId b) \<and>
     digest_pattern (ob_operationDigest b) \<and> ob_decision b = ''approved'' \<and> isoInstant h (ob_issuedAt b) \<and>
     isoInstant h (ob_expiresAt b) \<and> base64url (ob_nonce b) \<and> safeId (ob_approvalKeyId b) \<and>
     digest_pattern (ob_bodyDigest b) \<and> computeArtifactBodyDigest h (approval_json b) = ob_bodyDigest b \<and>
     truthy_text (ob_nodeId b) \<noteq> truthy_text (ob_nodeClass b) \<and>
     \<not> ms_leq (date_parse (ob_expiresAt b)) (date_parse (ob_issuedAt b))"

definition ownerApprovalAttestationSchema :: "host \<Rightarrow> owner_approval_attestation \<Rightarrow> bool" where
  "ownerApprovalAttestationSchema h a \<longleftrightarrow> ownerApprovalAttestationBodySchema h (sa_body a) \<and> signedArtifactShape a"

fun normalizedTargetSchema :: "host \<Rightarrow> normalized_target \<Rightarrow> bool" where
  "normalizedTargetSchema h TargetNone = True"
| "normalizedTargetSchema h (TargetFilesystem p) = canonicalFilesystemPathSchema p"
| "normalizedTargetSchema h (TargetNetwork d) = canonicalNetworkDestinationSchema h d"

definition normalizedLocalPolicyRequestSchema :: "host \<Rightarrow> local_policy_request \<Rightarrow> bool" where
  "normalizedLocalPolicyRequestSchema h r \<longleftrightarrow>
     lr_contractVersion r = NODE_POLICY_CONTRACT_V1 \<and> safeId (lr_requestId r) \<and> safeId (lr_tenantId r) \<and>
     safeId (lr_nodeId r) \<and> safeId (lr_nodeClass r) \<and> safeId (lr_projectId r) \<and> safeId (lr_jobId r) \<and>
     safeId (lr_attemptId r) \<and> safeId (lr_leaseId r) \<and> positive_int (lr_leaseEpoch r) \<and> safeId (lr_executorId r) \<and>
     safeId (lr_operationId r) \<and> digest_pattern (lr_operationDigest r) \<and> digest_pattern (lr_authorityDigest r) \<and>
     opt_all digest_pattern (lr_payloadDigest r) \<and> sortedUnique safeId 500 0 (lr_credentialRefs r) \<and>
     normalizedTargetSchema h (lr_target r) \<and> nonnegative_int (lr_estimatedDurationSeconds r) \<and>
     lr_estimatedDurationSeconds r \<le> 31536000 \<and> opt_all canonicalMoney (lr_estimatedCostUsd r) \<and>
     isoInstant h (lr_occurredAt r) \<and> opt_all (ownerApprovalAttestationSchema h) (lr_approval r) \<and>
     \<not> (\<not> lr_externalEffect r \<and> target_kind_of (lr_target r) = KindNetwork) \<and>
     \<not> (lr_operationId r = ''harness.hermes.native.start'' \<and> lr_payloadDigest r = None)"

fun target_kind_text :: "target_kind \<Rightarrow> string" where
  "target_kind_text KindNone = ''none''"
| "target_kind_text KindFilesystem = ''filesystem''"
| "target_kind_text KindNetwork = ''network''"

definition executorCapabilitySchema :: "executor_capability \<Rightarrow> bool" where
  "executorCapabilitySchema x \<longleftrightarrow>
     xc_contractVersion x = NODE_POLICY_CONTRACT_V1 \<and> safeId (xc_executorId x) \<and>
     sortedUnique safeId 2000 1 (xc_operationIds x) \<and> sortedUnique safeId 2000 0 (xc_externalEffectOperationIds x) \<and>
     sortedUnique (\<lambda>k. True) 3 1 (map target_kind_text (xc_targetKinds x)) \<and>
     \<not> list_ex (\<lambda>o'. \<not> List.member (xc_operationIds x) o') (xc_externalEffectOperationIds x) \<and>
     \<not> (List.member (xc_targetKinds x) KindNetwork \<and> \<not> xc_supportsNetworkIdentityEnforcement x)"

definition decisionBase :: "host \<Rightarrow> decision_context \<Rightarrow> bool" where
  "decisionBase h d \<longleftrightarrow> safeId (dc_requestId d) \<and> digest_pattern (dc_requestDigest d) \<and>
     digest_pattern (dc_ceilingDigest d) \<and> digest_pattern (dc_authorityDigest d) \<and> isoInstant h (dc_decidedAt d)"

definition localPolicyDecisionSchema :: "host \<Rightarrow> local_policy_decision \<Rightarrow> bool" where
  "localPolicyDecisionSchema h d = decisionBase h (decision_of d)"

definition wireDenialReceiptSchema :: "host \<Rightarrow> wire_denial_receipt \<Rightarrow> bool" where
  "wireDenialReceiptSchema h r \<longleftrightarrow> wr_contractVersion r = NODE_POLICY_CONTRACT_V1 \<and> safeId (wr_receiptId r) \<and>
     safeId (wr_relatedMessageId r) \<and> safeId (wr_jobId r) \<and> safeId (wr_attemptId r) \<and> isoInstant h (wr_occurredAt r)"

definition keyAvailabilitySchema :: "host \<Rightarrow> key_availability \<Rightarrow> bool" where
  "keyAvailabilitySchema h k \<longleftrightarrow> safeId (ka_keyReferenceId k) \<and> isoInstant h (ka_observedAt k)"

definition keyReferenceSchema :: "key_reference \<Rightarrow> bool" where
  "keyReferenceSchema k \<longleftrightarrow> kr_contractVersion k = NODE_POLICY_CONTRACT_V1 \<and> safeId (kr_keyId k) \<and>
     safeId (kr_referenceId k) \<and> kr_algorithm k = ''Ed25519'' \<and>
     kr_mode k = (if kr_provider k = EncryptedFile then ModeEncryptedFile
       else if kr_provider k = MemoryTest then ModeTest else ModeNative)"

definition pinnedOwnerKeySchema :: "pinned_owner_key \<Rightarrow> bool" where
  "pinnedOwnerKeySchema k \<longleftrightarrow> safeId (pk_keyId k) \<and> pk_algorithm k = ''ed25519'' \<and> base64url (pk_spki k) \<and>
     digest_pattern (pk_fingerprint k)"

definition ownerPinSetSchema :: "owner_pin_set \<Rightarrow> bool" where
  "ownerPinSetSchema p \<longleftrightarrow> pinnedOwnerKeySchema (ceilingProvisioningKey p) \<and> pinnedOwnerKeySchema (serverTrustRootKey p) \<and>
     list_all pinnedOwnerKeySchema (trustShrinkKeys p) \<and> 1 \<le> length (trustShrinkKeys p) \<and>
     length (trustShrinkKeys p) \<le> 16 \<and> distinct (map pk_keyId (trustShrinkKeys p)) \<and>
     \<not> has_descent (map pk_keyId (trustShrinkKeys p))"

lemma has_descent_iff: "\<not> has_descent xs \<longleftrightarrow> sorted xs"
proof (induction xs rule: has_descent.induct)
  case (1 x y zs)
  then show ?case by (auto simp: not_less intro: order_trans)
qed simp_all

lemma sortedUnique_sorted: "sortedUnique item hi lo xs \<Longrightarrow> sorted xs \<and> distinct xs"
  unfolding sortedUnique_def by (metis sorted_sort)

end
