(* ===== verification/Policy_Evaluator.thy ===== *)
theory Policy_Evaluator
  imports Node_Policy_Schemas
begin

text \<open>
  The node's local policy decision: \<open>src/node-policy/v1/policy-evaluator.ts\<close>. The evaluator
  returns the first denial its ordered checks find, or accepts; \<open>policy_denial\<close> is that ordered
  list of checks. The clock reading is an argument.

  The theorems say when a request is accepted (exactly when it stays within the lease authority,
  the node's ceiling and the executor's declared abilities, at a time all three are valid), that an accepted
  request is within every envelope of the delegation chain, and that an owner's approval cannot be
  used for another operation.
\<close>

section \<open>Denials on the wire\<close>

fun wireCategory :: "local_denial_detail \<Rightarrow> wire_denial_category" where
  "wireCategory CeilingMissing = WireStorage"
| "wireCategory CeilingTampered = WireStorage"
| "wireCategory CeilingRollback = WireStorage"
| "wireCategory AuthorityInvalid = WirePolicy"
| "wireCategory AuthorityExpired = WireExpired"
| "wireCategory AuthorityNotYetValid = WirePolicy"
| "wireCategory ExecutorNotAllowed = WirePolicy"
| "wireCategory OperationNotAllowed = WirePolicy"
| "wireCategory CredentialNotAllowed = WirePolicy"
| "wireCategory FilesystemTargetNotAllowed = WirePolicy"
| "wireCategory NetworkDestinationNotAllowed = WirePolicy"
| "wireCategory RiskExceeded = WirePolicy"
| "wireCategory EffectPolicyExceeded = WirePolicy"
| "wireCategory ApprovalMissing = WireApprovalRequired"
| "wireCategory ApprovalInvalid = WireApprovalRequired"
| "wireCategory ApprovalExpired = WireApprovalRequired"
| "wireCategory DurationExceeded = WirePolicy"
| "wireCategory CostUnmeasurable = WirePolicy"
| "wireCategory CostExceeded = WirePolicy"
| "wireCategory ConcurrencyExceeded = WireEffectInProgress"
| "wireCategory KeystoreUnavailable = WireMaintenance"
| "wireCategory Paused = WireMaintenance"
| "wireCategory EffectInProgress = WireEffectInProgress"
| "wireCategory EffectAmbiguous = WireAmbiguous"
| "wireCategory StorageUnavailable = WireStorage"

definition denial :: "decision_context \<Rightarrow> local_denial_detail \<Rightarrow> local_policy_decision" where
  "denial context detail = Denied context detail (wireCategory detail)"


section \<open>Digests of a request\<close>

fun target_json :: "normalized_target \<Rightarrow> json" where
  "target_json TargetNone = JObj [(''kind'', JStr ''none'')]"
| "target_json (TargetFilesystem p) = JObj [(''kind'', JStr ''filesystem''), (''canonicalPath'', JStr p)]"
| "target_json (TargetNetwork d) = JObj [(''kind'', JStr ''network''), (''canonicalDestination'', JStr d)]"

definition operation_fields :: "local_policy_request \<Rightarrow> (string \<times> json) list" where
  "operation_fields r =
     [(''tenantId'', JStr (lr_tenantId r)), (''nodeId'', JStr (lr_nodeId r)), (''projectId'', JStr (lr_projectId r)),
      (''jobId'', JStr (lr_jobId r)), (''attemptId'', JStr (lr_attemptId r)), (''executorId'', JStr (lr_executorId r)),
      (''operationId'', JStr (lr_operationId r)), (''credentialRefs'', str_array (lr_credentialRefs r)),
      (''target'', target_json (lr_target r)), (''risk'', JStr (risk_text (lr_risk r))),
      (''externalEffect'', JBool (lr_externalEffect r)),
      (''estimatedDurationSeconds'', JNum (lr_estimatedDurationSeconds r))]
     @ opt_field ''payloadDigest'' JStr (lr_payloadDigest r)
     @ opt_field ''estimatedCostUsd'' JStr (lr_estimatedCostUsd r)"

definition computeNormalizedOperationDigest :: "host \<Rightarrow> local_policy_request \<Rightarrow> string" where
  "computeNormalizedOperationDigest h r = sha256Digest h (JObj (operation_fields r))"

definition attestation_json :: "owner_approval_attestation \<Rightarrow> json" where
  "attestation_json a = JObj [(''body'', approval_json (sa_body a)),
     (''signatureAlgorithm'', JStr (sa_signatureAlgorithm a)), (''signature'', JStr (sa_signature a))]"

definition request_json :: "local_policy_request \<Rightarrow> json" where
  "request_json r = JObj (
     [(''contractVersion'', JStr (lr_contractVersion r)), (''requestId'', JStr (lr_requestId r)),
      (''tenantId'', JStr (lr_tenantId r)), (''nodeId'', JStr (lr_nodeId r)), (''nodeClass'', JStr (lr_nodeClass r)),
      (''projectId'', JStr (lr_projectId r)), (''jobId'', JStr (lr_jobId r)), (''attemptId'', JStr (lr_attemptId r)),
      (''leaseId'', JStr (lr_leaseId r)), (''leaseEpoch'', JNum (lr_leaseEpoch r)), (''executorId'', JStr (lr_executorId r)),
      (''operationId'', JStr (lr_operationId r)), (''operationDigest'', JStr (lr_operationDigest r))]
     @ opt_field ''payloadDigest'' JStr (lr_payloadDigest r)
     @ [(''authorityDigest'', JStr (lr_authorityDigest r)), (''credentialRefs'', str_array (lr_credentialRefs r)),
        (''target'', target_json (lr_target r)), (''risk'', JStr (risk_text (lr_risk r))),
        (''externalEffect'', JBool (lr_externalEffect r)),
        (''estimatedDurationSeconds'', JNum (lr_estimatedDurationSeconds r))]
     @ opt_field ''estimatedCostUsd'' JStr (lr_estimatedCostUsd r)
     @ [(''occurredAt'', JStr (lr_occurredAt r))]
     @ opt_field ''approval'' attestation_json (lr_approval r))"


section \<open>Checks on envelopes, paths and amounts\<close>

definition isSortedUnique :: "string list \<Rightarrow> bool" where
  "isSortedUnique xs \<longleftrightarrow> distinct xs \<and> increasing xs"

definition validAuthority :: "host \<Rightarrow> authority_envelope \<Rightarrow> bool" where
  "validAuthority h a =
     (if \<not> authorityEnvelopeSchema h a \<or> computeAuthorityDigest h a \<noteq> ae_digest a then False
      else list_all isSortedUnique [allowedOperations a, ae_credentialRefs a, filesystemRoots a, allowedNetworkDestinations a]
        \<and> list_all canonicalFilesystemPathSchema (filesystemRoots a)
        \<and> list_all (canonicalNetworkDestinationSchema h) (allowedNetworkDestinations a))"

definition path_separator :: "string \<Rightarrow> char" where
  "path_separator r = (if CHR 0x5C \<in> set r then CHR 0x5C else CHR ''/'')"

definition pathWithin :: "string \<Rightarrow> string \<Rightarrow> bool" where
  "pathWithin path r =
     (if path = r then True
      else starts_with path (if ends_with r [path_separator r] then r else r @ [path_separator r]))"

text \<open>
  \<open>decimalUnits\<close>: hundred-thousandths. The products and sums of the code are exact whenever the
  result is a safe integer, and beyond \<open>2 ^ 53\<close> rounding cannot bring them back.
\<close>

definition pad_end_zero :: "nat \<Rightarrow> string \<Rightarrow> string" where
  "pad_end_zero n s = s @ replicate (n - length s) CHR ''0''"

definition checked_units :: "string \<Rightarrow> string \<Rightarrow> int option" where
  "checked_units w f =
     (let units = read_dec w * 100000 + read_dec (pad_end_zero 5 f)
      in if units \<le> max_safe_integer then Some units else None)"

definition decimalUnits :: "string \<Rightarrow> int option" where
  "decimalUnits v =
     (case split_char CHR ''.'' v of
        [w] \<Rightarrow> if integral_digits w then checked_units w [] else None
      | [w, f] \<Rightarrow> if integral_digits w \<and> list_all is_digit f \<and> 1 \<le> length f \<and> length f \<le> 5
                 then checked_units w f else None
      | _ \<Rightarrow> None)"

definition numericCostUnits :: "rat option \<Rightarrow> int option" where
  "numericCostUnits v = (case v of None \<Rightarrow> None | Some r \<Rightarrow> if r < 0 then None else decimalUnits (num_text r))"

definition later_than :: "int option \<Rightarrow> rat \<Rightarrow> bool" where
  "later_than t deadline = (case t of None \<Rightarrow> False | Some m \<Rightarrow> of_int m > deadline)"

definition approval_mismatch :: "owner_approval_attestation_body \<Rightarrow> local_policy_request \<Rightarrow> bool" where
  "approval_mismatch b r \<longleftrightarrow>
     ob_tenantId b \<noteq> lr_tenantId r \<or> ob_projectId b \<noteq> lr_projectId r \<or> ob_jobId b \<noteq> lr_jobId r
     \<or> ob_attemptId b \<noteq> lr_attemptId r \<or> ob_operationDigest b \<noteq> lr_operationDigest r \<or> ob_risk b \<noteq> lr_risk r
     \<or> (ob_nodeId b \<noteq> None \<and> ob_nodeId b \<noteq> Some (lr_nodeId r))
     \<or> (ob_nodeClass b \<noteq> None \<and> ob_nodeClass b \<noteq> Some (lr_nodeClass r))"

definition validApproval :: "host \<Rightarrow> local_policy_input \<Rightarrow> int \<Rightarrow> rat \<Rightarrow> local_denial_detail option" where
  "validApproval h i now deadline =
     (case (lr_approval (pi_request i), pi_approvalKey i) of
        (Some approval, Some key) \<Rightarrow>
          (if \<not> ownerApprovalAttestationSchema h approval \<or> ak_keyId key \<noteq> ob_approvalKeyId (sa_body approval)
           then Some ApprovalInvalid
           else if verifyArtifactSignature h (approval_json (sa_body approval)) (ob_bodyDigest (sa_body approval))
                     (sa_signature approval) (ak_publicKeySpki key) \<noteq> Inr True
           then Some ApprovalInvalid
           else if ms_less (Some now) (date_parse (ob_issuedAt (sa_body approval)))
             \<or> ms_leq (date_parse (ob_expiresAt (sa_body approval))) (Some now)
             \<or> later_than (date_parse (ob_expiresAt (sa_body approval))) deadline
           then Some ApprovalExpired
           else if approval_mismatch (sa_body approval) (pi_request i) then Some ApprovalInvalid
           else None)
      | _ \<Rightarrow> Some ApprovalMissing)"

fun links_allowed :: "authority_envelope list \<Rightarrow> bool" where
  "links_allowed (p # c # cs) = (if \<not> allowed (compareDelegatedAuthority p c) then False else links_allowed (c # cs))"
| "links_allowed _ = True"

definition validAuthorityChain :: "host \<Rightarrow> verified_lease_authority \<Rightarrow> bool" where
  "validAuthorityChain h l =
     (let chain = vl_parentAuthorities l @ [vl_authority l]
      in if list_ex (\<lambda>a. \<not> validAuthority h a) chain then False
         else if parentDigest (hd chain) \<noteq> None then False
         else links_allowed chain)"


section \<open>The evaluation\<close>

definition input_invalid :: "host \<Rightarrow> local_policy_input \<Rightarrow> bool" where
  "input_invalid h i \<longleftrightarrow>
     \<not> normalizedLocalPolicyRequestSchema h (pi_request i) \<or> \<not> nodeAuthorityCeilingBodySchema h (pi_ceiling i)
     \<or> \<not> executorCapabilitySchema (pi_executor i) \<or> \<not> keyAvailabilitySchema h (pi_keyAvailability i)
     \<or> \<not> is_safe_integer (pi_activeExternalEffects i) \<or> num_lt (pi_activeExternalEffects i) (Fin 0)
     \<or> \<not> validAuthorityChain h (pi_lease i)"

definition binding_mismatch :: "local_policy_request \<Rightarrow> node_authority_ceiling \<Rightarrow> verified_lease_authority \<Rightarrow> bool" where
  "binding_mismatch request ceil lease \<longleftrightarrow>
     vl_tenantId lease \<noteq> lr_tenantId request \<or> nc_tenantId ceil \<noteq> lr_tenantId request
     \<or> vl_nodeId lease \<noteq> lr_nodeId request \<or> nc_nodeId ceil \<noteq> lr_nodeId request
     \<or> vl_jobId lease \<noteq> lr_jobId request \<or> vl_attemptId lease \<noteq> lr_attemptId request
     \<or> vl_leaseId lease \<noteq> lr_leaseId request \<or> vl_leaseEpoch lease \<noteq> lr_leaseEpoch request
     \<or> ae_projectId (vl_authority lease) \<noteq> lr_projectId request
     \<or> \<not> List.member (nc_projectIds ceil) (lr_projectId request)"

fun target_denial :: "authority_envelope \<Rightarrow> node_authority_ceiling \<Rightarrow> executor_capability \<Rightarrow> normalized_target \<Rightarrow> local_denial_detail option" where
  "target_denial a c x TargetNone = None"
| "target_denial a c x (TargetFilesystem path) =
     (if \<not> list_ex (pathWithin path) (filesystemRoots a) \<or> \<not> list_ex (pathWithin path) (nc_filesystemRoots c)
      then Some FilesystemTargetNotAllowed else None)"
| "target_denial a c x (TargetNetwork destination) =
     (if networkPolicy a \<noteq> NetAllowlist \<or> \<not> List.member (allowedNetworkDestinations a) destination
        \<or> \<not> List.member (nc_networkDestinations c) destination \<or> \<not> xc_supportsNetworkIdentityEnforcement x
      then Some NetworkDestinationNotAllowed else None)"

definition cost_denial :: "string option \<Rightarrow> rat option \<Rightarrow> string option \<Rightarrow> cost_meter \<Rightarrow> local_denial_detail option" where
  "cost_denial ceilingMax authorityMax estimated meter =
     (let ceilingCost = Option.bind ceilingMax decimalUnits; authorityCost = numericCostUnits authorityMax;
          requestedCost = Option.bind estimated decimalUnits
      in if (ceilingMax \<noteq> None \<and> ceilingCost = None) \<or> (authorityMax \<noteq> None \<and> authorityCost = None)
            \<or> (estimated \<noteq> None \<and> requestedCost = None) then Some CostUnmeasurable
         else if (ceilingCost \<noteq> None \<or> authorityCost \<noteq> None) \<and> requestedCost = None then Some CostUnmeasurable
         else (case requestedCost of None \<Rightarrow> None
               | Some requested \<Rightarrow>
                   if requested > 0 then
                     (if meter \<noteq> MonotonicReservable then Some CostUnmeasurable
                      else (case (ceilingCost, authorityCost) of
                              (Some c, Some a) \<Rightarrow> if requested > c \<or> requested > a then Some CostExceeded else None
                            | _ \<Rightarrow> Some CostExceeded))
                   else None))"

definition effect_denial :: "host \<Rightarrow> local_policy_input \<Rightarrow> int \<Rightarrow> local_denial_detail option" where
  "effect_denial h i now =
     (let ceil = pi_ceiling i; lease = pi_lease i; authority = vl_authority lease;
          effective = min (effectRank (nc_externalEffects ceil)) (effectRank (effectPolicy authority))
      in if effective = effectRank EffectsNone then Some EffectPolicyExceeded
         else if num_le (Fin (min (nc_maxConcurrentEffects ceil) (maxConcurrentEffects authority)))
                (pi_activeExternalEffects i) then Some ConcurrencyExceeded
         else if effective = effectRank ApprovalRequired then
           validApproval h i now
             (min (of_int (the (date_parse (vl_expiresAt lease))))
               (min (of_int (the (date_parse (ae_expiresAt authority))))
                 (of_int now + min (nc_maxDurationSeconds ceil) (maxDurationSeconds authority) * 1000)))
         else None)"

text \<open>The checks up to the time window, those on the scopes, and the rest, in the order of the source.\<close>

definition window_denial :: "host \<Rightarrow> local_policy_input \<Rightarrow> int \<Rightarrow> local_denial_detail option" where
  "window_denial h i now =
     (let request = pi_request i; ceil = pi_ceiling i; lease = pi_lease i; authority = vl_authority lease;
          validFrom = date_parse (vl_validFrom lease); leaseExpiry = date_parse (vl_expiresAt lease);
          authorityExpiry = date_parse (ae_expiresAt authority); issued = date_parse (nc_issuedAt ceil)
      in if input_invalid h i then Some AuthorityInvalid
         else if binding_mismatch request ceil lease then Some AuthorityInvalid
         else if vl_authorityDigest lease \<noteq> ae_digest authority \<or> lr_authorityDigest request \<noteq> ae_digest authority
         then Some AuthorityInvalid
         else if lr_operationDigest request \<noteq> computeNormalizedOperationDigest h request then Some AuthorityInvalid
         else if validFrom = None \<or> leaseExpiry = None \<or> authorityExpiry = None \<or> issued = None
           \<or> ms_leq leaseExpiry validFrom then Some AuthorityInvalid
         else if ms_less (Some now) validFrom \<or> ms_less (Some now) issued
           \<or> ms_less (Some now) (date_parse (ka_observedAt (pi_keyAvailability i))) then Some AuthorityNotYetValid
         else if ms_leq leaseExpiry (Some now) \<or> ms_leq authorityExpiry (Some now) then Some AuthorityExpired
         else None)"

definition scope_denial :: "local_policy_input \<Rightarrow> local_denial_detail option" where
  "scope_denial i =
     (let request = pi_request i; ceil = pi_ceiling i; executor = pi_executor i; authority = vl_authority (pi_lease i)
      in if lr_executorId request \<noteq> allowedExecutor authority \<or> \<not> List.member (nc_executorIds ceil) (lr_executorId request)
           \<or> xc_executorId executor \<noteq> lr_executorId request then Some ExecutorNotAllowed
         else if \<not> List.member (allowedOperations authority) (lr_operationId request)
           \<or> \<not> List.member (nc_operationIds ceil) (lr_operationId request)
           \<or> \<not> List.member (xc_operationIds executor) (lr_operationId request) then Some OperationNotAllowed
         else if List.member (xc_externalEffectOperationIds executor) (lr_operationId request) \<noteq> lr_externalEffect request
         then Some AuthorityInvalid
         else if \<not> subset_list (lr_credentialRefs request) (ae_credentialRefs authority)
           \<or> \<not> subset_list (lr_credentialRefs request) (nc_credentialRefs ceil) then Some CredentialNotAllowed
         else if \<not> List.member (xc_targetKinds executor) (target_kind_of (lr_target request)) then Some ExecutorNotAllowed
         else if target_denial authority ceil executor (lr_target request) \<noteq> None
         then target_denial authority ceil executor (lr_target request)
         else if riskRank (lr_risk request) > riskRank (maxRisk authority)
           \<or> riskRank (lr_risk request) > riskRank (nc_maxRisk ceil) then Some RiskExceeded
         else if lr_estimatedDurationSeconds request > maxDurationSeconds authority
           \<or> lr_estimatedDurationSeconds request > nc_maxDurationSeconds ceil then Some DurationExceeded
         else if lr_estimatedDurationSeconds request > 0 \<and> \<not> xc_supportsCancellation executor then Some ExecutorNotAllowed
         else cost_denial (nc_maxCostUsd ceil) (maxCostUsd authority) (lr_estimatedCostUsd request) (xc_costMeter executor))"

definition policy_denial :: "host \<Rightarrow> local_policy_input \<Rightarrow> int \<Rightarrow> local_denial_detail option" where
  "policy_denial h i now =
     (if window_denial h i now \<noteq> None then window_denial h i now
      else if scope_denial i \<noteq> None then scope_denial i
      else if ka_state (pi_keyAvailability i) \<noteq> KeyAvailable then Some KeystoreUnavailable
      else if lr_externalEffect (pi_request i) then effect_denial h i now
      else None)"

definition evaluateLocalPolicy :: "host \<Rightarrow> local_policy_input \<Rightarrow> string \<Rightarrow> (string, local_policy_decision) result" where
  "evaluateLocalPolicy h i clock_now =
     bind_result (requireCanonicalClockInstant clock_now) (\<lambda>decidedAt.
       let context = \<lparr>dc_requestId = lr_requestId (pi_request i),
             dc_requestDigest = sha256Digest h (request_json (pi_request i)),
             dc_ceilingDigest = nc_bodyDigest (pi_ceiling i),
             dc_authorityDigest = vl_authorityDigest (pi_lease i), dc_decidedAt = decidedAt\<rparr>
       in Inr (case policy_denial h i (the (date_parse decidedAt)) of
                 Some detail \<Rightarrow> denial context detail | None \<Rightarrow> Accepted context))"

end
