(* ===== verification/Policy_Scopes.thy ===== *)
theory Policy_Scopes
  imports Policy_Evaluator
begin

text \<open>
  Two checks of the evaluator against what they mean: the prefix test on path texts against
  containment of directories, and the conversion of amounts against their decimal value.
\<close>

section \<open>Paths\<close>

lemma concat_split_char: "concat (map ((#) d) (split_char d s)) = d # s"
proof (induction s)
  case (Cons c s)
  then show ?case by (cases "split_char d s") auto
qed simp

lemma split_char_inject: "split_char d s = split_char d t \<Longrightarrow> s = t"
  by (metis concat_split_char list.inject)

lemma split_char_prefix_iff:
  "(\<exists>rest. split_char d path = split_char d r @ rest) \<longleftrightarrow> path = r \<or> starts_with path (r @ [d])"
proof (intro iffI; (elim exE disjE)?)
  fix rest assume *: "split_char d path = split_char d r @ rest"
  show "path = r \<or> starts_with path (r @ [d])"
  proof (cases rest)
    case Nil
    with * show ?thesis using split_char_inject by simp
  next
    case (Cons w ws)
    have "d # path = (d # r) @ concat (map ((#) d) rest)"
      using concat_split_char [of d path] concat_split_char [of d r] * by simp
    with Cons show ?thesis by (auto simp: starts_with_iff)
  qed
next
  assume "starts_with path (r @ [d])"
  then show "\<exists>rest. split_char d path = split_char d r @ rest"
    by (auto simp: starts_with_iff split_char_append)
qed auto

lemma split_char_empty_segment:
  "[] \<in> set (tl (split_char d s)) \<Longrightarrow> contains_text s [d, d] \<or> ends_with s [d]"
proof (induction s)
  case (Cons c s)
  show ?case
  proof (cases "s = []")
    case True
    with Cons.prems show ?thesis by (auto simp: ends_with_def split: if_splits)
  next
    case False
    have ends: "ends_with s [d] \<Longrightarrow> ends_with (c # s) [d]" using False by (auto simp: ends_with_def Suc_diff_le drop_Cons')
    show ?thesis
    proof (cases "[] \<in> set (tl (split_char d s))")
      case True
      with Cons.IH ends show ?thesis by auto
    next
      case notin: False
      with Cons.prems have "c = d" "hd (split_char d s) = []"
        by (cases "split_char d s"; auto split: if_splits)+
      then have "hd s = d" using False by (cases s) (auto split: if_splits list.splits)
      with \<open>c = d\<close> False show ?thesis by (cases s) (auto simp: starts_with_def)
    qed
  qed
qed simp


text \<open>The separator and the segments of a canonical path.\<close>

definition path_sep :: "string \<Rightarrow> char" where
  "path_sep p = (if windows_path p then CHR 0x5C else CHR ''/'')"

definition path_segments :: "string \<Rightarrow> string list" where
  "path_segments p = non_empty_segments (path_sep p) p"

definition path_root :: "string \<Rightarrow> bool" where
  "path_root p = (if windows_path p then length p = 3 else p = ''/'')"

lemma canonical_path_cases:
  assumes "isCanonicalFilesystemPath p"
  shows "windows_path p \<noteq> unix_path p" "path_root p \<or> \<not> ends_with p [path_sep p]"
    "\<not> contains_text p [path_sep p, path_sep p]"
  using assms
  by (auto simp: isCanonicalFilesystemPath_def path_root_def path_sep_def windows_path_def unix_path_def
      drive_prefix_def starts_with_iff is_upper_def less_eq_char_def split: if_splits)

lemma drive_prefix_iff: "drive_prefix p \<longleftrightarrow> (\<exists>c t. is_upper c \<and> p = c # CHR '':'' # CHR 0x5C # t)"
proof
  assume p: "drive_prefix p"
  then obtain a b c t where "p = a # b # c # t"
    unfolding drive_prefix_def by (metis Suc_le_length_iff numeral_3_eq_3)
  with p show "\<exists>c t. is_upper c \<and> p = c # CHR '':'' # CHR 0x5C # t" by (simp add: drive_prefix_def)
qed (auto simp: drive_prefix_def)

lemma upper_not_separator: "is_upper c \<Longrightarrow> c \<noteq> CHR 0x5C \<and> c \<noteq> CHR ''/''"
  by (auto simp: is_upper_def less_eq_char_def)

lemma split_windows:
  "windows_path p \<Longrightarrow> \<exists>c t. is_upper c \<and> p = c # CHR '':'' # CHR 0x5C # t
     \<and> split_char CHR 0x5C p = [c, CHR '':''] # split_char CHR 0x5C t"
  using upper_not_separator by (fastforce simp: windows_path_def drive_prefix_iff)

lemma split_unix:
  "unix_path p \<Longrightarrow> \<exists>t. p = CHR ''/'' # t \<and> split_char CHR ''/'' p = [] # split_char CHR ''/'' t"
  by (auto simp: unix_path_def starts_with_iff)

lemma filter_tl_segments:
  assumes "\<not> contains_text p [d, d]" "\<not> ends_with p [d]" "split_char d p = w # ws"
  shows "[] \<notin> set ws"
  using split_char_empty_segment [of d p] assms by auto

lemma segments_inner:
  assumes "isCanonicalFilesystemPath p" "\<not> path_root p"
  shows "split_char (path_sep p) p = (if windows_path p then [] else [[]]) @ path_segments p"
    and "[] \<notin> set (path_segments p)" and "length (path_segments p) > (if windows_path p then 1 else 0)"
proof -
  note c = canonical_path_cases [OF assms(1)]
  obtain w ws where split: "split_char (path_sep p) p = w # ws" "ws \<noteq> []" "w = [] \<longleftrightarrow> \<not> windows_path p"
    using c(1) split_windows [of p] split_unix [of p] by (auto simp: path_sep_def)
  have ws: "[] \<notin> set ws" using filter_tl_segments c(2,3) assms(2) split by blast
  then have "filter (\<lambda>w. w \<noteq> []) ws = ws" by (auto simp: filter_id_conv)
  with split ws show "split_char (path_sep p) p = (if windows_path p then [] else [[]]) @ path_segments p"
    "[] \<notin> set (path_segments p)" "length (path_segments p) > (if windows_path p then 1 else 0)"
    by (auto simp: path_segments_def non_empty_segments_def)
qed

lemma segments_root:
  assumes "isCanonicalFilesystemPath p" "path_root p"
  shows "split_char (path_sep p) p = (if windows_path p then path_segments p else [[]]) @ [[]]"
    and "path_segments p = (if windows_path p then [take 2 p] else [])"
  using assms split_windows [of p]
  by (auto simp: path_root_def path_segments_def non_empty_segments_def path_sep_def)

lemma path_separator_canonical:
  assumes "isCanonicalFilesystemPath p" shows "path_separator p = path_sep p"
  using canonical_path_cases(1) [OF assms]
  by (auto simp: path_separator_def path_sep_def unix_path_def windows_path_def drive_prefix_iff)


lemma pathWithin_inner:
  assumes p: "isCanonicalFilesystemPath p" and r: "isCanonicalFilesystemPath r" "\<not> path_root r"
    and kind: "windows_path p = windows_path r"
  shows "pathWithin p r \<longleftrightarrow> (\<exists>rest. path_segments p = path_segments r @ rest)"
proof -
  have sep: "path_separator r = path_sep p" using path_separator_canonical r(1) kind by (simp add: path_sep_def)
  have "\<not> ends_with r [path_sep p]" using canonical_path_cases(2) [OF r(1)] r(2) kind by (simp add: path_sep_def)
  then have "pathWithin p r \<longleftrightarrow> (\<exists>rest. split_char (path_sep p) p = split_char (path_sep p) r @ rest)"
    unfolding split_char_prefix_iff by (simp add: pathWithin_def sep)
  also have "split_char (path_sep p) r = (if windows_path r then [] else [[]]) @ path_segments r"
    using segments_inner(1) [OF r] kind by (simp add: path_sep_def)
  also have "(\<exists>rest. split_char (path_sep p) p = ((if windows_path r then [] else [[]]) @ path_segments r) @ rest)
      \<longleftrightarrow> (\<exists>rest. path_segments p = path_segments r @ rest)"
  proof (cases "path_root p")
    case False
    then show ?thesis using segments_inner(1) [OF p] kind by auto
  next
    case True
    have "length (path_segments r) > (if windows_path r then 1 else 0)" "[] \<notin> set (path_segments r)"
      using segments_inner [OF r] by auto
    then show ?thesis using segments_root [OF p True] kind
      by (cases "path_segments r"; cases "tl (path_segments r)") (auto split: if_splits)
  qed
  finally show ?thesis .
qed

lemma pathWithin_root:
  assumes p: "isCanonicalFilesystemPath p" and r: "isCanonicalFilesystemPath r" "path_root r"
    and kind: "windows_path p = windows_path r"
  shows "pathWithin p r \<longleftrightarrow> (\<exists>rest. path_segments p = path_segments r @ rest)"
proof (cases "windows_path r")
  case False
  then have "r = ''/''" "unix_path p" using r(2) canonical_path_cases(1) [OF p] kind by (simp_all add: path_root_def)
  then show ?thesis using segments_root(2) [OF r] False
    by (auto simp: pathWithin_def path_separator_def ends_with_def unix_path_def)
next
  case True
  obtain c t where p': "p = c # CHR '':'' # CHR 0x5C # t" "split_char CHR 0x5C p = [c, CHR '':''] # split_char CHR 0x5C t"
    using split_windows True kind by blast
  obtain e where r': "r = [e, CHR '':'', CHR 0x5C]"
    using split_windows [OF True] r(2) True by (auto simp: path_root_def)
  have "path_segments r = [[e, CHR '':'']]" using segments_root(2) [OF r] True r' by simp
  moreover have "hd (path_segments p) = [c, CHR '':''] \<and> path_segments p \<noteq> []"
    using p'(2) True kind by (simp add: path_segments_def non_empty_segments_def path_sep_def)
  moreover have "pathWithin p r \<longleftrightarrow> c = e"
    using p'(1) r' by (auto simp: pathWithin_def path_separator_def ends_with_def starts_with_def)
  ultimately show ?thesis by (cases "path_segments p") auto
qed

text \<open>
  Between canonical paths the prefix test on texts is the containment of directories: a path is within
  a root exactly when both are of the same kind (Unix or Windows) and the segments of the root
  begin the segments of the path. As no canonical path has \<open>.\<close> or \<open>..\<close> segments, a permitted path
  cannot leave the root.
\<close>

lemma pathWithin_exact:
  assumes "isCanonicalFilesystemPath p" and "isCanonicalFilesystemPath r"
  shows "pathWithin p r \<longleftrightarrow>
    windows_path p = windows_path r \<and> (\<exists>rest. path_segments p = path_segments r @ rest \<and> ''..'' \<notin> set rest)"
proof -
  have dots: "''..'' \<notin> set (path_segments p)"
    using assms(1) by (auto simp: isCanonicalFilesystemPath_def path_segments_def path_sep_def list_ex_iff split: if_splits)
  have "windows_path p = windows_path r" if "pathWithin p r"
  proof -
    have "starts_with p r" using that by (auto simp: pathWithin_def starts_with_iff split: if_splits)
    then have hd: "hd p = hd r" if "r \<noteq> []" using that by (auto simp: starts_with_iff)
    have kind: "windows_path q \<longleftrightarrow> hd q \<noteq> CHR ''/''" and ne: "q \<noteq> []" if "isCanonicalFilesystemPath q" for q
      using canonical_path_cases(1) [OF that] split_windows [of q] split_unix [of q] upper_not_separator by auto
    show ?thesis using hd ne [OF assms(2)] kind [OF assms(1)] kind [OF assms(2)] by simp
  qed
  moreover have "pathWithin p r \<longleftrightarrow> (\<exists>rest. path_segments p = path_segments r @ rest)"
    if "windows_path p = windows_path r"
    using pathWithin_inner [OF assms(1,2)] pathWithin_root [OF assms(1,2)] that by blast
  ultimately show ?thesis using dots by auto
qed

section \<open>Amounts\<close>

definition money_value :: "string \<Rightarrow> rat" where
  "money_value v =
     (case split_char CHR ''.'' v of
        [w, f] \<Rightarrow> of_int (read_dec w) + of_int (read_dec f) / 10 ^ length f
      | w # _ \<Rightarrow> of_int (read_dec w) | [] \<Rightarrow> 0)"

definition money_decimals :: "string \<Rightarrow> nat" where
  "money_decimals v = (case split_char CHR ''.'' v of [w, f] \<Rightarrow> length f | _ \<Rightarrow> 0)"

lemma padded_units:
  assumes "length f \<le> 5"
  shows "of_int (read_dec w * 100000 + read_dec (pad_end_zero 5 f)) =
    100000 * (of_int (read_dec w) + of_int (read_dec f) / 10 ^ length f :: rat)"
proof -
  have "(100000::rat) = 10 ^ (5 - length f) * 10 ^ length f"
    using assms by (simp flip: power_add)
  then have "100000 * (of_int (read_dec f) / 10 ^ length f) = (of_int (read_dec f) * 10 ^ (5 - length f) :: rat)"
    by (simp add: field_simps)
  then show ?thesis
    by (simp add: pad_end_zero_def read_dec_append read_dec_zeros algebra_simps)
qed

lemma checked_units_iff:
  assumes "length f \<le> 5"
  shows "checked_units w f = Some u \<longleftrightarrow>
    of_int u = 100000 * (of_int (read_dec w) + of_int (read_dec f) / 10 ^ length f :: rat) \<and> u \<le> max_safe_integer"
  unfolding padded_units [OF assms, symmetric] checked_units_def Let_def
  by (auto simp del: of_int_add of_int_mult)

lemma decimalUnits_value: "decimalUnits v = Some u \<Longrightarrow> of_int u = 100000 * money_value v"
  by (auto simp: decimalUnits_def money_value_def checked_units_iff read_dec_def split: list.splits if_splits)

text \<open>
  Amounts are measured exactly: a canonical amount with at most five decimals whose value is
  within range is converted to the integer number of hundred-thousandths it denotes, and any other
  canonical amount (one with a sixth decimal, or out of range) is reported as unmeasurable.
\<close>

lemma decimalUnits_exact:
  assumes "canonicalMoney v"
  shows "(decimalUnits v = Some u \<longleftrightarrow>
      of_int u = 100000 * money_value v \<and> money_decimals v \<le> 5 \<and> u \<le> max_safe_integer)
    \<and> (decimalUnits v = None \<longleftrightarrow> money_decimals v = 6 \<or> of_int max_safe_integer < 100000 * money_value v)"
proof (cases "split_char CHR ''.'' v" rule: remdups_adj.cases)
  case 1
  then show ?thesis by simp
next
  case (2 w)
  then have "decimalUnits v = checked_units w []" "money_decimals v = 0"
    "money_value v = of_int (read_dec w) + of_int (read_dec []) / 10 ^ length ([]::string)"
    using assms by (simp_all add: canonicalMoney_def decimalUnits_def money_decimals_def money_value_def read_dec_def)
  then show ?thesis
    using checked_units_iff [of "[]" w] padded_units [of "[]" w]
    by (auto simp: checked_units_def Let_def not_le simp del: of_int_add of_int_mult)
next
  case (3 w f fs)
  then have fs: "fs = []" and f: "integral_digits w" "f \<noteq> []" "length f \<le> 6" "list_all is_digit f"
    using assms by (auto simp: canonicalMoney_def split: list.splits)
  with 3 have v: "money_decimals v = length f"
    "money_value v = of_int (read_dec w) + of_int (read_dec f) / 10 ^ length f"
    "decimalUnits v = (if length f \<le> 5 then checked_units w f else None)"
    by (auto simp: money_decimals_def money_value_def decimalUnits_def Suc_le_eq)
  show ?thesis
  proof (cases "length f \<le> 5")
    case True
    then show ?thesis
      using checked_units_iff [OF True, of w] padded_units [OF True, of w] v
      by (auto simp: checked_units_def Let_def not_le simp del: of_int_add of_int_mult)
  next
    case False
    then show ?thesis using v f(3) by auto
  qed
qed


end
