(* ===== verification/Policy_Guarantees.thy ===== *)
theory Policy_Guarantees
  imports Policy_Scopes
begin

text \<open>
  What an accepted evaluation guarantees, over the definitions of \<open>Policy_Evaluator\<close>. The ordered
  checks are first turned into the conjunction of their negations; the theorems then follow from
  the delegation lemmas of \<open>Authority\<close> and the digest lemmas of \<open>Canonical_Json\<close>. The last section
  holds a concrete accepted request, on which the theorems are applied.
\<close>

section \<open>What an accepted request satisfies\<close>

lemma if_Some_None [simp]: "(if c then Some d else k) = None \<longleftrightarrow> \<not> c \<and> k = None"
  by simp

lemma if_first_None [simp]: "(if x \<noteq> None then x else y) = None \<longleftrightarrow> x = None \<and> y = None"
  by auto

lemma accepted_iff:
  "evaluateLocalPolicy h i clock = Inr d \<Longrightarrow>
   decision_accepted d \<longleftrightarrow> (\<exists>now. date_parse clock = Some now \<and> policy_denial h i now = None)"
  by (auto simp: evaluateLocalPolicy_def denial_def Let_def dest!: requireCanonicalClockInstant_Inr
      split: option.splits)

lemma policy_denial_None:
  "policy_denial h i now = None \<longleftrightarrow> window_denial h i now = None \<and> scope_denial i = None
     \<and> ka_state (pi_keyAvailability i) = KeyAvailable \<and> (lr_externalEffect (pi_request i) \<longrightarrow> effect_denial h i now = None)"
  unfolding policy_denial_def if_first_None if_Some_None by simp

lemma links_allowed_chain: "links_allowed as = delegation_chain as"
  by (induction as rule: links_allowed.induct) simp_all

lemma validAuthorityChain_iff:
  "validAuthorityChain h l \<longleftrightarrow> (\<forall>a \<in> set (vl_parentAuthorities l @ [vl_authority l]). validAuthority h a)
     \<and> parentDigest (hd (vl_parentAuthorities l @ [vl_authority l])) = None
     \<and> delegation_chain (vl_parentAuthorities l @ [vl_authority l])"
  unfolding validAuthorityChain_def Let_def links_allowed_chain by (auto simp: list_ex_iff)

lemma delegation_chain_suffix: "delegation_chain (as @ bs) \<Longrightarrow> delegation_chain bs"
proof (induction as)
  case (Cons a as)
  then show ?case by (cases "as @ bs") auto
qed simp

text \<open>Every ancestor of a validated chain contains the envelope at its end.\<close>

lemma chain_ancestor_contains:
  assumes "delegation_chain (as @ [leaf])" and "\<forall>a \<in> set (as @ [leaf]). date_parse (ae_expiresAt a) \<noteq> None"
    and "a \<in> set (as @ [leaf])"
  shows "scope_within a leaf \<and> expires_within a leaf"
proof -
  obtain xs ys where split: "as @ [leaf] = xs @ a # ys" using assms(3) split_list by metis
  then have last: "last (a # ys) = leaf" by (metis last_appendR last_snoc list.distinct(1))
  have "delegation_chain (a # ys)" using assms(1) split delegation_chain_suffix by metis
  moreover have "\<forall>b \<in> set (a # ys). date_parse (ae_expiresAt b) \<noteq> None"
    using assms(2) unfolding split by simp
  ultimately show ?thesis using delegation_chain_last last by metis
qed

text \<open>What one envelope permits, and what the ceiling and the executor permit.\<close>

fun target_permitted :: "string list \<Rightarrow> string list \<Rightarrow> normalized_target \<Rightarrow> bool" where
  "target_permitted roots destinations TargetNone = True"
| "target_permitted roots destinations (TargetFilesystem path) = (\<exists>r \<in> set roots. pathWithin path r)"
| "target_permitted roots destinations (TargetNetwork d) = (d \<in> set destinations)"

definition envelope_permits :: "authority_envelope \<Rightarrow> local_policy_request \<Rightarrow> int \<Rightarrow> bool" where
  "envelope_permits a r now \<longleftrightarrow>
     ae_projectId a = lr_projectId r \<and> allowedExecutor a = lr_executorId r \<and>
     lr_operationId r \<in> set (allowedOperations a) \<and> set (lr_credentialRefs r) \<subseteq> set (ae_credentialRefs a) \<and>
     target_permitted (filesystemRoots a) (allowedNetworkDestinations a) (lr_target r) \<and>
     lr_risk r \<le> maxRisk a \<and> lr_estimatedDurationSeconds r \<le> maxDurationSeconds a \<and>
     (lr_externalEffect r \<longrightarrow> effectPolicy a \<noteq> EffectsNone) \<and> ms_less (Some now) (date_parse (ae_expiresAt a))"

definition ceiling_permits :: "node_authority_ceiling \<Rightarrow> local_policy_request \<Rightarrow> jsnum \<Rightarrow> bool" where
  "ceiling_permits c r active \<longleftrightarrow>
     nc_tenantId c = lr_tenantId r \<and> nc_nodeId c = lr_nodeId r \<and> lr_projectId r \<in> set (nc_projectIds c) \<and>
     lr_executorId r \<in> set (nc_executorIds c) \<and> lr_operationId r \<in> set (nc_operationIds c) \<and>
     set (lr_credentialRefs r) \<subseteq> set (nc_credentialRefs c) \<and>
     target_permitted (nc_filesystemRoots c) (nc_networkDestinations c) (lr_target r) \<and>
     lr_risk r \<le> nc_maxRisk c \<and> lr_estimatedDurationSeconds r \<le> nc_maxDurationSeconds c \<and>
     (lr_externalEffect r \<longrightarrow> nc_externalEffects c \<noteq> EffectsNone \<and> num_lt active (Fin (nc_maxConcurrentEffects c)))"

definition executor_permits :: "executor_capability \<Rightarrow> local_policy_request \<Rightarrow> bool" where
  "executor_permits x r \<longleftrightarrow>
     xc_executorId x = lr_executorId r \<and> lr_operationId r \<in> set (xc_operationIds x) \<and>
     (lr_externalEffect r \<longleftrightarrow> lr_operationId r \<in> set (xc_externalEffectOperationIds x)) \<and>
     target_kind_of (lr_target r) \<in> set (xc_targetKinds x) \<and>
     (target_kind_of (lr_target r) = KindNetwork \<longrightarrow> xc_supportsNetworkIdentityEnforcement x) \<and>
     (lr_estimatedDurationSeconds r > 0 \<longrightarrow> xc_supportsCancellation x)"

lemma effectRank_0 [simp]: "effectRank e = 0 \<longleftrightarrow> e = EffectsNone" "0 < effectRank e \<longleftrightarrow> e \<noteq> EffectsNone"
  by (cases e; simp)+

lemma scope_within_permits:
  assumes "scope_within a leaf" "expires_within a leaf" "envelope_permits leaf r now"
  shows "envelope_permits a r now"
proof -
  have "target_permitted (filesystemRoots a) (allowedNetworkDestinations a) (lr_target r)"
    using assms by (cases "lr_target r") (auto simp: scope_within_def envelope_permits_def)
  moreover have "ms_less (Some now) (date_parse (ae_expiresAt a))"
    using assms by (auto simp: envelope_permits_def expires_within_def ms_leq_iff ms_less_iff)
  ultimately show ?thesis
    using assms unfolding scope_within_def envelope_permits_def by (auto intro: order_trans)
qed


lemma window_denial_None:
  "window_denial h i now = None \<Longrightarrow>
     \<not> input_invalid h i \<and> \<not> binding_mismatch (pi_request i) (pi_ceiling i) (pi_lease i)
     \<and> vl_authorityDigest (pi_lease i) = ae_digest (vl_authority (pi_lease i)) \<and> lr_authorityDigest (pi_request i) = ae_digest (vl_authority (pi_lease i))
     \<and> lr_operationDigest (pi_request i) = computeNormalizedOperationDigest h (pi_request i)
     \<and> (\<exists>from until expiry. date_parse (vl_validFrom (pi_lease i)) = Some from
         \<and> date_parse (vl_expiresAt (pi_lease i)) = Some until
         \<and> date_parse (ae_expiresAt (vl_authority (pi_lease i))) = Some expiry \<and> from \<le> now \<and> now < until \<and> now < expiry)
     \<and> ms_leq (date_parse (nc_issuedAt (pi_ceiling i))) (Some now)"
  unfolding window_denial_def Let_def if_Some_None
  by (auto simp: ms_leq_iff ms_less_iff not_less not_le)

lemma target_denial_None:
  "target_denial a c x t = None \<Longrightarrow>
     target_permitted (filesystemRoots a) (allowedNetworkDestinations a) t
     \<and> target_permitted (nc_filesystemRoots c) (nc_networkDestinations c) t
     \<and> (target_kind_of t = KindNetwork \<longrightarrow> xc_supportsNetworkIdentityEnforcement x)"
  by (cases t) (auto simp: list_ex_iff split: if_splits)

lemma scope_denial_None:
  assumes "scope_denial i = None"
  shows "allowedExecutor (vl_authority (pi_lease i)) = lr_executorId (pi_request i)
     \<and> lr_operationId (pi_request i) \<in> set (allowedOperations (vl_authority (pi_lease i)))
     \<and> set (lr_credentialRefs (pi_request i)) \<subseteq> set (ae_credentialRefs (vl_authority (pi_lease i)))
     \<and> lr_risk (pi_request i) \<le> maxRisk (vl_authority (pi_lease i))
     \<and> lr_estimatedDurationSeconds (pi_request i) \<le> maxDurationSeconds (vl_authority (pi_lease i))"
    and "lr_executorId (pi_request i) \<in> set (nc_executorIds (pi_ceiling i))
     \<and> lr_operationId (pi_request i) \<in> set (nc_operationIds (pi_ceiling i))
     \<and> set (lr_credentialRefs (pi_request i)) \<subseteq> set (nc_credentialRefs (pi_ceiling i))
     \<and> lr_risk (pi_request i) \<le> nc_maxRisk (pi_ceiling i)
     \<and> lr_estimatedDurationSeconds (pi_request i) \<le> nc_maxDurationSeconds (pi_ceiling i)"
    and "target_denial (vl_authority (pi_lease i)) (pi_ceiling i) (pi_executor i) (lr_target (pi_request i)) = None"
    and "cost_denial (nc_maxCostUsd (pi_ceiling i)) (maxCostUsd (vl_authority (pi_lease i)))
          (lr_estimatedCostUsd (pi_request i)) (xc_costMeter (pi_executor i)) = None"
    and "executor_permits (pi_executor i) (pi_request i)"
  using assms target_denial_None
  unfolding scope_denial_def Let_def if_Some_None if_first_None executor_permits_def
  by (auto simp: less_eq_risk_class_def not_less)

lemma effect_denial_None:
  assumes "effect_denial h i now = None"
  shows "effectPolicy (vl_authority (pi_lease i)) \<noteq> EffectsNone" "nc_externalEffects (pi_ceiling i) \<noteq> EffectsNone"
    and "\<not> num_le (Fin (min (nc_maxConcurrentEffects (pi_ceiling i)) (maxConcurrentEffects (vl_authority (pi_lease i)))))
          (pi_activeExternalEffects i)"
  using assms unfolding effect_denial_def Let_def if_Some_None
  by auto


lemma cost_denial_None:
  assumes "cost_denial cm am (Some e) meter = None" "0 < money_value e"
  shows "meter = MonotonicReservable \<and> (\<exists>m. cm = Some m \<and> money_value e \<le> money_value m) \<and> am \<noteq> None"
proof -
  obtain u where u: "decimalUnits e = Some u"
    using assms(1) by (cases "decimalUnits e") (simp_all add: cost_denial_def Let_def)
  have eu: "of_int u = 100000 * money_value e" using decimalUnits_value [OF u] .
  then have "0 < u" using assms(2) by (metis mult_pos_pos of_int_0_less_iff zero_less_numeral)
  with u assms(1) obtain c a where c: "Option.bind cm decimalUnits = Some c" "numericCostUnits am = Some a" "u \<le> c"
      "meter = MonotonicReservable"
    unfolding cost_denial_def Let_def if_Some_None by (auto split: option.splits if_splits)
  then obtain m where m: "cm = Some m" "decimalUnits m = Some c" by (cases cm) auto
  have "100000 * money_value e \<le> 100000 * money_value m"
    using decimalUnits_value [OF m(2)] eu c(3) by (metis of_int_le_iff)
  moreover have "am \<noteq> None" using c(2) by (cases am) (simp_all add: numericCostUnits_def)
  ultimately show ?thesis using m(1) c(4) by simp
qed

lemma accepted_leaf_permits:
  assumes "policy_denial h i now = None"
  shows "envelope_permits (vl_authority (pi_lease i)) (pi_request i) now"
  using assms window_denial_None [of h i now] scope_denial_None(1,3) [of i] target_denial_None effect_denial_None(1) [of h i now]
  unfolding policy_denial_None envelope_permits_def by (auto simp: binding_mismatch_def)

lemma validAuthority_expiry: "validAuthority h a \<Longrightarrow> zod_datetime h True (ae_expiresAt a)"
  by (simp add: validAuthority_def authorityEnvelopeSchema_def isoDate_def split: if_splits)

text \<open>
  C1. An accepted request stays within every envelope of the lease's delegation chain, from the
  root authority to the lease's own: project, executor, operation, credentials, target, risk,
  duration and effect policy are permitted by each of them, and none of them has expired.
\<close>

theorem accepted_within_delegation_chain:
  assumes "\<And>b t. zod_datetime h b t \<Longrightarrow> date_parse t \<noteq> None"
    and "evaluateLocalPolicy h i clock = Inr d" and "decision_accepted d"
  shows "\<exists>now. date_parse clock = Some now \<and>
    (\<forall>a \<in> set (vl_parentAuthorities (pi_lease i) @ [vl_authority (pi_lease i)]). envelope_permits a (pi_request i) now)"
proof -
  obtain now where now: "date_parse clock = Some now" "policy_denial h i now = None"
    using accepted_iff [OF assms(2)] assms(3) by blast
  let ?as = "vl_parentAuthorities (pi_lease i)" and ?leaf = "vl_authority (pi_lease i)"
  have "validAuthorityChain h (pi_lease i)"
    using now(2) window_denial_None unfolding policy_denial_None input_invalid_def by blast
  then have valid: "\<forall>a \<in> set (?as @ [?leaf]). validAuthority h a" and chain: "delegation_chain (?as @ [?leaf])"
    unfolding validAuthorityChain_iff by blast+
  have "\<forall>a \<in> set (?as @ [?leaf]). date_parse (ae_expiresAt a) \<noteq> None"
    using valid assms(1) validAuthority_expiry by blast
  then have "envelope_permits a (pi_request i) now" if "a \<in> set (?as @ [?leaf])" for a
    using chain_ancestor_contains [OF chain _ that] scope_within_permits accepted_leaf_permits [OF now(2)] by blast
  with now(1) show ?thesis by blast
qed

text \<open>
  C7. An accepted request is also within the node's own ceiling and the executor's declared
  abilities: it names the tenant and the node of both the ceiling and the lease, the job, attempt, lease, epoch and authority of
  the lease, the lease is in force, the ceiling has been issued, the signing key is available, the ceiling permits the project, executor, operation, credentials,
  target, risk, duration and one more concurrent effect, and a positive estimated cost is metered
  and does not exceed the ceiling's limit in dollars.
\<close>

theorem accepted_within_ceiling:
  assumes "evaluateLocalPolicy h i clock = Inr d" and "decision_accepted d"
  shows "ceiling_permits (pi_ceiling i) (pi_request i) (pi_activeExternalEffects i)
    \<and> executor_permits (pi_executor i) (pi_request i)
    \<and> nc_tenantId (pi_ceiling i) = lr_tenantId (pi_request i) \<and> nc_nodeId (pi_ceiling i) = lr_nodeId (pi_request i)
    \<and> vl_tenantId (pi_lease i) = lr_tenantId (pi_request i) \<and> vl_nodeId (pi_lease i) = lr_nodeId (pi_request i)
    \<and> vl_jobId (pi_lease i) = lr_jobId (pi_request i) \<and> vl_attemptId (pi_lease i) = lr_attemptId (pi_request i)
    \<and> vl_authorityDigest (pi_lease i) = ae_digest (vl_authority (pi_lease i)) \<and> lr_authorityDigest (pi_request i) = ae_digest (vl_authority (pi_lease i))
    \<and> vl_leaseId (pi_lease i) = lr_leaseId (pi_request i) \<and> vl_leaseEpoch (pi_lease i) = lr_leaseEpoch (pi_request i)
    \<and> ka_state (pi_keyAvailability i) = KeyAvailable
    \<and> ms_leq (date_parse (vl_validFrom (pi_lease i))) (date_parse clock)
    \<and> ms_less (date_parse clock) (date_parse (vl_expiresAt (pi_lease i)))
    \<and> ms_leq (date_parse (nc_issuedAt (pi_ceiling i))) (date_parse clock)
    \<and> (\<forall>e. lr_estimatedCostUsd (pi_request i) = Some e \<longrightarrow> 0 < money_value e \<longrightarrow>
         xc_costMeter (pi_executor i) = MonotonicReservable
         \<and> (\<exists>m. nc_maxCostUsd (pi_ceiling i) = Some m \<and> money_value e \<le> money_value m))"
proof -
  obtain now where now: "date_parse clock = Some now" "policy_denial h i now = None"
    using accepted_iff [OF assms(1)] assms(2) by blast
  note parts = now(2) [unfolded policy_denial_None]
  then have window: "window_denial h i now = None" and scope: "scope_denial i = None"
    and effect: "lr_externalEffect (pi_request i) \<Longrightarrow> effect_denial h i now = None" by blast+
  note w = window_denial_None [OF window] and s = scope_denial_None [OF scope]
  have active: "is_safe_integer (pi_activeExternalEffects i)" using w by (simp add: input_invalid_def)
  have "num_lt (pi_activeExternalEffects i) (Fin (nc_maxConcurrentEffects (pi_ceiling i)))"
    if "lr_externalEffect (pi_request i)"
    using effect_denial_None(3) [OF effect [OF that]] active
    by (cases "pi_activeExternalEffects i") auto
  then have "ceiling_permits (pi_ceiling i) (pi_request i) (pi_activeExternalEffects i)"
    using w s(2) target_denial_None [OF s(3)] effect_denial_None(2) [OF effect]
    unfolding ceiling_permits_def binding_mismatch_def by auto
  moreover have "xc_costMeter (pi_executor i) = MonotonicReservable
         \<and> (\<exists>m. nc_maxCostUsd (pi_ceiling i) = Some m \<and> money_value e \<le> money_value m)"
    if "lr_estimatedCostUsd (pi_request i) = Some e" "0 < money_value e" for e
    using cost_denial_None [OF s(4) [unfolded that(1)] that(2)] by blast
  ultimately show ?thesis using w s(5) parts now(1) by (auto simp: binding_mismatch_def)
qed


section \<open>Approvals\<close>

lemma validApproval_None:
  assumes "validApproval h i now deadline = None"
  shows "\<exists>approval key. lr_approval (pi_request i) = Some approval \<and> pi_approvalKey i = Some key
    \<and> ownerApprovalAttestationSchema h approval
    \<and> ed25519_verify h (ak_publicKeySpki key) (canonicalJson (approval_json (sa_body approval))) (sa_signature approval) = Some True
    \<and> \<not> ms_less (Some now) (date_parse (ob_issuedAt (sa_body approval)))
    \<and> \<not> ms_leq (date_parse (ob_expiresAt (sa_body approval))) (Some now)
    \<and> \<not> later_than (date_parse (ob_expiresAt (sa_body approval))) deadline
    \<and> \<not> approval_mismatch (sa_body approval) (pi_request i)"
  using assms unfolding validApproval_def
  by (auto simp: verifyArtifactSignature_def split: option.splits if_splits)

definition requires_approval :: "local_policy_input \<Rightarrow> bool" where
  "requires_approval i \<longleftrightarrow> lr_externalEffect (pi_request i) \<and>
     min (effectRank (nc_externalEffects (pi_ceiling i))) (effectRank (effectPolicy (vl_authority (pi_lease i)))) = effectRank ApprovalRequired"

lemma accepted_effect_approval:
  assumes "policy_denial h i now = None" and "requires_approval i"
  shows "validApproval h i now
      (min (of_int (the (date_parse (vl_expiresAt (pi_lease i)))))
        (min (of_int (the (date_parse (ae_expiresAt (vl_authority (pi_lease i))))))
          (of_int now + min (nc_maxDurationSeconds (pi_ceiling i)) (maxDurationSeconds (vl_authority (pi_lease i))) * 1000))) = None"
  using assms unfolding policy_denial_None requires_approval_def effect_denial_def Let_def if_Some_None by auto

definition same_operation :: "local_policy_request \<Rightarrow> local_policy_request \<Rightarrow> bool" where
  "same_operation r s \<longleftrightarrow>
     lr_tenantId r = lr_tenantId s \<and> lr_nodeId r = lr_nodeId s \<and> lr_projectId r = lr_projectId s \<and>
     lr_jobId r = lr_jobId s \<and> lr_attemptId r = lr_attemptId s \<and> lr_executorId r = lr_executorId s \<and>
     lr_operationId r = lr_operationId s \<and> lr_credentialRefs r = lr_credentialRefs s \<and> lr_target r = lr_target s \<and>
     lr_risk r = lr_risk s \<and> lr_externalEffect r = lr_externalEffect s \<and>
     lr_estimatedDurationSeconds r = lr_estimatedDurationSeconds s \<and> lr_payloadDigest r = lr_payloadDigest s \<and>
     lr_estimatedCostUsd r = lr_estimatedCostUsd s"

lemma distinct_operation_fields: "distinct (map fst (operation_fields r))"
  by (cases "lr_payloadDigest r"; cases "lr_estimatedCostUsd r") (simp_all add: operation_fields_def)

lemma operation_field:
  "json_field (JObj (operation_fields r)) k =
    (if k = ''tenantId'' then Some (JStr (lr_tenantId r))
     else if k = ''nodeId'' then Some (JStr (lr_nodeId r))
     else if k = ''projectId'' then Some (JStr (lr_projectId r))
     else if k = ''jobId'' then Some (JStr (lr_jobId r))
     else if k = ''attemptId'' then Some (JStr (lr_attemptId r))
     else if k = ''executorId'' then Some (JStr (lr_executorId r))
     else if k = ''operationId'' then Some (JStr (lr_operationId r))
     else if k = ''credentialRefs'' then Some (str_array (lr_credentialRefs r))
     else if k = ''target'' then Some (sort_keys (target_json (lr_target r)))
     else if k = ''risk'' then Some (JStr (risk_text (lr_risk r)))
     else if k = ''externalEffect'' then Some (JBool (lr_externalEffect r))
     else if k = ''estimatedDurationSeconds'' then Some (JNum (lr_estimatedDurationSeconds r))
     else if k = ''payloadDigest'' then map_option JStr (lr_payloadDigest r)
     else if k = ''estimatedCostUsd'' then map_option JStr (lr_estimatedCostUsd r) else None)"
  by (cases "lr_payloadDigest r"; cases "lr_estimatedCostUsd r")
    (simp_all add: json_field_def operation_fields_def)

lemma sort_keys_target_inject: "sort_keys (target_json s) = sort_keys (target_json t) \<longleftrightarrow> s = t"
  by (cases s; cases t) auto

lemma map_option_JStr_inject [simp]: "map_option JStr x = map_option JStr y \<longleftrightarrow> x = y"
  by (cases x; cases y) simp_all

lemma plain_operation_fields:
  assumes "nonnegative_int (lr_estimatedDurationSeconds r)" "lr_estimatedDurationSeconds r \<le> 31536000"
  shows "plain_numbers (JObj (operation_fields r))"
proof -
  have "plain_numbers (target_json (lr_target r))" by (cases "lr_target r") simp_all
  then show ?thesis using assms
    by (cases "lr_payloadDigest r"; cases "lr_estimatedCostUsd r")
      (simp_all add: operation_fields_def nonnegative_int_def z_int_def)
qed

lemma operation_digest_binding:
  assumes "computeNormalizedOperationDigest h r = computeNormalizedOperationDigest h s"
    and "plain_numbers (JObj (operation_fields r))" "plain_numbers (JObj (operation_fields s))"
  shows "same_operation r s \<or> hash_collision h (JObj (operation_fields r)) (JObj (operation_fields s))"
proof (rule disjCI)
  assume "\<not> hash_collision h (JObj (operation_fields r)) (JObj (operation_fields s))"
  then have field: "json_field (JObj (operation_fields r)) k = json_field (JObj (operation_fields s)) k" for k
    using assms by (intro digest_fields_agree) (simp_all add: computeNormalizedOperationDigest_def distinct_operation_fields)
  show "same_operation r s"
    using field [of "''tenantId''"] field [of "''nodeId''"] field [of "''projectId''"] field [of "''jobId''"]
      field [of "''attemptId''"] field [of "''executorId''"] field [of "''operationId''"] field [of "''credentialRefs''"]
      field [of "''target''"] field [of "''risk''"] field [of "''externalEffect''"] field [of "''estimatedDurationSeconds''"]
      field [of "''payloadDigest''"] field [of "''estimatedCostUsd''"]
    by (simp add: operation_field same_operation_def sort_keys_target_inject)
qed

text \<open>
  C8. An owner's approval authorizes one operation. When two requests that need approval are
  accepted with the same attestation, they describe the same operation on the same node, with the
  same target, credentials, payload, risk, duration and cost, or SHA-256 collides on their
  operation texts.
\<close>

theorem approval_authorizes_one_operation:
  assumes "evaluateLocalPolicy h i clock = Inr d" and "decision_accepted d" and "requires_approval i"
    and "evaluateLocalPolicy h j clock' = Inr e" and "decision_accepted e" and "requires_approval j"
    and "lr_approval (pi_request i) = lr_approval (pi_request j)"
  shows "same_operation (pi_request i) (pi_request j)
    \<or> hash_collision h (JObj (operation_fields (pi_request i))) (JObj (operation_fields (pi_request j)))"
proof -
  have bound: "\<exists>a. lr_approval (pi_request k) = Some a
      \<and> ob_operationDigest (sa_body a) = computeNormalizedOperationDigest h (pi_request k)
      \<and> plain_numbers (JObj (operation_fields (pi_request k)))"
    if k: "policy_denial h k now = None" "requires_approval k" for k now
  proof -
    have w: "\<not> input_invalid h k" "lr_operationDigest (pi_request k) = computeNormalizedOperationDigest h (pi_request k)"
      using k(1) window_denial_None unfolding policy_denial_None by blast+
    then have "plain_numbers (JObj (operation_fields (pi_request k)))"
      by (intro plain_operation_fields) (simp_all add: input_invalid_def normalizedLocalPolicyRequestSchema_def)
    then show ?thesis
      using validApproval_None [OF accepted_effect_approval [OF k]] w(2) by (auto simp: approval_mismatch_def)
  qed
  obtain n m where "policy_denial h i n = None" "policy_denial h j m = None"
    using accepted_iff [OF assms(1)] accepted_iff [OF assms(4)] assms(2,5) by blast
  with bound [of i n] bound [of j m] assms(3,6,7) show ?thesis
    by (intro operation_digest_binding) auto
qed


text \<open>
  C6. An external effect under an approval policy is accepted only with an attestation whose
  signature verifies under the resolved key over the canonical text of its body, that names this
  operation's digest, was issued by now, has not expired, and expires no later than the lease, the
  authority and the permitted duration counted from now.
\<close>

theorem accepted_effect_was_approved:
  assumes "\<And>b t. zod_datetime h b t \<Longrightarrow> date_parse t \<noteq> None"
    and "evaluateLocalPolicy h i clock = Inr d" and "decision_accepted d" and "requires_approval i"
  shows "\<exists>approval key now issued expires.
    lr_approval (pi_request i) = Some approval \<and> pi_approvalKey i = Some key \<and>
    ed25519_verify h (ak_publicKeySpki key) (canonicalJson (approval_json (sa_body approval))) (sa_signature approval) = Some True \<and>
    ob_operationDigest (sa_body approval) = computeNormalizedOperationDigest h (pi_request i) \<and>
    date_parse clock = Some now \<and> date_parse (ob_issuedAt (sa_body approval)) = Some issued \<and>
    date_parse (ob_expiresAt (sa_body approval)) = Some expires \<and> issued \<le> now \<and> now < expires \<and>
    ms_leq (Some expires) (date_parse (vl_expiresAt (pi_lease i))) \<and>
    ms_leq (Some expires) (date_parse (ae_expiresAt (vl_authority (pi_lease i)))) \<and>
    of_int expires \<le> of_int now + min (nc_maxDurationSeconds (pi_ceiling i)) (maxDurationSeconds (vl_authority (pi_lease i))) * 1000"
proof -
  obtain now where now: "date_parse clock = Some now" "policy_denial h i now = None"
    using accepted_iff [OF assms(2)] assms(3) by blast
  then have w: "lr_operationDigest (pi_request i) = computeNormalizedOperationDigest h (pi_request i)"
    "date_parse (vl_expiresAt (pi_lease i)) \<noteq> None" "date_parse (ae_expiresAt (vl_authority (pi_lease i))) \<noteq> None"
    using window_denial_None unfolding policy_denial_None by blast+
  obtain a key where a: "lr_approval (pi_request i) = Some a" "pi_approvalKey i = Some key"
    "ownerApprovalAttestationSchema h a"
    "ed25519_verify h (ak_publicKeySpki key) (canonicalJson (approval_json (sa_body a))) (sa_signature a) = Some True"
    "\<not> ms_less (Some now) (date_parse (ob_issuedAt (sa_body a)))" "\<not> ms_leq (date_parse (ob_expiresAt (sa_body a))) (Some now)"
    "\<not> later_than (date_parse (ob_expiresAt (sa_body a)))
      (min (of_int (the (date_parse (vl_expiresAt (pi_lease i)))))
        (min (of_int (the (date_parse (ae_expiresAt (vl_authority (pi_lease i))))))
          (of_int now + min (nc_maxDurationSeconds (pi_ceiling i)) (maxDurationSeconds (vl_authority (pi_lease i))) * 1000)))"
    "\<not> approval_mismatch (sa_body a) (pi_request i)"
    using validApproval_None [OF accepted_effect_approval [OF now(2) assms(4)]] by blast
  have "zod_datetime h False (ob_issuedAt (sa_body a))" "zod_datetime h False (ob_expiresAt (sa_body a))"
    using a(3) by (simp_all add: ownerApprovalAttestationSchema_def ownerApprovalAttestationBodySchema_def isoInstant_def)
  then obtain issued expires where dates: "date_parse (ob_issuedAt (sa_body a)) = Some issued"
    "date_parse (ob_expiresAt (sa_body a)) = Some expires"
    using assms(1) by (meson not_None_eq)
  then show ?thesis
    using a w now(1)
    by (intro exI [of _ a] exI [of _ key] exI [of _ now] exI [of _ issued] exI [of _ expires])
      (auto simp: later_than_def not_less not_le approval_mismatch_def)
qed

text \<open>
  The evaluation always answers: with a canonical clock reading it returns a decision bound to the
  request, the ceiling, the authority and the reading, and a denial carries the wire category of its
  detail, which is never one of the details reserved for the stores; with any other reading it throws.
\<close>

lemma evaluateLocalPolicy_answers:
  "case evaluateLocalPolicy h i clock of
     Inl e \<Rightarrow> requireCanonicalClockInstant clock = Inl e
   | Inr d \<Rightarrow> requireCanonicalClockInstant clock = Inr clock
       \<and> decision_of d = \<lparr>dc_requestId = lr_requestId (pi_request i), dc_requestDigest = sha256Digest h (request_json (pi_request i)),
           dc_ceilingDigest = nc_bodyDigest (pi_ceiling i), dc_authorityDigest = vl_authorityDigest (pi_lease i), dc_decidedAt = clock\<rparr>
       \<and> (decision_accepted d \<or> denial_category d = wireCategory (denial_detail d)
            \<and> wireCategory (denial_detail d) \<notin> {WireStorage, WireAmbiguous})"
proof (cases "evaluateLocalPolicy h i clock")
  case (Inl e)
  then show ?thesis
    by (auto simp: evaluateLocalPolicy_def bind_result_Inl_iff Let_def split: if_splits option.splits)
next
  case (Inr d)
  have cost: "x \<in> {CostUnmeasurable, CostExceeded}" if "cost_denial c a r m = Some x" for c a r m x
    using that unfolding cost_denial_def Let_def by (auto split: if_splits option.splits)
  have target: "x \<in> {FilesystemTargetNotAllowed, NetworkDestinationNotAllowed}" if "target_denial a c y t = Some x" for a c y t x
    using that by (cases t) (auto split: if_splits)
  have approval: "x \<in> {ApprovalInvalid, ApprovalExpired, ApprovalMissing}" if "validApproval h i n m = Some x" for n m x
    using that unfolding validApproval_def by (auto split: if_splits option.splits)
  have category: "wireCategory x \<notin> {WireStorage, WireAmbiguous}" if "policy_denial h i n = Some x" for n x
  proof -
    have branch: "(if b then t else e) = Some x \<Longrightarrow> t = Some x \<or> e = Some x" for b t e and x :: local_denial_detail by (cases b) simp_all
    have "wireCategory x \<notin> {WireStorage, WireAmbiguous}" if "window_denial h i n = Some x"
      using that unfolding window_denial_def Let_def by (auto dest!: branch)
    moreover have "wireCategory x \<notin> {WireStorage, WireAmbiguous}" if "scope_denial i = Some x"
      using that unfolding scope_denial_def Let_def by (auto dest!: branch cost target)
    moreover have "wireCategory x \<notin> {WireStorage, WireAmbiguous}" if "effect_denial h i n = Some x"
      using that unfolding effect_denial_def Let_def by (auto dest!: branch approval)
    ultimately show ?thesis using that unfolding policy_denial_def by (auto dest!: branch)
  qed
  have clock: "requireCanonicalClockInstant clock = Inr clock"
    using Inr requireCanonicalClockInstant_Inr [of clock] by (auto simp: evaluateLocalPolicy_def bind_result_def split: sum.splits)
  show ?thesis
    unfolding Inr sum.case(2) using Inr category clock
    by (auto simp: evaluateLocalPolicy_def denial_def Let_def dest!: requireCanonicalClockInstant_Inr split: option.splits)
qed


section \<open>A request that needs approval\<close>

text \<open>A concrete evaluation in which the hypotheses of the preceding theorems hold.\<close>

definition d0 :: string where "d0 = sample_digest CHR ''0''"

definition sample_root_authority :: authority_envelope where
  "sample_root_authority = (sample_envelope d0)\<lparr>allowedOperations := [''task.run'', ''task.stop''], filesystemRoots := [''/srv'']\<rparr>"

definition sample_lease_authority :: authority_envelope where
  "sample_lease_authority = sample_root_authority\<lparr>allowedOperations := [''task.run''], parentDigest := Some d0\<rparr>"

definition sample_lease :: verified_lease_authority where
  "sample_lease = \<lparr>vl_tenantId = ''tenant:1'', vl_nodeId = ''node:1'', vl_jobId = ''job:1'', vl_attemptId = ''attempt:1'',
     vl_leaseId = ''lease:1'', vl_leaseEpoch = 1, vl_validFrom = ''2025-06-01T00:00:00.000Z'',
     vl_expiresAt = ''2025-06-01T01:00:00.000Z'', vl_authorityDigest = d0, vl_authority = sample_lease_authority,
     vl_parentAuthorities = [sample_root_authority]\<rparr>"

definition sample_ceiling :: node_authority_ceiling where
  "sample_ceiling = \<lparr>nc_schema = NODE_CEILING_SCHEMA_V1, nc_tenantId = ''tenant:1'', nc_nodeId = ''node:1'', nc_version = 1,
     nc_issuedAt = ''2025-05-01T00:00:00.000Z'', nc_issuerKeyId = ''key:owner'', nc_projectIds = [''project:1''],
     nc_executorIds = [''executor:1''], nc_operationIds = [''task.run''], nc_credentialRefs = [],
     nc_filesystemRoots = [''/srv''], nc_networkDestinations = [], nc_maxRisk = High, nc_externalEffects = Preauthorized,
     nc_maxDurationSeconds = 900, nc_maxConcurrentEffects = 2, nc_maxCostUsd = Some ''9.5'', nc_bodyDigest = d0\<rparr>"

definition sample_approval :: owner_approval_attestation where
  "sample_approval = \<lparr>sa_body = \<lparr>ob_schema = APPROVAL_ATTESTATION_SCHEMA_V1, ob_tenantId = ''tenant:1'', ob_nodeId = Some ''node:1'',
       ob_nodeClass = None, ob_projectId = ''project:1'', ob_jobId = ''job:1'', ob_attemptId = ''attempt:1'',
       ob_operationDigest = d0, ob_risk = Medium, ob_decision = ''approved'', ob_issuedAt = ''2025-06-01T00:05:00.000Z'',
       ob_expiresAt = ''2025-06-01T00:12:00.000Z'', ob_nonce = ''nonce-0123456789'', ob_approvalKeyId = ''key:approver'',
       ob_bodyDigest = d0\<rparr>,
     sa_signatureAlgorithm = ''Ed25519'', sa_signature = ''signature-0123456789''\<rparr>"

definition sample_request :: "string \<Rightarrow> local_policy_request" where
  "sample_request rid = \<lparr>lr_contractVersion = NODE_POLICY_CONTRACT_V1, lr_requestId = rid, lr_tenantId = ''tenant:1'',
     lr_nodeId = ''node:1'', lr_nodeClass = ''class:1'', lr_projectId = ''project:1'', lr_jobId = ''job:1'', lr_attemptId = ''attempt:1'',
     lr_leaseId = ''lease:1'', lr_leaseEpoch = 1, lr_executorId = ''executor:1'', lr_operationId = ''task.run'',
     lr_operationDigest = d0, lr_payloadDigest = None, lr_authorityDigest = d0, lr_credentialRefs = [],
     lr_target = TargetFilesystem ''/srv/app'', lr_risk = Medium, lr_externalEffect = True, lr_estimatedDurationSeconds = 60,
     lr_estimatedCostUsd = Some ''2.5'', lr_occurredAt = ''2025-06-01T00:09:00.000Z'', lr_approval = Some sample_approval\<rparr>"

definition sample_executor :: executor_capability where
  "sample_executor = \<lparr>xc_contractVersion = NODE_POLICY_CONTRACT_V1, xc_executorId = ''executor:1'', xc_operationIds = [''task.run''],
     xc_externalEffectOperationIds = [''task.run''], xc_targetKinds = [KindFilesystem], xc_supportsCancellation = True,
     xc_supportsNetworkIdentityEnforcement = False, xc_costMeter = MonotonicReservable\<rparr>"

definition sample_input :: "string \<Rightarrow> local_policy_input" where
  "sample_input rid = \<lparr>pi_request = sample_request rid, pi_ceiling = sample_ceiling, pi_lease = sample_lease, pi_executor = sample_executor,
     pi_keyAvailability = \<lparr>ka_state = KeyAvailable, ka_keyReferenceId = ''key:node'', ka_observedAt = ''2025-06-01T00:09:00.000Z''\<rparr>,
     pi_approvalKey = Some \<lparr>ak_keyId = ''key:approver'', ak_publicKeySpki = ''spki''\<rparr>, pi_activeExternalEffects = Fin 0\<rparr>"

lemma sample_sha256 [simp]: "sha256Digest sample_host v = d0"
  by (simp add: sha256Digest_def sample_host_def d0_def sample_digest_def)

lemma d0_pattern [simp]: "digest_pattern d0"
  by (simp add: d0_def is_hex_def is_digit_def less_eq_char_def)

lemmas sample_defs = sample_root_authority_def sample_lease_authority_def sample_lease_def sample_ceiling_def sample_approval_def
  sample_request_def sample_executor_def sample_input_def sample_envelope_def

lemmas id_eval = safeId_def text_between_def is_id_char_def is_alnum_def is_lower_def is_upper_def is_digit_def
  less_eq_char_def base64url_def base64url_pattern_def

lemma sample_path [simp]: "canonicalFilesystemPathSchema ''/srv''" "canonicalFilesystemPathSchema ''/srv/app''"
  by (simp_all add: canonicalFilesystemPathSchema_def text_between_def isCanonicalFilesystemPath_def unix_path_def windows_path_def
      drive_prefix_def starts_with_def ends_with_def non_empty_segments_def is_upper_def less_eq_char_def)

lemma sample_chain_valid: "validAuthorityChain sample_host sample_lease"
  by (simp add: validAuthorityChain_def validAuthority_def sample_defs authorityEnvelopeSchema_def id_eval z_int_def isoDate_def
      nonNegativeMoney_def computeAuthorityDigest_def isSortedUnique_def compareDelegatedAuthority_def authority_violations_def
      flag_def Let_def date_eval sample_host_def [THEN arg_cong, of zod_datetime])

lemma sample_request_valid: "safeId rid \<Longrightarrow> normalizedLocalPolicyRequestSchema sample_host (sample_request rid)"
  by (simp add: normalizedLocalPolicyRequestSchema_def ownerApprovalAttestationSchema_def ownerApprovalAttestationBodySchema_def
      signedArtifactShape_def sample_defs id_eval positive_int_def nonnegative_int_def z_int_def isoInstant_def sortedUnique_def
      computeArtifactBodyDigest_def canonicalMoney_def integral_digits_def date_eval
      sample_host_def [THEN arg_cong, of zod_datetime] NODE_POLICY_CONTRACT_V1_def)

lemma sample_ceiling_valid: "nodeAuthorityCeilingBodySchema sample_host sample_ceiling"
  by (simp add: nodeAuthorityCeilingBodySchema_def sample_defs id_eval positive_int_def nonnegative_int_def z_int_def isoInstant_def
      sortedUnique_def computeArtifactBodyDigest_def canonicalMoney_def integral_digits_def date_eval
      sample_host_def [THEN arg_cong, of zod_datetime])


lemma sample_input_valid:
  assumes "safeId rid" shows "\<not> input_invalid sample_host (sample_input rid)"
  using sample_chain_valid sample_request_valid [OF assms] sample_ceiling_valid
  by (simp add: input_invalid_def sample_input_def)
    (simp add: sample_executor_def executorCapabilitySchema_def keyAvailabilitySchema_def sortedUnique_def id_eval isoInstant_def
      sample_host_def date_eval)

lemma sample_window:
  assumes "safeId rid" shows "window_denial sample_host (sample_input rid) 1748736600000 = None"
  unfolding window_denial_def Let_def if_Some_None using sample_input_valid [OF assms]
  by (simp add: binding_mismatch_def computeNormalizedOperationDigest_def sample_defs date_eval)

lemma sample_scope: "scope_denial (sample_input rid) = None"
  unfolding scope_denial_def Let_def if_Some_None if_first_None
  by (simp add: sample_defs pathWithin_def path_separator_def starts_with_def ends_with_def cost_denial_def Let_def
      numericCostUnits_def decimalUnits_def integral_digits_def checked_units_def pad_end_zero_def read_dec_def
      digit_val_def is_digit_def less_eq_char_def max_safe_integer_def num_text_def positive_text_def eval_nat_numeral
      int_text.simps layout_digits_def digit_char_def)

lemma sample_effect: "effect_denial sample_host (sample_input rid) 1748736600000 = None"
  by (simp add: effect_denial_def Let_def sample_defs validApproval_def ownerApprovalAttestationSchema_def
      ownerApprovalAttestationBodySchema_def signedArtifactShape_def id_eval isoInstant_def computeArtifactBodyDigest_def
      verifyArtifactSignature_def assertArtifactBodyDigest_def approval_mismatch_def later_than_def
      sample_host_def [THEN arg_cong, of zod_datetime] sample_host_def [THEN arg_cong, of ed25519_verify] date_eval)


definition sample_clock :: string where
  "sample_clock = ''2025-06-01T00:10:00.000Z''"

lemma sample_clock_parse: "date_parse sample_clock = Some 1748736600000"
  by (simp add: sample_clock_def date_eval)

lemma sample_accepted:
  assumes "safeId rid"
  obtains d where "evaluateLocalPolicy sample_host (sample_input rid) sample_clock = Inr d" "decision_accepted d"
proof -
  have clock: "requireCanonicalClockInstant sample_clock = Inr sample_clock"
    using sample_clock_parse
    by (simp add: requireCanonicalClockInstant_def) (simp add: sample_clock_def is_digit_def less_eq_char_def)
  have "policy_denial sample_host (sample_input rid) 1748736600000 = None"
    unfolding policy_denial_None using sample_window [OF assms] sample_scope sample_effect by (simp add: sample_input_def)
  then show thesis
    using that by (simp add: evaluateLocalPolicy_def clock sample_clock_parse Let_def)
qed

lemma sample_ids [simp]: "safeId ''request:1''" "safeId ''request:2''"
  by (simp_all add: id_eval)

lemma sample_requires_approval: "requires_approval (sample_input rid)"
  by (simp add: requires_approval_def sample_defs)

lemma sample_host_dates: "zod_datetime sample_host b t \<Longrightarrow> date_parse t \<noteq> None"
  by (simp add: sample_host_def)

theorem accepted_within_delegation_chain_witness:
  "(\<exists>d. evaluateLocalPolicy sample_host (sample_input ''request:1'') sample_clock = Inr d \<and> decision_accepted d)
   \<and> envelope_permits sample_root_authority (sample_request ''request:1'') 1748736600000"
proof -
  obtain d where d: "evaluateLocalPolicy sample_host (sample_input ''request:1'') sample_clock = Inr d" "decision_accepted d"
    using sample_accepted sample_ids(1) by metis
  then show ?thesis
    using accepted_within_delegation_chain [OF sample_host_dates d] sample_clock_parse
    by (auto simp: sample_input_def sample_lease_def)
qed

theorem accepted_within_ceiling_witness:
  "(\<exists>d. evaluateLocalPolicy sample_host (sample_input ''request:1'') sample_clock = Inr d \<and> decision_accepted d)
   \<and> ceiling_permits sample_ceiling (sample_request ''request:1'') (Fin 0)"
proof -
  obtain d where d: "evaluateLocalPolicy sample_host (sample_input ''request:1'') sample_clock = Inr d" "decision_accepted d"
    using sample_accepted sample_ids(1) by metis
  then show ?thesis
    using accepted_within_ceiling [OF d] by (auto simp: sample_input_def)
qed

theorem approval_authorizes_one_operation_witness:
  "same_operation (sample_request ''request:1'') (sample_request ''request:2'')
   \<or> hash_collision sample_host (JObj (operation_fields (sample_request ''request:1''))) (JObj (operation_fields (sample_request ''request:2'')))"
proof -
  obtain d e where "evaluateLocalPolicy sample_host (sample_input ''request:1'') sample_clock = Inr d" "decision_accepted d"
      "evaluateLocalPolicy sample_host (sample_input ''request:2'') sample_clock = Inr e" "decision_accepted e"
    using sample_accepted sample_ids by metis
  from approval_authorizes_one_operation [OF this(1,2) sample_requires_approval this(3,4) sample_requires_approval]
  show ?thesis by (simp add: sample_input_def sample_request_def)
qed

theorem accepted_effect_was_approved_witness:
  "(\<exists>d. evaluateLocalPolicy sample_host (sample_input ''request:1'') sample_clock = Inr d \<and> decision_accepted d)
   \<and> requires_approval (sample_input ''request:1'')
   \<and> ob_operationDigest (sa_body sample_approval) = computeNormalizedOperationDigest sample_host (sample_request ''request:1'')"
proof -
  obtain d where d: "evaluateLocalPolicy sample_host (sample_input ''request:1'') sample_clock = Inr d" "decision_accepted d"
    using sample_accepted sample_ids(1) by metis
  moreover have "lr_approval (sample_request ''request:1'') = Some sample_approval" by (simp add: sample_request_def)
  ultimately show ?thesis
    using accepted_effect_was_approved [OF sample_host_dates d sample_requires_approval] sample_requires_approval
    by (auto simp: sample_input_def)
qed

end
