(* ===== verification/Execution_Authority.thy ===== *)
theory Execution_Authority
  imports Node_Policy_Types
begin

text \<open>
  Execution under a deadline: \<open>src/node-policy/v1/execution-authority.ts\<close>. A snapshot of an
  execution carries its effective deadline and the sources it was computed from; events move it
  through its states. Throwing code returns \<open>Inl\<close> of the message.

  The transition theorems are stated over \<open>execution\<close>, the snapshots reachable from an admission by
  any sequence of accepted events: the deadline of an execution is never later than its fixed
  sources allow, whatever renewals happened; it completes only before that deadline; what was
  started is cancelled on recovery; and the identity of the execution never changes.
\<close>

section \<open>States, deadlines and events\<close>

datatype execution_state =
    XAdmitted | XExecuting | XExpiringSoon | XCancellationRequested | XExpired | XCompleted | XFailed | XCancelled

datatype limiting_factor = ByDuration | ByAuthority | ByLease | ByApproval | ByReservation

record deadline_sources =
  ds_admittedAt :: string
  ds_ceilingDurationSeconds :: jsnum
  ds_authorityDurationSeconds :: jsnum
  ds_authorityExpiresAt :: string
  ds_leaseExpiresAt :: string
  ds_approvalExpiresAt :: "string option"
  ds_reservationExpiresAt :: "string option"

record effective_deadline =
  ed_effectiveDeadline :: string
  ed_limitingFactors :: "limiting_factor list"
  ed_sources :: deadline_sources

record execution_identity =
  xi_tenantId :: string
  xi_nodeId :: string
  xi_projectId :: string
  xi_jobId :: string
  xi_attemptId :: string
  xi_operationDigest :: string

record execution_snapshot =
  es_schema :: string
  es_executionId :: string
  es_admissionId :: string
  es_identity :: execution_identity
  es_authorityDigest :: string
  es_state :: execution_state
  es_deadline :: effective_deadline
  es_leaseEpoch :: jsnum
  es_cancellationRequestedAt :: "string option"
  es_version :: int
  es_createdAt :: string
  es_updatedAt :: string

datatype cancellation_reason = ReasonDeadline | ReasonOperator | ReasonServer | ReasonRestart

datatype execution_event_kind =
    EvStart
  | EvExpiringSoon
  | EvDeadlineCrossed jsnum
  | EvCancellationRequested cancellation_reason
  | EvCompleted
  | EvFailed string
  | EvCancelled
  | EvLeaseRenewed string jsnum string

record execution_event =
  ev_eventId :: string
  ev_occurredAt :: string
  ev_kind :: execution_event_kind

record execution_transition =
  tr_snapshot :: execution_snapshot
  tr_requestCancellation :: bool

datatype deadline_observation =
    ObservedCrossed string int bool
  | ObservedExpiringSoon string int
  | ObservedNone string "int option"

datatype recovery_action = PreEffectRecheck | RequestCancellation | RemainExpired | NoAction
datatype effect_claim_state = ClaimClaimed | ClaimMissing | ClaimAmbiguous

definition factorOrder :: "limiting_factor list" where
  "factorOrder = [ByDuration, ByAuthority, ByLease, ByApproval, ByReservation]"

definition terminalStates :: "execution_state list" where
  "terminalStates = [XCompleted, XFailed, XCancelled]"


section \<open>Checks on values\<close>

text \<open>The white space \<open>String.prototype.trim\<close> removes, among code units below 256.\<close>

definition is_js_space :: "char \<Rightarrow> bool" where
  "is_js_space c \<longleftrightarrow> c \<in> {CHR 0x09, CHR 0x0A, CHR 0x0B, CHR 0x0C, CHR 0x0D, CHR '' '', CHR 0xA0}"

definition js_trim :: "string \<Rightarrow> string" where
  "js_trim s = rev (dropWhile is_js_space (rev (dropWhile is_js_space s)))"

definition requireNonempty :: "string \<Rightarrow> string \<Rightarrow> (string, string) result" where
  "requireNonempty v label =
     (if length v = 0 \<or> js_trim v \<noteq> v then Inl (label @ '' must be a nonempty canonical identifier'') else Inr v)"

definition normalizeInstant :: "host \<Rightarrow> string \<Rightarrow> string \<Rightarrow> (string, string) result" where
  "normalizeInstant h v label =
     (if \<not> zod_datetime h True v then Inl (label @ '' must be an RFC 3339 instant'')
      else (case date_parse v of
              None \<Rightarrow> Inl (label @ '' must be an RFC 3339 instant'')
            | Some ms \<Rightarrow> (case to_iso ms of None \<Rightarrow> Inl ''Invalid time value'' | Some t \<Rightarrow> Inr t)))"

definition requirePositiveDuration :: "jsnum \<Rightarrow> string \<Rightarrow> (string, jsnum) result" where
  "requirePositiveDuration v label =
     (if \<not> is_safe_integer v \<or> num_le v (Fin 0) \<or> num_lt (Fin 31536000) v
      then Inl (label @ '' must be a positive safe integer no greater than one year'') else Inr v)"

definition requireEpoch :: "jsnum \<Rightarrow> (string, jsnum) result" where
  "requireEpoch v =
     (if \<not> is_safe_integer v \<or> num_lt v (Fin 0) then Inl ''Lease epoch must be a nonnegative safe integer'' else Inr v)"

definition normalize_optional :: "host \<Rightarrow> string option \<Rightarrow> string \<Rightarrow> (string, string option) result" where
  "normalize_optional h v label =
     (case v of None \<Rightarrow> Inr None | Some t \<Rightarrow> bind_result (normalizeInstant h t label) (\<lambda>n. Inr (Some n)))"


section \<open>The effective deadline\<close>

definition iso_text :: "int \<Rightarrow> (string, string) result" where
  "iso_text ms = (case to_iso ms of None \<Rightarrow> Inl ''Invalid time value'' | Some t \<Rightarrow> Inr t)"

definition deadline_candidates :: "string \<Rightarrow> deadline_sources \<Rightarrow> (limiting_factor \<times> string) list" where
  "deadline_candidates durationDeadline s =
     [(ByDuration, durationDeadline), (ByAuthority, ds_authorityExpiresAt s), (ByLease, ds_leaseExpiresAt s)]
     @ (case ds_approvalExpiresAt s of None \<Rightarrow> [] | Some t \<Rightarrow> if t \<noteq> [] then [(ByApproval, t)] else [])
     @ (case ds_reservationExpiresAt s of None \<Rightarrow> [] | Some t \<Rightarrow> if t \<noteq> [] then [(ByReservation, t)] else [])"

definition normalize_sources :: "host \<Rightarrow> string \<Rightarrow> deadline_sources \<Rightarrow> (string, deadline_sources) result" where
  "normalize_sources h admittedAt i =
     bind_result (normalizeInstant h (ds_authorityExpiresAt i) ''Authority expiry'') (\<lambda>authority.
     bind_result (normalizeInstant h (ds_leaseExpiresAt i) ''Lease expiry'') (\<lambda>lease.
     bind_result (normalize_optional h (ds_approvalExpiresAt i) ''Approval expiry'') (\<lambda>approval.
     bind_result (normalize_optional h (ds_reservationExpiresAt i) ''Reservation expiry'') (\<lambda>reservation.
       Inr \<lparr>ds_admittedAt = admittedAt, ds_ceilingDurationSeconds = ds_ceilingDurationSeconds i,
            ds_authorityDurationSeconds = ds_authorityDurationSeconds i, ds_authorityExpiresAt = authority,
            ds_leaseExpiresAt = lease, ds_approvalExpiresAt = approval, ds_reservationExpiresAt = reservation\<rparr>))))"

definition select_deadline :: "string \<Rightarrow> (limiting_factor \<times> string) list \<Rightarrow> deadline_sources \<Rightarrow> (string, effective_deadline) result" where
  "select_deadline admittedAt candidates s =
     (let earliest = min_list (map (\<lambda>c. the (date_parse (snd c))) candidates)
      in if earliest \<le> the (date_parse admittedAt) then Inl ''Effective deadline must be after admission''
         else bind_result (iso_text earliest) (\<lambda>t. Inr
           \<lparr>ed_effectiveDeadline = t,
            ed_limitingFactors = filter (\<lambda>f. list_ex (\<lambda>c. fst c = f \<and> date_parse (snd c) = Some earliest) candidates) factorOrder,
            ed_sources = s\<rparr>))"

definition calculateEffectiveExecutionDeadline :: "host \<Rightarrow> deadline_sources \<Rightarrow> (string, effective_deadline) result" where
  "calculateEffectiveExecutionDeadline h i =
     bind_result (normalizeInstant h (ds_admittedAt i) ''Admission time'') (\<lambda>admittedAt.
     bind_result (requirePositiveDuration (ds_ceilingDurationSeconds i) ''Ceiling duration'') (\<lambda>ceil.
     bind_result (requirePositiveDuration (ds_authorityDurationSeconds i) ''Authority duration'') (\<lambda>auth.
     bind_result (iso_text (the (date_parse admittedAt) + min (num_int ceil) (num_int auth) * 1000)) (\<lambda>durationDeadline.
     bind_result (normalize_sources h admittedAt i) (\<lambda>s.
       select_deadline admittedAt (deadline_candidates durationDeadline s) s)))))"


section \<open>Snapshots and events\<close>

record execution_creation =
  xn_executionId :: string
  xn_admissionId :: string
  xn_identity :: execution_identity
  xn_authorityDigest :: string
  xn_deadlineSources :: deadline_sources
  xn_leaseEpoch :: jsnum
  xn_createdAt :: string

fun require_all_nonempty :: "(string \<times> string) list \<Rightarrow> (string, unit) result" where
  "require_all_nonempty [] = Inr ()"
| "require_all_nonempty ((label, v) # rest) = bind_result (requireNonempty v label) (\<lambda>_. require_all_nonempty rest)"

definition createExecutionAuthoritySnapshot :: "host \<Rightarrow> execution_creation \<Rightarrow> (string, execution_snapshot) result" where
  "createExecutionAuthoritySnapshot h i =
     bind_result (normalizeInstant h (xn_createdAt i) ''Creation time'') (\<lambda>created.
     bind_result (calculateEffectiveExecutionDeadline h (xn_deadlineSources i)) (\<lambda>deadline.
     if created \<noteq> ds_admittedAt (ed_sources deadline) then Inl ''Creation time must equal admission time''
     else bind_result (require_all_nonempty
       [(''executionId'', xn_executionId i), (''admissionId'', xn_admissionId i), (''tenantId'', xi_tenantId (xn_identity i)),
        (''nodeId'', xi_nodeId (xn_identity i)), (''projectId'', xi_projectId (xn_identity i)), (''jobId'', xi_jobId (xn_identity i)),
        (''attemptId'', xi_attemptId (xn_identity i)), (''operationDigest'', xi_operationDigest (xn_identity i)),
        (''authorityDigest'', xn_authorityDigest i)]) (\<lambda>_.
     bind_result (requireEpoch (xn_leaseEpoch i)) (\<lambda>epoch. Inr
       \<lparr>es_schema = ''control-room.execution-authority/v1'', es_executionId = xn_executionId i,
        es_admissionId = xn_admissionId i, es_identity = xn_identity i, es_authorityDigest = xn_authorityDigest i,
        es_state = XAdmitted, es_deadline = deadline, es_leaseEpoch = epoch, es_cancellationRequestedAt = None,
        es_version = 1, es_createdAt = created, es_updatedAt = created\<rparr>))))"

definition computeExecutionId :: "host \<Rightarrow> string \<Rightarrow> string \<Rightarrow> string" where
  "computeExecutionId h admissionId operationDigest =
     sha256Digest h (JObj [(''schema'', JStr ''control-room.execution-identity/v1''), (''admissionId'', JStr admissionId),
       (''operationDigest'', JStr operationDigest)])"

definition transitioned ::
    "host \<Rightarrow> execution_snapshot \<Rightarrow> execution_event \<Rightarrow> execution_state \<Rightarrow> (execution_snapshot \<Rightarrow> execution_snapshot)
     \<Rightarrow> (string, execution_transition) result" where
  "transitioned h s e st extra =
     bind_result (normalizeInstant h (ev_occurredAt e) ''Event time'') (\<lambda>updated. Inr
       \<lparr>tr_snapshot = (extra s)\<lparr>es_state := st, es_version := es_version s + 1, es_updatedAt := updated\<rparr>,
        tr_requestCancellation = False\<rparr>)"

definition requireState :: "execution_snapshot \<Rightarrow> execution_state list \<Rightarrow> (string, unit) result" where
  "requireState s allowed_states =
     (if \<not> List.member allowed_states (es_state s) then Inl ''Invalid execution transition'' else Inr ())"

definition running :: "execution_state \<Rightarrow> bool" where
  "running st \<longleftrightarrow> st = XExecuting \<or> st = XExpiringSoon \<or> st = XCancellationRequested"

definition deadline_ms :: "execution_snapshot \<Rightarrow> int option" where
  "deadline_ms s = date_parse (ed_effectiveDeadline (es_deadline s))"

definition apply_deadline_crossed ::
    "host \<Rightarrow> execution_snapshot \<Rightarrow> execution_event \<Rightarrow> jsnum \<Rightarrow> (string, execution_transition) result" where
  "apply_deadline_crossed h s e lateness =
     bind_result (requireState s [XAdmitted, XExecuting, XExpiringSoon, XCancellationRequested]) (\<lambda>_.
     guard_result (\<not> (\<not> is_safe_integer lateness \<or> num_lt lateness (Fin 0)))
       ''Deadline lateness must be a nonnegative safe integer'' (
     guard_result (\<not> ms_less (date_parse (ev_occurredAt e)) (deadline_ms s)) ''Deadline has not crossed'' (
     guard_result (lateness = num_of_int (the (date_parse (ev_occurredAt e)) - the (deadline_ms s)))
       ''Deadline lateness does not match the event time'' (
     bind_result (transitioned h s e XExpired (\<lambda>t.
         if running (es_state s)
         then t\<lparr>es_cancellationRequestedAt := (case es_cancellationRequestedAt s of
                 Some c \<Rightarrow> Some c | None \<Rightarrow> Some (ev_occurredAt e))\<rparr>
         else t)) (\<lambda>r.
       Inr (r\<lparr>tr_requestCancellation := running (es_state s)\<rparr>))))))"

definition apply_lease_renewed ::
    "host \<Rightarrow> execution_snapshot \<Rightarrow> execution_event \<Rightarrow> string \<Rightarrow> jsnum \<Rightarrow> string \<Rightarrow> (string, execution_transition) result" where
  "apply_lease_renewed h s e authorityDigest epoch leaseExpiresAt =
     bind_result (requireState s [XAdmitted, XExecuting, XExpiringSoon]) (\<lambda>_.
     guard_result (\<not> ms_leq (deadline_ms s) (date_parse (ev_occurredAt e))) ''Expired authority cannot be renewed'' (
     guard_result (authorityDigest = es_authorityDigest s) ''Renewal cannot replace authority mid-attempt'' (
     bind_result (requireEpoch epoch) (\<lambda>_.
     guard_result (\<not> num_le epoch (es_leaseEpoch s)) ''Renewal lease epoch must increase'' (
     bind_result (calculateEffectiveExecutionDeadline h ((ed_sources (es_deadline s))\<lparr>ds_leaseExpiresAt := leaseExpiresAt\<rparr>)) (\<lambda>deadline.
     guard_result (\<not> ms_leq (date_parse (ed_effectiveDeadline deadline)) (date_parse (ev_occurredAt e)))
       ''Renewed lease is already expired'' (
     transitioned h s e (if es_state s = XExpiringSoon then XExecuting else es_state s)
       (\<lambda>t. t\<lparr>es_deadline := deadline, es_leaseEpoch := epoch\<rparr>))))))))"

fun apply_kind ::
    "host \<Rightarrow> execution_snapshot \<Rightarrow> execution_event \<Rightarrow> execution_event_kind \<Rightarrow> (string, execution_transition) result" where
  "apply_kind h s e EvStart =
     bind_result (requireState s [XAdmitted]) (\<lambda>_.
     guard_result (\<not> ms_leq (deadline_ms s) (date_parse (ev_occurredAt e))) ''Cannot start expired authority'' (
     transitioned h s e XExecuting id))"
| "apply_kind h s e EvExpiringSoon =
     bind_result (requireState s [XExecuting]) (\<lambda>_.
     guard_result (\<not> ms_leq (deadline_ms s) (date_parse (ev_occurredAt e))) ''Expiry advisory cannot cross the deadline'' (
     transitioned h s e XExpiringSoon id))"
| "apply_kind h s e (EvDeadlineCrossed lateness) = apply_deadline_crossed h s e lateness"
| "apply_kind h s e (EvCancellationRequested reason) =
     bind_result (requireState s [XExecuting, XExpiringSoon]) (\<lambda>_.
     guard_result (\<not> ms_leq (deadline_ms s) (date_parse (ev_occurredAt e)))
       ''Post-deadline cancellation must use the deadline-crossed event'' (
     transitioned h s e XCancellationRequested (\<lambda>t. t\<lparr>es_cancellationRequestedAt := Some (ev_occurredAt e)\<rparr>)))"
| "apply_kind h s e EvCompleted =
     bind_result (requireState s [XExecuting, XExpiringSoon]) (\<lambda>_.
     guard_result (\<not> ms_leq (deadline_ms s) (date_parse (ev_occurredAt e))) ''Expired authority cannot complete normally'' (
     transitioned h s e XCompleted id))"
| "apply_kind h s e (EvFailed code) =
     guard_result (failure_code_pattern code) ''Failure code must be a safe bounded token'' (
     bind_result (requireState s [XAdmitted, XExecuting, XExpiringSoon, XCancellationRequested, XExpired]) (\<lambda>_.
     transitioned h s e XFailed id))"
| "apply_kind h s e EvCancelled =
     bind_result (requireState s [XCancellationRequested, XExpired]) (\<lambda>_. transitioned h s e XCancelled id)"
| "apply_kind h s e (EvLeaseRenewed digest epoch expires) = apply_lease_renewed h s e digest epoch expires"

definition applyExecutionAuthorityEvent :: "host \<Rightarrow> execution_snapshot \<Rightarrow> execution_event \<Rightarrow> (string, execution_transition) result" where
  "applyExecutionAuthorityEvent h s e =
     bind_result (requireNonempty (ev_eventId e) ''eventId'') (\<lambda>_.
     bind_result (normalizeInstant h (ev_occurredAt e) ''Event time'') (\<lambda>occurredAt.
     guard_result (occurredAt = ev_occurredAt e) ''Event time must be canonical UTC'' (
     guard_result (\<not> ms_less (date_parse occurredAt) (date_parse (es_createdAt s))) ''Execution event predates admission'' (
     guard_result (\<not> ms_less (date_parse occurredAt) (date_parse (es_updatedAt s)))
       ''Execution event time cannot move backwards'' (
     guard_result (\<not> List.member terminalStates (es_state s)) ''Invalid execution transition'' (
     apply_kind h s e (ev_kind e)))))))"


section \<open>Observation, recovery and the check before an effect\<close>

definition observeExecutionDeadline :: "host \<Rightarrow> execution_snapshot \<Rightarrow> string \<Rightarrow> jsnum option \<Rightarrow> (string, deadline_observation) result" where
  "observeExecutionDeadline h s now threshold =
     bind_result (normalizeInstant h now ''Observation time'') (\<lambda>observedAt.
       if List.member terminalStates (es_state s) \<or> es_state s = XExpired then Inr (ObservedNone observedAt None)
       else let remaining = the (deadline_ms s) - the (date_parse observedAt)
            in if remaining \<le> 0 then Inr (ObservedCrossed observedAt \<bar>remaining\<bar> (running (es_state s)))
               else (case threshold of
                       None \<Rightarrow> Inr (ObservedNone observedAt (Some remaining))
                     | Some seconds \<Rightarrow>
                         bind_result (requirePositiveDuration seconds ''Expiry advisory threshold'') (\<lambda>_.
                           if es_state s = XExecuting \<and> remaining \<le> num_int seconds * 1000
                           then Inr (ObservedExpiringSoon observedAt remaining)
                           else Inr (ObservedNone observedAt (Some remaining)))))"

definition classifyExecutionRecovery :: "execution_snapshot \<Rightarrow> recovery_action" where
  "classifyExecutionRecovery s =
     (if es_state s = XAdmitted then PreEffectRecheck
      else if List.member [XExecuting, XExpiringSoon, XCancellationRequested] (es_state s) then RequestCancellation
      else if es_state s = XExpired
      then (if truthy_text (es_cancellationRequestedAt s) then RequestCancellation else RemainExpired)
      else NoAction)"

datatype effect_check = EffectAllowed string | EffectDenied string local_denial_detail

definition recheckBeforeExternalEffect ::
    "host \<Rightarrow> execution_snapshot \<Rightarrow> string \<Rightarrow> string \<Rightarrow> key_availability_state \<Rightarrow> bool \<Rightarrow> effect_claim_state \<Rightarrow> (string, effect_check) result" where
  "recheckBeforeExternalEffect h s now currentOperationDigest keyAvailability paused claim =
     bind_result (normalizeInstant h now ''Pre-effect check time'') (\<lambda>checkedAt. Inr (
       if es_state s \<noteq> XExecuting \<and> es_state s \<noteq> XExpiringSoon
       then EffectDenied checkedAt (if es_state s = XExpired then AuthorityExpired else EffectInProgress)
       else if ms_leq (deadline_ms s) (date_parse checkedAt) then EffectDenied checkedAt AuthorityExpired
       else if keyAvailability \<noteq> KeyAvailable then EffectDenied checkedAt KeystoreUnavailable
       else if currentOperationDigest \<noteq> xi_operationDigest (es_identity s) then EffectDenied checkedAt AuthorityInvalid
       else if paused then EffectDenied checkedAt Paused
       else if claim = ClaimAmbiguous then EffectDenied checkedAt EffectAmbiguous
       else if claim \<noteq> ClaimClaimed then EffectDenied checkedAt EffectInProgress
       else EffectAllowed checkedAt))"

end
