(* ===== verification/Execution_Guarantees.thy ===== *)
theory Execution_Guarantees
  imports Execution_Authority
begin

text \<open>
  The reachable snapshots of \<open>Execution_Authority\<close> and their invariant, by rule induction over the
  accepted events, and the guarantees that follow. The last section holds a concrete run.
\<close>

section \<open>Properties of the deadline\<close>

lemma normalizeInstant_Inr:
  "normalizeInstant h v l = Inr t \<Longrightarrow> \<exists>ms. date_parse v = Some ms \<and> date_parse t = Some ms \<and> to_iso ms = Some t"
  by (auto simp: normalizeInstant_def to_iso_parse split: if_splits option.splits)

lemma normalize_optional_Inr:
  "normalize_optional h v l = Inr w \<Longrightarrow> rel_option (\<lambda>a b. date_parse a = date_parse b \<and> date_parse b \<noteq> None) v w"
  by (auto simp: normalize_optional_def dest!: normalizeInstant_Inr split: option.splits)

lemma requirePositiveDuration_Inr:
  "requirePositiveDuration v l = Inr w \<Longrightarrow> w = v \<and> 0 < num_int v \<and> num_int v \<le> 31536000"
  by (cases v) (auto simp: requirePositiveDuration_def num_int_def le_less floor_le_iff split: if_splits)

lemma requireEpoch_Inr: "requireEpoch v = Inr w \<Longrightarrow> w = v \<and> is_safe_integer v"
  by (auto simp: requireEpoch_def split: if_splits)

lemma iso_text_Inr: "iso_text ms = Inr t \<Longrightarrow> date_parse t = Some ms"
  by (auto simp: iso_text_def to_iso_parse split: option.splits)

text \<open>Two descriptions of the sources that denote the same instants and durations, the lease apart.\<close>

definition same_fixed_sources :: "deadline_sources \<Rightarrow> deadline_sources \<Rightarrow> bool" where
  "same_fixed_sources a b \<longleftrightarrow>
     date_parse (ds_admittedAt a) = date_parse (ds_admittedAt b) \<and>
     ds_ceilingDurationSeconds a = ds_ceilingDurationSeconds b \<and> ds_authorityDurationSeconds a = ds_authorityDurationSeconds b \<and>
     date_parse (ds_authorityExpiresAt a) = date_parse (ds_authorityExpiresAt b) \<and>
     rel_option (\<lambda>x y. date_parse x = date_parse y) (ds_approvalExpiresAt a) (ds_approvalExpiresAt b) \<and>
     rel_option (\<lambda>x y. date_parse x = date_parse y) (ds_reservationExpiresAt a) (ds_reservationExpiresAt b)"

text \<open>An instant no later than any of the sources allow, the lease apart.\<close>

definition fixed_bound :: "deadline_sources \<Rightarrow> int \<Rightarrow> bool" where
  "fixed_bound s d \<longleftrightarrow>
     (\<exists>a. date_parse (ds_admittedAt s) = Some a \<and> a < d \<and>
        d \<le> a + min (num_int (ds_ceilingDurationSeconds s)) (num_int (ds_authorityDurationSeconds s)) * 1000) \<and>
     ms_leq (Some d) (date_parse (ds_authorityExpiresAt s)) \<and>
     opt_all (\<lambda>t. ms_leq (Some d) (date_parse t)) (ds_approvalExpiresAt s) \<and>
     opt_all (\<lambda>t. ms_leq (Some d) (date_parse t)) (ds_reservationExpiresAt s)"

lemma same_fixed_sources_trans: "same_fixed_sources a b \<Longrightarrow> same_fixed_sources b c \<Longrightarrow> same_fixed_sources a c"
  by (auto simp: same_fixed_sources_def option_rel_Some2 option_rel_Some1 rel_option_iff split: option.splits)

lemma fixed_bound_cong: "same_fixed_sources a b \<Longrightarrow> fixed_bound a d \<longleftrightarrow> fixed_bound b d"
  by (auto simp: same_fixed_sources_def fixed_bound_def rel_option_iff split: option.splits)

lemma same_fixed_lease [simp]: "same_fixed_sources (s\<lparr>ds_leaseExpiresAt := t\<rparr>) s"
  by (simp add: same_fixed_sources_def rel_option_iff split: option.splits)

lemma normalize_sources_Inr:
  assumes "normalize_sources h adm i = Inr s" and "date_parse adm = date_parse (ds_admittedAt i)"
  shows "same_fixed_sources i s \<and> ds_admittedAt s = adm \<and> date_parse (ds_leaseExpiresAt s) = date_parse (ds_leaseExpiresAt i)
    \<and> date_parse (ds_authorityExpiresAt s) \<noteq> None \<and> date_parse (ds_leaseExpiresAt s) \<noteq> None
    \<and> opt_all (\<lambda>t. date_parse t \<noteq> None) (ds_approvalExpiresAt s) \<and> opt_all (\<lambda>t. date_parse t \<noteq> None) (ds_reservationExpiresAt s)"
  using assms
  by (auto simp: normalize_sources_def same_fixed_sources_def opt_all_iff rel_option_iff
      dest!: normalizeInstant_Inr normalize_optional_Inr split: option.splits)

lemma min_list_le: "x \<in> set xs \<Longrightarrow> min_list xs \<le> (x::int)"
  by (subst min_list_Min) auto

lemma min_list_in: "xs \<noteq> [] \<Longrightarrow> min_list xs \<in> set (xs :: int list)"
  by (simp add: min_list_Min)

lemma date_parse_nonempty: "date_parse t = Some x \<Longrightarrow> t \<noteq> []"
  by (auto simp: date_parse_def parse_year_def dec_field_def)

lemma candidate_le:
  assumes "c \<in> set (deadline_candidates dd s)" and "date_parse (snd c) \<noteq> None"
  shows "ms_leq (Some (min_list (map (\<lambda>c. the (date_parse (snd c))) (deadline_candidates dd s)))) (date_parse (snd c))"
  using min_list_le [of "the (date_parse (snd c))" "map (\<lambda>c. the (date_parse (snd c))) (deadline_candidates dd s)"] assms
  by (auto simp: ms_leq_iff)

lemma calculate_deadline_Inr:
  assumes "calculateEffectiveExecutionDeadline h i = Inr d"
  shows "same_fixed_sources i (ed_sources d)"
    and "date_parse (ds_leaseExpiresAt (ed_sources d)) = date_parse (ds_leaseExpiresAt i)"
    and "\<exists>t. date_parse (ed_effectiveDeadline d) = Some t \<and> fixed_bound i t \<and> ms_leq (Some t) (date_parse (ds_leaseExpiresAt i))"
proof -
  let ?m = "min (num_int (ds_ceilingDurationSeconds i)) (num_int (ds_authorityDurationSeconds i)) * 1000"
  obtain adm dd s where adm: "normalizeInstant h (ds_admittedAt i) ''Admission time'' = Inr adm"
      and dd: "iso_text (the (date_parse adm) + ?m) = Inr dd"
      and s: "normalize_sources h adm i = Inr s" and sel: "select_deadline adm (deadline_candidates dd s) s = Inr d"
    using assms unfolding calculateEffectiveExecutionDeadline_def by (auto dest!: requirePositiveDuration_Inr)
  obtain a where a: "date_parse (ds_admittedAt i) = Some a" "date_parse adm = Some a"
    using normalizeInstant_Inr [OF adm] by auto
  note ns = normalize_sources_Inr [OF s] and ddp = iso_text_Inr [OF dd]
  define e where "e = min_list (map (\<lambda>c. the (date_parse (snd c))) (deadline_candidates dd s))"
  have le: "ms_leq (Some e) (date_parse t)" if "(f, t) \<in> set (deadline_candidates dd s)" "date_parse t \<noteq> None" for f t
    using candidate_le [OF that(1)] that(2) by (simp add: e_def)
  have mem: "(ByDuration, dd) \<in> set (deadline_candidates dd s)"
    "(ByAuthority, ds_authorityExpiresAt s) \<in> set (deadline_candidates dd s)"
    "(ByLease, ds_leaseExpiresAt s) \<in> set (deadline_candidates dd s)"
    "ds_approvalExpiresAt s = Some t \<Longrightarrow> t \<noteq> [] \<Longrightarrow> (ByApproval, t) \<in> set (deadline_candidates dd s)"
    "ds_reservationExpiresAt s = Some t \<Longrightarrow> t \<noteq> [] \<Longrightarrow> (ByReservation, t) \<in> set (deadline_candidates dd s)" for t
    by (simp_all add: deadline_candidates_def)
  have src: "ed_sources d = s" and late: "a < e" and eff: "date_parse (ed_effectiveDeadline d) = Some e"
    using sel a by (auto simp: select_deadline_def Let_def e_def dest: iso_text_Inr split: if_splits)
  have fixed: "same_fixed_sources i s" "ds_admittedAt s = adm" using ns a by auto
  show "same_fixed_sources i (ed_sources d)" "date_parse (ds_leaseExpiresAt (ed_sources d)) = date_parse (ds_leaseExpiresAt i)"
    using ns a src by auto
  have "e \<le> a + ?m" using le [OF mem(1)] ddp a by simp
  moreover have "ms_leq (Some e) (date_parse (ds_authorityExpiresAt s))" using le [OF mem(2)] ns a by simp
  moreover have "ms_leq (Some e) (date_parse t)" if "ds_approvalExpiresAt s = Some t" for t
  proof -
    have "date_parse t \<noteq> None" using ns a that by simp
    then show ?thesis using le [OF mem(4) [OF that]] date_parse_nonempty by blast
  qed
  moreover have "ms_leq (Some e) (date_parse t)" if "ds_reservationExpiresAt s = Some t" for t
  proof -
    have "date_parse t \<noteq> None" using ns a that by simp
    then show ?thesis using le [OF mem(5) [OF that]] date_parse_nonempty by blast
  qed
  ultimately have "fixed_bound s e"
    using late a fixed by (auto simp: fixed_bound_def same_fixed_sources_def opt_all_iff)
  then have "fixed_bound i e" using fixed_bound_cong [OF fixed(1)] by simp
  moreover have "ms_leq (Some e) (date_parse (ds_leaseExpiresAt i))"
    using le [OF mem(3)] normalize_sources_Inr [OF s] a by metis
  ultimately show "\<exists>t. date_parse (ed_effectiveDeadline d) = Some t \<and> fixed_bound i t
      \<and> ms_leq (Some t) (date_parse (ds_leaseExpiresAt i))" using eff by blast
qed

section \<open>Executions\<close>

text \<open>The snapshots reached from an admission by a sequence of accepted events.\<close>

inductive execution :: "host \<Rightarrow> execution_creation \<Rightarrow> execution_event list \<Rightarrow> execution_snapshot \<Rightarrow> bool"
  for h i where
  created: "createExecutionAuthoritySnapshot h i = Inr s \<Longrightarrow> execution h i [] s"
| event: "execution h i es s \<Longrightarrow> applyExecutionAuthorityEvent h s e = Inr r \<Longrightarrow> execution h i (es @ [e]) (tr_snapshot r)"

inductive_cases execution_createdE: "execution h i [] s"

lemma create_Inr:
  assumes "createExecutionAuthoritySnapshot h i = Inr s"
  shows "\<exists>d c. calculateEffectiveExecutionDeadline h (xn_deadlineSources i) = Inr d \<and> es_deadline s = d
    \<and> es_state s = XAdmitted \<and> es_cancellationRequestedAt s = None \<and> es_version s = 1 \<and> es_updatedAt s = es_createdAt s
    \<and> es_identity s = xn_identity i \<and> es_executionId s = xn_executionId i \<and> es_admissionId s = xn_admissionId i
    \<and> es_authorityDigest s = xn_authorityDigest i \<and> is_safe_integer (es_leaseEpoch s)
    \<and> date_parse (es_createdAt s) = Some c \<and> es_createdAt s = ds_admittedAt (ed_sources d)"
  using assms unfolding createExecutionAuthoritySnapshot_def
  by (auto simp: requireEpoch_def dest!: normalizeInstant_Inr split: if_splits)

text \<open>The facts every accepted event gives, whatever its kind.\<close>

lemma apply_Inr:
  assumes "applyExecutionAuthorityEvent h s e = Inr r"
  shows "apply_kind h s e (ev_kind e) = Inr r" and "es_state s \<notin> set terminalStates"
    and "\<exists>t. date_parse (ev_occurredAt e) = Some t \<and> normalizeInstant h (ev_occurredAt e) ''Event time'' = Inr (ev_occurredAt e)"
    and "\<not> ms_less (date_parse (ev_occurredAt e)) (date_parse (es_updatedAt s))"
  using assms unfolding applyExecutionAuthorityEvent_def by (auto dest: normalizeInstant_Inr)

lemma transitioned_Inr:
  assumes "transitioned h s e st f = Inr r" and "normalizeInstant h (ev_occurredAt e) ''Event time'' = Inr (ev_occurredAt e)"
  shows "tr_snapshot r = (f s)\<lparr>es_state := st, es_version := es_version s + 1, es_updatedAt := ev_occurredAt e\<rparr>
    \<and> tr_requestCancellation r = False"
  using assms by (auto simp: transitioned_def)

text \<open>One case per kind of event: the guards that held and the snapshot that results.\<close>

lemma apply_kind_cases:
  assumes "apply_kind h s e k = Inr r" and occ: "normalizeInstant h (ev_occurredAt e) ''Event time'' = Inr (ev_occurredAt e)"
  obtains
    (start) "k = EvStart" "es_state s = XAdmitted" "\<not> ms_leq (deadline_ms s) (date_parse (ev_occurredAt e))"
      "tr_snapshot r = s\<lparr>es_state := XExecuting, es_version := es_version s + 1, es_updatedAt := ev_occurredAt e\<rparr>"
  | (soon) "k = EvExpiringSoon" "es_state s = XExecuting" "\<not> ms_leq (deadline_ms s) (date_parse (ev_occurredAt e))"
      "tr_snapshot r = s\<lparr>es_state := XExpiringSoon, es_version := es_version s + 1, es_updatedAt := ev_occurredAt e\<rparr>"
  | (crossed) l where "k = EvDeadlineCrossed l" "es_state s \<in> {XAdmitted, XExecuting, XExpiringSoon, XCancellationRequested}"
      "\<not> ms_less (date_parse (ev_occurredAt e)) (deadline_ms s)"
      "tr_snapshot r = (if running (es_state s) then s\<lparr>es_cancellationRequestedAt :=
          (case es_cancellationRequestedAt s of Some c \<Rightarrow> Some c | None \<Rightarrow> Some (ev_occurredAt e))\<rparr> else s)
          \<lparr>es_state := XExpired, es_version := es_version s + 1, es_updatedAt := ev_occurredAt e\<rparr>"
      "tr_requestCancellation r = running (es_state s)"
  | (cancel) c where "k = EvCancellationRequested c" "es_state s \<in> {XExecuting, XExpiringSoon}"
      "\<not> ms_leq (deadline_ms s) (date_parse (ev_occurredAt e))"
      "tr_snapshot r = s\<lparr>es_cancellationRequestedAt := Some (ev_occurredAt e), es_state := XCancellationRequested,
          es_version := es_version s + 1, es_updatedAt := ev_occurredAt e\<rparr>"
  | (completed) "k = EvCompleted" "es_state s \<in> {XExecuting, XExpiringSoon}"
      "\<not> ms_leq (deadline_ms s) (date_parse (ev_occurredAt e))"
      "tr_snapshot r = s\<lparr>es_state := XCompleted, es_version := es_version s + 1, es_updatedAt := ev_occurredAt e\<rparr>"
  | (failed) c where "k = EvFailed c"
      "tr_snapshot r = s\<lparr>es_state := XFailed, es_version := es_version s + 1, es_updatedAt := ev_occurredAt e\<rparr>"
  | (cancelled) "k = EvCancelled" "es_state s \<in> {XCancellationRequested, XExpired}"
      "tr_snapshot r = s\<lparr>es_state := XCancelled, es_version := es_version s + 1, es_updatedAt := ev_occurredAt e\<rparr>"
  | (renewed) dg ep lx d where "k = EvLeaseRenewed dg ep lx" "es_state s \<in> {XAdmitted, XExecuting, XExpiringSoon}"
      "is_safe_integer ep" "\<not> num_le ep (es_leaseEpoch s)"
      "calculateEffectiveExecutionDeadline h ((ed_sources (es_deadline s))\<lparr>ds_leaseExpiresAt := lx\<rparr>) = Inr d"
      "\<not> ms_leq (date_parse (ed_effectiveDeadline d)) (date_parse (ev_occurredAt e))"
      "tr_snapshot r = s\<lparr>es_deadline := d, es_leaseEpoch := ep, es_state := (if es_state s = XExpiringSoon then XExecuting else es_state s),
          es_version := es_version s + 1, es_updatedAt := ev_occurredAt e\<rparr>"
proof (cases k)
  case EvStart
  then show ?thesis using assms start transitioned_Inr [OF _ occ] by (auto simp: requireState_def split: if_splits)
next
  case EvExpiringSoon
  then show ?thesis using assms soon transitioned_Inr [OF _ occ] by (auto simp: requireState_def split: if_splits)
next
  case (EvDeadlineCrossed l)
  with assms(1) obtain r0 where g: "es_state s \<in> {XAdmitted, XExecuting, XExpiringSoon, XCancellationRequested}"
      "\<not> ms_less (date_parse (ev_occurredAt e)) (deadline_ms s)"
      and t: "transitioned h s e XExpired (\<lambda>t. if running (es_state s)
         then t\<lparr>es_cancellationRequestedAt := (case es_cancellationRequestedAt s of
                 Some c \<Rightarrow> Some c | None \<Rightarrow> Some (ev_occurredAt e))\<rparr> else t) = Inr r0"
      and r: "r = r0\<lparr>tr_requestCancellation := running (es_state s)\<rparr>"
    by (auto simp: apply_deadline_crossed_def requireState_def split: if_splits)
  show ?thesis by (rule crossed [OF EvDeadlineCrossed g]) (use transitioned_Inr [OF t occ] r in auto)
next
  case (EvCancellationRequested c)
  then show ?thesis using assms cancel transitioned_Inr [OF _ occ] by (auto simp: requireState_def split: if_splits)
next
  case EvCompleted
  then show ?thesis using assms completed transitioned_Inr [OF _ occ] by (auto simp: requireState_def split: if_splits)
next
  case (EvFailed c)
  then show ?thesis using assms failed transitioned_Inr [OF _ occ] by (auto simp: requireState_def split: if_splits)
next
  case EvCancelled
  then show ?thesis using assms cancelled transitioned_Inr [OF _ occ] by (auto simp: requireState_def split: if_splits)
next
  case (EvLeaseRenewed dg ep lx)
  with assms(1) obtain d where g: "es_state s \<in> {XAdmitted, XExecuting, XExpiringSoon}" "is_safe_integer ep" "\<not> num_le ep (es_leaseEpoch s)"
      "calculateEffectiveExecutionDeadline h ((ed_sources (es_deadline s))\<lparr>ds_leaseExpiresAt := lx\<rparr>) = Inr d"
      "\<not> ms_leq (date_parse (ed_effectiveDeadline d)) (date_parse (ev_occurredAt e))"
      and t: "transitioned h s e (if es_state s = XExpiringSoon then XExecuting else es_state s)
       (\<lambda>t. t\<lparr>es_deadline := d, es_leaseEpoch := ep\<rparr>) = Inr r"
    by (auto simp: apply_lease_renewed_def requireState_def dest: requireEpoch_Inr split: if_splits)
  show ?thesis by (rule renewed [OF EvLeaseRenewed g]) (use transitioned_Inr [OF t occ] in auto)
qed


section \<open>The invariant\<close>

definition started :: "execution_event list \<Rightarrow> bool" where
  "started es \<longleftrightarrow> EvStart \<in> ev_kind ` set es"

definition exec_fixed :: "execution_creation \<Rightarrow> execution_snapshot \<Rightarrow> bool" where
  "exec_fixed i s \<longleftrightarrow>
     es_executionId s = xn_executionId i \<and> es_admissionId s = xn_admissionId i \<and> es_identity s = xn_identity i \<and>
     es_authorityDigest s = xn_authorityDigest i \<and> is_safe_integer (es_leaseEpoch s)"

definition exec_deadline :: "execution_creation \<Rightarrow> execution_snapshot \<Rightarrow> int \<Rightarrow> bool" where
  "exec_deadline i s d \<longleftrightarrow> deadline_ms s = Some d \<and> fixed_bound (xn_deadlineSources i) d \<and>
     same_fixed_sources (xn_deadlineSources i) (ed_sources (es_deadline s)) \<and>
     ms_leq (Some d) (date_parse (ds_leaseExpiresAt (ed_sources (es_deadline s))))"

text \<open>
  What the state says about time and history: an unfinished or completed execution was last updated
  before its deadline and an expired one after it; the state records whether the execution started.
\<close>

definition exec_phase :: "execution_event list \<Rightarrow> execution_snapshot \<Rightarrow> int \<Rightarrow> int \<Rightarrow> bool" where
  "exec_phase es s u d \<longleftrightarrow>
     (es_state s \<in> {XAdmitted, XExecuting, XExpiringSoon, XCancellationRequested, XCompleted} \<longrightarrow> u < d) \<and>
     (es_state s = XExpired \<longrightarrow> d \<le> u) \<and>
     (es_state s = XAdmitted \<longrightarrow> \<not> started es) \<and>
     (running (es_state s) \<or> es_state s = XCompleted \<longrightarrow> started es) \<and>
     (es_state s = XExpired \<longrightarrow> truthy_text (es_cancellationRequestedAt s) = started es) \<and>
     (es_state s = XAdmitted \<longrightarrow> es_cancellationRequestedAt s = None) \<and>
     (\<forall>c. es_cancellationRequestedAt s = Some c \<longrightarrow> c \<noteq> [])"

definition exec_inv :: "execution_creation \<Rightarrow> execution_event list \<Rightarrow> execution_snapshot \<Rightarrow> bool" where
  "exec_inv i es s \<longleftrightarrow> exec_fixed i s \<and> es_version s = 1 + int (length es) \<and>
     (\<exists>c u d. date_parse (es_createdAt s) = Some c \<and> date_parse (es_updatedAt s) = Some u \<and> c \<le> u \<and>
        date_parse (ds_admittedAt (xn_deadlineSources i)) = Some c \<and> exec_deadline i s d \<and> exec_phase es s u d)"

lemma exec_inv_created:
  assumes "createExecutionAuthoritySnapshot h i = Inr s"
  shows "exec_inv i [] s"
proof -
  obtain d c where d: "calculateEffectiveExecutionDeadline h (xn_deadlineSources i) = Inr d"
    and s: "es_deadline s = d" "es_state s = XAdmitted" "es_cancellationRequestedAt s = None" "es_version s = 1"
      "es_updatedAt s = es_createdAt s" "date_parse (es_createdAt s) = Some c" "es_createdAt s = ds_admittedAt (ed_sources d)"
      "exec_fixed i s"
    using create_Inr [OF assms] by (auto simp: exec_fixed_def)
  note cd = calculate_deadline_Inr [OF d]
  obtain t where t: "date_parse (ed_effectiveDeadline d) = Some t" "fixed_bound (xn_deadlineSources i) t"
    "ms_leq (Some t) (date_parse (ds_leaseExpiresAt (xn_deadlineSources i)))" using cd(3) by blast
  have adm: "date_parse (ds_admittedAt (xn_deadlineSources i)) = Some c"
    using cd(1) s(6,7) by (simp add: same_fixed_sources_def)
  then have "c < t" using t(2) by (simp add: fixed_bound_def)
  then have "exec_phase [] s c t" using s by (simp add: exec_phase_def started_def running_def)
  moreover have "exec_deadline i s t" using cd t s(1) by (simp add: exec_deadline_def deadline_ms_def)
  ultimately show ?thesis using s adm by (auto simp: exec_inv_def)
qed

lemma exec_deadline_cong:
  "es_deadline t = es_deadline s \<Longrightarrow> exec_deadline i t d = exec_deadline i s d"
  by (simp add: exec_deadline_def deadline_ms_def)

lemma started_snoc [simp]: "started (es @ [e]) \<longleftrightarrow> started es \<or> ev_kind e = EvStart"
  by (auto simp: started_def)

lemma exec_inv_event:
  assumes inv: "exec_inv i es s" and ev: "applyExecutionAuthorityEvent h s e = Inr r"
  shows "exec_inv i (es @ [e]) (tr_snapshot r)"
proof -
  obtain c u d where d: "date_parse (es_createdAt s) = Some c" "date_parse (es_updatedAt s) = Some u" "c \<le> u"
      "date_parse (ds_admittedAt (xn_deadlineSources i)) = Some c" "exec_deadline i s d" "exec_phase es s u d"
    and fixed: "exec_fixed i s" "es_version s = 1 + int (length es)"
    using inv unfolding exec_inv_def by blast
  obtain t where t: "date_parse (ev_occurredAt e) = Some t"
      "normalizeInstant h (ev_occurredAt e) ''Event time'' = Inr (ev_occurredAt e)"
    using apply_Inr(3) [OF ev] by blast
  have ut: "u \<le> t" using apply_Inr(4) [OF ev] d(2) t(1) by (simp add: not_less)
  have dm: "deadline_ms s = Some d" using d(5) by (simp add: exec_deadline_def)
  have ne: "ev_occurredAt e \<noteq> []" using t(1) date_parse_nonempty by blast
  have inv': "exec_inv i (es @ [e]) s'"
    if "exec_fixed i s'" "es_version s' = es_version s + 1" "es_createdAt s' = es_createdAt s" "es_updatedAt s' = ev_occurredAt e"
      "exec_deadline i s' d'" "exec_phase (es @ [e]) s' t d'" for s' d'
    using that d ut t(1) fixed(2) unfolding exec_inv_def by (intro conjI exI [of _ c] exI [of _ t] exI [of _ d']) auto
  have keep: "exec_inv i (es @ [e]) s'"
    if "exec_phase (es @ [e]) s' t d" "exec_fixed i s' \<and> es_version s' = es_version s + 1 \<and> es_createdAt s' = es_createdAt s
      \<and> es_updatedAt s' = ev_occurredAt e \<and> es_deadline s' = es_deadline s" for s'
    using inv' [of s' d] that d(5) exec_deadline_cong by blast
  note ph = d(6) [unfolded exec_phase_def]
  from apply_Inr(1) [OF ev] t(2) show ?thesis
  proof (cases rule: apply_kind_cases)
    case (renewed dg ep lx dl)
    note cd = calculate_deadline_Inr [OF renewed(5)]
    obtain x where x: "date_parse (ed_effectiveDeadline dl) = Some x"
        "fixed_bound ((ed_sources (es_deadline s))\<lparr>ds_leaseExpiresAt := lx\<rparr>) x" "ms_leq (Some x) (date_parse lx)"
      using cd(3) by auto
    have src: "same_fixed_sources (xn_deadlineSources i) (ed_sources (es_deadline s))" using d(5) by (simp add: exec_deadline_def)
    have src': "same_fixed_sources (ed_sources (es_deadline s)) ((ed_sources (es_deadline s))\<lparr>ds_leaseExpiresAt := lx\<rparr>)"
      by (simp add: same_fixed_sources_def rel_option_iff split: option.splits)
    note all = same_fixed_sources_trans [OF src src']
    have "exec_deadline i (tr_snapshot r) x"
      using renewed(7) x cd(2) same_fixed_sources_trans [OF all cd(1)] fixed_bound_cong [OF all]
      by (simp add: exec_deadline_def deadline_ms_def)
    moreover have "t < x" using renewed(6) x(1) t(1) by (simp add: not_le)
    then have "exec_phase (es @ [e]) (tr_snapshot r) t x"
      using renewed(1,2,7) ph by (cases "es_state s") (simp_all add: exec_phase_def running_def)
    ultimately show ?thesis using inv' [of "tr_snapshot r" x] renewed(3,7) fixed(1) by (simp add: exec_fixed_def)
  next
    case (crossed l)
    have dt: "d \<le> t" using crossed(3) dm t(1) by (simp add: not_less)
    have c: "es_cancellationRequestedAt s = Some c \<Longrightarrow> c \<noteq> []" for c using ph by blast
    have "exec_phase (es @ [e]) (tr_snapshot r) t d"
    proof (cases "running (es_state s)")
      case True
      then have "started es" using ph by blast
      with True dt c ne crossed(1) show ?thesis unfolding crossed(4) exec_phase_def
        by (cases "es_cancellationRequestedAt s") (simp_all add: running_def)
    next
      case False
      with crossed(2) have st: "es_state s = XAdmitted" by (auto simp: running_def)
      then have "\<not> started es" "es_cancellationRequestedAt s = None" using ph by blast+
      with False dt crossed(1) show ?thesis unfolding crossed(4) exec_phase_def by (simp add: running_def)
    qed
    then show ?thesis
      by (rule keep) (unfold crossed(4), use fixed(1) in \<open>cases "running (es_state s)"; simp add: exec_fixed_def\<close>)
  next
    case (cancel c')
    have "exec_phase (es @ [e]) (tr_snapshot r) t d"
      using cancel ph dm t(1) ne by (auto simp: exec_phase_def running_def not_le)
    then show ?thesis by (rule keep) (use fixed(1) in \<open>simp add: cancel(4) exec_fixed_def\<close>)
  next
    case start
    have "exec_phase (es @ [e]) (tr_snapshot r) t d" using start ph dm t(1) by (auto simp: exec_phase_def running_def not_le)
    then show ?thesis by (rule keep) (use fixed(1) in \<open>simp add: start(4) exec_fixed_def\<close>)
  next
    case soon
    have "exec_phase (es @ [e]) (tr_snapshot r) t d" using soon ph dm t(1) by (auto simp: exec_phase_def running_def not_le)
    then show ?thesis by (rule keep) (use fixed(1) in \<open>simp add: soon(4) exec_fixed_def\<close>)
  next
    case completed
    have "exec_phase (es @ [e]) (tr_snapshot r) t d" using completed ph dm t(1) by (auto simp: exec_phase_def running_def not_le)
    then show ?thesis by (rule keep) (use fixed(1) in \<open>simp add: completed(4) exec_fixed_def\<close>)
  next
    case (failed c')
    have "exec_phase (es @ [e]) (tr_snapshot r) t d" using failed ph by (auto simp: exec_phase_def running_def)
    then show ?thesis by (rule keep) (use fixed(1) in \<open>simp add: failed(2) exec_fixed_def\<close>)
  next
    case cancelled
    have "exec_phase (es @ [e]) (tr_snapshot r) t d" using cancelled ph by (auto simp: exec_phase_def running_def)
    then show ?thesis by (rule keep) (use fixed(1) in \<open>simp add: cancelled(3) exec_fixed_def\<close>)
  qed
qed

lemma execution_inv: "execution h i es s \<Longrightarrow> exec_inv i es s"
  by (induction rule: execution.induct) (auto intro: exec_inv_created exec_inv_event)


section \<open>Guarantees\<close>

text \<open>
  C28. No sequence of events extends an execution past what its admission fixed: at every point the
  effective deadline is after admission, at most the smaller of the two permitted durations after it, no
  later than the expiry of the authority, of the approval and of the reservation given at admission, and no
  later than the lease currently recorded, however often the lease was renewed.
\<close>

theorem deadline_within_admission:
  assumes "execution h i es s"
  shows "\<exists>d. deadline_ms s = Some d \<and> fixed_bound (xn_deadlineSources i) d
    \<and> ms_leq (Some d) (date_parse (ds_leaseExpiresAt (ed_sources (es_deadline s))))"
  using execution_inv [OF assms] unfolding exec_inv_def exec_deadline_def by blast

text \<open>
  C29. An execution that completed had been started and completed strictly before its deadline; one
  that is expired was marked so only once the deadline had passed.
\<close>

theorem completes_before_deadline:
  assumes "execution h i es s"
  shows "(es_state s = XCompleted \<longrightarrow> started es \<and> ms_less (date_parse (es_updatedAt s)) (deadline_ms s))
    \<and> (es_state s = XExpired \<longrightarrow> ms_leq (deadline_ms s) (date_parse (es_updatedAt s)))"
proof -
  obtain u d where u: "date_parse (es_updatedAt s) = Some u" and d: "deadline_ms s = Some d" and p: "exec_phase es s u d"
    using execution_inv [OF assms] unfolding exec_inv_def exec_deadline_def by blast
  show ?thesis unfolding u d using p by (simp add: exec_phase_def)
qed

text \<open>
  Recovery asks for cancellation exactly when work may be running: for an execution that has
  not finished, the recovery action is to request cancellation if and only if it was ever started.
\<close>

lemma recovery_cancels_exactly_started:
  assumes "execution h i es s" and "es_state s \<notin> set terminalStates"
  shows "classifyExecutionRecovery s = RequestCancellation \<longleftrightarrow> started es"
proof -
  obtain u d where "exec_phase es s u d" using execution_inv [OF assms(1)] unfolding exec_inv_def by blast
  then show ?thesis
    using assms(2)
    by (cases "es_state s") (simp_all add: exec_phase_def classifyExecutionRecovery_def running_def terminalStates_def)
qed

text \<open>
  An external effect is permitted only for a started execution, before every limit fixed at its
  admission, for the operation it was admitted for, with the signing key available, the node not
  paused and the effect claimed.
\<close>

lemma effect_recheck_sound:
  assumes "execution h i es s" and "recheckBeforeExternalEffect h s now digest key paused claim = Inr (EffectAllowed checkedAt)"
  shows "started es \<and> (\<exists>n d. date_parse now = Some n \<and> n < d \<and> fixed_bound (xn_deadlineSources i) d)
    \<and> digest = xi_operationDigest (xn_identity i) \<and> key = KeyAvailable \<and> \<not> paused \<and> claim = ClaimClaimed"
proof -
  obtain u d where inv: "exec_fixed i s" "exec_deadline i s d" "exec_phase es s u d"
    using execution_inv [OF assms(1)] unfolding exec_inv_def by blast
  obtain t where t: "normalizeInstant h now ''Pre-effect check time'' = Inr t" "es_state s = XExecuting \<or> es_state s = XExpiringSoon"
      "\<not> ms_leq (deadline_ms s) (date_parse t)" "key = KeyAvailable" "digest = xi_operationDigest (es_identity s)"
      "\<not> paused" "claim = ClaimClaimed"
    using assms(2) unfolding recheckBeforeExternalEffect_def by (auto split: if_splits)
  obtain n where n: "date_parse now = Some n" "date_parse t = Some n" using normalizeInstant_Inr [OF t(1)] by blast
  have "deadline_ms s = Some d" "fixed_bound (xn_deadlineSources i) d" using inv(2) by (simp_all add: exec_deadline_def)
  then have "n < d \<and> fixed_bound (xn_deadlineSources i) d" using t(3) n(2) by simp
  moreover have "started es" using inv(3) t(2) unfolding exec_phase_def running_def by blast
  ultimately show ?thesis using t(4-7) inv(1) n(1) unfolding exec_fixed_def by auto
qed

text \<open>
  An observed deadline can always be recorded: when the observer reports the deadline crossed, the
  corresponding event at the observed time is accepted, expires the execution, and requests
  cancellation exactly when the observer said so. Event times are assumed to be in the date format of
  the schema library, and the lateness to be a safe integer.
\<close>

lemma observed_deadline_expires:
  assumes "execution h i es s" and "observeExecutionDeadline h s now threshold = Inr (ObservedCrossed observedAt late cancel)"
    and "zod_datetime h True observedAt" and "late \<le> max_safe_integer"
    and "ms_leq (date_parse (es_updatedAt s)) (date_parse now)" and "requireNonempty ident ''eventId'' = Inr ident"
  shows "\<exists>r. applyExecutionAuthorityEvent h s
      \<lparr>ev_eventId = ident, ev_occurredAt = observedAt, ev_kind = EvDeadlineCrossed (num_of_int late)\<rparr> = Inr r
    \<and> es_state (tr_snapshot r) = XExpired \<and> tr_requestCancellation r = cancel"
proof -
  obtain c u d where inv: "date_parse (es_createdAt s) = Some c" "date_parse (es_updatedAt s) = Some u" "c \<le> u" "deadline_ms s = Some d"
    using execution_inv [OF assms(1)] unfolding exec_inv_def exec_deadline_def by blast
  have o: "normalizeInstant h now ''Observation time'' = Inr observedAt" "es_state s \<notin> set terminalStates" "es_state s \<noteq> XExpired"
    "the (deadline_ms s) - the (date_parse observedAt) \<le> 0" "late = \<bar>the (deadline_ms s) - the (date_parse observedAt)\<bar>"
    "cancel = running (es_state s)"
    using assms(2) unfolding observeExecutionDeadline_def Let_def by (auto split: if_splits option.splits)
  then obtain n where n: "date_parse now = Some n" "date_parse observedAt = Some n" "to_iso n = Some observedAt"
    using normalizeInstant_Inr by blast
  then have norm: "normalizeInstant h observedAt l = Inr observedAt" for l using assms(3) by (simp add: normalizeInstant_def)
  have late: "late = n - d" "0 \<le> late" "u \<le> n" using o(4,5) inv n assms(5) by auto
  have st: "es_state s = XAdmitted \<or> running (es_state s)" using o(2,3) by (cases "es_state s") (auto simp: terminalStates_def running_def)
  have "is_safe_integer (num_of_int late)" "\<not> num_lt (num_of_int late) (Fin 0)"
    using assms(4) late(2) by (simp_all add: num_of_int_def max_safe_integer_def)
  then show ?thesis
    using assms(6) norm n(2) inv late o(2,6) st
    by (auto simp: applyExecutionAuthorityEvent_def apply_deadline_crossed_def requireState_def transitioned_def running_def)
qed

text \<open>
  Events never change what an execution is: its identifiers, its operation and its authority digest are those
  of the admission, every accepted event advances the version by one, and after completion, failure or
  cancellation every further event is refused.
\<close>

lemma execution_identity_fixed:
  assumes "execution h i es s"
  shows "es_executionId s = xn_executionId i \<and> es_admissionId s = xn_admissionId i \<and> es_identity s = xn_identity i
    \<and> es_authorityDigest s = xn_authorityDigest i \<and> es_version s = 1 + int (length es)
    \<and> (es_state s \<in> set terminalStates \<longrightarrow> (\<forall>e. \<exists>m. applyExecutionAuthorityEvent h s e = Inl m))"
proof -
  have "\<exists>m. applyExecutionAuthorityEvent h s e = Inl m" if "es_state s \<in> set terminalStates" for e
    using that apply_Inr(2) [of h s e] by (cases "applyExecutionAuthorityEvent h s e") auto
  then show ?thesis using execution_inv [OF assms] by (simp add: exec_inv_def exec_fixed_def)
qed

section \<open>A concrete execution\<close>

definition sample_sources :: deadline_sources where
  "sample_sources = \<lparr>ds_admittedAt = ''2025-06-01T00:10:00.000Z'', ds_ceilingDurationSeconds = Fin 900,
     ds_authorityDurationSeconds = Fin 600, ds_authorityExpiresAt = ''2026-01-01T00:00:00.000Z'',
     ds_leaseExpiresAt = ''2025-06-01T00:15:00.000Z'', ds_approvalExpiresAt = Some ''2025-06-01T00:18:00.000Z'',
     ds_reservationExpiresAt = None\<rparr>"

definition sample_creation :: execution_creation where
  "sample_creation = \<lparr>xn_executionId = ''execution:1'', xn_admissionId = ''admission:1'',
     xn_identity = \<lparr>xi_tenantId = ''tenant:1'', xi_nodeId = ''node:1'', xi_projectId = ''project:1'', xi_jobId = ''job:1'',
       xi_attemptId = ''attempt:1'', xi_operationDigest = ''digest:1''\<rparr>,
     xn_authorityDigest = ''digest:2'', xn_deadlineSources = sample_sources, xn_leaseEpoch = Fin 1,
     xn_createdAt = ''2025-06-01T00:10:00.000Z''\<rparr>"

lemma sample_dates:
  "date_parse ''2025-06-01T00:10:00.000Z'' = Some 1748736600000" "to_iso 1748736600000 = Some ''2025-06-01T00:10:00.000Z''"
  "date_parse ''2025-06-01T00:15:00.000Z'' = Some 1748736900000" "to_iso 1748736900000 = Some ''2025-06-01T00:15:00.000Z''"
  "date_parse ''2025-06-01T00:18:00.000Z'' = Some 1748737080000" "to_iso 1748737080000 = Some ''2025-06-01T00:18:00.000Z''"
  "date_parse ''2025-06-01T00:20:00.000Z'' = Some 1748737200000" "to_iso 1748737200000 = Some ''2025-06-01T00:20:00.000Z''"
  "date_parse ''2026-01-01T00:00:00.000Z'' = Some 1767225600000" "to_iso 1767225600000 = Some ''2026-01-01T00:00:00.000Z''"
  "date_parse ''2025-06-01T00:12:00.000Z'' = Some 1748736720000" "to_iso 1748736720000 = Some ''2025-06-01T00:12:00.000Z''"
  by (simp_all add: date_eval)


definition sample_deadline :: effective_deadline where
  "sample_deadline = \<lparr>ed_effectiveDeadline = ''2025-06-01T00:15:00.000Z'', ed_limitingFactors = [ByLease], ed_sources = sample_sources\<rparr>"

definition sample_snapshot :: execution_snapshot where
  "sample_snapshot = \<lparr>es_schema = ''control-room.execution-authority/v1'', es_executionId = ''execution:1'',
     es_admissionId = ''admission:1'', es_identity = xn_identity sample_creation, es_authorityDigest = ''digest:2'',
     es_state = XAdmitted, es_deadline = sample_deadline, es_leaseEpoch = Fin 1, es_cancellationRequestedAt = None,
     es_version = 1, es_createdAt = ''2025-06-01T00:10:00.000Z'', es_updatedAt = ''2025-06-01T00:10:00.000Z''\<rparr>"

lemma sample_normalize [simp]: "date_parse v = Some t \<Longrightarrow> to_iso t = Some v \<Longrightarrow> normalizeInstant sample_host v l = Inr v"
  by (simp add: normalizeInstant_def sample_host_def)

lemma sample_deadline_computed: "calculateEffectiveExecutionDeadline sample_host sample_sources = Inr sample_deadline"
  by (simp add: calculateEffectiveExecutionDeadline_def sample_sources_def sample_dates requirePositiveDuration_def num_int_def
      iso_text_def normalize_sources_def normalize_optional_def select_deadline_def deadline_candidates_def Let_def factorOrder_def
      sample_deadline_def)

lemma sample_created: "createExecutionAuthoritySnapshot sample_host sample_creation = Inr sample_snapshot"
  by (simp add: createExecutionAuthoritySnapshot_def sample_creation_def sample_dates sample_deadline_computed requireNonempty_def
      js_trim_def is_js_space_def requireEpoch_def sample_snapshot_def)
    (simp add: sample_deadline_def sample_sources_def)

definition sample_start :: execution_event where
  "sample_start = \<lparr>ev_eventId = ''event:1'', ev_occurredAt = ''2025-06-01T00:12:00.000Z'', ev_kind = EvStart\<rparr>"

definition sample_running :: execution_snapshot where
  "sample_running = sample_snapshot\<lparr>es_state := XExecuting, es_version := 2, es_updatedAt := ''2025-06-01T00:12:00.000Z''\<rparr>"

lemma sample_execution_admitted: "execution sample_host sample_creation [] sample_snapshot"
  by (rule execution.created) (rule sample_created)

lemma sample_started:
  "applyExecutionAuthorityEvent sample_host sample_snapshot sample_start = Inr \<lparr>tr_snapshot = sample_running, tr_requestCancellation = False\<rparr>"
  by (simp add: applyExecutionAuthorityEvent_def sample_start_def requireNonempty_def js_trim_def is_js_space_def sample_dates
      sample_snapshot_def terminalStates_def requireState_def deadline_ms_def sample_deadline_def transitioned_def sample_running_def)

lemma sample_execution: "execution sample_host sample_creation [sample_start] sample_running"
  using execution.event [OF sample_execution_admitted sample_started] by simp

lemma sample_running_simps:
  "es_state sample_running = XExecuting" "deadline_ms sample_running = Some 1748736900000"
  "es_updatedAt sample_running = ''2025-06-01T00:12:00.000Z''" "es_identity sample_running = xn_identity sample_creation"
  by (simp_all add: sample_running_def sample_snapshot_def deadline_ms_def sample_deadline_def sample_dates)

theorem deadline_within_admission_witness:
  "deadline_ms sample_running = Some 1748736900000 \<and> fixed_bound sample_sources 1748736900000"
  using deadline_within_admission [OF sample_execution] by (simp add: sample_running_simps sample_creation_def)

theorem completes_before_deadline_witness:
  "\<exists>s. execution sample_host sample_creation
      [sample_start, sample_start\<lparr>ev_eventId := ''event:2'', ev_kind := EvCompleted\<rparr>] s \<and> es_state s = XCompleted
    \<and> ms_less (date_parse (es_updatedAt s)) (deadline_ms s)"
proof -
  let ?e = "sample_start\<lparr>ev_eventId := ''event:2'', ev_kind := EvCompleted\<rparr>"
  obtain r where "applyExecutionAuthorityEvent sample_host sample_running ?e = Inr r" and st: "es_state (tr_snapshot r) = XCompleted"
    by (simp add: applyExecutionAuthorityEvent_def sample_start_def requireNonempty_def js_trim_def is_js_space_def sample_dates
        sample_running_simps terminalStates_def requireState_def transitioned_def)
      (simp add: sample_running_def sample_snapshot_def sample_dates)
  from execution.event [OF sample_execution this(1)]
  have x: "execution sample_host sample_creation [sample_start, ?e] (tr_snapshot r)" by simp
  then show ?thesis using completes_before_deadline [OF x] st by blast
qed

end
