(* ===== verification/Word_Scan.thy ===== *)
theory Word_Scan
  imports Prelude
begin

text \<open>
  A quick test that a text contains none of a list of words in whatever case: the words are kept in a trie over the bits of their first letter,
  so that most positions of a text are passed after a few bits. It over-approximates: characters are compared without the
  bit that distinguishes the cases of a letter. Used to evaluate samples only.
\<close>

datatype word_trie = Words "string list" | Branch word_trie word_trie

fun tails_at :: "word_trie \<Rightarrow> bool list \<Rightarrow> string list" where
  "tails_at (Words ws) bs = ws"
| "tails_at (Branch l r) [] = tails_at l [] @ tails_at r []"
| "tails_at (Branch l r) (b # bs) = (if b then tails_at r bs else tails_at l bs)"

fun add_word :: "bool list \<Rightarrow> string \<Rightarrow> word_trie \<Rightarrow> word_trie" where
  "add_word [] w (Words ws) = Words (w # ws)"
| "add_word [] w (Branch l r) = Branch (add_word [] w l) (add_word [] w r)"
| "add_word (b # bs) w (Words ws) = (if b then Branch (Words ws) (add_word bs w (Words ws)) else Branch (add_word bs w (Words ws)) (Words ws))"
| "add_word (b # bs) w (Branch l r) = (if b then Branch l (add_word bs w r) else Branch (add_word bs w l) r)"

fun caseless :: "char \<Rightarrow> bool list" where
  "caseless (Char b0 b1 b2 b3 b4 b5 b6 b7) = [b6, b0, b1, b2, b3, b4]"

text \<open>Equality of \<open>caseless\<close>, decided at the first bit that differs.\<close>

fun near :: "char \<Rightarrow> char \<Rightarrow> bool" where
  "near (Char a0 a1 a2 a3 a4 a5 a6 a7) (Char b0 b1 b2 b3 b4 b5 b6 b7) =
     (if a0 = b0 then if a1 = b1 then if a2 = b2 then if a3 = b3 then if a4 = b4 then a6 = b6 else False else False else False else False else False)"

fun trie_of :: "string list \<Rightarrow> word_trie" where
  "trie_of [] = Words []"
| "trie_of ([] # ws) = trie_of ws"
| "trie_of ((c # w) # ws) = add_word (caseless c) w (trie_of ws)"

fun begins_near :: "string \<Rightarrow> string \<Rightarrow> bool" where
  "begins_near t [] = True"
| "begins_near [] (w # ws) = False"
| "begins_near (c # t) (w # ws) = (if near c w then begins_near t ws else False)"

fun begins_some :: "string list \<Rightarrow> string \<Rightarrow> bool" where
  "begins_some [] t = False"
| "begins_some (w # ws) t = (if begins_near t w then True else begins_some ws t)"

fun free_of :: "word_trie \<Rightarrow> string \<Rightarrow> bool" where
  "free_of T [] = True"
| "free_of T (c # t) = (if begins_some (tails_at T (caseless c)) t then False else free_of T t)"

lemma near_iff: "near c d \<longleftrightarrow> caseless c = caseless d"
  by (cases c; cases d) auto

lemma tails_add_word: "w \<in> set (tails_at (add_word k w t) k)"
  by (induction k w t rule: add_word.induct) auto

lemma tails_mono: "set (tails_at t bs) \<subseteq> set (tails_at (add_word k w t) bs)"
proof (induction k w t arbitrary: bs rule: add_word.induct)
  case (2 w l r)
  then show ?case by (cases bs) auto
next
  case (3 b k w ws)
  then show ?case by (cases bs) auto
next
  case (4 b k w l r)
  then show ?case by (cases bs) auto
qed auto

lemma tails_trie: "c # w \<in> set ws \<Longrightarrow> w \<in> set (tails_at (trie_of ws) (caseless c))"
  by (induction ws rule: trie_of.induct) (auto intro: tails_add_word subsetD [OF tails_mono])

lemma begins_some_iff: "begins_some ws t \<longleftrightarrow> (\<exists>w \<in> set ws. begins_near t w)"
  by (induction ws) auto

lemma starts_with_near:
  assumes "\<And>c. caseless (f c) = caseless c"
  shows "starts_with (map f t) w \<Longrightarrow> begins_near t w"
proof (induction t w rule: begins_near.induct)
  case (3 c t d ws)
  then have "f c = d" "starts_with (map f t) ws" by (simp_all add: starts_with_def)
  then show ?case using 3 assms [of c] by (simp add: near_iff)
qed (simp_all add: starts_with_def)

text \<open>A function on characters that keeps all but the case, as mapping to lower case does, cannot make a listed word appear.\<close>

lemma free_of_misses:
  assumes "\<And>c. caseless (f c) = caseless c" and "c # w \<in> set ws"
  shows "free_of (trie_of ws) s \<Longrightarrow> \<not> contains_text (map f s) (c # w)"
proof (induction s)
  case (Cons d s)
  have "\<not> starts_with (map f (d # s)) (c # w)"
  proof
    assume "starts_with (map f (d # s)) (c # w)"
    then have "f d = c" "starts_with (map f s) w" by (simp_all add: starts_with_def)
    then have "begins_near s w" "caseless d = caseless c" using starts_with_near [OF assms(1)] assms(1) [of d] by auto
    then show False using Cons.prems tails_trie [OF assms(2)] by (auto simp: begins_some_iff split: if_splits)
  qed
  then show ?case using Cons by (simp split: if_splits)
qed auto

end
