(* ===== verification/Redaction.thy ===== *)
theory Redaction
  imports Canonical_Json Word_Scan
begin

text \<open>
  Detection and redaction of secret material: \<open>src/security/redaction.ts\<close>. The patterns of the
  source are terms of a small regular-expression language whose matcher returns every way to
  match, which is all the code asks of \<open>RegExp.prototype.exec\<close> (whether a match exists).

  The two traversals of a value are defined over arbitrary predicates on keys and texts; the
  locale \<open>redactor\<close> states what they rely on and proves that detection and redaction agree, that
  what remains after redaction is clean, and that redacting twice changes nothing. It is
  interpreted on the predicates of the source.
\<close>

section \<open>Regular expressions\<close>

datatype rx =
    Class "char \<Rightarrow> bool"
  | Many nat "char \<Rightarrow> bool"
  | Seq "rx list"
  | Alt "rx list"
  | Opt rx
  | WordBoundary
  | AtStart
  | AtEnd

text \<open>A position of a text: what precedes it, last character first, and what follows.\<close>

type_synonym position = "string \<times> string"

fun step_class :: "(char \<Rightarrow> bool) \<Rightarrow> position \<Rightarrow> position list" where
  "step_class P (before, []) = []"
| "step_class P (before, c # cs) = (if P c then [(c # before, cs)] else [])"

fun take_many :: "nat \<Rightarrow> (char \<Rightarrow> bool) \<Rightarrow> string \<Rightarrow> string \<Rightarrow> position list" where
  "take_many n P before [] = (if n = 0 then [(before, [])] else [])"
| "take_many n P before (c # cs) =
     (if n = 0 then [(before, c # cs)] else []) @ (if P c then take_many (n - 1) P (c # before) cs else [])"

definition is_word :: "char \<Rightarrow> bool" where
  "is_word c \<longleftrightarrow> is_alnum c \<or> c = CHR ''_''"

definition at_boundary :: "position \<Rightarrow> bool" where
  "at_boundary p \<longleftrightarrow>
     (case fst p of [] \<Rightarrow> False | c # _ \<Rightarrow> is_word c) \<noteq> (case snd p of [] \<Rightarrow> False | c # _ \<Rightarrow> is_word c)"

fun rx_match :: "rx \<Rightarrow> position \<Rightarrow> position list" where
  "rx_match (Class P) p = step_class P p"
| "rx_match (Many n P) p = take_many n P (fst p) (snd p)"
| "rx_match (Seq rs) p = foldl (\<lambda>ps f. concat (map f ps)) [p] (map rx_match rs)"
| "rx_match (Alt rs) p = concat (map (\<lambda>f. f p) (map rx_match rs))"
| "rx_match (Opt r) p = p # rx_match r p"
| "rx_match WordBoundary p = (if at_boundary p then [p] else [])"
| "rx_match AtStart p = (if fst p = [] then [p] else [])"
| "rx_match AtEnd p = (if snd p = [] then [p] else [])"

text \<open>\<open>exec\<close> searches every position of the text.\<close>

fun rx_search :: "rx \<Rightarrow> string \<Rightarrow> string \<Rightarrow> bool" where
  "rx_search r before [] = (rx_match r (before, []) \<noteq> [])"
| "rx_search r before (c # cs) = (rx_match r (before, c # cs) \<noteq> [] \<or> rx_search r (c # before) cs)"

definition rx_matches :: "rx \<Rightarrow> string \<Rightarrow> bool" where
  "rx_matches r s = rx_search r [] s"

text \<open>Building blocks; the suffix \<open>_i\<close> ignores the case of letters.\<close>

definition lower_case :: "char \<Rightarrow> char" where
  "lower_case c = (if is_upper c then char_of (of_char c + 32 :: nat) else c)"

definition lit :: "string \<Rightarrow> rx" where
  "lit s = Seq (map (\<lambda>c. Class (\<lambda>d. d = c)) s)"

definition lit_i :: "string \<Rightarrow> rx" where
  "lit_i s = Seq (map (\<lambda>c. Class (\<lambda>d. lower_case d = lower_case c)) s)"

definition one_of :: "string \<Rightarrow> rx" where
  "one_of cs = Class (\<lambda>d. d \<in> set cs)"

definition is_white :: "char \<Rightarrow> bool" where
  "is_white c \<longleftrightarrow> c \<in> {CHR 0x09, CHR 0x0A, CHR 0x0B, CHR 0x0C, CHR 0x0D, CHR '' '', CHR 0xA0}"

definition is_letter :: "char \<Rightarrow> bool" where
  "is_letter c \<longleftrightarrow> is_lower c \<or> is_upper c"


section \<open>The patterns of the source\<close>

definition opt_dash :: rx where
  "opt_dash = Opt (one_of ''_-'')"

definition secretKey :: rx where
  "secretKey = Alt [lit_i ''password'', lit_i ''passphrase'', lit_i ''secret'',
     Seq [lit_i ''api'', opt_dash, lit_i ''key''], Seq [lit_i ''access'', opt_dash, lit_i ''token''],
     Seq [lit_i ''refresh'', opt_dash, lit_i ''token''], Seq [lit_i ''private'', opt_dash, lit_i ''key''],
     Seq [lit_i ''session'', opt_dash, lit_i ''cookie''],
     Seq [Alt [AtStart, one_of ''_-''], Alt [lit_i ''token'', lit_i ''auth'', lit_i ''credential''], Alt [AtEnd, one_of ''_-'']]]"

definition referenceKey :: rx where
  "referenceKey = Seq [Alt [lit_i ''ref'', lit_i ''refs'', lit_i ''id'', lit_i ''ids'', lit_i ''digest'', lit_i ''hash''], AtEnd]"

definition secretPatterns :: "rx list" where
  "secretPatterns =
     [Seq [lit_i ''-----BEGIN '', Opt (lit_i ''PGP ''),
           Opt (Seq [Class is_letter, Many 0 (\<lambda>c. is_alnum c \<or> c = CHR '' ''), lit '' '']),
           lit_i ''PRIVATE KEY'', Opt (lit_i '' BLOCK''), lit ''-----''],
      Seq [WordBoundary, lit_i ''Bearer'', Many 1 is_white, Many 12 (\<lambda>c. is_alnum c \<or> c \<in> set ''._~+/=-'')],
      Seq [Alt [Seq [lit_i ''api'', opt_dash, lit_i ''key''], lit_i ''password'', lit_i ''passphrase'', lit_i ''secret'',
                Seq [lit_i ''access'', opt_dash, lit_i ''token''], Seq [lit_i ''refresh'', opt_dash, lit_i ''token'']],
           Many 0 is_white, one_of '':='', Many 0 is_white, Many 6 (\<lambda>c. \<not> (is_white c \<or> c \<in> set '',;''))],
      Seq [Alt [lit_i ''X-Amz-Signature'', lit_i ''X-Amz-Credential''], lit ''=''],
      Seq [WordBoundary,
           Alt [Seq [lit_i ''gh'', Class (\<lambda>c. lower_case c \<in> set ''opsu''), lit ''_''], lit_i ''github_pat_'',
                Seq [lit_i ''sk_'', Alt [lit_i ''live'', lit_i ''test''], lit ''_''], Seq [lit_i ''sk-'', Opt (lit_i ''ant-'')],
                Seq [lit_i ''xox'', Class (\<lambda>c. lower_case c \<in> set ''abprs''), lit ''-''], lit_i ''npm_''],
           Many 12 (\<lambda>c. is_alnum c \<or> c \<in> set ''_-'')],
      Seq ([WordBoundary, lit ''AKIA''] @ replicate 16 (Class (\<lambda>c. is_digit c \<or> is_upper c)) @ [WordBoundary]),
      Seq [WordBoundary, lit ''eyJ'', Many 8 (\<lambda>c. is_alnum c \<or> c \<in> set ''_-''), lit ''.'',
           Many 8 (\<lambda>c. is_alnum c \<or> c \<in> set ''_-''), lit ''.'', Many 8 (\<lambda>c. is_alnum c \<or> c \<in> set ''_-''), WordBoundary],
      Seq [lit_i ''http'', Opt (lit_i ''s''), lit ''://'', Many 1 (\<lambda>c. \<not> (is_white c \<or> c \<in> set ''/:@'')), lit '':'',
           Many 1 (\<lambda>c. \<not> (is_white c \<or> c \<in> set ''/@'')), lit ''@'']]"

definition matchesAny :: "rx list \<Rightarrow> string \<Rightarrow> bool" where
  "matchesAny patterns s = list_ex (\<lambda>r. rx_matches r s) patterns"

definition secret_text :: "string \<Rightarrow> bool" where
  "secret_text s = matchesAny secretPatterns s"

definition keyCarriesSecret :: "string \<Rightarrow> bool" where
  "keyCarriesSecret key \<longleftrightarrow> rx_matches secretKey key \<and> \<not> rx_matches referenceKey key"


section \<open>The traversals\<close>

definition index_path :: "string \<Rightarrow> int \<Rightarrow> string" where
  "index_path path i = path @ ''['' @ int_text i @ '']''"

definition key_path :: "string \<Rightarrow> string \<Rightarrow> string" where
  "key_path path k = path @ ''.'' @ k"

text \<open>The loops over the elements of an array, given what is done with each at its path.\<close>

fun scan_items :: "string \<Rightarrow> int \<Rightarrow> (string \<Rightarrow> string list) list \<Rightarrow> string list" where
  "scan_items path i [] = []"
| "scan_items path i (f # fs) = f (index_path path i) @ scan_items path (i + 1) fs"

fun find_secrets :: "(string \<Rightarrow> bool) \<Rightarrow> (string \<Rightarrow> bool) \<Rightarrow> json \<Rightarrow> string \<Rightarrow> string list" where
  "find_secrets sk st (JStr s) path = (if st s then [path] else [])"
| "find_secrets sk st (JArr vs) path = scan_items path 0 (map (find_secrets sk st) vs)"
| "find_secrets sk st (JObj kvs) path =
     concat (map (\<lambda>kv. if sk (fst kv) \<and> snd kv \<noteq> JNull then [key_path path (fst kv)]
                       else find_secrets sk st (snd kv) (key_path path (fst kv))) kvs)"
| "find_secrets sk st _ path = []"

definition containsSecretMaterial :: "json \<Rightarrow> string list" where
  "containsSecretMaterial v = find_secrets keyCarriesSecret secret_text v ''$''"

fun join_comma :: "string list \<Rightarrow> string" where
  "join_comma [] = []"
| "join_comma [s] = s"
| "join_comma (s # ss) = s @ '', '' @ join_comma ss"

definition assertNoSecretMaterial :: "json \<Rightarrow> string \<Rightarrow> (string, unit) result" where
  "assertNoSecretMaterial v label =
     (if containsSecretMaterial v \<noteq> []
      then Inl (label @ '' contains secret material at '' @ join_comma (containsSecretMaterial v)) else Inr ())"

definition redacted_text :: string where
  "redacted_text = ''[REDACTED]''"

record redaction_result =
  rr_value :: json
  redactedPaths :: "string list"

fun visit_items :: "string \<Rightarrow> int \<Rightarrow> (string \<Rightarrow> redaction_result) list \<Rightarrow> json list \<times> string list" where
  "visit_items path i [] = ([], [])"
| "visit_items path i (f # fs) =
     (let r = f (index_path path i); rest = visit_items path (i + 1) fs
      in (rr_value r # fst rest, redactedPaths r @ snd rest))"

fun visit_entries :: "string \<Rightarrow> (string \<times> (string \<Rightarrow> redaction_result)) list \<Rightarrow> (string \<times> json) list \<times> string list" where
  "visit_entries path [] = ([], [])"
| "visit_entries path ((k, f) # fs) =
     (let r = f (key_path path k); rest = visit_entries path fs
      in ((k, rr_value r) # fst rest, redactedPaths r @ snd rest))"

text \<open>\<open>visit\<close>: the key of the property the value is under, if any, decides first.\<close>

fun redact :: "(string \<Rightarrow> bool) \<Rightarrow> (string \<Rightarrow> bool) \<Rightarrow> json \<Rightarrow> string option \<Rightarrow> string \<Rightarrow> redaction_result" where
  "redact sk st (JArr vs) key path =
     (if truthy_text key \<and> sk (the key) then \<lparr>rr_value = JStr redacted_text, redactedPaths = [path]\<rparr>
      else let r = visit_items path 0 (map (\<lambda>v. redact sk st v None) vs) in \<lparr>rr_value = JArr (fst r), redactedPaths = snd r\<rparr>)"
| "redact sk st (JObj kvs) key path =
     (if truthy_text key \<and> sk (the key) then \<lparr>rr_value = JStr redacted_text, redactedPaths = [path]\<rparr>
      else let r = visit_entries path (map (\<lambda>kv. (fst kv, redact sk st (snd kv) (Some (fst kv)))) kvs)
           in \<lparr>rr_value = JObj (fst r), redactedPaths = snd r\<rparr>)"
| "redact sk st (JStr s) key path =
     (if truthy_text key \<and> sk (the key) then \<lparr>rr_value = JStr redacted_text, redactedPaths = [path]\<rparr>
      else if st s then \<lparr>rr_value = JStr redacted_text, redactedPaths = [path]\<rparr>
      else \<lparr>rr_value = JStr s, redactedPaths = []\<rparr>)"
| "redact sk st JNull key path = \<lparr>rr_value = JNull, redactedPaths = []\<rparr>"
| "redact sk st v key path =
     (if truthy_text key \<and> sk (the key) then \<lparr>rr_value = JStr redacted_text, redactedPaths = [path]\<rparr>
      else \<lparr>rr_value = v, redactedPaths = []\<rparr>)"

definition redactSecrets :: "json \<Rightarrow> redaction_result" where
  "redactSecrets v = redact keyCarriesSecret secret_text v None ''$''"


section \<open>What redaction leaves\<close>

text \<open>The redacted value alone, and the values that carry no secret text outside a redacted property.\<close>

fun redacted :: "(string \<Rightarrow> bool) \<Rightarrow> (string \<Rightarrow> bool) \<Rightarrow> string option \<Rightarrow> json \<Rightarrow> json" where
  "redacted sk st key (JArr vs) =
     (if truthy_text key \<and> sk (the key) then JStr redacted_text else JArr (map (redacted sk st None) vs))"
| "redacted sk st key (JObj kvs) =
     (if truthy_text key \<and> sk (the key) then JStr redacted_text
      else JObj (map (\<lambda>kv. (fst kv, redacted sk st (Some (fst kv)) (snd kv))) kvs))"
| "redacted sk st key (JStr s) = (if truthy_text key \<and> sk (the key) \<or> st s then JStr redacted_text else JStr s)"
| "redacted sk st key JNull = JNull"
| "redacted sk st key v = (if truthy_text key \<and> sk (the key) then JStr redacted_text else v)"

fun clean :: "(string \<Rightarrow> bool) \<Rightarrow> (string \<Rightarrow> bool) \<Rightarrow> json \<Rightarrow> bool" where
  "clean sk st (JStr s) = (\<not> st s)"
| "clean sk st (JArr vs) = list_all (clean sk st) vs"
| "clean sk st (JObj kvs) =
     list_all (\<lambda>kv. if sk (fst kv) then snd kv = JNull \<or> snd kv = JStr redacted_text else clean sk st (snd kv)) kvs"
| "clean sk st _ = True"

lemma visit_items_value:
  assumes "\<And>v p. v \<in> set vs \<Longrightarrow> rr_value (f v p) = g v"
  shows "fst (visit_items path i (map f vs)) = map g vs"
  using assms by (induction vs arbitrary: i) (simp_all add: Let_def)

lemma visit_items_paths:
  assumes "\<And>v p. v \<in> set vs \<Longrightarrow> redactedPaths (f v p) = g v p"
  shows "snd (visit_items path i (map f vs)) = scan_items path i (map g vs)"
  using assms by (induction vs arbitrary: i) (simp_all add: Let_def)

lemma visit_entries_value:
  assumes "\<And>kv p. kv \<in> set kvs \<Longrightarrow> rr_value (f kv p) = g kv"
  shows "fst (visit_entries path (map (\<lambda>kv. (fst kv, f kv)) kvs)) = map (\<lambda>kv. (fst kv, g kv)) kvs"
  using assms by (induction kvs) (simp_all add: Let_def)

lemma visit_entries_paths:
  assumes "\<And>kv p. kv \<in> set kvs \<Longrightarrow> redactedPaths (f kv p) = g kv p"
  shows "snd (visit_entries path (map (\<lambda>kv. (fst kv, f kv)) kvs)) = concat (map (\<lambda>kv. g kv (key_path path (fst kv))) kvs)"
  using assms by (induction kvs) (simp_all add: Let_def)

locale redactor =
  fixes sk :: "string \<Rightarrow> bool" and st :: "string \<Rightarrow> bool"
  assumes redacted_text_clean: "\<not> st redacted_text" and empty_key: "\<not> sk []"
begin

lemma truthy_key [simp]: "truthy_text (Some k) \<and> sk k \<longleftrightarrow> sk k"
  using empty_key by (cases k) auto

lemma redact_value: "rr_value (redact sk st v key path) = redacted sk st key v"
proof (induction v arbitrary: key path)
  case (JArr vs)
  then show ?case
    by (simp add: Let_def visit_items_value [where f = "\<lambda>v. redact sk st v None" and g = "redacted sk st None"])
next
  case (JObj kvs)
  have "rr_value (redact sk st (snd kv) (Some (fst kv)) p) = redacted sk st (Some (fst kv)) (snd kv)" if "kv \<in> set kvs" for kv p
    using JObj.IH [OF that, of "snd kv"] by (cases kv) simp
  then show ?case
    by (simp add: Let_def visit_entries_value [where f = "\<lambda>kv. redact sk st (snd kv) (Some (fst kv))"
          and g = "\<lambda>kv. redacted sk st (Some (fst kv)) (snd kv)"])
qed simp_all

lemma redact_paths:
  "redactedPaths (redact sk st v key path) =
     (if truthy_text key \<and> sk (the key) \<and> v \<noteq> JNull then [path] else find_secrets sk st v path)"
proof (induction v arbitrary: key path)
  case (JArr vs)
  have "redactedPaths (redact sk st v None p) = find_secrets sk st v p" if "v \<in> set vs" for v p
    using JArr.IH [OF that] by simp
  then show ?case
    by (simp add: Let_def visit_items_paths [where f = "\<lambda>v. redact sk st v None" and g = "find_secrets sk st"])
next
  case (JObj kvs)
  have "redactedPaths (redact sk st (snd kv) (Some (fst kv)) p) =
      (if sk (fst kv) \<and> snd kv \<noteq> JNull then [p] else find_secrets sk st (snd kv) p)" if "kv \<in> set kvs" for kv p
    using JObj.IH [OF that, of "snd kv" "Some (fst kv)" p] empty_key by (cases kv) auto
  then show ?case
    by (simp add: Let_def visit_entries_paths [where f = "\<lambda>kv. redact sk st (snd kv) (Some (fst kv))"
          and g = "\<lambda>kv p. if sk (fst kv) \<and> snd kv \<noteq> JNull then [p] else find_secrets sk st (snd kv) p"])
qed simp_all

lemma redacted_secret_key: "sk k \<Longrightarrow> redacted sk st (Some k) v = (if v = JNull then JNull else JStr redacted_text)"
  using empty_key by (cases v; cases k) auto

lemma redacted_clean: "\<not> (truthy_text key \<and> sk (the key)) \<Longrightarrow> clean sk st (redacted sk st key v)"
proof (induction v arbitrary: key)
  case (JArr vs)
  then show ?case by (auto simp: list_all_iff)
next
  case (JObj kvs)
  have "clean sk st (redacted sk st (Some (fst kv)) (snd kv))" if "kv \<in> set kvs" "\<not> sk (fst kv)" for kv
    using JObj.IH [OF that(1), of "snd kv" "Some (fst kv)"] that(2) by (cases kv) auto
  then show ?case using JObj.prems by (auto simp: list_all_iff redacted_secret_key)
qed (auto simp: redacted_text_clean)

lemma redacted_idem: "redacted sk st key (redacted sk st key v) = redacted sk st key v"
proof (induction v arbitrary: key)
  case (JObj kvs)
  have "redacted sk st (Some (fst kv)) (redacted sk st (Some (fst kv)) (snd kv)) = redacted sk st (Some (fst kv)) (snd kv)"
    if "kv \<in> set kvs" for kv
    using JObj.IH [OF that, of "snd kv"] by (cases kv) simp
  then show ?case by simp
qed simp_all

lemma no_findings_unchanged:
  "find_secrets sk st v path = [] \<Longrightarrow> \<not> (truthy_text key \<and> sk (the key)) \<Longrightarrow> redacted sk st key v = v"
proof (induction v arbitrary: key path)
  case (JArr vs)
  have items: "\<forall>v \<in> set vs. \<exists>p. find_secrets sk st v p = []" if "scan_items p i (map (find_secrets sk st) vs) = []" for p i vs
    using that by (induction vs arbitrary: i) auto
  have "redacted sk st None v = v" if v: "v \<in> set vs" for v
  proof -
    obtain p where "find_secrets sk st v p = []" using items JArr.prems(1) v by fastforce
    from JArr.IH [OF v this, of None] show ?thesis by simp
  qed
  then have "map (redacted sk st None) vs = vs" by (simp add: map_idI)
  with JArr.prems(2) show ?case by simp
next
  case (JObj kvs)
  have "redacted sk st (Some (fst kv)) (snd kv) = snd kv" if kv: "kv \<in> set kvs" for kv
  proof (cases "sk (fst kv)")
    case True
    with JObj.prems(1) kv have "snd kv = JNull" by auto
    then show ?thesis by simp
  next
    case False
    with JObj.prems(1) kv have "find_secrets sk st (snd kv) (key_path path (fst kv)) = []" by (auto split: if_splits)
    then show ?thesis using JObj.IH [OF kv, of "snd kv" "key_path path (fst kv)" "Some (fst kv)"] False by (cases kv) auto
  qed
  then have "map (\<lambda>kv. (fst kv, redacted sk st (Some (fst kv)) (snd kv))) kvs = kvs" by (simp add: map_idI)
  with JObj.prems(2) show ?case by simp
qed (auto split: if_splits)

end

section \<open>Plain texts and names\<close>

text \<open>
  A sufficient condition for a text or a name to be clean that is cheap to evaluate: every match of a pattern contains one of a few words.
\<close>

lemma rx_match_Seq_Cons: "rx_match (Seq (r # rs)) p = concat (map (rx_match (Seq rs)) (rx_match r p))"
proof -
  have spread: "foldl (\<lambda>ps f. concat (map f ps)) qs fs = concat (map (\<lambda>q. foldl (\<lambda>ps f. concat (map f ps)) [q] fs) qs)"
    for fs :: "(position \<Rightarrow> position list) list" and qs
  proof (induction fs arbitrary: qs)
    case Nil
    then show ?case by simp
  next
    case (Cons f fs)
    have "concat (concat xss) = concat (map concat xss)" for xss :: "position list list list" by (induction xss) simp_all
    then show ?case
      by (simp, subst (1 2) Cons.IH) (simp add: map_concat comp_def)
  qed
  show ?thesis unfolding rx_match.simps by (simp, subst spread) simp
qed

lemma rx_match_Seq_Nil: "rx_match (Seq []) p = [p]"
  by simp

lemma lit_i_prefix: "rx_match (lit_i w) (b, a) \<noteq> [] \<Longrightarrow> starts_with (map lower_case a) (map lower_case w)"
proof (induction w arbitrary: a b)
  case (Cons c w)
  then obtain d ds where a: "a = d # ds" "lower_case d = lower_case c"
    by (cases a) (auto simp: lit_i_def rx_match_Seq_Cons split: if_splits simp del: rx_match.simps(3))
  then have "rx_match (lit_i w) (d # b, ds) \<noteq> []"
    using Cons.prems by (simp add: lit_i_def rx_match_Seq_Cons del: rx_match.simps(3))
  with Cons.IH a show ?case by (auto simp: starts_with_iff)
qed (simp add: starts_with_def)

lemma lit_prefix: "rx_match (lit w) (b, a) \<noteq> [] \<Longrightarrow> starts_with (map lower_case a) (map lower_case w)"
proof (induction w arbitrary: a b)
  case (Cons c w)
  then obtain d ds where a: "a = d # ds" "d = c"
    by (cases a) (auto simp: lit_def rx_match_Seq_Cons split: if_splits simp del: rx_match.simps(3))
  then have "rx_match (lit w) (d # b, ds) \<noteq> []"
    using Cons.prems by (simp add: lit_def rx_match_Seq_Cons del: rx_match.simps(3))
  with Cons.IH a show ?case by (auto simp: starts_with_iff)
qed (simp add: starts_with_def)

lemma seq_head: "rx_match (Seq (r # rs)) p \<noteq> [] \<Longrightarrow> rx_match r p \<noteq> []"
  by (auto simp: rx_match_Seq_Cons simp del: rx_match.simps(3))

lemma seq_boundary: "rx_match (Seq (WordBoundary # rs)) p \<noteq> [] \<Longrightarrow> rx_match (Seq rs) p \<noteq> []"
  by (auto simp: rx_match_Seq_Cons split: if_splits simp del: rx_match.simps(3))

lemma seq_tail: "rx_match (Seq (r # rs)) p \<noteq> [] \<Longrightarrow> \<exists>q \<in> set (rx_match r p). rx_match (Seq rs) q \<noteq> []"
  by (auto simp: rx_match_Seq_Cons simp del: rx_match.simps(3))

lemma alt_some: "rx_match (Alt rs) p \<noteq> [] \<Longrightarrow> \<exists>r \<in> set rs. rx_match r p \<noteq> []"
  by auto

lemma rx_search_position: "rx_search r before s \<Longrightarrow> \<exists>a b. s = a @ b \<and> rx_match r (rev a @ before, b) \<noteq> []"
proof (induction r before s rule: rx_search.induct)
  case (2 r before c cs)
  show ?case
  proof (cases "rx_match r (before, c # cs) \<noteq> []")
    case True
    then show ?thesis by (intro exI [of _ "[]"] exI [of _ "c # cs"]) simp
  next
    case False
    then obtain a b where "cs = a @ b" "rx_match r (rev a @ c # before, b) \<noteq> []" using 2 by auto
    then show ?thesis by (intro exI [of _ "c # a"] exI [of _ b]) simp
  qed
qed auto


lemma contains_text_position: "starts_with b t \<Longrightarrow> contains_text (a @ b) t"
proof (induction a)
  case Nil
  then show ?case by (cases b) (auto simp: starts_with_def)
qed simp

text \<open>Words of which every match of a pattern contains one, in lower case.\<close>

definition secret_words :: "string list" where
  "secret_words = [''-----begin '', ''bearer'', ''api'', ''password'', ''passphrase'', ''secret'', ''access'', ''refresh'', ''x-amz-signature'', ''x-amz-credential'',
     ''gho'', ''ghp'', ''ghs'', ''ghu'', ''github_pat_'', ''sk_'', ''sk-'', ''xox'', ''npm_'', ''akia'', ''eyj'', ''http'']"

definition plain_text :: "string \<Rightarrow> bool" where
  "plain_text s \<longleftrightarrow> (let t = map lower_case s in \<not> list_ex (contains_text t) secret_words)"

lemma github_prefix:
  assumes "rx_match (Seq [lit_i ''gh'', Class (\<lambda>c. lower_case c \<in> set ''opsu''), r]) (b, a) \<noteq> []"
  shows "\<exists>w \<in> {''gho'', ''ghp'', ''ghs'', ''ghu''}. starts_with (map lower_case a) w"
proof -
  obtain q where q: "q \<in> set (rx_match (lit_i ''gh'') (b, a))" "rx_match (Class (\<lambda>c. lower_case c \<in> set ''opsu'')) q \<noteq> []"
    using seq_tail [OF assms] seq_head by blast
  then obtain x y rest where a: "a = x # y # rest" "lower_case x = CHR ''g''" "lower_case y = CHR ''h''" "q = (y # x # b, rest)"
    by (cases a; cases "tl a") (auto simp: lit_i_def lower_case_def is_upper_def less_eq_char_def split: if_splits)
  then obtain z rest' where "rest = z # rest'" "lower_case z \<in> set ''opsu''" using q(2) by (cases rest) (auto split: if_splits)
  then show ?thesis using a by (auto simp: starts_with_def)
qed

lemma secret_match_word:
  assumes "r \<in> set secretPatterns" and "rx_match r (b, a) \<noteq> []"
  shows "\<exists>w \<in> set secret_words. starts_with (map lower_case a) w"
proof -
  let ?goal = "\<exists>w \<in> set secret_words. starts_with (map lower_case a) w"
  let ?m = "\<lambda>r. rx_match r (b, a) \<noteq> []"
  define listed where "listed v = List.member secret_words (map lower_case v)" for v
  have "list_all (\<lambda>v. List.member secret_words (map lower_case v))
      [''-----BEGIN '', ''Bearer'', ''api'', ''password'', ''passphrase'', ''secret'', ''access'', ''refresh'', ''X-Amz-Signature'', ''X-Amz-Credential'',
       ''github_pat_'', ''sk_'', ''sk-'', ''xox'', ''npm_'', ''AKIA'', ''eyJ'', ''http'']" by code_simp
  then have known: "listed ''-----BEGIN ''" "listed ''Bearer''" "listed ''api''" "listed ''password''" "listed ''passphrase''" "listed ''secret''"
      "listed ''access''" "listed ''refresh''" "listed ''X-Amz-Signature''" "listed ''X-Amz-Credential''" "listed ''github_pat_''" "listed ''sk_''"
      "listed ''sk-''" "listed ''xox''" "listed ''npm_''" "listed ''AKIA''" "listed ''eyJ''" "listed ''http''"
    unfolding listed_def by simp_all
  have any_case: ?goal if "?m (lit_i v)" "listed v" for v using that lit_i_prefix by (auto simp: listed_def)
  have exact: ?goal if "?m (lit v)" "listed v" for v using that lit_prefix by (auto simp: listed_def)
  have github: ?goal if "?m (Seq [lit_i ''gh'', Class (\<lambda>c. lower_case c = CHR ''o'' \<or> lower_case c = CHR ''p'' \<or> lower_case c = CHR ''s''
      \<or> lower_case c = CHR ''u''), lit ''_''])"
  proof -
    have "?m (Seq [lit_i ''gh'', Class (\<lambda>c. lower_case c \<in> set ''opsu''), lit ''_''])" using that by (simp del: rx_match.simps(3))
    from github_prefix [OF this] show ?thesis by (auto simp: secret_words_def)
  qed
  have "list_all (\<lambda>r. ?m r \<longrightarrow> ?goal) secretPatterns"
    unfolding secretPatterns_def list.pred_inject
    apply (intro conjI impI TrueI)
    subgoal by (drule seq_head) (rule any_case [OF _ known(1)])
    subgoal by (drule seq_boundary, drule seq_head) (rule any_case [OF _ known(2)])
    subgoal by (drule seq_head, drule alt_some)
        (use known in \<open>auto dest: seq_head intro: any_case simp del: rx_match.simps(3)\<close>)
    subgoal by (drule seq_head, drule alt_some) (use known in \<open>auto intro: any_case simp del: rx_match.simps(3)\<close>)
    subgoal by (drule seq_boundary, drule seq_head, drule alt_some)
        (use known in \<open>auto dest: seq_head intro: any_case github simp del: rx_match.simps(3)\<close>)
    subgoal unfolding append.simps by (drule seq_boundary, drule seq_head) (rule exact [OF _ known(16)])
    subgoal by (drule seq_boundary, drule seq_head) (rule exact [OF _ known(17)])
    subgoal by (drule seq_head) (rule any_case [OF _ known(18)])
    subgoal by simp
    done
  then show ?thesis using assms by (auto simp: list_all_iff)
qed

lemma plain_text_clean: "plain_text s \<Longrightarrow> \<not> secret_text s"
proof
  assume plain: "plain_text s" and "secret_text s"
  then obtain r where r: "r \<in> set secretPatterns" "rx_search r [] s"
    by (auto simp: secret_text_def matchesAny_def rx_matches_def list_ex_iff)
  obtain a b where s: "s = a @ b" "rx_match r (rev a, b) \<noteq> []" using rx_search_position [OF r(2)] by auto
  obtain t where t: "t \<in> set secret_words" "starts_with (map lower_case b) t"
    using secret_match_word [OF r(1) s(2)] by blast
  have "contains_text (map lower_case s) t" using contains_text_position [OF t(2), of "map lower_case a"] s(1) by simp
  then show False using plain t(1) by (simp add: plain_text_def Let_def list_ex_iff)
qed


text \<open>The same for property names; the last alternative of \<open>secretKey\<close> needs a separator or the whole name.\<close>

definition plain_key :: "string \<Rightarrow> bool" where
  "plain_key k \<longleftrightarrow> (let t = map lower_case k in
     \<not> list_ex (contains_text t) [''password'', ''passphrase'', ''secret'', ''api'', ''access'', ''refresh'', ''private'', ''session'']
     \<and> \<not> list_ex (\<lambda>c. c = CHR ''_'' \<or> c = CHR ''-'') k \<and> \<not> List.member [''token'', ''auth'', ''credential''] t)"

lemma lit_i_result:
  "q \<in> set (rx_match (lit_i w) (b, a)) \<Longrightarrow> snd q = drop (length w) a \<and> starts_with (map lower_case a) (map lower_case w)"
proof (induction w arbitrary: a b)
  case (Cons c w)
  then obtain d ds where a: "a = d # ds" "lower_case d = lower_case c" "q \<in> set (rx_match (lit_i w) (d # b, ds))"
    by (cases a) (auto simp: lit_i_def rx_match_Seq_Cons split: if_splits simp del: rx_match.simps(3))
  with Cons.IH show ?case by (auto simp: starts_with_iff)
qed (auto simp: lit_i_def starts_with_def)

lemma plain_key_clean: "plain_key k \<Longrightarrow> \<not> keyCarriesSecret k"
proof
  assume plain: "plain_key k" and "keyCarriesSecret k"
  then obtain a b where k: "k = a @ b" and m: "rx_match secretKey (rev a, b) \<noteq> []"
    using rx_search_position [of secretKey "[]" k] by (auto simp: keyCarriesSecret_def rx_matches_def)
  let ?m = "\<lambda>r. rx_match r (rev a, b) \<noteq> []"
  have lower: "list_all (\<lambda>w. map lower_case w = w) [''password'', ''passphrase'', ''secret'', ''api'', ''access'', ''refresh'', ''private'', ''session'',
      ''token'', ''auth'', ''credential'']" by code_simp
  have no_word: "\<not> ?m (lit_i w)" if "w \<in> set [''password'', ''passphrase'', ''secret'', ''api'', ''access'', ''refresh'', ''private'', ''session'']" for w
  proof
    assume "?m (lit_i w)"
    moreover have "map lower_case w = w" using lower that by (auto simp: list_all_iff)
    ultimately have "contains_text (map lower_case k) w"
      using contains_text_position [of "map lower_case b" w "map lower_case a"] lit_i_prefix [of w "rev a" b] k by simp
    then show False using plain that by (auto simp: plain_key_def Let_def list_ex_iff)
  qed
  let ?last = "Seq [Alt [AtStart, one_of ''_-''], Alt [lit_i ''token'', lit_i ''auth'', lit_i ''credential''], Alt [AtEnd, one_of ''_-'']]"
  have plain_words: "\<not> ?m (lit_i ''password'')" "\<not> ?m (lit_i ''passphrase'')" "\<not> ?m (lit_i ''secret'')" by (rule no_word, simp)+
  have compound: "\<not> ?m (Seq (lit_i ''api'' # rs))" "\<not> ?m (Seq (lit_i ''access'' # rs))" "\<not> ?m (Seq (lit_i ''refresh'' # rs))"
    "\<not> ?m (Seq (lit_i ''private'' # rs))" "\<not> ?m (Seq (lit_i ''session'' # rs))" for rs
    using no_word seq_head by (meson list.set_intros)+
  obtain r where "r \<in> set [lit_i ''password'', lit_i ''passphrase'', lit_i ''secret'',
     Seq [lit_i ''api'', opt_dash, lit_i ''key''], Seq [lit_i ''access'', opt_dash, lit_i ''token''],
     Seq [lit_i ''refresh'', opt_dash, lit_i ''token''], Seq [lit_i ''private'', opt_dash, lit_i ''key''],
     Seq [lit_i ''session'', opt_dash, lit_i ''cookie''], ?last]" "?m r"
    using alt_some [OF m [unfolded secretKey_def]] by blast
  then have "?m ?last" using plain_words compound unfolding set_simps insert_iff empty_iff by blast
  then obtain q where q: "q \<in> set (rx_match (Alt [AtStart, one_of ''_-'']) (rev a, b))"
    "rx_match (Seq [Alt [lit_i ''token'', lit_i ''auth'', lit_i ''credential''], Alt [AtEnd, one_of ''_-'']]) q \<noteq> []"
    using seq_tail by blast
  have clean: "c \<in> set k \<Longrightarrow> c \<noteq> CHR ''_'' \<and> c \<noteq> CHR ''-''" for c using plain by (auto simp: plain_key_def Let_def list_ex_iff)
  have "q = ([], k)" using q(1) clean k by (cases b) (auto simp: one_of_def split: if_splits)
  then obtain w p where w: "w \<in> set [''token'', ''auth'', ''credential'']" "p \<in> set (rx_match (lit_i w) ([], k))"
    "rx_match (Seq [Alt [AtEnd, one_of ''_-'']]) p \<noteq> []"
    using seq_tail [OF q(2)] by (auto simp del: rx_match.simps(3))
  note p = lit_i_result [OF w(2)]
  have "rx_match (Alt [AtEnd, one_of ''_-'']) p \<noteq> []" using seq_head [OF w(3)] .
  moreover have "set (snd p) \<subseteq> set k" using p set_drop_subset by metis
  ultimately have "snd p = []" using clean by (cases p; cases "snd p") (auto simp: one_of_def split: if_splits)
  then have "length k \<le> length w" using p by simp
  moreover have "map lower_case w = w" using lower w(1) by (auto simp: list_all_iff)
  ultimately have "map lower_case k = w" using p by (auto simp: starts_with_def)
  then show False using plain w(1) by (auto simp: plain_key_def Let_def)
qed

text \<open>The two tests by the scan for words.\<close>

definition key_words :: "string list" where
  "key_words = [''password'', ''passphrase'', ''secret'', ''api'', ''access'', ''refresh'', ''private'', ''session'', ''_'', ''-'']"

definition quick_key :: "word_trie \<Rightarrow> string \<Rightarrow> bool" where
  "quick_key T k = (if free_of T k then \<not> list_ex (\<lambda>w. if begins_near k w then begins_near w k else False) [''token'', ''auth'', ''credential''] else False)"

lemma caseless_lower_case: "caseless (lower_case c) = caseless c"
proof (cases "is_upper c")
  case True
  define n :: nat where "n = of_char c"
  then have n: "65 \<le> n" "n \<le> 90" using True by (simp_all add: is_upper_def less_eq_char_def)
  have bits: "caseless (char_of m) = [odd (m div 64), odd m, odd (m div 2), odd (m div 4), odd (m div 8), odd (m div 16)]" for m :: nat
    by (simp add: char_of_def bit_iff_odd)
  have "(n + 32) div 2 = n div 2 + 16" "(n + 32) div 4 = n div 4 + 8" "(n + 32) div 8 = n div 8 + 4" "(n + 32) div 16 = n div 16 + 2"
    using div_mult_self1 [of 2 n 16] div_mult_self1 [of 4 n 8] div_mult_self1 [of 8 n 4] div_mult_self1 [of 16 n 2] by simp_all
  moreover have "(n + 32) div 64 = 1" "n div 64 = 1" by (rule div_nat_eqI; use n in simp)+
  ultimately have "caseless (char_of (n + 32)) = caseless (char_of n)" unfolding bits by simp
  then show ?thesis using True by (simp add: lower_case_def n_def)
qed (simp add: lower_case_def)

lemmas scan_misses = free_of_misses [where f = lower_case, OF caseless_lower_case]

lemma plain_texts_clean: "list_all (free_of (trie_of secret_words)) ts \<Longrightarrow> list_all (\<lambda>t. \<not> secret_text t) ts"
proof -
  have "plain_text t" if "free_of (trie_of secret_words) t" for t
  proof -
    have "\<not> contains_text (map lower_case t) w" if "w \<in> set secret_words" for w
      using scan_misses [OF _ \<open>free_of (trie_of secret_words) t\<close>, of "hd w" "tl w"] that by (cases w) (auto simp: secret_words_def)
    then show ?thesis by (simp add: plain_text_def Let_def list_ex_iff)
  qed
  then show "list_all (free_of (trie_of secret_words)) ts \<Longrightarrow> list_all (\<lambda>t. \<not> secret_text t) ts"
    using plain_text_clean by (simp add: list_all_iff)
qed

lemma contains_one: "contains_text s [c] \<longleftrightarrow> c \<in> set s"
  by (induction s) (auto simp: starts_with_def)

lemma quick_key_plain:
  assumes "quick_key (trie_of key_words) k"
  shows "plain_key k"
proof -
  have free: "free_of (trie_of key_words) k" and whole: "\<not> (begins_near k w \<and> begins_near w k)" if "w \<in> set [''token'', ''auth'', ''credential'']" for w
    using assms that by (auto simp: quick_key_def list_ex_iff split: if_splits)
  have none: "\<not> contains_text (map lower_case k) w" if "w \<in> set key_words" for w
    using scan_misses [OF _ free, of "hd w" "tl w"] that by (cases w) (auto simp: key_words_def)
  have "map lower_case k \<noteq> w" if "w \<in> set [''token'', ''auth'', ''credential'']" for w
  proof
    assume w: "map lower_case k = w"
    then have "begins_near k w" using starts_with_near [OF caseless_lower_case, of k w] by (simp add: starts_with_def)
    moreover have "begins_near (map lower_case s) s" for s
      by (induction s) (simp_all add: near_iff caseless_lower_case)
    ultimately show False using whole [OF that] w by metis
  qed
  moreover have "CHR ''_'' \<notin> set k" "CHR ''-'' \<notin> set k"
  proof -
    have "lower_case CHR ''_'' = CHR ''_''" "lower_case CHR ''-'' = CHR ''-''" by code_simp+
    then show "CHR ''_'' \<notin> set k" "CHR ''-'' \<notin> set k"
      using none [of "''_''"] none [of "''-''"] by (force simp: contains_one key_words_def)+
  qed
  ultimately show ?thesis using none by (auto simp: plain_key_def Let_def list_ex_iff key_words_def)
qed

lemma plain_keys_clean: "list_all (quick_key (trie_of key_words)) ks \<Longrightarrow> list_all (\<lambda>k. \<not> keyCarriesSecret k) ks"
  using quick_key_plain plain_key_clean by (simp add: list_all_iff)

interpretation source_redactor: redactor keyCarriesSecret secret_text
proof
  show "\<not> secret_text redacted_text"
    by (rule plain_text_clean) code_simp
  show "\<not> keyCarriesSecret []"
    by (rule plain_key_clean) code_simp
qed

text \<open>
  C33. Detection and redaction agree: the paths redaction reports are exactly those detection finds;
  the redacted value has no secret text outside properties whose whole value was replaced;
  redacting it again changes nothing; and a value in which detection finds nothing is returned as it is.
\<close>

theorem redactSecrets_exact:
  "redactedPaths (redactSecrets v) = containsSecretMaterial v
   \<and> clean keyCarriesSecret secret_text (rr_value (redactSecrets v))
   \<and> rr_value (redactSecrets (rr_value (redactSecrets v))) = rr_value (redactSecrets v)
   \<and> (assertNoSecretMaterial v label = Inr () \<longrightarrow> rr_value (redactSecrets v) = v)"
proof -
  have "rr_value (redactSecrets v) = v" if "assertNoSecretMaterial v label = Inr ()"
    using that source_redactor.no_findings_unchanged [of v "''$''" None]
    by (simp add: assertNoSecretMaterial_def containsSecretMaterial_def redactSecrets_def source_redactor.redact_value split: if_splits)
  then show ?thesis
    by (simp add: redactSecrets_def containsSecretMaterial_def source_redactor.redact_value source_redactor.redact_paths
        source_redactor.redacted_clean source_redactor.redacted_idem)
qed

theorem redactSecrets_exact_witness:
  "assertNoSecretMaterial (JObj [(''jobId'', JStr ''job:1'')]) ''event'' = Inr () \<and>
   rr_value (redactSecrets (JObj [(''jobId'', JStr ''job:1'')])) = JObj [(''jobId'', JStr ''job:1'')] \<and>
   redactedPaths (redactSecrets (JObj [(''password'', JStr ''x''), (''n'', JNum 1)])) = [''$.password'']"
proof -
  have "plain_key ''jobId''" "plain_text ''job:1''" by code_simp+
  then have a: "assertNoSecretMaterial (JObj [(''jobId'', JStr ''job:1'')]) ''event'' = Inr ()"
    using plain_key_clean plain_text_clean by (simp add: assertNoSecretMaterial_def containsSecretMaterial_def)
  have b: "containsSecretMaterial (JObj [(''password'', JStr ''x''), (''n'', JNum 1)]) = [''$.password'']"
  proof -
    have "keyCarriesSecret ''password''" "plain_key ''n''" by code_simp+
    then show ?thesis using plain_key_clean [of "''n''"] by (simp add: containsSecretMaterial_def key_path_def)
  qed
  show ?thesis
    using redactSecrets_exact [of "JObj [(''jobId'', JStr ''job:1'')]" "''event''"]
      redactSecrets_exact [of "JObj [(''password'', JStr ''x''), (''n'', JNum 1)]" "''event''"] a b by simp
qed

end
