(* ===== verification/Event_Machine.thy ===== *)
theory Event_Machine
  imports Prelude
begin

text \<open>
  The interface between the event machines of the node policy and the stores that keep their
  histories: a machine creates a versioned state and applies events to it, each of which either
  fails or advances the version by one. A store that appends an event whenever it applies one can
  always rebuild the current state by replaying its log; the lemmas of the locale say so once for
  every machine.
\<close>

fun replay_events :: "('s \<Rightarrow> 'e \<Rightarrow> ('x, 's) result) \<Rightarrow> 's \<Rightarrow> 'e list \<Rightarrow> ('x, 's) result" where
  "replay_events f s [] = Inr s"
| "replay_events f s (e # es) = bind_result (f s e) (\<lambda>t. replay_events f t es)"

definition replay :: "('i \<Rightarrow> ('x, 's) result) \<Rightarrow> ('s \<Rightarrow> 'e \<Rightarrow> ('x, 's) result) \<Rightarrow> 'i \<Rightarrow> 'e list \<Rightarrow> ('x, 's) result" where
  "replay c f i es = bind_result (c i) (\<lambda>s. replay_events f s es)"

lemma replay_events_append:
  "replay_events f s (es @ fs) = bind_result (replay_events f s es) (\<lambda>t. replay_events f t fs)"
proof (induction es arbitrary: s)
  case (Cons e es)
  then show ?case by (cases "f s e") simp_all
qed simp

lemma replay_Nil [simp]: "replay c f i [] = c i"
  by (cases "c i") (simp_all add: replay_def)

lemma replay_snoc: "replay c f i (es @ [e]) = bind_result (replay c f i es) (\<lambda>s. f s e)"
  by (cases "c i"; cases "replay_events f (projr (c i)) es") (auto simp: replay_def replay_events_append bind_result_def split: sum.splits)

locale event_machine =
  fixes create :: "'i \<Rightarrow> ('x, 's) result" and step :: "'s \<Rightarrow> 'e \<Rightarrow> ('x, 's) result"
    and version :: "'s \<Rightarrow> int" and created_at :: "'s \<Rightarrow> 'a"
  assumes create_version: "create i = Inr s \<Longrightarrow> version s = 1"
    and step_version: "step s e = Inr t \<Longrightarrow> version t = version s + 1"
    and step_created: "step s e = Inr t \<Longrightarrow> created_at t = created_at s"
begin

lemma replay_version: "replay create step i es = Inr s \<Longrightarrow> version s = 1 + int (length es)"
proof (induction es arbitrary: s rule: rev_induct)
  case Nil
  then show ?case by (simp add: create_version)
next
  case (snoc e es)
  then obtain t where "replay create step i es = Inr t" "step t e = Inr s" by (auto simp: replay_snoc)
  with snoc.IH step_version show ?case by fastforce
qed

lemma replay_prefix: "replay create step i (es @ fs) = Inr s \<Longrightarrow> \<exists>t. replay create step i es = Inr t"
proof (induction fs arbitrary: s rule: rev_induct)
  case (snoc f fs)
  then show ?case by (auto simp: replay_snoc simp flip: append_assoc)
qed simp

text \<open>Two histories of one creation that reach the same version and agree on their events are one run.\<close>

lemma replay_longer:
  "replay create step i es = Inr s \<Longrightarrow> replay create step i fs = Inr t \<Longrightarrow> version s = version t \<Longrightarrow> length es = length fs"
  using replay_version by fastforce

lemma replay_created: "replay create step i es = Inr s \<Longrightarrow> create i = Inr s0 \<Longrightarrow> created_at s = created_at s0"
proof (induction es arbitrary: s rule: rev_induct)
  case (snoc e es)
  then obtain t where "replay create step i es = Inr t" "step t e = Inr s" by (auto simp: replay_snoc)
  with snoc step_created show ?case by metis
qed simp

end

end
