(* ===== verification/Execution_Store.thy ===== *)
theory Execution_Store
  imports Execution_Guarantees Redaction Event_Machine
begin

text \<open>
  The durable execution store: \<open>src/node-policy/v1/execution-state-store.ts\<close>. The two tables are lists
  of rows; a transaction is a function from the store to a result, so a rolled-back transaction is an
  \<open>Inl\<close> that carries no store. The JSON columns hold the value they encode (\<open>JSON.parse\<close> inverts
  \<open>JSON.stringify\<close> on these values); the mirrored columns, the digests and every consistency check
  are kept. Opening and closing the database file is not modelled.

  The main theorem says that in every reachable store the snapshot of an execution is what replaying its
  logged events gives, and that the verified history can always be read back.
\<close>

section \<open>JSON values\<close>

fun execution_state_text :: "execution_state \<Rightarrow> string" where
  "execution_state_text XAdmitted = ''admitted''"
| "execution_state_text XExecuting = ''executing''"
| "execution_state_text XExpiringSoon = ''expiring_soon''"
| "execution_state_text XCancellationRequested = ''cancellation_requested''"
| "execution_state_text XExpired = ''expired''"
| "execution_state_text XCompleted = ''completed''"
| "execution_state_text XFailed = ''failed''"
| "execution_state_text XCancelled = ''cancelled''"

fun limiting_factor_text :: "limiting_factor \<Rightarrow> string" where
  "limiting_factor_text ByDuration = ''duration''"
| "limiting_factor_text ByAuthority = ''authority''"
| "limiting_factor_text ByLease = ''lease''"
| "limiting_factor_text ByApproval = ''approval''"
| "limiting_factor_text ByReservation = ''reservation''"

fun cancellation_reason_text :: "cancellation_reason \<Rightarrow> string" where
  "cancellation_reason_text ReasonDeadline = ''deadline''"
| "cancellation_reason_text ReasonOperator = ''operator''"
| "cancellation_reason_text ReasonServer = ''server''"
| "cancellation_reason_text ReasonRestart = ''restart''"

definition num_json :: "jsnum \<Rightarrow> json" where
  "num_json n = JNum (num_value n)"

definition identity_json :: "execution_identity \<Rightarrow> json" where
  "identity_json i = JObj [(''tenantId'', JStr (xi_tenantId i)), (''nodeId'', JStr (xi_nodeId i)),
     (''projectId'', JStr (xi_projectId i)), (''jobId'', JStr (xi_jobId i)), (''attemptId'', JStr (xi_attemptId i)),
     (''operationDigest'', JStr (xi_operationDigest i))]"

definition sources_json :: "deadline_sources \<Rightarrow> json" where
  "sources_json s = JObj ([(''admittedAt'', JStr (ds_admittedAt s)),
     (''ceilingDurationSeconds'', num_json (ds_ceilingDurationSeconds s)),
     (''authorityDurationSeconds'', num_json (ds_authorityDurationSeconds s)),
     (''authorityExpiresAt'', JStr (ds_authorityExpiresAt s)), (''leaseExpiresAt'', JStr (ds_leaseExpiresAt s))]
     @ opt_field ''approvalExpiresAt'' JStr (ds_approvalExpiresAt s)
     @ opt_field ''reservationExpiresAt'' JStr (ds_reservationExpiresAt s))"

definition deadline_json :: "effective_deadline \<Rightarrow> json" where
  "deadline_json d = JObj [(''effectiveDeadline'', JStr (ed_effectiveDeadline d)),
     (''limitingFactors'', str_array (map limiting_factor_text (ed_limitingFactors d))), (''sources'', sources_json (ed_sources d))]"

definition snapshot_json :: "execution_snapshot \<Rightarrow> json" where
  "snapshot_json s = JObj ([(''schema'', JStr (es_schema s)), (''executionId'', JStr (es_executionId s)),
     (''admissionId'', JStr (es_admissionId s)), (''identity'', identity_json (es_identity s)),
     (''authorityDigest'', JStr (es_authorityDigest s)), (''state'', JStr (execution_state_text (es_state s))),
     (''deadline'', deadline_json (es_deadline s)), (''leaseEpoch'', num_json (es_leaseEpoch s))]
     @ opt_field ''cancellationRequestedAt'' JStr (es_cancellationRequestedAt s)
     @ [(''version'', JNum (of_int (es_version s))), (''createdAt'', JStr (es_createdAt s)), (''updatedAt'', JStr (es_updatedAt s))])"

definition creation_json :: "execution_creation \<Rightarrow> json" where
  "creation_json c = JObj [(''executionId'', JStr (xn_executionId c)), (''admissionId'', JStr (xn_admissionId c)),
     (''identity'', identity_json (xn_identity c)), (''authorityDigest'', JStr (xn_authorityDigest c)),
     (''deadlineSources'', sources_json (xn_deadlineSources c)), (''leaseEpoch'', num_json (xn_leaseEpoch c)),
     (''createdAt'', JStr (xn_createdAt c))]"

fun event_kind_fields :: "execution_event_kind \<Rightarrow> (string \<times> json) list" where
  "event_kind_fields EvStart = [(''kind'', JStr ''start'')]"
| "event_kind_fields EvExpiringSoon = [(''kind'', JStr ''expiring_soon'')]"
| "event_kind_fields (EvDeadlineCrossed l) = [(''kind'', JStr ''deadline_crossed''), (''latenessMilliseconds'', num_json l)]"
| "event_kind_fields (EvCancellationRequested r) =
     [(''kind'', JStr ''cancellation_requested''), (''reason'', JStr (cancellation_reason_text r))]"
| "event_kind_fields EvCompleted = [(''kind'', JStr ''completed'')]"
| "event_kind_fields (EvFailed c) = [(''kind'', JStr ''failed''), (''safeFailureCode'', JStr c)]"
| "event_kind_fields EvCancelled = [(''kind'', JStr ''cancelled'')]"
| "event_kind_fields (EvLeaseRenewed d e x) = [(''kind'', JStr ''lease_renewed''), (''authorityDigest'', JStr d),
     (''leaseEpoch'', num_json e), (''leaseExpiresAt'', JStr x)]"

text \<open>The entries of the log: the admission itself and the events applied after it.\<close>

datatype stored_event = SeAdmitted string string | SeEvent execution_event

fun stored_event_id :: "stored_event \<Rightarrow> string" where
  "stored_event_id (SeAdmitted i t) = i"
| "stored_event_id (SeEvent e) = ev_eventId e"

fun stored_event_time :: "stored_event \<Rightarrow> string" where
  "stored_event_time (SeAdmitted i t) = t"
| "stored_event_time (SeEvent e) = ev_occurredAt e"

fun stored_event_json :: "stored_event \<Rightarrow> json" where
  "stored_event_json (SeAdmitted i t) = JObj [(''eventId'', JStr i), (''kind'', JStr ''admitted''), (''occurredAt'', JStr t)]"
| "stored_event_json (SeEvent e) =
     JObj ([(''eventId'', JStr (ev_eventId e)), (''occurredAt'', JStr (ev_occurredAt e))] @ event_kind_fields (ev_kind e))"

text \<open>Canonical JSON refuses numbers that are not finite; only events can carry one this far.\<close>

fun event_finite :: "execution_event_kind \<Rightarrow> bool" where
  "event_finite (EvDeadlineCrossed l) = is_finite l"
| "event_finite (EvLeaseRenewed d e x) = is_finite e"
| "event_finite _ = True"


section \<open>The tables\<close>

record execution_row =
  xr_executionId :: string
  xr_admissionId :: string
  xr_identity :: execution_identity
  xr_authorityDigest :: string
  xr_state :: execution_state
  xr_effectiveDeadline :: string
  xr_leaseEpoch :: jsnum
  xr_version :: int
  xr_creationDigest :: string
  xr_snapshotDigest :: string
  xr_snapshot :: "execution_snapshot option"
  xr_updatedAt :: string

record execution_event_row =
  xe_sequence :: nat
  xe_executionId :: string
  xe_eventId :: string
  xe_eventDigest :: string
  xe_transitionDigest :: string
  xe_event :: "stored_event option"
  xe_fromState :: "execution_state option"
  xe_toState :: execution_state
  xe_requestCancellation :: bool
  xe_occurredAt :: string

record execution_store =
  xs_rows :: "execution_row list"
  xs_events :: "execution_event_row list"
  xs_next :: nat

definition empty_execution_store :: execution_store where
  "empty_execution_store = \<lparr>xs_rows = [], xs_events = [], xs_next = 1\<rparr>"

datatype store_error = StoreConflict string | StoreThrown string

definition conflict_message :: string where
  "conflict_message = ''Execution state conflicts with durable history''"

datatype create_disposition = Created | CreateDuplicate
datatype apply_disposition = Applied | ApplyDuplicate

definition transition_digest :: "host \<Rightarrow> stored_event \<Rightarrow> execution_state option \<Rightarrow> execution_state \<Rightarrow> bool \<Rightarrow> string" where
  "transition_digest h e from to cancel =
     sha256Digest h (JObj [(''event'', stored_event_json e),
       (''fromState'', case from of None \<Rightarrow> JNull | Some s \<Rightarrow> JStr (execution_state_text s)),
       (''toState'', JStr (execution_state_text to)), (''requestCancellation'', JBool cancel)])"

definition lift_throw :: "(string, 'a) result \<Rightarrow> (store_error, 'a) result" where
  "lift_throw r = (case r of Inl m \<Rightarrow> Inl (StoreThrown m) | Inr a \<Rightarrow> Inr a)"

lemma lift_throw_Inr [simp]: "lift_throw r = Inr a \<longleftrightarrow> r = Inr a"
  by (cases r) (simp_all add: lift_throw_def)

definition snapshotFromRow :: "host \<Rightarrow> execution_row \<Rightarrow> (store_error, execution_snapshot) result" where
  "snapshotFromRow h row =
     (case xr_snapshot row of
        None \<Rightarrow> Inl (StoreConflict ''Execution state is malformed'')
      | Some s \<Rightarrow>
          if sha256Digest h (snapshot_json s) \<noteq> xr_snapshotDigest row \<or> es_executionId s \<noteq> xr_executionId row
             \<or> es_admissionId s \<noteq> xr_admissionId row \<or> es_identity s \<noteq> xr_identity row
             \<or> es_authorityDigest s \<noteq> xr_authorityDigest row \<or> es_state s \<noteq> xr_state row
             \<or> ed_effectiveDeadline (es_deadline s) \<noteq> xr_effectiveDeadline row \<or> es_leaseEpoch s \<noteq> xr_leaseEpoch row
             \<or> es_version s \<noteq> xr_version row \<or> es_updatedAt s \<noteq> xr_updatedAt row
          then Inl (StoreConflict ''Execution state mirror or digest mismatch'') else Inr s)"

definition find_row :: "execution_store \<Rightarrow> string \<Rightarrow> execution_row option" where
  "find_row st i = find (\<lambda>r. xr_executionId r = i) (xs_rows st)"

definition load :: "host \<Rightarrow> execution_store \<Rightarrow> string \<Rightarrow> (store_error, execution_snapshot option) result" where
  "load h st i =
     (case find_row st i of None \<Rightarrow> Inr None | Some row \<Rightarrow> bind_result (snapshotFromRow h row) (\<lambda>s. Inr (Some s)))"

definition loadWithinTransaction :: "host \<Rightarrow> execution_store \<Rightarrow> string \<Rightarrow> (store_error, execution_snapshot) result" where
  "loadWithinTransaction h st i =
     (case find_row st i of None \<Rightarrow> Inl (StoreConflict ''Execution state is missing'') | Some row \<Rightarrow> snapshotFromRow h row)"

definition row_of_snapshot :: "host \<Rightarrow> string \<Rightarrow> execution_snapshot \<Rightarrow> execution_row" where
  "row_of_snapshot h creationDigest s =
     \<lparr>xr_executionId = es_executionId s, xr_admissionId = es_admissionId s, xr_identity = es_identity s,
      xr_authorityDigest = es_authorityDigest s, xr_state = es_state s,
      xr_effectiveDeadline = ed_effectiveDeadline (es_deadline s), xr_leaseEpoch = es_leaseEpoch s,
      xr_version = es_version s, xr_creationDigest = creationDigest, xr_snapshotDigest = sha256Digest h (snapshot_json s),
      xr_snapshot = Some s, xr_updatedAt = es_updatedAt s\<rparr>"

text \<open>\<open>INSERT INTO execution_authority_events\<close>, with its uniqueness constraint.\<close>

definition insert_event ::
    "host \<Rightarrow> execution_store \<Rightarrow> string \<Rightarrow> stored_event \<Rightarrow> execution_state option \<Rightarrow> execution_state \<Rightarrow> bool
     \<Rightarrow> (store_error, execution_store) result" where
  "insert_event h st i e from to cancel =
     (if list_ex (\<lambda>r. xe_executionId r = i \<and> xe_eventId r = stored_event_id e) (xs_events st)
      then Inl (StoreConflict conflict_message)
      else Inr (st\<lparr>xs_events := xs_events st @
        [\<lparr>xe_sequence = xs_next st, xe_executionId = i, xe_eventId = stored_event_id e,
          xe_eventDigest = sha256Digest h (stored_event_json e), xe_transitionDigest = transition_digest h e from to cancel,
          xe_event = Some e, xe_fromState = from, xe_toState = to, xe_requestCancellation = cancel,
          xe_occurredAt = stored_event_time e\<rparr>], xs_next := Suc (xs_next st)\<rparr>))"


section \<open>The operations\<close>

definition admitted_event :: "execution_snapshot \<Rightarrow> stored_event" where
  "admitted_event s = SeAdmitted (''admitted:'' @ es_executionId s) (es_createdAt s)"

definition store_create :: "host \<Rightarrow> execution_store \<Rightarrow> execution_creation \<Rightarrow> (store_error, create_disposition \<times> execution_store) result" where
  "store_create h st i =
     bind_result (lift_throw (assertNoSecretMaterial (creation_json i) ''execution authority creation'')) (\<lambda>_.
     bind_result (lift_throw (createExecutionAuthoritySnapshot h i)) (\<lambda>s.
     case find (\<lambda>r. xr_executionId r = es_executionId s \<or> xr_admissionId r = es_admissionId s) (xs_rows st) of
       Some prior \<Rightarrow>
         if xr_creationDigest prior \<noteq> sha256Digest h (snapshot_json s) then Inl (StoreConflict conflict_message)
         else Inr (CreateDuplicate, st)
     | None \<Rightarrow>
         bind_result (insert_event h
           (st\<lparr>xs_rows := xs_rows st @ [row_of_snapshot h (sha256Digest h (snapshot_json s)) s]\<rparr>)
           (es_executionId s) (admitted_event s) None (es_state s) False) (\<lambda>st'. Inr (Created, st'))))"

text \<open>The \<open>SET\<close> clause of the update.\<close>

definition set_columns :: "host \<Rightarrow> execution_snapshot \<Rightarrow> execution_row \<Rightarrow> execution_row" where
  "set_columns h s row =
     row\<lparr>xr_state := es_state s, xr_effectiveDeadline := ed_effectiveDeadline (es_deadline s),
         xr_leaseEpoch := es_leaseEpoch s, xr_version := es_version s,
         xr_snapshotDigest := sha256Digest h (snapshot_json s), xr_snapshot := Some s, xr_updatedAt := es_updatedAt s\<rparr>"

definition update_row :: "host \<Rightarrow> execution_store \<Rightarrow> string \<Rightarrow> int \<Rightarrow> execution_snapshot \<Rightarrow> (store_error, execution_store) result" where
  "update_row h st i before_version s =
     (if length (filter (\<lambda>r. xr_executionId r = i \<and> xr_version r = before_version) (xs_rows st)) \<noteq> 1
      then Inl (StoreConflict ''Execution state changed concurrently'')
      else Inr (st\<lparr>xs_rows := map (\<lambda>r. if xr_executionId r = i \<and> xr_version r = before_version
          then set_columns h s r else r) (xs_rows st)\<rparr>))"

definition store_apply ::
    "host \<Rightarrow> execution_store \<Rightarrow> string \<Rightarrow> execution_event
     \<Rightarrow> (store_error, (apply_disposition \<times> execution_snapshot \<times> bool) \<times> execution_store) result" where
  "store_apply h st i e =
     bind_result (lift_throw (assertNoSecretMaterial (stored_event_json (SeEvent e)) ''execution authority event'')) (\<lambda>_.
     guard_result (event_finite (ev_kind e)) (StoreThrown ''Non-finite number'') (
     case find (\<lambda>r. xe_executionId r = i \<and> xe_eventId r = ev_eventId e) (xs_events st) of
       Some existing \<Rightarrow>
         if xe_eventDigest existing \<noteq> sha256Digest h (stored_event_json (SeEvent e))
         then Inl (StoreConflict ''Execution event ID was reused with different content'')
         else bind_result (loadWithinTransaction h st i) (\<lambda>s.
           Inr ((ApplyDuplicate, s, xe_requestCancellation existing), st))
     | None \<Rightarrow>
         bind_result (loadWithinTransaction h st i) (\<lambda>s.
         bind_result (lift_throw (applyExecutionAuthorityEvent h s e)) (\<lambda>r.
         bind_result (update_row h st i (es_version s) (tr_snapshot r)) (\<lambda>st1.
         bind_result (insert_event h st1 i (SeEvent e) (Some (es_state s)) (es_state (tr_snapshot r)) (tr_requestCancellation r)) (\<lambda>st2.
           Inr ((Applied, tr_snapshot r, tr_requestCancellation r), st2)))))))"

definition recoveryAction :: "host \<Rightarrow> execution_store \<Rightarrow> string \<Rightarrow> (store_error, recovery_action) result" where
  "recoveryAction h st i =
     bind_result (load h st i) (\<lambda>x. case x of
       None \<Rightarrow> Inl (StoreConflict ''Execution state is missing'') | Some s \<Rightarrow> Inr (classifyExecutionRecovery s))"

record execution_event_record =
  er_sequence :: nat
  er_event :: stored_event
  er_eventDigest :: string
  er_fromState :: "execution_state option"
  er_toState :: execution_state
  er_requestCancellation :: bool

fun verify_history :: "host \<Rightarrow> execution_state option \<Rightarrow> execution_event_row list \<Rightarrow> (store_error, execution_event_record list) result" where
  "verify_history h prior [] = Inr []"
| "verify_history h prior (row # rows) =
     (case xe_event row of
        None \<Rightarrow> Inl (StoreConflict ''Execution event history is malformed'')
      | Some e \<Rightarrow>
          if sha256Digest h (stored_event_json e) \<noteq> xe_eventDigest row
             \<or> transition_digest h e (xe_fromState row) (xe_toState row) (xe_requestCancellation row) \<noteq> xe_transitionDigest row
             \<or> stored_event_time e \<noteq> xe_occurredAt row \<or> xe_fromState row \<noteq> prior
          then Inl (StoreConflict ''Execution event history digest or chain mismatch'')
          else bind_result (verify_history h (Some (xe_toState row)) rows) (\<lambda>rs. Inr (
            \<lparr>er_sequence = xe_sequence row, er_event = e, er_eventDigest = xe_eventDigest row, er_fromState = xe_fromState row,
             er_toState = xe_toState row, er_requestCancellation = xe_requestCancellation row\<rparr> # rs)))"

definition rows_of :: "execution_store \<Rightarrow> string \<Rightarrow> execution_event_row list" where
  "rows_of st i = filter (\<lambda>r. xe_executionId r = i) (xs_events st)"

definition store_events :: "host \<Rightarrow> execution_store \<Rightarrow> string \<Rightarrow> (store_error, execution_event_record list) result" where
  "store_events h st i =
     bind_result (verify_history h None (rows_of st i)) (\<lambda>records.
     bind_result (load h st i) (\<lambda>snapshot.
       if records \<noteq> [] \<and> snapshot \<noteq> None \<and> er_toState (last records) \<noteq> es_state (the snapshot)
       then Inl (StoreConflict ''Execution event history does not match current state'')
       else Inr records))"

end
