(* ===== verification/Guarded_Store.thy ===== *)
theory Guarded_Store
  imports Prelude
begin

text \<open>
  What the durable stores share. A command runs in a transaction: it either fails and leaves the store
  as it was, or answers and leaves a new store. The locale \<open>guarded_store\<close> carries an invariant
  through every sequence of commands; \<open>retry_safe_store\<close> adds that a command repeated at once changes
  nothing further, and concludes that it does not matter how often a command is delivered;
  \<open>fires_once_store\<close> says that a reply with a consequence in the world is given at most once.
\<close>

type_synonym ('c, 's, 'e, 'a) transaction = "'c \<Rightarrow> 's \<Rightarrow> ('e, 'a \<times> 's) result"

definition committed :: "('c, 's, 'e, 'a) transaction \<Rightarrow> 'c \<Rightarrow> 's \<Rightarrow> 's" where
  "committed command c s = (case command c s of Inl e \<Rightarrow> s | Inr r \<Rightarrow> snd r)"

fun run_commands :: "('c, 's, 'e, 'a) transaction \<Rightarrow> 'c list \<Rightarrow> 's \<Rightarrow> 's" where
  "run_commands command [] s = s"
| "run_commands command (c # cs) s = run_commands command cs (committed command c s)"

fun run_replies :: "('c, 's, 'e, 'a) transaction \<Rightarrow> 'c list \<Rightarrow> 's \<Rightarrow> 'a list" where
  "run_replies command [] s = []"
| "run_replies command (c # cs) s =
     (case command c s of Inl e \<Rightarrow> run_replies command cs s | Inr r \<Rightarrow> fst r # run_replies command cs (snd r))"

lemma committed_Inl [simp]: "command c s = Inl e \<Longrightarrow> committed command c s = s"
  by (simp add: committed_def)

lemma committed_Inr [simp]: "command c s = Inr (a, s') \<Longrightarrow> committed command c s = s'"
  by (simp add: committed_def)

lemma run_commands_append: "run_commands command (cs @ ds) s = run_commands command ds (run_commands command cs s)"
  by (induction cs arbitrary: s) simp_all

locale guarded_store =
  fixes command :: "('c, 's, 'e, 'a) transaction" and initial :: 's and inv :: "'s \<Rightarrow> bool"
  assumes initial_inv: "inv initial"
    and command_inv: "inv s \<Longrightarrow> command c s = Inr (a, s') \<Longrightarrow> inv s'"
begin

lemma committed_inv: "inv s \<Longrightarrow> inv (committed command c s)"
  using command_inv by (cases "command c s") (auto simp: committed_def)

lemma run_inv_from: "inv s \<Longrightarrow> inv (run_commands command cs s)"
  by (induction cs arbitrary: s) (simp_all add: committed_inv)

lemma run_inv: "inv (run_commands command cs initial)"
  by (rule run_inv_from [OF initial_inv])

end

locale retry_safe_store = guarded_store command initial inv
  for command :: "('c, 's, 'e, 'a) transaction" and initial :: 's and inv :: "'s \<Rightarrow> bool" +
  assumes command_repeat: "inv s \<Longrightarrow> command c s = Inr (a, s') \<Longrightarrow> \<exists>b. command c s' = Inr (b, s')"
begin

lemma committed_repeat: "inv s \<Longrightarrow> committed command c (committed command c s) = committed command c s"
  using command_repeat by (cases "command c s") (fastforce simp: committed_def split: sum.splits)+

lemma run_replicate: "inv s \<Longrightarrow> run_commands command (replicate (Suc n) c) s = committed command c s"
  by (induction n arbitrary: s) (simp_all add: committed_inv committed_repeat)

lemma run_redelivered_from:
  "inv s \<Longrightarrow> run_commands command (concat (map (\<lambda>(c, n). replicate (Suc n) c) deliveries)) s
     = run_commands command (map fst deliveries) s"
proof (induction deliveries arbitrary: s)
  case (Cons d ds)
  obtain c n where d: "d = (c, n)" by fastforce
  have "run_commands command (replicate (Suc n) c) s = committed command c s" by (rule run_replicate [OF Cons.prems])
  then show ?case using Cons.IH [OF committed_inv [OF Cons.prems]] by (simp add: d run_commands_append del: replicate_Suc)
qed simp

lemma run_redelivered:
  "run_commands command (concat (map (\<lambda>(c, n). replicate (Suc n) c) deliveries)) initial
     = run_commands command (map fst deliveries) initial"
  by (rule run_redelivered_from [OF initial_inv])

end

locale fires_once_store = guarded_store command initial inv
  for command :: "('c, 's, 'e, 'a) transaction" and initial :: 's and inv :: "'s \<Rightarrow> bool" +
  fixes fires :: "'a \<Rightarrow> bool" and spent :: "'s \<Rightarrow> bool"
  assumes fires_spends: "inv s \<Longrightarrow> command c s = Inr (a, s') \<Longrightarrow> fires a \<Longrightarrow> \<not> spent s \<and> spent s'"
    and spent_stays: "inv s \<Longrightarrow> command c s = Inr (a, s') \<Longrightarrow> spent s \<Longrightarrow> spent s'"
begin

lemma spent_never_fires: "inv s \<Longrightarrow> spent s \<Longrightarrow> filter fires (run_replies command cs s) = []"
proof (induction cs arbitrary: s)
  case (Cons c cs)
  show ?case
  proof (cases "command c s")
    case (Inr r)
    obtain a s' where r: "r = (a, s')" by fastforce
    with Inr Cons.prems have "\<not> fires a" "spent s'" "inv s'" using fires_spends spent_stays command_inv by blast+
    with Cons.IH Inr r show ?thesis by simp
  qed (use Cons in simp)
qed simp

lemma fires_once_from: "inv s \<Longrightarrow> length (filter fires (run_replies command cs s)) \<le> 1"
proof (induction cs arbitrary: s)
  case (Cons c cs)
  show ?case
  proof (cases "command c s")
    case (Inr r)
    obtain a s' where r: "r = (a, s')" by fastforce
    have "inv s'" using Inr Cons.prems r command_inv by blast
    moreover have "spent s'" if "fires a" using Inr Cons.prems r that fires_spends by blast
    ultimately show ?thesis using Cons.IH Inr r spent_never_fires by simp
  qed (use Cons in simp)
qed simp

lemma fires_once: "length (filter fires (run_replies command cs initial)) \<le> 1"
  by (rule fires_once_from [OF initial_inv])

end

section \<open>Tables\<close>

text \<open>Rows are found by a key; facts on looking rows up and on updating them in place.\<close>

lemma find_map: "find P (map f xs) = map_option f (find (P \<circ> f) xs)"
  by (induction xs) auto

lemma find_append: "find P (xs @ ys) = (case find P xs of None \<Rightarrow> find P ys | Some x \<Rightarrow> Some x)"
  by (induction xs) auto

lemma find_SomeD: "find P xs = Some x \<Longrightarrow> x \<in> set xs \<and> P x"
  by (induction xs) (auto split: if_splits)

lemma distinct_key_eq: "distinct (map k xs) \<Longrightarrow> x \<in> set xs \<Longrightarrow> y \<in> set xs \<Longrightarrow> k x = k y \<Longrightarrow> x = y"
  by (auto simp: distinct_map dest: inj_onD)

lemma find_distinct_key:
  assumes "distinct (map k xs)" and "x \<in> set xs"
  shows "find (\<lambda>y. k y = k x) xs = Some x"
proof (cases "find (\<lambda>y. k y = k x) xs")
  case None
  then show ?thesis using assms(2) by (auto simp: find_None_iff)
next
  case (Some y)
  then show ?thesis using find_SomeD [OF Some] assms distinct_key_eq by metis
qed

end
