(* ===== verification/Execution_Store_Guarantees.thy ===== *)
theory Execution_Store_Guarantees
  imports Execution_Store Guarded_Store
begin

text \<open>
  The execution store refines the execution machine: the invariant of every reachable store ties each
  row to a run of the machine over the logged events, so reading, replaying and verifying the history
  agree. Repeating an operation has no further effect.
\<close>

section \<open>The machine behind the store\<close>

definition execution_step :: "host \<Rightarrow> execution_snapshot \<Rightarrow> execution_event \<Rightarrow> (string, execution_snapshot) result" where
  "execution_step h s e = bind_result (applyExecutionAuthorityEvent h s e) (\<lambda>r. Inr (tr_snapshot r))"

lemma apply_keeps:
  assumes "applyExecutionAuthorityEvent h s e = Inr r"
  shows "es_version (tr_snapshot r) = es_version s + 1 \<and> es_createdAt (tr_snapshot r) = es_createdAt s
    \<and> es_executionId (tr_snapshot r) = es_executionId s \<and> es_admissionId (tr_snapshot r) = es_admissionId s
    \<and> es_identity (tr_snapshot r) = es_identity s \<and> es_authorityDigest (tr_snapshot r) = es_authorityDigest s"
proof -
  have occ: "normalizeInstant h (ev_occurredAt e) ''Event time'' = Inr (ev_occurredAt e)" using apply_Inr(3) [OF assms] by blast
  from apply_Inr(1) [OF assms] occ show ?thesis by (cases rule: apply_kind_cases) simp_all
qed

interpretation exec_machine: event_machine "createExecutionAuthoritySnapshot h" "execution_step h" es_version es_createdAt for h
proof
  show "createExecutionAuthoritySnapshot h i = Inr s \<Longrightarrow> es_version s = 1" for i s using create_Inr by blast
  show "execution_step h s e = Inr t \<Longrightarrow> es_version t = es_version s + 1" for s e t
    using apply_keeps by (auto simp: execution_step_def)
  show "execution_step h s e = Inr t \<Longrightarrow> es_createdAt t = es_createdAt s" for s e t
    using apply_keeps by (auto simp: execution_step_def)
qed

lemma execution_iff_replay:
  "execution h i es s \<longleftrightarrow> replay (createExecutionAuthoritySnapshot h) (execution_step h) i es = Inr s"
proof
  show "execution h i es s \<Longrightarrow> replay (createExecutionAuthoritySnapshot h) (execution_step h) i es = Inr s"
    by (induction rule: execution.induct) (simp_all add: replay_snoc execution_step_def)
next
  show "replay (createExecutionAuthoritySnapshot h) (execution_step h) i es = Inr s \<Longrightarrow> execution h i es s"
  proof (induction es arbitrary: s rule: rev_induct)
    case Nil
    then show ?case by (simp add: execution.created)
  next
    case (snoc e es)
    then show ?case by (auto simp: replay_snoc execution_step_def intro: execution.event)
  qed
qed

section \<open>The invariant\<close>

inductive execution_store_reachable :: "host \<Rightarrow> execution_store \<Rightarrow> bool" for h where
  empty: "execution_store_reachable h empty_execution_store"
| create: "execution_store_reachable h st \<Longrightarrow> store_create h st i = Inr (d, st') \<Longrightarrow> execution_store_reachable h st'"
| step: "execution_store_reachable h st \<Longrightarrow> store_apply h st i e = Inr (d, st') \<Longrightarrow> execution_store_reachable h st'"

definition history_ok :: "host \<Rightarrow> execution_event_row list \<Rightarrow> execution_event list \<Rightarrow> execution_snapshot \<Rightarrow> bool" where
  "history_ok h rows es s \<longleftrightarrow> map xe_event rows = map Some (admitted_event s # map SeEvent es)
     \<and> (\<exists>rs. verify_history h None rows = Inr rs \<and> er_toState (last rs) = es_state s)"

definition row_ok :: "host \<Rightarrow> execution_store \<Rightarrow> execution_row \<Rightarrow> bool" where
  "row_ok h st row \<longleftrightarrow> (\<exists>i es s. execution h i es s \<and> row = row_of_snapshot h (xr_creationDigest row) s
     \<and> history_ok h (rows_of st (xr_executionId row)) es s)"

definition store_inv :: "host \<Rightarrow> execution_store \<Rightarrow> bool" where
  "store_inv h st \<longleftrightarrow> distinct (map xr_executionId (xs_rows st)) \<and> (\<forall>row \<in> set (xs_rows st). row_ok h st row)
     \<and> (\<forall>ev \<in> set (xs_events st). xe_executionId ev \<in> xr_executionId ` set (xs_rows st))"

lemma verify_history_records:
  "verify_history h p rows = Inr rs \<Longrightarrow> map (Some \<circ> er_event) rs = map xe_event rows \<and> map er_toState rs = map xe_toState rows"
  by (induction rows arbitrary: p rs) (auto split: option.splits if_splits)

lemma verify_history_snoc:
  assumes "verify_history h p rows = Inr rs" and "xe_event row = Some e"
    and "xe_eventDigest row = sha256Digest h (stored_event_json e)"
    and "xe_transitionDigest row = transition_digest h e (xe_fromState row) (xe_toState row) (xe_requestCancellation row)"
    and "xe_occurredAt row = stored_event_time e"
    and "xe_fromState row = (if rows = [] then p else Some (xe_toState (last rows)))"
  shows "\<exists>r. verify_history h p (rows @ [row]) = Inr (rs @ [r]) \<and> er_toState r = xe_toState row"
  using assms by (induction rows arbitrary: p rs) (auto split: option.splits if_splits)

lemma snapshotFromRow_row: "snapshotFromRow h (row_of_snapshot h c s) = Inr s"
  by (simp add: snapshotFromRow_def row_of_snapshot_def)

lemma find_row_Some:
  "find_row st i = Some row \<Longrightarrow> row \<in> set (xs_rows st) \<and> xr_executionId row = i"
  by (auto simp: find_row_def find_Some_iff in_set_conv_nth)

lemma find_row_None: "find_row st i = None \<longleftrightarrow> i \<notin> xr_executionId ` set (xs_rows st)"
  by (auto simp: find_row_def find_None_iff)

lemma row_ok_load:
  assumes "row_ok h st row" shows "\<exists>s. snapshotFromRow h row = Inr s \<and> es_executionId s = xr_executionId row"
proof -
  obtain s where eq: "row = row_of_snapshot h (xr_creationDigest row) s" using assms unfolding row_ok_def by blast
  have "snapshotFromRow h row = Inr s" using snapshotFromRow_row eq by metis
  moreover have "es_executionId s = xr_executionId row" using arg_cong [OF eq, of xr_executionId] by (simp add: row_of_snapshot_def)
  ultimately show ?thesis by blast
qed

lemma insert_event_Inr:
  "insert_event h st i e from to c = Inr st' \<Longrightarrow>
     st' = st\<lparr>xs_events := xs_events st @
        [\<lparr>xe_sequence = xs_next st, xe_executionId = i, xe_eventId = stored_event_id e,
          xe_eventDigest = sha256Digest h (stored_event_json e), xe_transitionDigest = transition_digest h e from to c,
          xe_event = Some e, xe_fromState = from, xe_toState = to, xe_requestCancellation = c,
          xe_occurredAt = stored_event_time e\<rparr>], xs_next := Suc (xs_next st)\<rparr>"
  by (simp add: insert_event_def split: if_splits)

text \<open>Appending an event of one execution leaves the history of every other execution as it was.\<close>

lemma row_ok_other:
  assumes "row_ok h st row" and "insert_event h st1 i e from to c = Inr st'" and "xs_events st1 = xs_events st"
    and "xr_executionId row \<noteq> i"
  shows "row_ok h st' row"
proof -
  have "rows_of st' (xr_executionId row) = rows_of st (xr_executionId row)"
    using insert_event_Inr [OF assms(2)] assms(3,4) by (simp add: rows_of_def)
  then show ?thesis using assms(1) by (simp add: row_ok_def)
qed

lemma history_ok_event:
  assumes "history_ok h rows es s" and "applyExecutionAuthorityEvent h s e = Inr r"
    and "row = \<lparr>xe_sequence = n, xe_executionId = i, xe_eventId = stored_event_id (SeEvent e),
          xe_eventDigest = sha256Digest h (stored_event_json (SeEvent e)),
          xe_transitionDigest = transition_digest h (SeEvent e) (Some (es_state s)) (es_state (tr_snapshot r)) c,
          xe_event = Some (SeEvent e), xe_fromState = Some (es_state s), xe_toState = es_state (tr_snapshot r),
          xe_requestCancellation = c, xe_occurredAt = stored_event_time (SeEvent e)\<rparr>"
  shows "history_ok h (rows @ [row]) (es @ [e]) (tr_snapshot r)"
proof -
  obtain rs where ev: "map xe_event rows = map Some (admitted_event s # map SeEvent es)"
    and rs: "verify_history h None rows = Inr rs" "er_toState (last rs) = es_state s"
    using assms(1) unfolding history_ok_def by blast
  have ne: "rows \<noteq> []" using ev by auto
  have len: "map er_toState rs = map xe_toState rows" using verify_history_records [OF rs(1)] by blast
  then have "rs \<noteq> []" using ne by auto
  then have "xe_toState (last rows) = er_toState (last rs)" using len ne by (metis last_map)
  then obtain r' where "verify_history h None (rows @ [row]) = Inr (rs @ [r'])" "er_toState r' = xe_toState row"
    using verify_history_snoc [OF rs(1), of row "SeEvent e"] rs(2) ne by (auto simp: assms(3))
  moreover have "admitted_event (tr_snapshot r) = admitted_event s"
    using apply_keeps [OF assms(2)] by (simp add: admitted_event_def)
  ultimately show ?thesis using ev by (auto simp: history_ok_def assms(3))
qed

lemma store_inv_create:
  assumes "store_inv h st" and "store_create h st i = Inr (d, st')"
  shows "store_inv h st'"
proof -
  obtain s where s: "createExecutionAuthoritySnapshot h i = Inr s"
    using assms(2) by (auto simp: store_create_def)
  let ?row = "row_of_snapshot h (sha256Digest h (snapshot_json s)) s"
  let ?st1 = "st\<lparr>xs_rows := xs_rows st @ [?row]\<rparr>"
  show ?thesis
  proof (cases "find (\<lambda>r. xr_executionId r = es_executionId s \<or> xr_admissionId r = es_admissionId s) (xs_rows st)")
    case (Some prior)
    with assms s show ?thesis by (auto simp: store_create_def split: if_splits)
  next
    case None
    with assms(2) s have ins: "insert_event h ?st1 (es_executionId s) (admitted_event s) None (es_state s) False = Inr st'"
      by (auto simp: store_create_def)
    have new: "es_executionId s \<notin> xr_executionId ` set (xs_rows st)" using None by (auto simp: find_None_iff)
    note st' = insert_event_Inr [OF ins]
    have old: "row_ok h st' row" if "row \<in> set (xs_rows st)" for row
    proof (rule row_ok_other [OF _ ins])
      show "row_ok h st row" using assms(1) that unfolding store_inv_def by blast
      show "xs_events ?st1 = xs_events st" by simp
      show "xr_executionId row \<noteq> es_executionId s" using new that by (metis imageI)
    qed
    have "rows_of st (es_executionId s) = []"
      using assms(1) new unfolding rows_of_def store_inv_def filter_empty_conv by metis
    then have "rows_of st' (es_executionId s) = [\<lparr>xe_sequence = xs_next st, xe_executionId = es_executionId s,
        xe_eventId = stored_event_id (admitted_event s), xe_eventDigest = sha256Digest h (stored_event_json (admitted_event s)),
        xe_transitionDigest = transition_digest h (admitted_event s) None (es_state s) False, xe_event = Some (admitted_event s),
        xe_fromState = None, xe_toState = es_state s, xe_requestCancellation = False, xe_occurredAt = stored_event_time (admitted_event s)\<rparr>]"
      by (simp add: st' rows_of_def)
    then have "history_ok h (rows_of st' (es_executionId s)) [] s" by (simp add: history_ok_def)
    then have "row_ok h st' ?row"
      using execution.created [OF s] unfolding row_ok_def by (intro exI [of _ i] exI [of _ "[]"] exI [of _ s]) (simp add: row_of_snapshot_def)
    with old new assms(1) show ?thesis by (auto simp: store_inv_def st' row_of_snapshot_def)
  qed
qed

lemma update_row_Inr:
  assumes "update_row h st i v s = Inr st'"
  shows "st' = st\<lparr>xs_rows := map (\<lambda>r. if xr_executionId r = i \<and> xr_version r = v
          then set_columns h s r else r) (xs_rows st)\<rparr>"
  using assms by (simp add: update_row_def split: if_splits)

text \<open>An accepted event rewrites the row of its execution and appends one event; nothing else changes.\<close>

lemma store_apply_Applied:
  assumes "store_apply h st i e = Inr ((Applied, s', c), st')"
  obtains row s r st1 where "find_row st i = Some row" "snapshotFromRow h row = Inr s"
    "applyExecutionAuthorityEvent h s e = Inr r" "tr_snapshot r = s'" "tr_requestCancellation r = c"
    "update_row h st i (es_version s) s' = Inr st1"
    "insert_event h st1 i (SeEvent e) (Some (es_state s)) (es_state s') c = Inr st'"
  using assms by (auto simp: store_apply_def loadWithinTransaction_def split: option.splits if_splits)

lemma store_apply_ApplyDuplicate:
  "store_apply h st i e = Inr ((ApplyDuplicate, s', c), st') \<Longrightarrow> st' = st"
  by (auto simp: store_apply_def loadWithinTransaction_def split: option.splits if_splits)

lemma updated_row:
  assumes "applyExecutionAuthorityEvent h s e = Inr r" and "s' = tr_snapshot r"
  shows "set_columns h s' (row_of_snapshot h c s) = row_of_snapshot h c s'"
  using apply_keeps [OF assms(1)] by (simp add: row_of_snapshot_def set_columns_def assms(2))

lemma row_ok_run:
  assumes "row_ok h st row" and "snapshotFromRow h row = Inr s"
  obtains i es where "execution h i es s" "row = row_of_snapshot h (xr_creationDigest row) s"
    "history_ok h (rows_of st (xr_executionId row)) es s"
proof -
  obtain i es t where *: "execution h i es t" "row = row_of_snapshot h (xr_creationDigest row) t"
    "history_ok h (rows_of st (xr_executionId row)) es t" using assms(1) unfolding row_ok_def by blast
  have "snapshotFromRow h row = Inr t" using snapshotFromRow_row *(2) by metis
  then have "t = s" using assms(2) by simp
  with * that show thesis by blast
qed

lemma snapshotFromRow_version: "snapshotFromRow h row = Inr s \<Longrightarrow> xr_version row = es_version s"
  by (simp add: snapshotFromRow_def split: option.splits if_splits)

lemma set_columns_load:
  assumes "snapshotFromRow h row = Inr s" and "applyExecutionAuthorityEvent h s e = Inr r"
  shows "snapshotFromRow h (set_columns h (tr_snapshot r) row) = Inr (tr_snapshot r)"
  using assms(1) apply_keeps [OF assms(2)] by (simp add: snapshotFromRow_def set_columns_def split: option.splits if_splits)

lemma find_row_update:
  assumes "update_row h st i v s = Inr st'" and "find_row st i = Some row" and "xr_version row = v"
  shows "find_row st' i = Some (set_columns h s row)"
proof -
  let ?f = "\<lambda>r. if xr_executionId r = i \<and> xr_version r = v then set_columns h s r else r"
  have "xr_executionId (?f r) = xr_executionId r" for r by (simp add: set_columns_def)
  then have "(\<lambda>r. xr_executionId r = i) \<circ> ?f = (\<lambda>r. xr_executionId r = i)" by (simp add: comp_def)
  moreover have "xr_executionId row = i" using find_row_Some [OF assms(2)] by blast
  ultimately show ?thesis using assms(2,3) by (simp add: update_row_Inr [OF assms(1)] find_row_def find_map)
qed

lemma applied_row_ok:
  assumes "row_ok h st row" and "snapshotFromRow h row = Inr s" and "xr_executionId row = i"
    and step: "applyExecutionAuthorityEvent h s e = Inr r" and s': "s' = tr_snapshot r"
    and "xs_events st1 = xs_events st"
    and ins: "insert_event h st1 i (SeEvent e) (Some (es_state s)) (es_state s') c = Inr st'"
  shows "row_ok h st' (set_columns h s' row)" (is "row_ok h st' ?row'")
proof -
  obtain j es where run: "execution h j es s" and row: "row = row_of_snapshot h (xr_creationDigest row) s"
    and hist: "history_ok h (rows_of st (xr_executionId row)) es s"
    using row_ok_run [OF assms(1,2)] by blast
  have row': "?row' = row_of_snapshot h (xr_creationDigest row) s'"
    using updated_row [OF step s', of "xr_creationDigest row"] row by metis
  have digest: "xr_creationDigest ?row' = xr_creationDigest row" and i: "xr_executionId ?row' = i" using assms(3) by (simp_all add: set_columns_def)
  have "rows_of st' i = rows_of st i @ [\<lparr>xe_sequence = xs_next st1, xe_executionId = i, xe_eventId = stored_event_id (SeEvent e),
          xe_eventDigest = sha256Digest h (stored_event_json (SeEvent e)),
          xe_transitionDigest = transition_digest h (SeEvent e) (Some (es_state s)) (es_state s') c,
          xe_event = Some (SeEvent e), xe_fromState = Some (es_state s), xe_toState = es_state s',
          xe_requestCancellation = c, xe_occurredAt = stored_event_time (SeEvent e)\<rparr>]"
    using insert_event_Inr [OF ins] assms(6) by (simp add: rows_of_def)
  then have "history_ok h (rows_of st' i) (es @ [e]) s'"
    using history_ok_event [OF hist step refl] by (simp add: s' assms(3))
  moreover have "execution h j (es @ [e]) s'" using execution.event [OF run step] by (simp add: s')
  ultimately show ?thesis unfolding row_ok_def digest i using row' by blast
qed

lemma store_inv_apply:
  assumes inv: "store_inv h st" and "store_apply h st i e = Inr ((d, s', c), st')"
  shows "store_inv h st'"
proof (cases d)
  case ApplyDuplicate
  then show ?thesis using assms store_apply_ApplyDuplicate by blast
next
  case Applied
  obtain row s r st1 where row: "find_row st i = Some row" "snapshotFromRow h row = Inr s"
    and step: "applyExecutionAuthorityEvent h s e = Inr r" "tr_snapshot r = s'"
    and upd: "update_row h st i (es_version s) s' = Inr st1"
    and ins: "insert_event h st1 i (SeEvent e) (Some (es_state s)) (es_state s') c = Inr st'"
    using store_apply_Applied assms(2) Applied by metis
  note st1 = update_row_Inr [OF upd] and st' = insert_event_Inr [OF ins]
  have ev: "xs_events st1 = xs_events st" by (simp add: st1)
  have ids: "map xr_executionId (xs_rows st') = map xr_executionId (xs_rows st)"
    by (simp add: st' st1 comp_def set_columns_def if_distrib [of xr_executionId] cong: if_cong)
  have rows: "xs_rows st' = map (\<lambda>r. if xr_executionId r = i \<and> xr_version r = es_version s then set_columns h s' r else r) (xs_rows st)"
    by (simp add: st' st1)
  have "row_ok h st' row'" if mem: "row' \<in> set (xs_rows st')" for row'
  proof -
    obtain old where old: "old \<in> set (xs_rows st)" and row': "row' = (if xr_executionId old = i \<and> xr_version old = es_version s
          then set_columns h s' old else old)"
      by (rule imageE [OF mem [unfolded rows set_map]])
    have ok: "row_ok h st old" using inv old unfolding store_inv_def by blast
    show ?thesis
    proof (cases "xr_executionId old = i")
      case False
      then show ?thesis using row_ok_other [OF ok ins ev] row' by simp
    next
      case True
      then have "old = row" using find_row_Some [OF row(1)] old inv unfolding store_inv_def by (metis eq_key_imp_eq_value map_of_eq_Some_iff distinct_map inj_onD)
      moreover have "xr_version row = es_version s" using row(2) by (rule snapshotFromRow_version)
      ultimately show ?thesis using applied_row_ok [OF ok _ True step(1) step(2) [symmetric] ev ins] row(2) row' True by simp
    qed
  qed
  moreover have "xe_executionId ev \<in> xr_executionId ` set (xs_rows st')" if "ev \<in> set (xs_events st')" for ev
  proof -
    have "xr_executionId ` set (xs_rows st') = xr_executionId ` set (xs_rows st)" using ids by (metis list.set_map)
    moreover have "i \<in> xr_executionId ` set (xs_rows st)" using find_row_Some [OF row(1)] by blast
    moreover have "ev \<in> set (xs_events st) \<or> xe_executionId ev = i" using that unfolding st' by (auto simp: ev)
    ultimately show ?thesis using inv unfolding store_inv_def by blast
  qed
  ultimately show ?thesis using inv ids unfolding store_inv_def by auto
qed

lemma reachable_store_inv: "execution_store_reachable h st \<Longrightarrow> store_inv h st"
proof (induction rule: execution_store_reachable.induct)
  case empty
  then show ?case by (simp add: store_inv_def empty_execution_store_def)
next
  case (create st i d st')
  then show ?case using store_inv_create by blast
next
  case (step st i e d st')
  then show ?case using store_inv_apply by (metis prod.exhaust)
qed

text \<open>
  C27. The stored snapshot is the machine's state: in every store reached by creations and events,
  whatever execution can be loaded is what the execution machine gives for some accepted creation and
  the events logged for it, in their order, and reading the verified history succeeds with exactly that
  log: the admission first, then those events.
\<close>

theorem stored_execution_is_replay:
  assumes "execution_store_reachable h st" and "load h st i = Inr (Some s)"
  shows "\<exists>c es records. execution h c es s \<and> store_events h st i = Inr records
    \<and> map er_event records = admitted_event s # map SeEvent es \<and> es_version s = 1 + int (length es)"
proof -
  obtain row where row: "find_row st i = Some row" "snapshotFromRow h row = Inr s"
    using assms(2) by (auto simp: load_def split: option.splits)
  have "row_ok h st row" using reachable_store_inv [OF assms(1)] find_row_Some [OF row(1)] unfolding store_inv_def by blast
  then obtain c es where run: "execution h c es s" and hist: "history_ok h (rows_of st i) es s"
    using row_ok_run row(2) find_row_Some [OF row(1)] by metis
  from hist obtain rs where rs: "verify_history h None (rows_of st i) = Inr rs" "er_toState (last rs) = es_state s"
    and ev: "map xe_event (rows_of st i) = map Some (admitted_event s # map SeEvent es)" unfolding history_ok_def by blast
  have "map Some (map er_event rs) = map Some (admitted_event s # map SeEvent es)"
    using verify_history_records [OF rs(1)] ev by (simp add: comp_def)
  then have "map er_event rs = admitted_event s # map SeEvent es" using inj_map_eq_map [of Some] by (metis inj_Some)
  moreover have "store_events h st i = Inr rs" using rs assms(2) by (simp add: store_events_def)
  moreover have "es_version s = 1 + int (length es)"
    using exec_machine.replay_version run unfolding execution_iff_replay by blast
  ultimately show ?thesis using run by (intro exI conjI)
qed

text \<open>
  Delivering an event twice is delivering it once: after an event was applied, the same event
  is answered as a duplicate with the same snapshot and the same cancellation request, and the store does
  not change.
\<close>

lemma store_apply_twice:
  assumes "store_apply h st i e = Inr ((Applied, s, c), st')"
  shows "store_apply h st' i e = Inr ((ApplyDuplicate, s, c), st')"
proof -
  obtain row s0 r st1 where row: "find_row st i = Some row" "snapshotFromRow h row = Inr s0"
    and step: "applyExecutionAuthorityEvent h s0 e = Inr r" "tr_snapshot r = s"
    and upd: "update_row h st i (es_version s0) s = Inr st1"
    and ins: "insert_event h st1 i (SeEvent e) (Some (es_state s0)) (es_state s) c = Inr st'"
    using store_apply_Applied assms by metis
  note st1 = update_row_Inr [OF upd] and st' = insert_event_Inr [OF ins]
  have ev: "find (\<lambda>r. xe_executionId r = i \<and> xe_eventId r = ev_eventId e) (xs_events st1) = None"
    using ins by (simp add: insert_event_def find_None_iff list_ex_iff split: if_splits)
  have "xr_version row = es_version s0" using row(2) by (rule snapshotFromRow_version)
  then have "find_row st' i = Some (set_columns h s row)"
    using find_row_update [OF upd row(1)] by (simp add: st' find_row_def)
  then have "loadWithinTransaction h st' i = Inr s"
    using set_columns_load [OF row(2) step(1)] step(2) by (simp add: loadWithinTransaction_def)
  with assms ev show ?thesis by (auto simp: store_apply_def st' find_append)
qed

section \<open>Witnesses\<close>

lemma sample_texts_clean:
  "list_all (\<lambda>t. \<not> secret_text t)
    [''execution:1'', ''admission:1'', ''tenant:1'', ''node:1'', ''project:1'', ''job:1'', ''attempt:1'', ''digest:1'', ''digest:2'',
     ''2025-06-01T00:10:00.000Z'', ''2025-06-01T00:12:00.000Z'', ''2026-01-01T00:00:00.000Z'', ''2025-06-01T00:18:00.000Z'', ''2025-06-01T00:15:00.000Z'',
     ''event:1'', ''start'']"
  by (rule plain_texts_clean) code_simp

lemma sample_keys_clean:
  "list_all (\<lambda>k. \<not> keyCarriesSecret k)
    [''executionId'', ''admissionId'', ''identity'', ''tenantId'', ''nodeId'', ''projectId'', ''jobId'', ''attemptId'',
     ''operationDigest'', ''authorityDigest'', ''deadlineSources'', ''admittedAt'', ''ceilingDurationSeconds'',
     ''authorityDurationSeconds'', ''authorityExpiresAt'', ''leaseExpiresAt'', ''approvalExpiresAt'', ''reservationExpiresAt'',
     ''leaseEpoch'', ''createdAt'', ''eventId'', ''occurredAt'', ''kind'']"
  by (rule plain_keys_clean) code_simp

lemma sample_creation_clean:
  "assertNoSecretMaterial (creation_json sample_creation) l = Inr ()"
  using sample_texts_clean sample_keys_clean
  by (simp add: assertNoSecretMaterial_def containsSecretMaterial_def creation_json_def sample_creation_def identity_json_def
      sources_json_def sample_sources_def num_json_def opt_field_def)

lemma sample_start_clean:
  "assertNoSecretMaterial (stored_event_json (SeEvent sample_start)) l = Inr ()"
  using sample_texts_clean sample_keys_clean
  by (simp add: assertNoSecretMaterial_def containsSecretMaterial_def sample_start_def)

definition sample_store :: execution_store where
  "sample_store = snd (projr (store_create sample_host empty_execution_store sample_creation))"

lemma sample_store_created: "store_create sample_host empty_execution_store sample_creation = Inr (Created, sample_store)"
proof -
  obtain st where "store_create sample_host empty_execution_store sample_creation = Inr (Created, st)"
    by (simp add: store_create_def sample_creation_clean sample_created empty_execution_store_def insert_event_def)
  then show ?thesis by (simp add: sample_store_def)
qed

lemma sample_store_rows: "xs_rows sample_store = [row_of_snapshot sample_host (sha256Digest sample_host (snapshot_json sample_snapshot)) sample_snapshot]"
  by (simp add: sample_store_def lift_throw_def store_create_def sample_creation_clean sample_created empty_execution_store_def insert_event_def)

lemma sample_store_loaded: "load sample_host sample_store ''execution:1'' = Inr (Some sample_snapshot)"
proof -
  have "xr_executionId (row_of_snapshot sample_host c sample_snapshot) = ''execution:1''" for c
    by (simp add: row_of_snapshot_def sample_snapshot_def)
  then show ?thesis by (simp add: load_def find_row_def sample_store_rows snapshotFromRow_row)
qed

lemma sample_store_reachable: "execution_store_reachable sample_host sample_store"
  by (rule execution_store_reachable.create [OF execution_store_reachable.empty sample_store_created])

theorem stored_execution_is_replay_witness:
  "\<exists>c es records. execution sample_host c es sample_snapshot
    \<and> store_events sample_host sample_store ''execution:1'' = Inr records
    \<and> map er_event records = admitted_event sample_snapshot # map SeEvent es \<and> es_version sample_snapshot = 1 + int (length es)"
  by (rule stored_execution_is_replay [OF sample_store_reachable sample_store_loaded])

lemma sample_store_applied:
  "\<exists>st. store_apply sample_host sample_store ''execution:1'' sample_start = Inr ((Applied, sample_running, False), st)"
proof -
  have row: "xr_executionId (row_of_snapshot sample_host c sample_snapshot) = ''execution:1''"
    "xr_version (row_of_snapshot sample_host c sample_snapshot) = es_version sample_snapshot" for c
    by (simp_all add: row_of_snapshot_def sample_snapshot_def)
  have fresh: "\<forall>r \<in> set (xs_events sample_store). xe_eventId r \<noteq> ''event:1''"
    by (simp add: sample_store_def lift_throw_def store_create_def sample_creation_clean sample_created empty_execution_store_def insert_event_def
        admitted_event_def)
  have start: "ev_eventId sample_start = ''event:1''" "event_finite (ev_kind sample_start)" by (simp_all add: sample_start_def)
  have "find (\<lambda>r. xe_executionId r = ''execution:1'' \<and> xe_eventId r = ''event:1'') (xs_events sample_store) = None"
    using fresh by (auto simp: find_None_iff)
  moreover have "loadWithinTransaction sample_host sample_store ''execution:1'' = Inr sample_snapshot"
    by (simp add: loadWithinTransaction_def find_row_def sample_store_rows row snapshotFromRow_row)
  ultimately show ?thesis using fresh
    by (auto simp: store_apply_def sample_start_clean start sample_started update_row_def insert_event_def sample_store_rows row list_ex_iff
        simp del: stored_event_json.simps)
qed

end
