(* ===== verification/Effect_Claim.thy ===== *)
theory Effect_Claim
  imports Execution_Authority Policy_Evaluator
begin

text \<open>
  Claims on external effects: \<open>src/node-policy/v1/effect-claim.ts\<close>. A claim is created for one
  operation, receives a marker before the effect is fired, and is settled by evidence. Events are a
  datatype with exactly the fields of each kind, so the check that an event object has no other
  property (\<open>exactKeys\<close>) holds by construction; the same goes for markers.

  The identity of an effect has the fields of the execution it belongs to, which is what the claim
  store passes; it shares their record.
\<close>

section \<open>Data\<close>

datatype effect_claim_lifecycle = EcClaimed | EcExecuting | EcConfirmed | EcFailed | EcCancelled | EcAmbiguous

type_synonym effect_identity = execution_identity

record pre_effect_operation =
  po_tenantId :: string
  po_nodeId :: string
  po_projectId :: string
  po_jobId :: string
  po_attemptId :: string
  po_executorId :: string
  po_operationId :: string
  po_credentialRefs :: "string list"
  po_target :: normalized_target
  po_risk :: risk_class
  po_externalEffect :: bool
  po_estimatedDurationSeconds :: rat
  po_payloadDigest :: "string option"
  po_estimatedCostUsd :: "string option"

record pre_effect_marker =
  pm_schema :: string
  pm_markerId :: string
  pm_claimKey :: string
  pm_requestDigest :: string
  pm_operationDigest :: string
  pm_operation :: pre_effect_operation
  pm_authorityDigest :: string
  pm_effectiveDeadline :: string
  pm_markedAt :: string

record effect_claim_snapshot =
  ec_schema :: string
  ec_claimKey :: string
  ec_destinationIdempotencyKey :: string
  ec_executionId :: string
  ec_admissionId :: string
  ec_identity :: effect_identity
  ec_identityDigest :: string
  ec_authorityDigest :: string
  ec_effectiveDeadline :: string
  ec_state :: effect_claim_lifecycle
  ec_markerDigest :: "string option"
  ec_destinationReceiptDigest :: "string option"
  ec_nonExecutionEvidenceDigest :: "string option"
  ec_safeFailureCode :: "string option"
  ec_version :: int
  ec_createdAt :: string
  ec_updatedAt :: string

datatype ambiguity_reason = AmbRestart | AmbLostAck | AmbUnknownResult

datatype effect_claim_event_kind =
    CeMarkerCommitted string
  | CeAmbiguityRaised ambiguity_reason
  | CeConfirmed string
  | CeFailed string "string option"
  | CeCancelled

record effect_claim_event =
  ce_eventId :: string
  ce_occurredAt :: string
  ce_kind :: effect_claim_event_kind

datatype effect_recovery_action = ReEvaluateClaimed | MarkAmbiguous | AwaitEvidence | ReplayTerminal


section \<open>Checks and digests\<close>

definition canonicalInstant :: "host \<Rightarrow> string \<Rightarrow> string \<Rightarrow> (string, string) result" where
  "canonicalInstant h v label =
     (if \<not> zod_datetime h False v \<or> \<not> instant v then Inl (label @ '' must be canonical RFC 3339 UTC'') else Inr v)"

definition require_digest :: "string \<Rightarrow> string \<Rightarrow> (string, string) result" where
  "require_digest v label = (if \<not> digest_pattern v then Inl (label @ '' must be a SHA-256 digest'') else Inr v)"

definition safeToken :: "string \<Rightarrow> string \<Rightarrow> (string, string) result" where
  "safeToken v label =
     (if \<not> (3 \<le> length v \<and> length v \<le> 180 \<and> safe_id_pattern v) then Inl (label @ '' must be a safe identifier'') else Inr v)"

definition effect_identity_fields :: "effect_identity \<Rightarrow> (string \<times> json) list" where
  "effect_identity_fields i =
     [(''tenantId'', JStr (xi_tenantId i)), (''nodeId'', JStr (xi_nodeId i)), (''projectId'', JStr (xi_projectId i)),
      (''jobId'', JStr (xi_jobId i)), (''attemptId'', JStr (xi_attemptId i)), (''operationDigest'', JStr (xi_operationDigest i))]"

definition computeEffectClaimKey :: "host \<Rightarrow> effect_identity \<Rightarrow> string" where
  "computeEffectClaimKey h i =
     sha256Digest h (JObj ((''schema'', JStr ''control-room.effect-identity/v1'') # effect_identity_fields i))"

fun require_safe_tokens :: "(string \<times> string) list \<Rightarrow> (string, unit) result" where
  "require_safe_tokens [] = Inr ()"
| "require_safe_tokens ((label, v) # rest) = bind_result (safeToken v label) (\<lambda>_. require_safe_tokens rest)"

record effect_claim_creation =
  cn_executionId :: string
  cn_admissionId :: string
  cn_identity :: effect_identity
  cn_authorityDigest :: string
  cn_effectiveDeadline :: string
  cn_createdAt :: string

definition createEffectClaimSnapshot :: "host \<Rightarrow> effect_claim_creation \<Rightarrow> (string, effect_claim_snapshot) result" where
  "createEffectClaimSnapshot h i =
     bind_result (canonicalInstant h (cn_createdAt i) ''Claim time'') (\<lambda>created.
     bind_result (canonicalInstant h (cn_effectiveDeadline i) ''Effective deadline'') (\<lambda>deadline.
     guard_result (\<not> ms_leq (date_parse deadline) (date_parse created)) ''Expired authority cannot create an effect claim'' (
     bind_result (require_safe_tokens
       [(''executionId'', cn_executionId i), (''admissionId'', cn_admissionId i), (''tenantId'', xi_tenantId (cn_identity i)),
        (''nodeId'', xi_nodeId (cn_identity i)), (''projectId'', xi_projectId (cn_identity i)), (''jobId'', xi_jobId (cn_identity i)),
        (''attemptId'', xi_attemptId (cn_identity i)), (''operationDigest'', xi_operationDigest (cn_identity i))]) (\<lambda>_.
     bind_result (require_digest (xi_operationDigest (cn_identity i)) ''Operation digest'') (\<lambda>_.
     bind_result (require_digest (cn_authorityDigest i) ''Authority digest'') (\<lambda>_. Inr
       \<lparr>ec_schema = ''control-room.effect-claim/v1'', ec_claimKey = computeEffectClaimKey h (cn_identity i),
        ec_destinationIdempotencyKey = computeEffectClaimKey h (cn_identity i), ec_executionId = cn_executionId i,
        ec_admissionId = cn_admissionId i, ec_identity = cn_identity i,
        ec_identityDigest = sha256Digest h (JObj (effect_identity_fields (cn_identity i))),
        ec_authorityDigest = cn_authorityDigest i, ec_effectiveDeadline = deadline, ec_state = EcClaimed,
        ec_markerDigest = None, ec_destinationReceiptDigest = None, ec_nonExecutionEvidenceDigest = None,
        ec_safeFailureCode = None, ec_version = 1, ec_createdAt = created, ec_updatedAt = created\<rparr>))))))"


section \<open>The marker\<close>

definition pre_effect_operation_fields :: "pre_effect_operation \<Rightarrow> (string \<times> json) list" where
  "pre_effect_operation_fields o' =
     [(''tenantId'', JStr (po_tenantId o')), (''nodeId'', JStr (po_nodeId o')), (''projectId'', JStr (po_projectId o')),
      (''jobId'', JStr (po_jobId o')), (''attemptId'', JStr (po_attemptId o')), (''executorId'', JStr (po_executorId o')),
      (''operationId'', JStr (po_operationId o')), (''credentialRefs'', str_array (po_credentialRefs o')),
      (''target'', target_json (po_target o')), (''risk'', JStr (risk_text (po_risk o'))),
      (''externalEffect'', JBool (po_externalEffect o')),
      (''estimatedDurationSeconds'', JNum (po_estimatedDurationSeconds o'))]
     @ opt_field ''payloadDigest'' JStr (po_payloadDigest o')
     @ opt_field ''estimatedCostUsd'' JStr (po_estimatedCostUsd o')"

definition computePreEffectOperationDigest :: "host \<Rightarrow> pre_effect_operation \<Rightarrow> string" where
  "computePreEffectOperationDigest h o' = sha256Digest h (JObj (pre_effect_operation_fields o'))"

definition request_identity :: "local_policy_request \<Rightarrow> effect_identity" where
  "request_identity r = \<lparr>xi_tenantId = lr_tenantId r, xi_nodeId = lr_nodeId r, xi_projectId = lr_projectId r,
     xi_jobId = lr_jobId r, xi_attemptId = lr_attemptId r, xi_operationDigest = lr_operationDigest r\<rparr>"

definition NATIVE_START :: string where
  "NATIVE_START = ''harness.hermes.native.start''"

definition createPreEffectMarker ::
    "host \<Rightarrow> string \<Rightarrow> effect_claim_snapshot \<Rightarrow> local_policy_request \<Rightarrow> string \<Rightarrow> string \<Rightarrow> string \<Rightarrow> (string, pre_effect_marker) result" where
  "createPreEffectMarker h markerId claim request authorityDigest effectiveDeadline markedAt =
     guard_result (\<not> (lr_operationId request = NATIVE_START \<and> lr_payloadDigest request = None))
       ''Native pre-effect marker requires payload commitment'' (
     bind_result (canonicalInstant h markedAt ''Marker time'') (\<lambda>marked.
     guard_result (ec_state claim = EcClaimed) ''Only a claimed effect can receive its pre-effect marker'' (
     guard_result (\<not> ms_leq (date_parse (ec_effectiveDeadline claim)) (date_parse marked))
       ''Expired authority cannot receive a pre-effect marker'' (
     bind_result (safeToken markerId ''Marker ID'') (\<lambda>_.
     guard_result (\<not> (authorityDigest \<noteq> ec_authorityDigest claim \<or> effectiveDeadline \<noteq> ec_effectiveDeadline claim))
       ''Pre-effect authority binding mismatch'' (
     guard_result (\<not> (computeEffectClaimKey h (request_identity request) \<noteq> ec_claimKey claim
         \<or> computeNormalizedOperationDigest h request \<noteq> lr_operationDigest request \<or> \<not> lr_externalEffect request))
       ''Pre-effect operation binding mismatch'' (
     bind_result (case lr_payloadDigest request of None \<Rightarrow> Inr None
         | Some d \<Rightarrow> bind_result (require_digest d ''Payload digest'') (\<lambda>p. Inr (Some p))) (\<lambda>payload. Inr
       \<lparr>pm_schema = ''control-room.pre-effect-marker/v1'', pm_markerId = markerId, pm_claimKey = ec_claimKey claim,
        pm_requestDigest = sha256Digest h (request_json request), pm_operationDigest = lr_operationDigest request,
        pm_operation = \<lparr>po_tenantId = lr_tenantId request, po_nodeId = lr_nodeId request, po_projectId = lr_projectId request,
          po_jobId = lr_jobId request, po_attemptId = lr_attemptId request, po_executorId = lr_executorId request,
          po_operationId = lr_operationId request, po_credentialRefs = lr_credentialRefs request, po_target = lr_target request,
          po_risk = lr_risk request, po_externalEffect = True,
          po_estimatedDurationSeconds = lr_estimatedDurationSeconds request, po_payloadDigest = payload,
          po_estimatedCostUsd = lr_estimatedCostUsd request\<rparr>,
        pm_authorityDigest = authorityDigest, pm_effectiveDeadline = effectiveDeadline, pm_markedAt = marked\<rparr>))))))))"

definition marker_identity :: "pre_effect_marker \<Rightarrow> effect_identity" where
  "marker_identity m = \<lparr>xi_tenantId = po_tenantId (pm_operation m), xi_nodeId = po_nodeId (pm_operation m),
     xi_projectId = po_projectId (pm_operation m), xi_jobId = po_jobId (pm_operation m),
     xi_attemptId = po_attemptId (pm_operation m), xi_operationDigest = pm_operationDigest m\<rparr>"

definition validatePreEffectMarkerBinding :: "host \<Rightarrow> pre_effect_marker \<Rightarrow> effect_claim_snapshot \<Rightarrow> (string, unit) result" where
  "validatePreEffectMarkerBinding h m claim =
     guard_result (\<not> (po_operationId (pm_operation m) = NATIVE_START \<and> po_payloadDigest (pm_operation m) = None))
       ''Native pre-effect marker requires payload commitment'' (
     guard_result (opt_all digest_pattern (po_payloadDigest (pm_operation m))) ''Payload digest must be a SHA-256 digest'' (
     guard_result (pm_schema m = ''control-room.pre-effect-marker/v1'') ''Pre-effect marker schema is invalid'' (
     bind_result (safeToken (pm_markerId m) ''Marker ID'') (\<lambda>_.
     bind_result (require_digest (pm_claimKey m) ''Claim key'') (\<lambda>_.
     bind_result (require_digest (pm_requestDigest m) ''Request digest'') (\<lambda>_.
     bind_result (require_digest (pm_operationDigest m) ''Operation digest'') (\<lambda>_.
     bind_result (require_digest (pm_authorityDigest m) ''Authority digest'') (\<lambda>_.
     bind_result (canonicalInstant h (pm_markedAt m) ''Marker time'') (\<lambda>marked.
     bind_result (canonicalInstant h (pm_effectiveDeadline m) ''Effective deadline'') (\<lambda>_.
     guard_result (\<not> (ec_state claim \<noteq> EcClaimed \<or> ec_markerDigest claim \<noteq> None))
       ''Only an unmarked claimed effect may receive a marker'' (
     guard_result (\<not> ms_leq (date_parse (ec_effectiveDeadline claim)) (date_parse marked)) ''Expired effect claim cannot execute'' (
     guard_result (\<not> (pm_claimKey m \<noteq> ec_claimKey claim \<or> \<not> po_externalEffect (pm_operation m)
         \<or> pm_operationDigest m \<noteq> xi_operationDigest (ec_identity claim)
         \<or> computePreEffectOperationDigest h (pm_operation m) \<noteq> pm_operationDigest m
         \<or> computeEffectClaimKey h (marker_identity m) \<noteq> ec_claimKey claim
         \<or> pm_authorityDigest m \<noteq> ec_authorityDigest claim \<or> pm_effectiveDeadline m \<noteq> ec_effectiveDeadline claim))
       ''Pre-effect marker binding mismatch'' (Inr ())))))))))))))"


section \<open>Events\<close>

definition claim_transitioned ::
    "host \<Rightarrow> effect_claim_snapshot \<Rightarrow> effect_claim_event \<Rightarrow> effect_claim_lifecycle
     \<Rightarrow> (effect_claim_snapshot \<Rightarrow> effect_claim_snapshot) \<Rightarrow> (string, effect_claim_snapshot) result" where
  "claim_transitioned h s e st extra =
     bind_result (canonicalInstant h (ce_occurredAt e) ''Effect event time'') (\<lambda>occurred.
     guard_result (\<not> ms_less (date_parse occurred) (date_parse (ec_updatedAt s))) ''Effect event time cannot move backwards'' (
     Inr ((extra s)\<lparr>ec_state := st, ec_version := ec_version s + 1, ec_updatedAt := occurred\<rparr>)))"

fun apply_claim_kind ::
    "host \<Rightarrow> effect_claim_snapshot \<Rightarrow> effect_claim_event \<Rightarrow> effect_claim_event_kind \<Rightarrow> (string, effect_claim_snapshot) result" where
  "apply_claim_kind h s e (CeMarkerCommitted m) =
     guard_result (ec_state s = EcClaimed) ''Pre-effect marker requires claimed state'' (
     guard_result (\<not> ms_leq (date_parse (ec_effectiveDeadline s)) (date_parse (ce_occurredAt e)))
       ''Expired effect claim cannot execute'' (
     bind_result (require_digest m ''Marker digest'') (\<lambda>d.
     claim_transitioned h s e EcExecuting (\<lambda>t. t\<lparr>ec_markerDigest := Some d\<rparr>))))"
| "apply_claim_kind h s e (CeAmbiguityRaised reason) =
     guard_result (ec_state s = EcExecuting) ''Only an executing effect can become ambiguous'' (
     claim_transitioned h s e EcAmbiguous id)"
| "apply_claim_kind h s e (CeConfirmed receipt) =
     guard_result (ec_state s = EcExecuting \<or> ec_state s = EcAmbiguous)
       ''Effect confirmation requires executing or ambiguous state'' (
     bind_result (require_digest receipt ''Destination receipt digest'') (\<lambda>d.
     claim_transitioned h s e EcConfirmed (\<lambda>t. t\<lparr>ec_destinationReceiptDigest := Some d\<rparr>)))"
| "apply_claim_kind h s e (CeFailed code evidence) =
     guard_result (failure_code_pattern code) ''Failure code must be a safe bounded token'' (
     guard_result (\<not> (ec_state s = EcClaimed \<and> evidence \<noteq> None)) ''Pre-effect failure does not accept destination evidence'' (
     guard_result (\<not> ((ec_state s = EcExecuting \<or> ec_state s = EcAmbiguous) \<and> evidence = None))
       ''Potentially fired effect requires non-execution evidence'' (
     guard_result (List.member [EcClaimed, EcExecuting, EcAmbiguous] (ec_state s))
       ''Effect failure is not allowed from this state'' (
     bind_result (case evidence of None \<Rightarrow> Inr None
         | Some d \<Rightarrow> bind_result (require_digest d ''Non-execution evidence digest'') (\<lambda>p. Inr (Some p))) (\<lambda>ev.
     claim_transitioned h s e EcFailed (\<lambda>t.
       (case ev of None \<Rightarrow> t | Some d \<Rightarrow> t\<lparr>ec_nonExecutionEvidenceDigest := Some d\<rparr>)\<lparr>ec_safeFailureCode := Some code\<rparr>))))))"
| "apply_claim_kind h s e CeCancelled =
     guard_result (ec_state s = EcClaimed) ''Only a pre-effect claim can be cancelled safely'' (
     claim_transitioned h s e EcCancelled id)"

definition terminal_claim :: "effect_claim_lifecycle \<Rightarrow> bool" where
  "terminal_claim st = List.member [EcConfirmed, EcFailed, EcCancelled] st"

definition applyEffectClaimEvent :: "host \<Rightarrow> effect_claim_snapshot \<Rightarrow> effect_claim_event \<Rightarrow> (string, effect_claim_snapshot) result" where
  "applyEffectClaimEvent h s e =
     bind_result (safeToken (ce_eventId e) ''Event ID'') (\<lambda>_.
     guard_result (\<not> terminal_claim (ec_state s)) ''Terminal effect claim cannot transition'' (
     apply_claim_kind h s e (ce_kind e)))"

definition classifyEffectClaimRecovery :: "effect_claim_snapshot \<Rightarrow> effect_recovery_action" where
  "classifyEffectClaimRecovery s =
     (if ec_state s = EcClaimed \<and> ec_markerDigest s = None then ReEvaluateClaimed
      else if ec_state s = EcExecuting \<or> ec_markerDigest s \<noteq> None \<and> ec_state s = EcClaimed then MarkAmbiguous
      else if ec_state s = EcAmbiguous then AwaitEvidence
      else ReplayTerminal)"

definition effectClaimStateForPreEffect :: "effect_claim_snapshot option \<Rightarrow> effect_claim_state" where
  "effectClaimStateForPreEffect x =
     (case x of None \<Rightarrow> ClaimMissing
      | Some s \<Rightarrow> if ec_state s = EcAmbiguous then ClaimAmbiguous
                  else if ec_state s = EcExecuting \<and> ec_markerDigest s \<noteq> None then ClaimClaimed else ClaimMissing)"

fun claim_state_text :: "effect_claim_lifecycle \<Rightarrow> string" where
  "claim_state_text EcClaimed = ''claimed''"
| "claim_state_text EcExecuting = ''executing''"
| "claim_state_text EcConfirmed = ''confirmed''"
| "claim_state_text EcFailed = ''failed''"
| "claim_state_text EcCancelled = ''cancelled''"
| "claim_state_text EcAmbiguous = ''ambiguous''"

definition truthy_field :: "string \<Rightarrow> string option \<Rightarrow> (string \<times> json) list" where
  "truthy_field k v = (if truthy_text v then [(k, JStr (the v))] else [])"

definition terminalEffectResultDigest :: "host \<Rightarrow> effect_claim_snapshot \<Rightarrow> (string, string) result" where
  "terminalEffectResultDigest h s =
     guard_result (terminal_claim (ec_state s)) ''Only settled terminal claims have result digests'' (
     Inr (sha256Digest h (JObj ([(''state'', JStr (claim_state_text (ec_state s)))]
       @ truthy_field ''destinationReceiptDigest'' (ec_destinationReceiptDigest s)
       @ truthy_field ''nonExecutionEvidenceDigest'' (ec_nonExecutionEvidenceDigest s)
       @ truthy_field ''safeFailureCode'' (ec_safeFailureCode s)))))"

end
