(* ===== verification/Effect_Claim_Store.thy ===== *)
theory Effect_Claim_Store
  imports Effect_Claim Execution_Store Guarded_Store
begin

text \<open>
  The durable store of effect claims: \<open>src/node-policy/v1/effect-claim-store.ts\<close>. The five tables are
  lists of rows; deleting a claim deletes its marker and its events, as the foreign keys cascade. The JSON
  columns hold the value they encode (\<open>None\<close> where the text does not parse) and the state columns a
  state; mirrored columns, digests and every consistency check are kept. A transaction that throws carries
  no store. The callback of \<open>applyChecked\<close> is a parameter: its answer to the n-th call, or what it throws;
  it reads and does not write. Opening and closing the database file is not modelled.
\<close>

section \<open>JSON values\<close>

definition claim_snapshot_json :: "effect_claim_snapshot \<Rightarrow> json" where
  "claim_snapshot_json s = JObj ([(''schema'', JStr (ec_schema s)), (''claimKey'', JStr (ec_claimKey s)),
     (''destinationIdempotencyKey'', JStr (ec_destinationIdempotencyKey s)), (''executionId'', JStr (ec_executionId s)),
     (''admissionId'', JStr (ec_admissionId s)), (''identity'', JObj (effect_identity_fields (ec_identity s))),
     (''identityDigest'', JStr (ec_identityDigest s)), (''authorityDigest'', JStr (ec_authorityDigest s)),
     (''effectiveDeadline'', JStr (ec_effectiveDeadline s)), (''state'', JStr (claim_state_text (ec_state s))),
     (''version'', JNum (of_int (ec_version s))), (''createdAt'', JStr (ec_createdAt s)), (''updatedAt'', JStr (ec_updatedAt s))]
     @ opt_field ''markerDigest'' JStr (ec_markerDigest s)
     @ opt_field ''destinationReceiptDigest'' JStr (ec_destinationReceiptDigest s)
     @ opt_field ''nonExecutionEvidenceDigest'' JStr (ec_nonExecutionEvidenceDigest s)
     @ opt_field ''safeFailureCode'' JStr (ec_safeFailureCode s))"

definition marker_json :: "pre_effect_marker \<Rightarrow> json" where
  "marker_json m = JObj [(''schema'', JStr (pm_schema m)), (''markerId'', JStr (pm_markerId m)), (''claimKey'', JStr (pm_claimKey m)),
     (''requestDigest'', JStr (pm_requestDigest m)), (''operationDigest'', JStr (pm_operationDigest m)),
     (''operation'', JObj (pre_effect_operation_fields (pm_operation m))), (''authorityDigest'', JStr (pm_authorityDigest m)),
     (''effectiveDeadline'', JStr (pm_effectiveDeadline m)), (''markedAt'', JStr (pm_markedAt m))]"

fun ambiguity_text :: "ambiguity_reason \<Rightarrow> string" where
  "ambiguity_text AmbRestart = ''restart''"
| "ambiguity_text AmbLostAck = ''lost_ack''"
| "ambiguity_text AmbUnknownResult = ''unknown_result''"

fun claim_event_kind_fields :: "effect_claim_event_kind \<Rightarrow> (string \<times> json) list" where
  "claim_event_kind_fields (CeMarkerCommitted d) = [(''kind'', JStr ''marker_committed''), (''markerDigest'', JStr d)]"
| "claim_event_kind_fields (CeAmbiguityRaised r) = [(''kind'', JStr ''ambiguity_raised''), (''reason'', JStr (ambiguity_text r))]"
| "claim_event_kind_fields (CeConfirmed d) = [(''kind'', JStr ''confirmed''), (''destinationReceiptDigest'', JStr d)]"
| "claim_event_kind_fields (CeFailed c d) = [(''kind'', JStr ''failed''), (''safeFailureCode'', JStr c)]
     @ opt_field ''nonExecutionEvidenceDigest'' JStr d"
| "claim_event_kind_fields CeCancelled = [(''kind'', JStr ''cancelled'')]"

text \<open>The entries of the log: the creation of the claim and the events applied after it.\<close>

datatype logged_event = LogClaimed string string | LogEvent effect_claim_event

fun logged_id :: "logged_event \<Rightarrow> string" where
  "logged_id (LogClaimed i t) = i"
| "logged_id (LogEvent e) = ce_eventId e"

fun logged_time :: "logged_event \<Rightarrow> string" where
  "logged_time (LogClaimed i t) = t"
| "logged_time (LogEvent e) = ce_occurredAt e"

fun logged_json :: "logged_event \<Rightarrow> json" where
  "logged_json (LogClaimed i t) = JObj [(''eventId'', JStr i), (''kind'', JStr ''claimed''), (''occurredAt'', JStr t)]"
| "logged_json (LogEvent e) =
     JObj ([(''eventId'', JStr (ce_eventId e)), (''occurredAt'', JStr (ce_occurredAt e))] @ claim_event_kind_fields (ce_kind e))"

definition claim_transition_digest :: "host \<Rightarrow> logged_event \<Rightarrow> effect_claim_lifecycle option \<Rightarrow> effect_claim_lifecycle \<Rightarrow> string" where
  "claim_transition_digest h e from to =
     sha256Digest h (JObj [(''event'', logged_json e),
       (''fromState'', case from of None \<Rightarrow> JNull | Some s \<Rightarrow> JStr (claim_state_text s)), (''toState'', JStr (claim_state_text to))])"

record effect_tombstone =
  et_schema :: string
  et_claimKey :: string
  et_identityDigest :: string
  et_terminalDisposition :: effect_claim_lifecycle
  et_terminalResultDigest :: string
  et_historyDigest :: string
  et_compactedAt :: string
  et_retainUntil :: string
  et_tombstoneDigest :: string

definition tombstone_material :: "effect_tombstone \<Rightarrow> json" where
  "tombstone_material t = JObj [(''schema'', JStr (et_schema t)), (''claimKey'', JStr (et_claimKey t)),
     (''identityDigest'', JStr (et_identityDigest t)), (''terminalDisposition'', JStr (claim_state_text (et_terminalDisposition t))),
     (''terminalResultDigest'', JStr (et_terminalResultDigest t)), (''historyDigest'', JStr (et_historyDigest t)),
     (''compactedAt'', JStr (et_compactedAt t)), (''retainUntil'', JStr (et_retainUntil t))]"


section \<open>The tables\<close>

record claim_row =
  cr_claimKey :: string
  cr_executionId :: string
  cr_admissionId :: string
  cr_identity :: effect_identity
  cr_identityDigest :: string
  cr_authorityDigest :: string
  cr_effectiveDeadline :: string
  cr_state :: effect_claim_lifecycle
  cr_version :: int
  cr_snapshotDigest :: string
  cr_snapshot :: "effect_claim_snapshot option"
  cr_updatedAt :: string

record marker_row =
  mr_claimKey :: string
  mr_markerId :: string
  mr_markerDigest :: string
  mr_marker :: "pre_effect_marker option"
  mr_markedAt :: string

record claim_event_row =
  cw_sequence :: nat
  cw_claimKey :: string
  cw_eventId :: string
  cw_eventDigest :: string
  cw_transitionDigest :: string
  cw_event :: "logged_event option"
  cw_fromState :: "effect_claim_lifecycle option"
  cw_toState :: effect_claim_lifecycle
  cw_occurredAt :: string

record tombstone_row =
  tw_claimKey :: string
  tw_identityDigest :: string
  tw_terminalDisposition :: effect_claim_lifecycle
  tw_tombstoneDigest :: string
  tw_tombstone :: "effect_tombstone option"
  tw_compactedAt :: string
  tw_retainUntil :: string

record claim_store =
  cs_claims :: "claim_row list"
  cs_messages :: "(string \<times> string) list"
  cs_markers :: "marker_row list"
  cs_events :: "claim_event_row list"
  cs_tombstones :: "tombstone_row list"
  cs_next :: nat

definition empty_claim_store :: claim_store where
  "empty_claim_store = \<lparr>cs_claims = [], cs_messages = [], cs_markers = [], cs_events = [], cs_tombstones = [], cs_next = 1\<rparr>"

definition claim_conflict :: string where
  "claim_conflict = ''Effect claim conflicts with durable history''"

text \<open>The \<open>catch\<close> of the loaders: whatever is not a conflict becomes one.\<close>

definition as_malformed :: "string \<Rightarrow> (store_error, 'a) result \<Rightarrow> (store_error, 'a) result" where
  "as_malformed m r = (case r of Inl (StoreThrown _) \<Rightarrow> Inl (StoreConflict m) | _ \<Rightarrow> r)"

lemma as_malformed_Inr [simp]: "as_malformed m r = Inr a \<longleftrightarrow> r = Inr a"
  by (auto simp: as_malformed_def split: sum.splits store_error.splits)

definition storeInstant :: "string \<Rightarrow> string \<Rightarrow> (store_error, string) result" where
  "storeInstant v label =
     (if \<not> matches_picture ''0000-00-00T00:00:00.000Z'' v then Inl (StoreConflict (label @ '' is invalid''))
      else case date_parse v of
        None \<Rightarrow> Inl (StoreThrown ''Invalid time value'')
      | Some t \<Rightarrow> if to_iso t \<noteq> Some v then Inl (StoreConflict (label @ '' is invalid'')) else Inr v)"

datatype effect_disposition = DispatchPermitted | InProgress | DispAmbiguous | ReplayConfirmed | ReplayFailed | ReplayCancelled

fun claim_disposition :: "effect_claim_lifecycle \<Rightarrow> effect_disposition" where
  "claim_disposition EcClaimed = InProgress"
| "claim_disposition EcExecuting = InProgress"
| "claim_disposition EcAmbiguous = DispAmbiguous"
| "claim_disposition EcConfirmed = ReplayConfirmed"
| "claim_disposition EcFailed = ReplayFailed"
| "claim_disposition EcCancelled = ReplayCancelled"


section \<open>Reading with verification\<close>

definition claim_row_for :: "claim_store \<Rightarrow> string \<Rightarrow> claim_row option" where
  "claim_row_for st k = find (\<lambda>r. cr_claimKey r = k) (cs_claims st)"

definition fullRowExists :: "claim_store \<Rightarrow> string \<Rightarrow> bool" where
  "fullRowExists st k = (claim_row_for st k \<noteq> None)"

definition claim_events :: "claim_store \<Rightarrow> string \<Rightarrow> claim_event_row list" where
  "claim_events st k = filter (\<lambda>r. cw_claimKey r = k) (cs_events st)"

definition marker_of :: "claim_store \<Rightarrow> string \<Rightarrow> marker_row option" where
  "marker_of st k = find (\<lambda>r. mr_claimKey r = k) (cs_markers st)"

definition creation_event :: "effect_claim_snapshot \<Rightarrow> logged_event" where
  "creation_event s = LogClaimed (''claimed:'' @ ec_claimKey s) (ec_createdAt s)"

fun replay_logged :: "host \<Rightarrow> effect_claim_snapshot \<Rightarrow> logged_event \<Rightarrow> (store_error, effect_claim_snapshot) result" where
  "replay_logged h s (LogClaimed i t) = Inl (StoreThrown ''Effect event kind is invalid'')"
| "replay_logged h s (LogEvent e) = lift_throw (applyEffectClaimEvent h s e)"

fun verify_claim_rows ::
    "host \<Rightarrow> effect_claim_snapshot \<Rightarrow> bool \<Rightarrow> effect_claim_lifecycle option \<Rightarrow> effect_claim_snapshot \<Rightarrow> claim_event_row list
     \<Rightarrow> (store_error, effect_claim_lifecycle option \<times> effect_claim_snapshot) result" where
  "verify_claim_rows h s first prior r [] = Inr (prior, r)"
| "verify_claim_rows h s first prior r (row # rows) =
     (case cw_event row of
        None \<Rightarrow> Inl (StoreThrown ''Unexpected token'')
      | Some e \<Rightarrow>
          guard_result (\<not> (sha256Digest h (logged_json e) \<noteq> cw_eventDigest row \<or> logged_id e \<noteq> cw_eventId row
              \<or> logged_time e \<noteq> cw_occurredAt row
              \<or> cw_transitionDigest row \<noteq> claim_transition_digest h e (cw_fromState row) (cw_toState row)
              \<or> cw_fromState row \<noteq> prior)) (StoreConflict ''Effect history digest or chain mismatch'') (
          if first then
            guard_result (\<not> (cw_fromState row \<noteq> None \<or> cw_toState row \<noteq> EcClaimed
                \<or> sha256Digest h (logged_json e) \<noteq> sha256Digest h (logged_json (creation_event s))))
              (StoreConflict ''Effect creation event mismatch'')
              (verify_claim_rows h s False (Some (cw_toState row)) r rows)
          else bind_result (replay_logged h r e) (\<lambda>r'. verify_claim_rows h s False (Some (cw_toState row)) r' rows)))"

definition creation_of :: "effect_claim_snapshot \<Rightarrow> effect_claim_creation" where
  "creation_of s = \<lparr>cn_executionId = ec_executionId s, cn_admissionId = ec_admissionId s, cn_identity = ec_identity s,
     cn_authorityDigest = ec_authorityDigest s, cn_effectiveDeadline = ec_effectiveDeadline s, cn_createdAt = ec_createdAt s\<rparr>"

definition verifyHistoryWithin :: "host \<Rightarrow> claim_store \<Rightarrow> effect_claim_snapshot \<Rightarrow> (store_error, unit) result" where
  "verifyHistoryWithin h st s =
     (let rows = claim_events st (ec_claimKey s) in
      guard_result (int (length rows) = ec_version s) (StoreConflict ''Effect history length mismatch'') (
      bind_result (lift_throw (createEffectClaimSnapshot h (creation_of s))) (\<lambda>r0.
      bind_result (verify_claim_rows h s True None r0 rows) (\<lambda>(prior, r).
      guard_result (\<not> (prior \<noteq> Some (ec_state s) \<or> sha256Digest h (claim_snapshot_json r) \<noteq> sha256Digest h (claim_snapshot_json s)))
        (StoreConflict ''Effect history terminal state mismatch'') (Inr ())))))"

definition claim_mirror_mismatch :: "host \<Rightarrow> claim_row \<Rightarrow> effect_claim_snapshot \<Rightarrow> bool" where
  "claim_mirror_mismatch h row s \<longleftrightarrow>
     sha256Digest h (claim_snapshot_json s) \<noteq> cr_snapshotDigest row \<or> ec_claimKey s \<noteq> cr_claimKey row
     \<or> computeEffectClaimKey h (ec_identity s) \<noteq> ec_claimKey s \<or> ec_executionId s \<noteq> cr_executionId row
     \<or> ec_admissionId s \<noteq> cr_admissionId row \<or> ec_identity s \<noteq> cr_identity row \<or> ec_identityDigest s \<noteq> cr_identityDigest row
     \<or> sha256Digest h (JObj (effect_identity_fields (ec_identity s))) \<noteq> ec_identityDigest s
     \<or> ec_authorityDigest s \<noteq> cr_authorityDigest row \<or> ec_effectiveDeadline s \<noteq> cr_effectiveDeadline row
     \<or> ec_state s \<noteq> cr_state row \<or> ec_version s \<noteq> cr_version row \<or> ec_updatedAt s \<noteq> cr_updatedAt row"

definition verify_marker :: "host \<Rightarrow> claim_store \<Rightarrow> string \<Rightarrow> effect_claim_snapshot \<Rightarrow> (store_error, unit) result" where
  "verify_marker h st k s =
     guard_result (map_option mr_markerDigest (marker_of st k) = ec_markerDigest s) (StoreConflict ''Effect marker mirror mismatch'') (
     case marker_of st k of None \<Rightarrow> Inr ()
     | Some row \<Rightarrow> (case mr_marker row of None \<Rightarrow> Inl (StoreThrown ''Unexpected token'')
         | Some m \<Rightarrow> guard_result (sha256Digest h (marker_json m) = mr_markerDigest row)
             (StoreConflict ''Effect marker digest mismatch'') (Inr ())))"

definition loadFullWithin :: "host \<Rightarrow> claim_store \<Rightarrow> string \<Rightarrow> bool \<Rightarrow> (store_error, effect_claim_snapshot option) result" where
  "loadFullWithin h st k verifyMarker =
     (case claim_row_for st k of None \<Rightarrow> Inr None
      | Some row \<Rightarrow> as_malformed ''Effect claim is malformed'' (
          case cr_snapshot row of None \<Rightarrow> Inl (StoreThrown ''Unexpected token'')
          | Some s \<Rightarrow>
              guard_result (\<not> claim_mirror_mismatch h row s) (StoreConflict ''Effect claim mirror or digest mismatch'') (
              bind_result (if verifyMarker then bind_result (verify_marker h st k s) (\<lambda>_. verifyHistoryWithin h st s) else Inr ())
                (\<lambda>_. Inr (Some s)))))"

definition requireFullWithin :: "host \<Rightarrow> claim_store \<Rightarrow> string \<Rightarrow> (store_error, effect_claim_snapshot) result" where
  "requireFullWithin h st k =
     bind_result (loadFullWithin h st k True) (\<lambda>x. case x of
       None \<Rightarrow> Inl (StoreConflict ''Effect claim is missing'') | Some s \<Rightarrow> Inr s)"

definition tombstone_row_for :: "claim_store \<Rightarrow> string \<Rightarrow> tombstone_row option" where
  "tombstone_row_for st k = find (\<lambda>r. tw_claimKey r = k) (cs_tombstones st)"

definition loadTombstoneWithin :: "host \<Rightarrow> claim_store \<Rightarrow> string \<Rightarrow> (store_error, effect_tombstone option) result" where
  "loadTombstoneWithin h st k =
     (case tombstone_row_for st k of None \<Rightarrow> Inr None
      | Some row \<Rightarrow> as_malformed ''Effect tombstone is malformed'' (
          case tw_tombstone row of None \<Rightarrow> Inl (StoreThrown ''Unexpected token'')
          | Some t \<Rightarrow>
              guard_result (et_schema t = ''control-room.effect-tombstone/v1'' \<and> digest_pattern (et_claimKey t)
                  \<and> digest_pattern (et_identityDigest t) \<and> digest_pattern (et_terminalResultDigest t)
                  \<and> digest_pattern (et_historyDigest t) \<and> digest_pattern (et_tombstoneDigest t))
                (StoreConflict ''Effect tombstone mirror or digest mismatch'') (
              bind_result (storeInstant (et_compactedAt t) ''Tombstone compaction time'') (\<lambda>_.
              bind_result (storeInstant (et_retainUntil t) ''Tombstone retention time'') (\<lambda>_.
              guard_result (sha256Digest h (tombstone_material t) = et_tombstoneDigest t \<and> et_tombstoneDigest t = tw_tombstoneDigest row
                  \<and> et_claimKey t = tw_claimKey row \<and> et_identityDigest t = tw_identityDigest row
                  \<and> et_terminalDisposition t = tw_terminalDisposition row
                  \<and> et_compactedAt t = tw_compactedAt row \<and> et_retainUntil t = tw_retainUntil row)
                (StoreConflict ''Effect tombstone mirror or digest mismatch'') (Inr (Some t)))))))"

datatype claim_lookup = LookupFull effect_claim_snapshot | LookupTombstone effect_tombstone

definition claim_load :: "host \<Rightarrow> claim_store \<Rightarrow> string \<Rightarrow> (store_error, claim_lookup option) result" where
  "claim_load h st k =
     bind_result (loadTombstoneWithin h st k) (\<lambda>x. case x of
       Some t \<Rightarrow> guard_result (\<not> fullRowExists st k) (StoreConflict ''Full claim and tombstone coexist'') (Inr (Some (LookupTombstone t)))
     | None \<Rightarrow> bind_result (loadFullWithin h st k True) (\<lambda>y. Inr (map_option LookupFull y)))"

definition confirmation :: "host \<Rightarrow> claim_store \<Rightarrow> string \<Rightarrow> (store_error, (effect_claim_snapshot \<times> effect_claim_event) option) result" where
  "confirmation h st k =
     bind_result (claim_load h st k) (\<lambda>x. case x of
       Some (LookupFull s) \<Rightarrow>
         if ec_state s \<noteq> EcConfirmed then Inr None
         else if claim_events st k = [] then Inl (StoreConflict ''Effect confirmation event is missing'')
         else (case cw_event (last (claim_events st k)) of
             None \<Rightarrow> Inl (StoreThrown ''Unexpected token'')
           | Some (LogEvent e) \<Rightarrow>
               if (case ce_kind e of CeConfirmed d \<Rightarrow> Some d \<noteq> ec_destinationReceiptDigest s | _ \<Rightarrow> True)
                  \<or> ce_occurredAt e \<noteq> ec_updatedAt s
               then Inl (StoreConflict ''Effect confirmation event mismatch'') else Inr (Some (s, e))
           | Some (LogClaimed i t) \<Rightarrow> Inl (StoreConflict ''Effect confirmation event mismatch''))
     | _ \<Rightarrow> Inr None)"

definition unsettled :: "effect_claim_lifecycle \<Rightarrow> bool" where
  "unsettled s = List.member [EcClaimed, EcExecuting, EcAmbiguous] s"

fun count_rows :: "host \<Rightarrow> claim_store \<Rightarrow> string \<Rightarrow> string \<Rightarrow> claim_row list \<Rightarrow> (store_error, nat) result" where
  "count_rows h st tenantId nodeId [] = Inr 0"
| "count_rows h st tenantId nodeId (row # rows) =
     bind_result (loadFullWithin h st (cr_claimKey row) True) (\<lambda>x. case x of
       None \<Rightarrow> Inl (StoreConflict ''Effect capacity evidence unavailable'')
     | Some c \<Rightarrow> bind_result (count_rows h st tenantId nodeId rows) (\<lambda>n.
         Inr (if xi_tenantId (ec_identity c) = tenantId \<and> xi_nodeId (ec_identity c) = nodeId \<and> unsettled (ec_state c) then Suc n else n)))"

definition countActiveWithin :: "host \<Rightarrow> claim_store \<Rightarrow> string \<Rightarrow> string \<Rightarrow> (store_error, nat) result" where
  "countActiveWithin h st tenantId nodeId =
     (let rows = take 10001 (cs_claims st) in
      guard_result (length rows \<le> 10000) (StoreConflict ''Effect capacity evidence unavailable'')
        (count_rows h st tenantId nodeId rows))"

definition countFull :: "claim_store \<Rightarrow> nat" where
  "countFull st = length (cs_claims st)"

definition countTombstones :: "claim_store \<Rightarrow> nat" where
  "countTombstones st = length (cs_tombstones st)"


section \<open>Writing\<close>

definition log_event ::
    "host \<Rightarrow> string \<Rightarrow> logged_event \<Rightarrow> effect_claim_lifecycle option \<Rightarrow> effect_claim_lifecycle \<Rightarrow> claim_store
     \<Rightarrow> (store_error, claim_store) result" where
  "log_event h k e from to st =
     (if list_ex (\<lambda>r. cw_claimKey r = k \<and> cw_eventId r = logged_id e) (cs_events st) then Inl (StoreConflict claim_conflict)
      else Inr (st\<lparr>cs_events := cs_events st @
        [\<lparr>cw_sequence = cs_next st, cw_claimKey = k, cw_eventId = logged_id e, cw_eventDigest = sha256Digest h (logged_json e),
          cw_transitionDigest = claim_transition_digest h e from to, cw_event = Some e, cw_fromState = from, cw_toState = to,
          cw_occurredAt = logged_time e\<rparr>], cs_next := Suc (cs_next st)\<rparr>))"

definition set_claim :: "host \<Rightarrow> effect_claim_snapshot \<Rightarrow> claim_row \<Rightarrow> claim_row" where
  "set_claim h s row =
     row\<lparr>cr_state := ec_state s, cr_version := ec_version s, cr_snapshotDigest := sha256Digest h (claim_snapshot_json s),
         cr_snapshot := Some s, cr_updatedAt := ec_updatedAt s\<rparr>"

definition persistTransition ::
    "host \<Rightarrow> effect_claim_snapshot \<Rightarrow> effect_claim_snapshot \<Rightarrow> effect_claim_event \<Rightarrow> claim_store \<Rightarrow> (store_error, claim_store) result" where
  "persistTransition h before after e st =
     (if length (filter (\<lambda>r. cr_claimKey r = ec_claimKey after \<and> cr_version r = ec_version before) (cs_claims st)) \<noteq> 1
      then Inl (StoreConflict ''Effect claim changed concurrently'')
      else log_event h (ec_claimKey after) (LogEvent e) (Some (ec_state before)) (ec_state after)
        (st\<lparr>cs_claims := map (\<lambda>r. if cr_claimKey r = ec_claimKey after \<and> cr_version r = ec_version before
            then set_claim h after r else r) (cs_claims st)\<rparr>))"

definition claim_row_of :: "host \<Rightarrow> effect_claim_snapshot \<Rightarrow> claim_row" where
  "claim_row_of h s = \<lparr>cr_claimKey = ec_claimKey s, cr_executionId = ec_executionId s, cr_admissionId = ec_admissionId s,
     cr_identity = ec_identity s, cr_identityDigest = ec_identityDigest s, cr_authorityDigest = ec_authorityDigest s,
     cr_effectiveDeadline = ec_effectiveDeadline s, cr_state = ec_state s, cr_version = ec_version s,
     cr_snapshotDigest = sha256Digest h (claim_snapshot_json s), cr_snapshot = Some s, cr_updatedAt = ec_updatedAt s\<rparr>"

text \<open>\<open>INSERT INTO effect_claims\<close>: the primary key and \<open>UNIQUE(execution_id,operation_digest)\<close>.\<close>

definition insert_claim :: "claim_row \<Rightarrow> claim_store \<Rightarrow> (store_error, claim_store) result" where
  "insert_claim row st =
     (if list_ex (\<lambda>r. cr_claimKey r = cr_claimKey row \<or> cr_executionId r = cr_executionId row
           \<and> xi_operationDigest (cr_identity r) = xi_operationDigest (cr_identity row)) (cs_claims st)
      then Inl (StoreConflict claim_conflict) else Inr (st\<lparr>cs_claims := cs_claims st @ [row]\<rparr>))"

record effect_claim_request =
  eq_messageId :: string
  eq_execution :: execution_snapshot
  eq_claimedAt :: string
  eq_maximumActiveEffects :: "jsnum option"

definition claim_request_json :: "effect_claim_request \<Rightarrow> json" where
  "claim_request_json i = JObj ([(''messageId'', JStr (eq_messageId i)), (''execution'', snapshot_json (eq_execution i)),
     (''claimedAt'', JStr (eq_claimedAt i))] @ opt_field ''maximumActiveEffects'' num_json (eq_maximumActiveEffects i))"

record claim_answer =
  ca_created :: bool
  ca_claimKey :: string
  ca_disposition :: effect_disposition
  ca_lookup :: claim_lookup

definition message_claim :: "claim_store \<Rightarrow> string \<Rightarrow> string option" where
  "message_claim st m = map_option snd (find (\<lambda>r. fst r = m) (cs_messages st))"

definition note_message :: "string \<Rightarrow> string \<Rightarrow> claim_store \<Rightarrow> claim_store" where
  "note_message m k st = (if message_claim st m = None then st\<lparr>cs_messages := cs_messages st @ [(m, k)]\<rparr> else st)"

definition creation_from :: "effect_claim_request \<Rightarrow> effect_claim_creation" where
  "creation_from i = \<lparr>cn_executionId = es_executionId (eq_execution i), cn_admissionId = es_admissionId (eq_execution i),
     cn_identity = es_identity (eq_execution i), cn_authorityDigest = es_authorityDigest (eq_execution i),
     cn_effectiveDeadline = ed_effectiveDeadline (es_deadline (eq_execution i)), cn_createdAt = eq_claimedAt i\<rparr>"

definition claim_differs :: "effect_claim_snapshot \<Rightarrow> effect_claim_snapshot \<Rightarrow> bool" where
  "claim_differs prior s \<longleftrightarrow> ec_identityDigest prior \<noteq> ec_identityDigest s \<or> ec_executionId prior \<noteq> ec_executionId s
     \<or> ec_admissionId prior \<noteq> ec_admissionId s \<or> ec_authorityDigest prior \<noteq> ec_authorityDigest s
     \<or> ec_effectiveDeadline prior \<noteq> ec_effectiveDeadline s"

definition over_capacity :: "host \<Rightarrow> claim_store \<Rightarrow> effect_claim_snapshot \<Rightarrow> jsnum option \<Rightarrow> (store_error, unit) result" where
  "over_capacity h st s maximum =
     (case maximum of None \<Rightarrow> Inr ()
      | Some m \<Rightarrow> bind_result (countActiveWithin h st (xi_tenantId (ec_identity s)) (xi_nodeId (ec_identity s))) (\<lambda>n.
          guard_result (\<not> num_le m (num_of_int (int n))) (StoreConflict ''Effect capacity exhausted'') (Inr ())))"

definition claim_within :: "host \<Rightarrow> effect_claim_request \<Rightarrow> effect_claim_snapshot \<Rightarrow> claim_store
    \<Rightarrow> (store_error, claim_answer \<times> claim_store) result" where
  "claim_within h i s st =
     (let message = message_claim st (eq_messageId i) in
      guard_result (message = None \<or> message = Some (ec_claimKey s)) (StoreConflict ''Delivery message aliases a different effect'') (
      bind_result (loadTombstoneWithin h st (ec_claimKey s)) (\<lambda>x. case x of
        Some t \<Rightarrow>
          guard_result (\<not> fullRowExists st (ec_claimKey s)) (StoreConflict ''Full claim and tombstone coexist'') (
          guard_result (et_identityDigest t = ec_identityDigest s) (StoreConflict claim_conflict) (
          Inr (\<lparr>ca_created = False, ca_claimKey = ec_claimKey s, ca_disposition = claim_disposition (et_terminalDisposition t),
                ca_lookup = LookupTombstone t\<rparr>, note_message (eq_messageId i) (ec_claimKey s) st)))
      | None \<Rightarrow>
      bind_result (loadFullWithin h st (ec_claimKey s) True) (\<lambda>y. case y of
        Some prior \<Rightarrow>
          guard_result (\<not> claim_differs prior s) (StoreConflict claim_conflict) (
          Inr (\<lparr>ca_created = False, ca_claimKey = ec_claimKey prior, ca_disposition = claim_disposition (ec_state prior),
                ca_lookup = LookupFull prior\<rparr>, note_message (eq_messageId i) (ec_claimKey s) st))
      | None \<Rightarrow>
          guard_result (message = None) (StoreConflict claim_conflict) (
          bind_result (over_capacity h st s (eq_maximumActiveEffects i)) (\<lambda>_.
          bind_result (insert_claim (claim_row_of h s) st) (\<lambda>st1.
          bind_result (log_event h (ec_claimKey s) (creation_event s) None EcClaimed
              (note_message (eq_messageId i) (ec_claimKey s) st1)) (\<lambda>st2.
          Inr (\<lparr>ca_created = True, ca_claimKey = ec_claimKey s, ca_disposition = DispatchPermitted,
                ca_lookup = LookupFull s\<rparr>, st2)))))))))"

definition store_claim :: "host \<Rightarrow> effect_claim_request \<Rightarrow> claim_store \<Rightarrow> (store_error, claim_answer \<times> claim_store) result" where
  "store_claim h i st =
     guard_result (case eq_maximumActiveEffects i of None \<Rightarrow> True
         | Some m \<Rightarrow> is_safe_integer m \<and> \<not> num_lt m (Fin 1) \<and> \<not> num_lt (Fin 10000) m)
       (StoreConflict ''Invalid effect capacity ceiling'') (
     bind_result (lift_throw (assertNoSecretMaterial (claim_request_json i) ''effect claim'')) (\<lambda>_.
     guard_result (3 \<le> length (eq_messageId i) \<and> length (eq_messageId i) \<le> 180 \<and> safe_id_pattern (eq_messageId i))
       (StoreConflict ''Delivery message ID is invalid'') (
     guard_result (es_state (eq_execution i) = XExecuting \<or> es_state (eq_execution i) = XExpiringSoon)
       (StoreConflict ''Effect claims require live executing authority'') (
     bind_result (lift_throw (createEffectClaimSnapshot h (creation_from i))) (\<lambda>s. claim_within h i s st)))))"

text \<open>
  The query for an earlier marker takes the first row with the key or the identifier. Which row comes first
  does not matter: a row with the digest of the marker has both.
\<close>

definition prior_marker :: "claim_store \<Rightarrow> pre_effect_marker \<Rightarrow> marker_row option" where
  "prior_marker st m = find (\<lambda>r. mr_claimKey r = pm_claimKey m \<or> mr_markerId r = pm_markerId m) (cs_markers st)"

definition marker_event :: "host \<Rightarrow> pre_effect_marker \<Rightarrow> effect_claim_event" where
  "marker_event h m = \<lparr>ce_eventId = pm_markerId m, ce_occurredAt = pm_markedAt m,
     ce_kind = CeMarkerCommitted (sha256Digest h (marker_json m))\<rparr>"

definition marker_row_of :: "host \<Rightarrow> pre_effect_marker \<Rightarrow> marker_row" where
  "marker_row_of h m = \<lparr>mr_claimKey = pm_claimKey m, mr_markerId = pm_markerId m, mr_markerDigest = sha256Digest h (marker_json m),
     mr_marker = Some m, mr_markedAt = pm_markedAt m\<rparr>"

datatype mark_disposition = MarkCommitted | MarkDuplicate

definition commitPreEffectMarker ::
    "host \<Rightarrow> pre_effect_marker \<Rightarrow> claim_store \<Rightarrow> (store_error, (mark_disposition \<times> effect_claim_snapshot) \<times> claim_store) result" where
  "commitPreEffectMarker h m st =
     bind_result (lift_throw (assertNoSecretMaterial (marker_json m) ''pre-effect marker'')) (\<lambda>_.
     case prior_marker st m of
       Some row \<Rightarrow>
         guard_result (mr_markerDigest row = sha256Digest h (marker_json m))
           (StoreConflict ''Pre-effect marker conflicts with durable history'') (
         bind_result (requireFullWithin h st (pm_claimKey m)) (\<lambda>s. Inr ((MarkDuplicate, s), st)))
     | None \<Rightarrow>
         bind_result (requireFullWithin h st (pm_claimKey m)) (\<lambda>before.
         guard_result (validatePreEffectMarkerBinding h m before = Inr ()) (StoreConflict ''Pre-effect marker binding mismatch'') (
         bind_result (lift_throw (applyEffectClaimEvent h before (marker_event h m))) (\<lambda>after.
         bind_result (persistTransition h before after (marker_event h m)
             (st\<lparr>cs_markers := cs_markers st @ [marker_row_of h m]\<rparr>)) (\<lambda>st'.
         Inr ((MarkCommitted, after), st'))))))"

text \<open>The events \<open>apply\<close> takes: every kind but the marker.\<close>

datatype settlement_kind =
    SkAmbiguityRaised ambiguity_reason
  | SkConfirmed string
  | SkFailed string "string option"
  | SkCancelled

record settlement =
  sk_eventId :: string
  sk_occurredAt :: string
  sk_kind :: settlement_kind

fun settlement_event_kind :: "settlement_kind \<Rightarrow> effect_claim_event_kind" where
  "settlement_event_kind (SkAmbiguityRaised r) = CeAmbiguityRaised r"
| "settlement_event_kind (SkConfirmed d) = CeConfirmed d"
| "settlement_event_kind (SkFailed c d) = CeFailed c d"
| "settlement_event_kind SkCancelled = CeCancelled"

definition settlement_event :: "settlement \<Rightarrow> effect_claim_event" where
  "settlement_event e = \<lparr>ce_eventId = sk_eventId e, ce_occurredAt = sk_occurredAt e, ce_kind = settlement_event_kind (sk_kind e)\<rparr>"

record settlement_guard =
  sg_expectedSnapshotDigest :: string
  sg_verifyCurrent :: "nat \<Rightarrow> string \<Rightarrow> (store_error, bool) result"

definition check_current :: "host \<Rightarrow> settlement_guard option \<Rightarrow> nat \<Rightarrow> string \<Rightarrow> string \<Rightarrow> claim_store \<Rightarrow> (store_error, unit) result" where
  "check_current h g n k expected st =
     (case g of None \<Rightarrow> Inr ()
      | Some g' \<Rightarrow>
          bind_result (sg_verifyCurrent g' n expected) (\<lambda>accepted.
          guard_result accepted (StoreConflict ''Effect settlement check failed'') (
          bind_result (requireFullWithin h st k) (\<lambda>s.
          guard_result (sha256Digest h (claim_snapshot_json s) = expected)
            (StoreConflict ''Effect snapshot changed during verification'') (Inr ())))))"

definition logged_event_row :: "claim_store \<Rightarrow> string \<Rightarrow> string \<Rightarrow> claim_event_row option" where
  "logged_event_row st k eventId = find (\<lambda>r. cw_claimKey r = k \<and> cw_eventId r = eventId) (cs_events st)"

definition applyWithinGuard ::
    "host \<Rightarrow> string \<Rightarrow> settlement \<Rightarrow> settlement_guard option \<Rightarrow> claim_store
     \<Rightarrow> (store_error, (apply_disposition \<times> effect_claim_snapshot) \<times> claim_store) result" where
  "applyWithinGuard h k i g st =
     (let e = settlement_event i in
      bind_result (lift_throw (assertNoSecretMaterial (logged_json (LogEvent e)) ''effect claim event'')) (\<lambda>_.
      bind_result (requireFullWithin h st k) (\<lambda>before.
      let beforeDigest = sha256Digest h (claim_snapshot_json before) in
      guard_result (case g of None \<Rightarrow> True | Some g' \<Rightarrow> sg_expectedSnapshotDigest g' = beforeDigest)
        (StoreConflict ''Effect snapshot is stale'') (
      bind_result (check_current h g 0 k beforeDigest st) (\<lambda>_.
      case logged_event_row st k (ce_eventId e) of
        Some row \<Rightarrow>
          guard_result (cw_eventDigest row = sha256Digest h (logged_json (LogEvent e)))
            (StoreConflict ''Effect event ID was reused with different content'') (
          bind_result (check_current h g 1 k beforeDigest st) (\<lambda>_.
          bind_result (requireFullWithin h st k) (\<lambda>s. Inr ((ApplyDuplicate, s), st))))
      | None \<Rightarrow>
          bind_result (lift_throw (applyEffectClaimEvent h before e)) (\<lambda>after.
          bind_result (persistTransition h before after e st) (\<lambda>st'.
          bind_result (check_current h g 1 k (sha256Digest h (claim_snapshot_json after)) st') (\<lambda>_.
          Inr ((Applied, after), st')))))))))"

definition claim_apply ::
    "host \<Rightarrow> string \<Rightarrow> settlement \<Rightarrow> claim_store \<Rightarrow> (store_error, (apply_disposition \<times> effect_claim_snapshot) \<times> claim_store) result" where
  "claim_apply h k e st = applyWithinGuard h k e None st"

definition applyChecked ::
    "host \<Rightarrow> string \<Rightarrow> settlement \<Rightarrow> settlement_guard \<Rightarrow> claim_store
     \<Rightarrow> (store_error, (apply_disposition \<times> effect_claim_snapshot) \<times> claim_store) result" where
  "applyChecked h k e g st =
     guard_result (digest_pattern (sg_expectedSnapshotDigest g)) (StoreConflict ''Invalid expected effect snapshot'')
       (applyWithinGuard h k e (Some g) st)"

datatype recover_action = RecReEvaluate | RecAmbiguous | RecAwaitEvidence | RecReplayTerminal

definition claim_recover ::
    "host \<Rightarrow> string \<Rightarrow> string \<Rightarrow> string \<Rightarrow> claim_store \<Rightarrow> (store_error, (recover_action \<times> effect_claim_snapshot) \<times> claim_store) result" where
  "claim_recover h k eventId recoveredAt st =
     bind_result (requireFullWithin h st k) (\<lambda>s.
     case classifyEffectClaimRecovery s of
       ReEvaluateClaimed \<Rightarrow> Inr ((RecReEvaluate, s), st)
     | MarkAmbiguous \<Rightarrow>
         (let e = \<lparr>ce_eventId = eventId, ce_occurredAt = recoveredAt, ce_kind = CeAmbiguityRaised AmbRestart\<rparr> in
          case logged_event_row st k eventId of
            Some row \<Rightarrow>
              guard_result (cw_eventDigest row = sha256Digest h (logged_json (LogEvent e)))
                (StoreConflict ''Effect event ID was reused with different content'') (Inr ((RecAmbiguous, s), st))
          | None \<Rightarrow>
              bind_result (lift_throw (applyEffectClaimEvent h s e)) (\<lambda>after.
              bind_result (persistTransition h s after e st) (\<lambda>st'. Inr ((RecAmbiguous, after), st'))))
     | AwaitEvidence \<Rightarrow> Inr ((RecAwaitEvidence, s), st)
     | ReplayTerminal \<Rightarrow> Inr ((RecReplayTerminal, s), st))"

record retention_horizons =
  rh_jobRetentionUntil :: "string option"
  rh_destinationIdempotencyUntil :: "string option"
  rh_authorityLateDeliveryUntil :: "string option"
  rh_protocolRetryUntil :: "string option"

datatype compact_answer = Compacted string effect_tombstone | RetainedUnknownHorizon | RetainedUntil string

fun store_instants :: "string list \<Rightarrow> (store_error, string list) result" where
  "store_instants [] = Inr []"
| "store_instants (v # vs) =
     bind_result (storeInstant v ''Retention horizon'') (\<lambda>w. bind_result (store_instants vs) (\<lambda>ws. Inr (w # ws)))"

definition delete_claim :: "string \<Rightarrow> claim_store \<Rightarrow> claim_store" where
  "delete_claim k st =
     st\<lparr>cs_claims := filter (\<lambda>r. cr_claimKey r \<noteq> k) (cs_claims st), cs_markers := filter (\<lambda>r. mr_claimKey r \<noteq> k) (cs_markers st),
        cs_events := filter (\<lambda>r. cw_claimKey r \<noteq> k) (cs_events st)\<rparr>"

definition tombstone_row_of :: "effect_tombstone \<Rightarrow> tombstone_row" where
  "tombstone_row_of t = \<lparr>tw_claimKey = et_claimKey t, tw_identityDigest = et_identityDigest t,
     tw_terminalDisposition = et_terminalDisposition t, tw_tombstoneDigest = et_tombstoneDigest t, tw_tombstone = Some t,
     tw_compactedAt = et_compactedAt t, tw_retainUntil = et_retainUntil t\<rparr>"

definition make_tombstone :: "host \<Rightarrow> claim_store \<Rightarrow> string \<Rightarrow> effect_claim_snapshot \<Rightarrow> string \<Rightarrow> string \<Rightarrow> string \<Rightarrow> effect_tombstone" where
  "make_tombstone h st k s resultDigest now retainUntil =
     (let t = \<lparr>et_schema = ''control-room.effect-tombstone/v1'', et_claimKey = k, et_identityDigest = ec_identityDigest s,
            et_terminalDisposition = ec_state s, et_terminalResultDigest = resultDigest,
            et_historyDigest = sha256Digest h (str_array (map cw_eventDigest (claim_events st k))),
            et_compactedAt = now, et_retainUntil = retainUntil, et_tombstoneDigest = []\<rparr>
      in t\<lparr>et_tombstoneDigest := sha256Digest h (tombstone_material t)\<rparr>)"

definition compact_within :: "host \<Rightarrow> string \<Rightarrow> string \<Rightarrow> string \<Rightarrow> claim_store \<Rightarrow> (store_error, compact_answer \<times> claim_store) result" where
  "compact_within h k now retainUntil st =
     bind_result (loadTombstoneWithin h st k) (\<lambda>x. case x of
       Some t \<Rightarrow>
         guard_result (\<not> fullRowExists st k) (StoreConflict ''Full claim and tombstone coexist'') (
         Inr (Compacted (et_retainUntil t) t, st))
     | None \<Rightarrow>
         bind_result (requireFullWithin h st k) (\<lambda>s.
         guard_result (terminal_claim (ec_state s)) (StoreConflict ''Only settled terminal claims may compact'') (
         bind_result (lift_throw (terminalEffectResultDigest h s)) (\<lambda>d.
         let t = make_tombstone h st k s d now retainUntil in
         Inr (Compacted retainUntil t,
           delete_claim k (st\<lparr>cs_tombstones := cs_tombstones st @ [tombstone_row_of t]\<rparr>))))))"

definition compactTerminal ::
    "host \<Rightarrow> string \<Rightarrow> retention_horizons \<Rightarrow> string \<Rightarrow> claim_store \<Rightarrow> (store_error, compact_answer \<times> claim_store) result" where
  "compactTerminal h k horizons compactedAt st =
     (let values = [rh_jobRetentionUntil horizons, rh_destinationIdempotencyUntil horizons,
        rh_authorityLateDeliveryUntil horizons, rh_protocolRetryUntil horizons] in
      if list_ex (\<lambda>v. v = None) values then Inr (RetainedUnknownHorizon, st)
      else bind_result (store_instants (map the values)) (\<lambda>normalized.
        bind_result (lift_throw (iso_text (Max (set (map (\<lambda>v. the (date_parse v)) normalized))))) (\<lambda>retainUntil.
        bind_result (storeInstant compactedAt ''Compaction time'') (\<lambda>now.
        if ms_less (date_parse now) (date_parse retainUntil) then Inr (RetainedUntil retainUntil, st)
        else compact_within h k now retainUntil st))))"


section \<open>The store as a transaction\<close>

datatype claim_command =
    DoClaim effect_claim_request
  | DoMark pre_effect_marker
  | DoApply string settlement
  | DoApplyChecked string settlement settlement_guard
  | DoRecover string string string
  | DoCompact string retention_horizons string

datatype claim_reply =
    ReplyClaim claim_answer
  | ReplyMark mark_disposition effect_claim_snapshot
  | ReplyApply apply_disposition effect_claim_snapshot
  | ReplyRecover recover_action effect_claim_snapshot
  | ReplyCompact compact_answer

fun claim_transaction :: "host \<Rightarrow> (claim_command, claim_store, store_error, claim_reply) transaction" where
  "claim_transaction h (DoClaim i) st = bind_result (store_claim h i st) (\<lambda>(a, st'). Inr (ReplyClaim a, st'))"
| "claim_transaction h (DoMark m) st = bind_result (commitPreEffectMarker h m st) (\<lambda>((d, s), st'). Inr (ReplyMark d s, st'))"
| "claim_transaction h (DoApply k e) st = bind_result (claim_apply h k e st) (\<lambda>((d, s), st'). Inr (ReplyApply d s, st'))"
| "claim_transaction h (DoApplyChecked k e g) st = bind_result (applyChecked h k e g st) (\<lambda>((d, s), st'). Inr (ReplyApply d s, st'))"
| "claim_transaction h (DoRecover k i t) st = bind_result (claim_recover h k i t st) (\<lambda>((a, s), st'). Inr (ReplyRecover a s, st'))"
| "claim_transaction h (DoCompact k hs t) st = bind_result (compactTerminal h k hs t st) (\<lambda>(a, st'). Inr (ReplyCompact a, st'))"

end
