(* ===== verification/Effect_Guarantees.thy ===== *)
theory Effect_Guarantees
  imports Effect_Claim Policy_Guarantees Execution_Guarantees
begin

text \<open>
  The claims reachable through \<open>applyEffectClaimEvent\<close>: an effect is marked for firing at most once and
  before its deadline, a claim that may have fired is settled only by evidence, recovery never
  repeats it, and a marker made for a claim is accepted for that claim.
\<close>

section \<open>Reachable claims\<close>

inductive effect_claim :: "host \<Rightarrow> effect_claim_creation \<Rightarrow> effect_claim_event list \<Rightarrow> effect_claim_snapshot \<Rightarrow> bool"
  for h i where
  claimed: "createEffectClaimSnapshot h i = Inr s \<Longrightarrow> effect_claim h i [] s"
| event: "effect_claim h i es s \<Longrightarrow> applyEffectClaimEvent h s e = Inr t \<Longrightarrow> effect_claim h i (es @ [e]) t"

definition is_marker_event :: "effect_claim_event \<Rightarrow> bool" where
  "is_marker_event e = (case ce_kind e of CeMarkerCommitted _ \<Rightarrow> True | _ \<Rightarrow> False)"

definition marked :: "effect_claim_event list \<Rightarrow> bool" where
  "marked es = list_ex is_marker_event es"

text \<open>What the state of a claim says about its history and its evidence.\<close>

fun claim_phase :: "effect_claim_event list \<Rightarrow> effect_claim_snapshot \<Rightarrow> effect_claim_lifecycle \<Rightarrow> bool" where
  "claim_phase es s EcClaimed = (\<not> marked es \<and> ec_nonExecutionEvidenceDigest s = None)"
| "claim_phase es s EcExecuting = (marked es \<and> ec_nonExecutionEvidenceDigest s = None)"
| "claim_phase es s EcAmbiguous = (marked es \<and> ec_nonExecutionEvidenceDigest s = None)"
| "claim_phase es s EcConfirmed = (marked es \<and> opt_all digest_pattern (ec_destinationReceiptDigest s) \<and> ec_destinationReceiptDigest s \<noteq> None)"
| "claim_phase es s EcFailed = (marked es = (ec_nonExecutionEvidenceDigest s \<noteq> None) \<and> opt_all digest_pattern (ec_nonExecutionEvidenceDigest s))"
| "claim_phase es s EcCancelled = (\<not> marked es)"

definition claim_fixed :: "host \<Rightarrow> effect_claim_creation \<Rightarrow> effect_claim_snapshot \<Rightarrow> bool" where
  "claim_fixed h i s \<longleftrightarrow> ec_executionId s = cn_executionId i \<and> ec_admissionId s = cn_admissionId i \<and> ec_identity s = cn_identity i
     \<and> ec_claimKey s = computeEffectClaimKey h (cn_identity i) \<and> ec_destinationIdempotencyKey s = ec_claimKey s
     \<and> ec_authorityDigest s = cn_authorityDigest i \<and> ec_effectiveDeadline s = cn_effectiveDeadline i
     \<and> digest_pattern (xi_operationDigest (cn_identity i)) \<and> digest_pattern (cn_authorityDigest i)
     \<and> canonicalInstant h (cn_effectiveDeadline i) ''Effective deadline'' = Inr (cn_effectiveDeadline i)"

definition claim_inv :: "host \<Rightarrow> effect_claim_creation \<Rightarrow> effect_claim_event list \<Rightarrow> effect_claim_snapshot \<Rightarrow> bool" where
  "claim_inv h i es s \<longleftrightarrow> claim_fixed h i s \<and> ec_version s = 1 + int (length es) \<and> claim_phase es s (ec_state s)
     \<and> (ec_markerDigest s \<noteq> None) = marked es \<and> length (filter is_marker_event es) \<le> 1
     \<and> (\<forall>e \<in> set es. is_marker_event e \<longrightarrow> ms_less (date_parse (ce_occurredAt e)) (date_parse (cn_effectiveDeadline i)))"

lemma canonicalInstant_Inr: "canonicalInstant h v l = Inr t \<Longrightarrow> t = v \<and> zod_datetime h False v \<and> instant v \<and> (\<exists>ms. date_parse v = Some ms)"
  by (auto simp: canonicalInstant_def instant_def split: if_splits option.splits)

lemma canonicalInstant_intro: "zod_datetime h False v \<Longrightarrow> instant v \<Longrightarrow> canonicalInstant h v l = Inr v"
  by (simp add: canonicalInstant_def)

lemma require_digest_Inr [simp]: "require_digest v l = Inr d \<longleftrightarrow> d = v \<and> digest_pattern v"
  by (auto simp: require_digest_def)

lemma claim_transitioned_Inr:
  "claim_transitioned h s e st f = Inr t \<Longrightarrow>
     t = (f s)\<lparr>ec_state := st, ec_version := ec_version s + 1, ec_updatedAt := ce_occurredAt e\<rparr>
     \<and> (\<exists>ms. date_parse (ce_occurredAt e) = Some ms)"
  by (auto simp: claim_transitioned_def dest!: canonicalInstant_Inr)

lemma marked_snoc [simp]: "marked (es @ [e]) \<longleftrightarrow> marked es \<or> is_marker_event e"
  by (simp add: marked_def)

lemma not_marked_filter: "\<not> marked es \<Longrightarrow> filter is_marker_event es = []"
  by (auto simp: marked_def list_ex_iff filter_empty_conv)

lemma claim_inv_claimed:
  assumes "createEffectClaimSnapshot h i = Inr s" shows "claim_inv h i [] s"
  using assms unfolding createEffectClaimSnapshot_def
  by (auto simp: claim_inv_def claim_fixed_def marked_def canonicalInstant_intro dest!: canonicalInstant_Inr)

lemma claim_inv_event:
  assumes inv: "claim_inv h i es s" and ev: "applyEffectClaimEvent h s e = Inr t"
  shows "claim_inv h i (es @ [e]) t"
proof -
  have fixed: "claim_fixed h i s" and ver: "ec_version s = 1 + int (length es)" and phase: "claim_phase es s (ec_state s)"
    and mark: "(ec_markerDigest s \<noteq> None) = marked es" and once: "length (filter is_marker_event es) \<le> 1"
    and early: "\<And>e. e \<in> set es \<Longrightarrow> is_marker_event e \<Longrightarrow> ms_less (date_parse (ce_occurredAt e)) (date_parse (cn_effectiveDeadline i))"
    using inv unfolding claim_inv_def by blast+
  have kind: "apply_claim_kind h s e (ce_kind e) = Inr t"
    using ev by (simp add: applyEffectClaimEvent_def)
  have deadline: "ec_effectiveDeadline s = cn_effectiveDeadline i" using fixed by (simp add: claim_fixed_def)
  have keep: "claim_inv h i (es @ [e]) t"
    if "claim_fixed h i t" "ec_version t = ec_version s + 1" "claim_phase (es @ [e]) t (ec_state t)"
      "ec_markerDigest t = ec_markerDigest s" "\<not> is_marker_event e"
    using that ver mark once early unfolding claim_inv_def by auto
  show ?thesis
  proof (cases "ce_kind e")
    case (CeMarkerCommitted m)
    then have st: "ec_state s = EcClaimed" and dl: "\<not> ms_leq (date_parse (ec_effectiveDeadline s)) (date_parse (ce_occurredAt e))"
      and tr: "claim_transitioned h s e EcExecuting (\<lambda>t. t\<lparr>ec_markerDigest := Some m\<rparr>) = Inr t"
      using kind by auto
    obtain ms where t: "t = (s\<lparr>ec_markerDigest := Some m\<rparr>)\<lparr>ec_state := EcExecuting, ec_version := ec_version s + 1,
        ec_updatedAt := ce_occurredAt e\<rparr>" and ms: "date_parse (ce_occurredAt e) = Some ms"
      using claim_transitioned_Inr [OF tr] by blast
    have none: "\<not> marked es" "ec_nonExecutionEvidenceDigest s = None" using phase st by simp_all
    obtain d where d: "date_parse (cn_effectiveDeadline i) = Some d"
      using fixed canonicalInstant_Inr unfolding claim_fixed_def by blast
    then have "ms < d" using dl ms deadline by simp
    then show ?thesis
      using fixed ver none CeMarkerCommitted early d ms not_marked_filter [OF none(1)]
      by (auto simp: claim_inv_def claim_fixed_def t is_marker_event_def)
  next
    case (CeAmbiguityRaised r)
    then have "ec_state s = EcExecuting" "t = s\<lparr>ec_state := EcAmbiguous, ec_version := ec_version s + 1, ec_updatedAt := ce_occurredAt e\<rparr>"
      using kind claim_transitioned_Inr by fastforce+
    then show ?thesis using keep fixed phase CeAmbiguityRaised by (simp add: claim_fixed_def is_marker_event_def)
  next
    case (CeConfirmed r)
    then have "ec_state s = EcExecuting \<or> ec_state s = EcAmbiguous" "digest_pattern r"
      "t = (s\<lparr>ec_destinationReceiptDigest := Some r\<rparr>)\<lparr>ec_state := EcConfirmed, ec_version := ec_version s + 1, ec_updatedAt := ce_occurredAt e\<rparr>"
      using kind claim_transitioned_Inr by fastforce+
    then show ?thesis using keep fixed phase CeConfirmed by (auto simp: claim_fixed_def is_marker_event_def)
  next
    case (CeFailed c evd)
    then have st: "ec_state s \<in> {EcClaimed, EcExecuting, EcAmbiguous}" "ec_state s = EcClaimed \<Longrightarrow> evd = None"
        "ec_state s \<noteq> EcClaimed \<Longrightarrow> evd \<noteq> None" "opt_all digest_pattern evd"
      and tr: "claim_transitioned h s e EcFailed (\<lambda>t. (case evd of None \<Rightarrow> t | Some d \<Rightarrow> t\<lparr>ec_nonExecutionEvidenceDigest := Some d\<rparr>)
          \<lparr>ec_safeFailureCode := Some c\<rparr>) = Inr t"
      using kind by (cases evd; auto)+
    have t: "t = ((case evd of None \<Rightarrow> s | Some d \<Rightarrow> s\<lparr>ec_nonExecutionEvidenceDigest := Some d\<rparr>)\<lparr>ec_safeFailureCode := Some c\<rparr>)
        \<lparr>ec_state := EcFailed, ec_version := ec_version s + 1, ec_updatedAt := ce_occurredAt e\<rparr>"
      using claim_transitioned_Inr [OF tr] by blast
    have "claim_fixed h i t" "ec_version t = ec_version s + 1" "ec_markerDigest t = ec_markerDigest s" "ec_state t = EcFailed"
      using fixed by (simp_all add: t claim_fixed_def split: option.splits)
    moreover have "claim_phase (es @ [e]) t EcFailed"
      using st phase CeFailed by (auto simp: t is_marker_event_def split: option.splits)
    ultimately show ?thesis using keep CeFailed by (simp add: is_marker_event_def)
  next
    case CeCancelled
    then have "ec_state s = EcClaimed" "t = s\<lparr>ec_state := EcCancelled, ec_version := ec_version s + 1, ec_updatedAt := ce_occurredAt e\<rparr>"
      using kind claim_transitioned_Inr by fastforce+
    then show ?thesis using keep fixed phase CeCancelled by (simp add: claim_fixed_def is_marker_event_def)
  qed
qed

lemma effect_claim_inv: "effect_claim h i es s \<Longrightarrow> claim_inv h i es s"
  by (induction rule: effect_claim.induct) (auto intro: claim_inv_claimed claim_inv_event)


section \<open>Guarantees\<close>

text \<open>
  An effect is fired at most once per claim and never late: whatever the sequence of accepted events,
  at most one of them commits the marker that permits firing, it happened strictly before the
  claim's deadline, and the claim key is the digest of the identity the claim was created for.
\<close>

lemma effect_fired_at_most_once:
  assumes "effect_claim h i es s"
  shows "length (filter is_marker_event es) \<le> 1
    \<and> (\<forall>e \<in> set es. is_marker_event e \<longrightarrow> ms_less (date_parse (ce_occurredAt e)) (date_parse (cn_effectiveDeadline i)))
    \<and> ec_claimKey s = computeEffectClaimKey h (cn_identity i) \<and> ec_destinationIdempotencyKey s = ec_claimKey s"
  using effect_claim_inv [OF assms] by (simp add: claim_inv_def claim_fixed_def)

text \<open>
  C16. A claim whose effect may have fired is settled only by evidence: it ends confirmed with a
  destination receipt or failed with evidence of non-execution, and is never cancelled; a claim
  that was never marked is never confirmed and fails without destination evidence.
\<close>

theorem settled_by_evidence:
  assumes "effect_claim h i es s" and "terminal_claim (ec_state s)"
  shows "(marked es \<longrightarrow>
      ec_state s = EcConfirmed \<and> ec_destinationReceiptDigest s \<noteq> None
      \<or> ec_state s = EcFailed \<and> ec_nonExecutionEvidenceDigest s \<noteq> None)
    \<and> (\<not> marked es \<longrightarrow> ec_state s = EcCancelled \<or> ec_state s = EcFailed \<and> ec_nonExecutionEvidenceDigest s = None)"
  using effect_claim_inv [OF assms(1)] assms(2)
  by (cases "ec_state s") (auto simp: claim_inv_def terminal_claim_def)

text \<open>How far a claim is: the events it has accepted when it is in a state that is not final.\<close>

lemma claim_progress:
  assumes "effect_claim h i es s"
  shows "(ec_state s = EcClaimed \<longrightarrow> length es = 0) \<and> (ec_state s = EcExecuting \<longrightarrow> length es = 1) \<and> (ec_state s = EcAmbiguous \<longrightarrow> length es = 2)
    \<and> length es \<le> 3"
  using assms
proof (induction rule: effect_claim.induct)
  case (claimed s)
  then show ?case by (auto simp: createEffectClaimSnapshot_def)
next
  case (event es s e t)
  then have "apply_claim_kind h s e (ce_kind e) = Inr t" and "ec_state s \<in> {EcClaimed, EcExecuting, EcAmbiguous}"
    by (cases "ec_state s"; simp add: applyEffectClaimEvent_def terminal_claim_def)+
  then show ?case using event.IH
    by (cases "ce_kind e") (auto dest!: claim_transitioned_Inr simp: split: option.splits)
qed

lemma claim_time_canonical: "effect_claim h i es s \<Longrightarrow> canonicalInstant h (ec_updatedAt s) l = Inr (ec_updatedAt s)"
proof (induction rule: effect_claim.induct)
  case (claimed s)
  then show ?case by (auto simp: createEffectClaimSnapshot_def intro: canonicalInstant_intro dest!: canonicalInstant_Inr)
next
  case (event es s e t)
  have moved: "canonicalInstant h (ec_updatedAt u) l = Inr (ec_updatedAt u)" if "claim_transitioned h s e st f = Inr u" for st f u
    using that by (auto simp: claim_transitioned_def intro: canonicalInstant_intro dest!: canonicalInstant_Inr)
  have "apply_claim_kind h s e (ce_kind e) = Inr t" using event.hyps(2) by (simp add: applyEffectClaimEvent_def)
  then show ?case by (cases "ce_kind e") (auto intro: moved)
qed

lemma claim_can_settle:
  assumes c: "effect_claim h i es s" and "\<not> terminal_claim (ec_state s)"
  shows "\<exists>e t. applyEffectClaimEvent h s e = Inr t \<and> terminal_claim (ec_state t)"
proof -
  have token: "safeToken ''event:1'' l = Inr ''event:1''" for l by (simp add: safeToken_def id_eval)
  have digest: "digest_pattern d0" by simp
  let ?e = "\<lambda>kind. \<lparr>ce_eventId = ''event:1'', ce_occurredAt = ec_updatedAt s, ce_kind = kind\<rparr>"
  have move: "\<exists>t. claim_transitioned h s (?e kind) st f = Inr t \<and> ec_state t = st" for kind st f
    by (simp add: claim_transitioned_def claim_time_canonical [OF c] ms_less_iff)
  show ?thesis
  proof (cases "ec_state s = EcClaimed")
    case True
    then have "applyEffectClaimEvent h s (?e CeCancelled) = claim_transitioned h s (?e CeCancelled) EcCancelled id"
      by (simp add: applyEffectClaimEvent_def token terminal_claim_def)
    moreover obtain t where "claim_transitioned h s (?e CeCancelled) EcCancelled id = Inr t" "ec_state t = EcCancelled" using move by blast
    ultimately show ?thesis by (intro exI [of _ "?e CeCancelled"] exI [of _ t]) (simp add: terminal_claim_def)
  next
    case False
    then have "ec_state s = EcExecuting \<or> ec_state s = EcAmbiguous" using assms(2) by (cases "ec_state s") (simp_all add: terminal_claim_def)
    then have "applyEffectClaimEvent h s (?e (CeConfirmed d0))
        = claim_transitioned h s (?e (CeConfirmed d0)) EcConfirmed (\<lambda>t. t\<lparr>ec_destinationReceiptDigest := Some d0\<rparr>)"
      using digest by (auto simp: applyEffectClaimEvent_def token terminal_claim_def require_digest_def)
    moreover obtain t where "claim_transitioned h s (?e (CeConfirmed d0)) EcConfirmed (\<lambda>t. t\<lparr>ec_destinationReceiptDigest := Some d0\<rparr>) = Inr t" "ec_state t = EcConfirmed"
      using move by blast
    ultimately show ?thesis by (intro exI [of _ "?e (CeConfirmed d0)"] exI [of _ t]) (simp add: terminal_claim_def)
  qed
qed


text \<open>
  Recovery never repeats an effect: a claim is re-evaluated for dispatch exactly when it is open and
  its marker was never committed, and a marked open claim is declared ambiguous or waits for evidence.
  The check before an effect sees a usable claim only while a marked claim is executing.
\<close>

lemma recovery_never_refires:
  assumes "effect_claim h i es s"
  shows "(classifyEffectClaimRecovery s = ReEvaluateClaimed \<longleftrightarrow> \<not> terminal_claim (ec_state s) \<and> \<not> marked es)
    \<and> (marked es \<and> \<not> terminal_claim (ec_state s) \<longrightarrow> classifyEffectClaimRecovery s \<in> {MarkAmbiguous, AwaitEvidence})
    \<and> (effectClaimStateForPreEffect (Some s) = ClaimClaimed \<longleftrightarrow> ec_state s = EcExecuting)"
  using effect_claim_inv [OF assms]
  by (cases "ec_state s") (auto simp: claim_inv_def terminal_claim_def classifyEffectClaimRecovery_def effectClaimStateForPreEffect_def)

lemma operation_fields_of_request:
  "lr_externalEffect r \<Longrightarrow> pre_effect_operation_fields
     \<lparr>po_tenantId = lr_tenantId r, po_nodeId = lr_nodeId r, po_projectId = lr_projectId r,
      po_jobId = lr_jobId r, po_attemptId = lr_attemptId r, po_executorId = lr_executorId r,
      po_operationId = lr_operationId r, po_credentialRefs = lr_credentialRefs r, po_target = lr_target r,
      po_risk = lr_risk r, po_externalEffect = True, po_estimatedDurationSeconds = lr_estimatedDurationSeconds r,
      po_payloadDigest = lr_payloadDigest r, po_estimatedCostUsd = lr_estimatedCostUsd r\<rparr> = operation_fields r"
  by (simp add: pre_effect_operation_fields_def operation_fields_def)

text \<open>
  A marker made for a claim is accepted for that claim: when the marker is created for the request
  whose operation the claim identifies and the claim is not yet marked, the marker passes the binding
  check, and committing it moves the claim to executing. SHA-256 is assumed to give 64 hexadecimal digits.
\<close>

lemma created_marker_commits:
  assumes "\<And>t. length (sha256_hex h t) = 64 \<and> list_all is_hex (sha256_hex h t)"
    and "effect_claim h i es s" and "createPreEffectMarker h markerId s request authority deadline at' = Inr m"
    and "lr_operationDigest request = xi_operationDigest (ec_identity s)"
    and "\<not> ms_less (date_parse at') (date_parse (ec_updatedAt s))"
  shows "validatePreEffectMarkerBinding h m s = Inr ()
    \<and> (\<exists>t. applyEffectClaimEvent h s \<lparr>ce_eventId = pm_markerId m, ce_occurredAt = pm_markedAt m,
          ce_kind = CeMarkerCommitted (sha256Digest h v)\<rparr> = Inr t
        \<and> ec_state t = EcExecuting \<and> ec_markerDigest t = Some (sha256Digest h v))"
proof -
  have hash: "digest_pattern (sha256Digest h v)" for v
    using assms(1) by (simp add: sha256Digest_def digest_pattern_def)
  have inv: "claim_fixed h i s" "claim_phase es s (ec_state s)" "(ec_markerDigest s \<noteq> None) = marked es"
    using effect_claim_inv [OF assms(2)] by (simp_all add: claim_inv_def)
  have g: "\<not> (lr_operationId request = NATIVE_START \<and> lr_payloadDigest request = None)"
    "zod_datetime h False at'" "instant at'" "ec_state s = EcClaimed"
    "\<not> ms_leq (date_parse (ec_effectiveDeadline s)) (date_parse at')" "safeToken markerId ''Marker ID'' = Inr markerId"
    "authority = ec_authorityDigest s" "deadline = ec_effectiveDeadline s"
    "computeEffectClaimKey h (request_identity request) = ec_claimKey s"
    "computeNormalizedOperationDigest h request = lr_operationDigest request" "lr_externalEffect request"
    "opt_all digest_pattern (lr_payloadDigest request)"
    and m: "m = \<lparr>pm_schema = ''control-room.pre-effect-marker/v1'', pm_markerId = markerId, pm_claimKey = ec_claimKey s,
        pm_requestDigest = sha256Digest h (request_json request), pm_operationDigest = lr_operationDigest request,
        pm_operation = \<lparr>po_tenantId = lr_tenantId request, po_nodeId = lr_nodeId request, po_projectId = lr_projectId request,
          po_jobId = lr_jobId request, po_attemptId = lr_attemptId request, po_executorId = lr_executorId request,
          po_operationId = lr_operationId request, po_credentialRefs = lr_credentialRefs request, po_target = lr_target request,
          po_risk = lr_risk request, po_externalEffect = True,
          po_estimatedDurationSeconds = lr_estimatedDurationSeconds request, po_payloadDigest = lr_payloadDigest request,
          po_estimatedCostUsd = lr_estimatedCostUsd request\<rparr>,
        pm_authorityDigest = authority, pm_effectiveDeadline = deadline, pm_markedAt = at'\<rparr>"
    using assms(3) unfolding createPreEffectMarker_def
    by (auto simp: safeToken_def split: option.splits if_splits dest!: canonicalInstant_Inr)
  have fixed: "digest_pattern (xi_operationDigest (ec_identity s))" "digest_pattern (ec_authorityDigest s)"
    "zod_datetime h False (ec_effectiveDeadline s)" "instant (ec_effectiveDeadline s)"
    "ec_claimKey s = computeEffectClaimKey h (ec_identity s)"
    using inv(1) canonicalInstant_Inr unfolding claim_fixed_def by auto
  have none: "ec_markerDigest s = None" using inv(2,3) g(4) by simp
  have ident: "marker_identity m = request_identity request" by (simp add: m marker_identity_def request_identity_def)
  have opd: "computePreEffectOperationDigest h (pm_operation m) = lr_operationDigest request"
    using g(10) operation_fields_of_request [OF g(11)]
    by (simp add: m computePreEffectOperationDigest_def computeNormalizedOperationDigest_def)
  have key: "digest_pattern (ec_claimKey s)" by (simp add: fixed(5) computeEffectClaimKey_def hash)
  have "validatePreEffectMarkerBinding h m s = Inr ()"
    using g fixed none opd ident key hash assms(4)
    by (simp add: validatePreEffectMarkerBinding_def canonicalInstant_intro require_digest_def m)
  moreover have "\<exists>t. applyEffectClaimEvent h s \<lparr>ce_eventId = pm_markerId m, ce_occurredAt = pm_markedAt m,
          ce_kind = CeMarkerCommitted (sha256Digest h v)\<rparr> = Inr t
        \<and> ec_state t = EcExecuting \<and> ec_markerDigest t = Some (sha256Digest h v)"
    using g hash assms(5)
    by (simp add: m applyEffectClaimEvent_def terminal_claim_def safeToken_def claim_transitioned_def canonicalInstant_intro
        require_digest_def split: if_splits)
  ultimately show ?thesis ..
qed


section \<open>A concrete claim\<close>

definition sample_claim_creation :: effect_claim_creation where
  "sample_claim_creation = \<lparr>cn_executionId = ''execution:1'', cn_admissionId = ''admission:1'',
     cn_identity = request_identity (sample_request ''request:1''), cn_authorityDigest = d0,
     cn_effectiveDeadline = ''2025-06-01T00:15:00.000Z'', cn_createdAt = ''2025-06-01T00:10:00.000Z''\<rparr>"

definition sample_claim :: effect_claim_snapshot where
  "sample_claim = \<lparr>ec_schema = ''control-room.effect-claim/v1'', ec_claimKey = d0, ec_destinationIdempotencyKey = d0,
     ec_executionId = ''execution:1'', ec_admissionId = ''admission:1'', ec_identity = request_identity (sample_request ''request:1''),
     ec_identityDigest = d0, ec_authorityDigest = d0, ec_effectiveDeadline = ''2025-06-01T00:15:00.000Z'', ec_state = EcClaimed,
     ec_markerDigest = None, ec_destinationReceiptDigest = None, ec_nonExecutionEvidenceDigest = None, ec_safeFailureCode = None,
     ec_version = 1, ec_createdAt = ''2025-06-01T00:10:00.000Z'', ec_updatedAt = ''2025-06-01T00:10:00.000Z''\<rparr>"

lemma sample_canonical [simp]:
  "canonicalInstant sample_host ''2025-06-01T00:10:00.000Z'' l = Inr ''2025-06-01T00:10:00.000Z''"
  "canonicalInstant sample_host ''2025-06-01T00:12:00.000Z'' l = Inr ''2025-06-01T00:12:00.000Z''"
  "canonicalInstant sample_host ''2025-06-01T00:15:00.000Z'' l = Inr ''2025-06-01T00:15:00.000Z''"
  by (simp_all add: canonicalInstant_def sample_host_def instant_def sample_dates)

lemma d0_token: "safeToken d0 l = Inr d0"
  by (simp add: safeToken_def d0_def sample_digest_def is_id_char_def is_alnum_def is_lower_def is_digit_def is_upper_def
      less_eq_char_def list_all_iff)

lemma sample_claimed: "effect_claim sample_host sample_claim_creation [] sample_claim"
proof (rule effect_claim.claimed)
  have "require_safe_tokens [(l1, ''execution:1''), (l2, ''admission:1''), (l3, ''tenant:1''), (l4, ''node:1''), (l5, ''project:1''),
      (l6, ''job:1''), (l7, ''attempt:1''), (l8, d0)] = Inr ()" for l1 l2 l3 l4 l5 l6 l7 l8
    by (simp add: d0_token) (simp add: safeToken_def id_eval)
  then show "createEffectClaimSnapshot sample_host sample_claim_creation = Inr sample_claim"
    by (simp add: createEffectClaimSnapshot_def sample_claim_creation_def sample_claim_def request_identity_def sample_request_def
        computeEffectClaimKey_def require_digest_def sample_dates)
qed

definition sample_marker_event :: effect_claim_event where
  "sample_marker_event = \<lparr>ce_eventId = ''marker:1'', ce_occurredAt = ''2025-06-01T00:12:00.000Z'', ce_kind = CeMarkerCommitted d0\<rparr>"

lemma sample_token [simp]: "safeToken ''marker:1'' l = Inr ''marker:1''" "safeToken ''event:1'' l = Inr ''event:1''"
  by (simp_all add: safeToken_def id_eval)

lemma sample_marked:
  "effect_claim sample_host sample_claim_creation [sample_marker_event]
     (sample_claim\<lparr>ec_markerDigest := Some d0, ec_state := EcExecuting, ec_version := 2, ec_updatedAt := ''2025-06-01T00:12:00.000Z''\<rparr>)"
  using effect_claim.event [OF sample_claimed, of sample_marker_event]
  by (simp add: applyEffectClaimEvent_def sample_marker_event_def terminal_claim_def sample_claim_def claim_transitioned_def
      require_digest_def sample_dates)

definition sample_cancelled :: effect_claim_snapshot where
  "sample_cancelled = sample_claim\<lparr>ec_state := EcCancelled, ec_version := 2, ec_updatedAt := ''2025-06-01T00:12:00.000Z''\<rparr>"

lemma sample_cancel:
  "effect_claim sample_host sample_claim_creation
     [\<lparr>ce_eventId = ''event:1'', ce_occurredAt = ''2025-06-01T00:12:00.000Z'', ce_kind = CeCancelled\<rparr>] sample_cancelled"
  using effect_claim.event [OF sample_claimed,
      of "\<lparr>ce_eventId = ''event:1'', ce_occurredAt = ''2025-06-01T00:12:00.000Z'', ce_kind = CeCancelled\<rparr>"]
  by (simp add: applyEffectClaimEvent_def terminal_claim_def sample_claim_def sample_cancelled_def claim_transitioned_def sample_dates)

theorem settled_by_evidence_witness:
  "terminal_claim (ec_state sample_cancelled) \<and> (ec_state sample_cancelled = EcCancelled
     \<or> ec_state sample_cancelled = EcFailed \<and> ec_nonExecutionEvidenceDigest sample_cancelled = None)"
proof -
  have t: "terminal_claim (ec_state sample_cancelled)" by (simp add: terminal_claim_def sample_cancelled_def)
  have "\<not> marked [\<lparr>ce_eventId = ''event:1'', ce_occurredAt = ''2025-06-01T00:12:00.000Z'', ce_kind = CeCancelled\<rparr>]"
    by (simp add: marked_def is_marker_event_def)
  with settled_by_evidence [OF sample_cancel t] t show ?thesis by blast
qed


end
