(* ===== verification/Effect_Store_Guarantees.thy ===== *)
theory Effect_Store_Guarantees
  imports Effect_Claim_Store Effect_Guarantees
begin

text \<open>
  What the store of effect claims guarantees. Whatever the database holds, a claim that passes the checks
  of the loader is a run of the claim machine over the logged events, up to a collision of the hash. In every
  store that the operations themselves produce the checks pass and the snapshot is exactly that run. Over
  every sequence of operations, with redeliveries, recoveries and compactions in any order, an effect is
  released for dispatch at most once and marked for firing at most once.
\<close>

section \<open>Replaying the log\<close>

lemma effect_claim_iff_replay:
  "effect_claim h i es s \<longleftrightarrow> replay (createEffectClaimSnapshot h) (applyEffectClaimEvent h) i es = Inr s"
proof
  show "effect_claim h i es s \<Longrightarrow> replay (createEffectClaimSnapshot h) (applyEffectClaimEvent h) i es = Inr s"
    by (induction rule: effect_claim.induct) (simp_all add: replay_snoc)
next
  show "replay (createEffectClaimSnapshot h) (applyEffectClaimEvent h) i es = Inr s \<Longrightarrow> effect_claim h i es s"
  proof (induction es arbitrary: s rule: rev_induct)
    case Nil
    then show ?case by (simp add: effect_claim.claimed)
  next
    case (snoc e es)
    then show ?case by (auto simp: replay_snoc intro: effect_claim.event)
  qed
qed

lemma created_claim:
  assumes "createEffectClaimSnapshot h i = Inr s"
  shows "creation_of s = i \<and> ec_version s = 1 \<and> ec_state s = EcClaimed \<and> ec_markerDigest s = None
    \<and> ec_claimKey s = computeEffectClaimKey h (ec_identity s) \<and> ec_identityDigest s = sha256Digest h (JObj (effect_identity_fields (ec_identity s)))"
  using assms unfolding createEffectClaimSnapshot_def by (auto simp: creation_of_def dest!: canonicalInstant_Inr)

lemma apply_claim_keeps:
  assumes "applyEffectClaimEvent h s e = Inr t"
  shows "creation_of t = creation_of s \<and> ec_claimKey t = ec_claimKey s \<and> ec_identityDigest t = ec_identityDigest s
    \<and> ec_version t = ec_version s + 1 \<and> ec_markerDigest t = (case ce_kind e of CeMarkerCommitted d \<Rightarrow> Some d | _ \<Rightarrow> ec_markerDigest s)"
proof -
  have kind: "apply_claim_kind h s e (ce_kind e) = Inr t" using assms by (simp add: applyEffectClaimEvent_def)
  then show ?thesis
    by (cases "ce_kind e") (auto simp: creation_of_def dest!: claim_transitioned_Inr split: option.splits)
qed

interpretation claim_machine: event_machine "createEffectClaimSnapshot h" "applyEffectClaimEvent h" ec_version ec_createdAt for h
proof
  show "createEffectClaimSnapshot h i = Inr s \<Longrightarrow> ec_version s = 1" for i s using created_claim by blast
  show "applyEffectClaimEvent h s e = Inr t \<Longrightarrow> ec_version t = ec_version s + 1" for s e t using apply_claim_keeps by blast
  show "applyEffectClaimEvent h s e = Inr t \<Longrightarrow> ec_createdAt t = ec_createdAt s" for s e t
    using apply_claim_keeps [of h s e t] by (simp add: creation_of_def)
qed

lemma replay_logged_Inr [simp]:
  "replay_logged h s e = Inr t \<longleftrightarrow> (\<exists>x. e = LogEvent x \<and> applyEffectClaimEvent h s x = Inr t)"
  by (cases e) simp_all

lemma verify_claim_rows_later:
  "verify_claim_rows h s False p r rows = Inr (q, r') \<Longrightarrow>
     \<exists>es. map cw_event rows = map (\<lambda>e. Some (LogEvent e)) es \<and> replay_events (applyEffectClaimEvent h) r es = Inr r'"
proof (induction rows arbitrary: p r)
  case (Cons row rows)
  then obtain e r1 where e: "cw_event row = Some (LogEvent e)" and r1: "applyEffectClaimEvent h r e = Inr r1"
    and rest: "verify_claim_rows h s False (Some (cw_toState row)) r1 rows = Inr (q, r')"
    by (auto split: option.splits simp del: logged_json.simps)
  from Cons.IH [OF rest] obtain es where "map cw_event rows = map (\<lambda>e. Some (LogEvent e)) es"
    "replay_events (applyEffectClaimEvent h) r1 es = Inr r'" by blast
  with e r1 show ?case by (intro exI [of _ "e # es"]) simp
qed simp

lemma verify_claim_rows_first:
  assumes "verify_claim_rows h s True None r rows = Inr (Some q, r')"
  obtains row rows' e es where "rows = row # rows'" and "cw_event row = Some e"
    and "sha256Digest h (logged_json e) = sha256Digest h (logged_json (creation_event s))"
    and "map cw_event rows' = map (\<lambda>e. Some (LogEvent e)) es"
    and "replay_events (applyEffectClaimEvent h) r es = Inr r'"
proof -
  obtain row rows' where rows: "rows = row # rows'" using assms by (cases rows) auto
  with assms obtain e where e: "cw_event row = Some e"
    "sha256Digest h (logged_json e) = sha256Digest h (logged_json (creation_event s))"
    and rest: "verify_claim_rows h s False (Some (cw_toState row)) r rows' = Inr (Some q, r')"
    by (auto split: option.splits simp del: logged_json.simps)
  from verify_claim_rows_later [OF rest] e rows that show thesis by blast
qed

lemma loadFullWithin_Some:
  assumes "loadFullWithin h st k True = Inr (Some s)"
  obtains row where "claim_row_for st k = Some row" and "cr_snapshot row = Some s" and "\<not> claim_mirror_mismatch h row s"
    and "verify_marker h st k s = Inr ()" and "verifyHistoryWithin h st s = Inr ()"
  using assms by (auto simp: loadFullWithin_def split: option.splits)

lemma verifyHistoryWithin_Inr:
  assumes "verifyHistoryWithin h st s = Inr ()"
  obtains r0 r where "int (length (claim_events st (ec_claimKey s))) = ec_version s"
    and "createEffectClaimSnapshot h (creation_of s) = Inr r0"
    and "verify_claim_rows h s True None r0 (claim_events st (ec_claimKey s)) = Inr (Some (ec_state s), r)"
    and "sha256Digest h (claim_snapshot_json r) = sha256Digest h (claim_snapshot_json s)"
  using assms by (auto simp: verifyHistoryWithin_def Let_def)

lemma claim_row_for_key: "claim_row_for st k = Some row \<Longrightarrow> row \<in> set (cs_claims st) \<and> cr_claimKey row = k"
  unfolding claim_row_for_def by (drule find_SomeD) simp

lemma distinct_snapshot_fields:
  "claim_snapshot_json s = JObj kvs \<Longrightarrow> distinct (map fst kvs)"
  by (cases "ec_markerDigest s"; cases "ec_destinationReceiptDigest s"; cases "ec_nonExecutionEvidenceDigest s"; cases "ec_safeFailureCode s")
    (auto simp: claim_snapshot_json_def)

lemma map_of_opt_field:
  "map_of (opt_field k f x) j = (if j = k then map_option f x else None)"
  by (simp add: opt_field_def split: option.splits)

lemma snapshot_field:
  "json_field (claim_snapshot_json s) ''schema'' = Some (JStr (ec_schema s))"
  "json_field (claim_snapshot_json s) ''claimKey'' = Some (JStr (ec_claimKey s))"
  "json_field (claim_snapshot_json s) ''destinationIdempotencyKey'' = Some (JStr (ec_destinationIdempotencyKey s))"
  "json_field (claim_snapshot_json s) ''identityDigest'' = Some (JStr (ec_identityDigest s))"
  "json_field (claim_snapshot_json s) ''state'' = Some (JStr (claim_state_text (ec_state s)))"
  "json_field (claim_snapshot_json s) ''updatedAt'' = Some (JStr (ec_updatedAt s))"
  "json_field (claim_snapshot_json s) ''markerDigest'' = map_option JStr (ec_markerDigest s)"
  "json_field (claim_snapshot_json s) ''destinationReceiptDigest'' = map_option JStr (ec_destinationReceiptDigest s)"
  "json_field (claim_snapshot_json s) ''nonExecutionEvidenceDigest'' = map_option JStr (ec_nonExecutionEvidenceDigest s)"
  "json_field (claim_snapshot_json s) ''safeFailureCode'' = map_option JStr (ec_safeFailureCode s)"
  by (simp_all add: claim_snapshot_json_def json_field_def map_of_opt_field map_add_def option.map_comp o_def split: option.splits)

lemma claim_state_text_inject: "claim_state_text a = claim_state_text b \<Longrightarrow> a = b"
  by (cases a; cases b) simp_all

lemma plain_claim_snapshot: "\<bar>ec_version s\<bar> \<le> max_safe_integer \<Longrightarrow> plain_numbers (claim_snapshot_json s)"
  by (cases "ec_markerDigest s"; cases "ec_destinationReceiptDigest s"; cases "ec_nonExecutionEvidenceDigest s"; cases "ec_safeFailureCode s")
    (simp_all add: claim_snapshot_json_def effect_identity_fields_def max_safe_integer_def flip: of_int_abs)

lemma claim_snapshot_digest_inject:
  assumes "sha256Digest h (claim_snapshot_json r) = sha256Digest h (claim_snapshot_json s)"
    and "creation_of r = creation_of s" and "ec_version r = ec_version s" and "\<bar>ec_version s\<bar> \<le> max_safe_integer"
  shows "r = s \<or> hash_collision h (claim_snapshot_json r) (claim_snapshot_json s)"
proof (rule disjCI)
  assume no: "\<not> hash_collision h (claim_snapshot_json r) (claim_snapshot_json s)"
  obtain a b where ab: "claim_snapshot_json r = JObj a" "claim_snapshot_json s = JObj b" by (simp add: claim_snapshot_json_def)
  have "json_field (JObj a) k = json_field (JObj b) k" for k
    using assms no plain_claim_snapshot [of r] plain_claim_snapshot [of s] distinct_snapshot_fields ab
    by (intro digest_fields_agree [where h = h]) simp_all
  then have field: "json_field (claim_snapshot_json r) k = json_field (claim_snapshot_json s) k" for k by (simp add: ab)
  note fields = field [of "''schema''", unfolded snapshot_field] field [of "''claimKey''", unfolded snapshot_field]
    field [of "''destinationIdempotencyKey''", unfolded snapshot_field] field [of "''identityDigest''", unfolded snapshot_field]
    field [of "''state''", unfolded snapshot_field] field [of "''updatedAt''", unfolded snapshot_field]
    field [of "''markerDigest''", unfolded snapshot_field] field [of "''destinationReceiptDigest''", unfolded snapshot_field]
    field [of "''nonExecutionEvidenceDigest''", unfolded snapshot_field] field [of "''safeFailureCode''", unfolded snapshot_field]
  have "ec_state r = ec_state s" using fields(5) claim_state_text_inject by simp
  then show "r = s"
    using fields assms(2,3) by (intro effect_claim_snapshot.equality) (simp_all add: creation_of_def)
qed

lemma replayed_creation:
  "replay_events (applyEffectClaimEvent h) r es = Inr t \<Longrightarrow> creation_of t = creation_of r"
  by (induction es arbitrary: r) (auto dest: apply_claim_keeps)

text \<open>
  C18. Tampering with the claim table is detected: whatever the database holds, a claim the store loads under
  a key is a run of the claim machine for an effect with that key, over exactly the logged events that
  follow its creation record, or SHA-256 collides on the texts of the two snapshots. A version number is a safe integer.
\<close>

theorem loaded_claim_is_genuine:
  assumes "loadFullWithin h st k True = Inr (Some s)" and "ec_version s \<le> max_safe_integer"
  shows "k = computeEffectClaimKey h (ec_identity s)
    \<and> (\<exists>es r. effect_claim h (creation_of s) es r
        \<and> map cw_event (tl (claim_events st k)) = map (\<lambda>e. Some (LogEvent e)) es \<and> ec_version s = 1 + int (length es)
        \<and> (r = s \<or> hash_collision h (claim_snapshot_json r) (claim_snapshot_json s)))"
proof -
  obtain row where row: "claim_row_for st k = Some row" "\<not> claim_mirror_mismatch h row s" "verifyHistoryWithin h st s = Inr ()"
    by (rule loadFullWithin_Some [OF assms(1)])
  have key: "ec_claimKey s = k" "computeEffectClaimKey h (ec_identity s) = k"
    using row(2) claim_row_for_key [OF row(1)] by (auto simp: claim_mirror_mismatch_def)
  obtain r0 r where len: "int (length (claim_events st k)) = ec_version s" and r0: "createEffectClaimSnapshot h (creation_of s) = Inr r0"
    and ver: "verify_claim_rows h s True None r0 (claim_events st k) = Inr (Some (ec_state s), r)"
    and dig: "sha256Digest h (claim_snapshot_json r) = sha256Digest h (claim_snapshot_json s)"
    using verifyHistoryWithin_Inr [OF row(3)] unfolding key(1) by metis
  obtain first rows es where rows: "claim_events st k = first # rows" "map cw_event rows = map (\<lambda>e. Some (LogEvent e)) es"
    and run: "replay_events (applyEffectClaimEvent h) r0 es = Inr r"
    by (rule verify_claim_rows_first [OF ver])
  have claim: "effect_claim h (creation_of s) es r" using r0 run by (simp add: effect_claim_iff_replay replay_def)
  have n: "length rows = length es" using rows(2) map_eq_imp_length_eq by blast
  then have version: "ec_version s = 1 + int (length es)" using len rows(1) by simp
  have "ec_version r = ec_version s"
    using claim_machine.replay_version claim version unfolding effect_claim_iff_replay by metis
  moreover have "creation_of r = creation_of s" using replayed_creation [OF run] created_claim [OF r0] by simp
  ultimately have "r = s \<or> hash_collision h (claim_snapshot_json r) (claim_snapshot_json s)"
    using claim_snapshot_digest_inject [OF dig] assms(2) version by simp
  then show ?thesis using key(2) claim rows version by auto
qed


section \<open>The invariant of the operations\<close>

definition history_exact :: "host \<Rightarrow> claim_event_row list \<Rightarrow> effect_claim_snapshot \<Rightarrow> bool" where
  "history_exact h rows s \<longleftrightarrow> int (length rows) = ec_version s \<and> cw_event (hd rows) = Some (creation_event s)
     \<and> (\<exists>r0. createEffectClaimSnapshot h (creation_of s) = Inr r0 \<and> verify_claim_rows h s True None r0 rows = Inr (Some (ec_state s), s))"

definition claim_row_ok :: "host \<Rightarrow> claim_store \<Rightarrow> claim_row \<Rightarrow> bool" where
  "claim_row_ok h st row \<longleftrightarrow> (\<exists>s. row = claim_row_of h s \<and> \<not> claim_mirror_mismatch h row s
     \<and> verify_marker h st (ec_claimKey s) s = Inr () \<and> history_exact h (claim_events st (ec_claimKey s)) s)"

definition claim_keys :: "claim_store \<Rightarrow> string set" where
  "claim_keys st = cr_claimKey ` set (cs_claims st)"

definition tombstone_keys :: "claim_store \<Rightarrow> string set" where
  "tombstone_keys st = tw_claimKey ` set (cs_tombstones st)"

definition claim_store_inv :: "host \<Rightarrow> claim_store \<Rightarrow> bool" where
  "claim_store_inv h st \<longleftrightarrow> distinct (map cr_claimKey (cs_claims st)) \<and> (\<forall>row \<in> set (cs_claims st). claim_row_ok h st row)
     \<and> mr_claimKey ` set (cs_markers st) \<subseteq> claim_keys st \<and> cw_claimKey ` set (cs_events st) \<subseteq> claim_keys st
     \<and> claim_keys st \<inter> tombstone_keys st = {}"

lemma claim_row_of_key [simp]: "cr_claimKey (claim_row_of h s) = ec_claimKey s"
  by (simp add: claim_row_of_def)

lemma claim_row_for_None: "claim_row_for st k = None \<longleftrightarrow> k \<notin> claim_keys st"
  by (auto simp: claim_row_for_def find_None_iff claim_keys_def)

lemma tombstone_row_for_None: "tombstone_row_for st k = None \<longleftrightarrow> k \<notin> tombstone_keys st"
  by (auto simp: tombstone_row_for_def find_None_iff tombstone_keys_def)

lemma no_claim_no_records:
  assumes "claim_store_inv h st" and "k \<notin> claim_keys st"
  shows "claim_events st k = []" and "marker_of st k = None"
proof -
  have "mr_claimKey ` set (cs_markers st) \<subseteq> claim_keys st" "cw_claimKey ` set (cs_events st) \<subseteq> claim_keys st"
    using assms(1) unfolding claim_store_inv_def by blast+
  then show "claim_events st k = []" "marker_of st k = None"
    using assms(2) by (auto simp: claim_events_def marker_of_def filter_empty_conv find_None_iff)
qed

lemma requireFullWithin_inv:
  assumes "claim_store_inv h st" and "requireFullWithin h st k = Inr s"
  shows "claim_row_of h s \<in> set (cs_claims st)" and "ec_claimKey s = k" and "verify_marker h st k s = Inr ()"
    and "history_exact h (claim_events st k) s" and "\<not> claim_mirror_mismatch h (claim_row_of h s) s"
proof -
  have "loadFullWithin h st k True = Inr (Some s)"
    using assms(2) by (auto simp: requireFullWithin_def split: option.splits)
  then obtain row where row: "claim_row_for st k = Some row" "cr_snapshot row = Some s" by (rule loadFullWithin_Some)
  then have mem: "row \<in> set (cs_claims st)" "cr_claimKey row = k" using claim_row_for_key by blast+
  then obtain t where t: "row = claim_row_of h t" "\<not> claim_mirror_mismatch h row t"
     "verify_marker h st (ec_claimKey t) t = Inr ()" "history_exact h (claim_events st (ec_claimKey t)) t"
    using assms(1) unfolding claim_store_inv_def claim_row_ok_def by blast
  have "t = s" using row(2) t(1) by (simp add: claim_row_of_def)
  moreover have "ec_claimKey t = k" using mem(2) t(1) by simp
  ultimately show "claim_row_of h s \<in> set (cs_claims st)" "ec_claimKey s = k" "verify_marker h st k s = Inr ()"
    "history_exact h (claim_events st k) s" "\<not> claim_mirror_mismatch h (claim_row_of h s) s" using t mem(1) by simp_all
qed

lemma verify_claim_rows_cong:
  "creation_event s = creation_event t \<Longrightarrow> verify_claim_rows h s first p r rows = verify_claim_rows h t first p r rows"
proof (induction rows arbitrary: first p r)
  case (Cons row rows)
  then show ?case by (cases "cw_event row"; cases first) (simp_all del: logged_json.simps)
qed simp

lemma verify_claim_rows_snoc:
  assumes "verify_claim_rows h s first p r rows = Inr (q, t)" and "rows \<noteq> [] \<or> \<not> first"
    and "applyEffectClaimEvent h t e = Inr t'"
    and "cw_event row = Some (LogEvent e)" and "cw_eventDigest row = sha256Digest h (logged_json (LogEvent e))"
    and "cw_eventId row = ce_eventId e" and "cw_occurredAt row = ce_occurredAt e" and "cw_fromState row = q"
    and "cw_transitionDigest row = claim_transition_digest h (LogEvent e) (cw_fromState row) (cw_toState row)"
  shows "verify_claim_rows h s first p r (rows @ [row]) = Inr (Some (cw_toState row), t')"
  using assms(1,2)
proof (induction rows arbitrary: first p r)
  case Nil
  then show ?case using assms(3-) by (simp del: logged_json.simps)
next
  case (Cons a rows)
  then show ?case by (cases first) (auto split: option.splits simp del: logged_json.simps)
qed

lemma history_exact_created:
  assumes "createEffectClaimSnapshot h i = Inr s"
    and "row = \<lparr>cw_sequence = n, cw_claimKey = ec_claimKey s, cw_eventId = logged_id (creation_event s),
      cw_eventDigest = sha256Digest h (logged_json (creation_event s)),
      cw_transitionDigest = claim_transition_digest h (creation_event s) None EcClaimed, cw_event = Some (creation_event s),
      cw_fromState = None, cw_toState = EcClaimed, cw_occurredAt = logged_time (creation_event s)\<rparr>"
  shows "history_exact h [row] s"
  using created_claim [OF assms(1)] assms by (auto simp: history_exact_def simp del: logged_json.simps)

lemma history_exact_event:
  assumes "history_exact h rows s" and "applyEffectClaimEvent h s e = Inr t"
    and "row = \<lparr>cw_sequence = n, cw_claimKey = ec_claimKey t, cw_eventId = logged_id (LogEvent e),
      cw_eventDigest = sha256Digest h (logged_json (LogEvent e)),
      cw_transitionDigest = claim_transition_digest h (LogEvent e) (Some (ec_state s)) (ec_state t), cw_event = Some (LogEvent e),
      cw_fromState = Some (ec_state s), cw_toState = ec_state t, cw_occurredAt = logged_time (LogEvent e)\<rparr>"
  shows "history_exact h (rows @ [row]) t"
proof -
  have keeps: "creation_of t = creation_of s" "creation_event t = creation_event s" "ec_version t = ec_version s + 1"
    using apply_claim_keeps [OF assms(2)] by (simp_all add: creation_event_def creation_of_def)
  obtain r0 where r0: "createEffectClaimSnapshot h (creation_of s) = Inr r0"
    "verify_claim_rows h s True None r0 rows = Inr (Some (ec_state s), s)" using assms(1) unfolding history_exact_def by blast
  have ne: "rows \<noteq> []" using r0(2) by auto
  have "verify_claim_rows h s True None r0 (rows @ [row]) = Inr (Some (cw_toState row), t)"
    by (rule verify_claim_rows_snoc [OF r0(2) _ assms(2)]) (simp_all add: ne assms(3))
  then have "verify_claim_rows h t True None r0 (rows @ [row]) = Inr (Some (ec_state t), t)"
    using verify_claim_rows_cong [OF keeps(2)] by (simp add: assms(3))
  then show ?thesis using assms(1) keeps r0(1) ne by (simp add: history_exact_def)
qed

lemma log_event_Inr:
  "log_event h k e from to st = Inr st' \<Longrightarrow>
     st' = st\<lparr>cs_events := cs_events st @
        [\<lparr>cw_sequence = cs_next st, cw_claimKey = k, cw_eventId = logged_id e, cw_eventDigest = sha256Digest h (logged_json e),
          cw_transitionDigest = claim_transition_digest h e from to, cw_event = Some e, cw_fromState = from, cw_toState = to,
          cw_occurredAt = logged_time e\<rparr>], cs_next := Suc (cs_next st)\<rparr>"
  by (simp add: log_event_def split: if_splits)

text \<open>A row depends on the records of its own key only.\<close>

lemma claim_row_ok_cong:
  assumes "claim_row_ok h st row" and "claim_events st' (cr_claimKey row) = claim_events st (cr_claimKey row)"
    and "marker_of st' (cr_claimKey row) = marker_of st (cr_claimKey row)"
  shows "claim_row_ok h st' row"
proof -
  obtain s where s: "row = claim_row_of h s" "\<not> claim_mirror_mismatch h row s"
    "verify_marker h st (ec_claimKey s) s = Inr ()" "history_exact h (claim_events st (ec_claimKey s)) s"
    using assms(1) unfolding claim_row_ok_def by blast
  then show ?thesis using assms(2,3) unfolding claim_row_ok_def verify_marker_def by (intro exI [of _ s]) simp
qed

lemma set_claim_row:
  assumes "applyEffectClaimEvent h s e = Inr t"
  shows "set_claim h t (claim_row_of h s) = claim_row_of h t"
    and "\<not> claim_mirror_mismatch h (claim_row_of h s) s \<Longrightarrow> \<not> claim_mirror_mismatch h (claim_row_of h t) t"
  using apply_claim_keeps [OF assms] by (simp_all add: set_claim_def claim_row_of_def creation_of_def claim_mirror_mismatch_def)

lemma persistTransition_Inr:
  assumes "persistTransition h s t e st = Inr st'"
  shows "st' = st\<lparr>cs_claims := map (\<lambda>r. if cr_claimKey r = ec_claimKey t \<and> cr_version r = ec_version s then set_claim h t r else r) (cs_claims st),
      cs_events := cs_events st @
        [\<lparr>cw_sequence = cs_next st, cw_claimKey = ec_claimKey t, cw_eventId = logged_id (LogEvent e),
          cw_eventDigest = sha256Digest h (logged_json (LogEvent e)),
          cw_transitionDigest = claim_transition_digest h (LogEvent e) (Some (ec_state s)) (ec_state t), cw_event = Some (LogEvent e),
          cw_fromState = Some (ec_state s), cw_toState = ec_state t, cw_occurredAt = logged_time (LogEvent e)\<rparr>],
      cs_next := Suc (cs_next st)\<rparr>"
  using assms by (auto simp: persistTransition_def split: if_splits dest!: log_event_Inr)

lemma persisted_keys:
  assumes "persistTransition h s t e st = Inr st'"
  shows "map cr_claimKey (cs_claims st') = map cr_claimKey (cs_claims st)" and "cs_tombstones st' = cs_tombstones st"
    and "cs_markers st' = cs_markers st"
  using persistTransition_Inr [OF assms] by (simp_all add: set_claim_def)

lemma claim_step_inv:
  assumes inv: "claim_store_inv h st" and full: "requireFullWithin h st k = Inr s"
    and step: "applyEffectClaimEvent h s e = Inr t"
    and per: "persistTransition h s t e (st\<lparr>cs_markers := ms\<rparr>) = Inr st'"
    and mine: "verify_marker h (st\<lparr>cs_markers := ms\<rparr>) k t = Inr ()"
    and other: "\<And>j. j \<noteq> k \<Longrightarrow> marker_of (st\<lparr>cs_markers := ms\<rparr>) j = marker_of st j"
    and keys: "mr_claimKey ` set ms \<subseteq> claim_keys st"
  shows "claim_store_inv h st'"
proof -
  note s = requireFullWithin_inv [OF inv full]
  have tk: "ec_claimKey t = k" using apply_claim_keeps [OF step] s(2) by simp
  note st' = persistTransition_Inr [OF per, unfolded tk]
  have dist: "distinct (map cr_claimKey (cs_claims st))" using inv unfolding claim_store_inv_def by blast
  have keys': "map cr_claimKey (cs_claims st') = map cr_claimKey (cs_claims st)" using persisted_keys(1) [OF per] by simp
  then have ks: "claim_keys st' = claim_keys st" unfolding claim_keys_def by (metis set_map)
  have marker: "marker_of st' j = marker_of (st\<lparr>cs_markers := ms\<rparr>) j" for j by (simp add: st' marker_of_def)
  have events: "claim_events st' j = claim_events st j" if "j \<noteq> k" for j using that by (simp add: st' claim_events_def)
  have hist: "history_exact h (claim_events st' k) t"
    unfolding st' using history_exact_event [OF s(4) step refl, unfolded tk] by (simp add: claim_events_def)
  have new: "claim_row_ok h st' (claim_row_of h t)"
    unfolding claim_row_ok_def using set_claim_row(2) [OF step s(5)] mine hist
    by (intro exI [of _ t]) (simp add: tk verify_marker_def marker)
  have "claim_row_ok h st' row'" if row': "row' \<in> set (cs_claims st')" for row'
  proof -
    obtain row where row: "row \<in> set (cs_claims st)"
      and eq: "row' = (if cr_claimKey row = k \<and> cr_version row = ec_version s then set_claim h t row else row)"
      using row' by (auto simp: st')
    show ?thesis
    proof (cases "cr_claimKey row = k")
      case True
      then have "row = claim_row_of h s" using distinct_key_eq [OF dist row s(1)] s(2) by simp
      then have "row' = claim_row_of h t" using eq set_claim_row(1) [OF step] s(2) by (simp add: claim_row_of_def)
      then show ?thesis using new by simp
    next
      case False
      then have "row' = row" using eq by simp
      then show ?thesis using claim_row_ok_cong [of h st row st'] inv row False events other marker
        unfolding claim_store_inv_def by simp
    qed
  qed
  moreover have "k \<in> claim_keys st" using s(1,2) unfolding claim_keys_def by force
  moreover have "cs_markers st' = ms" "tombstone_keys st' = tombstone_keys st"
    "cw_claimKey ` set (cs_events st') = insert k (cw_claimKey ` set (cs_events st))"
    by (simp_all add: st' tombstone_keys_def)
  ultimately show ?thesis
    using inv keys unfolding claim_store_inv_def keys' ks by simp
qed

text \<open>What each operation can do to the tables, apart from the messages.\<close>

lemma note_message_tables [simp]:
  "cs_claims (note_message m k st) = cs_claims st" "cs_markers (note_message m k st) = cs_markers st"
  "cs_events (note_message m k st) = cs_events st" "cs_tombstones (note_message m k st) = cs_tombstones st"
  by (simp_all add: note_message_def)

lemma same_tables_inv:
  assumes "cs_claims st' = cs_claims st" "cs_markers st' = cs_markers st" "cs_events st' = cs_events st" "cs_tombstones st' = cs_tombstones st"
  shows "claim_store_inv h st' = claim_store_inv h st"
proof -
  have "claim_keys st' = claim_keys st" "tombstone_keys st' = tombstone_keys st" "\<And>k. claim_events st' k = claim_events st k"
    "\<And>k. marker_of st' k = marker_of st k"
    using assms by (simp_all add: claim_keys_def tombstone_keys_def claim_events_def marker_of_def)
  then show ?thesis using assms by (simp add: claim_store_inv_def claim_row_ok_def verify_marker_def)
qed

lemma store_claim_cases:
  assumes "store_claim h i st = Inr (a, st')"
  obtains (replayed) m k where "st' = note_message m k st" and "\<not> ca_created a" and "ca_disposition a \<noteq> DispatchPermitted"
  | (created) s m st1 where "createEffectClaimSnapshot h (creation_from i) = Inr s" and "ec_claimKey s \<notin> claim_keys st"
    and "ec_claimKey s \<notin> tombstone_keys st" and "ca_created a" and "ca_claimKey a = ec_claimKey s" and "ca_disposition a = DispatchPermitted"
    and "st1 = note_message m (ec_claimKey s) (st\<lparr>cs_claims := cs_claims st @ [claim_row_of h s]\<rparr>)"
    and "log_event h (ec_claimKey s) (creation_event s) None EcClaimed st1 = Inr st'"
proof -
  obtain s where s: "createEffectClaimSnapshot h (creation_from i) = Inr s" and w: "claim_within h i s st = Inr (a, st')"
    using assms by (auto simp: store_claim_def)
  have disp: "claim_disposition x \<noteq> DispatchPermitted" for x by (cases x) simp_all
  obtain x where x: "loadTombstoneWithin h st (ec_claimKey s) = Inr x" using w by (auto simp: claim_within_def Let_def)
  show thesis
  proof (cases x)
    case (Some t)
    with x w replayed disp show thesis by (auto simp: claim_within_def Let_def)
  next
    case None
    with x w obtain y where y: "loadFullWithin h st (ec_claimKey s) True = Inr y" by (auto simp: claim_within_def Let_def)
    have tomb: "ec_claimKey s \<notin> tombstone_keys st"
      using x None by (auto simp: loadTombstoneWithin_def simp flip: tombstone_row_for_None split: option.splits)
    show thesis
    proof (cases y)
      case (Some prior)
      with x y w replayed disp None show thesis by (auto simp: claim_within_def Let_def)
    next
      case none: None
      have free: "ec_claimKey s \<notin> claim_keys st"
        using y none by (auto simp: loadFullWithin_def simp flip: claim_row_for_None split: option.splits)
      from x y w None none show thesis
        using created [OF s free tomb] by (auto simp: claim_within_def Let_def insert_claim_def split: if_splits)
    qed
  qed
qed

lemma commitPreEffectMarker_cases:
  assumes "commitPreEffectMarker h m st = Inr ((d, s), st')"
  obtains (duplicate) "st' = st" and "d = MarkDuplicate"
  | (committed) before where "d = MarkCommitted" and "prior_marker st m = None" and "requireFullWithin h st (pm_claimKey m) = Inr before"
    and "applyEffectClaimEvent h before (marker_event h m) = Inr s"
    and "persistTransition h before s (marker_event h m) (st\<lparr>cs_markers := cs_markers st @ [marker_row_of h m]\<rparr>) = Inr st'"
  using assms by (auto simp: commitPreEffectMarker_def split: option.splits)

text \<open>\<open>apply\<close>, \<open>applyChecked\<close> and \<open>recover\<close> either change nothing or apply one event that is not a marker.\<close>

definition settles :: "host \<Rightarrow> claim_store \<Rightarrow> claim_store \<Rightarrow> bool" where
  "settles h st st' \<longleftrightarrow> st' = st \<or> (\<exists>k s e t. requireFullWithin h st k = Inr s \<and> \<not> is_marker_event e
     \<and> applyEffectClaimEvent h s e = Inr t \<and> persistTransition h s t e st = Inr st')"

lemma settlement_not_marker: "\<not> is_marker_event (settlement_event e)"
  by (cases "sk_kind e") (simp_all add: is_marker_event_def settlement_event_def)

lemma applyWithinGuard_settles:
  assumes "applyWithinGuard h k i g st = Inr (a, st')" shows "settles h st st'"
proof -
  obtain s where s: "requireFullWithin h st k = Inr s" using assms by (auto simp: applyWithinGuard_def Let_def)
  show ?thesis
  proof (cases "logged_event_row st k (ce_eventId (settlement_event i))")
    case None
    with assms s obtain t where "applyEffectClaimEvent h s (settlement_event i) = Inr t"
      "persistTransition h s t (settlement_event i) st = Inr st'"
      by (auto simp: applyWithinGuard_def Let_def simp del: logged_json.simps)
    then show ?thesis using s settlement_not_marker unfolding settles_def by blast
  next
    case (Some row)
    with assms s show ?thesis by (auto simp: applyWithinGuard_def Let_def settles_def simp del: logged_json.simps)
  qed
qed

lemma claim_recover_settles:
  assumes "claim_recover h k eventId at' st = Inr (a, st')" shows "settles h st st'"
proof -
  let ?e = "\<lparr>ce_eventId = eventId, ce_occurredAt = at', ce_kind = CeAmbiguityRaised AmbRestart\<rparr>"
  obtain s where s: "requireFullWithin h st k = Inr s" using assms by (auto simp: claim_recover_def)
  have "st' = st \<or> (\<exists>t. applyEffectClaimEvent h s ?e = Inr t \<and> persistTransition h s t ?e st = Inr st')"
    using assms s by (auto simp: claim_recover_def Let_def split: effect_recovery_action.splits option.splits)
  moreover have "\<not> is_marker_event ?e" by (simp add: is_marker_event_def)
  ultimately show ?thesis using s unfolding settles_def by blast
qed

lemma compactTerminal_cases:
  assumes "compactTerminal h k hs at' st = Inr (a, st')"
  obtains (same) "st' = st"
  | (compacted) s t where "requireFullWithin h st k = Inr s" and "terminal_claim (ec_state s)" and "et_claimKey t = k"
    and "st' = delete_claim k (st\<lparr>cs_tombstones := cs_tombstones st @ [tombstone_row_of t]\<rparr>)"
proof -
  consider "st' = st" | now until where "compact_within h k now until st = Inr (a, st')"
    using assms by (auto simp: compactTerminal_def Let_def split: if_splits)
  then show thesis
  proof cases
    case 1
    then show thesis by (rule same)
  next
    case (2 now until)
    have key: "et_claimKey (make_tombstone h st k s d now until) = k" for s d by (simp add: make_tombstone_def Let_def)
    obtain x where x: "loadTombstoneWithin h st k = Inr x" using 2 by (auto simp: compact_within_def)
    show thesis
    proof (cases x)
      case (Some t)
      with x 2 same show thesis by (auto simp: compact_within_def)
    next
      case None
      with x 2 compacted [OF _ _ key] show thesis by (auto simp: compact_within_def Let_def)
    qed
  qed
qed


section \<open>Every operation keeps the invariant\<close>

lemma store_claim_inv:
  assumes "claim_store_inv h st" and "store_claim h i st = Inr (a, st')"
  shows "claim_store_inv h st'"
  using assms(2)
proof (cases rule: store_claim_cases)
  case (replayed m k)
  then show ?thesis using assms(1) same_tables_inv [of st' st] by simp
next
  case (created s m st1)
  let ?k = "ec_claimKey s"
  note st' = log_event_Inr [OF created(8), unfolded created(7)]
  have rec: "claim_events st ?k = []" "marker_of st ?k = None" using no_claim_no_records [OF assms(1) created(2)] by blast+
  have hist: "history_exact h (claim_events st' ?k) s"
    using history_exact_created [OF created(1) refl] rec(1) by (simp add: st' claim_events_def)
  have "claim_row_ok h st' (claim_row_of h s)"
    unfolding claim_row_ok_def using hist rec(2) created_claim [OF created(1)]
    by (intro exI [of _ s]) (simp add: claim_mirror_mismatch_def claim_row_of_def verify_marker_def st' marker_of_def)
  moreover have "claim_row_ok h st' row" if row: "row \<in> set (cs_claims st)" for row
  proof (rule claim_row_ok_cong)
    show "claim_row_ok h st row" using assms(1) row unfolding claim_store_inv_def by blast
    have "cr_claimKey row \<noteq> ?k" using row created(2) unfolding claim_keys_def by (metis imageI)
    then show "claim_events st' (cr_claimKey row) = claim_events st (cr_claimKey row)" by (simp add: st' claim_events_def)
    show "marker_of st' (cr_claimKey row) = marker_of st (cr_claimKey row)" by (simp add: st' marker_of_def)
  qed
  moreover have "cs_claims st' = cs_claims st @ [claim_row_of h s]" "cs_markers st' = cs_markers st"
    "cw_claimKey ` set (cs_events st') = insert ?k (cw_claimKey ` set (cs_events st))"
    "claim_keys st' = insert ?k (claim_keys st)" "tombstone_keys st' = tombstone_keys st"
    by (simp_all add: st' claim_keys_def tombstone_keys_def)
  moreover have "?k \<notin> cr_claimKey ` set (cs_claims st)" using created(2) by (simp add: claim_keys_def)
  ultimately show ?thesis
    using assms(1) created(3) unfolding claim_store_inv_def by auto
qed

lemma commitPreEffectMarker_inv:
  assumes "claim_store_inv h st" and "commitPreEffectMarker h m st = Inr ((d, s), st')"
  shows "claim_store_inv h st'"
  using assms(2)
proof (cases rule: commitPreEffectMarker_cases)
  case duplicate
  then show ?thesis using assms(1) by simp
next
  case (committed before)
  let ?k = "pm_claimKey m"
  have none: "marker_of st ?k = None" using committed(2) by (auto simp: prior_marker_def marker_of_def find_None_iff)
  have digest: "ec_markerDigest s = Some (sha256Digest h (marker_json m))"
    using apply_claim_keeps [OF committed(4)] by (simp add: marker_event_def)
  have key: "?k \<in> claim_keys st" using requireFullWithin_inv(1,2) [OF assms(1) committed(3)] unfolding claim_keys_def by force
  show ?thesis
  proof (rule claim_step_inv [OF assms(1) committed(3,4,5)])
    show "verify_marker h (st\<lparr>cs_markers := cs_markers st @ [marker_row_of h m]\<rparr>) ?k s = Inr ()"
      using none digest by (simp add: verify_marker_def marker_of_def find_append marker_row_of_def)
    show "marker_of (st\<lparr>cs_markers := cs_markers st @ [marker_row_of h m]\<rparr>) j = marker_of st j" if "j \<noteq> ?k" for j
      using that by (simp add: marker_of_def find_append marker_row_of_def split: option.splits)
    show "mr_claimKey ` set (cs_markers st @ [marker_row_of h m]) \<subseteq> claim_keys st"
      using assms(1) key unfolding claim_store_inv_def by (simp add: marker_row_of_def)
  qed
qed

lemma settles_inv:
  assumes "claim_store_inv h st" and "settles h st st'"
  shows "claim_store_inv h st'"
proof (cases "st' = st")
  case False
  then obtain k s e t where full: "requireFullWithin h st k = Inr s" and e: "\<not> is_marker_event e"
    and step: "applyEffectClaimEvent h s e = Inr t" and per: "persistTransition h s t e st = Inr st'"
    using assms(2) unfolding settles_def by blast
  have "ec_markerDigest t = ec_markerDigest s"
    using apply_claim_keeps [OF step] e by (simp add: is_marker_event_def split: effect_claim_event_kind.splits)
  then have "verify_marker h st k t = Inr ()"
    using requireFullWithin_inv(3) [OF assms(1) full] by (simp add: verify_marker_def)
  moreover have "mr_claimKey ` set (cs_markers st) \<subseteq> claim_keys st" using assms(1) unfolding claim_store_inv_def by blast
  ultimately show ?thesis using claim_step_inv [OF assms(1) full step, of "cs_markers st" st'] per by simp
qed (use assms in simp)

lemma compactTerminal_inv:
  assumes "claim_store_inv h st" and "compactTerminal h k hs at' st = Inr (a, st')"
  shows "claim_store_inv h st'"
  using assms(2)
proof (cases rule: compactTerminal_cases)
  case same
  then show ?thesis using assms(1) by simp
next
  case (compacted s t)
  note st' = compacted(4)[unfolded delete_claim_def]
  have "claim_row_ok h st' row" if "row \<in> set (cs_claims st')" for row
  proof (rule claim_row_ok_cong)
    have row: "row \<in> set (cs_claims st)" "cr_claimKey row \<noteq> k" using that by (simp_all add: st')
    show "claim_row_ok h st row" using assms(1) row(1) unfolding claim_store_inv_def by blast
    show "claim_events st' (cr_claimKey row) = claim_events st (cr_claimKey row)"
      using row(2) by (auto simp: st' claim_events_def intro: filter_cong)
    have "find (\<lambda>r. mr_claimKey r = j) (filter (\<lambda>r. mr_claimKey r \<noteq> k) xs) = find (\<lambda>r. mr_claimKey r = j) xs" if "j \<noteq> k" for j xs
      using that by (induction xs) auto
    then show "marker_of st' (cr_claimKey row) = marker_of st (cr_claimKey row)" using row(2) by (simp add: st' marker_of_def)
  qed
  moreover have "distinct (map cr_claimKey (cs_claims st'))"
    using assms(1) unfolding claim_store_inv_def st' by (simp add: distinct_map_filter)
  moreover have "claim_keys st' = claim_keys st - {k}" "tombstone_keys st' = insert k (tombstone_keys st)"
    using compacted(3) by (auto simp: st' claim_keys_def tombstone_keys_def tombstone_row_of_def)
  moreover have "mr_claimKey ` set (cs_markers st') = mr_claimKey ` set (cs_markers st) - {k}"
    "cw_claimKey ` set (cs_events st') = cw_claimKey ` set (cs_events st) - {k}" by (auto simp: st')
  ultimately show ?thesis using assms(1) unfolding claim_store_inv_def by auto
qed

lemma claim_transaction_inv:
  assumes "claim_store_inv h st" and "claim_transaction h c st = Inr (a, st')"
  shows "claim_store_inv h st'"
proof (cases c)
  case (DoClaim i)
  then show ?thesis using assms store_claim_inv by fastforce
next
  case (DoMark m)
  then show ?thesis using assms commitPreEffectMarker_inv by fastforce
next
  case (DoApply k e)
  then show ?thesis using assms applyWithinGuard_settles settles_inv by (fastforce simp: claim_apply_def)
next
  case (DoApplyChecked k e g)
  then show ?thesis using assms applyWithinGuard_settles settles_inv by (fastforce simp: applyChecked_def)
next
  case (DoRecover k i t)
  then show ?thesis using assms claim_recover_settles settles_inv by fastforce
next
  case (DoCompact k hs t)
  then show ?thesis using assms compactTerminal_inv by fastforce
qed

interpretation claims: guarded_store "claim_transaction h" empty_claim_store "claim_store_inv h" for h
proof
  show "claim_store_inv h empty_claim_store"
    by (simp add: claim_store_inv_def empty_claim_store_def claim_keys_def tombstone_keys_def)
  show "claim_store_inv h st \<Longrightarrow> claim_transaction h c st = Inr (a, st') \<Longrightarrow> claim_store_inv h st'" for st c a st'
    by (rule claim_transaction_inv)
qed


section \<open>Dispatched once, marked once\<close>

definition dispatched :: "string \<Rightarrow> claim_reply \<Rightarrow> bool" where
  "dispatched k a = (case a of ReplyClaim c \<Rightarrow> ca_claimKey c = k \<and> ca_disposition c = DispatchPermitted | _ \<Rightarrow> False)"

definition fired :: "string \<Rightarrow> claim_reply \<Rightarrow> bool" where
  "fired k a = (case a of ReplyMark d s \<Rightarrow> d = MarkCommitted \<and> ec_claimKey s = k | _ \<Rightarrow> False)"

definition marker_keys :: "claim_store \<Rightarrow> string set" where
  "marker_keys st = mr_claimKey ` set (cs_markers st)"

text \<open>Nothing is forgotten: a key stays claimed or becomes a tombstone, and so does a marked key.\<close>

definition remembers :: "claim_store \<Rightarrow> claim_store \<Rightarrow> bool" where
  "remembers st st' \<longleftrightarrow> claim_keys st \<union> tombstone_keys st \<subseteq> claim_keys st' \<union> tombstone_keys st'
     \<and> marker_keys st \<union> tombstone_keys st \<subseteq> marker_keys st' \<union> tombstone_keys st'"

lemma remembers_refl [simp]: "remembers st st"
  by (simp add: remembers_def)

lemma remembersI:
  assumes "set (map cr_claimKey (cs_claims st)) \<subseteq> set (map cr_claimKey (cs_claims st'))" and "set (cs_markers st) \<subseteq> set (cs_markers st')"
    and "cs_tombstones st' = cs_tombstones st"
  shows "remembers st st'"
  using assms image_mono [OF assms(2)] by (auto simp: remembers_def claim_keys_def tombstone_keys_def marker_keys_def)

lemma persist_remembers: "persistTransition h s t e st = Inr st' \<Longrightarrow> remembers st st'"
  using persisted_keys by (intro remembersI) simp_all

lemma settles_remembers: "settles h st st' \<Longrightarrow> remembers st st'"
  unfolding settles_def using persist_remembers by auto

lemma store_claim_remembers:
  assumes "store_claim h i st = Inr (a, st')" shows "remembers st st'"
  using assms
proof (cases rule: store_claim_cases)
  case (created s m st1)
  then show ?thesis by (intro remembersI) (auto dest!: log_event_Inr)
qed (simp add: remembersI)

lemma mark_remembers:
  assumes "commitPreEffectMarker h m st = Inr ((d, s), st')" shows "remembers st st'"
  using assms
proof (cases rule: commitPreEffectMarker_cases)
  case (committed before)
  note p = persisted_keys [OF committed(5)]
  show ?thesis by (rule remembersI) (auto simp: p)
qed (simp add: remembers_def)

lemma compact_remembers:
  assumes "compactTerminal h k hs at' st = Inr (a, st')" shows "remembers st st'"
  using assms
proof (cases rule: compactTerminal_cases)
  case (compacted s t)
  then show ?thesis
    by (auto simp: remembers_def claim_keys_def tombstone_keys_def marker_keys_def delete_claim_def tombstone_row_of_def)
qed (simp add: remembers_def)

lemma claim_transaction_remembers:
  assumes "claim_transaction h c st = Inr (a, st')" shows "remembers st st'"
proof (cases c)
  case (DoClaim i)
  then show ?thesis using assms store_claim_remembers by fastforce
next
  case (DoMark m)
  then show ?thesis using assms mark_remembers by fastforce
next
  case (DoApply k e)
  then show ?thesis using assms applyWithinGuard_settles settles_remembers by (fastforce simp: claim_apply_def)
next
  case (DoApplyChecked k e g)
  then show ?thesis using assms applyWithinGuard_settles settles_remembers by (fastforce simp: applyChecked_def)
next
  case (DoRecover k i t)
  then show ?thesis using assms claim_recover_settles settles_remembers by fastforce
next
  case (DoCompact k hs t)
  then show ?thesis using assms compact_remembers by fastforce
qed

lemma claim_dispatches_new:
  assumes "claim_transaction h c st = Inr (a, st')" and "dispatched k a"
  shows "k \<notin> claim_keys st \<union> tombstone_keys st \<and> k \<in> claim_keys st' \<union> tombstone_keys st'"
proof -
  obtain i r where c: "c = DoClaim i" and r: "a = ReplyClaim r" "ca_claimKey r = k" "ca_disposition r = DispatchPermitted"
    using assms by (cases c) (auto simp: dispatched_def)
  then have "store_claim h i st = Inr (r, st')" using assms(1) by auto
  then show ?thesis
  proof (cases rule: store_claim_cases)
    case (created s m st1)
    then show ?thesis using r log_event_Inr [OF created(8)] by (simp add: claim_keys_def)
  qed (use r in simp)
qed

lemma mark_fires_new:
  assumes "claim_store_inv h st" and "claim_transaction h c st = Inr (a, st')" and "fired k a"
  shows "k \<notin> marker_keys st \<union> tombstone_keys st \<and> k \<in> marker_keys st' \<union> tombstone_keys st'"
proof -
  obtain m s where c: "c = DoMark m" and a: "a = ReplyMark MarkCommitted s" "ec_claimKey s = k"
    using assms(2,3) by (cases c) (auto simp: fired_def)
  then have "commitPreEffectMarker h m st = Inr ((MarkCommitted, s), st')" using assms(2) by auto
  then show ?thesis
  proof (cases rule: commitPreEffectMarker_cases)
    case (committed before)
    note full = requireFullWithin_inv [OF assms(1) committed(3)]
    have key: "pm_claimKey m = k" using apply_claim_keeps [OF committed(4)] full(2) a(2) by simp
    have "k \<in> claim_keys st" using full(1,2) key unfolding claim_keys_def by force
    moreover have "k \<notin> marker_keys st" using committed(2) key by (auto simp: prior_marker_def find_None_iff marker_keys_def)
    moreover have "k \<in> marker_keys st'" using persisted_keys(3) [OF committed(5)] key by (simp add: marker_keys_def marker_row_of_def)
    ultimately show ?thesis using assms(1) unfolding claim_store_inv_def by blast
  qed simp
qed

interpretation dispatches: fires_once_store "claim_transaction h" empty_claim_store "claim_store_inv h" "dispatched k"
    "\<lambda>st. k \<in> claim_keys st \<union> tombstone_keys st" for h k
proof
  fix st c a st' assume "claim_transaction h c st = Inr (a, st')"
  then show "dispatched k a \<Longrightarrow> k \<notin> claim_keys st \<union> tombstone_keys st \<and> k \<in> claim_keys st' \<union> tombstone_keys st'"
    and "k \<in> claim_keys st \<union> tombstone_keys st \<Longrightarrow> k \<in> claim_keys st' \<union> tombstone_keys st'"
    using claim_dispatches_new claim_transaction_remembers unfolding remembers_def by blast+
qed

interpretation markings: fires_once_store "claim_transaction h" empty_claim_store "claim_store_inv h" "fired k"
    "\<lambda>st. k \<in> marker_keys st \<union> tombstone_keys st" for h k
proof
  fix st c a st' assume inv: "claim_store_inv h st" and cmd: "claim_transaction h c st = Inr (a, st')"
  show "fired k a \<Longrightarrow> k \<notin> marker_keys st \<union> tombstone_keys st \<and> k \<in> marker_keys st' \<union> tombstone_keys st'"
    by (rule mark_fires_new [OF inv cmd])
  show "k \<in> marker_keys st \<union> tombstone_keys st \<Longrightarrow> k \<in> marker_keys st' \<union> tombstone_keys st'"
    using claim_transaction_remembers [OF cmd] unfolding remembers_def by blast
qed

text \<open>
  C4. An effect is released at most once: over every sequence of claims, markers, settlements, recoveries and
  compactions, whatever the deliveries and in whatever order, at most one reply permits the dispatch of the
  effect with a given key and at most one commits its marker, even after the claim was compacted away.
\<close>

theorem effect_dispatched_once:
  "length (filter (dispatched k) (run_replies (claim_transaction h) commands empty_claim_store)) \<le> 1
   \<and> length (filter (fired k) (run_replies (claim_transaction h) commands empty_claim_store)) \<le> 1"
  using dispatches.fires_once markings.fires_once by blast

lemma verify_claim_rows_hd:
  "history_exact h rows s \<Longrightarrow> \<exists>es. map cw_event rows = map Some (creation_event s # map LogEvent es) \<and> effect_claim h (creation_of s) es s"
proof -
  assume hist: "history_exact h rows s"
  then obtain r0 where r0: "createEffectClaimSnapshot h (creation_of s) = Inr r0"
    and ver: "verify_claim_rows h s True None r0 rows = Inr (Some (ec_state s), s)" and hd: "cw_event (hd rows) = Some (creation_event s)"
    unfolding history_exact_def by blast
  obtain row rows' es where "rows = row # rows'" "map cw_event rows' = map (\<lambda>e. Some (LogEvent e)) es"
    "replay_events (applyEffectClaimEvent h) r0 es = Inr s" by (rule verify_claim_rows_first [OF ver])
  then show ?thesis using hd r0 by (intro exI [of _ es]) (simp add: effect_claim_iff_replay replay_def comp_def)
qed

text \<open>
  C17. The store implements the claim machine: after every sequence of operations, a key without a claim has
  neither events nor a marker left; a key with a claim loads with every check passed, and its snapshot is the
  run of the machine over exactly the logged events, marked in the marker table if and only if that run is marked.
\<close>

theorem stored_claim_is_replay:
  "let st = run_commands (claim_transaction h) commands empty_claim_store in
   case claim_row_for st k of
     None \<Rightarrow> claim_events st k = [] \<and> marker_of st k = None
   | Some row \<Rightarrow> \<exists>es s. claim_load h st k = Inr (Some (LookupFull s)) \<and> effect_claim h (creation_of s) es s
       \<and> map cw_event (claim_events st k) = map Some (creation_event s # map LogEvent es)
       \<and> (marker_of st k \<noteq> None) = marked es"
proof -
  define st where "st = run_commands (claim_transaction h) commands empty_claim_store"
  have inv: "claim_store_inv h st" unfolding st_def by (rule claims.run_inv)
  show ?thesis
  proof (cases "claim_row_for st k")
    case None
    then show ?thesis using no_claim_no_records [OF inv, of k] claim_row_for_None [of st k] by (simp flip: st_def)
  next
    case (Some row)
    then have row: "row \<in> set (cs_claims st)" "cr_claimKey row = k" using claim_row_for_key by blast+
    then obtain s where s: "row = claim_row_of h s" "\<not> claim_mirror_mismatch h row s" "verify_marker h st k s = Inr ()"
      "history_exact h (claim_events st k) s" "ec_claimKey s = k"
      using inv unfolding claim_store_inv_def claim_row_ok_def by fastforce
    obtain es where es: "map cw_event (claim_events st k) = map Some (creation_event s # map LogEvent es)"
      "effect_claim h (creation_of s) es s" using verify_claim_rows_hd [OF s(4)] by blast
    have "k \<notin> tombstone_keys st" using inv row unfolding claim_store_inv_def claim_keys_def by blast
    then have "loadTombstoneWithin h st k = Inr None" by (simp add: loadTombstoneWithin_def flip: tombstone_row_for_None)
    moreover have "verifyHistoryWithin h st s = Inr ()"
      using s(4,5) unfolding history_exact_def by (auto simp: verifyHistoryWithin_def Let_def)
    moreover have "cr_snapshot row = Some s" by (simp add: s(1) claim_row_of_def)
    ultimately have "claim_load h st k = Inr (Some (LookupFull s))"
      using Some s(2,3) by (simp add: claim_load_def loadFullWithin_def as_malformed_def)
    moreover have "(marker_of st k \<noteq> None) = marked es"
      using s(3) effect_claim_inv [OF es(2)] by (auto simp: verify_marker_def claim_inv_def)
    ultimately show ?thesis using Some es by (simp flip: st_def) blast
  qed
qed


section \<open>A concrete store\<close>

definition sample_claim_store :: claim_store where
  "sample_claim_store = projr (log_event sample_host d0 (creation_event sample_claim) None EcClaimed
     (empty_claim_store\<lparr>cs_claims := [claim_row_of sample_host sample_claim]\<rparr>))"

lemma sample_claim_store_tables:
  "cs_claims sample_claim_store = [claim_row_of sample_host sample_claim]" "cs_markers sample_claim_store = []"
  "cs_events sample_claim_store = [\<lparr>cw_sequence = 1, cw_claimKey = ec_claimKey sample_claim, cw_eventId = logged_id (creation_event sample_claim),
      cw_eventDigest = sha256Digest sample_host (logged_json (creation_event sample_claim)),
      cw_transitionDigest = claim_transition_digest sample_host (creation_event sample_claim) None EcClaimed,
      cw_event = Some (creation_event sample_claim), cw_fromState = None, cw_toState = EcClaimed,
      cw_occurredAt = logged_time (creation_event sample_claim)\<rparr>]"
  by (simp_all add: sample_claim_store_def log_event_def empty_claim_store_def) (simp add: sample_claim_def)

lemma sample_claim_created: "createEffectClaimSnapshot sample_host sample_claim_creation = Inr sample_claim"
  using sample_claimed by (simp add: effect_claim_iff_replay)

lemma sample_claim_loads: "loadFullWithin sample_host sample_claim_store (ec_claimKey sample_claim) True = Inr (Some sample_claim)"
proof -
  note c = created_claim [OF sample_claim_created]
  have "history_exact sample_host (claim_events sample_claim_store (ec_claimKey sample_claim)) sample_claim"
    using history_exact_created [OF sample_claim_created refl] by (simp add: claim_events_def sample_claim_store_tables)
  then have "verifyHistoryWithin sample_host sample_claim_store sample_claim = Inr ()"
    unfolding history_exact_def by (auto simp: verifyHistoryWithin_def Let_def)
  moreover have "verify_marker sample_host sample_claim_store (ec_claimKey sample_claim) sample_claim = Inr ()"
    using c by (simp add: verify_marker_def marker_of_def sample_claim_store_tables)
  moreover have "claim_row_for sample_claim_store (ec_claimKey sample_claim) = Some (claim_row_of sample_host sample_claim)"
    by (simp add: claim_row_for_def sample_claim_store_tables)
  moreover have "\<not> claim_mirror_mismatch sample_host (claim_row_of sample_host sample_claim) sample_claim"
    using c by (simp add: claim_mirror_mismatch_def claim_row_of_def)
  ultimately show ?thesis by (simp add: loadFullWithin_def as_malformed_def) (simp add: claim_row_of_def)
qed

theorem loaded_claim_is_genuine_witness:
  "\<exists>es r. effect_claim sample_host sample_claim_creation es r \<and> map cw_event (tl (claim_events sample_claim_store d0)) = map (\<lambda>e. Some (LogEvent e)) es
     \<and> (r = sample_claim \<or> hash_collision sample_host (claim_snapshot_json r) (claim_snapshot_json sample_claim))"
proof -
  have v: "ec_version sample_claim \<le> max_safe_integer" and k: "ec_claimKey sample_claim = d0"
    by (simp_all add: sample_claim_def max_safe_integer_def)
  have c: "creation_of sample_claim = sample_claim_creation" using created_claim [OF sample_claim_created] by blast
  show ?thesis using loaded_claim_is_genuine [OF sample_claim_loads v] unfolding k c by blast
qed

end
