(* ===== verification/Step_Monad.thy ===== *)
theory Step_Monad
  imports Prelude
begin

text \<open>
  Steps of code that fails half-way. A step takes a state to a result and a state: an error leaves behind what was written
  before it. The persistent security state and the completion gate are written with these steps. A database
  transaction is a step whose error restores one part of the state, the database, and nothing else: a write outside the
  database made in the meantime stays.

  The locale \<open>stepwise_store\<close> carries an invariant through every sequence of such steps, the failing ones included.
\<close>

type_synonym ('s, 'e, 'a) effect_step = "'s \<Rightarrow> ('e, 'a) result \<times> 's"

definition return_step :: "'a \<Rightarrow> ('s, 'e, 'a) effect_step" where
  "return_step a s = (Inr a, s)"

definition fail_step :: "'e \<Rightarrow> ('s, 'e, 'a) effect_step" where
  "fail_step e s = (Inl e, s)"

definition bind_step :: "('s, 'e, 'a) effect_step \<Rightarrow> ('a \<Rightarrow> ('s, 'e, 'b) effect_step) \<Rightarrow> ('s, 'e, 'b) effect_step" where
  "bind_step m f s = (case m s of (Inl e, s') \<Rightarrow> (Inl e, s') | (Inr a, s') \<Rightarrow> f a s')"

definition check_step :: "bool \<Rightarrow> 'e \<Rightarrow> ('s, 'e, unit) effect_step" where
  "check_step ok e s = (if ok then Inr () else Inl e, s)"

definition lift_step :: "('e, 'a) result \<Rightarrow> ('s, 'e, 'a) effect_step" where
  "lift_step r s = (r, s)"

text \<open>A query reads the state; a transaction restores the database when its body fails.\<close>

definition query_step :: "('s \<Rightarrow> ('e, 'a) result) \<Rightarrow> ('s, 'e, 'a) effect_step" where
  "query_step q s = (q s, s)"

definition transaction_step :: "('s \<Rightarrow> 's \<Rightarrow> 's) \<Rightarrow> ('s, 'e, 'a) effect_step \<Rightarrow> ('s, 'e, 'a) effect_step" where
  "transaction_step restore m s = (case m s of (Inl e, s') \<Rightarrow> (Inl e, restore s s') | (Inr a, s') \<Rightarrow> (Inr a, s'))"

lemmas step_defs = return_step_def fail_step_def bind_step_def check_step_def lift_step_def

section \<open>What a step keeps, and when it succeeds\<close>

locale step_relation =
  fixes R :: "'s \<Rightarrow> 's \<Rightarrow> bool"
  assumes refl: "R s s" and trans: "R s t \<Longrightarrow> R t u \<Longrightarrow> R s u"
begin

lemma return: "R s (snd (return_step a s))"
  by (simp add: return_step_def refl)

lemma fail: "R s (snd (fail_step e s))"
  by (simp add: fail_step_def refl)

lemma check: "R s (snd (check_step ok e s))"
  by (simp add: check_step_def refl)

lemma lift: "R s (snd (lift_step r s))"
  by (simp add: lift_step_def refl)

lemma bind:
  assumes "R s (snd (m s))" and "\<And>a t. m s = (Inr a, t) \<Longrightarrow> R t (snd (f a t))"
  shows "R s (snd (bind_step m f s))"
  using assms trans by (cases "m s") (auto simp: bind_step_def split: sum.splits)

lemma bind_lift:
  assumes "\<And>a. r = Inr a \<Longrightarrow> R s (snd (f a s))"
  shows "R s (snd (bind_step (lift_step r) f s))"
  using assms by (intro bind lift) (simp add: lift_step_def)

lemma query: "R s (snd (query_step q s))"
  by (simp add: query_step_def refl)

lemma transaction:
  assumes "R s (snd (m s))" and "\<And>t. R s t \<Longrightarrow> R s (restore s t)"
  shows "R s (snd (transaction_step restore m s))"
  using assms by (cases "m s") (auto simp: transaction_step_def split: sum.splits)

end

lemma bind_step_Inr:
  "bind_step m f s = (Inr b, u) \<longleftrightarrow> (\<exists>a t. m s = (Inr a, t) \<and> f a t = (Inr b, u))"
  by (cases "m s") (auto simp: bind_step_def split: sum.splits)

lemma lift_step_Inr [simp]: "lift_step r s = (Inr a, t) \<longleftrightarrow> r = Inr a \<and> t = s"
  by (auto simp: lift_step_def)

lemma return_step_Inr [simp]: "return_step a s = (Inr b, t) \<longleftrightarrow> a = b \<and> t = s"
  by (auto simp: return_step_def)

lemma fail_step_Inr [simp]: "fail_step e s \<noteq> (Inr b, t)"
  by (simp add: fail_step_def)

lemma check_step_Inr: "check_step ok e s = (Inr u, t) \<longleftrightarrow> ok \<and> t = s"
  by (auto simp: check_step_def)

lemma query_step_Inr [simp]: "query_step q s = (Inr a, t) \<longleftrightarrow> q s = Inr a \<and> t = s"
  by (auto simp: query_step_def)

lemma transaction_step_Inr [simp]: "transaction_step restore m s = (Inr a, t) \<longleftrightarrow> m s = (Inr a, t)"
  by (auto simp: transaction_step_def split: prod.splits sum.splits)


text \<open>\<open>step_respects R m\<close>: whatever the result, the state a step leaves is related to the one it started from.\<close>

definition step_respects :: "('s \<Rightarrow> 's \<Rightarrow> bool) \<Rightarrow> ('s, 'e, 'a) effect_step \<Rightarrow> bool" where
  "step_respects R m \<longleftrightarrow> (\<forall>s. R s (snd (m s)))"

context step_relation begin

lemma respects_bind: "step_respects R m \<Longrightarrow> (\<And>a. step_respects R (f a)) \<Longrightarrow> step_respects R (bind_step m f)"
  unfolding step_respects_def using bind by blast

lemma respects_readers:
  "step_respects R (return_step a)" "step_respects R (fail_step e)" "step_respects R (check_step ok e)" "step_respects R (lift_step r)" "step_respects R (query_step q)"
  unfolding step_respects_def by (simp_all add: return fail check lift query)

lemma respects_branches:
  "step_respects R m \<Longrightarrow> (\<And>a. step_respects R (f a)) \<Longrightarrow> step_respects R (case x of None \<Rightarrow> m | Some a \<Rightarrow> f a)"
  "step_respects R m \<Longrightarrow> step_respects R m' \<Longrightarrow> step_respects R (if c then m else m')"
  by (simp_all split: option.splits)

lemmas respects_rules = respects_bind respects_readers respects_branches

end


section \<open>Sequences of steps\<close>

locale stepwise_store =
  fixes after :: "'c \<Rightarrow> 's \<Rightarrow> 's" and initial :: 's and inv :: "'s \<Rightarrow> bool"
  assumes initial_inv: "inv initial"
    and after_inv: "inv s \<Longrightarrow> inv (after c s)"
begin

lemma fold_inv_from: "inv s \<Longrightarrow> inv (fold after cs s)"
  by (induction cs arbitrary: s) (simp_all add: after_inv)

lemma fold_inv: "inv (fold after cs initial)"
  by (rule fold_inv_from [OF initial_inv])

end

end
