(* ===== verification/Security_State.thy ===== *)
theory Security_State
  imports Node_Policy_Schemas Redaction Step_Monad
begin

text \<open>
  The node's protected security state: \<open>src/node-policy/v1/persistent-security-state.ts\<close> with the pinned owner
  keys of \<open>owner-pins.ts\<close> and the failure codes of \<open>stores.ts\<close>. Two databases hold the state: one the signed
  artifacts (the authority ceiling, the server trust bundle and the history of its keys), the other a
  high-water mark for each. An update first prepares the mark, then writes the artifact, then commits the mark; the
  process can stop between any two of these writes. An operation is therefore a function from the state to a result and
  a state: an error leaves behind what was written before it. The rows are those of the repository's own tenant, node
  and node class. The columns \<open>adopted_at\<close> and \<open>updated_at\<close> are never read and are left out; the \<open>CHECK\<close>
  constraints on versions, epochs and digests hold for every artifact that passes its schema.

  Reading a public key and hashing its bytes are the platform's: \<open>ks_export\<close> is the canonical text of an Ed25519 key
  (\<open>None\<close> where it is not one), \<open>ks_digest\<close> the hexadecimal SHA-256 of its bytes.
\<close>

section \<open>Failures and steps\<close>

datatype fault_point = CeilingAfterPrepare | CeilingAfterArtifact | CeilingAfterCommit
  | TrustAfterPrepare | TrustAfterArtifact | TrustAfterCommit

datatype protected_failure =
    PfLocked | PfInteractionRequired | PfMissing | PfCorrupt | PfPermissionDenied | PfUnavailablePlatform | PfKeyNotUnlocked
  | PfDisposed | PfInvalidConfiguration | PfInvalidBundle | PfRollbackDetected | PfRecoveryRequired
  | PfInterrupted fault_point

datatype security_adoption = Provisioned | Adopted | AdoptionDuplicate | Recovered

type_synonym ('s, 'a) step = "('s, protected_failure, 'a) effect_step"


section \<open>Pinned owner keys\<close>

record key_services =
  ks_export :: "string \<Rightarrow> string option"
  ks_digest :: "string \<Rightarrow> string"

definition spkiDigest :: "key_services \<Rightarrow> string \<Rightarrow> string" where
  "spkiDigest ks spki = ''sha256:'' @ ks_digest ks spki"

definition validatePin :: "key_services \<Rightarrow> pinned_owner_key \<Rightarrow> (protected_failure, pinned_owner_key) result" where
  "validatePin ks pin =
     (if ks_export ks (pk_spki pin) = None \<or> spkiDigest ks (pk_spki pin) \<noteq> pk_fingerprint pin
      then Inl PfInvalidConfiguration else Inr pin)"

fun validate_pins :: "key_services \<Rightarrow> pinned_owner_key list \<Rightarrow> (protected_failure, pinned_owner_key list) result" where
  "validate_pins ks [] = Inr []"
| "validate_pins ks (p # ps) = bind_result (validatePin ks p) (\<lambda>q. bind_result (validate_pins ks ps) (\<lambda>qs. Inr (q # qs)))"

definition PinnedOwnerTrust :: "key_services \<Rightarrow> owner_pin_set \<Rightarrow> (protected_failure, owner_pin_set) result" where
  "PinnedOwnerTrust ks input =
     guard_result (ownerPinSetSchema input) PfInvalidConfiguration (
     bind_result (validatePin ks (ceilingProvisioningKey input)) (\<lambda>c.
     bind_result (validatePin ks (serverTrustRootKey input)) (\<lambda>t.
     bind_result (validate_pins ks (trustShrinkKeys input)) (\<lambda>s.
     Inr \<lparr>ceilingProvisioningKey = c, serverTrustRootKey = t, trustShrinkKeys = s\<rparr>))))"

definition ceiling_pin :: "owner_pin_set \<Rightarrow> string \<Rightarrow> pinned_owner_key option" where
  "ceiling_pin pins keyId = (if keyId = pk_keyId (ceilingProvisioningKey pins) then Some (ceilingProvisioningKey pins) else None)"

definition trust_root_pin :: "owner_pin_set \<Rightarrow> string \<Rightarrow> pinned_owner_key option" where
  "trust_root_pin pins keyId = (if keyId = pk_keyId (serverTrustRootKey pins) then Some (serverTrustRootKey pins) else None)"

definition trust_shrink_pin :: "owner_pin_set \<Rightarrow> string \<Rightarrow> pinned_owner_key option" where
  "trust_shrink_pin pins keyId = find (\<lambda>k. pk_keyId k = keyId) (trustShrinkKeys pins)"


section \<open>The databases\<close>

record ceiling_row =
  cl_version :: rat
  cl_bodyDigest :: string
  cl_artifact :: "signed_ceiling option"

record trust_row =
  rr_epoch :: rat
  rr_bodyDigest :: string
  rr_bundle :: "owner_signed_trust_bundle option"

datatype water_phase = Prepared | Committed

record high_water =
  hw_sequence :: rat
  hw_bodyDigest :: string
  hw_phase :: water_phase

record trust_history_row =
  th_keyId :: string
  th_spki :: string
  th_spkiDigest :: string
  th_state :: trust_key_state
  th_firstSeenEpoch :: rat
  th_lastSeenEpoch :: rat

record security_state =
  ss_ceiling :: "ceiling_row option"
  ss_trust :: "trust_row option"
  ss_history :: "trust_history_row list"
  ss_ceilingWater :: "high_water option"
  ss_trustWater :: "high_water option"

definition empty_security_state :: security_state where
  "empty_security_state = \<lparr>ss_ceiling = None, ss_trust = None, ss_history = [], ss_ceilingWater = None, ss_trustWater = None\<rparr>"

record security_node =
  sn_tenantId :: string
  sn_nodeId :: string
  sn_nodeClass :: string
  sn_pins :: owner_pin_set
  sn_keys :: key_services

datatype artifact_source = Candidate | Stored

fun refusal :: "artifact_source \<Rightarrow> protected_failure" where
  "refusal Candidate = PfInvalidBundle"
| "refusal Stored = PfCorrupt"


section \<open>Verification of artifacts\<close>

text \<open>
  \<open>Buffer.from(text, "base64url").toString("base64url") === text\<close>: the text uses the alphabet only, its length is
  not one more than a multiple of four, and the unused low bits of the last character are zero.
\<close>

definition base64url_index :: "char \<Rightarrow> nat" where
  "base64url_index c =
     (if is_upper c then of_char c - 65 else if is_lower c then of_char c - 71 else if is_digit c then of_char c + 4
      else if c = CHR ''-'' then 62 else 63)"

definition canonical_base64url :: "string \<Rightarrow> bool" where
  "canonical_base64url s \<longleftrightarrow> list_all (\<lambda>c. is_alnum c \<or> c \<in> set ''_-'') s \<and>
     (length s mod 4 = 0 \<or> length s mod 4 = 2 \<and> base64url_index (last s) mod 16 = 0
      \<or> length s mod 4 = 3 \<and> base64url_index (last s) mod 4 = 0)"

definition ceiling_metadata :: "signed_ceiling \<Rightarrow> json" where
  "ceiling_metadata a = JObj [(''body'', ceiling_json (sa_body a)), (''signatureAlgorithm'', JStr (sa_signatureAlgorithm a))]"

definition verifyCeiling :: "host \<Rightarrow> security_node \<Rightarrow> signed_ceiling \<Rightarrow> artifact_source \<Rightarrow> (protected_failure, signed_ceiling) result" where
  "verifyCeiling h n a source =
     guard_result (signedNodeAuthorityCeilingSchema h a) (refusal source) (
     guard_result (nc_tenantId (sa_body a) = sn_tenantId n \<and> nc_nodeId (sa_body a) = sn_nodeId n) (refusal source) (
     case ceiling_pin (sn_pins n) (nc_issuerKeyId (sa_body a)) of
       None \<Rightarrow> Inl (refusal source)
     | Some pin \<Rightarrow>
         guard_result ((source = Candidate \<longrightarrow> canonical_base64url (sa_signature a))
             \<and> verifyArtifactSignature h (ceiling_json (sa_body a)) (nc_bodyDigest (sa_body a)) (sa_signature a) (pk_spki pin) = Inr True
             \<and> assertNoSecretMaterial (ceiling_metadata a) ''node ceiling'' = Inr ()) (refusal source) (Inr a)))"

definition key_metadata :: "server_trust_key \<Rightarrow> json" where
  "key_metadata k = JObj [(''keyId'', JStr (tk_keyId k)), (''algorithm'', JStr (tk_algorithm k)),
     (''state'', JStr (trust_key_state_text (tk_state k)))]"

definition bundle_metadata :: "owner_signed_trust_bundle \<Rightarrow> json" where
  "bundle_metadata a = (let b = sa_body a in JObj ([(''signatureAlgorithm'', JStr (sa_signatureAlgorithm a)),
     (''body'', JObj [(''schema'', JStr (tb_schema b)), (''tenantId'', JStr (tb_tenantId b)), (''nodeClass'', JStr (tb_nodeClass b)),
       (''epoch'', JNum (tb_epoch b)), (''issuedAt'', JStr (tb_issuedAt b)), (''ownerRootKeyId'', JStr (tb_ownerRootKeyId b)),
       (''keys'', JArr (map key_metadata (tb_keys b))), (''bodyDigest'', JStr (tb_bodyDigest b))])]
     @ opt_field ''shrinkAuthorization'' (\<lambda>s. JObj [(''keyId'', JStr (sh_keyId s)), (''bundleBodyDigest'', JStr (sh_bundleBodyDigest s)),
         (''signatureAlgorithm'', JStr (sh_signatureAlgorithm s))]) (shrinkAuthorization a)))"

text \<open>
  A candidate's key is new in canonical spelling or retained with its bytes from the current bundle. Looking at the current
  bundle may fail; that failure is caught like every other one here.
\<close>

definition key_admitted :: "key_services \<Rightarrow> (protected_failure, owner_signed_trust_bundle option) result \<Rightarrow> server_trust_key \<Rightarrow> bool" where
  "key_admitted ks retained k =
     (case ks_export ks (tk_spki k) of None \<Rightarrow> False
      | Some spelled \<Rightarrow> spelled = tk_spki k
          \<or> (case retained of Inr (Some b) \<Rightarrow> list_ex (\<lambda>p. tk_keyId p = tk_keyId k \<and> tk_spki p = tk_spki k) (tb_keys (sa_body b))
             | _ \<Rightarrow> False))"

definition shrink_authorized :: "host \<Rightarrow> security_node \<Rightarrow> trust_bundle_shrink_authorization \<Rightarrow> bool" where
  "shrink_authorized h n a =
     (case trust_shrink_pin (sn_pins n) (sh_keyId a) of None \<Rightarrow> False
      | Some pin \<Rightarrow> canonical_base64url (sh_signature a) \<and> verifyTrustBundleShrinkAuthorization h a (pk_spki pin) = Inr True)"

definition verifyTrustBundle ::
    "host \<Rightarrow> security_node \<Rightarrow> owner_signed_trust_bundle \<Rightarrow> artifact_source \<Rightarrow> (protected_failure, owner_signed_trust_bundle option) result
     \<Rightarrow> (protected_failure, owner_signed_trust_bundle) result" where
  "verifyTrustBundle h n a source retained =
     guard_result (ownerSignedTrustBundleSchema h a) (refusal source) (
     guard_result (tb_tenantId (sa_body a) = sn_tenantId n \<and> tb_nodeClass (sa_body a) = sn_nodeClass n) (refusal source) (
     case trust_root_pin (sn_pins n) (tb_ownerRootKeyId (sa_body a)) of
       None \<Rightarrow> Inl (refusal source)
     | Some pin \<Rightarrow>
         guard_result ((source = Candidate \<longrightarrow> list_all (key_admitted (sn_keys n) retained) (tb_keys (sa_body a))
               \<and> canonical_base64url (sa_signature a))
             \<and> verifyArtifactSignature h (bundle_json (sa_body a)) (tb_bodyDigest (sa_body a)) (sa_signature a) (pk_spki pin) = Inr True
             \<and> (source = Candidate \<longrightarrow> opt_all (shrink_authorized h n) (shrinkAuthorization a))
             \<and> assertNoSecretMaterial (bundle_metadata a) ''server trust bundle'' = Inr ()) (refusal source) (Inr a)))"

definition verifyCeilingRow :: "host \<Rightarrow> security_node \<Rightarrow> ceiling_row \<Rightarrow> (protected_failure, signed_ceiling) result" where
  "verifyCeilingRow h n row =
     (case cl_artifact row of None \<Rightarrow> Inl PfCorrupt
      | Some a \<Rightarrow> bind_result (verifyCeiling h n a Stored) (\<lambda>c.
          guard_result (cl_version row = nc_version (sa_body c) \<and> cl_bodyDigest row = nc_bodyDigest (sa_body c)) PfCorrupt (Inr c)))"

definition find_key :: "server_trust_key list \<Rightarrow> string \<Rightarrow> server_trust_key option" where
  "find_key keys i = find (\<lambda>k. tk_keyId k = i) keys"

definition history_matches :: "security_node \<Rightarrow> owner_signed_trust_bundle \<Rightarrow> trust_history_row \<Rightarrow> bool" where
  "history_matches n b row =
     (case find_key (tb_keys (sa_body b)) (th_keyId row) of None \<Rightarrow> False
      | Some k \<Rightarrow> tk_spki k = th_spki row \<and> spkiDigest (sn_keys n) (tk_spki k) = th_spkiDigest row \<and> tk_state k = th_state row
          \<and> th_lastSeenEpoch row = tb_epoch (sa_body b))"

definition validateTrustHistory :: "security_node \<Rightarrow> trust_history_row list \<Rightarrow> owner_signed_trust_bundle \<Rightarrow> (protected_failure, unit) result" where
  "validateTrustHistory n history b =
     guard_result (length history = length (tb_keys (sa_body b)) \<and> list_all (history_matches n b) history) PfCorrupt (Inr ())"

definition verifyTrustRow :: "host \<Rightarrow> security_node \<Rightarrow> trust_history_row list \<Rightarrow> trust_row \<Rightarrow> (protected_failure, owner_signed_trust_bundle) result" where
  "verifyTrustRow h n history row =
     (case rr_bundle row of None \<Rightarrow> Inl PfCorrupt
      | Some a \<Rightarrow> bind_result (verifyTrustBundle h n a Stored (Inr None)) (\<lambda>b.
          guard_result (rr_epoch row = tb_epoch (sa_body b) \<and> rr_bodyDigest row = tb_bodyDigest (sa_body b)) PfCorrupt (
          bind_result (validateTrustHistory n history b) (\<lambda>_. Inr b))))"

definition key_continues :: "server_trust_key list \<Rightarrow> trust_history_row \<Rightarrow> bool" where
  "key_continues keys prior =
     (case find_key keys (th_keyId prior) of None \<Rightarrow> False
      | Some next \<Rightarrow> tk_spki next = th_spki prior \<and> \<not> (th_state prior = TrustRevoked \<and> tk_state next \<noteq> TrustRevoked)
          \<and> \<not> (th_state prior = TrustRetired \<and> tk_state next = TrustActive))"

definition key_not_aliased :: "security_node \<Rightarrow> trust_history_row list \<Rightarrow> server_trust_key \<Rightarrow> bool" where
  "key_not_aliased n history k =
     (case find (\<lambda>r. th_spkiDigest r = spkiDigest (sn_keys n) (tk_spki k)) history of None \<Rightarrow> True
      | Some r \<Rightarrow> th_keyId r = [] \<or> th_keyId r = tk_keyId k)"

definition active_overlap :: "owner_signed_trust_bundle \<Rightarrow> owner_signed_trust_bundle \<Rightarrow> bool" where
  "active_overlap current candidate =
     list_ex (\<lambda>k. tk_state k = TrustActive
         \<and> tk_keyId k \<in> set (map tk_keyId (filter (\<lambda>p. tk_state p = TrustActive) (tb_keys (sa_body current)))))
       (tb_keys (sa_body candidate))"

definition validateTrustTransition ::
    "security_node \<Rightarrow> trust_history_row list \<Rightarrow> owner_signed_trust_bundle \<Rightarrow> owner_signed_trust_bundle \<Rightarrow> (protected_failure, unit) result" where
  "validateTrustTransition n history current candidate =
     guard_result (list_all (key_continues (tb_keys (sa_body candidate))) history) PfInvalidBundle (
     guard_result (list_all (key_not_aliased n history) (tb_keys (sa_body candidate))) PfInvalidBundle (
     guard_result (active_overlap current candidate \<or> shrinkAuthorization candidate \<noteq> None) PfInvalidBundle (Inr ())))"


section \<open>Writes\<close>

definition fault_at :: "(fault_point \<Rightarrow> bool) \<Rightarrow> fault_point \<Rightarrow> ('s, unit) step" where
  "fault_at fault p = check_step (\<not> fault p) (PfInterrupted p)"

definition writeCeiling :: "signed_ceiling \<Rightarrow> (security_state, unit) step" where
  "writeCeiling c st =
     (Inr (), st\<lparr>ss_ceiling := Some \<lparr>cl_version = nc_version (sa_body c), cl_bodyDigest = nc_bodyDigest (sa_body c), cl_artifact = Some c\<rparr>\<rparr>)"

text \<open>The upsert of one key; \<open>None\<close> where a constraint of the table fails.\<close>

definition upsert_key :: "security_node \<Rightarrow> rat \<Rightarrow> server_trust_key \<Rightarrow> trust_history_row list \<Rightarrow> trust_history_row list option" where
  "upsert_key n epoch k history =
     (if list_ex (\<lambda>r. th_keyId r = tk_keyId k) history then
        (if list_ex (\<lambda>r. th_keyId r = tk_keyId k \<and> epoch < th_firstSeenEpoch r) history then None
         else Some (map (\<lambda>r. if th_keyId r = tk_keyId k then r\<lparr>th_state := tk_state k, th_lastSeenEpoch := epoch\<rparr> else r) history))
      else if list_ex (\<lambda>r. th_spkiDigest r = spkiDigest (sn_keys n) (tk_spki k)) history then None
      else Some (history @ [\<lparr>th_keyId = tk_keyId k, th_spki = tk_spki k, th_spkiDigest = spkiDigest (sn_keys n) (tk_spki k),
          th_state = tk_state k, th_firstSeenEpoch = epoch, th_lastSeenEpoch = epoch\<rparr>]))"

fun upsert_keys :: "security_node \<Rightarrow> rat \<Rightarrow> server_trust_key list \<Rightarrow> trust_history_row list \<Rightarrow> trust_history_row list option" where
  "upsert_keys n epoch [] history = Some history"
| "upsert_keys n epoch (k # ks) history = Option.bind (upsert_key n epoch k history) (upsert_keys n epoch ks)"

definition writeTrustBundle :: "security_node \<Rightarrow> owner_signed_trust_bundle \<Rightarrow> (security_state, unit) step" where
  "writeTrustBundle n b st =
     (case upsert_keys n (tb_epoch (sa_body b)) (tb_keys (sa_body b)) (ss_history st) of
        None \<Rightarrow> (Inl PfCorrupt, st)
      | Some history \<Rightarrow> (Inr (), st\<lparr>ss_trust := Some \<lparr>rr_epoch = tb_epoch (sa_body b), rr_bodyDigest = tb_bodyDigest (sa_body b), rr_bundle = Some b\<rparr>,
          ss_history := history\<rparr>))"

text \<open>The statements on a high-water mark: \<open>INSERT\<close>, the compare-and-set that prepares it, and the one that commits it.\<close>

definition insert_water :: "rat \<Rightarrow> string \<Rightarrow> high_water option \<Rightarrow> (protected_failure, high_water) result" where
  "insert_water sq d w =
     (if w \<noteq> None then Inl PfCorrupt else Inr \<lparr>hw_sequence = sq, hw_bodyDigest = d, hw_phase = Prepared\<rparr>)"

definition update_water :: "rat \<Rightarrow> string \<Rightarrow> rat \<Rightarrow> high_water option \<Rightarrow> (protected_failure, high_water) result" where
  "update_water sq d expected w =
     (case w of None \<Rightarrow> Inl PfRollbackDetected
      | Some x \<Rightarrow> if hw_sequence x = expected \<and> hw_phase x = Committed
          then Inr \<lparr>hw_sequence = sq, hw_bodyDigest = d, hw_phase = Prepared\<rparr> else Inl PfRollbackDetected)"

definition commit_water :: "rat \<Rightarrow> string \<Rightarrow> high_water option \<Rightarrow> (protected_failure, high_water) result" where
  "commit_water sq d w =
     (case w of None \<Rightarrow> Inl PfRollbackDetected
      | Some x \<Rightarrow> if hw_sequence x = sq \<and> hw_bodyDigest x = d \<and> hw_phase x = Prepared
          then Inr (x\<lparr>hw_phase := Committed\<rparr>) else Inl PfRollbackDetected)"

definition ceiling_mark :: "(high_water option \<Rightarrow> (protected_failure, high_water) result) \<Rightarrow> (security_state, unit) step" where
  "ceiling_mark f st = (case f (ss_ceilingWater st) of Inl e \<Rightarrow> (Inl e, st) | Inr w \<Rightarrow> (Inr (), st\<lparr>ss_ceilingWater := Some w\<rparr>))"

definition trust_mark :: "(high_water option \<Rightarrow> (protected_failure, high_water) result) \<Rightarrow> (security_state, unit) step" where
  "trust_mark f st = (case f (ss_trustWater st) of Inl e \<Rightarrow> (Inl e, st) | Inr w \<Rightarrow> (Inr (), st\<lparr>ss_trustWater := Some w\<rparr>))"

definition insertCeilingHighWater :: "rat \<Rightarrow> string \<Rightarrow> (security_state, unit) step" where
  "insertCeilingHighWater v d = ceiling_mark (insert_water v d)"

definition updateCeilingHighWater :: "rat \<Rightarrow> string \<Rightarrow> rat \<Rightarrow> (security_state, unit) step" where
  "updateCeilingHighWater v d expected = ceiling_mark (update_water v d expected)"

definition commitCeilingHighWater :: "rat \<Rightarrow> string \<Rightarrow> (security_state, unit) step" where
  "commitCeilingHighWater v d = ceiling_mark (commit_water v d)"

definition insertTrustHighWater :: "rat \<Rightarrow> string \<Rightarrow> (security_state, unit) step" where
  "insertTrustHighWater v d = trust_mark (insert_water v d)"

definition updateTrustHighWater :: "rat \<Rightarrow> string \<Rightarrow> rat \<Rightarrow> (security_state, unit) step" where
  "updateTrustHighWater v d expected = trust_mark (update_water v d expected)"

definition commitTrustHighWater :: "rat \<Rightarrow> string \<Rightarrow> (security_state, unit) step" where
  "commitTrustHighWater v d = trust_mark (commit_water v d)"


section \<open>The ceiling\<close>

definition ceiling_finish :: "(fault_point \<Rightarrow> bool) \<Rightarrow> signed_ceiling \<Rightarrow> rat \<Rightarrow> string \<Rightarrow> security_adoption \<Rightarrow> (security_state, security_adoption) step" where
  "ceiling_finish fault c v d answer =
     bind_step (writeCeiling c) (\<lambda>_.
     bind_step (fault_at fault CeilingAfterArtifact) (\<lambda>_.
     bind_step (commitCeilingHighWater v d) (\<lambda>_.
     bind_step (fault_at fault CeilingAfterCommit) (\<lambda>_. return_step answer))))"

definition provision_prepared :: "host \<Rightarrow> security_node \<Rightarrow> (fault_point \<Rightarrow> bool) \<Rightarrow> signed_ceiling \<Rightarrow> high_water \<Rightarrow> (security_state, security_adoption) step" where
  "provision_prepared h n fault c w st =
     (if hw_sequence w \<noteq> nc_version (sa_body c) \<or> hw_bodyDigest w \<noteq> nc_bodyDigest (sa_body c) then fail_step PfRecoveryRequired st
      else case ss_ceiling st of
        None \<Rightarrow> ceiling_finish fault c (hw_sequence w) (hw_bodyDigest w) Recovered st
      | Some row \<Rightarrow>
          if cl_version row \<noteq> hw_sequence w \<or> cl_bodyDigest row \<noteq> hw_bodyDigest w then fail_step PfRollbackDetected st
          else bind_step (lift_step (verifyCeilingRow h n row)) (\<lambda>_.
            bind_step (commitCeilingHighWater (hw_sequence w) (hw_bodyDigest w)) (\<lambda>_.
            bind_step (fault_at fault CeilingAfterCommit) (\<lambda>_. return_step Recovered))) st)"

definition provisionInitialCeiling ::
    "host \<Rightarrow> security_node \<Rightarrow> (fault_point \<Rightarrow> bool) \<Rightarrow> signed_ceiling \<Rightarrow> (security_state, security_adoption) step" where
  "provisionInitialCeiling h n fault artifact =
     bind_step (lift_step (verifyCeiling h n artifact Candidate)) (\<lambda>c st.
       case (ss_ceilingWater st, ss_ceiling st) of
         (None, None) \<Rightarrow>
           bind_step (insertCeilingHighWater (nc_version (sa_body c)) (nc_bodyDigest (sa_body c))) (\<lambda>_.
           bind_step (fault_at fault CeilingAfterPrepare) (\<lambda>_.
           ceiling_finish fault c (nc_version (sa_body c)) (nc_bodyDigest (sa_body c)) Provisioned)) st
       | (None, Some row) \<Rightarrow> fail_step PfRollbackDetected st
       | (Some w, current) \<Rightarrow>
           if hw_phase w = Prepared then provision_prepared h n fault c w st
           else (case current of
               None \<Rightarrow> fail_step PfRollbackDetected st
             | Some row \<Rightarrow>
                 if hw_sequence w = nc_version (sa_body c) \<and> hw_bodyDigest w = nc_bodyDigest (sa_body c)
                 then bind_step (lift_step (verifyCeilingRow h n row)) (\<lambda>_. return_step AdoptionDuplicate) st
                 else fail_step PfInvalidConfiguration st))"

definition adopt_prepared :: "host \<Rightarrow> security_node \<Rightarrow> (fault_point \<Rightarrow> bool) \<Rightarrow> signed_ceiling \<Rightarrow> high_water \<Rightarrow> (security_state, security_adoption) step" where
  "adopt_prepared h n fault c w st =
     (if hw_sequence w \<noteq> nc_version (sa_body c) \<or> hw_bodyDigest w \<noteq> nc_bodyDigest (sa_body c) then fail_step PfRecoveryRequired st
      else case ss_ceiling st of
        None \<Rightarrow> fail_step PfRecoveryRequired st
      | Some row \<Rightarrow>
          if cl_version row = hw_sequence w \<and> cl_bodyDigest row = hw_bodyDigest w then
            bind_step (lift_step (verifyCeilingRow h n row)) (\<lambda>_.
            bind_step (commitCeilingHighWater (hw_sequence w) (hw_bodyDigest w)) (\<lambda>_. return_step Recovered)) st
          else if cl_version row \<ge> hw_sequence w then fail_step PfRollbackDetected st
          else ceiling_finish fault c (hw_sequence w) (hw_bodyDigest w) Recovered st)"

definition adopt_committed :: "host \<Rightarrow> security_node \<Rightarrow> (fault_point \<Rightarrow> bool) \<Rightarrow> signed_ceiling \<Rightarrow> high_water \<Rightarrow> ceiling_row \<Rightarrow> (security_state, security_adoption) step" where
  "adopt_committed h n fault candidate w row =
     bind_step (lift_step (verifyCeilingRow h n row)) (\<lambda>current.
     let v = nc_version (sa_body candidate); cv = nc_version (sa_body current) in
     if hw_sequence w \<noteq> cv \<or> hw_bodyDigest w \<noteq> nc_bodyDigest (sa_body current) then fail_step PfRollbackDetected
     else if v < cv then fail_step PfRollbackDetected
     else if v = cv then
       (if nc_bodyDigest (sa_body candidate) \<noteq> nc_bodyDigest (sa_body current) then fail_step PfRollbackDetected
        else return_step AdoptionDuplicate)
     else
       bind_step (updateCeilingHighWater v (nc_bodyDigest (sa_body candidate)) cv) (\<lambda>_.
       bind_step (fault_at fault CeilingAfterPrepare) (\<lambda>_.
       ceiling_finish fault candidate v (nc_bodyDigest (sa_body candidate)) Adopted)))"

definition adoptCeiling ::
    "host \<Rightarrow> security_node \<Rightarrow> (fault_point \<Rightarrow> bool) \<Rightarrow> signed_ceiling \<Rightarrow> (security_state, security_adoption) step" where
  "adoptCeiling h n fault artifact =
     bind_step (lift_step (verifyCeiling h n artifact Candidate)) (\<lambda>c st.
       case ss_ceilingWater st of
         None \<Rightarrow> fail_step (if ss_ceiling st = None then PfMissing else PfRollbackDetected) st
       | Some w \<Rightarrow>
           if hw_phase w = Prepared then adopt_prepared h n fault c w st
           else (case ss_ceiling st of None \<Rightarrow> fail_step PfRollbackDetected st
             | Some row \<Rightarrow> adopt_committed h n fault c w row st))"

definition loadCeiling :: "host \<Rightarrow> security_node \<Rightarrow> (security_state, signed_ceiling) step" where
  "loadCeiling h n st =
     (case (ss_ceiling st, ss_ceilingWater st) of
        (None, None) \<Rightarrow> fail_step PfMissing st
      | (Some row, Some w) \<Rightarrow>
          bind_step (lift_step (verifyCeilingRow h n row)) (\<lambda>c.
          if hw_phase w = Prepared then
            (if cl_version row \<noteq> hw_sequence w \<or> cl_bodyDigest row \<noteq> hw_bodyDigest w then fail_step PfRecoveryRequired
             else bind_step (commitCeilingHighWater (hw_sequence w) (hw_bodyDigest w)) (\<lambda>_. return_step c))
          else if cl_version row \<noteq> hw_sequence w \<or> cl_bodyDigest row \<noteq> hw_bodyDigest w then fail_step PfRollbackDetected
          else return_step c) st
      | _ \<Rightarrow> fail_step PfRollbackDetected st)"


section \<open>The trust bundle\<close>

definition trust_finish :: "security_node \<Rightarrow> (fault_point \<Rightarrow> bool) \<Rightarrow> owner_signed_trust_bundle \<Rightarrow> rat \<Rightarrow> string \<Rightarrow> 'a \<Rightarrow> (security_state, 'a) step" where
  "trust_finish n fault b v d answer =
     bind_step (writeTrustBundle n b) (\<lambda>_.
     bind_step (fault_at fault TrustAfterArtifact) (\<lambda>_.
     bind_step (commitTrustHighWater v d) (\<lambda>_.
     bind_step (fault_at fault TrustAfterCommit) (\<lambda>_. return_step answer))))"

definition provision_trust_prepared ::
    "host \<Rightarrow> security_node \<Rightarrow> (fault_point \<Rightarrow> bool) \<Rightarrow> owner_signed_trust_bundle \<Rightarrow> high_water \<Rightarrow> (security_state, security_adoption) step" where
  "provision_trust_prepared h n fault b w st =
     (if hw_sequence w \<noteq> tb_epoch (sa_body b) \<or> hw_bodyDigest w \<noteq> tb_bodyDigest (sa_body b) then fail_step PfRecoveryRequired st
      else case ss_trust st of
        None \<Rightarrow> if ss_history st \<noteq> [] then fail_step PfCorrupt st
          else trust_finish n fault b (hw_sequence w) (hw_bodyDigest w) Recovered st
      | Some row \<Rightarrow>
          if rr_epoch row \<noteq> hw_sequence w \<or> rr_bodyDigest row \<noteq> hw_bodyDigest w then fail_step PfRollbackDetected st
          else bind_step (lift_step (verifyTrustRow h n (ss_history st) row)) (\<lambda>_.
            bind_step (commitTrustHighWater (hw_sequence w) (hw_bodyDigest w)) (\<lambda>_.
            bind_step (fault_at fault TrustAfterCommit) (\<lambda>_. return_step Recovered))) st)"

definition provisionInitialTrustBundle ::
    "host \<Rightarrow> security_node \<Rightarrow> (fault_point \<Rightarrow> bool) \<Rightarrow> owner_signed_trust_bundle \<Rightarrow> (security_state, security_adoption) step" where
  "provisionInitialTrustBundle h n fault bundle =
     bind_step (lift_step (verifyTrustBundle h n bundle Candidate (Inr None))) (\<lambda>b st.
       case (ss_trustWater st, ss_trust st) of
         (None, None) \<Rightarrow>
           if ss_history st \<noteq> [] then fail_step PfCorrupt st
           else bind_step (insertTrustHighWater (tb_epoch (sa_body b)) (tb_bodyDigest (sa_body b))) (\<lambda>_.
             bind_step (fault_at fault TrustAfterPrepare) (\<lambda>_.
             trust_finish n fault b (tb_epoch (sa_body b)) (tb_bodyDigest (sa_body b)) Provisioned)) st
       | (None, Some row) \<Rightarrow> fail_step PfRollbackDetected st
       | (Some w, current) \<Rightarrow>
           if hw_phase w = Prepared then provision_trust_prepared h n fault b w st
           else (case current of
               None \<Rightarrow> fail_step PfRollbackDetected st
             | Some row \<Rightarrow>
                 if hw_sequence w = tb_epoch (sa_body b) \<and> hw_bodyDigest w = tb_bodyDigest (sa_body b)
                 then bind_step (lift_step (verifyTrustRow h n (ss_history st) row)) (\<lambda>_. return_step AdoptionDuplicate) st
                 else fail_step PfInvalidConfiguration st))"

definition apply_trust_prepared ::
    "host \<Rightarrow> security_node \<Rightarrow> (fault_point \<Rightarrow> bool) \<Rightarrow> owner_signed_trust_bundle \<Rightarrow> high_water \<Rightarrow> (security_state, unit) step" where
  "apply_trust_prepared h n fault b w st =
     (if hw_sequence w \<noteq> tb_epoch (sa_body b) \<or> hw_bodyDigest w \<noteq> tb_bodyDigest (sa_body b) then fail_step PfRecoveryRequired st
      else case ss_trust st of
        None \<Rightarrow> fail_step PfRecoveryRequired st
      | Some row \<Rightarrow>
          if rr_epoch row = hw_sequence w \<and> rr_bodyDigest row = hw_bodyDigest w then
            bind_step (lift_step (verifyTrustRow h n (ss_history st) row)) (\<lambda>_.
            commitTrustHighWater (hw_sequence w) (hw_bodyDigest w)) st
          else if rr_epoch row \<ge> hw_sequence w then fail_step PfRollbackDetected st
          else bind_step (lift_step (bind_result (verifyTrustRow h n (ss_history st) row)
              (\<lambda>current. validateTrustTransition n (ss_history st) current b))) (\<lambda>_.
            trust_finish n fault b (hw_sequence w) (hw_bodyDigest w) ()) st)"

definition apply_trust_committed ::
    "host \<Rightarrow> security_node \<Rightarrow> (fault_point \<Rightarrow> bool) \<Rightarrow> owner_signed_trust_bundle \<Rightarrow> high_water \<Rightarrow> trust_row \<Rightarrow> (security_state, unit) step" where
  "apply_trust_committed h n fault candidate w row st =
     bind_step (lift_step (verifyTrustRow h n (ss_history st) row)) (\<lambda>current.
     let v = tb_epoch (sa_body candidate); cv = tb_epoch (sa_body current) in
     if hw_sequence w \<noteq> cv \<or> hw_bodyDigest w \<noteq> tb_bodyDigest (sa_body current) then fail_step PfRollbackDetected
     else if v < cv then fail_step PfRollbackDetected
     else if v = cv then
       (if tb_bodyDigest (sa_body candidate) \<noteq> tb_bodyDigest (sa_body current) then fail_step PfRollbackDetected else return_step ())
     else
       bind_step (lift_step (validateTrustTransition n (ss_history st) current candidate)) (\<lambda>_.
       bind_step (updateTrustHighWater v (tb_bodyDigest (sa_body candidate)) cv) (\<lambda>_.
       bind_step (fault_at fault TrustAfterPrepare) (\<lambda>_.
       trust_finish n fault candidate v (tb_bodyDigest (sa_body candidate)) ())))) st"

definition authenticated_current :: "host \<Rightarrow> security_node \<Rightarrow> security_state \<Rightarrow> (protected_failure, owner_signed_trust_bundle option) result" where
  "authenticated_current h n st =
     (case ss_trust st of None \<Rightarrow> Inr None
      | Some row \<Rightarrow> bind_result (verifyTrustRow h n (ss_history st) row) (\<lambda>b. Inr (Some b)))"

definition applyOwnerSignedBundle ::
    "host \<Rightarrow> security_node \<Rightarrow> (fault_point \<Rightarrow> bool) \<Rightarrow> owner_signed_trust_bundle \<Rightarrow> (security_state, unit) step" where
  "applyOwnerSignedBundle h n fault bundle st =
     bind_step (lift_step (verifyTrustBundle h n bundle Candidate (authenticated_current h n st))) (\<lambda>b st.
       case ss_trustWater st of
         None \<Rightarrow> fail_step (if ss_trust st = None then PfMissing else PfRollbackDetected) st
       | Some w \<Rightarrow>
           if hw_phase w = Prepared then apply_trust_prepared h n fault b w st
           else (case ss_trust st of None \<Rightarrow> fail_step PfRollbackDetected st
             | Some row \<Rightarrow> apply_trust_committed h n fault b w row st)) st"

definition loadTrustBundle :: "host \<Rightarrow> security_node \<Rightarrow> (security_state, owner_signed_trust_bundle) step" where
  "loadTrustBundle h n st =
     (case (ss_trust st, ss_trustWater st) of
        (None, None) \<Rightarrow> fail_step PfMissing st
      | (Some row, Some w) \<Rightarrow>
          bind_step (lift_step (verifyTrustRow h n (ss_history st) row)) (\<lambda>b.
          if hw_phase w = Prepared then
            (if rr_epoch row \<noteq> hw_sequence w \<or> rr_bodyDigest row \<noteq> hw_bodyDigest w then fail_step PfRecoveryRequired
             else bind_step (commitTrustHighWater (hw_sequence w) (hw_bodyDigest w)) (\<lambda>_. return_step b))
          else if rr_epoch row \<noteq> hw_sequence w \<or> rr_bodyDigest row \<noteq> hw_bodyDigest w then fail_step PfRollbackDetected
          else return_step b) st
      | _ \<Rightarrow> fail_step PfRollbackDetected st)"

definition currentEpoch :: "host \<Rightarrow> security_node \<Rightarrow> (security_state, rat) step" where
  "currentEpoch h n = bind_step (loadTrustBundle h n) (\<lambda>b. return_step (tb_epoch (sa_body b)))"

text \<open>The key is returned by its text; the code decodes it to bytes.\<close>

definition resolveServerKey :: "host \<Rightarrow> security_node \<Rightarrow> string \<Rightarrow> (security_state, string option) step" where
  "resolveServerKey h n keyId =
     bind_step (loadTrustBundle h n) (\<lambda>b.
     return_step (map_option tk_spki (find (\<lambda>k. tk_keyId k = keyId \<and> tk_state k = TrustActive) (tb_keys (sa_body b)))))"

definition currentServerTrustRevision :: "host \<Rightarrow> security_node \<Rightarrow> security_state \<Rightarrow> (protected_failure, string) result" where
  "currentServerTrustRevision h n st =
     (case (ss_trust st, ss_trustWater st) of
        (Some row, Some w) \<Rightarrow>
          guard_result (hw_phase w = Committed \<and> rr_epoch row = hw_sequence w \<and> rr_bodyDigest row = hw_bodyDigest w) PfRecoveryRequired (
          bind_result (verifyTrustRow h n (ss_history st) row) (\<lambda>_. Inr (num_text (rr_epoch row) @ '':'' @ rr_bodyDigest row)))
      | _ \<Rightarrow> Inl PfMissing)"

definition currentPolicyRevision :: "host \<Rightarrow> security_node \<Rightarrow> security_state \<Rightarrow> (protected_failure, string) result" where
  "currentPolicyRevision h n st =
     (case (ss_ceiling st, ss_ceilingWater st) of
        (Some row, Some w) \<Rightarrow>
          guard_result (hw_phase w = Committed \<and> cl_version row = hw_sequence w \<and> cl_bodyDigest row = hw_bodyDigest w) PfRecoveryRequired (
          bind_result (verifyCeilingRow h n row) (\<lambda>_.
          bind_result (currentServerTrustRevision h n st) (\<lambda>t.
          Inr (num_text (cl_version row) @ '':'' @ cl_bodyDigest row @ '':'' @ t))))
      | _ \<Rightarrow> Inl PfMissing)"

end
