(* ===== verification/Security_Guarantees.thy ===== *)
theory Security_Guarantees
  imports Security_State Policy_Guarantees Guarded_Store
begin

text \<open>
  What the two databases together guarantee. The high-water marks only move forward, whatever is done to the
  artifact database and wherever an operation is interrupted, so a ceiling or trust bundle that was once loaded is never
  replaced by an older one. Keys of the server keep their bytes and are never reactivated. An interrupted update is
  completed by repeating it.
\<close>

section \<open>Relations that every step respects\<close>

text \<open>Marks move forward: to a later sequence, or stay with the digest they have.\<close>

definition mark_forward :: "high_water option \<Rightarrow> high_water option \<Rightarrow> bool" where
  "mark_forward w w' \<longleftrightarrow> (case w of None \<Rightarrow> True
     | Some a \<Rightarrow> (case w' of None \<Rightarrow> False
         | Some b \<Rightarrow> hw_sequence a < hw_sequence b \<or> hw_sequence a = hw_sequence b \<and> hw_bodyDigest a = hw_bodyDigest b))"

lemma mark_forward_refl: "mark_forward w w"
  by (simp add: mark_forward_def split: option.splits)

lemma mark_forward_trans: "mark_forward a b \<Longrightarrow> mark_forward b c \<Longrightarrow> mark_forward a c"
  by (auto simp: mark_forward_def split: option.splits)

lemma water_forward:
  "insert_water v d w = Inr x \<Longrightarrow> mark_forward w (Some x)"
  "commit_water v d w = Inr x \<Longrightarrow> mark_forward w (Some x)"
  "e < v \<Longrightarrow> update_water v d e w = Inr x \<Longrightarrow> mark_forward w (Some x)"
  by (auto simp: insert_water_def commit_water_def update_water_def mark_forward_def split: option.splits if_splits)

definition ceiling_forward :: "security_state \<Rightarrow> security_state \<Rightarrow> bool" where
  "ceiling_forward st st' = mark_forward (ss_ceilingWater st) (ss_ceilingWater st')"

definition trust_forward :: "security_state \<Rightarrow> security_state \<Rightarrow> bool" where
  "trust_forward st st' = mark_forward (ss_trustWater st) (ss_trustWater st')"

interpretation ceiling_steps: step_relation ceiling_forward
  by unfold_locales (auto simp: ceiling_forward_def intro: mark_forward_refl mark_forward_trans)

interpretation trust_steps: step_relation trust_forward
  by unfold_locales (auto simp: trust_forward_def intro: mark_forward_refl mark_forward_trans)

lemma ceiling_mark_forward:
  "(\<And>x. f (ss_ceilingWater st) = Inr x \<Longrightarrow> mark_forward (ss_ceilingWater st) (Some x)) \<Longrightarrow> ceiling_forward st (snd (ceiling_mark f st))"
  by (auto simp: ceiling_mark_def ceiling_forward_def mark_forward_refl split: sum.splits)

lemma trust_mark_forward:
  "(\<And>x. f (ss_trustWater st) = Inr x \<Longrightarrow> mark_forward (ss_trustWater st) (Some x)) \<Longrightarrow> trust_forward st (snd (trust_mark f st))"
  by (auto simp: trust_mark_def trust_forward_def mark_forward_refl split: sum.splits)

lemma writes_forward:
  "ceiling_forward st (snd (writeCeiling c st))" "trust_forward st (snd (writeTrustBundle n b st))"
  by (simp_all add: writeCeiling_def ceiling_forward_def writeTrustBundle_def trust_forward_def mark_forward_refl split: option.splits)

lemma ceiling_primitives:
  "ceiling_forward st (snd (insertCeilingHighWater v d st))"
  "ceiling_forward st (snd (commitCeilingHighWater v d st))"
  "e < v \<Longrightarrow> ceiling_forward st (snd (updateCeilingHighWater v d e st))"
  "ceiling_forward st (snd (fault_at fault p st))"
  unfolding insertCeilingHighWater_def commitCeilingHighWater_def updateCeilingHighWater_def fault_at_def
  by (auto intro: ceiling_mark_forward water_forward ceiling_steps.check)

lemma trust_primitives:
  "trust_forward st (snd (insertTrustHighWater v d st))"
  "trust_forward st (snd (commitTrustHighWater v d st))"
  "e < v \<Longrightarrow> trust_forward st (snd (updateTrustHighWater v d e st))"
  "trust_forward st (snd (fault_at fault p st))"
  unfolding insertTrustHighWater_def commitTrustHighWater_def updateTrustHighWater_def fault_at_def
  by (auto intro: trust_mark_forward water_forward trust_steps.check)

lemmas ceiling_step_rules = ceiling_steps.bind_lift ceiling_steps.bind ceiling_steps.return ceiling_steps.fail ceiling_primitives writes_forward

lemmas trust_step_rules = trust_steps.bind_lift trust_steps.bind trust_steps.return trust_steps.fail trust_primitives writes_forward

lemma ceiling_finish_forward: "ceiling_forward st (snd (ceiling_finish fault c v d a st))"
  unfolding ceiling_finish_def by (intro ceiling_step_rules)

lemma provisionInitialCeiling_forward: "ceiling_forward st (snd (provisionInitialCeiling h n fault a st))"
  unfolding provisionInitialCeiling_def provision_prepared_def
  by (auto intro!: ceiling_step_rules ceiling_finish_forward split: option.splits)

lemma adoptCeiling_forward: "ceiling_forward st (snd (adoptCeiling h n fault a st))"
  unfolding adoptCeiling_def adopt_prepared_def adopt_committed_def Let_def
  by (auto intro!: ceiling_step_rules ceiling_finish_forward split: option.splits)

lemma loadCeiling_forward: "ceiling_forward st (snd (loadCeiling h n st))"
  unfolding loadCeiling_def by (auto intro!: ceiling_step_rules split: option.splits)

lemma trust_finish_forward: "trust_forward st (snd (trust_finish n fault b v d a st))"
  unfolding trust_finish_def by (intro trust_step_rules)

lemma provisionInitialTrustBundle_forward: "trust_forward st (snd (provisionInitialTrustBundle h n fault b st))"
  unfolding provisionInitialTrustBundle_def provision_trust_prepared_def
  by (auto intro!: trust_step_rules trust_finish_forward split: option.splits)

lemma applyOwnerSignedBundle_forward: "trust_forward st (snd (applyOwnerSignedBundle h n fault b st))"
  unfolding applyOwnerSignedBundle_def apply_trust_prepared_def apply_trust_committed_def Let_def
  by (auto intro!: trust_step_rules trust_finish_forward split: option.splits)

lemma loadTrustBundle_forward: "trust_forward st (snd (loadTrustBundle h n st))"
  unfolding loadTrustBundle_def by (auto intro!: trust_step_rules split: option.splits)

text \<open>The operations on one artifact do not touch the other.\<close>

definition same_trust :: "security_state \<Rightarrow> security_state \<Rightarrow> bool" where
  "same_trust st st' \<longleftrightarrow> ss_trust st' = ss_trust st \<and> ss_history st' = ss_history st \<and> ss_trustWater st' = ss_trustWater st"

definition same_ceiling :: "security_state \<Rightarrow> security_state \<Rightarrow> bool" where
  "same_ceiling st st' \<longleftrightarrow> ss_ceiling st' = ss_ceiling st \<and> ss_ceilingWater st' = ss_ceilingWater st"

interpretation ceiling_only: step_relation same_trust
  by unfold_locales (auto simp: same_trust_def)

interpretation trust_only: step_relation same_ceiling
  by unfold_locales (auto simp: same_ceiling_def)

lemma ceiling_only_primitives:
  "same_trust st (snd (ceiling_mark f st))" "same_trust st (snd (writeCeiling c st))" "same_trust st (snd (fault_at fault p st))"
  by (auto simp: same_trust_def ceiling_mark_def writeCeiling_def fault_at_def check_step_def split: sum.splits)

lemma trust_only_primitives:
  "same_ceiling st (snd (trust_mark f st))" "same_ceiling st (snd (writeTrustBundle n b st))" "same_ceiling st (snd (fault_at fault p st))"
  by (auto simp: same_ceiling_def trust_mark_def writeTrustBundle_def fault_at_def check_step_def split: sum.splits option.splits)

lemmas ceiling_only_rules = ceiling_only.bind_lift ceiling_only.bind ceiling_only.return ceiling_only.fail ceiling_only_primitives

lemmas trust_only_rules = trust_only.bind_lift trust_only.bind trust_only.return trust_only.fail trust_only_primitives

lemmas ceiling_operation_defs = provisionInitialCeiling_def provision_prepared_def adoptCeiling_def adopt_prepared_def adopt_committed_def
  loadCeiling_def ceiling_finish_def insertCeilingHighWater_def commitCeilingHighWater_def updateCeilingHighWater_def Let_def

lemmas trust_operation_defs = provisionInitialTrustBundle_def provision_trust_prepared_def applyOwnerSignedBundle_def apply_trust_prepared_def
  apply_trust_committed_def loadTrustBundle_def trust_finish_def insertTrustHighWater_def commitTrustHighWater_def updateTrustHighWater_def Let_def

lemma ceiling_operations_only:
  "same_trust st (snd (provisionInitialCeiling h n fault a st))" "same_trust st (snd (adoptCeiling h n fault a st))"
  "same_trust st (snd (loadCeiling h n st))"
  unfolding ceiling_operation_defs by (auto intro!: ceiling_only_rules split: option.splits)

lemma trust_operations_only:
  "same_ceiling st (snd (provisionInitialTrustBundle h n fault b st))" "same_ceiling st (snd (applyOwnerSignedBundle h n fault b st))"
  "same_ceiling st (snd (loadTrustBundle h n st))"
  unfolding trust_operation_defs by (auto intro!: trust_only_rules split: option.splits)


section \<open>Histories\<close>

text \<open>
  What can happen to the databases: an operation, interrupted at the points its fault function names, or the artifact database
  replaced by any other content, as by a restored backup.
\<close>

datatype security_event =
    ProvisionCeiling "fault_point \<Rightarrow> bool" signed_ceiling
  | AdoptCeiling "fault_point \<Rightarrow> bool" signed_ceiling
  | LoadCeiling
  | ProvisionTrust "fault_point \<Rightarrow> bool" owner_signed_trust_bundle
  | ApplyTrust "fault_point \<Rightarrow> bool" owner_signed_trust_bundle
  | LoadTrust
  | ReplaceArtifacts "ceiling_row option" "trust_row option" "trust_history_row list"

fun after_event :: "host \<Rightarrow> security_node \<Rightarrow> security_event \<Rightarrow> security_state \<Rightarrow> security_state" where
  "after_event h n (ProvisionCeiling f a) st = snd (provisionInitialCeiling h n f a st)"
| "after_event h n (AdoptCeiling f a) st = snd (adoptCeiling h n f a st)"
| "after_event h n LoadCeiling st = snd (loadCeiling h n st)"
| "after_event h n (ProvisionTrust f b) st = snd (provisionInitialTrustBundle h n f b st)"
| "after_event h n (ApplyTrust f b) st = snd (applyOwnerSignedBundle h n f b st)"
| "after_event h n LoadTrust st = snd (loadTrustBundle h n st)"
| "after_event h n (ReplaceArtifacts c t hist) st = st\<lparr>ss_ceiling := c, ss_trust := t, ss_history := hist\<rparr>"

definition run_security :: "host \<Rightarrow> security_node \<Rightarrow> security_event list \<Rightarrow> security_state \<Rightarrow> security_state" where
  "run_security h n es st = fold (after_event h n) es st"

lemma same_ceiling_forward: "same_ceiling st st' \<Longrightarrow> ceiling_forward st st'"
  by (simp add: same_ceiling_def ceiling_forward_def mark_forward_refl)

lemma same_trust_forward: "same_trust st st' \<Longrightarrow> trust_forward st st'"
  by (simp add: same_trust_def trust_forward_def mark_forward_refl)

lemma after_event_forward: "ceiling_forward st (after_event h n e st) \<and> trust_forward st (after_event h n e st)"
  by (cases e)
    (auto intro: provisionInitialCeiling_forward adoptCeiling_forward loadCeiling_forward provisionInitialTrustBundle_forward
      applyOwnerSignedBundle_forward loadTrustBundle_forward same_ceiling_forward same_trust_forward ceiling_operations_only trust_operations_only,
     simp_all add: ceiling_forward_def trust_forward_def mark_forward_refl)

lemma run_security_forward: "ceiling_forward st (run_security h n es st) \<and> trust_forward st (run_security h n es st)"
proof (induction es arbitrary: st)
  case Nil
  then show ?case by (simp add: run_security_def ceiling_steps.refl trust_steps.refl)
next
  case (Cons e es)
  then show ?case
    using after_event_forward [of st h n e] ceiling_steps.trans trust_steps.trans by (simp add: run_security_def) blast
qed

text \<open>A loaded artifact is the one the mark names.\<close>

lemma verifyCeilingRow_Inr:
  "verifyCeilingRow h n row = Inr c \<Longrightarrow>
     cl_artifact row = Some c \<and> verifyCeiling h n c Stored = Inr c \<and> cl_version row = nc_version (sa_body c) \<and> cl_bodyDigest row = nc_bodyDigest (sa_body c)"
  by (auto simp: verifyCeilingRow_def verifyCeiling_def split: option.splits)

lemma loadCeiling_mark:
  assumes "loadCeiling h n st = (Inr c, st')"
  shows "\<exists>w. ss_ceilingWater st = Some w \<and> hw_sequence w = nc_version (sa_body c) \<and> hw_bodyDigest w = nc_bodyDigest (sa_body c)
    \<and> ss_ceilingWater st' = Some (w\<lparr>hw_phase := Committed\<rparr>) \<and> verifyCeiling h n c Stored = Inr c"
proof -
  obtain row w where row: "ss_ceiling st = Some row" and w: "ss_ceilingWater st = Some w"
    using assms by (auto simp: loadCeiling_def split: option.splits)
  then have ok: "verifyCeilingRow h n row = Inr c" and eq: "cl_version row = hw_sequence w" "cl_bodyDigest row = hw_bodyDigest w"
    using assms by (auto simp: loadCeiling_def bind_step_Inr split: if_splits)
  have "ss_ceilingWater st' = Some (w\<lparr>hw_phase := Committed\<rparr>)"
  proof (cases "hw_phase w")
    case Prepared
    then show ?thesis using assms row w eq
      by (auto simp: loadCeiling_def bind_step_Inr commitCeilingHighWater_def ceiling_mark_def commit_water_def)
  next
    case Committed
    then show ?thesis using assms row w eq by (auto simp: loadCeiling_def bind_step_Inr)
  qed
  then show ?thesis using verifyCeilingRow_Inr [OF ok] w eq by simp
qed

text \<open>
  C9. The authority ceiling is never rolled back: after a ceiling was loaded, whatever happens next, with operations interrupted
  anywhere and the artifact database replaced by any content, a ceiling that is loaded later is signed by the pinned
  owner key and has a later version, or is the same version with the same digest.
\<close>

theorem ceiling_never_rolled_back:
  assumes "loadCeiling h n st = (Inr c, st1)" and "loadCeiling h n (run_security h n es st1) = (Inr c', st2)"
  shows "(nc_version (sa_body c) < nc_version (sa_body c')
      \<or> nc_version (sa_body c) = nc_version (sa_body c') \<and> nc_bodyDigest (sa_body c) = nc_bodyDigest (sa_body c'))
    \<and> ed25519_verify h (pk_spki (ceilingProvisioningKey (sn_pins n))) (canonicalJson (ceiling_json (sa_body c'))) (sa_signature c') = Some True"
proof -
  obtain w where w: "hw_sequence w = nc_version (sa_body c)" "hw_bodyDigest w = nc_bodyDigest (sa_body c)" "ss_ceilingWater st1 = Some w"
    using loadCeiling_mark [OF assms(1)] by fastforce
  obtain x where x: "ss_ceilingWater (run_security h n es st1) = Some x" "hw_sequence x = nc_version (sa_body c')"
    "hw_bodyDigest x = nc_bodyDigest (sa_body c')" and ok: "verifyCeiling h n c' Stored = Inr c'"
    using loadCeiling_mark [OF assms(2)] by blast
  have "mark_forward (Some w) (Some x)"
    using run_security_forward [of st1 h n es] w x unfolding ceiling_forward_def by simp
  moreover have "ed25519_verify h (pk_spki (ceilingProvisioningKey (sn_pins n))) (canonicalJson (ceiling_json (sa_body c'))) (sa_signature c') = Some True"
    using ok by (auto simp: verifyCeiling_def ceiling_pin_def verifyArtifactSignature_def split: option.splits if_splits)
  ultimately show ?thesis using w x by (simp add: mark_forward_def)
qed


section \<open>Completing an interrupted update\<close>

lemma candidate_is_storable: "verifyCeiling h n a Candidate = Inr c \<Longrightarrow> c = a \<and> verifyCeiling h n a Stored = Inr a"
  by (auto simp: verifyCeiling_def split: option.splits)

definition ceiling_row_of :: "signed_ceiling \<Rightarrow> ceiling_row" where
  "ceiling_row_of c = \<lparr>cl_version = nc_version (sa_body c), cl_bodyDigest = nc_bodyDigest (sa_body c), cl_artifact = Some c\<rparr>"

definition ceiling_mark_of :: "signed_ceiling \<Rightarrow> water_phase \<Rightarrow> high_water" where
  "ceiling_mark_of c p = \<lparr>hw_sequence = nc_version (sa_body c), hw_bodyDigest = nc_bodyDigest (sa_body c), hw_phase = p\<rparr>"

lemmas run_step_defs = bind_step_def return_step_def fail_step_def check_step_def lift_step_def fault_at_def writeCeiling_def
  commitCeilingHighWater_def updateCeilingHighWater_def ceiling_mark_def commit_water_def update_water_def ceiling_finish_def

text \<open>The states an adoption passes through.\<close>

definition prepared_state :: "signed_ceiling \<Rightarrow> security_state \<Rightarrow> security_state" where
  "prepared_state a st = st\<lparr>ss_ceilingWater := Some (ceiling_mark_of a Prepared)\<rparr>"

definition written_state :: "signed_ceiling \<Rightarrow> security_state \<Rightarrow> security_state" where
  "written_state a st = (prepared_state a st)\<lparr>ss_ceiling := Some (ceiling_row_of a)\<rparr>"

definition adopted_state :: "signed_ceiling \<Rightarrow> security_state \<Rightarrow> security_state" where
  "adopted_state a st = (written_state a st)\<lparr>ss_ceilingWater := Some (ceiling_mark_of a Committed)\<rparr>"

lemmas stage_defs = prepared_state_def written_state_def adopted_state_def ceiling_mark_of_def ceiling_row_of_def

lemma finish_from_prepared:
  "ceiling_finish (\<lambda>_. False) a (nc_version (sa_body a)) (nc_bodyDigest (sa_body a)) answer (prepared_state a st)
     = (Inr answer, adopted_state a st)"
  by (simp add: run_step_defs stage_defs)

lemma adopted_row_ok:
  "verifyCeiling h n a Candidate = Inr a \<Longrightarrow> verifyCeilingRow h n (ceiling_row_of a) = Inr a"
  using candidate_is_storable by (auto simp: verifyCeilingRow_def ceiling_row_of_def)

lemma clean_ceiling:
  assumes "loadCeiling h n st = (Inr c, st)"
  obtains row w where "ss_ceiling st = Some row" and "ss_ceilingWater st = Some w" and "hw_phase w = Committed"
    and "verifyCeilingRow h n row = Inr c" and "hw_sequence w = nc_version (sa_body c)" and "hw_bodyDigest w = nc_bodyDigest (sa_body c)"
    and "cl_version row = nc_version (sa_body c)"
proof -
  obtain w where w: "ss_ceilingWater st = Some w" "hw_sequence w = nc_version (sa_body c)" "hw_bodyDigest w = nc_bodyDigest (sa_body c)"
    "ss_ceilingWater st = Some (w\<lparr>hw_phase := Committed\<rparr>)" using loadCeiling_mark [OF assms] by blast
  then have "w = w\<lparr>hw_phase := Committed\<rparr>" by simp
  then have phase: "hw_phase w = Committed" by (metis high_water.select_convs(3) high_water.surjective high_water.update_convs(3))
  obtain row where row: "ss_ceiling st = Some row" using assms w(1) by (auto simp: loadCeiling_def split: option.splits)
  then have "verifyCeilingRow h n row = Inr c" using assms w(1) by (auto simp: loadCeiling_def bind_step_Inr split: if_splits)
  with that row w(1-3) phase verifyCeilingRow_Inr show thesis by blast
qed

lemma adopt_from_clean:
  assumes "loadCeiling h n st = (Inr c, st)" and "verifyCeiling h n a Candidate = Inr a" and "nc_version (sa_body c) < nc_version (sa_body a)"
  shows "adoptCeiling h n fault a st =
    (if fault CeilingAfterPrepare then (Inl (PfInterrupted CeilingAfterPrepare), prepared_state a st)
     else if fault CeilingAfterArtifact then (Inl (PfInterrupted CeilingAfterArtifact), written_state a st)
     else if fault CeilingAfterCommit then (Inl (PfInterrupted CeilingAfterCommit), adopted_state a st)
     else (Inr Adopted, adopted_state a st))"
proof (rule clean_ceiling [OF assms(1)])
  fix row w assume "ss_ceiling st = Some row" "ss_ceilingWater st = Some w" "hw_phase w = Committed"
    "verifyCeilingRow h n row = Inr c" "hw_sequence w = nc_version (sa_body c)" "hw_bodyDigest w = nc_bodyDigest (sa_body c)"
  then show ?thesis
    using assms(2,3) by (simp add: adoptCeiling_def adopt_committed_def Let_def run_step_defs stage_defs)
qed

lemma adopt_again:
  assumes "loadCeiling h n st = (Inr c, st)" and "verifyCeiling h n a Candidate = Inr a" and "nc_version (sa_body c) < nc_version (sa_body a)"
  shows "adoptCeiling h n (\<lambda>_. False) a (prepared_state a st) = (Inr Recovered, adopted_state a st)"
    and "adoptCeiling h n (\<lambda>_. False) a (written_state a st) = (Inr Recovered, adopted_state a st)"
    and "adoptCeiling h n (\<lambda>_. False) a (adopted_state a st) = (Inr AdoptionDuplicate, adopted_state a st)"
proof -
  note ok = adopted_row_ok [OF assms(2), unfolded ceiling_row_of_def]
  show "adoptCeiling h n (\<lambda>_. False) a (prepared_state a st) = (Inr Recovered, adopted_state a st)"
  proof (rule clean_ceiling [OF assms(1)])
    fix row w assume row: "ss_ceiling st = Some row" "cl_version row = nc_version (sa_body c)"
    then have "adopt_prepared h n (\<lambda>_. False) a (ceiling_mark_of a Prepared) (prepared_state a st)
        = ceiling_finish (\<lambda>_. False) a (nc_version (sa_body a)) (nc_bodyDigest (sa_body a)) Recovered (prepared_state a st)"
      using assms(3) by (simp add: adopt_prepared_def stage_defs)
    then show ?thesis
      using assms(2) finish_from_prepared by (simp add: adoptCeiling_def bind_step_def lift_step_def) (simp add: stage_defs)
  qed
  show "adoptCeiling h n (\<lambda>_. False) a (written_state a st) = (Inr Recovered, adopted_state a st)"
    using assms(2) ok by (simp add: adoptCeiling_def adopt_prepared_def run_step_defs stage_defs)
  show "adoptCeiling h n (\<lambda>_. False) a (adopted_state a st) = (Inr AdoptionDuplicate, adopted_state a st)"
    using assms(2) ok by (simp add: adoptCeiling_def adopt_committed_def Let_def run_step_defs stage_defs)
qed

lemma adopted_state_loads:
  "verifyCeiling h n a Candidate = Inr a \<Longrightarrow> loadCeiling h n (adopted_state a st) = (Inr a, adopted_state a st)"
  using adopted_row_ok [of h n a, unfolded ceiling_row_of_def] by (simp add: loadCeiling_def run_step_defs stage_defs)

text \<open>
  C23. An interrupted adoption is completed by repeating it: from a state whose ceiling loads as it is, adopting a newer valid ceiling,
  stopped at any point, and then adopting it again ends in exactly the state of an adoption that was never interrupted, and
  the new ceiling loads.
\<close>

theorem interrupted_adoption_completes:
  assumes "loadCeiling h n st = (Inr c, st)" and "verifyCeiling h n a Candidate = Inr a"
    and "nc_version (sa_body c) < nc_version (sa_body a)"
  shows "\<exists>answer finished. adoptCeiling h n (\<lambda>_. False) a st = (Inr Adopted, finished)
    \<and> adoptCeiling h n (\<lambda>_. False) a (snd (adoptCeiling h n fault a st)) = (Inr answer, finished)
    \<and> loadCeiling h n finished = (Inr a, finished)"
  using adopt_from_clean [OF assms] adopt_again [OF assms] adopted_state_loads [OF assms(2)] by simp


section \<open>Server keys\<close>

text \<open>A key keeps its bytes; a revoked key stays revoked and a retired one is not activated again.\<close>

definition succeeds :: "trust_history_row \<Rightarrow> trust_history_row \<Rightarrow> bool" where
  "succeeds r r' \<longleftrightarrow> th_keyId r' = th_keyId r \<and> th_spki r' = th_spki r \<and> (th_state r = TrustRevoked \<longrightarrow> th_state r' = TrustRevoked)
     \<and> (th_state r = TrustRetired \<longrightarrow> th_state r' \<noteq> TrustActive)"

definition history_forward :: "security_state \<Rightarrow> security_state \<Rightarrow> bool" where
  "history_forward st st' \<longleftrightarrow> (\<forall>r \<in> set (ss_history st). \<exists>r' \<in> set (ss_history st'). succeeds r r')"

lemma succeeds_trans: "succeeds a b \<Longrightarrow> succeeds b c \<Longrightarrow> succeeds a c"
  unfolding succeeds_def by (metis trust_key_state.exhaust)

lemma history_forward_same: "ss_history st' = ss_history st \<Longrightarrow> history_forward st st'"
  unfolding history_forward_def succeeds_def by fastforce

interpretation history_steps: step_relation history_forward
proof
  show "history_forward s s" for s by (simp add: history_forward_same)
  show "history_forward s t \<Longrightarrow> history_forward t u \<Longrightarrow> history_forward s u" for s t u
    unfolding history_forward_def using succeeds_trans by meson
qed

lemma same_history_primitives:
  "ss_history (snd (trust_mark f st)) = ss_history st" "ss_history (snd (fault_at fault p st)) = ss_history st"
  by (auto simp: trust_mark_def fault_at_def check_step_def split: sum.splits)

lemma history_primitives:
  "history_forward st (snd (trust_mark f st))" "history_forward st (snd (fault_at fault p st))"
  by (simp_all add: history_forward_same same_history_primitives)

lemma upsert_keys_row:
  assumes "upsert_keys n epoch ks hist = Some hist'" and "distinct (map tk_keyId ks)" and "r \<in> set hist"
  shows "\<exists>r' \<in> set hist'. th_keyId r' = th_keyId r \<and> th_spki r' = th_spki r
    \<and> th_state r' = (case find_key ks (th_keyId r) of None \<Rightarrow> th_state r | Some k \<Rightarrow> tk_state k)"
  using assms
proof (induction ks arbitrary: hist r)
  case Nil
  then show ?case by (auto simp: find_key_def)
next
  case (Cons k ks)
  then obtain mid where mid: "upsert_key n epoch k hist = Some mid" "upsert_keys n epoch ks mid = Some hist'"
    by (auto simp: Option.bind_eq_Some_conv)
  define r1 where "r1 = (if th_keyId r = tk_keyId k then r\<lparr>th_state := tk_state k, th_lastSeenEpoch := epoch\<rparr> else r)"
  have "r1 \<in> set mid"
    using mid(1) Cons.prems(3) by (auto simp: upsert_key_def r1_def list_ex_iff split: if_splits)
  then obtain r' where r': "r' \<in> set hist'" "th_keyId r' = th_keyId r1" "th_spki r' = th_spki r1"
    "th_state r' = (case find_key ks (th_keyId r1) of None \<Rightarrow> th_state r1 | Some k \<Rightarrow> tk_state k)"
    using Cons.IH [OF mid(2)] Cons.prems(2) by auto
  have "tk_keyId k \<notin> tk_keyId ` set ks" using Cons.prems(2) by simp
  then have "find_key ks (tk_keyId k) = None" unfolding find_key_def find_None_iff by (metis imageI)
  then have "th_state r' = (case find_key (k # ks) (th_keyId r) of None \<Rightarrow> th_state r | Some k \<Rightarrow> tk_state k)"
    using r'(4) by (cases "th_keyId r = tk_keyId k") (simp_all add: r1_def find_key_def split: option.splits)
  then show ?case using r' by (intro bexI [of _ r']) (simp_all add: r1_def)
qed

lemma writeTrustBundle_history:
  assumes "list_all (key_continues (tb_keys (sa_body b))) (ss_history st)" and "distinct (map tk_keyId (tb_keys (sa_body b)))"
  shows "history_forward st (snd (writeTrustBundle n b st))"
proof (cases "upsert_keys n (tb_epoch (sa_body b)) (tb_keys (sa_body b)) (ss_history st)")
  case None
  then show ?thesis by (simp add: writeTrustBundle_def history_steps.refl)
next
  case (Some hist)
  have "\<exists>r' \<in> set hist. succeeds r r'" if r: "r \<in> set (ss_history st)" for r
  proof -
    obtain k where k: "find_key (tb_keys (sa_body b)) (th_keyId r) = Some k" "th_state r = TrustRevoked \<longrightarrow> tk_state k = TrustRevoked"
      "th_state r = TrustRetired \<longrightarrow> tk_state k \<noteq> TrustActive"
      using assms(1) r by (fastforce simp: list_all_iff key_continues_def split: option.splits)
    obtain r' where "r' \<in> set hist" "th_keyId r' = th_keyId r" "th_spki r' = th_spki r" "th_state r' = tk_state k"
      using upsert_keys_row [OF Some assms(2) r] k(1) by auto
    then show ?thesis using k by (intro bexI [of _ r']) (simp_all add: succeeds_def)
  qed
  then show ?thesis using Some by (simp add: writeTrustBundle_def history_forward_def)
qed

lemma trust_finish_history:
  assumes "list_all (key_continues (tb_keys (sa_body b))) (ss_history st)" and "distinct (map tk_keyId (tb_keys (sa_body b)))"
  shows "history_forward st (snd (trust_finish n fault b v d a st))"
  unfolding trust_finish_def commitTrustHighWater_def
  by (intro history_steps.bind history_steps.return history_primitives writeTrustBundle_history [OF assms])

lemma verified_keys_distinct:
  "verifyTrustBundle h n a source retained = Inr b \<Longrightarrow> b = a \<and> distinct (map tk_keyId (tb_keys (sa_body b)))"
  by (auto simp: verifyTrustBundle_def ownerSignedTrustBundleSchema_def serverTrustBundleBodySchema_def split: option.splits)

lemma validateTrustTransition_continues:
  "validateTrustTransition n hist c b = Inr u \<Longrightarrow> list_all (key_continues (tb_keys (sa_body b))) hist"
  by (simp add: validateTrustTransition_def)

lemma trust_mark_keeps: "trust_mark f st = (r, t) \<Longrightarrow> ss_history t = ss_history st"
  using same_history_primitives(1) by (metis snd_conv)

lemma fault_at_keeps: "fault_at fault p st = (r, t) \<Longrightarrow> t = st"
  by (auto simp: fault_at_def check_step_def)

lemma provision_history: "history_forward st (snd (provisionInitialTrustBundle h n fault a st))"
proof -
  have finish: "history_forward t (snd (trust_finish n fault b v d x t))"
    if "verifyTrustBundle h n a Candidate (Inr None) = Inr b" "ss_history t = []" for b v d t and x :: security_adoption
    by (rule trust_finish_history) (use that verified_keys_distinct in auto)
  show ?thesis
    unfolding provisionInitialTrustBundle_def provision_trust_prepared_def insertTrustHighWater_def commitTrustHighWater_def
    by (auto intro!: history_steps.bind_lift history_steps.bind history_steps.return history_steps.fail history_primitives finish
        dest!: trust_mark_keeps fault_at_keeps split: option.splits)
qed

lemma apply_history: "history_forward st (snd (applyOwnerSignedBundle h n fault a st))"
proof -
  have finish: "history_forward t (snd (trust_finish n fault b v d () t))"
    if "verifyTrustBundle h n a Candidate r = Inr b" "validateTrustTransition n (ss_history t) c b = Inr u" for b v d t r c u
    by (rule trust_finish_history) (use that verified_keys_distinct validateTrustTransition_continues in auto)
  show ?thesis
    unfolding applyOwnerSignedBundle_def apply_trust_prepared_def apply_trust_committed_def Let_def updateTrustHighWater_def commitTrustHighWater_def
    by (auto intro!: history_steps.bind_lift history_steps.bind history_steps.return history_steps.fail history_primitives finish
        dest!: trust_mark_keeps fault_at_keeps split: option.splits)
qed

lemma load_history: "history_forward st (snd (loadTrustBundle h n st))"
  unfolding loadTrustBundle_def commitTrustHighWater_def
  by (auto intro!: history_steps.bind_lift history_steps.bind history_steps.return history_steps.fail history_primitives split: option.splits)

lemma ceiling_operations_history:
  "history_forward st (snd (provisionInitialCeiling h n fault a st))" "history_forward st (snd (adoptCeiling h n fault a st))"
  "history_forward st (snd (loadCeiling h n st))"
  using ceiling_operations_only by (auto intro: history_forward_same simp: same_trust_def)

fun is_operation :: "security_event \<Rightarrow> bool" where
  "is_operation (ReplaceArtifacts c t hist) = False"
| "is_operation _ = True"

lemma after_event_history: "is_operation e \<Longrightarrow> history_forward st (after_event h n e st)"
  by (cases e) (auto intro: provision_history apply_history load_history ceiling_operations_history)

lemma run_security_history: "list_all is_operation es \<Longrightarrow> history_forward st (run_security h n es st)"
proof (induction es arbitrary: st)
  case Nil
  then show ?case by (simp add: run_security_def history_steps.refl)
next
  case (Cons e es)
  then show ?case
    using after_event_history [of e st h n] history_steps.trans by (simp add: run_security_def)
qed

lemma loadTrustBundle_Inr:
  assumes "loadTrustBundle h n st = (Inr b, st')"
  shows "\<exists>row. ss_trust st = Some row \<and> verifyTrustRow h n (ss_history st) row = Inr b"
  using assms by (auto simp: loadTrustBundle_def bind_step_Inr split: option.splits if_splits)

lemma verified_history:
  assumes "verifyTrustRow h n hist row = Inr b" and "r \<in> set hist"
  shows "\<exists>k. find_key (tb_keys (sa_body b)) (th_keyId r) = Some k \<and> tk_spki k = th_spki r \<and> tk_state k = th_state r
    \<and> distinct (map tk_keyId (tb_keys (sa_body b)))"
proof -
  obtain a where v: "verifyTrustBundle h n a Stored (Inr None) = Inr b" "validateTrustHistory n hist b = Inr ()"
    using assms(1) by (auto simp: verifyTrustRow_def split: option.splits)
  then have "history_matches n b r" using assms(2) by (simp add: validateTrustHistory_def list_all_iff)
  then show ?thesis using verified_keys_distinct [OF v(1)] by (auto simp: history_matches_def split: option.splits)
qed

lemma find_active:
  assumes "find (\<lambda>k. tk_keyId k = i \<and> tk_state k = TrustActive) keys = Some x" and "find_key keys i = Some k" and "distinct (map tk_keyId keys)"
  shows "x = k"
proof -
  have "x \<in> set keys" "tk_keyId x = i" using find_SomeD [OF assms(1)] by blast+
  moreover have "k \<in> set keys" "tk_keyId k = i" using find_SomeD [OF assms(2)[unfolded find_key_def]] by blast+
  ultimately show ?thesis using distinct_key_eq [OF assms(3)] by simp
qed

text \<open>
  C10. Trust in a server key only shrinks: for every key the node has recorded, after any sequence of its operations, interrupted
  anywhere, the key either does not resolve or resolves to the bytes that were recorded, and it resolves only if it
  was recorded as active; a retired or revoked key never serves again.
\<close>

theorem withdrawn_key_never_resolves:
  assumes "r \<in> set (ss_history st)" and "list_all is_operation es"
    and "resolveServerKey h n (th_keyId r) (run_security h n es st) = (Inr (Some spki), st')"
  shows "th_state r = TrustActive \<and> spki = th_spki r"
proof -
  let ?st = "run_security h n es st"
  obtain r' where r': "r' \<in> set (ss_history ?st)" "succeeds r r'"
    using run_security_history [OF assms(2)] assms(1) unfolding history_forward_def by blast
  have id: "th_keyId r' = th_keyId r" "th_spki r' = th_spki r" using r'(2) by (simp_all add: succeeds_def)
  obtain b k where load: "loadTrustBundle h n ?st = (Inr b, st')"
    and k: "find (\<lambda>k. tk_keyId k = th_keyId r \<and> tk_state k = TrustActive) (tb_keys (sa_body b)) = Some k" "spki = tk_spki k"
    using assms(3) by (auto simp: resolveServerKey_def bind_step_Inr)
  obtain row where row: "verifyTrustRow h n (ss_history ?st) row = Inr b" using loadTrustBundle_Inr [OF load] by blast
  obtain k' where k': "find_key (tb_keys (sa_body b)) (th_keyId r) = Some k'" "tk_spki k' = th_spki r" "tk_state k' = th_state r'"
    "distinct (map tk_keyId (tb_keys (sa_body b)))"
    using verified_history [OF row r'(1)] unfolding id by blast
  have "k = k'" using find_active k(1) k'(1,4) by blast
  moreover have "tk_state k = TrustActive" using find_SomeD [OF k(1)] by blast
  ultimately have "th_state r' = TrustActive" using k'(3) by simp
  then have "th_state r = TrustActive" using r'(2) unfolding succeeds_def by (cases "th_state r") auto
  then show ?thesis using k(2) k'(2) \<open>k = k'\<close> by simp
qed


section \<open>A concrete node\<close>

definition sample_pin :: "string \<Rightarrow> pinned_owner_key" where
  "sample_pin i = \<lparr>pk_keyId = i, pk_algorithm = ''ed25519'', pk_spki = ''spki'', pk_fingerprint = d0\<rparr>"

definition sample_node :: security_node where
  "sample_node = \<lparr>sn_tenantId = ''tenant:1'', sn_nodeId = ''node:1'', sn_nodeClass = ''class:1'',
     sn_pins = \<lparr>ceilingProvisioningKey = sample_pin ''key:owner'', serverTrustRootKey = sample_pin ''key:root'',
       trustShrinkKeys = [sample_pin ''key:shrink'']\<rparr>,
     sn_keys = \<lparr>ks_export = Some, ks_digest = id\<rparr>\<rparr>"

definition sample_signed :: "rat \<Rightarrow> signed_ceiling" where
  "sample_signed v = \<lparr>sa_body = sample_ceiling\<lparr>nc_version := v\<rparr>, sa_signatureAlgorithm = ''Ed25519'', sa_signature = ''signature-0123456789''\<rparr>"

lemma sample_ceiling_texts:
  "list_all (\<lambda>t. \<not> secret_text t)
    [NODE_CEILING_SCHEMA_V1, ''tenant:1'', ''node:1'', ''2025-05-01T00:00:00.000Z'', ''key:owner'', ''project:1'', ''executor:1'', ''task.run'', ''/srv'',
     ''high'', ''preauthorized'', ''9.5'', d0, ''Ed25519'']"
  by (rule plain_texts_clean) code_simp

lemma sample_ceiling_names:
  "list_all (\<lambda>k. \<not> keyCarriesSecret k)
    [''body'', ''signatureAlgorithm'', ''schema'', ''tenantId'', ''nodeId'', ''version'', ''issuedAt'', ''issuerKeyId'', ''projectIds'', ''executorIds'',
     ''operationIds'', ''credentialRefs'', ''filesystemRoots'', ''networkDestinations'', ''maxRisk'', ''externalEffects'', ''maxDurationSeconds'',
     ''maxConcurrentEffects'', ''maxCostUsd'', ''bodyDigest'']"
  by (rule plain_keys_clean) code_simp

lemma sample_ceiling_clean: "assertNoSecretMaterial (ceiling_metadata (sample_signed v)) l = Inr ()"
  using sample_ceiling_texts sample_ceiling_names
  by (simp add: assertNoSecretMaterial_def containsSecretMaterial_def ceiling_metadata_def ceiling_json_def with_digest_def ceiling_material_def
      sample_signed_def sample_ceiling_def str_array_def opt_field_def)

lemma sample_signed_schema: "v = 1 \<or> v = 2 \<Longrightarrow> signedNodeAuthorityCeilingSchema sample_host (sample_signed v)"
  by (auto simp: signedNodeAuthorityCeilingSchema_def sample_signed_def signedArtifactShape_def nodeAuthorityCeilingBodySchema_def sample_ceiling_def
      id_eval positive_int_def nonnegative_int_def z_int_def isoInstant_def sortedUnique_def computeArtifactBodyDigest_def canonicalMoney_def
      integral_digits_def date_eval sample_host_def [THEN arg_cong, of zod_datetime])

lemma sample_signed_valid:
  assumes "v = 1 \<or> v = 2"
  shows "verifyCeiling sample_host sample_node (sample_signed v) source = Inr (sample_signed v)"
proof -
  have pin: "ceiling_pin (sn_pins sample_node) ''key:owner'' = Some (sample_pin ''key:owner'')"
    by (simp add: ceiling_pin_def sample_node_def sample_pin_def)
  have sig: "canonical_base64url ''signature-0123456789''"
    by (simp add: canonical_base64url_def is_alnum_def is_lower_def is_upper_def is_digit_def less_eq_char_def)
  have body: "nc_tenantId (sa_body (sample_signed v)) = ''tenant:1''" "nc_nodeId (sa_body (sample_signed v)) = ''node:1''"
    "nc_issuerKeyId (sa_body (sample_signed v)) = ''key:owner''" "nc_bodyDigest (sa_body (sample_signed v)) = d0"
    "sa_signature (sample_signed v) = ''signature-0123456789''" by (simp_all add: sample_signed_def sample_ceiling_def)
  have verified: "verifyArtifactSignature sample_host j d0 x y = Inr True" for j x y
    by (simp add: verifyArtifactSignature_def assertArtifactBodyDigest_def computeArtifactBodyDigest_def
        sample_host_def [THEN arg_cong, of ed25519_verify])
  have "sn_tenantId sample_node = ''tenant:1''" "sn_nodeId sample_node = ''node:1''" by (simp_all add: sample_node_def)
  then show ?thesis
    using sample_signed_schema [OF assms] sample_ceiling_clean [of v "''node ceiling''"]
    by (simp add: verifyCeiling_def body pin sig verified)
qed

definition sample_security_state :: security_state where
  "sample_security_state = empty_security_state\<lparr>ss_ceiling := Some (ceiling_row_of (sample_signed 1)),
     ss_ceilingWater := Some (ceiling_mark_of (sample_signed 1) Committed)\<rparr>"

lemma sample_loads: "loadCeiling sample_host sample_node sample_security_state = (Inr (sample_signed 1), sample_security_state)"
  using adopted_row_ok [of sample_host sample_node "sample_signed 1"] sample_signed_valid [of 1]
  by (simp add: loadCeiling_def sample_security_state_def run_step_defs) (simp add: ceiling_row_of_def ceiling_mark_of_def)

theorem interrupted_adoption_completes_witness:
  "\<exists>answer finished. adoptCeiling sample_host sample_node (\<lambda>_. False) (sample_signed 2) sample_security_state = (Inr Adopted, finished)
    \<and> adoptCeiling sample_host sample_node (\<lambda>_. False) (sample_signed 2)
        (snd (adoptCeiling sample_host sample_node (\<lambda>p. p = CeilingAfterArtifact) (sample_signed 2) sample_security_state)) = (Inr answer, finished)
    \<and> loadCeiling sample_host sample_node finished = (Inr (sample_signed 2), finished)"
proof (rule interrupted_adoption_completes [OF sample_loads])
  show "verifyCeiling sample_host sample_node (sample_signed 2) Candidate = Inr (sample_signed 2)" by (rule sample_signed_valid) simp
  show "nc_version (sa_body (sample_signed 1)) < nc_version (sa_body (sample_signed 2))" by (simp add: sample_signed_def)
qed

theorem ceiling_never_rolled_back_witness:
  "nc_version (sa_body (sample_signed 1)) < nc_version (sa_body (sample_signed 2))
   \<or> nc_version (sa_body (sample_signed 1)) = nc_version (sa_body (sample_signed 2))
     \<and> nc_bodyDigest (sa_body (sample_signed 1)) = nc_bodyDigest (sa_body (sample_signed 2))"
proof -
  have v: "verifyCeiling sample_host sample_node (sample_signed 2) Candidate = Inr (sample_signed 2)" by (rule sample_signed_valid) simp
  have "nc_version (sa_body (sample_signed 1)) < nc_version (sa_body (sample_signed 2))" by (simp add: sample_signed_def)
  then have "run_security sample_host sample_node [AdoptCeiling (\<lambda>_. False) (sample_signed 2)] sample_security_state
      = adopted_state (sample_signed 2) sample_security_state"
    using adopt_from_clean [OF sample_loads v] by (simp add: run_security_def)
  then have "loadCeiling sample_host sample_node (run_security sample_host sample_node [AdoptCeiling (\<lambda>_. False) (sample_signed 2)] sample_security_state)
      = (Inr (sample_signed 2), adopted_state (sample_signed 2) sample_security_state)"
    using adopted_state_loads [OF v] by simp
  from ceiling_never_rolled_back [OF sample_loads this] show ?thesis by blast
qed

definition sample_bundle :: owner_signed_trust_bundle where
  "sample_bundle = \<lparr>sa_body = \<lparr>tb_schema = SERVER_TRUST_BUNDLE_SCHEMA_V1, tb_tenantId = ''tenant:1'', tb_nodeClass = ''class:1'', tb_epoch = 1,
       tb_issuedAt = ''2025-05-01T00:00:00.000Z'', tb_ownerRootKeyId = ''key:root'',
       tb_keys = [\<lparr>tk_keyId = ''key:a'', tk_algorithm = ''ed25519'', tk_spki = ''server-key-aaaaaa'', tk_state = TrustActive\<rparr>,
         \<lparr>tk_keyId = ''key:b'', tk_algorithm = ''ed25519'', tk_spki = ''server-key-bbbbbb'', tk_state = TrustRevoked\<rparr>], tb_bodyDigest = d0\<rparr>,
     sa_signatureAlgorithm = ''Ed25519'', sa_signature = ''signature-0123456789'', shrinkAuthorization = None\<rparr>"

definition sample_key_row :: "string \<Rightarrow> string \<Rightarrow> trust_key_state \<Rightarrow> trust_history_row" where
  "sample_key_row i spki state = \<lparr>th_keyId = i, th_spki = spki, th_spkiDigest = ''sha256:'' @ spki, th_state = state,
     th_firstSeenEpoch = 1, th_lastSeenEpoch = 1\<rparr>"

definition sample_trust_state :: security_state where
  "sample_trust_state = empty_security_state\<lparr>ss_trust := Some \<lparr>rr_epoch = 1, rr_bodyDigest = d0, rr_bundle = Some sample_bundle\<rparr>,
     ss_history := [sample_key_row ''key:a'' ''server-key-aaaaaa'' TrustActive, sample_key_row ''key:b'' ''server-key-bbbbbb'' TrustRevoked],
     ss_trustWater := Some \<lparr>hw_sequence = 1, hw_bodyDigest = d0, hw_phase = Committed\<rparr>\<rparr>"

lemma sample_bundle_texts:
  "list_all (\<lambda>t. \<not> secret_text t)
    [SERVER_TRUST_BUNDLE_SCHEMA_V1, ''class:1'', ''key:root'', ''key:a'', ''key:b'', ''ed25519'', ''active'', ''revoked'']"
  by (rule plain_texts_clean) code_simp

lemma sample_bundle_names:
  "list_all (\<lambda>k. \<not> keyCarriesSecret k) [''nodeClass'', ''epoch'', ''ownerRootKeyId'', ''keys'', ''keyId'', ''algorithm'', ''state'']"
  by (rule plain_keys_clean) code_simp

lemma sample_bundle_clean: "assertNoSecretMaterial (bundle_metadata sample_bundle) l = Inr ()"
  using sample_bundle_texts sample_bundle_names sample_ceiling_texts sample_ceiling_names
  by (simp add: assertNoSecretMaterial_def containsSecretMaterial_def bundle_metadata_def Let_def key_metadata_def sample_bundle_def opt_field_def)

lemma sample_bundle_schema: "ownerSignedTrustBundleSchema sample_host sample_bundle"
  by (simp add: ownerSignedTrustBundleSchema_def serverTrustBundleBodySchema_def serverTrustKeySchema_def signedArtifactShape_def sample_bundle_def
      id_eval positive_int_def z_int_def isoInstant_def computeArtifactBodyDigest_def date_eval
      sample_host_def [THEN arg_cong, of zod_datetime] less_char_def)

lemma sample_bundle_verified: "verifyTrustBundle sample_host sample_node sample_bundle Stored r = Inr sample_bundle"
proof -
  have pin: "trust_root_pin (sn_pins sample_node) ''key:root'' = Some (sample_pin ''key:root'')"
    by (simp add: trust_root_pin_def sample_node_def sample_pin_def)
  have verified: "verifyArtifactSignature sample_host j d0 x y = Inr True" for j x y
    by (simp add: verifyArtifactSignature_def assertArtifactBodyDigest_def computeArtifactBodyDigest_def
        sample_host_def [THEN arg_cong, of ed25519_verify])
  have body: "tb_tenantId (sa_body sample_bundle) = ''tenant:1''" "tb_nodeClass (sa_body sample_bundle) = ''class:1''"
    "tb_ownerRootKeyId (sa_body sample_bundle) = ''key:root''" "tb_bodyDigest (sa_body sample_bundle) = d0" by (simp_all add: sample_bundle_def)
  have "sn_tenantId sample_node = ''tenant:1''" "sn_nodeClass sample_node = ''class:1''" by (simp_all add: sample_node_def)
  then show ?thesis
    using sample_bundle_schema sample_bundle_clean [of "''server trust bundle''"] by (simp add: verifyTrustBundle_def body pin verified)
qed

lemma sample_trust_loads: "loadTrustBundle sample_host sample_node sample_trust_state = (Inr sample_bundle, sample_trust_state)"
proof -
  have row: "ss_trust sample_trust_state = Some \<lparr>rr_epoch = 1, rr_bodyDigest = d0, rr_bundle = Some sample_bundle\<rparr>"
    "ss_trustWater sample_trust_state = Some \<lparr>hw_sequence = 1, hw_bodyDigest = d0, hw_phase = Committed\<rparr>"
    by (simp_all add: sample_trust_state_def)
  have hist: "validateTrustHistory sample_node (ss_history sample_trust_state) sample_bundle = Inr ()"
    by (simp add: validateTrustHistory_def history_matches_def find_key_def sample_bundle_def sample_trust_state_def sample_key_row_def
        sample_node_def spkiDigest_def)
  have "tb_epoch (sa_body sample_bundle) = 1" "tb_bodyDigest (sa_body sample_bundle) = d0" by (simp_all add: sample_bundle_def)
  then have "verifyTrustRow sample_host sample_node (ss_history sample_trust_state)
      \<lparr>rr_epoch = 1, rr_bodyDigest = d0, rr_bundle = Some sample_bundle\<rparr> = Inr sample_bundle"
    using sample_bundle_verified hist by (simp add: verifyTrustRow_def)
  then show ?thesis by (simp add: loadTrustBundle_def row bind_step_def lift_step_def return_step_def)
qed

theorem withdrawn_key_never_resolves_witness:
  "th_state (sample_key_row ''key:a'' ''server-key-aaaaaa'' TrustActive) = TrustActive
   \<and> resolveServerKey sample_host sample_node ''key:a'' (run_security sample_host sample_node [LoadTrust] sample_trust_state)
     = (Inr (Some ''server-key-aaaaaa''), sample_trust_state)"
proof -
  let ?r = "sample_key_row ''key:a'' ''server-key-aaaaaa'' TrustActive"
  have mem: "?r \<in> set (ss_history sample_trust_state)" by (simp add: sample_trust_state_def)
  have "run_security sample_host sample_node [LoadTrust] sample_trust_state = sample_trust_state"
    by (simp add: run_security_def sample_trust_loads)
  then have res: "resolveServerKey sample_host sample_node (th_keyId ?r) (run_security sample_host sample_node [LoadTrust] sample_trust_state)
      = (Inr (Some ''server-key-aaaaaa''), sample_trust_state)"
    by (simp add: resolveServerKey_def bind_step_def sample_trust_loads return_step_def sample_key_row_def) (simp add: sample_bundle_def)
  have "th_state ?r = TrustActive" using withdrawn_key_never_resolves [OF mem _ res] by simp
  then show ?thesis using res by (simp add: sample_key_row_def)
qed

end
