(* ===== verification/Security_Constraints.thy ===== *)
theory Security_Constraints
  imports Security_Guarantees
begin

text \<open>
  The constraints of the five tables in \<open>migrate\<close> of \<open>persistent-security-state.ts\<close>. The operations of \<open>Security_State\<close> write
  without checking them where the artifact schemas already imply them; here every row is shown to meet its
  constraints, so the database never refuses a write for one of those reasons.
\<close>

section \<open>The constraints\<close>

text \<open>\<open>length(d)=71 AND substr(d,1,7)='sha256:' AND substr(d,8) NOT GLOB '*[^0-9a-f]*'\<close>\<close>

definition digest_check :: "string \<Rightarrow> bool" where
  "digest_check d \<longleftrightarrow> length d = 71 \<and> take 7 d = ''sha256:'' \<and> \<not> list_ex (\<lambda>c. \<not> is_hex c) (drop 7 d)"

definition ceiling_current_check :: "ceiling_row \<Rightarrow> bool" where
  "ceiling_current_check r \<longleftrightarrow> cl_version r > 0 \<and> digest_check (cl_bodyDigest r)"

definition trust_current_check :: "trust_row \<Rightarrow> bool" where
  "trust_current_check r \<longleftrightarrow> rr_epoch r > 0 \<and> digest_check (rr_bodyDigest r)"

definition key_history_check :: "trust_history_row \<Rightarrow> bool" where
  "key_history_check r \<longleftrightarrow> digest_check (th_spkiDigest r) \<and> th_firstSeenEpoch r > 0 \<and> th_lastSeenEpoch r \<ge> th_firstSeenEpoch r"

definition key_history_keys :: "trust_history_row list \<Rightarrow> bool" where
  "key_history_keys rows \<longleftrightarrow> distinct (map th_keyId rows) \<and> distinct (map th_spkiDigest rows)"

definition high_water_check :: "high_water \<Rightarrow> bool" where
  "high_water_check w \<longleftrightarrow> hw_sequence w > 0 \<and> digest_check (hw_bodyDigest w)"

definition constraints_met :: "security_state \<Rightarrow> bool" where
  "constraints_met st \<longleftrightarrow> opt_all ceiling_current_check (ss_ceiling st) \<and> opt_all trust_current_check (ss_trust st)
     \<and> list_all key_history_check (ss_history st) \<and> key_history_keys (ss_history st)
     \<and> opt_all high_water_check (ss_ceilingWater st) \<and> opt_all high_water_check (ss_trustWater st)"

lemma digest_check_pattern: "digest_check d \<longleftrightarrow> digest_pattern d"
  by (auto simp: digest_check_def digest_pattern_def list_all_iff list_ex_iff)


section \<open>Every statement keeps them\<close>

definition keeps_constraints :: "security_state \<Rightarrow> security_state \<Rightarrow> bool" where
  "keeps_constraints st st' \<longleftrightarrow> (constraints_met st \<longrightarrow> constraints_met st')"

interpretation constrained: step_relation keeps_constraints
  by unfold_locales (auto simp: keeps_constraints_def)

lemma verified_ceiling_columns:
  "verifyCeiling h n a source = Inr c \<Longrightarrow> 0 < nc_version (sa_body c) \<and> digest_check (nc_bodyDigest (sa_body c))"
  by (auto simp: verifyCeiling_def signedNodeAuthorityCeilingSchema_def nodeAuthorityCeilingBodySchema_def positive_int_def
      digest_check_pattern split: option.splits)

lemma verified_bundle_columns:
  "verifyTrustBundle h n a source retained = Inr b \<Longrightarrow> 0 < tb_epoch (sa_body b) \<and> digest_check (tb_bodyDigest (sa_body b))"
  by (auto simp: verifyTrustBundle_def ownerSignedTrustBundleSchema_def serverTrustBundleBodySchema_def positive_int_def
      digest_check_pattern split: option.splits)

lemma water_checked:
  "0 < v \<Longrightarrow> digest_check d \<Longrightarrow> insert_water v d w = Inr x \<Longrightarrow> high_water_check x"
  "0 < v \<Longrightarrow> digest_check d \<Longrightarrow> update_water v d e w = Inr x \<Longrightarrow> high_water_check x"
  "opt_all high_water_check w \<Longrightarrow> commit_water v d w = Inr x \<Longrightarrow> high_water_check x"
  by (auto simp: insert_water_def update_water_def commit_water_def high_water_check_def split: option.splits if_splits)

lemma upsert_key_checked:
  assumes "upsert_key n epoch k rows = Some rows'" and "0 < epoch" and "\<And>s. digest_check (spkiDigest (sn_keys n) s)"
    and "list_all key_history_check rows" and "key_history_keys rows"
  shows "list_all key_history_check rows' \<and> key_history_keys rows'"
proof (cases "list_ex (\<lambda>r. th_keyId r = tk_keyId k) rows")
  case True
  let ?u = "\<lambda>r. if th_keyId r = tk_keyId k then r\<lparr>th_state := tk_state k, th_lastSeenEpoch := epoch\<rparr> else r"
  have late: "\<not> list_ex (\<lambda>r. th_keyId r = tk_keyId k \<and> epoch < th_firstSeenEpoch r) rows" and rows': "rows' = map ?u rows"
    using assms(1) True by (auto simp: upsert_key_def split: if_splits)
  have "map th_keyId rows' = map th_keyId rows" "map th_spkiDigest rows' = map th_spkiDigest rows"
    unfolding rows' by (induction rows) auto
  then have "key_history_keys rows'" using assms(5) unfolding key_history_keys_def by metis
  moreover have "list_all key_history_check rows'"
    using assms(4) late by (auto simp: rows' list_all_iff list_ex_iff key_history_check_def not_less)
  ultimately show ?thesis by simp
next
  case False
  then show ?thesis
    using assms by (auto simp: upsert_key_def list_ex_iff list_all_iff key_history_check_def key_history_keys_def split: if_splits) metis+
qed

lemma upsert_keys_checked:
  assumes "upsert_keys n epoch ks rows = Some rows'" and "0 < epoch" and "\<And>s. digest_check (spkiDigest (sn_keys n) s)"
    and "list_all key_history_check rows" and "key_history_keys rows"
  shows "list_all key_history_check rows' \<and> key_history_keys rows'"
  using assms(1,4,5)
proof (induction ks arbitrary: rows)
  case (Cons k ks)
  then obtain mid where "upsert_key n epoch k rows = Some mid" "upsert_keys n epoch ks mid = Some rows'"
    by (auto simp: Option.bind_eq_Some_conv)
  then show ?case using Cons.IH upsert_key_checked [OF _ assms(2,3)] Cons.prems by blast
qed simp

lemma mark_constrained:
  "(\<And>x. opt_all high_water_check (ss_ceilingWater st) \<Longrightarrow> f (ss_ceilingWater st) = Inr x \<Longrightarrow> high_water_check x)
     \<Longrightarrow> keeps_constraints st (snd (ceiling_mark f st))"
  "(\<And>x. opt_all high_water_check (ss_trustWater st) \<Longrightarrow> f (ss_trustWater st) = Inr x \<Longrightarrow> high_water_check x)
     \<Longrightarrow> keeps_constraints st (snd (trust_mark f st))"
  by (auto simp: ceiling_mark_def trust_mark_def keeps_constraints_def constraints_met_def split: sum.splits)

lemma fault_constrained: "keeps_constraints st (snd (fault_at fault p st))"
  by (simp add: fault_at_def constrained.check)

lemma commit_constrained:
  "keeps_constraints st (snd (commitCeilingHighWater v d st))" "keeps_constraints st (snd (commitTrustHighWater v d st))"
  unfolding commitCeilingHighWater_def commitTrustHighWater_def by (auto intro: mark_constrained water_checked)

lemma ceiling_writes_constrained:
  assumes "verifyCeiling h n a source = Inr c"
  shows "keeps_constraints st (snd (writeCeiling c st))"
    "keeps_constraints st (snd (insertCeilingHighWater (nc_version (sa_body c)) (nc_bodyDigest (sa_body c)) st))"
    "keeps_constraints st (snd (updateCeilingHighWater (nc_version (sa_body c)) (nc_bodyDigest (sa_body c)) e st))"
  using verified_ceiling_columns [OF assms]
  by (auto simp: writeCeiling_def keeps_constraints_def constraints_met_def ceiling_current_check_def
      insertCeilingHighWater_def updateCeilingHighWater_def intro!: mark_constrained [unfolded keeps_constraints_def constraints_met_def, rule_format]
      dest: water_checked)

lemma ceiling_finish_constrained:
  "verifyCeiling h n a source = Inr c \<Longrightarrow> keeps_constraints st (snd (ceiling_finish fault c v d x st))"
  unfolding ceiling_finish_def
  by (intro constrained.bind constrained.return ceiling_writes_constrained commit_constrained fault_constrained)

lemma trust_writes_constrained:
  assumes "verifyTrustBundle h n a source retained = Inr b" and "\<And>s. digest_check (spkiDigest (sn_keys n) s)"
  shows "keeps_constraints st (snd (writeTrustBundle n b st))"
    "keeps_constraints st (snd (insertTrustHighWater (tb_epoch (sa_body b)) (tb_bodyDigest (sa_body b)) st))"
    "keeps_constraints st (snd (updateTrustHighWater (tb_epoch (sa_body b)) (tb_bodyDigest (sa_body b)) e st))"
proof -
  note v = verified_bundle_columns [OF assms(1)]
  show "keeps_constraints st (snd (writeTrustBundle n b st))"
    using v upsert_keys_checked [OF _ _ assms(2), where epoch = "tb_epoch (sa_body b)" and ks = "tb_keys (sa_body b)"]
    by (auto simp: writeTrustBundle_def keeps_constraints_def constraints_met_def trust_current_check_def split: option.splits)
  show "keeps_constraints st (snd (insertTrustHighWater (tb_epoch (sa_body b)) (tb_bodyDigest (sa_body b)) st))"
    "keeps_constraints st (snd (updateTrustHighWater (tb_epoch (sa_body b)) (tb_bodyDigest (sa_body b)) e st))"
    unfolding insertTrustHighWater_def updateTrustHighWater_def using v by (auto intro!: mark_constrained dest: water_checked)
qed

lemma trust_finish_constrained:
  "verifyTrustBundle h n a source retained = Inr b \<Longrightarrow> (\<And>s. digest_check (spkiDigest (sn_keys n) s))
     \<Longrightarrow> keeps_constraints st (snd (trust_finish n fault b v d x st))"
  unfolding trust_finish_def
  by (intro constrained.bind constrained.return trust_writes_constrained commit_constrained fault_constrained)

lemmas constrained_rules = constrained.bind_lift constrained.bind constrained.return constrained.fail commit_constrained fault_constrained

lemma ceiling_operations_constrained:
  "keeps_constraints st (snd (provisionInitialCeiling h n fault a st))" "keeps_constraints st (snd (adoptCeiling h n fault a st))"
  "keeps_constraints st (snd (loadCeiling h n st))"
  unfolding provisionInitialCeiling_def provision_prepared_def adoptCeiling_def adopt_prepared_def adopt_committed_def loadCeiling_def Let_def
  by (auto intro!: constrained_rules ceiling_finish_constrained ceiling_writes_constrained split: option.splits)

lemma trust_operations_constrained:
  assumes "\<And>s. digest_check (spkiDigest (sn_keys n) s)"
  shows "keeps_constraints st (snd (provisionInitialTrustBundle h n fault b st))"
    "keeps_constraints st (snd (applyOwnerSignedBundle h n fault b st))" "keeps_constraints st (snd (loadTrustBundle h n st))"
  unfolding provisionInitialTrustBundle_def provision_trust_prepared_def applyOwnerSignedBundle_def apply_trust_prepared_def
    apply_trust_committed_def loadTrustBundle_def Let_def
  by (auto intro!: constrained_rules trust_finish_constrained [OF _ assms] trust_writes_constrained [OF _ assms] split: option.splits)

lemma after_event_constrained:
  assumes "\<And>s. digest_check (spkiDigest (sn_keys n) s)" and "is_operation e"
  shows "keeps_constraints st (after_event h n e st)"
  using assms(2) by (cases e) (auto intro: ceiling_operations_constrained trust_operations_constrained assms(1))

text \<open>
  C24. The tables of the security state are always well formed: where the digest of a key is a SHA-256 text, every state that the operations
  reach from well-formed tables, interrupted anywhere, meets every constraint of the schema: positive versions and epochs, digests of the
  right shape, epochs of a key in order, and no two keys of the history with one identifier or one digest.
\<close>

theorem security_tables_well_formed:
  assumes "\<And>s. digest_check (spkiDigest (sn_keys n) s)" and "list_all is_operation es" and "constraints_met st"
  shows "constraints_met (run_security h n es st)"
  using assms(2,3)
proof (induction es arbitrary: st)
  case (Cons e es)
  then show ?case
    using after_event_constrained [OF assms(1), of e st h] by (simp add: run_security_def keeps_constraints_def)
qed (simp add: run_security_def)

theorem security_tables_well_formed_witness:
  "constraints_met (run_security sample_host (sample_node\<lparr>sn_keys := \<lparr>ks_export = Some, ks_digest = \<lambda>_. replicate 64 CHR ''0''\<rparr>\<rparr>)
     [ProvisionCeiling (\<lambda>p. p = CeilingAfterArtifact) (sample_signed 1), ApplyTrust (\<lambda>_. False) sample_bundle] empty_security_state)"
  by (rule security_tables_well_formed)
    (simp_all add: digest_check_def spkiDigest_def list_ex_iff is_hex_def is_digit_def constraints_met_def empty_security_state_def key_history_keys_def)

end
