(* ===== verification/Ip_Address.thy ===== *)
theory Ip_Address
  imports Domain_Validators "HOL-Library.Word"
begin

text \<open>
  Internet addresses as the platform reads and writes them: \<open>isIP\<close> of \<open>node:net\<close> and the host name that the URL parser
  gives a bracketed IPv6 address (RFC 4291 text in, the shortest RFC 5952 text out). An address is a word of 32 or 128 bits,
  a block of addresses a prefix of it.
\<close>

section \<open>Joining and splitting text\<close>

text \<open>\<open>text.split("::")\<close>\<close>

function split_colons :: "string \<Rightarrow> string list" where
  "split_colons [] = [[]]"
| "split_colons (c # cs) =
     (if c = CHR '':'' \<and> starts_with cs '':'' then [] # split_colons (tl cs)
      else (case split_colons cs of [] \<Rightarrow> [[c]] | w # ws \<Rightarrow> (c # w) # ws))"
  by pat_completeness auto
termination by (relation "measure length") auto

text \<open>A text is calm when it has no two colons in a row.\<close>

lemma split_colons_calm: "\<not> contains_text s ''::'' \<Longrightarrow> split_colons s = [s]"
  by (induction s rule: split_colons.induct) (auto simp: starts_with_iff)

lemma split_colons_append:
  assumes "\<not> contains_text (l @ '':'') ''::''"
  shows "split_colons (l @ ''::'' @ r) = l # split_colons r"
  using assms
proof (induction l)
  case Nil
  then show ?case by (simp add: starts_with_iff)
next
  case (Cons c l)
  then have "\<not> (c = CHR '':'' \<and> starts_with (l @ ''::'' @ r) '':'')"
    by (cases l) (auto simp: starts_with_iff)
  with Cons show ?case by simp
qed

lemma contains_text_append: "contains_text (a @ p @ b) p"
proof (induction a)
  case Nil
  have "starts_with (p @ b) p" by (auto simp: starts_with_iff)
  then show ?case by (cases "p @ b") auto
qed simp

lemma contains_double: "contains_text s [d, d] \<longleftrightarrow> (\<exists>a b. s = a @ [d, d] @ b)"
proof
  show "contains_text s [d, d] \<Longrightarrow> \<exists>a b. s = a @ [d, d] @ b"
  proof (induction s)
    case (Cons c s)
    then consider (here) r where "c # s = [d, d] @ r" | (later) a b where "s = a @ [d, d] @ b" by (auto simp: starts_with_iff)
    then show ?case
    proof cases
      case here
      then have "c # s = [] @ [d, d] @ r" by simp
      then show ?thesis by blast
    next
      case later
      then have "c # s = (c # a) @ [d, d] @ b" by simp
      then show ?thesis by blast
    qed
  qed simp
qed (use contains_text_append in blast)

lemma join_calm:
  assumes "ws \<noteq> []" and "\<forall>w \<in> set ws. w \<noteq> [] \<and> d \<notin> set w"
  shows "\<not> contains_text (join_char d ws @ [d]) [d, d]"
proof
  have "contains_text (join_char d ws @ [d]) [d, d] \<Longrightarrow> [] \<in> set (butlast (split_char d (join_char d ws @ [d])))"
  proof -
    assume "contains_text (join_char d ws @ [d]) [d, d]"
    then obtain a b where ab: "join_char d ws @ [d] = a @ [d, d] @ b" by (auto simp: contains_double)
    have "split_char d (a @ [d, d] @ b) = split_char d a @ [] # split_char d b"
      using split_char_append [of d a "d # b"] by simp
    then show ?thesis unfolding ab by (simp add: butlast_append)
  qed
  moreover have "split_char d (join_char d ws @ [d]) = ws @ [[]]"
    using assms
  proof (induction d ws rule: join_char.induct)
    case (2 d w)
    then show ?case using split_char_append [of d w "[]"] by (simp add: split_char_single)
  next
    case (3 d w v ws)
    then show ?case using split_char_append [of d w "join_char d (v # ws) @ [d]"] by (simp add: split_char_single)
  qed simp
  moreover assume "contains_text (join_char d ws @ [d]) [d, d]"
  ultimately show False using assms(2) by auto
qed

lemma calm_prefix: "\<not> contains_text (s @ t) [d, d] \<Longrightarrow> \<not> contains_text s [d, d]"
  by (auto simp: contains_double) (metis append_assoc)


section \<open>Numbers in text\<close>

definition hex_value :: "char \<Rightarrow> nat" where
  "hex_value c = (if is_digit c then of_char c - 48 else if is_lower c then of_char c - 87 else of_char c - 55)"

definition hex_letter :: "nat \<Rightarrow> char" where
  "hex_letter n = char_of (if n < 10 then n + 48 else n + 87)"

definition read_hex :: "string \<Rightarrow> nat" where
  "read_hex s = foldl (\<lambda>a c. 16 * a + hex_value c) 0 s"

text \<open>\<open>n.toString(16)\<close> for a 16-bit number.\<close>

definition hex_text :: "nat \<Rightarrow> string" where
  "hex_text n = dropWhile (\<lambda>c. c = CHR ''0'') (map hex_letter [n div 4096 mod 16, n div 256 mod 16, n div 16 mod 16]) @ [hex_letter (n mod 16)]"

text \<open>\<open>/^[0-9a-f]{1,4}$/\<close>, and the same with capital letters.\<close>

definition hex_group :: "string \<Rightarrow> bool" where
  "hex_group s \<longleftrightarrow> 1 \<le> length s \<and> length s \<le> 4 \<and> list_all is_hex s"

definition any_hex_group :: "string \<Rightarrow> bool" where
  "any_hex_group s \<longleftrightarrow> hex_group (map to_lower s)"

text \<open>\<open>/^(?:0|[1-9][0-9]{0,2})$/\<close> and at most 255.\<close>

definition octet_text :: "string \<Rightarrow> bool" where
  "octet_text s \<longleftrightarrow> (s = ''0'' \<or> s \<noteq> [] \<and> length s \<le> 3 \<and> list_all is_digit s \<and> hd s \<noteq> CHR ''0'') \<and> read_dec s \<le> 255"

lemma hex_letter_codec: "n < 16 \<Longrightarrow> hex_value (hex_letter n) = n \<and> is_hex (hex_letter n)"
  by (auto simp: hex_letter_def hex_value_def is_hex_def is_digit_def is_lower_def less_eq_char_def)

lemma read_hex_leading_zeros: "read_hex (dropWhile (\<lambda>c. c = CHR ''0'') xs @ ys) = read_hex (xs @ ys)"
proof (induction xs)
  case (Cons x xs)
  have "hex_value CHR ''0'' = 0" by code_simp
  then show ?case using Cons by (simp add: read_hex_def)
qed simp

lemma read_hex_hex_text:
  assumes "n < 65536" shows "read_hex (hex_text n) = n"
proof -
  have "read_hex (hex_text n) = ((16 * (n div 4096 mod 16) + n div 256 mod 16) * 16 + n div 16 mod 16) * 16 + n mod 16"
    unfolding hex_text_def read_hex_leading_zeros by (simp add: read_hex_def hex_letter_codec)
  moreover have "n div 256 = n div 16 div 16" "n div 4096 = n div 16 div 16 div 16" by (simp_all flip: div_mult2_eq)
  moreover have "n div 4096 mod 16 = n div 4096" using assms by (simp add: less_mult_imp_div_less)
  moreover have "16 * (x div 16) + x mod 16 = x" for x :: nat by simp
  ultimately show ?thesis by (metis mult.commute)
qed

lemma hex_text_group: "hex_group (hex_text n)"
proof -
  have "list_all is_hex (map hex_letter [n div 4096 mod 16, n div 256 mod 16, n div 16 mod 16])" by (simp add: hex_letter_codec)
  then have "list_all is_hex (hex_text n)"
    unfolding hex_text_def list_all_iff by (auto simp: hex_letter_codec dest: set_dropWhileD)
  moreover have "length (hex_text n) \<le> 4"
    using length_dropWhile_le [of "\<lambda>c. c = CHR ''0''" "map hex_letter [n div 4096 mod 16, n div 256 mod 16, n div 16 mod 16]"]
    unfolding hex_text_def by (simp del: list.map dropWhile.simps)
  ultimately show ?thesis by (simp add: hex_group_def hex_text_def)
qed

lemma hex_not_upper: "is_hex c \<Longrightarrow> to_lower c = c \<and> c \<noteq> CHR '':''"
  by (auto simp: is_hex_def to_lower_def is_digit_def is_upper_def less_eq_char_def)

lemma hex_group_props: "hex_group w \<Longrightarrow> w \<noteq> [] \<and> CHR '':'' \<notin> set w \<and> map to_lower w = w \<and> any_hex_group w"
  using hex_not_upper by (auto simp: hex_group_def any_hex_group_def list_all_iff map_idI)


section \<open>Texts of addresses\<close>

definition is_ipv4 :: "string \<Rightarrow> bool" where
  "is_ipv4 s \<longleftrightarrow> (let parts = split_char CHR ''.'' s in length parts = 4 \<and> list_all octet_text parts)"

definition ipv4_octets :: "string \<Rightarrow> nat list" where
  "ipv4_octets s = map (\<lambda>p. nat (read_dec p)) (split_char CHR ''.'' s)"

text \<open>The groups between colons; where a dotted address may end the text it counts as two groups.\<close>

fun read_groups :: "bool \<Rightarrow> string list \<Rightarrow> nat list option" where
  "read_groups dotted [] = Some []"
| "read_groups dotted [w] =
     (if any_hex_group w then Some [read_hex (map to_lower w)]
      else if dotted \<and> is_ipv4 w then
        (case ipv4_octets w of [a, b, c, d] \<Rightarrow> Some [256 * a + b, 256 * c + d] | _ \<Rightarrow> None)
      else None)"
| "read_groups dotted (w # ws) =
     (if any_hex_group w then map_option (Cons (read_hex (map to_lower w))) (read_groups dotted ws) else None)"

definition colon_fields :: "string \<Rightarrow> string list" where
  "colon_fields s = (if s = [] then [] else split_char CHR '':'' s)"

definition parse_ipv6 :: "string \<Rightarrow> nat list option" where
  "parse_ipv6 s =
     (case split_colons s of
        [whole] \<Rightarrow> (case read_groups True (colon_fields whole) of
            None \<Rightarrow> None | Some gs \<Rightarrow> if length gs = 8 then Some gs else None)
      | [l, r] \<Rightarrow> (case (read_groups False (colon_fields l), read_groups True (colon_fields r)) of
            (Some a, Some b) \<Rightarrow> if length a + length b \<le> 7 then Some (a @ replicate (8 - length a - length b) 0 @ b) else None
          | _ \<Rightarrow> None)
      | _ \<Rightarrow> None)"

text \<open>\<open>isIP\<close>: 4, 6, or 0. An address with a zone is told apart by its \<open>%\<close> before it matters.\<close>

definition isIP :: "string \<Rightarrow> nat" where
  "isIP s = (if is_ipv4 s then 4 else if parse_ipv6 (takeWhile (\<lambda>c. c \<noteq> CHR ''%'') s) \<noteq> None then 6 else 0)"

text \<open>The first longest run of at least two zero groups is what the text leaves out.\<close>

definition zero_run :: "nat list \<Rightarrow> nat \<Rightarrow> nat" where
  "zero_run gs i = length (takeWhile (\<lambda>g. g = 0) (drop i gs))"

definition longest_run :: "nat list \<Rightarrow> nat \<times> nat" where
  "longest_run gs = (let runs = map (zero_run gs) [0..<length gs]; n = fold max runs 0
     in (length (takeWhile (\<lambda>r. r \<noteq> n) runs), n))"

definition ipv6_text :: "nat list \<Rightarrow> string" where
  "ipv6_text gs = (case longest_run gs of (i, n) \<Rightarrow>
     if n < 2 then join_char CHR '':'' (map hex_text gs)
     else join_char CHR '':'' (map hex_text (take i gs)) @ ''::'' @ join_char CHR '':'' (map hex_text (drop (i + n) gs)))"

text \<open>\<open>new URL(`https://[${s}]:443`).hostname\<close>\<close>

definition bracketed_hostname :: "string \<Rightarrow> string option" where
  "bracketed_hostname s = map_option (\<lambda>gs. ''['' @ ipv6_text gs @ '']'') (parse_ipv6 s)"


section \<open>Addresses\<close>

datatype ip_address = Ip4 "32 word" | Ip6 "128 word"

definition big_endian :: "nat \<Rightarrow> nat list \<Rightarrow> nat" where
  "big_endian base ds = foldl (\<lambda>a d. base * a + d) 0 ds"

definition ip_of_text :: "string \<Rightarrow> ip_address option" where
  "ip_of_text s =
     (if is_ipv4 s then Some (Ip4 (word_of_nat (big_endian 256 (ipv4_octets s))))
      else map_option (\<lambda>gs. Ip6 (word_of_nat (big_endian 65536 gs))) (parse_ipv6 s))"

text \<open>The block with a given prefix: the addresses that agree with it on its first bits.\<close>

definition in_block :: "'a::len word \<Rightarrow> nat \<Rightarrow> 'a word \<Rightarrow> bool" where
  "in_block base bits a \<longleftrightarrow> drop_bit (LENGTH('a) - bits) a = drop_bit (LENGTH('a) - bits) base"


section \<open>Reading back what was written\<close>

lemma fold_max_member: "fold max xs (a :: nat) \<in> insert a (set xs)"
proof (induction xs arbitrary: a)
  case (Cons x xs)
  then show ?case using Cons.IH [of "max x a"] by (auto simp: max_def split: if_splits)
qed simp

lemma longest_run_zeros:
  assumes "longest_run gs = (i, n)" and "0 < n"
  shows "gs = take i gs @ replicate n 0 @ drop (i + n) gs" and "i + n \<le> length gs"
proof -
  let ?runs = "map (zero_run gs) [0..<length gs]"
  have n: "n = fold max ?runs 0" and i: "i = length (takeWhile (\<lambda>r. r \<noteq> n) ?runs)"
    using assms(1) by (auto simp: longest_run_def Let_def)
  have "n \<in> set ?runs" using fold_max_member [of ?runs 0] assms(2) n by auto
  then have lt: "i < length ?runs" unfolding i by (metis (mono_tags, lifting) length_takeWhile_le le_neq_implies_less takeWhile_eq_all_conv takeWhile_eq_take take_all_iff)
  then have "?runs ! i = n" using nth_length_takeWhile [of "\<lambda>r. r \<noteq> n" ?runs] i by auto
  then have run: "length (takeWhile (\<lambda>g. g = 0) (drop i gs)) = n" using lt by (simp add: zero_run_def)
  have "takeWhile (\<lambda>g. g = 0) (drop i gs) = replicate n 0"
    using run by (metis (mono_tags, lifting) replicate_eqI set_takeWhileD)
  then have "drop i gs = replicate n 0 @ drop (i + n) gs"
    by (metis add.commute drop_drop dropWhile_eq_drop run takeWhile_dropWhile_id)
  then show "gs = take i gs @ replicate n 0 @ drop (i + n) gs" by (metis append_take_drop_id)
  have "n \<le> length (drop i gs)" using run length_takeWhile_le by metis
  then show "i + n \<le> length gs" using lt by simp
qed

lemma group_texts: "\<forall>g \<in> set gs. g < 65536 \<Longrightarrow> \<forall>w \<in> set (map hex_text gs). w \<noteq> [] \<and> CHR '':'' \<notin> set w \<and> hex_group w"
  using hex_text_group hex_group_props by auto

lemma colon_fields_groups:
  assumes "\<forall>g \<in> set gs. g < 65536"
  shows "colon_fields (join_char CHR '':'' (map hex_text gs)) = map hex_text gs"
proof (cases gs)
  case (Cons g gs')
  have "hex_text g \<noteq> []" using Cons assms hex_text_group hex_group_props by simp
  then have "join_char CHR '':'' (map hex_text gs) \<noteq> []" using Cons by (cases gs') simp_all
  then show ?thesis
    using split_join_char [of "map hex_text gs"] group_texts [OF assms] Cons by (simp add: colon_fields_def)
qed (simp add: colon_fields_def)

lemma read_groups_texts: "\<forall>g \<in> set gs. g < 65536 \<Longrightarrow> read_groups dotted (map hex_text gs) = Some gs"
proof (induction gs)
  case (Cons g gs)
  have "any_hex_group (hex_text g)" "read_hex (map to_lower (hex_text g)) = g"
    using Cons.prems hex_text_group hex_group_props by (simp_all add: read_hex_hex_text)
  then show ?case using Cons by (cases gs) simp_all
qed simp

lemma groups_calm:
  assumes "\<forall>g \<in> set gs. g < 65536"
  shows "\<not> contains_text (join_char CHR '':'' (map hex_text gs) @ '':'') ''::''"
proof (cases "gs = []")
  case False
  then show ?thesis using join_calm [of "map hex_text gs" "CHR '':''"] group_texts [OF assms] by simp
qed (simp add: starts_with_iff)

lemma split_colons_groups: "\<forall>g \<in> set gs. g < 65536 \<Longrightarrow> split_colons (join_char CHR '':'' (map hex_text gs)) = [join_char CHR '':'' (map hex_text gs)]"
  using groups_calm calm_prefix split_colons_calm by metis

text \<open>The two forms of a text: all groups, or the groups around the omitted zeros.\<close>

lemma ipv6_text_cases:
  assumes "\<forall>g \<in> set gs. g < 65536"
  obtains (full) "split_colons (ipv6_text gs) = [ipv6_text gs]" "colon_fields (ipv6_text gs) = map hex_text gs" "\<not> contains_text (ipv6_text gs) ''::''"
  | (short) l r a n b where "split_colons (ipv6_text gs) = [l, r]" "colon_fields l = map hex_text a" "colon_fields r = map hex_text b"
      "contains_text (ipv6_text gs) ''::''" "gs = a @ replicate n 0 @ b" "2 \<le> n"
proof -
  obtain i n where run: "longest_run gs = (i, n)" by fastforce
  show thesis
  proof (cases "n < 2")
    case True
    then have "ipv6_text gs = join_char CHR '':'' (map hex_text gs)" by (simp add: ipv6_text_def run)
    then show thesis
      using split_colons_groups [OF assms] colon_fields_groups [OF assms] groups_calm [OF assms] calm_prefix by (intro full) metis+
  next
    case False
    let ?a = "take i gs"
    let ?b = "drop (i + n) gs"
    let ?l = "join_char CHR '':'' (map hex_text ?a)"
    let ?r = "join_char CHR '':'' (map hex_text ?b)"
    have ab: "\<forall>g \<in> set ?a. g < 65536" "\<forall>g \<in> set ?b. g < 65536" using assms by (auto dest: in_set_takeD in_set_dropD)
    have shape: "ipv6_text gs = ?l @ ''::'' @ ?r" using False by (simp add: ipv6_text_def run)
    have "split_colons (ipv6_text gs) = [?l, ?r]"
      unfolding shape using split_colons_append [OF groups_calm [OF ab(1)]] split_colons_groups [OF ab(2)] by simp
    moreover have "contains_text (ipv6_text gs) ''::''" unfolding shape by (rule contains_text_append)
    moreover have "gs = ?a @ replicate n 0 @ ?b" using longest_run_zeros(1) [OF run] False by simp
    ultimately show thesis using colon_fields_groups [OF ab(1)] colon_fields_groups [OF ab(2)] False by (intro short) auto
  qed
qed

lemma parse_ipv6_text:
  assumes "length gs = 8" and "\<forall>g \<in> set gs. g < 65536"
  shows "parse_ipv6 (ipv6_text gs) = Some gs"
  using assms(2)
proof (cases rule: ipv6_text_cases)
  case full
  then show ?thesis using read_groups_texts [OF assms(2)] assms(1) by (simp add: parse_ipv6_def)
next
  case (short l r a n b)
  have "\<forall>g \<in> set a. g < 65536" "\<forall>g \<in> set b. g < 65536" using assms(2) short(5) by auto
  then have "read_groups False (colon_fields l) = Some a" "read_groups True (colon_fields r) = Some b"
    using read_groups_texts short(2,3) by simp_all
  moreover have "length a + n + length b = 8" using assms(1) short(5) by simp
  ultimately show ?thesis using short by (simp add: parse_ipv6_def)
qed

lemma octet_text_bound: "octet_text p \<Longrightarrow> 0 \<le> read_dec p \<and> read_dec p \<le> 255"
  using read_dec_pos [of p] by (auto simp: octet_text_def read_dec_def digit_val_def)

lemma octet_text_print: "octet_text p \<Longrightarrow> int_text (read_dec p) = p"
proof (cases "p = ''0''")
  case True
  then have "read_dec p = 0" by (simp add: read_dec_def digit_val_def)
  then show ?thesis using True by (simp add: int_text.simps [of 0] digit_char_def)
next
  case False
  assume "octet_text p"
  then show ?thesis using False int_text_read_dec [of p] by (simp add: octet_text_def)
qed

lemma ipv4_octets_bound: "is_ipv4 s \<Longrightarrow> length (ipv4_octets s) = 4 \<and> (\<forall>b \<in> set (ipv4_octets s). b < 256)"
  using octet_text_bound by (fastforce simp: is_ipv4_def ipv4_octets_def Let_def list_all_iff)

lemma read_hex_bound: "hex_group w \<Longrightarrow> read_hex w < 65536"
proof -
  have "is_hex c \<Longrightarrow> hex_value c < 16" for c
    by (auto simp: is_hex_def hex_value_def is_digit_def is_lower_def less_eq_char_def)
  then have fold: "list_all is_hex w \<Longrightarrow> foldl (\<lambda>a c. 16 * a + hex_value c) a w < (a + 1) * 16 ^ length w" for a
  proof (induction w arbitrary: a)
    case (Cons c w)
    have "foldl (\<lambda>a c. 16 * a + hex_value c) (16 * a + hex_value c) w < (16 * a + hex_value c + 1) * 16 ^ length w"
      using Cons by simp
    also have "\<dots> \<le> (16 * a + 16) * 16 ^ length w" using Cons.prems(1,2) by (intro mult_right_mono) (auto simp: Suc_le_eq)
    finally show ?case by (simp add: algebra_simps)
  qed simp
  have "read_hex w < 16 ^ length w" if "hex_group w" using that fold [of 0] by (simp add: read_hex_def hex_group_def)
  moreover have "(16::nat) ^ length w \<le> 16 ^ 4" if "hex_group w" using that by (intro power_increasing) (auto simp: hex_group_def)
  ultimately show "hex_group w \<Longrightarrow> read_hex w < 65536" by fastforce
qed

lemma read_groups_bound: "read_groups dotted ws = Some gs \<Longrightarrow> \<forall>g \<in> set gs. g < 65536"
proof (induction dotted ws arbitrary: gs rule: read_groups.induct)
  case (2 dotted w)
  show ?case
  proof (cases "any_hex_group w")
    case True
    then show ?thesis using 2 read_hex_bound by (auto simp: any_hex_group_def)
  next
    case False
    then obtain a b c d where "ipv4_octets w = [a, b, c, d]" "gs = [256 * a + b, 256 * c + d]" "is_ipv4 w"
      using 2 by (auto split: if_splits list.splits)
    then show ?thesis using ipv4_octets_bound [of w] by auto
  qed
next
  case (3 dotted w v ws)
  then show ?case using read_hex_bound by (auto simp: any_hex_group_def split: if_splits)
qed simp

lemma parse_ipv6_groups: "parse_ipv6 s = Some gs \<Longrightarrow> length gs = 8 \<and> (\<forall>g \<in> set gs. g < 65536)"
  using read_groups_bound by (fastforce simp: parse_ipv6_def split: list.splits option.splits if_splits)


section \<open>Blocks and their first bytes\<close>

lemma big_endian_snoc: "big_endian base (ds @ [d]) = base * big_endian base ds + d"
  by (simp add: big_endian_def)

lemma big_endian_append: "big_endian base (xs @ ys) = big_endian base xs * base ^ length ys + big_endian base ys"
proof (induction ys rule: rev_induct)
  case (snoc y ys)
  then show ?case using big_endian_snoc [of base "xs @ ys" y] by (simp add: big_endian_snoc algebra_simps)
qed (simp add: big_endian_def)

lemma big_endian_bound: "\<forall>d \<in> set ds. d < base \<Longrightarrow> big_endian base ds < base ^ length ds"
proof (induction ds rule: rev_induct)
  case (snoc d ds)
  then have "big_endian base ds + 1 \<le> base ^ length ds" by simp
  then have "base * (big_endian base ds + 1) \<le> base * base ^ length ds" by (rule mult_le_mono2)
  then show ?case using snoc.prems by (simp add: big_endian_snoc)
qed (simp add: big_endian_def)

lemma big_endian_Cons: "big_endian base (d # ds) = d * base ^ length ds + big_endian base ds"
  using big_endian_append [of base "[d]" ds] by (simp add: big_endian_def)

lemma big_endian_bytes: "big_endian 65536 gs = big_endian 256 (concat (map (\<lambda>g. [g div 256, g mod 256]) gs))"
proof (induction gs rule: rev_induct)
  case (snoc g gs)
  then show ?case by (simp add: big_endian_snoc big_endian_append [of 256 _ "[_, _]"]) (simp add: big_endian_def)
qed (simp add: big_endian_def)

lemma in_block_value:
  assumes "v < 2 ^ LENGTH('a::len)" and "c < 2 ^ LENGTH('a)"
  shows "in_block (word_of_nat c :: 'a word) bits (word_of_nat v) \<longleftrightarrow> v div 2 ^ (LENGTH('a) - bits) = c div 2 ^ (LENGTH('a) - bits)"
proof -
  have unat: "unat (word_of_nat x :: 'a word) = x" if "x < 2 ^ LENGTH('a)" for x using that by (simp add: unat_of_nat take_bit_eq_mod)
  have "in_block (word_of_nat c :: 'a word) bits (word_of_nat v)
      \<longleftrightarrow> unat (drop_bit (LENGTH('a) - bits) (word_of_nat v :: 'a word)) = unat (drop_bit (LENGTH('a) - bits) (word_of_nat c :: 'a word))"
    by (simp add: in_block_def word_unat_eq_iff)
  then show ?thesis unfolding unat_drop_bit_eq unat [OF assms(1)] unat [OF assms(2)] by (simp add: drop_bit_eq_div)
qed

text \<open>Whether a list of bytes agrees with another on its first bits.\<close>

fun same_prefix :: "nat \<Rightarrow> nat list \<Rightarrow> nat list \<Rightarrow> bool" where
  "same_prefix bits (c # cs) (b # bs) =
     (if bits = 0 then True else if bits < 8 then b div 2 ^ (8 - bits) = c div 2 ^ (8 - bits) else b = c \<and> same_prefix (bits - 8) cs bs)"
| "same_prefix bits _ _ = True"

lemma leading_digit_div:
  fixes u v x y :: nat
  assumes "u < m * j" and "v < m * j"
  shows "(x * (m * j) + u) div m = (y * (m * j) + v) div m \<longleftrightarrow> x = y \<and> u div m = v div m"
proof -
  have "u div m < j" "v div m < j" using assms by (simp_all add: less_mult_imp_div_less mult.commute)
  moreover have "0 < m" using assms(1) by (cases m) simp_all
  then have "(x * (m * j) + u) div m = x * j + u div m" "(y * (m * j) + v) div m = y * j + v div m"
    using div_mult_self1 [of m u "x * j"] div_mult_self1 [of m v "y * j"] by (simp_all add: algebra_simps)
  moreover have "x * j + p = y * j + q \<longleftrightarrow> x = y \<and> p = q" if "p < j" "q < j" for p q
    using that by (metis add.commute div_less div_mult_self1 less_nat_zero_code mod_less mod_mult_self1 add_0)
  ultimately show ?thesis by metis
qed

lemma same_prefix_iff:
  assumes "length cs = length bs" and "\<forall>b \<in> set bs. b < 256" and "\<forall>c \<in> set cs. c < 256" and "bits \<le> 8 * length bs"
  shows "big_endian 256 bs div 2 ^ (8 * length bs - bits) = big_endian 256 cs div 2 ^ (8 * length bs - bits) \<longleftrightarrow> same_prefix bits cs bs"
  using assms
proof (induction bits cs bs rule: same_prefix.induct)
  case (1 bits c cs b bs)
  let ?n = "length bs"
  have size: "(256::nat) ^ ?n = 2 ^ (8 * ?n)" by (simp add: power_mult)
  have digits: "big_endian 256 (b # bs) = b * 256 ^ ?n + big_endian 256 bs" "big_endian 256 (c # cs) = c * 256 ^ ?n + big_endian 256 cs"
    using 1(2) by (simp_all add: big_endian_Cons)
  have bound: "big_endian 256 bs < 256 ^ ?n" "big_endian 256 cs < 256 ^ ?n"
    using big_endian_bound [of bs 256] big_endian_bound [of cs 256] 1 by simp_all
  show ?case
  proof (cases "bits < 8")
    case True
    have "8 * length (b # bs) - bits = 8 * ?n + (8 - bits)" using True by simp
    then have "2 ^ (8 * length (b # bs) - bits) = 256 ^ ?n * (2::nat) ^ (8 - bits)" by (simp add: size power_add)
    moreover have "(x * 256 ^ ?n + v) div (256 ^ ?n * 2 ^ (8 - bits)) = x div 2 ^ (8 - bits)" if "v < 256 ^ ?n" for x v :: nat
      using that by (simp add: div_mult2_eq)
    ultimately have "big_endian 256 (b # bs) div 2 ^ (8 * length (b # bs) - bits) = b div 2 ^ (8 - bits)"
      "big_endian 256 (c # cs) div 2 ^ (8 * length (b # bs) - bits) = c div 2 ^ (8 - bits)"
      using bound by (simp_all add: digits)
    then show ?thesis using True 1(3,4) by simp
  next
    case False
    let ?m = "(2::nat) ^ (8 * ?n - (bits - 8))"
    have m: "?m * 2 ^ (bits - 8) = 256 ^ ?n"
      using 1(5) False power_add [of "2::nat" "8 * ?n - (bits - 8)" "bits - 8"] by (simp add: size)
    have "8 * length (b # bs) - bits = 8 * ?n - (bits - 8)" using False by simp
    then have "big_endian 256 (b # bs) div 2 ^ (8 * length (b # bs) - bits) = big_endian 256 (c # cs) div 2 ^ (8 * length (b # bs) - bits)
        \<longleftrightarrow> b = c \<and> big_endian 256 bs div ?m = big_endian 256 cs div ?m"
      using leading_digit_div [of "big_endian 256 bs" ?m "2 ^ (bits - 8)" "big_endian 256 cs" b c] bound by (simp only: digits m)
    then show ?thesis using 1 False by simp
  qed
qed (simp_all add: big_endian_def)

lemma in_block_bytes:
  assumes "LENGTH('a::len) = 8 * length bs" and "length cs = length bs" and "\<forall>b \<in> set bs. b < 256" and "\<forall>c \<in> set cs. c < 256"
    and "bits \<le> LENGTH('a)"
  shows "in_block (word_of_nat (big_endian 256 cs) :: 'a word) bits (word_of_nat (big_endian 256 bs)) \<longleftrightarrow> same_prefix bits cs bs"
proof -
  have "big_endian 256 bs < 2 ^ LENGTH('a)" "big_endian 256 cs < 2 ^ LENGTH('a)"
    using big_endian_bound [OF assms(3)] big_endian_bound [OF assms(4)] assms(1,2) by (simp_all add: power_mult)
  then show ?thesis using same_prefix_iff [of cs bs bits] assms by (simp add: in_block_value)
qed

end
