(* ===== verification/Network_Guard.thy ===== *)
theory Network_Guard
  imports Ip_Address Node_Policy_Schemas
begin

text \<open>
  The guard of outgoing HTTPS connections (\<open>node-policy/v1/network-target-guard.ts\<close>) and the exception of the node's own
  connector (\<open>node-bridge/native-https-destination.ts\<close>). A destination is resolved once into a bounded set of pinned
  addresses; an address outside the global scope is refused unless the destination names it literally; the connected peer
  must be one of the pinned addresses. The resolver is a parameter: \<open>None\<close> is a rejected promise.
\<close>

unbundle bit_operations_syntax

section \<open>Failures and data\<close>

datatype target_guard_failure = TgInvalidTarget | TgTargetNotAllowed | TgTargetUnavailable | TgProhibitedAddress | TgIdentityMismatch
  | TgUnsupportedExecutor

text \<open>Besides its own error, the guard lets \<open>toISOString\<close> raise a range error; the connector adds its own and lets the resolver's through.\<close>

datatype guard_error = TargetGuardError target_guard_failure | InvalidDateError | NativeUnavailable | ResolverError

datatype host_kind = HostDns | HostIpv4

record canonical_https_destination =
  hd_canonicalDestination :: string
  hd_host :: string
  hd_port :: int
  hd_hostKind :: host_kind

record pinned_https_plan = canonical_https_destination +
  hp_pinnedAddresses :: "string list"
  hp_literalAddressException :: bool
  hp_resolvedAt :: string

record executor_enforcement =
  xe_exposesFinalDestination :: bool
  xe_supportsPinnedTlsConnection :: bool

record tls_peer_evidence =
  tp_connectedAddress :: string
  tp_connectedPort :: rat
  tp_serverName :: string
  tp_certificateHostnameVerified :: bool

datatype ip_scope = ScopeGlobal | ScopePrivate | ScopeLoopback | ScopeLinkLocal | ScopeMulticast | ScopeDocumentation
  | ScopeUnspecified | ScopeReserved

record classified_ip =
  ci_address :: string
  ci_version :: nat
  ci_scope :: ip_scope

type_synonym resolver = "string \<Rightarrow> string list option"


section \<open>Canonical addresses\<close>

definition canonicalIpv4 :: "string \<Rightarrow> string option" where
  "canonicalIpv4 v =
     (if isIP v \<noteq> 4 then None
      else let parts = split_char CHR ''.'' v in
        if length parts \<noteq> 4 \<or> list_ex (\<lambda>p. \<not> octet_text p) parts then None
        else Some (join_char CHR ''.'' (map (\<lambda>p. int_text (read_dec p)) parts)))"

definition canonicalIpv6 :: "string \<Rightarrow> string option" where
  "canonicalIpv6 v =
     (if contains_text v ''%'' \<or> isIP v \<noteq> 6 then None
      else case bracketed_hostname v of None \<Rightarrow> None
        | Some hostname \<Rightarrow>
            if starts_with hostname ''['' \<and> ends_with hostname '']''
            then Some (map to_lower (butlast (tl hostname))) else None)"

text \<open>\<open>canonicalIpv4(value) ?? canonicalIpv6(value)\<close>, then a test for truth: the empty text is refused too.\<close>

definition canonicalizeIpAddress :: "string \<Rightarrow> (guard_error, string) result" where
  "canonicalizeIpAddress v =
     (case (case canonicalIpv4 v of Some c \<Rightarrow> Some c | None \<Rightarrow> canonicalIpv6 v) of
        None \<Rightarrow> Inl (TargetGuardError TgIdentityMismatch)
      | Some c \<Rightarrow> if c = [] then Inl (TargetGuardError TgIdentityMismatch) else Inr c)"

text \<open>Fields beyond the second are ignored by the destructuring; an absent right text is treated like an empty one.\<close>

definition ipv6_halves :: "string \<Rightarrow> string list \<times> string list" where
  "ipv6_halves s =
     (case split_colons s of [] \<Rightarrow> ([], []) | [l] \<Rightarrow> (colon_fields l, []) | l # r # _ \<Rightarrow> (colon_fields l, colon_fields r))"

definition ipv6Bytes :: "string \<Rightarrow> (guard_error, nat list) result" where
  "ipv6Bytes canonical =
     (case ipv6_halves canonical of (left, right) \<Rightarrow>
        let missing = 8 - int (length left) - int (length right) in
        if missing < 0 \<or> \<not> contains_text canonical ''::'' \<and> missing \<noteq> 0 then Inl (TargetGuardError TgIdentityMismatch)
        else let groups = left @ replicate (nat missing) ''0'' @ right in
          if length groups \<noteq> 8 \<or> list_ex (\<lambda>g. \<not> hex_group g) groups then Inl (TargetGuardError TgIdentityMismatch)
          else Inr (concat (map (\<lambda>g. [drop_bit 8 (read_hex g), read_hex g AND 255]) groups)))"

definition ipv4_scope :: "nat \<Rightarrow> nat \<Rightarrow> nat \<Rightarrow> ip_scope" where
  "ipv4_scope a b c =
     (if a = 0 then ScopeUnspecified
      else if a = 10 \<or> a = 172 \<and> 16 \<le> b \<and> b \<le> 31 \<or> a = 192 \<and> b = 168 then ScopePrivate
      else if a = 127 then ScopeLoopback
      else if a = 169 \<and> b = 254 then ScopeLinkLocal
      else if 224 \<le> a \<and> a \<le> 239 then ScopeMulticast
      else if a = 192 \<and> b = 0 \<and> c = 2 \<or> a = 198 \<and> b = 51 \<and> c = 100 \<or> a = 203 \<and> b = 0 \<and> c = 113 then ScopeDocumentation
      else if a = 100 \<and> 64 \<le> b \<and> b \<le> 127 \<or> a = 192 \<and> b = 0 \<and> c = 0 \<or> a = 192 \<and> b = 88 \<and> c = 99
        \<or> a = 198 \<and> (b = 18 \<or> b = 19) \<or> 240 \<le> a then ScopeReserved
      else ScopeGlobal)"

definition ipv6_scope :: "nat list \<Rightarrow> ip_scope" where
  "ipv6_scope bytes =
     (if list_all (\<lambda>b. b = 0) bytes then ScopeUnspecified
      else if list_all (\<lambda>b. b = 0) (take 15 bytes) \<and> bytes ! 15 = 1 then ScopeLoopback
      else if bytes ! 0 AND 0xfe = 0xfc then ScopePrivate
      else if bytes ! 0 = 0xfe \<and> bytes ! 1 AND 0xc0 = 0x80 then ScopeLinkLocal
      else if bytes ! 0 = 0xff then ScopeMulticast
      else if bytes ! 0 = 0x20 \<and> bytes ! 1 = 0x01 \<and> bytes ! 2 = 0x0d \<and> bytes ! 3 = 0xb8
        \<or> bytes ! 0 = 0x3f \<and> bytes ! 1 AND 0xf0 = 0xf0 then ScopeDocumentation
      else if bytes ! 0 = 0x20 \<and> bytes ! 1 = 0x01 \<and> (bytes ! 2 < 0x02 \<or> bytes ! 2 = 0x02 \<and> bytes ! 3 = 0x00) then ScopeReserved
      else if bytes ! 0 AND 0xe0 = 0x20 then ScopeGlobal
      else ScopeReserved)"

definition classifyIpAddress :: "string \<Rightarrow> (guard_error, classified_ip) result" where
  "classifyIpAddress v =
     (case canonicalizeIpAddress v of
        Inl e \<Rightarrow> Inl e
      | Inr address \<Rightarrow>
          if isIP address = 4 then
            let os = ipv4_octets address in
            Inr \<lparr>ci_address = address, ci_version = 4, ci_scope = ipv4_scope (os ! 0) (os ! 1) (os ! 2)\<rparr>
          else (case ipv6Bytes address of Inl e \<Rightarrow> Inl e
            | Inr bytes \<Rightarrow> Inr \<lparr>ci_address = address, ci_version = 6, ci_scope = ipv6_scope bytes\<rparr>))"


section \<open>Destinations and plans\<close>

text \<open>\<open>/^https:\/\/([^:]+):([1-9][0-9]{0,4})$/\<close>\<close>

definition match_https :: "string \<Rightarrow> (string \<times> string) option" where
  "match_https s =
     (if \<not> starts_with s ''https://'' then None
      else (let rest = drop 8 s; name = takeWhile (\<lambda>c. c \<noteq> CHR '':'') rest; port = drop (Suc (length name)) rest
            in if length name < length rest \<and> name \<noteq> [] \<and> port_group port then Some (name, port) else None))"

definition parseCanonicalHttpsDestination :: "host \<Rightarrow> string \<Rightarrow> (guard_error, canonical_https_destination) result" where
  "parseCanonicalHttpsDestination h v =
     guard_result (canonicalNetworkDestinationSchema h v) (TargetGuardError TgInvalidTarget) (
     case match_https v of None \<Rightarrow> Inl (TargetGuardError TgInvalidTarget)
     | Some (name, port) \<Rightarrow>
         Inr \<lparr>hd_canonicalDestination = v, hd_host = name, hd_port = read_dec port,
           hd_hostKind = (case canonicalIpv4 name of None \<Rightarrow> HostDns | Some t \<Rightarrow> if t \<noteq> [] then HostIpv4 else HostDns)\<rparr>)"

text \<open>\<open>/^\d{4}-\d{2}-\d{2}T\d{2}:\d{2}:\d{2}\.\d{3}Z$/\<close>, position by position.\<close>

definition now_pattern :: "string \<Rightarrow> bool" where
  "now_pattern s \<longleftrightarrow> length s = 24 \<and>
     list_all (\<lambda>(p, c). if p = CHR ''d'' then is_digit c else c = p) (zip ''dddd-dd-ddTdd:dd:dd.dddZ'' s)"

definition requireCanonicalNow :: "string \<Rightarrow> (guard_error, string) result" where
  "requireCanonicalNow v =
     guard_result (now_pattern v) (TargetGuardError TgInvalidTarget) (
     case Option.bind (date_parse v) to_iso of
       None \<Rightarrow> Inl InvalidDateError
     | Some printed \<Rightarrow> if printed \<noteq> v then Inl (TargetGuardError TgInvalidTarget) else Inr v)"

fun classify_all :: "string list \<Rightarrow> (guard_error, classified_ip list) result" where
  "classify_all [] = Inr []"
| "classify_all (v # vs) =
     (case classifyIpAddress v of Inl e \<Rightarrow> Inl e
      | Inr c \<Rightarrow> (case classify_all vs of Inl e \<Rightarrow> Inl e | Inr cs \<Rightarrow> Inr (c # cs)))"

definition allowed_list_ok :: "host \<Rightarrow> string list \<Rightarrow> string \<Rightarrow> bool" where
  "allowed_list_ok h allowedDestinations destination \<longleftrightarrow> allowedDestinations \<noteq> [] \<and> distinct allowedDestinations \<and> \<not> has_descent allowedDestinations
     \<and> \<not> list_ex (\<lambda>a. \<not> canonicalNetworkDestinationSchema h a) allowedDestinations \<and> List.member allowedDestinations destination"

text \<open>\<open>{ ...destination, pinnedAddresses, literalAddressException, resolvedAt }\<close>\<close>

definition plan_for :: "canonical_https_destination \<Rightarrow> string list \<Rightarrow> bool \<Rightarrow> string \<Rightarrow> pinned_https_plan" where
  "plan_for d pinned literal resolvedAt =
     \<lparr>hd_canonicalDestination = hd_canonicalDestination d, hd_host = hd_host d, hd_port = hd_port d, hd_hostKind = hd_hostKind d,
       hp_pinnedAddresses = pinned, hp_literalAddressException = literal, hp_resolvedAt = resolvedAt\<rparr>"

definition pin_addresses :: "canonical_https_destination \<Rightarrow> string \<Rightarrow> classified_ip list \<Rightarrow> (guard_error, pinned_https_plan) result" where
  "pin_addresses destination resolvedAt classified =
     (let pinned = sort (remdups (map ci_address classified)); literal = (hd_hostKind destination = HostIpv4) in
      if list_ex (\<lambda>c. ci_scope c \<noteq> ScopeGlobal \<and> \<not> (literal \<and> ci_address c = hd_host destination)) classified
      then Inl (TargetGuardError TgProhibitedAddress)
      else if literal \<and> (length pinned \<noteq> 1 \<or> pinned ! 0 \<noteq> hd_host destination) then Inl (TargetGuardError TgIdentityMismatch)
      else Inr (plan_for destination pinned literal resolvedAt))"

definition preparePinnedHttpsConnection ::
    "host \<Rightarrow> resolver \<Rightarrow> executor_enforcement \<Rightarrow> string \<Rightarrow> string list \<Rightarrow> string \<Rightarrow> (guard_error, pinned_https_plan) result" where
  "preparePinnedHttpsConnection h resolve executor canonicalDestination allowedDestinations resolvedAt =
     guard_result (xe_exposesFinalDestination executor \<and> xe_supportsPinnedTlsConnection executor) (TargetGuardError TgUnsupportedExecutor) (
     case parseCanonicalHttpsDestination h canonicalDestination of Inl e \<Rightarrow> Inl e
     | Inr destination \<Rightarrow>
     guard_result (allowed_list_ok h allowedDestinations (hd_canonicalDestination destination)) (TargetGuardError TgTargetNotAllowed) (
     case requireCanonicalNow resolvedAt of Inl e \<Rightarrow> Inl e
     | Inr now \<Rightarrow>
     (case (if hd_hostKind destination = HostIpv4 then Some [hd_host destination] else resolve (hd_host destination)) of
        None \<Rightarrow> Inl (TargetGuardError TgTargetUnavailable)
      | Some raw \<Rightarrow>
          if length raw = 0 \<or> length raw > 16 then Inl (TargetGuardError TgTargetUnavailable)
          else (case classify_all raw of Inl _ \<Rightarrow> Inl (TargetGuardError TgIdentityMismatch)
            | Inr classified \<Rightarrow> pin_addresses destination now classified))))"

definition verifyPinnedTlsPeer :: "pinned_https_plan \<Rightarrow> tls_peer_evidence \<Rightarrow> (guard_error, unit) result" where
  "verifyPinnedTlsPeer plan evidence =
     (case canonicalizeIpAddress (tp_connectedAddress evidence) of
        Inl _ \<Rightarrow> Inl (TargetGuardError TgIdentityMismatch)
      | Inr address \<Rightarrow>
          if \<not> List.member (hp_pinnedAddresses plan) address \<or> tp_connectedPort evidence \<noteq> of_int (hd_port plan)
            \<or> tp_serverName evidence \<noteq> hd_host plan \<or> \<not> tp_certificateHostnameVerified evidence
          then Inl (TargetGuardError TgIdentityMismatch) else Inr ())"

text \<open>A redirect is authorised from scratch: nothing of the previous plan is used.\<close>

definition authorizeRedirectHop ::
    "host \<Rightarrow> resolver \<Rightarrow> executor_enforcement \<Rightarrow> pinned_https_plan \<Rightarrow> string \<Rightarrow> string list \<Rightarrow> string \<Rightarrow> (guard_error, pinned_https_plan) result" where
  "authorizeRedirectHop h resolve executor previous next allowedDestinations resolvedAt =
     preparePinnedHttpsConnection h resolve executor next allowedDestinations resolvedAt"


section \<open>The node's own connector\<close>

definition is_tailnet :: "classified_ip \<Rightarrow> bool" where
  "is_tailnet c \<longleftrightarrow> ci_version c = 4 \<and> (let os = ipv4_octets (ci_address c) in os ! 0 = 100 \<and> 64 \<le> os ! 1 \<and> os ! 1 \<le> 127)"

definition captureNativePrivateAddress :: "host \<Rightarrow> string \<Rightarrow> string option \<Rightarrow> (guard_error, string option) result" where
  "captureNativePrivateAddress h destination value =
     (case parseCanonicalHttpsDestination h destination of Inl e \<Rightarrow> Inl e
      | Inr target \<Rightarrow>
          (case value of None \<Rightarrow> Inr None
           | Some v \<Rightarrow>
               (case classifyIpAddress v of Inl e \<Rightarrow> Inl e
                | Inr a \<Rightarrow>
                    if hd_hostKind target \<noteq> HostDns \<or> ci_address a \<noteq> v \<or> \<not> (ci_scope a = ScopePrivate \<or> is_tailnet a)
                    then Inl NativeUnavailable else Inr (Some (ci_address a)))))"

text \<open>\<open>answers.some(value => classifyIpAddress(value).address !== pinned)\<close>: the first answer that fails or differs decides.\<close>

fun some_differs :: "string \<Rightarrow> string list \<Rightarrow> (guard_error, bool) result" where
  "some_differs pinned [] = Inr False"
| "some_differs pinned (v # vs) =
     (case classifyIpAddress v of Inl e \<Rightarrow> Inl e | Inr c \<Rightarrow> if ci_address c \<noteq> pinned then Inr True else some_differs pinned vs)"

definition prepareNativeHttpsDestination :: "host \<Rightarrow> string \<Rightarrow> string option \<Rightarrow> resolver \<Rightarrow> string \<Rightarrow> (guard_error, pinned_https_plan) result" where
  "prepareNativeHttpsDestination h destination privateAddress resolve resolvedAt =
     (case captureNativePrivateAddress h destination privateAddress of
        Inl e \<Rightarrow> Inl e
      | Inr None \<Rightarrow> preparePinnedHttpsConnection h resolve \<lparr>xe_exposesFinalDestination = True, xe_supportsPinnedTlsConnection = True\<rparr>
          destination [destination] resolvedAt
      | Inr (Some pinned) \<Rightarrow>
          (case parseCanonicalHttpsDestination h destination of Inl e \<Rightarrow> Inl e
           | Inr target \<Rightarrow>
               (case resolve (hd_host target) of None \<Rightarrow> Inl ResolverError
                | Some answers \<Rightarrow>
                    if length answers = 0 \<or> length answers > 16 then Inl NativeUnavailable
                    else (case some_differs pinned answers of Inl e \<Rightarrow> Inl e | Inr True \<Rightarrow> Inl NativeUnavailable
                      | Inr False \<Rightarrow> Inr (plan_for target [pinned] False resolvedAt)))))"

end
