(* ===== verification/Network_Guarantees.thy ===== *)
theory Network_Guarantees
  imports Network_Guard
begin

text \<open>
  What the network guard guarantees: an address has one scope, whatever its spelling, and no address of the special-purpose registries is
  taken for a public one; a connection that passes the guard has a public peer or the very address the destination names.
\<close>

section \<open>Canonical texts\<close>

lemma isIP_4 [simp]: "isIP v = 4 \<longleftrightarrow> is_ipv4 v"
  by (simp add: isIP_def)

lemma canonicalIpv4_iff: "canonicalIpv4 v = (if is_ipv4 v then Some v else None)"
proof (cases "is_ipv4 v")
  case True
  then have parts: "length (split_char CHR ''.'' v) = 4" "\<forall>p \<in> set (split_char CHR ''.'' v). octet_text p"
    by (simp_all add: is_ipv4_def Let_def list_all_iff)
  then have "map (\<lambda>p. int_text (read_dec p)) (split_char CHR ''.'' v) = split_char CHR ''.'' v"
    using octet_text_print by (intro map_idI) blast
  then show ?thesis using True parts by (simp add: canonicalIpv4_def list_ex_iff join_split_char)
qed (simp add: canonicalIpv4_def)

lemma contains_char: "contains_text v [c] \<longleftrightarrow> c \<in> set v"
  by (induction v) (auto simp: starts_with_iff)

lemma split_colons_set: "set s \<subseteq> insert CHR '':'' (\<Union>w \<in> set (split_colons s). set w)"
proof (induction s rule: split_colons.induct)
  case (2 c cs)
  show ?case
  proof (cases "c = CHR '':'' \<and> starts_with cs '':''")
    case True
    then obtain r where "cs = CHR '':'' # r" by (auto simp: starts_with_iff)
    then show ?thesis using 2(1) True by auto
  next
    case False
    then show ?thesis using 2(2) by (cases "split_colons cs") auto
  qed
qed simp

lemma any_hex_group_chars: "any_hex_group w \<Longrightarrow> CHR ''%'' \<notin> set w"
proof -
  have "\<not> is_hex (to_lower CHR ''%'')" by code_simp
  then show "any_hex_group w \<Longrightarrow> CHR ''%'' \<notin> set w" by (auto simp: any_hex_group_def hex_group_def list_all_iff)
qed

lemma octet_text_digits: "octet_text p \<Longrightarrow> list_all is_digit p"
  by (auto simp: octet_text_def is_digit_def)

lemma is_ipv4_chars:
  assumes "is_ipv4 v" shows "CHR ''%'' \<notin> set v" and "CHR '':'' \<notin> set v"
proof -
  have "\<forall>p \<in> set (split_char CHR ''.'' v). \<forall>c \<in> set p. is_digit c"
    using assms octet_text_digits unfolding is_ipv4_def Let_def list_all_iff by blast
  then have "\<forall>c \<in> set v. c = CHR ''.'' \<or> is_digit c" using split_char_set [of v "CHR ''.''"] by blast
  moreover have "\<not> is_digit CHR ''%''" "\<not> is_digit CHR '':''" by code_simp+
  moreover have "CHR ''%'' \<noteq> CHR ''.''" "CHR '':'' \<noteq> CHR ''.''" by simp_all
  ultimately show "CHR ''%'' \<notin> set v" "CHR '':'' \<notin> set v" by blast+
qed

lemma read_groups_chars: "read_groups dotted ws = Some gs \<Longrightarrow> w \<in> set ws \<Longrightarrow> CHR ''%'' \<notin> set w"
  by (induction dotted ws arbitrary: gs rule: read_groups.induct)
    (auto dest: any_hex_group_chars is_ipv4_chars(1) split: if_splits)

lemma colon_fields_chars: "\<forall>w \<in> set (colon_fields s). c \<notin> set w \<Longrightarrow> c \<noteq> CHR '':'' \<Longrightarrow> c \<notin> set s"
  using split_char_set [of s "CHR '':''"] by (auto simp: colon_fields_def split: if_splits)

lemma parse_ipv6_pieces:
  assumes "parse_ipv6 s = Some gs" and "piece \<in> set (split_colons s)"
  shows "\<exists>dotted gs. read_groups dotted (colon_fields piece) = Some gs"
proof -
  consider w where "split_colons s = [w]" | l r where "split_colons s = [l, r]"
    using assms(1) by (auto simp: parse_ipv6_def split: list.splits)
  then show ?thesis
  proof cases
    case 1
    then show ?thesis using assms by (auto simp: parse_ipv6_def split: option.splits)
  next
    case 2
    then show ?thesis using assms by (auto simp: parse_ipv6_def split: option.splits)
  qed
qed

lemma parse_ipv6_chars:
  assumes "parse_ipv6 s = Some gs" shows "CHR ''%'' \<notin> set s"
proof -
  have "CHR ''%'' \<notin> set piece" if "piece \<in> set (split_colons s)" for piece
    using parse_ipv6_pieces [OF assms that] read_groups_chars by (intro colon_fields_chars) auto
  then show ?thesis using split_colons_set [of s] by auto
qed

lemma ipv6_text_chars:
  assumes "\<forall>g \<in> set gs. g < 65536" shows "\<forall>c \<in> set (ipv6_text gs). is_hex c \<or> c = CHR '':''"
proof -
  have join: "\<forall>c \<in> set (join_char CHR '':'' ws). c = CHR '':'' \<or> (\<exists>w \<in> set ws. c \<in> set w)" for ws
    by (induction "CHR '':''" ws rule: join_char.induct) auto
  have digits: "\<forall>c \<in> set (hex_text g). is_hex c" for g using hex_text_group by (simp add: hex_group_def list_all_iff)
  show ?thesis using join digits by (fastforce simp: ipv6_text_def split: prod.splits if_splits)
qed

lemma canonicalIpv6_iff: "\<not> is_ipv4 v \<Longrightarrow> canonicalIpv6 v = map_option ipv6_text (parse_ipv6 v)"
proof (cases "parse_ipv6 v")
  case None
  assume "\<not> is_ipv4 v"
  then show ?thesis using None by (auto simp: canonicalIpv6_def bracketed_hostname_def)
next
  case (Some gs)
  assume v: "\<not> is_ipv4 v"
  have zone: "CHR ''%'' \<notin> set v" using parse_ipv6_chars Some by blast
  then have all: "takeWhile (\<lambda>c. c \<noteq> CHR ''%'') v = v" by (auto simp: takeWhile_eq_all_conv)
  have six: "isIP v = 6" unfolding isIP_def all using v Some by simp
  have "to_lower CHR '':'' = CHR '':''" by code_simp
  then have "map to_lower (ipv6_text gs) = ipv6_text gs"
    using ipv6_text_chars [of gs] parse_ipv6_groups [OF Some] hex_not_upper by (intro map_idI) auto
  moreover have "starts_with (''['' @ ipv6_text gs @ '']'') ''[''" "ends_with (''['' @ ipv6_text gs @ '']'') '']''"
    by (simp_all add: starts_with_def ends_with_def)
  moreover have "\<not> contains_text v ''%''" using zone by (simp add: contains_char)
  ultimately show ?thesis
    unfolding canonicalIpv6_def bracketed_hostname_def six by (simp add: Some butlast_append)
qed

lemma ipv6_text_not_ipv4:
  assumes "length gs = 8" and "\<forall>g \<in> set gs. g < 65536" shows "\<not> is_ipv4 (ipv6_text gs)" and "ipv6_text gs \<noteq> []"
proof -
  have "CHR '':'' \<in> set (ipv6_text gs)"
    using assms(2)
  proof (cases rule: ipv6_text_cases)
    case full
    then have "length (split_char CHR '':'' (ipv6_text gs)) = 8" using assms(1) by (auto simp: colon_fields_def split: if_splits)
    then have "split_char CHR '':'' (ipv6_text gs) \<noteq> [ipv6_text gs]" by auto
    then show ?thesis using split_char_single [of "CHR '':''" "ipv6_text gs"] by blast
  next
    case short
    then show ?thesis by (auto simp: contains_double)
  qed
  then show "\<not> is_ipv4 (ipv6_text gs)" "ipv6_text gs \<noteq> []" using is_ipv4_chars(2) by auto
qed


section \<open>The bytes of an address\<close>

definition group_bytes :: "nat list \<Rightarrow> nat list" where
  "group_bytes gs = concat (map (\<lambda>g. [g div 256, g mod 256]) gs)"

lemma ipv6Bytes_groups:
  assumes "length ws = 8" and "\<forall>g \<in> set gs. g < 65536" and "ws = map hex_text gs"
  shows "length ws = 8 \<and> \<not> list_ex (\<lambda>g. \<not> hex_group g) ws
    \<and> concat (map (\<lambda>g. [drop_bit 8 (read_hex g), read_hex g AND 255]) ws) = group_bytes gs"
proof -
  have "(g AND 255) = g mod 256" for g :: nat
    using take_bit_eq_mask [of 8 g] by (simp add: mask_eq_exp_minus_1 take_bit_eq_mod)
  then have "concat (map (\<lambda>g. [drop_bit 8 (read_hex g), read_hex g AND 255]) (map hex_text gs)) = group_bytes gs"
    using assms(2) by (auto simp: group_bytes_def read_hex_hex_text drop_bit_eq_div intro!: arg_cong [where f = concat])
  then show ?thesis using assms group_texts by (auto simp: list_ex_iff)
qed

lemma hex_text_zero: "hex_text 0 = ''0''"
  by code_simp

lemma ipv6Bytes_text:
  assumes "length gs = 8" and "\<forall>g \<in> set gs. g < 65536"
  shows "ipv6Bytes (ipv6_text gs) = Inr (group_bytes gs)"
  using assms(2)
proof (cases rule: ipv6_text_cases)
  case full
  then have "ipv6_halves (ipv6_text gs) = (map hex_text gs, [])" by (simp add: ipv6_halves_def)
  then show ?thesis using ipv6Bytes_groups [of "map hex_text gs" gs] assms by (simp add: ipv6Bytes_def)
next
  case (short l r a n b)
  have halves: "ipv6_halves (ipv6_text gs) = (map hex_text a, map hex_text b)" using short by (simp add: ipv6_halves_def)
  have count: "length a + n + length b = 8" using assms(1) short(5) by simp
  then have missing: "8 - int (length a) - int (length b) = int n" by simp
  have "map hex_text a @ replicate n ''0'' @ map hex_text b = map hex_text gs"
    by (simp add: short(5) hex_text_zero)
  then show ?thesis
    using ipv6Bytes_groups [of "map hex_text gs" gs] assms halves missing short(4) by (simp add: ipv6Bytes_def Let_def)
qed

lemma classifyIpAddress_ipv4:
  "is_ipv4 v \<Longrightarrow> classifyIpAddress v = Inr \<lparr>ci_address = v, ci_version = 4,
     ci_scope = ipv4_scope (ipv4_octets v ! 0) (ipv4_octets v ! 1) (ipv4_octets v ! 2)\<rparr>"
  by (auto simp: classifyIpAddress_def canonicalizeIpAddress_def canonicalIpv4_iff Let_def is_ipv4_def)

lemma classifyIpAddress_ipv6:
  assumes "\<not> is_ipv4 v" and "parse_ipv6 v = Some gs"
  shows "classifyIpAddress v = Inr \<lparr>ci_address = ipv6_text gs, ci_version = 6, ci_scope = ipv6_scope (group_bytes gs)\<rparr>"
  using assms parse_ipv6_groups [OF assms(2)] ipv6_text_not_ipv4 [of gs]
  by (simp add: classifyIpAddress_def canonicalizeIpAddress_def canonicalIpv4_iff canonicalIpv6_iff ipv6Bytes_text)

lemma canonicalizeIpAddress_iff:
  "canonicalizeIpAddress v = (if is_ipv4 v then Inr v else case parse_ipv6 v of None \<Rightarrow> Inl (TargetGuardError TgIdentityMismatch)
     | Some gs \<Rightarrow> Inr (ipv6_text gs))"
  using parse_ipv6_groups [of v] ipv6_text_not_ipv4
  by (auto simp: canonicalizeIpAddress_def canonicalIpv4_iff canonicalIpv6_iff is_ipv4_def split: option.splits)

text \<open>The canonical text denotes the same address.\<close>

lemma canonical_text_denotes: "canonicalizeIpAddress v = Inr t \<Longrightarrow> ip_of_text v = ip_of_text t \<and> ip_of_text v \<noteq> None"
  using parse_ipv6_groups [of v] ipv6_text_not_ipv4 parse_ipv6_text
  by (auto simp: canonicalizeIpAddress_iff ip_of_text_def split: if_splits option.splits)


section \<open>The guard's own blocks\<close>

text \<open>
  The tests of \<open>classifyIpAddress\<close>, written as blocks of addresses with the scope the guard gives each. These tables are the code's,
  not a registry's: \<open>3ff0::/12\<close> and \<open>2001:200::/32\<close> are what its masks cover. In the first table the base is four octets, in the
  second eight groups; the first block an address lies in decides. Every IPv4 address outside its table is global, while an IPv6
  address is global only inside \<open>2000::/3\<close>.
\<close>

definition ipv4_blocks :: "(nat list \<times> nat \<times> ip_scope) list" where
  "ipv4_blocks =
    [([0, 0, 0, 0], 8, ScopeUnspecified),
     ([10, 0, 0, 0], 8, ScopePrivate), ([172, 16, 0, 0], 12, ScopePrivate), ([192, 168, 0, 0], 16, ScopePrivate),
     ([127, 0, 0, 0], 8, ScopeLoopback), ([169, 254, 0, 0], 16, ScopeLinkLocal), ([224, 0, 0, 0], 4, ScopeMulticast),
     ([192, 0, 2, 0], 24, ScopeDocumentation), ([198, 51, 100, 0], 24, ScopeDocumentation), ([203, 0, 113, 0], 24, ScopeDocumentation),
     ([100, 64, 0, 0], 10, ScopeReserved), ([192, 0, 0, 0], 24, ScopeReserved), ([192, 88, 99, 0], 24, ScopeReserved),
     ([198, 18, 0, 0], 15, ScopeReserved), ([240, 0, 0, 0], 4, ScopeReserved)]"

definition ipv6_blocks :: "(nat list \<times> nat \<times> ip_scope) list" where
  "ipv6_blocks =
    [([0, 0, 0, 0, 0, 0, 0, 0], 128, ScopeUnspecified), ([0, 0, 0, 0, 0, 0, 0, 1], 128, ScopeLoopback),
     ([0xfc00, 0, 0, 0, 0, 0, 0, 0], 7, ScopePrivate), ([0xfe80, 0, 0, 0, 0, 0, 0, 0], 10, ScopeLinkLocal),
     ([0xff00, 0, 0, 0, 0, 0, 0, 0], 8, ScopeMulticast), ([0x2001, 0xdb8, 0, 0, 0, 0, 0, 0], 32, ScopeDocumentation),
     ([0x3ff0, 0, 0, 0, 0, 0, 0, 0], 12, ScopeDocumentation), ([0x2001, 0, 0, 0, 0, 0, 0, 0], 23, ScopeReserved),
     ([0x2001, 0x200, 0, 0, 0, 0, 0, 0], 32, ScopeReserved), ([0x2000, 0, 0, 0, 0, 0, 0, 0], 3, ScopeGlobal)]"

fun first_scope :: "(nat list \<Rightarrow> nat \<Rightarrow> bool) \<Rightarrow> (nat list \<times> nat \<times> ip_scope) list \<Rightarrow> ip_scope \<Rightarrow> ip_scope" where
  "first_scope inside [] otherwise = otherwise"
| "first_scope inside ((base, bits, scope) # blocks) otherwise = (if inside base bits then scope else first_scope inside blocks otherwise)"

fun scope_of_ip :: "ip_address \<Rightarrow> ip_scope" where
  "scope_of_ip (Ip4 a) = first_scope (\<lambda>base bits. in_block (word_of_nat (big_endian 256 base)) bits a) ipv4_blocks ScopeGlobal"
| "scope_of_ip (Ip6 a) = first_scope (\<lambda>base bits. in_block (word_of_nat (big_endian 65536 base)) bits a) ipv6_blocks ScopeReserved"

lemma div_range: "0 < m \<Longrightarrow> x div m = q \<longleftrightarrow> m * q \<le> x \<and> x < m * Suc q" for x m q :: nat
  by (auto intro: div_nat_eqI simp: dividend_less_times_div)

lemma if_disj: "(if A \<or> B then x else y) = (if A then x else if B then x else y)"
  by simp

lemma ipv4_scope_registry:
  assumes "a < 256" "b < 256" "c < 256" "d < 256"
  shows "scope_of_ip (Ip4 (word_of_nat (big_endian 256 [a, b, c, d]))) = ipv4_scope a b c"
proof -
  have block: "in_block (word_of_nat (big_endian 256 [p, q, r, s]) :: 32 word) bits (word_of_nat (big_endian 256 [a, b, c, d]))
      \<longleftrightarrow> same_prefix bits [p, q, r, s] [a, b, c, d]" if "p < 256" "q < 256" "r < 256" "s < 256" "bits \<le> 32" for p q r s bits
    using in_block_bytes [where 'a = 32, of "[a, b, c, d]" "[p, q, r, s]" bits] assms that by simp
  have first: "a div 16 = 14 \<longleftrightarrow> 224 \<le> a \<and> a \<le> 239" "a div 16 = 15 \<longleftrightarrow> 240 \<le> a" using assms(1) by (auto simp: div_range)
  have second: "b div 16 = 1 \<longleftrightarrow> 16 \<le> b \<and> b \<le> 31" "b div 64 = 1 \<longleftrightarrow> 64 \<le> b \<and> b \<le> 127" "b div 2 = 9 \<longleftrightarrow> b = 18 \<or> b = 19"
    by (auto simp: div_range)
  let ?in = "\<lambda>base bits. in_block (word_of_nat (big_endian 256 base)) bits (word_of_nat (big_endian 256 [a, b, c, d]) :: 32 word)"
  have inside: "?in [0, 0, 0, 0] 8 \<longleftrightarrow> a = 0" "?in [10, 0, 0, 0] 8 \<longleftrightarrow> a = 10" "?in [172, 16, 0, 0] 12 \<longleftrightarrow> a = 172 \<and> 16 \<le> b \<and> b \<le> 31"
    "?in [192, 168, 0, 0] 16 \<longleftrightarrow> a = 192 \<and> b = 168" "?in [127, 0, 0, 0] 8 \<longleftrightarrow> a = 127" "?in [169, 254, 0, 0] 16 \<longleftrightarrow> a = 169 \<and> b = 254"
    "?in [224, 0, 0, 0] 4 \<longleftrightarrow> 224 \<le> a \<and> a \<le> 239" "?in [192, 0, 2, 0] 24 \<longleftrightarrow> a = 192 \<and> b = 0 \<and> c = 2"
    "?in [198, 51, 100, 0] 24 \<longleftrightarrow> a = 198 \<and> b = 51 \<and> c = 100" "?in [203, 0, 113, 0] 24 \<longleftrightarrow> a = 203 \<and> b = 0 \<and> c = 113"
    "?in [100, 64, 0, 0] 10 \<longleftrightarrow> a = 100 \<and> 64 \<le> b \<and> b \<le> 127" "?in [192, 0, 0, 0] 24 \<longleftrightarrow> a = 192 \<and> b = 0 \<and> c = 0"
    "?in [192, 88, 99, 0] 24 \<longleftrightarrow> a = 192 \<and> b = 88 \<and> c = 99" "?in [198, 18, 0, 0] 15 \<longleftrightarrow> a = 198 \<and> (b = 18 \<or> b = 19)"
    "?in [240, 0, 0, 0] 4 \<longleftrightarrow> 240 \<le> a"
    by (simp_all add: block first second second [simplified One_nat_def])
  show ?thesis unfolding scope_of_ip.simps ipv4_blocks_def first_scope.simps inside ipv4_scope_def if_disj ..
qed

lemma and_high_bits:
  fixes a :: nat
  assumes "a < 256"
  shows "a AND 0xfe = 2 * (a div 2)" "a AND 0xc0 = 64 * (a div 64)" "a AND 0xf0 = 16 * (a div 16)" "a AND 0xe0 = 32 * (a div 32)"
proof -
  have shift: "a AND push_bit k (mask m) = push_bit k (drop_bit k a AND mask m)" for k m
    by (rule bit_eqI) (auto simp: bit_simps)
  have high: "a AND 2 ^ k * (2 ^ (8 - k) - 1) = 2 ^ k * (a div 2 ^ k)" if "k \<le> 8" for k
  proof -
    have "a div 2 ^ k < 2 ^ (8 - k)"
      using assms that power_add [of "2::nat" "8 - k" k] by (intro less_mult_imp_div_less) simp
    then have "drop_bit k a AND mask (8 - k) = a div 2 ^ k"
      by (simp add: drop_bit_eq_div flip: take_bit_eq_mask) (simp add: take_bit_eq_mod)
    then show ?thesis using shift [of k "8 - k"] by (simp add: push_bit_eq_mult mask_eq_exp_minus_1 mult.commute)
  qed
  show "a AND 0xfe = 2 * (a div 2)" "a AND 0xc0 = 64 * (a div 64)" "a AND 0xf0 = 16 * (a div 16)" "a AND 0xe0 = 32 * (a div 32)"
    using high [of 1] high [of 6] high [of 4] high [of 5] by simp_all
qed

lemma group_bytes_length: "length (group_bytes gs) = 2 * length gs"
  by (induction gs) (simp_all add: group_bytes_def)

lemma group_bytes_bound: "\<forall>g \<in> set gs. g < 65536 \<Longrightarrow> \<forall>b \<in> set (group_bytes gs). b < 256"
proof -
  have "g div 256 < 256" if "g < 65536" for g :: nat using that by (intro less_mult_imp_div_less) simp
  then show "\<forall>g \<in> set gs. g < 65536 \<Longrightarrow> \<forall>b \<in> set (group_bytes gs). b < 256" by (auto simp: group_bytes_def)
qed

lemma ipv6_scope_registry:
  assumes "length bs = 16" and "\<forall>b \<in> set bs. b < 256"
  shows "scope_of_ip (Ip6 (word_of_nat (big_endian 256 bs))) = ipv6_scope bs"
proof -
  let ?in = "\<lambda>base bits. in_block (word_of_nat (big_endian 65536 base)) bits (word_of_nat (big_endian 256 bs) :: 128 word)"
  have block: "?in gs bits \<longleftrightarrow> same_prefix bits (group_bytes gs) bs" if "length gs = 8" "\<forall>g \<in> set gs. g < 65536" "bits \<le> 128" for gs bits
    using in_block_bytes [where 'a = 128, of bs "group_bytes gs" bits] assms that group_bytes_length [of gs] group_bytes_bound [of gs]
    by (simp add: big_endian_bytes group_bytes_def [symmetric])
  obtain b0 b1 b2 b3 b4 b5 b6 b7 b8 b9 b10 b11 b12 b13 b14 b15
    where bs: "bs = [b0, b1, b2, b3, b4, b5, b6, b7, b8, b9, b10, b11, b12, b13, b14, b15]"
    using assms(1) by (auto simp: numeral_eq_Suc length_Suc_conv)
  have bytes: "b0 < 256" "b1 < 256" using assms(2) bs by simp_all
  have low: "b2 div 2 = 0 \<longleftrightarrow> b2 < 2" by (auto simp: div_range)
  have inside: "?in [0, 0, 0, 0, 0, 0, 0, 0] 128 \<longleftrightarrow> list_all (\<lambda>b. b = 0) bs"
    "?in [0, 0, 0, 0, 0, 0, 0, 1] 128 \<longleftrightarrow> list_all (\<lambda>b. b = 0) (take 15 bs) \<and> bs ! 15 = 1"
    "?in [0xfc00, 0, 0, 0, 0, 0, 0, 0] 7 \<longleftrightarrow> bs ! 0 AND 0xfe = 0xfc"
    "?in [0xfe80, 0, 0, 0, 0, 0, 0, 0] 10 \<longleftrightarrow> bs ! 0 = 0xfe \<and> bs ! 1 AND 0xc0 = 0x80"
    "?in [0xff00, 0, 0, 0, 0, 0, 0, 0] 8 \<longleftrightarrow> bs ! 0 = 0xff"
    "?in [0x2001, 0xdb8, 0, 0, 0, 0, 0, 0] 32 \<longleftrightarrow> bs ! 0 = 0x20 \<and> bs ! 1 = 0x01 \<and> bs ! 2 = 0x0d \<and> bs ! 3 = 0xb8"
    "?in [0x3ff0, 0, 0, 0, 0, 0, 0, 0] 12 \<longleftrightarrow> bs ! 0 = 0x3f \<and> bs ! 1 AND 0xf0 = 0xf0"
    "?in [0x2001, 0, 0, 0, 0, 0, 0, 0] 23 \<longleftrightarrow> bs ! 0 = 0x20 \<and> bs ! 1 = 0x01 \<and> bs ! 2 < 0x02"
    "?in [0x2001, 0x200, 0, 0, 0, 0, 0, 0] 32 \<longleftrightarrow> bs ! 0 = 0x20 \<and> bs ! 1 = 0x01 \<and> bs ! 2 = 0x02 \<and> bs ! 3 = 0x00"
    "?in [0x2000, 0, 0, 0, 0, 0, 0, 0] 3 \<longleftrightarrow> bs ! 0 AND 0xe0 = 0x20"
    by (simp_all add: block [unfolded bs] group_bytes_def and_high_bits [OF bytes(1)] and_high_bits [OF bytes(2)] low bs)
  show ?thesis unfolding scope_of_ip.simps ipv6_blocks_def first_scope.simps inside ipv6_scope_def if_disj conj_disj_distribL ..
qed


lemma big_endian_inject:
  assumes "big_endian base xs = big_endian base ys" and "length xs = length ys" and "\<forall>d \<in> set xs. d < base" and "\<forall>d \<in> set ys. d < base"
  shows "xs = ys"
  using assms
proof (induction xs arbitrary: ys rule: rev_induct)
  case (snoc x xs)
  then obtain ys' y where ys: "ys = ys' @ [y]" by (cases ys rule: rev_cases) auto
  have "base * big_endian base xs + x = base * big_endian base ys' + y" "x < base" "y < base"
    using snoc.prems ys by (simp_all add: big_endian_snoc)
  then have "x = y" "big_endian base xs = big_endian base ys'"
    by (metis add.commute mod_less mod_mult_self2, metis add.right_neutral div_less div_mult_self4 gr_implies_not0)
  then show ?case using snoc ys by simp
qed simp

lemma word_of_nat_inject:
  assumes "v < 2 ^ LENGTH('a::len)" and "w < 2 ^ LENGTH('a)" and "(word_of_nat v :: 'a word) = word_of_nat w"
  shows "v = w"
proof -
  have "unat (word_of_nat x :: 'a word) = x" if "x < 2 ^ LENGTH('a)" for x using that by (simp add: unat_of_nat take_bit_eq_mod)
  then show ?thesis using assms by metis
qed

lemma ip_of_text_cases:
  assumes "ip_of_text v = Some a"
  obtains (four) p q r s where "is_ipv4 v" "ipv4_octets v = [p, q, r, s]" "p < 256" "q < 256" "r < 256" "s < 256"
      "a = Ip4 (word_of_nat (big_endian 256 [p, q, r, s]))"
  | (six) gs where "\<not> is_ipv4 v" "parse_ipv6 v = Some gs" "length gs = 8" "\<forall>g \<in> set gs. g < 65536" "a = Ip6 (word_of_nat (big_endian 65536 gs))"
proof (cases "is_ipv4 v")
  case True
  obtain p q r s where o: "ipv4_octets v = [p, q, r, s]"
    using ipv4_octets_bound [OF True] by (auto simp: numeral_eq_Suc length_Suc_conv)
  then show ?thesis using four [of p q r s] True ipv4_octets_bound [OF True] assms by (simp add: ip_of_text_def)
next
  case False
  then obtain gs where "parse_ipv6 v = Some gs" "a = Ip6 (word_of_nat (big_endian 65536 gs))"
    using assms by (auto simp: ip_of_text_def)
  then show ?thesis using six False parse_ipv6_groups by blast
qed

lemma ipv4_octets_inject:
  assumes "is_ipv4 v" and "is_ipv4 w" and "ipv4_octets v = ipv4_octets w" shows "v = w"
proof -
  have parts: "split_char CHR ''.'' x = map (\<lambda>n. int_text (int n)) (ipv4_octets x)" if "is_ipv4 x" for x
  proof -
    have "\<forall>p \<in> set (split_char CHR ''.'' x). octet_text p" using that by (simp add: is_ipv4_def Let_def list_all_iff)
    then have "map (\<lambda>p. int_text (int (nat (read_dec p)))) (split_char CHR ''.'' x) = split_char CHR ''.'' x"
      using octet_text_print octet_text_bound by (intro map_idI) fastforce
    then show ?thesis unfolding ipv4_octets_def map_map comp_def by simp
  qed
  then have "split_char CHR ''.'' v = split_char CHR ''.'' w" using assms by simp
  then show ?thesis using join_split_char by metis
qed

lemma same_address_same_class:
  assumes "ip_of_text v = Some a" and "ip_of_text w = Some a" shows "classifyIpAddress v = classifyIpAddress w"
  using assms(1)
proof (cases rule: ip_of_text_cases)
  case (four p q r s)
  then obtain p' q' r' s' where w: "is_ipv4 w" "ipv4_octets w = [p', q', r', s']" "p' < 256" "q' < 256" "r' < 256" "s' < 256"
      "a = Ip4 (word_of_nat (big_endian 256 [p', q', r', s']))"
    using four(7) by (rule_tac ip_of_text_cases [OF assms(2)]) auto
  have "big_endian 256 [p, q, r, s] = big_endian 256 [p', q', r', s']"
    using four w big_endian_bound [of "[p, q, r, s]" 256] big_endian_bound [of "[p', q', r', s']" 256]
    by (intro word_of_nat_inject [where 'a = 32]) simp_all
  then have "[p, q, r, s] = [p', q', r', s']" using big_endian_inject [of 256 "[p, q, r, s]" "[p', q', r', s']"] four w by auto
  then have "v = w" using ipv4_octets_inject four(1,2) w(1,2) by metis
  then show ?thesis by simp
next
  case (six gs)
  then obtain gs' where w: "\<not> is_ipv4 w" "parse_ipv6 w = Some gs'" "length gs' = 8" "\<forall>g \<in> set gs'. g < 65536"
      "a = Ip6 (word_of_nat (big_endian 65536 gs'))"
    using six(5) by (rule_tac ip_of_text_cases [OF assms(2)]) auto
  have "big_endian 65536 gs = big_endian 65536 gs'"
    using six w big_endian_bound [of gs 65536] big_endian_bound [of gs' 65536] by (intro word_of_nat_inject [where 'a = 128]) simp_all
  then have "gs = gs'" using big_endian_inject six w by metis
  then show ?thesis using classifyIpAddress_ipv6 six w by metis
qed

lemma classify_scope:
  assumes "ip_of_text v = Some a"
  shows "\<exists>c. classifyIpAddress v = Inr c \<and> canonicalizeIpAddress v = Inr (ci_address c) \<and> ci_scope c = scope_of_ip a"
  using assms
proof (cases rule: ip_of_text_cases)
  case (four p q r s)
  then show ?thesis
    using classifyIpAddress_ipv4 [of v] ipv4_scope_registry [of p q r s] by (simp add: canonicalizeIpAddress_iff)
next
  case (six gs)
  have "scope_of_ip a = ipv6_scope (group_bytes gs)"
    using ipv6_scope_registry [of "group_bytes gs"] group_bytes_length [of gs] group_bytes_bound [of gs] six
    by (simp add: big_endian_bytes group_bytes_def [symmetric])
  then show ?thesis using classifyIpAddress_ipv6 [OF six(1,2)] six by (simp add: canonicalizeIpAddress_iff)
qed

lemma classify_not_an_address:
  "ip_of_text v = None \<Longrightarrow> classifyIpAddress v = Inl (TargetGuardError TgIdentityMismatch)"
  by (simp add: classifyIpAddress_def canonicalizeIpAddress_iff ip_of_text_def split: if_splits)

text \<open>The scope is that of the address a text denotes, whatever its spelling.\<close>

lemma classifyIpAddress_denotes:
  assumes "ip_of_text v = Some a"
  shows "\<exists>c. classifyIpAddress v = Inr c \<and> ci_scope c = scope_of_ip a \<and> ip_of_text (ci_address c) = Some a
     \<and> (\<forall>w. ip_of_text w = Some a \<longrightarrow> classifyIpAddress w = Inr c)"
proof -
  obtain c where c: "classifyIpAddress v = Inr c" "canonicalizeIpAddress v = Inr (ci_address c)" "ci_scope c = scope_of_ip a"
    using classify_scope [OF assms] by blast
  then have "ip_of_text (ci_address c) = Some a" using canonical_text_denotes [OF c(2)] assms by simp
  moreover have "classifyIpAddress w = Inr c" if "ip_of_text w = Some a" for w
    using same_address_same_class [OF that assms] c(1) by simp
  ultimately show ?thesis using c by auto
qed


section \<open>The special-purpose registries\<close>

text \<open>
  The specification: the blocks that are not for public use. For IPv4 these are the entries of the IANA special-purpose registry that
  are not globally reachable, taken whole (this network, private use, shared address space, loopback, link local, protocol assignments,
  documentation, 6to4 relay anycast, benchmarking), with multicast and the reserved class E. For IPv6 they are the protocol
  assignments and the two documentation prefixes, inside the one block of global unicast addresses, \<open>2000::/3\<close>.
\<close>

definition special_ip4 :: "(nat list \<times> nat) list" where
  "special_ip4 =
    [([0, 0, 0, 0], 8), ([10, 0, 0, 0], 8), ([100, 64, 0, 0], 10), ([127, 0, 0, 0], 8), ([169, 254, 0, 0], 16), ([172, 16, 0, 0], 12),
     ([192, 0, 0, 0], 24), ([192, 0, 2, 0], 24), ([192, 88, 99, 0], 24), ([192, 168, 0, 0], 16), ([198, 18, 0, 0], 15),
     ([198, 51, 100, 0], 24), ([203, 0, 113, 0], 24), ([224, 0, 0, 0], 4), ([240, 0, 0, 0], 4)]"

definition special_ip6 :: "(nat list \<times> nat) list" where
  "special_ip6 = [([0x2001, 0, 0, 0, 0, 0, 0, 0], 23), ([0x2001, 0xdb8, 0, 0, 0, 0, 0, 0], 32), ([0x3fff, 0, 0, 0, 0, 0, 0, 0], 20)]"

definition ip4_inside :: "32 word \<Rightarrow> nat list \<times> nat \<Rightarrow> bool" where
  "ip4_inside a block \<longleftrightarrow> in_block (word_of_nat (big_endian 256 (fst block))) (snd block) a"

definition ip6_inside :: "128 word \<Rightarrow> nat list \<times> nat \<Rightarrow> bool" where
  "ip6_inside a block \<longleftrightarrow> in_block (word_of_nat (big_endian 65536 (fst block))) (snd block) a"

definition global_unicast :: "nat list \<times> nat" where "global_unicast = ([0x2000, 0, 0, 0, 0, 0, 0, 0], 3)"

fun special_purpose :: "ip_address \<Rightarrow> bool" where
  "special_purpose (Ip4 a) \<longleftrightarrow> list_ex (ip4_inside a) special_ip4"
| "special_purpose (Ip6 a) \<longleftrightarrow> \<not> ip6_inside a global_unicast \<or> list_ex (ip6_inside a) special_ip6"

lemma first_scope_default:
  "list_all (\<lambda>(base, bits, scope). scope \<noteq> otherwise) blocks \<Longrightarrow>
     first_scope inside blocks otherwise = otherwise \<longleftrightarrow> \<not> list_ex (\<lambda>(base, bits, scope). inside base bits) blocks"
  by (induction inside blocks otherwise rule: first_scope.induct) auto

lemma in_block_weaken: "in_block b n a \<Longrightarrow> m \<le> n \<Longrightarrow> n \<le> LENGTH('a) \<Longrightarrow> in_block b m a" for a b :: "'a::len word"
proof -
  assume "in_block b n a" "m \<le> n" "n \<le> LENGTH('a)"
  then have "drop_bit (n - m) (drop_bit (LENGTH('a) - n) a) = drop_bit (n - m) (drop_bit (LENGTH('a) - n) b)" by (simp add: in_block_def)
  then show "in_block b m a" using \<open>m \<le> n\<close> \<open>n \<le> LENGTH('a)\<close> by (simp add: in_block_def)
qed

lemma in_block_trans: "in_block b m a \<Longrightarrow> in_block c m b \<Longrightarrow> in_block c m a"
  by (simp add: in_block_def)

lemma in_block_sym: "in_block b m a \<Longrightarrow> in_block a m b"
  by (simp add: in_block_def)

lemma ip4_scope_global: "scope_of_ip (Ip4 a) = ScopeGlobal \<longleftrightarrow> \<not> special_purpose (Ip4 a)"
proof -
  have "scope_of_ip (Ip4 a) = ScopeGlobal \<longleftrightarrow> \<not> list_ex (\<lambda>(base, bits, scope). ip4_inside a (base, bits)) ipv4_blocks"
    unfolding scope_of_ip.simps ip4_inside_def fst_conv snd_conv by (rule first_scope_default) (simp add: ipv4_blocks_def)
  also have "list_ex (\<lambda>(base, bits, scope). ip4_inside a (base, bits)) ipv4_blocks \<longleftrightarrow> list_ex (ip4_inside a) special_ip4"
    by (simp add: ipv4_blocks_def special_ip4_def) blast
  finally show ?thesis by simp
qed

text \<open>Blocks that differ in their first three bits, and one that lies in another.\<close>

lemma unicast_disjoint:
  assumes "ip6_inside a global_unicast"
  shows "\<not> ip6_inside a ([0, 0, 0, 0, 0, 0, 0, 0], 128)" "\<not> ip6_inside a ([0, 0, 0, 0, 0, 0, 0, 1], 128)" "\<not> ip6_inside a ([0xfc00, 0, 0, 0, 0, 0, 0, 0], 7)"
    "\<not> ip6_inside a ([0xfe80, 0, 0, 0, 0, 0, 0, 0], 10)" "\<not> ip6_inside a ([0xff00, 0, 0, 0, 0, 0, 0, 0], 8)"
proof -
  have other: "\<not> ip6_inside a (gs, n)" if "\<not> in_block (word_of_nat (big_endian 65536 gs) :: 128 word) 3 (word_of_nat (big_endian 65536 [0x2000, 0, 0, 0, 0, 0, 0, 0]))"
    "3 \<le> n" "n \<le> 128" for gs n
  proof
    assume "ip6_inside a (gs, n)"
    then have "in_block (word_of_nat (big_endian 65536 gs)) 3 a" unfolding ip6_inside_def fst_conv snd_conv using that(2,3) by (auto intro: in_block_weaken)
    moreover have "in_block a 3 (word_of_nat (big_endian 65536 [0x2000, 0, 0, 0, 0, 0, 0, 0]))"
      using assms unfolding ip6_inside_def global_unicast_def fst_conv snd_conv by (rule in_block_sym)
    ultimately show False using that(1) in_block_trans by blast
  qed
  show "\<not> ip6_inside a ([0, 0, 0, 0, 0, 0, 0, 0], 128)" "\<not> ip6_inside a ([0, 0, 0, 0, 0, 0, 0, 1], 128)" "\<not> ip6_inside a ([0xfc00, 0, 0, 0, 0, 0, 0, 0], 7)"
    "\<not> ip6_inside a ([0xfe80, 0, 0, 0, 0, 0, 0, 0], 10)" "\<not> ip6_inside a ([0xff00, 0, 0, 0, 0, 0, 0, 0], 8)"
    by (rule other; simp add: in_block_def big_endian_def)+
qed

lemma documentation_block: "ip6_inside a ([0x3fff, 0, 0, 0, 0, 0, 0, 0], 20) \<Longrightarrow> ip6_inside a ([0x3ff0, 0, 0, 0, 0, 0, 0, 0], 12)"
proof -
  assume "ip6_inside a ([0x3fff, 0, 0, 0, 0, 0, 0, 0], 20)"
  then have "in_block (word_of_nat (big_endian 65536 [0x3fff, 0, 0, 0, 0, 0, 0, 0])) 12 a"
    unfolding ip6_inside_def fst_conv snd_conv by (rule in_block_weaken) simp_all
  moreover have "in_block (word_of_nat (big_endian 65536 [0x3ff0, 0, 0, 0, 0, 0, 0, 0]) :: 128 word) 12 (word_of_nat (big_endian 65536 [0x3fff, 0, 0, 0, 0, 0, 0, 0]))"
    by (simp add: in_block_def big_endian_def)
  ultimately show ?thesis unfolding ip6_inside_def fst_conv snd_conv by (rule in_block_trans)
qed

lemma ip6_scope_blocks:
  "scope_of_ip (Ip6 a) = first_scope (\<lambda>base bits. ip6_inside a (base, bits)) ipv6_blocks ScopeReserved"
  by (simp add: ip6_inside_def)

lemma ip6_scope_global: "scope_of_ip (Ip6 a) = ScopeGlobal \<Longrightarrow> \<not> special_purpose (Ip6 a)"
  using documentation_block [of a]
  unfolding ip6_scope_blocks ipv6_blocks_def first_scope.simps special_purpose.simps special_ip6_def global_unicast_def
  by (auto split: if_splits)

lemma ip6_ordinary_global:
  assumes "ip6_inside a global_unicast" and "\<not> ip6_inside a ([0x2001, 0, 0, 0, 0, 0, 0, 0], 16)" and "\<not> ip6_inside a ([0x3ff0, 0, 0, 0, 0, 0, 0, 0], 12)"
  shows "scope_of_ip (Ip6 a) = ScopeGlobal"
proof -
  have inner: "\<not> ip6_inside a (gs, n)" if "in_block (word_of_nat (big_endian 65536 [0x2001, 0, 0, 0, 0, 0, 0, 0]) :: 128 word) 16 (word_of_nat (big_endian 65536 gs))"
    "16 \<le> n" "n \<le> 128" for gs n
  proof
    assume "ip6_inside a (gs, n)"
    then have "in_block (word_of_nat (big_endian 65536 gs)) 16 a" unfolding ip6_inside_def fst_conv snd_conv using that(2,3) by (auto intro: in_block_weaken)
    then show False using assms(2) in_block_trans [OF _ that(1)] unfolding ip6_inside_def fst_conv snd_conv by blast
  qed
  have "\<not> ip6_inside a ([0x2001, 0, 0, 0, 0, 0, 0, 0], 23)" "\<not> ip6_inside a ([0x2001, 0xdb8, 0, 0, 0, 0, 0, 0], 32)"
    "\<not> ip6_inside a ([0x2001, 0x200, 0, 0, 0, 0, 0, 0], 32)"
    by (rule inner; simp add: in_block_def big_endian_def)+
  then show ?thesis using unicast_disjoint [OF assms(1)] assms(1,3) unfolding ip6_scope_blocks ipv6_blocks_def first_scope.simps global_unicast_def by simp
qed



section \<open>Accepted connections\<close>

lemma classify_all_Inr: "classify_all vs = Inr cs \<Longrightarrow> list_all2 (\<lambda>v c. classifyIpAddress v = Inr c) vs cs"
  by (induction vs arbitrary: cs) (auto split: sum.splits)

lemma list_all2_partner:
  "list_all2 P xs ys \<Longrightarrow> x \<in> set xs \<Longrightarrow> \<exists>y \<in> set ys. P x y"
  "list_all2 P xs ys \<Longrightarrow> y \<in> set ys \<Longrightarrow> \<exists>x \<in> set xs. P x y"
  by (induction rule: list_all2_induct) auto

lemma classified_denotes:
  assumes "classifyIpAddress v = Inr c"
  shows "\<exists>a. ip_of_text v = Some a \<and> ip_of_text (ci_address c) = Some a \<and> ci_scope c = scope_of_ip a"
proof (cases "ip_of_text v")
  case None
  then show ?thesis using classify_not_an_address assms by simp
next
  case (Some a)
  then show ?thesis using classify_scope [OF Some] canonical_text_denotes assms by fastforce
qed

lemma parseCanonicalHttpsDestination_Inr:
  assumes "parseCanonicalHttpsDestination h v = Inr d"
  shows "hd_canonicalDestination d = v \<and> v = destination_text (hd_host d) (hd_port d)
    \<and> (hd_hostKind d = HostIpv4 \<longleftrightarrow> is_ipv4 (hd_host d)) \<and> canonicalNetworkDestinationSchema h v"
proof -
  obtain name port where m: "match_https v = Some (name, port)" and schema: "canonicalNetworkDestinationSchema h v"
    and d: "d = \<lparr>hd_canonicalDestination = v, hd_host = name, hd_port = read_dec port,
      hd_hostKind = (case canonicalIpv4 name of None \<Rightarrow> HostDns | Some t \<Rightarrow> if t \<noteq> [] then HostIpv4 else HostDns)\<rparr>"
    using assms by (auto simp: parseCanonicalHttpsDestination_def split: option.splits)
  obtain rest where v: "v = ''https://'' @ rest" using m by (auto simp: match_https_def starts_with_iff split: if_splits)
  have "length (takeWhile (\<lambda>c. c \<noteq> CHR '':'') rest) < length rest \<and> takeWhile (\<lambda>c. c \<noteq> CHR '':'') rest = name
      \<and> drop (Suc (length (takeWhile (\<lambda>c. c \<noteq> CHR '':'') rest))) rest = port" and port: "port_group port"
    using m by (auto simp: match_https_def v Let_def starts_with_def split: if_splits)
  then have "rest = name @ CHR '':'' # port" unfolding first_separator by blast
  moreover have "int_text (read_dec port) = port" using port int_text_read_dec by (auto simp: port_group_def)
  ultimately have "v = destination_text name (read_dec port)" by (simp add: v destination_text_def)
  moreover have "is_ipv4 name \<Longrightarrow> name \<noteq> []" by (auto simp: is_ipv4_def)
  ultimately show ?thesis using schema by (simp add: d canonicalIpv4_iff)
qed

lemma prepare_cases:
  assumes "preparePinnedHttpsConnection h resolve executor v allowedDestinations resolvedAt = Inr plan"
  obtains d raw cs where "parseCanonicalHttpsDestination h v = Inr d" "v \<in> set allowedDestinations"
    "(if hd_hostKind d = HostIpv4 then Some [hd_host d] else resolve (hd_host d)) = Some raw" "length raw \<le> 16"
    "list_all2 (\<lambda>v c. classifyIpAddress v = Inr c) raw cs" "pin_addresses d resolvedAt cs = Inr plan"
proof -
  obtain d now raw cs where d: "parseCanonicalHttpsDestination h v = Inr d" and ok: "allowed_list_ok h allowedDestinations (hd_canonicalDestination d)"
    and now: "requireCanonicalNow resolvedAt = Inr now"
    and raw: "(if hd_hostKind d = HostIpv4 then Some [hd_host d] else resolve (hd_host d)) = Some raw" "length raw \<le> 16"
    and cs: "classify_all raw = Inr cs" and plan: "pin_addresses d now cs = Inr plan"
    using assms by (auto simp: preparePinnedHttpsConnection_def not_less split: option.splits sum.splits if_splits)
  have "now = resolvedAt" using now by (auto simp: requireCanonicalNow_def split: option.splits if_splits)
  moreover have "v \<in> set allowedDestinations"
    using ok parseCanonicalHttpsDestination_Inr [OF d] by (simp add: allowed_list_ok_def)
  ultimately show thesis using that d raw classify_all_Inr [OF cs] plan by simp
qed

lemma pin_addresses_Inr:
  assumes "pin_addresses d resolvedAt cs = Inr plan"
  shows "plan = plan_for d (sort (remdups (map ci_address cs))) (hd_hostKind d = HostIpv4) resolvedAt"
    and "c \<in> set cs \<Longrightarrow> ci_scope c = ScopeGlobal \<or> hd_hostKind d = HostIpv4 \<and> ci_address c = hd_host d"
  using assms by (auto simp: pin_addresses_def Let_def list_ex_iff split: if_splits)

text \<open>
  C25. A connection that passes the guard cannot be steered to an internal address: when a plan was prepared for a destination and the peer was
  verified against it, the destination is one of the allowed ones, the certificate was checked for its host, port and host are its own,
  and the connected address is either the IPv4 address the destination itself names or a global address that the resolver returned, all of
  whose at most sixteen answers are global.
\<close>

theorem accepted_peer_is_public:
  assumes "preparePinnedHttpsConnection h resolve executor dest allowedDestinations resolvedAt = Inr plan"
    and "verifyPinnedTlsPeer plan evidence = Inr ()"
  shows "dest \<in> set allowedDestinations \<and> dest = destination_text (hd_host plan) (hd_port plan)
    \<and> tp_serverName evidence = hd_host plan \<and> tp_connectedPort evidence = of_int (hd_port plan) \<and> tp_certificateHostnameVerified evidence
    \<and> (\<exists>a. ip_of_text (tp_connectedAddress evidence) = Some a \<and>
        (ip_of_text (hd_host plan) = Some a
         \<or> scope_of_ip a = ScopeGlobal \<and>
           (\<exists>raw v. resolve (hd_host plan) = Some raw \<and> length raw \<le> 16 \<and> v \<in> set raw \<and> ip_of_text v = Some a
             \<and> list_all (\<lambda>w. \<exists>b. ip_of_text w = Some b \<and> scope_of_ip b = ScopeGlobal) raw)))"
proof -
  obtain d raw cs where d: "parseCanonicalHttpsDestination h dest = Inr d" "dest \<in> set allowedDestinations"
    and raw: "(if hd_hostKind d = HostIpv4 then Some [hd_host d] else resolve (hd_host d)) = Some raw" "length raw \<le> 16"
    and cs: "list_all2 (\<lambda>v c. classifyIpAddress v = Inr c) raw cs" and pin: "pin_addresses d resolvedAt cs = Inr plan"
    by (rule prepare_cases [OF assms(1)])
  have plan: "hd_host plan = hd_host d" "hd_port plan = hd_port d" "set (hp_pinnedAddresses plan) = ci_address ` set cs"
    by (simp_all add: pin_addresses_Inr(1) [OF pin] plan_for_def)
  obtain t where t: "canonicalizeIpAddress (tp_connectedAddress evidence) = Inr t" "t \<in> ci_address ` set cs"
    and peer: "tp_connectedPort evidence = of_int (hd_port d)" "tp_serverName evidence = hd_host d" "tp_certificateHostnameVerified evidence"
    using assms(2) plan by (auto simp: verifyPinnedTlsPeer_def split: sum.splits if_splits)
  obtain c where c: "c \<in> set cs" "t = ci_address c" using t(2) by blast
  obtain v where v: "v \<in> set raw" "classifyIpAddress v = Inr c"
    using list_all2_partner(2) [OF cs c(1)] by blast
  obtain a where a: "ip_of_text v = Some a" "ip_of_text (ci_address c) = Some a" "ci_scope c = scope_of_ip a"
    using classified_denotes [OF v(2)] by blast
  have conn: "ip_of_text (tp_connectedAddress evidence) = Some a" using canonical_text_denotes [OF t(1)] a(2) c(2) by simp
  have "ip_of_text (hd_host d) = Some a \<or> scope_of_ip a = ScopeGlobal \<and> (\<exists>raw v. resolve (hd_host d) = Some raw \<and> length raw \<le> 16
      \<and> v \<in> set raw \<and> ip_of_text v = Some a \<and> list_all (\<lambda>w. \<exists>b. ip_of_text w = Some b \<and> scope_of_ip b = ScopeGlobal) raw)"
  proof (cases "hd_hostKind d = HostIpv4")
    case True
    then show ?thesis using raw(1) v(1) a(1) by auto
  next
    case False
    have "\<exists>b. ip_of_text w = Some b \<and> scope_of_ip b = ScopeGlobal" if w: "w \<in> set raw" for w
    proof -
      obtain x where "x \<in> set cs" "classifyIpAddress w = Inr x"
        using list_all2_partner(1) [OF cs w] by blast
      then show ?thesis using pin_addresses_Inr(2) [OF pin] False classified_denotes by fastforce
    qed
    then show ?thesis using False raw v(1) a pin_addresses_Inr(2) [OF pin c(1)] by (auto simp: list_all_iff)
  qed
  then show ?thesis using d(2) parseCanonicalHttpsDestination_Inr [OF d(1)] plan peer conn by auto
qed


text \<open>The connector's exception: a private or carrier-grade address, and every answer of the resolver is that address.\<close>

definition tailnet_block :: "ip_address \<Rightarrow> bool" where
  "tailnet_block a = (case a of Ip4 w \<Rightarrow> in_block (word_of_nat (big_endian 256 [100, 64, 0, 0])) 10 w | Ip6 _ \<Rightarrow> False)"

lemma is_tailnet_block:
  assumes "classifyIpAddress v = Inr c" and "is_tailnet c" and "ip_of_text v = Some a"
  shows "tailnet_block a"
  using assms(3)
proof (cases rule: ip_of_text_cases)
  case (four p q r s)
  have "c = \<lparr>ci_address = v, ci_version = 4, ci_scope = ipv4_scope p q r\<rparr>" using assms(1) classifyIpAddress_ipv4 [OF four(1)] four(2) by simp
  then have "p = 100" "64 \<le> q" "q \<le> 127" using assms(2) four(2) by (simp_all add: is_tailnet_def Let_def)
  moreover from this have "q div 64 = 1" by (simp add: div_range)
  ultimately show ?thesis
    using in_block_bytes [where 'a = 32, of "[p, q, r, s]" "[100, 64, 0, 0]" 10] four(4-7) by (simp add: tailnet_block_def)
next
  case (six gs)
  then show ?thesis using assms(1,2) classifyIpAddress_ipv6 [OF six(1,2)] by (auto simp: is_tailnet_def)
qed

lemma some_differs_False: "some_differs p vs = Inr False \<Longrightarrow> v \<in> set vs \<Longrightarrow> \<exists>c. classifyIpAddress v = Inr c \<and> ci_address c = p"
  by (induction vs) (auto split: sum.splits if_splits)

text \<open>
  The exception for the node's own connector stays narrow: when it pins a configured address for a destination, that address is a private or
  carrier-grade-NAT one in its canonical spelling, the destination is a host name, it is the only pinned address, and the resolver
  returned at least one and only answers that denote it.
\<close>

lemma native_address_pinned:
  assumes "prepareNativeHttpsDestination h dest (Some p) resolve resolvedAt = Inr plan"
  shows "hp_pinnedAddresses plan = [p] \<and> dest = destination_text (hd_host plan) (hd_port plan) \<and> \<not> is_ipv4 (hd_host plan)
    \<and> (\<exists>a raw. ip_of_text p = Some a \<and> (scope_of_ip a = ScopePrivate \<or> tailnet_block a)
      \<and> resolve (hd_host plan) = Some raw \<and> raw \<noteq> [] \<and> list_all (\<lambda>v. ip_of_text v = Some a) raw)"
proof -
  obtain d c where d: "parseCanonicalHttpsDestination h dest = Inr d" and c: "classifyIpAddress p = Inr c"
    and ok: "hd_hostKind d = HostDns" "ci_address c = p" "ci_scope c = ScopePrivate \<or> is_tailnet c"
    and capture: "captureNativePrivateAddress h dest (Some p) = Inr (Some p)"
    using assms by (auto simp: prepareNativeHttpsDestination_def captureNativePrivateAddress_def split: sum.splits if_splits)
  obtain raw where raw: "resolve (hd_host d) = Some raw" "raw \<noteq> []" "some_differs p raw = Inr False" and plan: "plan = plan_for d [p] False resolvedAt"
    using assms by (auto simp: prepareNativeHttpsDestination_def capture d split: option.splits sum.splits bool.splits if_splits)
  obtain a where a: "ip_of_text p = Some a" "ci_scope c = scope_of_ip a" using classified_denotes [OF c] by blast
  have "ip_of_text v = Some a" if "v \<in> set raw" for v
    using some_differs_False [OF raw(3) that] classified_denotes a(1) by fastforce
  moreover have "scope_of_ip a = ScopePrivate \<or> tailnet_block a" using ok(3) a is_tailnet_block [OF c] by auto
  ultimately show ?thesis
    using raw ok(1) a(1) parseCanonicalHttpsDestination_Inr [OF d] by (auto simp: plan plan_for_def list_all_iff)
qed

section \<open>Concrete connections\<close>

definition web_host :: host where
  "web_host = sample_host\<lparr>url_hostname := \<lambda>t. Some (drop 8 t)\<rparr>"

definition sample_resolver :: resolver where
  "sample_resolver name = (if name = ''example.org'' then Some [''93.184.216.34''] else None)"

definition sample_plan :: pinned_https_plan where
  "sample_plan = \<lparr>hd_canonicalDestination = ''https://example.org:443'', hd_host = ''example.org'', hd_port = 443, hd_hostKind = HostDns,
     hp_pinnedAddresses = [''93.184.216.34''], hp_literalAddressException = False, hp_resolvedAt = ''2025-06-01T00:00:00.000Z''\<rparr>"

lemma sample_destination:
  "parseCanonicalHttpsDestination web_host ''https://example.org:443''
     = Inr \<lparr>hd_canonicalDestination = ''https://example.org:443'', hd_host = ''example.org'', hd_port = 443, hd_hostKind = HostDns\<rparr>"
proof -
  have "canonicalNetworkDestinationSchema web_host ''https://example.org:443''" by code_simp
  moreover have "match_https ''https://example.org:443'' = Some (''example.org'', ''443'')" by code_simp
  moreover have "\<not> is_ipv4 ''example.org''" "read_dec ''443'' = 443" by code_simp+
  ultimately show ?thesis by (simp add: parseCanonicalHttpsDestination_def canonicalIpv4_iff)
qed

lemma sample_address:
  "classifyIpAddress ''93.184.216.34'' = Inr \<lparr>ci_address = ''93.184.216.34'', ci_version = 4, ci_scope = ScopeGlobal\<rparr>"
proof -
  have "is_ipv4 ''93.184.216.34''" "ipv4_octets ''93.184.216.34'' = [93, 184, 216, 34]" by code_simp+
  then show ?thesis by (simp add: classifyIpAddress_ipv4 ipv4_scope_def)
qed

lemma canonical_now: "instant v \<Longrightarrow> now_pattern v \<Longrightarrow> requireCanonicalNow v = Inr v"
  by (auto simp: requireCanonicalNow_def instant_def split: option.splits)

lemma sample_prepared:
  "preparePinnedHttpsConnection web_host sample_resolver \<lparr>xe_exposesFinalDestination = True, xe_supportsPinnedTlsConnection = True\<rparr>
     ''https://example.org:443'' [''https://example.org:443''] ''2025-06-01T00:00:00.000Z'' = Inr sample_plan"
proof -
  have "instant ''2025-06-01T00:00:00.000Z''" by (simp add: date_eval)
  moreover have "now_pattern ''2025-06-01T00:00:00.000Z''" by code_simp
  ultimately have "requireCanonicalNow ''2025-06-01T00:00:00.000Z'' = Inr ''2025-06-01T00:00:00.000Z''"
    by (rule canonical_now)
  moreover have "canonicalNetworkDestinationSchema web_host ''https://example.org:443''" by code_simp
  ultimately show ?thesis
    by (simp add: preparePinnedHttpsConnection_def sample_destination allowed_list_ok_def sample_resolver_def sample_address pin_addresses_def
        plan_for_def sample_plan_def)
qed

theorem accepted_peer_is_public_witness:
  "\<exists>a. ip_of_text ''93.184.216.34'' = Some a \<and> (ip_of_text ''example.org'' = Some a \<or> scope_of_ip a = ScopeGlobal)"
proof -
  let ?e = "\<lparr>tp_connectedAddress = ''93.184.216.34'', tp_connectedPort = 443, tp_serverName = ''example.org'', tp_certificateHostnameVerified = True\<rparr>"
  have "is_ipv4 ''93.184.216.34''" by code_simp
  then have "verifyPinnedTlsPeer sample_plan ?e = Inr ()"
    by (simp add: verifyPinnedTlsPeer_def canonicalizeIpAddress_iff sample_plan_def)
  from accepted_peer_is_public [OF sample_prepared this] show ?thesis by (auto simp: sample_plan_def)
qed

lemma sample_ipv6_texts:
  "parse_ipv6 ''::FFFF:10.0.0.1'' = Some [0, 0, 0, 0, 0, 0xffff, 0xa00, 1]"
  "parse_ipv6 ''0:0:0:0:0:ffff:a00:1'' = Some [0, 0, 0, 0, 0, 0xffff, 0xa00, 1]"
proof -
  have groups: "any_hex_group ''FFFF''" "any_hex_group ''ffff''" "any_hex_group ''a00''" "any_hex_group ''0''" "any_hex_group ''1''"
    "\<not> any_hex_group ''10.0.0.1''" by code_simp+
  have numbers: "read_hex (map to_lower ''FFFF'') = 0xffff" "read_hex (map to_lower ''ffff'') = 0xffff" "read_hex (map to_lower ''a00'') = 0xa00"
    "read_hex (map to_lower ''0'') = 0" "read_hex (map to_lower ''1'') = 1"
    by (simp_all add: read_hex_def hex_value_def to_lower_def is_upper_def is_lower_def is_digit_def less_eq_char_def)
  have dotted: "is_ipv4 ''10.0.0.1''" "ipv4_octets ''10.0.0.1'' = [10, 0, 0, 1]" by code_simp+
  have split: "split_colons ''::FFFF:10.0.0.1'' = [[], ''FFFF:10.0.0.1'']" "split_colons ''0:0:0:0:0:ffff:a00:1'' = [''0:0:0:0:0:ffff:a00:1'']"
    by (simp_all add: starts_with_def)
  have fields: "colon_fields ''FFFF:10.0.0.1'' = [''FFFF'', ''10.0.0.1'']" "colon_fields [] = []"
    "colon_fields ''0:0:0:0:0:ffff:a00:1'' = [''0'', ''0'', ''0'', ''0'', ''0'', ''ffff'', ''a00'', ''1'']"
    by (simp_all add: colon_fields_def)
  have zeros: "replicate 5 (0::nat) = [0, 0, 0, 0, 0]" by (simp add: numeral_eq_Suc)
  show "parse_ipv6 ''::FFFF:10.0.0.1'' = Some [0, 0, 0, 0, 0, 0xffff, 0xa00, 1]"
    unfolding parse_ipv6_def split list.case fields read_groups.simps dotted(2) numbers using groups dotted(1) zeros by simp
  show "parse_ipv6 ''0:0:0:0:0:ffff:a00:1'' = Some [0, 0, 0, 0, 0, 0xffff, 0xa00, 1]"
    unfolding parse_ipv6_def split list.case fields read_groups.simps numbers using groups by simp
qed



end
