(* ===== verification/Admission_Store.thy ===== *)
theory Admission_Store
  imports Execution_Store Guarded_Store Node_Policy_Schemas
begin

text \<open>
  The durable admission store: \<open>src/node-policy/v1/admission-store.ts\<close>. The table of admissions and
  the table of messages are lists of rows; the uniqueness constraints the code relies on are the
  branches of the insertions. A column of JSON holds the value it encodes. Opening and closing the
  database file is not modelled.

  The theorems say that an operation is accepted at most once whatever is recorded, that what was
  recorded is read back by its message, and that recording is insensitive to redelivery.
\<close>

type_synonym admission_identity = execution_identity

section \<open>JSON values\<close>

fun local_denial_text :: "local_denial_detail \<Rightarrow> string" where
  "local_denial_text CeilingMissing = ''ceiling_missing''"
| "local_denial_text CeilingTampered = ''ceiling_tampered''"
| "local_denial_text CeilingRollback = ''ceiling_rollback''"
| "local_denial_text AuthorityInvalid = ''authority_invalid''"
| "local_denial_text AuthorityExpired = ''authority_expired''"
| "local_denial_text AuthorityNotYetValid = ''authority_not_yet_valid''"
| "local_denial_text ExecutorNotAllowed = ''executor_not_allowed''"
| "local_denial_text OperationNotAllowed = ''operation_not_allowed''"
| "local_denial_text CredentialNotAllowed = ''credential_not_allowed''"
| "local_denial_text FilesystemTargetNotAllowed = ''filesystem_target_not_allowed''"
| "local_denial_text NetworkDestinationNotAllowed = ''network_destination_not_allowed''"
| "local_denial_text RiskExceeded = ''risk_exceeded''"
| "local_denial_text EffectPolicyExceeded = ''effect_policy_exceeded''"
| "local_denial_text ApprovalMissing = ''approval_missing''"
| "local_denial_text ApprovalInvalid = ''approval_invalid''"
| "local_denial_text ApprovalExpired = ''approval_expired''"
| "local_denial_text DurationExceeded = ''duration_exceeded''"
| "local_denial_text CostUnmeasurable = ''cost_unmeasurable''"
| "local_denial_text CostExceeded = ''cost_exceeded''"
| "local_denial_text ConcurrencyExceeded = ''concurrency_exceeded''"
| "local_denial_text KeystoreUnavailable = ''keystore_unavailable''"
| "local_denial_text Paused = ''paused''"
| "local_denial_text EffectInProgress = ''effect_in_progress''"
| "local_denial_text EffectAmbiguous = ''effect_ambiguous''"
| "local_denial_text StorageUnavailable = ''storage_unavailable''"

fun wire_category_text :: "wire_denial_category \<Rightarrow> string" where
  "wire_category_text WirePolicy = ''policy''"
| "wire_category_text WireExpired = ''expired''"
| "wire_category_text WireApprovalRequired = ''approval_required''"
| "wire_category_text WireEffectInProgress = ''effect_in_progress''"
| "wire_category_text WireAmbiguous = ''ambiguous''"
| "wire_category_text WireMaintenance = ''maintenance''"
| "wire_category_text WireStorage = ''storage''"

definition decision_fields :: "decision_context \<Rightarrow> (string \<times> json) list" where
  "decision_fields d = [(''requestId'', JStr (dc_requestId d)), (''requestDigest'', JStr (dc_requestDigest d)),
     (''ceilingDigest'', JStr (dc_ceilingDigest d)), (''authorityDigest'', JStr (dc_authorityDigest d)),
     (''decidedAt'', JStr (dc_decidedAt d))]"

fun decision_json :: "local_policy_decision \<Rightarrow> json" where
  "decision_json (Accepted d) = JObj (decision_fields d @ [(''accepted'', JBool True)])"
| "decision_json (Denied d detail category) =
     JObj (decision_fields d @ [(''accepted'', JBool False), (''detail'', JStr (local_denial_text detail)),
       (''wireCategory'', JStr (wire_category_text category))])"

section \<open>The tables\<close>

datatype disposition = DispositionAccepted | DispositionRefused

fun disposition_of :: "local_policy_decision \<Rightarrow> disposition" where
  "disposition_of d = (if decision_accepted d then DispositionAccepted else DispositionRefused)"

record admission_input =
  ai_messageId :: string
  ai_identity :: admission_identity
  ai_decision :: local_policy_decision
  ai_recordedAt :: string

record admission_record = admission_input +
  ar_admissionId :: string
  ar_operationKey :: string
  ar_decisionDigest :: string
  ar_disposition :: disposition

record admission_row =
  aw_admissionId :: string
  aw_operationKey :: string
  aw_identity :: admission_identity
  aw_requestDigest :: string
  aw_ceilingDigest :: string
  aw_authorityDigest :: string
  aw_decisionDigest :: string
  aw_decision :: local_policy_decision
  aw_disposition :: disposition
  aw_recordedAt :: string

record admission_store =
  as_rows :: "admission_row list"
  as_messages :: "(string \<times> string) list"

definition empty_admission_store :: admission_store where
  "empty_admission_store = \<lparr>as_rows = [], as_messages = []\<rparr>"

datatype admission_error = AdmissionConflict | AdmissionThrown string

definition computeAdmissionOperationKey :: "host \<Rightarrow> admission_identity \<Rightarrow> string" where
  "computeAdmissionOperationKey h i = sha256Digest h (identity_json i)"

definition computeAdmissionIdFromDigests :: "host \<Rightarrow> admission_identity \<Rightarrow> string \<Rightarrow> string \<Rightarrow> string \<Rightarrow> string" where
  "computeAdmissionIdFromDigests h i requestDigest ceilingDigest authorityDigest =
     sha256Digest h (JObj [(''operationKey'', JStr (computeAdmissionOperationKey h i)), (''requestDigest'', JStr requestDigest),
       (''ceilingDigest'', JStr ceilingDigest), (''authorityDigest'', JStr authorityDigest)])"

definition computeAdmissionId :: "host \<Rightarrow> admission_identity \<Rightarrow> local_policy_decision \<Rightarrow> string" where
  "computeAdmissionId h i d =
     computeAdmissionIdFromDigests h i (dc_requestDigest (decision_of d)) (dc_ceilingDigest (decision_of d)) (dc_authorityDigest (decision_of d))"

definition message_row :: "admission_store \<Rightarrow> string \<Rightarrow> admission_row option" where
  "message_row st m =
     (case find (\<lambda>p. fst p = m) (as_messages st) of
        None \<Rightarrow> None | Some p \<Rightarrow> find (\<lambda>r. aw_admissionId r = snd p) (as_rows st))"

definition admission_row_of :: "host \<Rightarrow> admission_input \<Rightarrow> admission_row" where
  "admission_row_of h i =
     \<lparr>aw_admissionId = computeAdmissionId h (ai_identity i) (ai_decision i),
      aw_operationKey = computeAdmissionOperationKey h (ai_identity i), aw_identity = ai_identity i,
      aw_requestDigest = dc_requestDigest (decision_of (ai_decision i)),
      aw_ceilingDigest = dc_ceilingDigest (decision_of (ai_decision i)),
      aw_authorityDigest = dc_authorityDigest (decision_of (ai_decision i)),
      aw_decisionDigest = sha256Digest h (decision_json (ai_decision i)), aw_decision = ai_decision i,
      aw_disposition = disposition_of (ai_decision i), aw_recordedAt = ai_recordedAt i\<rparr>"

text \<open>The insertions with their constraints; \<open>local_admissions_one_accept\<close> is the partial unique index.\<close>

definition insert_admission :: "admission_row \<Rightarrow> admission_store \<Rightarrow> (admission_error, admission_store) result" where
  "insert_admission row st =
     (if list_ex (\<lambda>r. aw_admissionId r = aw_admissionId row) (as_rows st)
         \<or> list_ex (\<lambda>r. aw_operationKey r = aw_operationKey row \<and> aw_requestDigest r = aw_requestDigest row
              \<and> aw_ceilingDigest r = aw_ceilingDigest row \<and> aw_authorityDigest r = aw_authorityDigest row) (as_rows st)
      then Inl (AdmissionThrown ''UNIQUE constraint failed'')
      else if aw_disposition row = DispositionAccepted
         \<and> list_ex (\<lambda>r. aw_operationKey r = aw_operationKey row \<and> aw_disposition r = DispositionAccepted) (as_rows st)
      then Inl AdmissionConflict
      else Inr (st\<lparr>as_rows := as_rows st @ [row]\<rparr>))"

definition insert_message :: "string \<Rightarrow> string \<Rightarrow> admission_store \<Rightarrow> (admission_error, admission_store) result" where
  "insert_message m i st =
     (if list_ex (\<lambda>p. fst p = m) (as_messages st) then Inl (AdmissionThrown ''UNIQUE constraint failed'')
      else if \<not> list_ex (\<lambda>r. aw_admissionId r = i) (as_rows st) then Inl (AdmissionThrown ''FOREIGN KEY constraint failed'')
      else Inr (st\<lparr>as_messages := as_messages st @ [(m, i)]\<rparr>))"

section \<open>The operations\<close>

datatype record_disposition = Recorded | RecordDuplicate

definition admission_json :: "admission_input \<Rightarrow> json" where
  "admission_json i = JObj [(''messageId'', JStr (ai_messageId i)), (''identity'', identity_json (ai_identity i)),
     (''decision'', decision_json (ai_decision i))]"

definition record_admission :: "host \<Rightarrow> (admission_input, admission_store, admission_error, record_disposition) transaction" where
  "record_admission h i st =
     guard_result (localPolicyDecisionSchema h (ai_decision i)) (AdmissionThrown ''Invalid decision'') (
     bind_result (case assertNoSecretMaterial (admission_json i) ''local admission'' of
        Inl m \<Rightarrow> Inl (AdmissionThrown m) | Inr u \<Rightarrow> Inr u) (\<lambda>_.
     let row = admission_row_of h i in
     case message_row st (ai_messageId i) of
       Some prior \<Rightarrow>
         if aw_admissionId prior \<noteq> aw_admissionId row \<or> aw_decisionDigest prior \<noteq> aw_decisionDigest row
         then Inl AdmissionConflict else Inr (RecordDuplicate, st)
     | None \<Rightarrow>
         (case find (\<lambda>r. aw_admissionId r = aw_admissionId row) (as_rows st) of
            Some prior \<Rightarrow>
              if aw_decisionDigest prior \<noteq> aw_decisionDigest row then Inl AdmissionConflict
              else bind_result (insert_message (ai_messageId i) (aw_admissionId row) st) (\<lambda>st'. Inr (RecordDuplicate, st'))
          | None \<Rightarrow>
              guard_result (\<not> (aw_disposition row = DispositionAccepted
                  \<and> list_ex (\<lambda>r. aw_operationKey r = aw_operationKey row \<and> aw_disposition r = DispositionAccepted) (as_rows st)))
                AdmissionConflict (
              bind_result (insert_admission row st) (\<lambda>st1.
              bind_result (insert_message (ai_messageId i) (aw_admissionId row) st1) (\<lambda>st2. Inr (Recorded, st2)))))))"

definition fromRow :: "host \<Rightarrow> admission_row \<Rightarrow> string \<Rightarrow> (admission_error, admission_record) result" where
  "fromRow h row m =
     guard_result (localPolicyDecisionSchema h (aw_decision row)) (AdmissionThrown ''Invalid decision'') (
     guard_result (computeAdmissionOperationKey h (aw_identity row) = aw_operationKey row
         \<and> computeAdmissionId h (aw_identity row) (aw_decision row) = aw_admissionId row
         \<and> sha256Digest h (decision_json (aw_decision row)) = aw_decisionDigest row
         \<and> disposition_of (aw_decision row) = aw_disposition row) AdmissionConflict (
     Inr \<lparr>ai_messageId = m, ai_identity = aw_identity row, ai_decision = aw_decision row, ai_recordedAt = aw_recordedAt row,
          ar_admissionId = aw_admissionId row, ar_operationKey = aw_operationKey row,
          ar_decisionDigest = aw_decisionDigest row, ar_disposition = aw_disposition row\<rparr>))"

definition findByMessage :: "host \<Rightarrow> admission_store \<Rightarrow> string \<Rightarrow> (admission_error, admission_record option) result" where
  "findByMessage h st m =
     (case message_row st m of None \<Rightarrow> Inr None | Some row \<Rightarrow> bind_result (fromRow h row m) (\<lambda>r. Inr (Some r)))"

text \<open>\<open>ORDER BY m.message_id LIMIT 1\<close> over a left join: an admission without message gives \<open>String(null)\<close>.\<close>

definition first_message :: "admission_store \<Rightarrow> string \<Rightarrow> string" where
  "first_message st i =
     (case sort (map fst (filter (\<lambda>p. snd p = i) (as_messages st))) of [] \<Rightarrow> ''null'' | m # _ \<Rightarrow> m)"

definition findEquivalent ::
    "host \<Rightarrow> admission_store \<Rightarrow> admission_identity \<Rightarrow> string \<Rightarrow> string \<Rightarrow> string \<Rightarrow> (admission_error, admission_record option) result" where
  "findEquivalent h st i requestDigest ceilingDigest authorityDigest =
     (let admissionId = computeAdmissionIdFromDigests h i requestDigest ceilingDigest authorityDigest in
      case find (\<lambda>r. aw_admissionId r = admissionId) (as_rows st) of
        None \<Rightarrow> Inr None
      | Some row \<Rightarrow> bind_result (fromRow h row (first_message st admissionId)) (\<lambda>r. Inr (Some r)))"

definition admission_count :: "admission_store \<Rightarrow> nat" where
  "admission_count st = length (as_rows st)"

section \<open>The invariant\<close>

definition admission_row_ok :: "host \<Rightarrow> admission_row \<Rightarrow> bool" where
  "admission_row_ok h row \<longleftrightarrow> localPolicyDecisionSchema h (aw_decision row)
     \<and> (\<exists>i. row = admission_row_of h i)"

definition one_accept :: "admission_store \<Rightarrow> bool" where
  "one_accept st \<longleftrightarrow> (\<forall>r \<in> set (as_rows st). \<forall>s \<in> set (as_rows st).
     aw_disposition r = DispositionAccepted \<longrightarrow> aw_disposition s = DispositionAccepted \<longrightarrow>
     aw_operationKey r = aw_operationKey s \<longrightarrow> r = s)"

definition admission_inv :: "host \<Rightarrow> admission_store \<Rightarrow> bool" where
  "admission_inv h st \<longleftrightarrow> distinct (map aw_admissionId (as_rows st)) \<and> (\<forall>row \<in> set (as_rows st). admission_row_ok h row)
     \<and> one_accept st \<and> distinct (map fst (as_messages st))
     \<and> (\<forall>p \<in> set (as_messages st). snd p \<in> aw_admissionId ` set (as_rows st))"

lemma insert_admission_inv:
  assumes "admission_inv h st" and "insert_admission row st = Inr st'" and "admission_row_ok h row"
  shows "admission_inv h st'"
proof -
  have st': "st' = st\<lparr>as_rows := as_rows st @ [row]\<rparr>"
    and new: "aw_admissionId row \<notin> aw_admissionId ` set (as_rows st)"
    and acc: "aw_disposition row = DispositionAccepted \<Longrightarrow> r \<in> set (as_rows st) \<Longrightarrow>
      aw_disposition r = DispositionAccepted \<Longrightarrow> aw_operationKey r \<noteq> aw_operationKey row" for r
    using assms(2) by (auto simp: insert_admission_def list_ex_iff split: if_splits)
  have "one_accept st'"
    using assms(1) acc unfolding admission_inv_def one_accept_def st' by fastforce
  then show ?thesis using assms(1,3) new unfolding admission_inv_def st' by auto
qed

lemma insert_message_inv:
  assumes "admission_inv h st" and "insert_message m i st = Inr st'"
  shows "admission_inv h st'"
proof -
  have st': "st' = st\<lparr>as_messages := as_messages st @ [(m, i)]\<rparr>" and known: "m \<notin> fst ` set (as_messages st)" "i \<in> aw_admissionId ` set (as_rows st)"
    using assms(2) by (auto simp: insert_message_def list_ex_iff split: if_splits)
  show ?thesis using assms(1) known unfolding admission_inv_def one_accept_def st' by auto
qed

lemma record_admission_Inr:
  assumes "record_admission h i st = Inr (d, st')"
  shows "localPolicyDecisionSchema h (ai_decision i)
    \<and> ((\<exists>prior. message_row st (ai_messageId i) = Some prior \<and> aw_admissionId prior = computeAdmissionId h (ai_identity i) (ai_decision i)
          \<and> aw_decisionDigest prior = sha256Digest h (decision_json (ai_decision i)) \<and> d = RecordDuplicate \<and> st' = st)
      \<or> (\<exists>prior. message_row st (ai_messageId i) = None \<and> find (\<lambda>r. aw_admissionId r = computeAdmissionId h (ai_identity i) (ai_decision i)) (as_rows st) = Some prior
          \<and> aw_decisionDigest prior = sha256Digest h (decision_json (ai_decision i)) \<and> d = RecordDuplicate
          \<and> insert_message (ai_messageId i) (computeAdmissionId h (ai_identity i) (ai_decision i)) st = Inr st')
      \<or> (\<exists>st1. message_row st (ai_messageId i) = None \<and> d = Recorded \<and> insert_admission (admission_row_of h i) st = Inr st1
          \<and> insert_message (ai_messageId i) (computeAdmissionId h (ai_identity i) (ai_decision i)) st1 = Inr st'))"
  using assms by (auto simp: record_admission_def Let_def admission_row_of_def split: option.splits if_splits)

lemma record_admission_inv:
  assumes "admission_inv h st" and "record_admission h i st = Inr (d, st')"
  shows "admission_inv h st'"
proof -
  have ok: "admission_row_ok h (admission_row_of h i)"
    using record_admission_Inr [OF assms(2)] by (auto simp: admission_row_ok_def admission_row_of_def)
  from record_admission_Inr [OF assms(2)] show ?thesis
    using assms(1) insert_admission_inv [OF assms(1) _ ok] insert_message_inv by blast
qed

lemma fromRow_ok:
  assumes "admission_row_ok h row"
  shows "fromRow h row m = Inr \<lparr>ai_messageId = m, ai_identity = aw_identity row, ai_decision = aw_decision row,
    ai_recordedAt = aw_recordedAt row, ar_admissionId = aw_admissionId row, ar_operationKey = aw_operationKey row,
    ar_decisionDigest = aw_decisionDigest row, ar_disposition = aw_disposition row\<rparr>"
  using assms by (auto simp: admission_row_ok_def fromRow_def admission_row_of_def)

text \<open>Rows and messages are only ever appended, so a message keeps the row it was bound to.\<close>

lemma message_row_insert_message:
  assumes "insert_message m i st = Inr st'"
  shows "message_row st' n = (if n = m then find (\<lambda>r. aw_admissionId r = i) (as_rows st) else message_row st n)"
  using assms by (auto simp: insert_message_def message_row_def find_append list_ex_iff find_None_iff split: if_splits option.splits
      dest: find_SomeD)

lemma message_row_insert_admission:
  "insert_admission row st = Inr st' \<Longrightarrow> message_row st m = Some r \<Longrightarrow> message_row st' m = Some r"
  by (auto simp: insert_admission_def message_row_def find_append split: if_splits option.splits)

lemma message_row_stable:
  assumes "record_admission h i st = Inr (d, st')" and "message_row st m = Some r"
  shows "message_row st' m = Some r"
proof (cases "m = ai_messageId i")
  case True
  then show ?thesis using record_admission_Inr [OF assms(1)] assms(2) by auto
next
  case False
  then have keep: "message_row t' m = message_row t m" if "insert_message (ai_messageId i) k t = Inr t'" for k t t'
    using message_row_insert_message [OF that] by simp
  from record_admission_Inr [OF assms(1)] show ?thesis
    using assms(2) keep message_row_insert_admission [OF _ assms(2)] by (elim conjE disjE exE) simp_all
qed

lemma message_row_run:
  "message_row st m = Some r \<Longrightarrow> message_row (run_commands (record_admission h) cs st) m = Some r"
proof (induction cs arbitrary: st)
  case (Cons c cs)
  then show ?case using message_row_stable [of h c st _ _ m r] by (cases "record_admission h c st") (auto simp: committed_def)
qed simp

lemma recorded_message_row:
  assumes "admission_inv h st" and "record_admission h i st = Inr (d, st')"
  obtains row where "message_row st' (ai_messageId i) = Some row"
    "aw_admissionId row = computeAdmissionId h (ai_identity i) (ai_decision i)"
    "aw_decisionDigest row = sha256Digest h (decision_json (ai_decision i))"
    "d = Recorded \<Longrightarrow> row = admission_row_of h i"
proof -
  let ?id = "computeAdmissionId h (ai_identity i) (ai_decision i)"
  consider (message) prior where "message_row st (ai_messageId i) = Some prior" "aw_admissionId prior = ?id"
      "aw_decisionDigest prior = sha256Digest h (decision_json (ai_decision i))" "d = RecordDuplicate" "st' = st"
    | (admission) prior where "find (\<lambda>r. aw_admissionId r = ?id) (as_rows st) = Some prior"
      "aw_decisionDigest prior = sha256Digest h (decision_json (ai_decision i))" "d = RecordDuplicate"
      "insert_message (ai_messageId i) ?id st = Inr st'"
    | (fresh) st1 where "insert_admission (admission_row_of h i) st = Inr st1" "insert_message (ai_messageId i) ?id st1 = Inr st'"
    using record_admission_Inr [OF assms(2)] by blast
  then show thesis
  proof cases
    case message
    then show thesis using that by simp
  next
    case admission
    then show thesis using that message_row_insert_message find_SomeD by fastforce
  next
    case fresh
    have "find (\<lambda>r. aw_admissionId r = ?id) (as_rows st1) = Some (admission_row_of h i)"
      using fresh(1) by (auto simp: insert_admission_def find_append find_None_iff list_ex_iff admission_row_of_def
          split: if_splits option.splits dest!: find_SomeD)
    then show thesis using that message_row_insert_message [OF fresh(2)] by (simp add: admission_row_of_def)
  qed
qed

lemma record_admission_repeat:
  assumes "admission_inv h st" and "record_admission h i st = Inr (d, st')"
  shows "record_admission h i st' = Inr (RecordDuplicate, st')"
proof -
  obtain row where "message_row st' (ai_messageId i) = Some row"
    "aw_admissionId row = computeAdmissionId h (ai_identity i) (ai_decision i)"
    "aw_decisionDigest row = sha256Digest h (decision_json (ai_decision i))"
    using recorded_message_row [OF assms] by metis
  moreover have "localPolicyDecisionSchema h (ai_decision i)" "\<exists>u. assertNoSecretMaterial (admission_json i) ''local admission'' = Inr u"
    using assms(2) by (auto simp: record_admission_def split: sum.splits)
  ultimately show ?thesis by (auto simp: record_admission_def admission_row_of_def)
qed

interpretation admissions: retry_safe_store "record_admission h" empty_admission_store "admission_inv h" for h
proof
  show "admission_inv h empty_admission_store"
    by (simp add: admission_inv_def one_accept_def empty_admission_store_def)
  show "admission_inv h st \<Longrightarrow> record_admission h c st = Inr (a, st') \<Longrightarrow> admission_inv h st'" for st c a st'
    by (rule record_admission_inv)
  show "admission_inv h st \<Longrightarrow> record_admission h c st = Inr (a, st') \<Longrightarrow> \<exists>b. record_admission h c st' = Inr (b, st')" for st c a st'
    using record_admission_repeat by blast
qed

section \<open>What the store guarantees\<close>

text \<open>
  C35. An operation is admitted at most once: whatever sequence of inputs is recorded, two accepted
  admissions of the store that name the same identity (tenant, node, project, job, attempt and
  operation) are one and the same row.
\<close>

theorem operation_admitted_once:
  assumes "r \<in> set (as_rows (run_commands (record_admission h) inputs empty_admission_store))"
    and "s \<in> set (as_rows (run_commands (record_admission h) inputs empty_admission_store))"
    and "decision_accepted (aw_decision r)" and "decision_accepted (aw_decision s)" and "aw_identity r = aw_identity s"
  shows "r = s"
proof -
  have inv: "admission_inv h (run_commands (record_admission h) inputs empty_admission_store)" by (rule admissions.run_inv)
  then have "admission_row_ok h r" "admission_row_ok h s" using assms(1,2) unfolding admission_inv_def by blast+
  then have "aw_disposition r = DispositionAccepted" "aw_disposition s = DispositionAccepted" "aw_operationKey r = aw_operationKey s"
    using assms(3-5) by (auto simp: admission_row_ok_def admission_row_of_def)
  then show ?thesis using inv assms(1,2) unfolding admission_inv_def one_accept_def by blast
qed

text \<open>
  What was recorded is found again: after an input was recorded, and whatever is recorded later,
  looking up its message succeeds with an admission of the same identifier and decision digest; when
  the input was new, it is returned with exactly the identity, decision and time it was recorded with.
\<close>

lemma recorded_is_found:
  assumes "record_admission h i (run_commands (record_admission h) earlier empty_admission_store) = Inr (d, st)"
  shows "\<exists>r. findByMessage h (run_commands (record_admission h) later st) (ai_messageId i) = Inr (Some r)
    \<and> ai_messageId r = ai_messageId i \<and> ar_admissionId r = computeAdmissionId h (ai_identity i) (ai_decision i)
    \<and> ar_decisionDigest r = sha256Digest h (decision_json (ai_decision i))
    \<and> (d = Recorded \<longrightarrow> ai_identity r = ai_identity i \<and> ai_decision r = ai_decision i \<and> ai_recordedAt r = ai_recordedAt i)"
proof -
  have inv: "admission_inv h (run_commands (record_admission h) earlier empty_admission_store)" by (rule admissions.run_inv)
  obtain row where row: "message_row st (ai_messageId i) = Some row"
    "aw_admissionId row = computeAdmissionId h (ai_identity i) (ai_decision i)"
    "aw_decisionDigest row = sha256Digest h (decision_json (ai_decision i))" "d = Recorded \<Longrightarrow> row = admission_row_of h i"
    using recorded_message_row [OF inv assms] by metis
  have "row \<in> set (as_rows st)" using row(1) by (auto simp: message_row_def split: option.splits dest: find_SomeD)
  then have ok: "admission_row_ok h row" using record_admission_inv [OF inv assms] unfolding admission_inv_def by blast
  show ?thesis
    using message_row_run [OF row(1), of h later] row(2-4) fromRow_ok [OF ok]
    by (auto simp: findByMessage_def admission_row_of_def)
qed

section \<open>Witnesses\<close>

definition sample_admission :: admission_input where
  "sample_admission = \<lparr>ai_messageId = ''message:1'', ai_identity = xn_identity sample_creation,
     ai_decision = Accepted \<lparr>dc_requestId = ''request:1'', dc_requestDigest = sample_digest CHR ''0'',
       dc_ceilingDigest = sample_digest CHR ''1'', dc_authorityDigest = sample_digest CHR ''2'',
       dc_decidedAt = ''2025-06-01T00:10:00.000Z''\<rparr>,
     ai_recordedAt = ''2025-06-01T00:10:00.000Z''\<rparr>"

lemma sample_admission_texts:
  "list_all (\<lambda>t. \<not> secret_text t)
    [''message:1'', ''tenant:1'', ''node:1'', ''project:1'', ''job:1'', ''attempt:1'', ''digest:1'', ''request:1'',
     sample_digest CHR ''0'', sample_digest CHR ''1'', sample_digest CHR ''2'', ''2025-06-01T00:10:00.000Z'']"
  by (rule plain_texts_clean) code_simp

lemma sample_admission_keys:
  "list_all (\<lambda>k. \<not> keyCarriesSecret k)
    [''messageId'', ''identity'', ''tenantId'', ''nodeId'', ''projectId'', ''jobId'', ''attemptId'', ''operationDigest'', ''decision'',
     ''requestId'', ''requestDigest'', ''ceilingDigest'', ''authorityDigest'', ''decidedAt'', ''accepted'']"
  by (rule plain_keys_clean) code_simp

lemma sample_admission_clean: "assertNoSecretMaterial (admission_json sample_admission) l = Inr ()"
  using sample_admission_texts sample_admission_keys
  by (simp add: assertNoSecretMaterial_def containsSecretMaterial_def admission_json_def sample_admission_def identity_json_def
      sample_creation_def decision_fields_def)

lemma sample_admission_schema: "localPolicyDecisionSchema sample_host (ai_decision sample_admission)"
  by (simp add: sample_admission_def localPolicyDecisionSchema_def decisionBase_def)
    code_simp

definition sample_admission_store :: admission_store where
  "sample_admission_store = \<lparr>as_rows = [admission_row_of sample_host sample_admission],
     as_messages = [(''message:1'', computeAdmissionId sample_host (ai_identity sample_admission) (ai_decision sample_admission))]\<rparr>"

lemma sample_admission_recorded:
  "record_admission sample_host sample_admission empty_admission_store = Inr (Recorded, sample_admission_store)"
  by (simp add: record_admission_def sample_admission_schema sample_admission_clean Let_def message_row_def empty_admission_store_def
      insert_admission_def insert_message_def sample_admission_store_def)
    (simp add: admission_row_of_def sample_admission_def)

theorem operation_admitted_once_witness:
  "as_rows (run_commands (record_admission sample_host) [sample_admission, sample_admission] empty_admission_store)
     = [admission_row_of sample_host sample_admission]
   \<and> hd (as_rows (run_commands (record_admission sample_host) [sample_admission, sample_admission] empty_admission_store))
     = admission_row_of sample_host sample_admission"
proof -
  have rows: "as_rows (run_commands (record_admission sample_host) [sample_admission, sample_admission] empty_admission_store)
      = [admission_row_of sample_host sample_admission]" (is "?rows = _")
    using sample_admission_recorded admissions.committed_repeat [OF admissions.initial_inv, of sample_host sample_admission]
    by (simp add: sample_admission_store_def)
  have acc: "decision_accepted (aw_decision (admission_row_of sample_host sample_admission))"
    by (simp add: admission_row_of_def sample_admission_def)
  have "hd ?rows = admission_row_of sample_host sample_admission"
    by (rule operation_admitted_once [where h = sample_host and inputs = "[sample_admission, sample_admission]"])
      (use acc rows in \<open>simp_all del: run_commands.simps\<close>)
  then show ?thesis using rows by blast
qed

end
