(* ===== verification/Safe_Responses.thy ===== *)
theory Safe_Responses
  imports Admission_Store
begin

text \<open>
  What leaves the node when something is refused: \<open>src/security/safe-error.ts\<close> and
  \<open>src/node-policy/v1/denial-receipt.ts\<close>. An error is either one of the program's own operational errors
  or anything else; the lemmas say that a response never carries the text of an error, only a message
  fixed by its code and a correlation identifier of the safe alphabet, and that a denial receipt
  reveals of a decision only its wire category.
\<close>

section \<open>Safe errors\<close>

datatype safe_error_code = InvalidRequest | Forbidden | NotFound | Conflict | TemporarilyUnavailable | InternalError

fun safeMessages :: "safe_error_code \<Rightarrow> string" where
  "safeMessages InvalidRequest = ''The request is invalid.''"
| "safeMessages Forbidden = ''The operation is not permitted.''"
| "safeMessages NotFound = ''The requested resource was not found.''"
| "safeMessages Conflict = ''The operation conflicts with the current state.''"
| "safeMessages TemporarilyUnavailable = ''The service is temporarily unavailable.''"
| "safeMessages InternalError = ''The operation could not be completed safely.''"

definition correlation_pattern :: "string \<Rightarrow> bool" where
  "correlation_pattern v \<longleftrightarrow> safe_id_pattern v \<and> length v \<le> 128"

definition safeCorrelationId :: "string option \<Rightarrow> string option" where
  "safeCorrelationId v = (if truthy_text v \<and> correlation_pattern (the v) then v else None)"

record safe_operational_error =
  soe_code :: safe_error_code
  soe_message :: string
  soe_correlationId :: "string option"

definition SafeOperationalError :: "safe_error_code \<Rightarrow> string option \<Rightarrow> safe_operational_error" where
  "SafeOperationalError code correlationId =
     \<lparr>soe_code = code, soe_message = safeMessages code, soe_correlationId = safeCorrelationId correlationId\<rparr>"

datatype raised = Operational safe_operational_error | Other string

record safe_error_response =
  ser_code :: safe_error_code
  ser_message :: string
  ser_correlationId :: "string option"

definition safeErrorResponse :: "raised \<Rightarrow> string option \<Rightarrow> safe_error_response" where
  "safeErrorResponse e correlationId =
     (case e of
        Operational x \<Rightarrow> \<lparr>ser_code = soe_code x, ser_message = safeMessages (soe_code x),
          ser_correlationId = (if truthy_text (soe_correlationId x) then soe_correlationId x else None)\<rparr>
      | Other text \<Rightarrow> \<lparr>ser_code = InternalError, ser_message = safeMessages InternalError,
          ser_correlationId = safeCorrelationId correlationId\<rparr>)"

lemma safeCorrelationId_safe: "safeCorrelationId v = Some i \<Longrightarrow> correlation_pattern i"
  by (auto simp: safeCorrelationId_def split: if_splits)

lemma safe_response_message: "ser_message (safeErrorResponse e v) = safeMessages (ser_code (safeErrorResponse e v))"
  by (cases e) (simp_all add: safeErrorResponse_def)

lemma safe_response_hides_cause: "safeErrorResponse (Other a) v = safeErrorResponse (Other b) v"
  by (simp add: safeErrorResponse_def)

lemma safe_response_correlation:
  assumes "e = Operational (SafeOperationalError code c) \<or> (\<exists>t. e = Other t)" and "ser_correlationId (safeErrorResponse e v) = Some i"
  shows "correlation_pattern i"
  using assms safeCorrelationId_safe by (auto simp: safeErrorResponse_def SafeOperationalError_def split: if_splits)

section \<open>Denial receipts\<close>

record denial_references =
  dr_receiptId :: string
  dr_relatedMessageId :: string
  dr_jobId :: string
  dr_attemptId :: string
  dr_occurredAt :: string

definition receipt_json :: "wire_denial_receipt \<Rightarrow> json" where
  "receipt_json r = JObj [(''contractVersion'', JStr (wr_contractVersion r)), (''receiptId'', JStr (wr_receiptId r)),
     (''relatedMessageId'', JStr (wr_relatedMessageId r)), (''jobId'', JStr (wr_jobId r)), (''attemptId'', JStr (wr_attemptId r)),
     (''occurredAt'', JStr (wr_occurredAt r)), (''category'', JStr (wire_category_text (wr_category r)))]"

definition denial_receipt :: "wire_denial_category \<Rightarrow> denial_references \<Rightarrow> wire_denial_receipt" where
  "denial_receipt category r = \<lparr>wr_contractVersion = NODE_POLICY_CONTRACT_V1, wr_receiptId = dr_receiptId r,
     wr_relatedMessageId = dr_relatedMessageId r, wr_jobId = dr_jobId r, wr_attemptId = dr_attemptId r,
     wr_category = category, wr_occurredAt = dr_occurredAt r\<rparr>"

text \<open>Only refusals have a wire category; the type of the source admits no other decision.\<close>

definition buildWireDenialReceipt ::
    "host \<Rightarrow> local_policy_decision \<Rightarrow> denial_references \<Rightarrow> (string, wire_denial_receipt) result" where
  "buildWireDenialReceipt h decision references =
     (let receipt = denial_receipt (denial_category decision) references in
      if \<not> wireDenialReceiptSchema h receipt then Inl ''Wire denial receipt references are invalid''
      else bind_result (assertNoSecretMaterial (receipt_json receipt) ''wire denial receipt'') (\<lambda>_. Inr receipt))"

lemma receipt_reveals_category_only:
  "denial_category d = denial_category e \<Longrightarrow> buildWireDenialReceipt h d references = buildWireDenialReceipt h e references"
  by (simp add: buildWireDenialReceipt_def)

lemma receipt_clean:
  assumes "buildWireDenialReceipt h d references = Inr r"
  shows "wireDenialReceiptSchema h r \<and> containsSecretMaterial (receipt_json r) = [] \<and> wr_category r = denial_category d"
  using assms by (auto simp: buildWireDenialReceipt_def Let_def assertNoSecretMaterial_def denial_receipt_def split: if_splits)

end
