(* ===== verification/Access_Policy.thy ===== *)
theory Access_Policy
  imports Domain_Model Js_Date
begin

text \<open>
  The role-based decision on an operator's request: \<open>src/security/policy.ts\<close>. An unparseable date is
  \<open>NaN\<close> in the code: it compares as false, which the comparisons on options reproduce.

  The main theorem says exactly when a request is allowed.
\<close>

datatype principal_kind = HumanPrincipal | AgentPrincipal | ServicePrincipal | NodePrincipal
datatype factor_method = Webauthn | Passkey | RecoveryFactor

record strong_factor =
  sf_evidenceId :: string
  sf_method :: factor_method
  sf_verifiedAt :: string
  sf_expiresAt :: string

record authenticated_principal =
  pr_tenantId :: string
  pr_identityId :: string
  pr_actorType :: principal_kind
  pr_authenticatedAt :: string
  pr_expiresAt :: string
  pr_strongFactor :: "strong_factor option"

record role_grant =
  rg_id :: string
  rg_allowedActions :: "string list"
  rg_projectIds :: "string list"
  rg_riskCeiling :: risk_class
  rg_allowExternalEffects :: bool
  rg_requireStrongFactor :: bool
  rg_expiresAt :: "string option"
  rg_revokedAt :: "string option"

record authorization_request =
  az_tenantId :: string
  az_action :: string
  az_resourceType :: string
  az_resourceId :: string
  az_projectId :: "string option"
  az_risk :: risk_class
  az_externalEffect :: bool
  az_occurredAt :: string

record policy_decision =
  pd_allowed :: bool
  pd_reasonCodes :: "string list"
  pd_matchedGrantIds :: "string list"
  pd_requestDigest :: string
  pd_strongFactorEvidenceId :: "string option"

fun risk_rank :: "risk_class \<Rightarrow> nat" where
  "risk_rank Low = 0"
| "risk_rank Medium = 1"
| "risk_rank High = 2"
| "risk_rank Critical = 3"

fun risk_word :: "risk_class \<Rightarrow> string" where
  "risk_word Low = ''low''"
| "risk_word Medium = ''medium''"
| "risk_word High = ''high''"
| "risk_word Critical = ''critical''"

definition request_digest_fields :: "authorization_request \<Rightarrow> (string \<times> json) list" where
  "request_digest_fields r = [(''tenantId'', JStr (az_tenantId r)), (''action'', JStr (az_action r)),
     (''resourceType'', JStr (az_resourceType r)), (''resourceId'', JStr (az_resourceId r))]
     @ opt_field ''projectId'' JStr (az_projectId r)
     @ [(''risk'', JStr (risk_word (az_risk r))), (''externalEffect'', JBool (az_externalEffect r)), (''occurredAt'', JStr (az_occurredAt r))]"

definition actionAllowed :: "string list \<Rightarrow> string \<Rightarrow> bool" where
  "actionAllowed actions requested \<longleftrightarrow> ''*'' \<in> set actions \<or> requested \<in> set actions"

definition request_reasons :: "authenticated_principal \<Rightarrow> authorization_request \<Rightarrow> string list" where
  "request_reasons p r =
     (let requestTime = date_parse (az_occurredAt r); authenticatedTime = date_parse (pr_authenticatedAt p);
          sessionExpiry = date_parse (pr_expiresAt p)
      in (if \<not> list_all (\<lambda>t. t \<noteq> None) [requestTime, authenticatedTime, sessionExpiry] then [''invalid_timestamp''] else [])
       @ (if pr_tenantId p \<noteq> az_tenantId r then [''tenant_mismatch''] else [])
       @ (if ms_leq sessionExpiry requestTime then [''session_expired''] else [])
       @ (if ms_less requestTime authenticatedTime then [''authentication_from_future''] else []))"

text \<open>A revocation or expiry that is present must parse and lie in the future.\<close>

definition lapsed :: "string option \<Rightarrow> int option \<Rightarrow> bool" where
  "lapsed v requestTime \<longleftrightarrow> truthy_text v \<and> (date_parse (the v) = None \<or> ms_leq (date_parse (the v)) requestTime)"

definition grant_matches :: "authorization_request \<Rightarrow> role_grant \<Rightarrow> bool" where
  "grant_matches r g \<longleftrightarrow>
     \<not> lapsed (rg_revokedAt g) (date_parse (az_occurredAt r)) \<and> \<not> lapsed (rg_expiresAt g) (date_parse (az_occurredAt r))
     \<and> actionAllowed (rg_allowedActions g) (az_action r)
     \<and> \<not> (truthy_text (az_projectId r) \<and> ''*'' \<notin> set (rg_projectIds g) \<and> the (az_projectId r) \<notin> set (rg_projectIds g))
     \<and> \<not> risk_rank (az_risk r) > risk_rank (rg_riskCeiling g)
     \<and> \<not> (az_externalEffect r \<and> \<not> rg_allowExternalEffects g)"

definition strongFactorValid :: "authenticated_principal \<Rightarrow> authorization_request \<Rightarrow> bool" where
  "strongFactorValid p r \<longleftrightarrow>
     (case pr_strongFactor p of None \<Rightarrow> False | Some f \<Rightarrow>
        date_parse (sf_verifiedAt f) \<noteq> None \<and> date_parse (sf_expiresAt f) \<noteq> None
        \<and> ms_leq (date_parse (sf_verifiedAt f)) (date_parse (az_occurredAt r))
        \<and> ms_less (date_parse (az_occurredAt r)) (date_parse (sf_expiresAt f)))"

definition evaluatePolicy ::
    "host \<Rightarrow> authenticated_principal \<Rightarrow> role_grant list \<Rightarrow> authorization_request \<Rightarrow> policy_decision" where
  "evaluatePolicy h p grants r =
     (let first = request_reasons p r;
          eligible = (if first \<noteq> [] then [] else filter (grant_matches r) grants);
          second = first @ (if eligible = [] \<and> first = [] then [''no_matching_grant''] else []);
          needsStrongFactor = (az_externalEffect r \<and> az_risk r \<in> {High, Critical} \<or> list_ex rg_requireStrongFactor eligible);
          reasons = second @ (if eligible \<noteq> [] \<and> needsStrongFactor \<and> \<not> strongFactorValid p r then [''strong_factor_required''] else [])
      in \<lparr>pd_allowed = (reasons = [] \<and> eligible \<noteq> []), pd_reasonCodes = (if reasons \<noteq> [] then reasons else [''allowed'']),
          pd_matchedGrantIds = sort (map rg_id eligible), pd_requestDigest = sha256Digest h (JObj (request_digest_fields r)),
          pd_strongFactorEvidenceId = (if strongFactorValid p r then map_option sf_evidenceId (pr_strongFactor p) else None)\<rparr>)"


section \<open>When a request is allowed\<close>

text \<open>
  The specification: a session of the request's tenant that covers the time of the request, and a grant
  in force that covers it.
\<close>

definition session_covers :: "authenticated_principal \<Rightarrow> authorization_request \<Rightarrow> bool" where
  "session_covers p r \<longleftrightarrow> pr_tenantId p = az_tenantId r
     \<and> (\<exists>t a e. date_parse (az_occurredAt r) = Some t \<and> date_parse (pr_authenticatedAt p) = Some a
          \<and> date_parse (pr_expiresAt p) = Some e \<and> a \<le> t \<and> t < e)"

definition in_force :: "string option \<Rightarrow> authorization_request \<Rightarrow> bool" where
  "in_force v r \<longleftrightarrow> v \<in> {None, Some []}
     \<or> (\<exists>s t e. v = Some s \<and> date_parse s = Some e \<and> date_parse (az_occurredAt r) = Some t \<and> t < e)"

definition grant_covers :: "authorization_request \<Rightarrow> role_grant \<Rightarrow> bool" where
  "grant_covers r g \<longleftrightarrow> in_force (rg_revokedAt g) r \<and> in_force (rg_expiresAt g) r
     \<and> {''*'', az_action r} \<inter> set (rg_allowedActions g) \<noteq> {}
     \<and> (az_projectId r \<in> {None, Some []} \<or> {''*'', the (az_projectId r)} \<inter> set (rg_projectIds g) \<noteq> {})
     \<and> risk_rank (az_risk r) \<le> risk_rank (rg_riskCeiling g) \<and> (az_externalEffect r \<longrightarrow> rg_allowExternalEffects g)"

definition fresh_factor :: "authenticated_principal \<Rightarrow> authorization_request \<Rightarrow> bool" where
  "fresh_factor p r \<longleftrightarrow> (\<exists>f t v e. pr_strongFactor p = Some f \<and> date_parse (az_occurredAt r) = Some t
     \<and> date_parse (sf_verifiedAt f) = Some v \<and> date_parse (sf_expiresAt f) = Some e \<and> v \<le> t \<and> t < e)"

lemma request_reasons_Nil: "request_reasons p r = [] \<longleftrightarrow> session_covers p r"
  by (cases "date_parse (az_occurredAt r)"; cases "date_parse (pr_authenticatedAt p)"; cases "date_parse (pr_expiresAt p)")
    (auto simp: request_reasons_def session_covers_def Let_def)

lemma lapsed_iff: "date_parse (az_occurredAt r) = Some t \<Longrightarrow> \<not> lapsed v (date_parse (az_occurredAt r)) \<longleftrightarrow> in_force v r"
  by (cases v; cases "date_parse (the v)") (auto simp: lapsed_def in_force_def)

lemma grant_matches_iff: "session_covers p r \<Longrightarrow> grant_matches r g \<longleftrightarrow> grant_covers r g"
proof -
  assume "session_covers p r"
  then obtain t where t: "date_parse (az_occurredAt r) = Some t" by (auto simp: session_covers_def)
  show ?thesis
    unfolding grant_matches_def grant_covers_def lapsed_iff [OF t] actionAllowed_def
    by (cases "az_projectId r") auto
qed

lemma strongFactorValid_iff: "strongFactorValid p r \<longleftrightarrow> fresh_factor p r"
  by (cases "pr_strongFactor p") (auto simp: strongFactorValid_def fresh_factor_def ms_less_iff ms_leq_def split: option.splits)

text \<open>
  C40. The role policy is exact: a request is allowed if and only if the session belongs to the request's
  tenant and covers its time, some grant in force covers its action, project, risk and effect, and, when
  the request is an external effect of high or critical risk or any covering grant demands it, a strong
  factor was verified before the request and has not expired. The reported grants are the covering ones.
\<close>

theorem evaluatePolicy_exact:
  "(pd_allowed (evaluatePolicy h p grants r) \<longleftrightarrow>
      session_covers p r \<and> filter (grant_covers r) grants \<noteq> []
      \<and> (if az_externalEffect r \<and> az_risk r \<in> {High, Critical} \<or> list_ex rg_requireStrongFactor (filter (grant_covers r) grants)
         then fresh_factor p r else True))
   \<and> pd_matchedGrantIds (evaluatePolicy h p grants r) = (if session_covers p r then sort (map rg_id (filter (grant_covers r) grants)) else [])"
proof (cases "session_covers p r")
  case True
  then have "grant_matches r = grant_covers r" using grant_matches_iff by blast
  moreover have "request_reasons p r = []" using True by (simp add: request_reasons_Nil)
  ultimately show ?thesis using True by (auto simp: evaluatePolicy_def Let_def strongFactorValid_iff)
next
  case False
  then have "request_reasons p r \<noteq> []" by (simp add: request_reasons_Nil)
  with False show ?thesis by (simp add: evaluatePolicy_def Let_def)
qed

end
