(* ===== verification/Rollback_Checkpoint.thy ===== *)
theory Rollback_Checkpoint
  imports Canonical_Json Guarded_Store
begin

text \<open>
  The rollback checkpoint and its in-memory reference store: \<open>src/security/rollback-checkpoint.ts\<close>. A
  value that has exactly the six data properties of a checkpoint is a record; every other value is
  refused before its fields are looked at. Binding the operations to the repository's own class is not
  modelled: it concerns prototypes of live objects.

  The theorem says that no sequence of operations moves a scope back.
\<close>

definition ROLLBACK_CHECKPOINT_SCHEMA_V1 :: string where
  "ROLLBACK_CHECKPOINT_SCHEMA_V1 = ''control-room-rollback-checkpoint/v1''"

record rollback_checkpoint =
  ck_schema :: string
  ck_scope :: string
  ck_revision :: jsnum
  ck_recordCount :: jsnum
  ck_stateDigest :: string
  ck_stateAuthTag :: string

definition hmac_pattern :: "string \<Rightarrow> bool" where
  "hmac_pattern s \<longleftrightarrow> take 12 s = ''hmac-sha256:'' \<and> length s = 76 \<and> list_all is_hex (drop 12 s)"

definition valid_checkpoint :: "rollback_checkpoint \<Rightarrow> bool" where
  "valid_checkpoint c \<longleftrightarrow> ck_schema c = ROLLBACK_CHECKPOINT_SCHEMA_V1 \<and> 3 \<le> length (ck_scope c) \<and> length (ck_scope c) \<le> 240
     \<and> is_safe_integer (ck_revision c) \<and> \<not> num_lt (ck_revision c) (Fin 1)
     \<and> is_safe_integer (ck_recordCount c) \<and> \<not> num_lt (ck_recordCount c) (Fin 0)
     \<and> digest_pattern (ck_stateDigest c) \<and> hmac_pattern (ck_stateAuthTag c)"

datatype checkpoint_error = CheckpointInvalid | CheckpointConflict

definition parseRollbackCheckpointV1 :: "rollback_checkpoint \<Rightarrow> (checkpoint_error, rollback_checkpoint) result" where
  "parseRollbackCheckpointV1 c = (if valid_checkpoint c then Inr c else Inl CheckpointInvalid)"

definition checkpoint_json :: "rollback_checkpoint \<Rightarrow> json" where
  "checkpoint_json c = JObj [(''schema'', JStr (ck_schema c)), (''scope'', JStr (ck_scope c)),
     (''revision'', JNum (num_value (ck_revision c))), (''recordCount'', JNum (num_value (ck_recordCount c))),
     (''stateDigest'', JStr (ck_stateDigest c)), (''stateAuthTag'', JStr (ck_stateAuthTag c))]"

definition rollbackCheckpointDigestV1 :: "host \<Rightarrow> rollback_checkpoint \<Rightarrow> (checkpoint_error, string) result" where
  "rollbackCheckpointDigestV1 h c = bind_result (parseRollbackCheckpointV1 c) (\<lambda>c. Inr (sha256Digest h (checkpoint_json c)))"

type_synonym checkpoint_store = "string \<rightharpoonup> rollback_checkpoint"

definition checkpoint_read :: "checkpoint_store \<Rightarrow> string \<Rightarrow> rollback_checkpoint option" where
  "checkpoint_read st scope = st scope"

definition initialize :: "rollback_checkpoint \<Rightarrow> checkpoint_store \<Rightarrow> (checkpoint_error, checkpoint_store) result" where
  "initialize v st =
     bind_result (parseRollbackCheckpointV1 v) (\<lambda>c.
     if st (ck_scope c) \<noteq> None \<or> \<not> num_eq (ck_revision c) (Fin 1) then Inl CheckpointConflict
     else Inr (st(ck_scope c \<mapsto> c)))"

text \<open>Revisions are safe integers, so the successor the code computes is exact.\<close>

definition successor :: "jsnum \<Rightarrow> jsnum" where
  "successor n = Fin (num_value n + 1)"

definition advance :: "host \<Rightarrow> string \<Rightarrow> rollback_checkpoint \<Rightarrow> checkpoint_store \<Rightarrow> (checkpoint_error, checkpoint_store) result" where
  "advance h expected v st =
     bind_result (parseRollbackCheckpointV1 v) (\<lambda>c.
     case st (ck_scope c) of
       None \<Rightarrow> Inl CheckpointConflict
     | Some current \<Rightarrow>
         bind_result (rollbackCheckpointDigestV1 h current) (\<lambda>digest.
         if digest \<noteq> expected \<or> \<not> num_eq (ck_revision c) (successor (ck_revision current)) then Inl CheckpointConflict
         else Inr (st(ck_scope c \<mapsto> c))))"

datatype checkpoint_command = Initialize rollback_checkpoint | Advance string rollback_checkpoint

fun checkpoint_transaction :: "host \<Rightarrow> (checkpoint_command, checkpoint_store, checkpoint_error, unit) transaction" where
  "checkpoint_transaction h (Initialize c) st = bind_result (initialize c st) (\<lambda>st'. Inr ((), st'))"
| "checkpoint_transaction h (Advance d c) st = bind_result (advance h d c st) (\<lambda>st'. Inr ((), st'))"


section \<open>Scopes only move forward\<close>

definition checkpoint_inv :: "checkpoint_store \<Rightarrow> bool" where
  "checkpoint_inv st \<longleftrightarrow> (\<forall>scope c. st scope = Some c \<longrightarrow> valid_checkpoint c \<and> ck_scope c = scope)"

definition forward :: "checkpoint_store \<Rightarrow> checkpoint_store \<Rightarrow> bool" where
  "forward st st' \<longleftrightarrow> (\<forall>scope c. st scope = Some c \<longrightarrow>
     (\<exists>c'. st' scope = Some c' \<and> (c' = c \<or> num_lt (ck_revision c) (ck_revision c'))))"

lemma initialize_Inr:
  "initialize v st = Inr st' \<Longrightarrow> valid_checkpoint v \<and> st (ck_scope v) = None \<and> st' = st(ck_scope v \<mapsto> v)"
  by (auto simp: initialize_def parseRollbackCheckpointV1_def split: if_splits)

lemma advance_Inr:
  "advance h d v st = Inr st' \<Longrightarrow> valid_checkpoint v \<and> st' = st(ck_scope v \<mapsto> v)
     \<and> (\<exists>c. st (ck_scope v) = Some c \<and> valid_checkpoint c \<and> sha256Digest h (checkpoint_json c) = d
          \<and> ck_revision v = successor (ck_revision c))"
  by (auto simp: advance_def parseRollbackCheckpointV1_def rollbackCheckpointDigestV1_def num_eq_def
      split: option.splits if_splits)

lemma successor_greater: "valid_checkpoint c \<Longrightarrow> num_lt (ck_revision c) (successor (ck_revision c))"
  by (cases "ck_revision c") (simp_all add: valid_checkpoint_def successor_def)

lemma checkpoint_transaction_forward:
  assumes "checkpoint_transaction h c st = Inr (u, st')" shows "forward st st'"
proof (cases c)
  case (Initialize v)
  then show ?thesis using assms by (auto simp: forward_def dest!: initialize_Inr)
next
  case (Advance d v)
  then have "advance h d v st = Inr st'" using assms by auto
  then show ?thesis using successor_greater by (auto simp: forward_def dest!: advance_Inr)
qed

interpretation checkpoints: guarded_store "checkpoint_transaction h" Map.empty checkpoint_inv for h
proof
  show "checkpoint_inv Map.empty" by (simp add: checkpoint_inv_def)
  show "checkpoint_inv st \<Longrightarrow> checkpoint_transaction h c st = Inr (a, st') \<Longrightarrow> checkpoint_inv st'" for st c a st'
    by (cases c) (auto simp: checkpoint_inv_def split: if_splits dest!: initialize_Inr advance_Inr)
qed

lemma forward_trans:
  assumes "forward a b" and "forward b c" shows "forward a c"
  unfolding forward_def
proof (intro allI impI)
  fix scope x assume "a scope = Some x"
  then obtain y where y: "b scope = Some y" "y = x \<or> num_lt (ck_revision x) (ck_revision y)" using assms(1) unfolding forward_def by blast
  then obtain z where "c scope = Some z" "z = y \<or> num_lt (ck_revision y) (ck_revision z)" using assms(2) unfolding forward_def by blast
  with y num_lt_trans show "\<exists>z. c scope = Some z \<and> (z = x \<or> num_lt (ck_revision x) (ck_revision z))" by blast
qed

lemma forward_run: "forward st (run_commands (checkpoint_transaction h) cs st)"
proof (induction cs arbitrary: st)
  case Nil
  then show ?case by (simp add: forward_def)
next
  case (Cons c cs)
  have "forward st (committed (checkpoint_transaction h) c st)"
    using checkpoint_transaction_forward by (cases "checkpoint_transaction h c st") (fastforce simp: committed_def forward_def)+
  then show ?case using Cons forward_trans by (metis run_commands.simps(2))
qed

text \<open>
  A checkpoint never rolls back: whatever operations follow, accepted or refused, the checkpoint of a
  scope is the one that was read or one with a larger revision; it is always a valid checkpoint of
  that scope.
\<close>

lemma checkpoint_never_rolls_back:
  assumes "checkpoint_read (run_commands (checkpoint_transaction h) earlier Map.empty) scope = Some c"
  shows "\<exists>c'. checkpoint_read (run_commands (checkpoint_transaction h) (earlier @ later) Map.empty) scope = Some c'
    \<and> (c' = c \<or> num_lt (ck_revision c) (ck_revision c')) \<and> valid_checkpoint c' \<and> ck_scope c' = scope"
proof -
  let ?st = "run_commands (checkpoint_transaction h) earlier Map.empty"
  obtain c' where c': "run_commands (checkpoint_transaction h) later ?st scope = Some c'"
    "c' = c \<or> num_lt (ck_revision c) (ck_revision c')"
    using forward_run [of ?st h later] assms unfolding forward_def checkpoint_read_def by blast
  moreover have "valid_checkpoint c' \<and> ck_scope c' = scope"
    using checkpoints.run_inv [of h "earlier @ later"] c'(1) unfolding checkpoint_inv_def run_commands_append by blast
  ultimately show ?thesis by (auto simp: checkpoint_read_def run_commands_append)
qed

definition sample_checkpoint :: "rat \<Rightarrow> rollback_checkpoint" where
  "sample_checkpoint n = \<lparr>ck_schema = ROLLBACK_CHECKPOINT_SCHEMA_V1, ck_scope = ''scope'', ck_revision = Fin n, ck_recordCount = Fin 0,
     ck_stateDigest = ''sha256:'' @ replicate 64 CHR ''0'', ck_stateAuthTag = ''hmac-sha256:'' @ replicate 64 CHR ''0''\<rparr>"

lemma sample_checkpoint_valid: "valid_checkpoint (sample_checkpoint 1)"
  by (simp add: valid_checkpoint_def sample_checkpoint_def digest_pattern_def hmac_pattern_def list_all_iff is_hex_def is_digit_def less_eq_char_def)

end
