(* ===== verification/Ledger.thy ===== *)
theory Ledger
  imports Guarded_Store Js_Date
begin

text \<open>
  What the accounting stores of the scheduler share: sums over the active rows of an account, and the
  addition of two numbers of the language. Two safe integers add up exactly below \<open>2 ^ 53\<close> and to the
  nearest multiple of two above it, ties to a multiple of four; the comparison with a safe integer is
  therefore exact, which is all the limits need.
\<close>

definition js_add :: "int \<Rightarrow> int \<Rightarrow> int" where
  "js_add a b =
     (let n = a + b in
      if \<bar>n\<bar> \<le> 9007199254740992 \<or> even n then n else if (n + 1) mod 4 = 0 then n + 1 else n - 1)"

lemma js_add_exceeds:
  assumes "0 \<le> a" and "0 \<le> b" and "c \<le> max_safe_integer"
  shows "c < js_add a b \<longleftrightarrow> c < a + b"
  using assms by (auto simp: js_add_def Let_def max_safe_integer_def)

lemma safe_integer_int: "is_safe_integer n \<Longrightarrow> n = Fin (of_int (num_int n)) \<and> \<bar>num_int n\<bar> \<le> max_safe_integer"
proof (cases n)
  case (Fin r)
  assume "is_safe_integer n"
  then have r: "of_int \<lfloor>r\<rfloor> = r" "\<bar>r\<bar> \<le> 9007199254740991" using Fin by simp_all
  then have "\<bar>rat_of_int \<lfloor>r\<rfloor>\<bar> \<le> 9007199254740991" by metis
  then have "\<bar>\<lfloor>r\<rfloor>\<bar> \<le> 9007199254740991" by linarith
  with r Fin show ?thesis by (metis num_int_def num_value.simps(1) max_safe_integer_def)
qed simp_all

text \<open>The sum of an amount over the rows that satisfy a condition: \<open>COALESCE(SUM(amount), 0)\<close>.\<close>

definition total :: "('r \<Rightarrow> int) \<Rightarrow> ('r \<Rightarrow> bool) \<Rightarrow> 'r list \<Rightarrow> int" where
  "total amount P rows = sum_list (map amount (filter P rows))"

lemma total_Nil [simp]: "total amount P [] = 0"
  by (simp add: total_def)

lemma total_Cons: "total amount P (r # rows) = (if P r then amount r else 0) + total amount P rows"
  by (simp add: total_def)

lemma total_append [simp]: "total amount P (xs @ ys) = total amount P xs + total amount P ys"
  by (simp add: total_def)

lemma total_nonneg: "(\<And>r. r \<in> set rows \<Longrightarrow> 0 \<le> amount r) \<Longrightarrow> 0 \<le> total amount P rows"
  by (induction rows) (simp_all add: total_Cons)

lemma total_cong: "(\<And>r. r \<in> set rows \<Longrightarrow> P r = Q r) \<Longrightarrow> total amount P rows = total amount Q rows"
  unfolding total_def by (metis filter_cong)

text \<open>Rows that are closed, never opened, only free what they held.\<close>

lemma total_update_le:
  assumes "\<And>r. r \<in> set rows \<Longrightarrow> 0 \<le> amount r" and "\<And>r. r \<in> set rows \<Longrightarrow> amount (f r) = amount r"
    and "\<And>r. r \<in> set rows \<Longrightarrow> P (f r) \<Longrightarrow> P r"
  shows "total amount P (map f rows) \<le> total amount P rows"
  using assms by (induction rows) (simp_all add: total_Cons add_mono)

lemma find_SomeI: "x \<in> set xs \<Longrightarrow> P x \<Longrightarrow> \<exists>y. find P xs = Some y \<and> y \<in> set xs \<and> P y"
  by (induction xs) auto

end
