(* ===== verification/Budget_Store.thy ===== *)
theory Budget_Store
  imports Ledger
begin

text \<open>
  The project budget ledger: \<open>src/scheduler/v1/budget-store.ts\<close>. The two tables are lists of rows,
  instants are kept in milliseconds as the database keeps them, and every constraint of the schema
  that a statement can violate is a branch.

  The theorems say that the active reservations of a project never exceed its ceiling, whatever is
  reserved and released, and that redelivered commands change nothing.
\<close>

datatype budget_error =
    InvalidBudget | BudgetCeilingConflict | BudgetExhausted | BudgetReservationConflict | BudgetReservationNotFound
  | BudgetConstraint

record budget_reservation_request =
  br_id :: string
  br_tenantId :: string
  br_projectId :: string
  br_ceilingMicrousd :: jsnum
  br_estimatedMicrousd :: jsnum
  br_createdAt :: string

datatype budget_state = BudgetActive | BudgetReleased

record budget_row =
  bw_id :: string
  bw_tenantId :: string
  bw_projectId :: string
  bw_estimatedMicrousd :: int
  bw_state :: budget_state
  bw_createdAt :: int
  bw_releasedAt :: "int option"

record budget_head =
  bh_tenantId :: string
  bh_projectId :: string
  bh_ceilingMicrousd :: int

record budget_store =
  bs_tenants :: "string list"
  bs_heads :: "budget_head list"
  bs_rows :: "budget_row list"

definition empty_budget_store :: "string list \<Rightarrow> budget_store" where
  "empty_budget_store tenants = \<lparr>bs_tenants = tenants, bs_heads = [], bs_rows = []\<rparr>"

definition valid_budget :: "budget_reservation_request \<Rightarrow> bool" where
  "valid_budget v \<longleftrightarrow> list_all safe_id_pattern [br_id v, br_tenantId v, br_projectId v]
     \<and> list_all is_safe_integer [br_ceilingMicrousd v, br_estimatedMicrousd v]
     \<and> num_le (Fin 0) (br_ceilingMicrousd v) \<and> num_le (Fin 0) (br_estimatedMicrousd v) \<and> instant (br_createdAt v)"

definition head_of :: "budget_store \<Rightarrow> string \<Rightarrow> string \<Rightarrow> budget_head option" where
  "head_of st t p = find (\<lambda>b. (bh_tenantId b, bh_projectId b) = (t, p)) (bs_heads st)"

text \<open>\<open>INSERT ... ON CONFLICT DO NOTHING\<close>; the tenant must exist.\<close>

definition ensure_head :: "budget_reservation_request \<Rightarrow> budget_store \<Rightarrow> (budget_error, budget_store) result" where
  "ensure_head v st =
     (case head_of st (br_tenantId v) (br_projectId v) of
        Some b \<Rightarrow> Inr st
      | None \<Rightarrow> if br_tenantId v \<notin> set (bs_tenants st) then Inl BudgetConstraint
          else Inr (st\<lparr>bs_heads := bs_heads st @ [\<lparr>bh_tenantId = br_tenantId v, bh_projectId = br_projectId v,
            bh_ceilingMicrousd = num_int (br_ceilingMicrousd v)\<rparr>]\<rparr>))"

definition budget_row_for :: "budget_store \<Rightarrow> string \<Rightarrow> string \<Rightarrow> budget_row option" where
  "budget_row_for st t i = find (\<lambda>r. (bw_tenantId r, bw_id r) = (t, i)) (bs_rows st)"

definition budget_active :: "string \<Rightarrow> string \<Rightarrow> budget_row \<Rightarrow> bool" where
  "budget_active t p r \<longleftrightarrow> bw_tenantId r = t \<and> bw_projectId r = p \<and> bw_state r = BudgetActive"

definition budget_used :: "budget_store \<Rightarrow> string \<Rightarrow> string \<Rightarrow> int" where
  "budget_used st t p = total bw_estimatedMicrousd (budget_active t p) (bs_rows st)"

definition new_budget_row :: "budget_reservation_request \<Rightarrow> budget_row" where
  "new_budget_row v = \<lparr>bw_id = br_id v, bw_tenantId = br_tenantId v, bw_projectId = br_projectId v,
     bw_estimatedMicrousd = num_int (br_estimatedMicrousd v), bw_state = BudgetActive,
     bw_createdAt = the (date_parse (br_createdAt v)), bw_releasedAt = None\<rparr>"

definition same_budget :: "budget_reservation_request \<Rightarrow> budget_row \<Rightarrow> bool" where
  "same_budget v prior \<longleftrightarrow> bw_projectId prior = br_projectId v \<and> num_of_int (bw_estimatedMicrousd prior) = br_estimatedMicrousd v
     \<and> to_iso (bw_createdAt prior) = Some (br_createdAt v)"

definition head_matches :: "budget_reservation_request \<Rightarrow> budget_store \<Rightarrow> bool" where
  "head_matches v st \<longleftrightarrow>
     (case head_of st (br_tenantId v) (br_projectId v) of None \<Rightarrow> False | Some b \<Rightarrow> num_of_int (bh_ceilingMicrousd b) = br_ceilingMicrousd v)"

definition reserve :: "budget_reservation_request \<Rightarrow> budget_store \<Rightarrow> (budget_error, bool \<times> budget_store) result" where
  "reserve v st =
     guard_result (valid_budget v) InvalidBudget (
     bind_result (ensure_head v st) (\<lambda>st1.
     guard_result (head_matches v st1) BudgetCeilingConflict (
     case budget_row_for st1 (br_tenantId v) (br_id v) of
       Some prior \<Rightarrow>
         if \<not> same_budget v prior then Inl BudgetReservationConflict else Inr (True, st1)
     | None \<Rightarrow>
         if js_add (budget_used st1 (br_tenantId v) (br_projectId v)) (num_int (br_estimatedMicrousd v)) > num_int (br_ceilingMicrousd v)
         then Inl BudgetExhausted
         else if br_id v \<in> bw_id ` set (bs_rows st1) then Inl BudgetConstraint
         else Inr (False, st1\<lparr>bs_rows := bs_rows st1 @ [new_budget_row v]\<rparr>))))"

definition close_budget_row :: "string \<Rightarrow> string \<Rightarrow> int \<Rightarrow> budget_row \<Rightarrow> budget_row" where
  "close_budget_row t i at' r =
     (if (bw_tenantId r, bw_id r) = (t, i) then r\<lparr>bw_state := BudgetReleased, bw_releasedAt := Some at'\<rparr> else r)"

definition release :: "string \<Rightarrow> string \<Rightarrow> string \<Rightarrow> budget_store \<Rightarrow> (budget_error, bool \<times> budget_store) result" where
  "release t i releasedAt st =
     guard_result (safe_id_pattern t \<and> safe_id_pattern i \<and> instant releasedAt) InvalidBudget (
     case budget_row_for st t i of
       None \<Rightarrow> Inl BudgetReservationNotFound
     | Some prior \<Rightarrow>
         if bw_state prior = BudgetReleased then Inr (True, st)
         else if the (date_parse releasedAt) < bw_createdAt prior then Inl InvalidBudget
         else Inr (False, st\<lparr>bs_rows := map (close_budget_row t i (the (date_parse releasedAt))) (bs_rows st)\<rparr>))"

datatype budget_command = Reserve budget_reservation_request | Release string string string

fun budget_transaction :: "(budget_command, budget_store, budget_error, bool) transaction" where
  "budget_transaction (Reserve v) st = reserve v st"
| "budget_transaction (Release t i at') st = release t i at' st"


section \<open>The invariant\<close>

definition budget_inv :: "budget_store \<Rightarrow> bool" where
  "budget_inv st \<longleftrightarrow> distinct (map bw_id (bs_rows st)) \<and> (\<forall>r \<in> set (bs_rows st). 0 \<le> bw_estimatedMicrousd r)
     \<and> distinct (map (\<lambda>b. (bh_tenantId b, bh_projectId b)) (bs_heads st))
     \<and> (\<forall>r \<in> set (bs_rows st). (bw_tenantId r, bw_projectId r) \<in> (\<lambda>b. (bh_tenantId b, bh_projectId b)) ` set (bs_heads st))
     \<and> (\<forall>b \<in> set (bs_heads st). budget_used st (bh_tenantId b) (bh_projectId b) \<le> bh_ceilingMicrousd b)"

lemma valid_budget_int:
  assumes "valid_budget v"
  shows "br_ceilingMicrousd v = Fin (of_int (num_int (br_ceilingMicrousd v)))" "0 \<le> num_int (br_ceilingMicrousd v)"
    "num_int (br_ceilingMicrousd v) \<le> max_safe_integer"
    "br_estimatedMicrousd v = Fin (of_int (num_int (br_estimatedMicrousd v)))" "0 \<le> num_int (br_estimatedMicrousd v)"
    "\<exists>t. date_parse (br_createdAt v) = Some t \<and> to_iso t = Some (br_createdAt v)"
proof -
  have "is_safe_integer (br_ceilingMicrousd v)" "is_safe_integer (br_estimatedMicrousd v)"
    and pos: "num_le (Fin 0) (br_ceilingMicrousd v)" "num_le (Fin 0) (br_estimatedMicrousd v)"
    using assms by (simp_all add: valid_budget_def)
  then have c: "br_ceilingMicrousd v = Fin (of_int (num_int (br_ceilingMicrousd v)))" "\<bar>num_int (br_ceilingMicrousd v)\<bar> \<le> max_safe_integer"
    and e: "br_estimatedMicrousd v = Fin (of_int (num_int (br_estimatedMicrousd v)))"
    using safe_integer_int by blast+
  then show "br_ceilingMicrousd v = Fin (of_int (num_int (br_ceilingMicrousd v)))" "num_int (br_ceilingMicrousd v) \<le> max_safe_integer"
    "br_estimatedMicrousd v = Fin (of_int (num_int (br_estimatedMicrousd v)))" by simp_all
  show "0 \<le> num_int (br_ceilingMicrousd v)" using pos(1) c(1) by (metis num_le_Fin of_int_0_le_iff)
  show "0 \<le> num_int (br_estimatedMicrousd v)" using pos(2) e by (metis num_le_Fin of_int_0_le_iff)
  show "\<exists>t. date_parse (br_createdAt v) = Some t \<and> to_iso t = Some (br_createdAt v)"
    using assms by (auto simp: valid_budget_def instant_iff dest: to_iso_parse)
qed

lemma ensure_head_inv:
  assumes "budget_inv st" and "valid_budget v" and "ensure_head v st = Inr st1"
  shows "budget_inv st1 \<and> bs_rows st1 = bs_rows st"
proof (cases "head_of st (br_tenantId v) (br_projectId v)")
  case (Some b)
  then show ?thesis using assms by (simp add: ensure_head_def)
next
  case None
  let ?b = "\<lparr>bh_tenantId = br_tenantId v, bh_projectId = br_projectId v, bh_ceilingMicrousd = num_int (br_ceilingMicrousd v)\<rparr>"
  have st1: "st1 = st\<lparr>bs_heads := bs_heads st @ [?b]\<rparr>" using None assms(3) by (simp add: ensure_head_def split: if_splits)
  have new: "(br_tenantId v, br_projectId v) \<notin> (\<lambda>b. (bh_tenantId b, bh_projectId b)) ` set (bs_heads st)"
    using None by (auto simp: head_of_def find_None_iff)
  then have "filter (budget_active (br_tenantId v) (br_projectId v)) (bs_rows st) = []"
    using assms(1) unfolding budget_inv_def filter_empty_conv budget_active_def by metis
  then have "budget_used st1 (br_tenantId v) (br_projectId v) \<le> num_int (br_ceilingMicrousd v)"
    using valid_budget_int(2) [OF assms(2)] by (simp add: budget_used_def total_def st1)
  moreover have "budget_used st1 t p = budget_used st t p" for t p by (simp add: budget_used_def st1)
  ultimately show ?thesis using assms(1) new unfolding budget_inv_def st1 by auto
qed

lemma reserve_cases:
  assumes "reserve v st = Inr (replayed, st')"
  obtains (replay) prior where "valid_budget v" "ensure_head v st = Inr st'" "head_matches v st'"
      "budget_row_for st' (br_tenantId v) (br_id v) = Some prior" "same_budget v prior" "replayed"
    | (fresh) st1 where "valid_budget v" "ensure_head v st = Inr st1" "head_matches v st1" "\<not> replayed"
      "\<not> num_int (br_ceilingMicrousd v) < js_add (budget_used st1 (br_tenantId v) (br_projectId v)) (num_int (br_estimatedMicrousd v))"
      "br_id v \<notin> bw_id ` set (bs_rows st1)" "st' = st1\<lparr>bs_rows := bs_rows st1 @ [new_budget_row v]\<rparr>"
proof -
  obtain st1 where st1: "valid_budget v" "ensure_head v st = Inr st1" "head_matches v st1" using assms by (auto simp: reserve_def)
  show thesis
  proof (cases "budget_row_for st1 (br_tenantId v) (br_id v)")
    case None
    then show thesis using assms st1 fresh by (auto simp: reserve_def split: if_splits)
  next
    case (Some prior)
    then show thesis using assms st1 replay by (auto simp: reserve_def split: if_splits)
  qed
qed

lemma head_of_mem: "head_of st t p = Some b \<Longrightarrow> b \<in> set (bs_heads st) \<and> bh_tenantId b = t \<and> bh_projectId b = p"
  using find_SomeD unfolding head_of_def by fastforce

lemma budget_used_new:
  "budget_used (st\<lparr>bs_rows := bs_rows st @ [new_budget_row v]\<rparr>) t p =
     budget_used st t p + (if t = br_tenantId v \<and> p = br_projectId v then num_int (br_estimatedMicrousd v) else 0)"
  by (auto simp: budget_used_def total_Cons budget_active_def new_budget_row_def)

lemma budget_used_nonneg: "budget_inv st \<Longrightarrow> 0 \<le> budget_used st t p"
  unfolding budget_used_def budget_inv_def by (blast intro: total_nonneg)

lemma fresh_reservation_inv:
  assumes inv: "budget_inv st" and v: "valid_budget v" and head: "head_matches v st"
    and limit: "\<not> num_int (br_ceilingMicrousd v) < js_add (budget_used st (br_tenantId v) (br_projectId v)) (num_int (br_estimatedMicrousd v))"
    and new: "br_id v \<notin> bw_id ` set (bs_rows st)"
  shows "budget_inv (st\<lparr>bs_rows := bs_rows st @ [new_budget_row v]\<rparr>)" (is "budget_inv ?st'")
proof -
  note ints = valid_budget_int [OF v]
  obtain b where b: "head_of st (br_tenantId v) (br_projectId v) = Some b" "num_of_int (bh_ceilingMicrousd b) = br_ceilingMicrousd v"
    using head by (auto simp: head_matches_def split: option.splits)
  note mem = head_of_mem [OF b(1)]
  have c: "bh_ceilingMicrousd b = num_int (br_ceilingMicrousd v)" using b(2) [symmetric] by (simp add: num_of_int_def num_int_def)
  have limit': "budget_used st (br_tenantId v) (br_projectId v) + num_int (br_estimatedMicrousd v) \<le> num_int (br_ceilingMicrousd v)"
    using limit js_add_exceeds [OF budget_used_nonneg [OF inv] ints(5) ints(3)] by (simp add: not_less)
  have "budget_used ?st' (bh_tenantId a) (bh_projectId a) \<le> bh_ceilingMicrousd a" if a: "a \<in> set (bs_heads st)" for a
  proof (cases "bh_tenantId a = br_tenantId v \<and> bh_projectId a = br_projectId v")
    case True
    then have "a = b"
      using inv a mem distinct_key_eq [of "\<lambda>b. (bh_tenantId b, bh_projectId b)" "bs_heads st" a b] unfolding budget_inv_def by simp
    then show ?thesis using limit' mem c by (simp add: budget_used_new)
  next
    case False
    then show ?thesis using inv a unfolding budget_inv_def by (auto simp: budget_used_new)
  qed
  moreover have "(bw_tenantId (new_budget_row v), bw_projectId (new_budget_row v)) \<in> (\<lambda>b. (bh_tenantId b, bh_projectId b)) ` set (bs_heads st)"
    using mem by (force simp: new_budget_row_def)
  moreover have "bw_id (new_budget_row v) = br_id v" "0 \<le> bw_estimatedMicrousd (new_budget_row v)"
    using ints(5) by (simp_all add: new_budget_row_def)
  ultimately show ?thesis using inv new unfolding budget_inv_def by auto
qed

lemma reserve_inv:
  assumes "budget_inv st" and "reserve v st = Inr (replayed, st')"
  shows "budget_inv st'"
  using assms(2)
proof (cases rule: reserve_cases)
  case (replay prior)
  then show ?thesis using ensure_head_inv [OF assms(1)] by blast
next
  case (fresh st1)
  then show ?thesis using fresh_reservation_inv ensure_head_inv [OF assms(1)] by blast
qed

lemma close_budget_row_keeps:
  "bw_id (close_budget_row t i a r) = bw_id r" "bw_tenantId (close_budget_row t i a r) = bw_tenantId r"
  "bw_projectId (close_budget_row t i a r) = bw_projectId r"
  "bw_estimatedMicrousd (close_budget_row t i a r) = bw_estimatedMicrousd r"
  "budget_active u p (close_budget_row t i a r) \<Longrightarrow> budget_active u p r"
  by (auto simp: close_budget_row_def budget_active_def split: if_splits)

lemma release_inv:
  assumes "budget_inv st" and "release t i at' st = Inr (replayed, st')"
  shows "budget_inv st'"
proof (cases "st' = st")
  case False
  then have st': "st' = st\<lparr>bs_rows := map (close_budget_row t i (the (date_parse at'))) (bs_rows st)\<rparr>"
    using assms(2) by (auto simp: release_def split: option.splits if_splits)
  have "budget_used st' u p \<le> budget_used st u p" for u p
    unfolding budget_used_def st' using assms(1) total_update_le [of "bs_rows st" bw_estimatedMicrousd _ "budget_active u p"] close_budget_row_keeps
    by (auto simp: budget_inv_def)
  then show ?thesis using assms(1) unfolding budget_inv_def st' by (fastforce simp: close_budget_row_keeps comp_def intro: order_trans)
qed (use assms in simp)

section \<open>Repetition\<close>

lemma ensure_head_repeat:
  assumes "ensure_head v st = Inr st1" shows "\<exists>b. head_of st1 (br_tenantId v) (br_projectId v) = Some b"
proof (cases "head_of st (br_tenantId v) (br_projectId v)")
  case None
  then show ?thesis using assms by (auto simp: ensure_head_def head_of_def find_append split: if_splits)
next
  case (Some b)
  then show ?thesis using assms by (auto simp: ensure_head_def)
qed

lemma ensure_head_present: "head_of st (br_tenantId v) (br_projectId v) = Some b \<Longrightarrow> ensure_head v st = Inr st"
  by (simp add: ensure_head_def)

lemma reserve_repeat:
  assumes "reserve v st = Inr (replayed, st')"
  shows "reserve v st' = Inr (True, st')"
  using assms
proof (cases rule: reserve_cases)
  case (replay prior)
  then show ?thesis using ensure_head_repeat ensure_head_present by (fastforce simp: reserve_def)
next
  case (fresh st1)
  have head: "head_of st' t p = head_of st1 t p" for t p using fresh by (simp add: head_of_def)
  then have "ensure_head v st' = Inr st'" "head_matches v st'"
    using ensure_head_repeat [OF fresh(2)] ensure_head_present fresh(3) by (auto simp: head_matches_def)
  moreover have "find (\<lambda>r. (bw_tenantId r, bw_id r) = (br_tenantId v, br_id v)) (bs_rows st1) = None"
    using fresh(6) by (auto simp: find_None_iff image_iff)
  then have "budget_row_for st' (br_tenantId v) (br_id v) = Some (new_budget_row v)"
    using fresh by (simp add: budget_row_for_def find_append new_budget_row_def)
  moreover have "same_budget v (new_budget_row v)"
    using valid_budget_int [OF fresh(1)] by (auto simp: same_budget_def new_budget_row_def num_of_int_def)
  ultimately show ?thesis using fresh(1) by (simp add: reserve_def)
qed

lemma budget_row_for_close:
  "budget_row_for (st\<lparr>bs_rows := map (close_budget_row t i a) (bs_rows st)\<rparr>) u j = map_option (close_budget_row t i a) (budget_row_for st u j)"
  by (simp add: budget_row_for_def find_map comp_def close_budget_row_keeps)

lemma release_repeat:
  assumes "release t i at' st = Inr (replayed, st')"
  shows "release t i at' st' = Inr (True, st')"
proof -
  obtain prior where prior: "budget_row_for st t i = Some prior" using assms by (auto simp: release_def split: option.splits)
  show ?thesis
  proof (cases "bw_state prior")
    case BudgetActive
    then have st': "st' = st\<lparr>bs_rows := map (close_budget_row t i (the (date_parse at'))) (bs_rows st)\<rparr>"
      using assms prior by (auto simp: release_def split: if_splits)
    have "bw_state (close_budget_row t i a prior) = BudgetReleased" for a
      using find_SomeD prior unfolding budget_row_for_def by (fastforce simp: close_budget_row_def)
    then show ?thesis using assms prior by (simp add: release_def st' budget_row_for_close)
  next
    case BudgetReleased
    then show ?thesis using assms prior by (auto simp: release_def)
  qed
qed

interpretation budgets: retry_safe_store budget_transaction "empty_budget_store tenants" budget_inv for tenants
proof
  show "budget_inv (empty_budget_store tenants)"
    by (simp add: budget_inv_def empty_budget_store_def)
  show "budget_inv st \<Longrightarrow> budget_transaction c st = Inr (a, st') \<Longrightarrow> budget_inv st'" for st c a st'
    by (cases c) (auto intro: reserve_inv release_inv)
  show "budget_inv st \<Longrightarrow> budget_transaction c st = Inr (a, st') \<Longrightarrow> \<exists>b. budget_transaction c st' = Inr (b, st')" for st c a st'
    by (cases c) (auto dest: reserve_repeat release_repeat)
qed

lemma budget_inv_used:
  assumes "budget_inv st"
  shows "budget_used st t p \<le> (case head_of st t p of None \<Rightarrow> 0 | Some b \<Rightarrow> bh_ceilingMicrousd b)"
proof (cases "head_of st t p")
  case None
  then have "(t, p) \<notin> (\<lambda>b. (bh_tenantId b, bh_projectId b)) ` set (bs_heads st)" by (auto simp: head_of_def find_None_iff)
  then have "filter (budget_active t p) (bs_rows st) = []"
    using assms unfolding budget_inv_def filter_empty_conv budget_active_def by metis
  then show ?thesis using None by (simp add: budget_used_def total_def)
next
  case (Some b)
  then show ?thesis using assms head_of_mem [OF Some] unfolding budget_inv_def by auto
qed

section \<open>What the ledger guarantees\<close>

text \<open>
  C36. A project never reserves more than its ceiling: whatever sequence of reservations and releases is
  attempted, by whatever tenants, the active reservations of a project add up to at most the ceiling
  recorded for it, and to nothing while no ceiling is recorded.
\<close>

theorem budget_within_ceiling:
  "budget_used (run_commands budget_transaction commands (empty_budget_store tenants)) t p
    \<le> (case head_of (run_commands budget_transaction commands (empty_budget_store tenants)) t p of
         None \<Rightarrow> 0 | Some b \<Rightarrow> bh_ceilingMicrousd b)"
  using budget_inv_used [OF budgets.run_inv] .

text \<open>A project with a ceiling of 100 that refuses a second reservation of 60.\<close>

definition sample_budget :: "string \<Rightarrow> budget_reservation_request" where
  "sample_budget i = \<lparr>br_id = i, br_tenantId = ''tenant:1'', br_projectId = ''project:1'', br_ceilingMicrousd = Fin 100,
     br_estimatedMicrousd = Fin 60, br_createdAt = ''2025-06-01T00:10:00.000Z''\<rparr>"

lemma sample_budget_commands:
  "run_commands budget_transaction [Reserve (sample_budget ''a''), Reserve (sample_budget ''b'')] (empty_budget_store [''tenant:1''])
     = \<lparr>bs_tenants = [''tenant:1''],
        bs_heads = [\<lparr>bh_tenantId = ''tenant:1'', bh_projectId = ''project:1'', bh_ceilingMicrousd = 100\<rparr>],
        bs_rows = [new_budget_row (sample_budget ''a'')]\<rparr>"
  by code_simp

end
