(* ===== verification/Reservation_Store.thy ===== *)
theory Reservation_Store
  imports Ledger "HOL-Library.Product_Lexorder" "HOL-Library.List_Lexorder" "HOL-Library.Char_ord"
begin

text \<open>
  The resource reservation ledger: \<open>src/scheduler/v1/reservation-store.ts\<close>. The tables are lists of
  rows, instants are kept in milliseconds, and a constraint of the schema that a statement can violate
  is a branch. The order of the database on texts enters only the listing of \<open>reconcile\<close>; it is the
  parameter \<open>collation\<close>, which gives the sort key of a text.

  The theorems say that the active reservations of a resource never exceed its capacity, whatever is
  acquired, released and reconciled and whatever clock readings the callers pass, that a successful
  acquisition really holds its units, and that redelivered commands change nothing.
\<close>

datatype reservation_error =
    InvalidReservation | ResourceCapacityConflict | ResourceUnavailable | ReservationConflict | ReservationNotFound
  | ReservationConstraint

record reservation_request =
  rq_id :: string
  rq_tenantId :: string
  rq_projectId :: string
  rq_workItemId :: string
  rq_routeId :: string
  rq_resourceKey :: string
  rq_units :: jsnum
  rq_capacityUnits :: jsnum
  rq_decisionDigest :: string
  rq_acquiredAt :: string
  rq_expiresAt :: string

datatype reservation_state = ReservationActive | ReservationReleased | ReservationExpired

record reservation =
  rs_id :: string
  rs_tenantId :: string
  rs_projectId :: string
  rs_workItemId :: string
  rs_routeId :: string
  rs_resourceKey :: string
  rs_units :: jsnum
  rs_capacityUnits :: jsnum
  rs_decisionDigest :: string
  rs_state :: reservation_state
  rs_acquiredAt :: string
  rs_expiresAt :: string
  rs_releasedAt :: "string option"

record reservation_row =
  rw_id :: string
  rw_tenantId :: string
  rw_projectId :: string
  rw_workItemId :: string
  rw_routeId :: string
  rw_resourceKey :: string
  rw_units :: int
  rw_decisionDigest :: string
  rw_state :: reservation_state
  rw_acquiredAt :: int
  rw_expiresAt :: int
  rw_releasedAt :: "int option"

record reservation_head =
  rh_tenantId :: string
  rh_resourceKey :: string
  rh_capacityUnits :: int

record reservation_store =
  rt_tenants :: "string list"
  rt_heads :: "reservation_head list"
  rt_rows :: "reservation_row list"

definition empty_reservation_store :: "string list \<Rightarrow> reservation_store" where
  "empty_reservation_store tenants = \<lparr>rt_tenants = tenants, rt_heads = [], rt_rows = []\<rparr>"

text \<open>\<open>Date.parse\<close> of a text that is known to be an instant.\<close>

definition ms :: "string \<Rightarrow> int" where
  "ms v = the (date_parse v)"

definition positive_safe :: "jsnum \<Rightarrow> bool" where
  "positive_safe n \<longleftrightarrow> is_safe_integer n \<and> num_lt (Fin 0) n"

definition valid_reservation :: "reservation_request \<Rightarrow> bool" where
  "valid_reservation v \<longleftrightarrow>
     list_all safe_id_pattern [rq_id v, rq_tenantId v, rq_projectId v, rq_workItemId v, rq_routeId v, rq_resourceKey v]
     \<and> positive_safe (rq_units v) \<and> positive_safe (rq_capacityUnits v) \<and> num_le (rq_units v) (rq_capacityUnits v)
     \<and> digest_pattern (rq_decisionDigest v) \<and> instant (rq_acquiredAt v) \<and> instant (rq_expiresAt v)
     \<and> ms (rq_expiresAt v) > ms (rq_acquiredAt v)"

definition resource_head :: "reservation_store \<Rightarrow> string \<Rightarrow> string \<Rightarrow> reservation_head option" where
  "resource_head st t k = find (\<lambda>b. (rh_tenantId b, rh_resourceKey b) = (t, k)) (rt_heads st)"

definition ensure_resource :: "reservation_request \<Rightarrow> reservation_store \<Rightarrow> (reservation_error, reservation_store) result" where
  "ensure_resource v st =
     (case resource_head st (rq_tenantId v) (rq_resourceKey v) of
        Some b \<Rightarrow> Inr st
      | None \<Rightarrow> if rq_tenantId v \<notin> set (rt_tenants st) then Inl ReservationConstraint
          else Inr (st\<lparr>rt_heads := rt_heads st @ [\<lparr>rh_tenantId = rq_tenantId v, rh_resourceKey = rq_resourceKey v,
            rh_capacityUnits = num_int (rq_capacityUnits v)\<rparr>]\<rparr>))"

definition capacity_matches :: "reservation_request \<Rightarrow> reservation_store \<Rightarrow> bool" where
  "capacity_matches v st \<longleftrightarrow>
     (case resource_head st (rq_tenantId v) (rq_resourceKey v) of
        None \<Rightarrow> False | Some b \<Rightarrow> num_of_int (rh_capacityUnits b) = rq_capacityUnits v)"

text \<open>\<open>UPDATE ... SET state='expired' WHERE ... AND state='active' AND expires_at <= now\<close>\<close>

definition expire_row :: "(reservation_row \<Rightarrow> bool) \<Rightarrow> int \<Rightarrow> reservation_row \<Rightarrow> reservation_row" where
  "expire_row P now r =
     (if P r \<and> rw_state r = ReservationActive \<and> rw_expiresAt r \<le> now then r\<lparr>rw_state := ReservationExpired\<rparr> else r)"

definition expire_rows :: "(reservation_row \<Rightarrow> bool) \<Rightarrow> int \<Rightarrow> reservation_store \<Rightarrow> reservation_store" where
  "expire_rows P now st = st\<lparr>rt_rows := map (expire_row P now) (rt_rows st)\<rparr>"

definition of_resource :: "string \<Rightarrow> string \<Rightarrow> reservation_row \<Rightarrow> bool" where
  "of_resource t k r \<longleftrightarrow> rw_tenantId r = t \<and> rw_resourceKey r = k"

definition reservation_row_for :: "reservation_store \<Rightarrow> string \<Rightarrow> string \<Rightarrow> reservation_row option" where
  "reservation_row_for st t i = find (\<lambda>r. (rw_tenantId r, rw_id r) = (t, i)) (rt_rows st)"

definition toInstant :: "int \<Rightarrow> string" where
  "toInstant t = the (to_iso t)"

definition rowToReservation :: "reservation_row \<Rightarrow> jsnum \<Rightarrow> reservation" where
  "rowToReservation r capacityUnits =
     \<lparr>rs_id = rw_id r, rs_tenantId = rw_tenantId r, rs_projectId = rw_projectId r, rs_workItemId = rw_workItemId r,
      rs_routeId = rw_routeId r, rs_resourceKey = rw_resourceKey r, rs_units = num_of_int (rw_units r),
      rs_capacityUnits = capacityUnits, rs_decisionDigest = rw_decisionDigest r, rs_state = rw_state r,
      rs_acquiredAt = toInstant (rw_acquiredAt r), rs_expiresAt = toInstant (rw_expiresAt r),
      rs_releasedAt = map_option toInstant (rw_releasedAt r)\<rparr>"

definition sameReservation :: "reservation \<Rightarrow> reservation_request \<Rightarrow> bool" where
  "sameReservation r v \<longleftrightarrow> rs_id r = rq_id v \<and> rs_tenantId r = rq_tenantId v \<and> rs_projectId r = rq_projectId v
     \<and> rs_workItemId r = rq_workItemId v \<and> rs_routeId r = rq_routeId v \<and> rs_resourceKey r = rq_resourceKey v
     \<and> num_eq (rs_units r) (rq_units v) \<and> num_eq (rs_capacityUnits r) (rq_capacityUnits v)
     \<and> rs_decisionDigest r = rq_decisionDigest v \<and> rs_acquiredAt r = rq_acquiredAt v \<and> rs_expiresAt r = rq_expiresAt v"

definition new_reservation_row :: "reservation_request \<Rightarrow> reservation_row" where
  "new_reservation_row v = \<lparr>rw_id = rq_id v, rw_tenantId = rq_tenantId v, rw_projectId = rq_projectId v,
     rw_workItemId = rq_workItemId v, rw_routeId = rq_routeId v, rw_resourceKey = rq_resourceKey v, rw_units = num_int (rq_units v),
     rw_decisionDigest = rq_decisionDigest v, rw_state = ReservationActive, rw_acquiredAt = ms (rq_acquiredAt v),
     rw_expiresAt = ms (rq_expiresAt v), rw_releasedAt = None\<rparr>"

definition granted :: "reservation_request \<Rightarrow> reservation" where
  "granted v = \<lparr>rs_id = rq_id v, rs_tenantId = rq_tenantId v, rs_projectId = rq_projectId v, rs_workItemId = rq_workItemId v,
     rs_routeId = rq_routeId v, rs_resourceKey = rq_resourceKey v, rs_units = rq_units v, rs_capacityUnits = rq_capacityUnits v,
     rs_decisionDigest = rq_decisionDigest v, rs_state = ReservationActive, rs_acquiredAt = rq_acquiredAt v,
     rs_expiresAt = rq_expiresAt v, rs_releasedAt = None\<rparr>"

definition live_units :: "reservation_store \<Rightarrow> string \<Rightarrow> string \<Rightarrow> int \<Rightarrow> int" where
  "live_units st t k now =
     total rw_units (\<lambda>r. of_resource t k r \<and> rw_state r = ReservationActive \<and> rw_expiresAt r > now) (rt_rows st)"

definition acquire ::
    "reservation_request \<Rightarrow> string \<Rightarrow> reservation_store \<Rightarrow> (reservation_error, (reservation \<times> bool) \<times> reservation_store) result" where
  "acquire v now st =
     guard_result (valid_reservation v \<and> instant now \<and> ms (rq_acquiredAt v) \<le> ms now \<and> ms now < ms (rq_expiresAt v)) InvalidReservation (
     bind_result (ensure_resource v st) (\<lambda>st1.
     guard_result (capacity_matches v st1) ResourceCapacityConflict (
     let st2 = expire_rows (of_resource (rq_tenantId v) (rq_resourceKey v)) (ms now) st1 in
     case reservation_row_for st2 (rq_tenantId v) (rq_id v) of
       Some row \<Rightarrow>
         (let r = rowToReservation row (rq_capacityUnits v) in
          if \<not> sameReservation r v then Inl ReservationConflict
          else if rs_state r \<noteq> ReservationActive then Inl ResourceUnavailable
          else Inr ((r, True), st2))
     | None \<Rightarrow>
         if js_add (live_units st2 (rq_tenantId v) (rq_resourceKey v) (ms now)) (num_int (rq_units v)) > num_int (rq_capacityUnits v)
         then Inl ResourceUnavailable
         else if rq_id v \<in> rw_id ` set (rt_rows st2) then Inl ReservationConstraint
         else Inr ((granted v, False), st2\<lparr>rt_rows := rt_rows st2 @ [new_reservation_row v]\<rparr>))))"

definition set_row :: "string \<Rightarrow> string \<Rightarrow> (reservation_row \<Rightarrow> reservation_row) \<Rightarrow> reservation_store \<Rightarrow> reservation_store" where
  "set_row t i f st = st\<lparr>rt_rows := map (\<lambda>r. if (rw_tenantId r, rw_id r) = (t, i) then f r else r) (rt_rows st)\<rparr>"

definition release_reservation ::
    "string \<Rightarrow> string \<Rightarrow> string \<Rightarrow> reservation_store \<Rightarrow> (reservation_error, reservation \<times> reservation_store) result" where
  "release_reservation t i releasedAt st =
     guard_result (safe_id_pattern t \<and> safe_id_pattern i \<and> instant releasedAt) InvalidReservation (
     case reservation_row_for st t i of
       None \<Rightarrow> Inl ReservationNotFound
     | Some row \<Rightarrow>
         (case resource_head st t (rw_resourceKey row) of
            None \<Rightarrow> Inl ReservationNotFound
          | Some b \<Rightarrow>
              let r = rowToReservation row (num_of_int (rh_capacityUnits b)) in
              if rs_state r = ReservationActive then
                if ms releasedAt < ms (rs_acquiredAt r) then Inl InvalidReservation
                else if ms releasedAt \<ge> ms (rs_expiresAt r)
                then Inr (r\<lparr>rs_state := ReservationExpired\<rparr>, set_row t i (\<lambda>r. r\<lparr>rw_state := ReservationExpired\<rparr>) st)
                else Inr (r\<lparr>rs_state := ReservationReleased, rs_releasedAt := Some releasedAt\<rparr>,
                  set_row t i (\<lambda>r. r\<lparr>rw_state := ReservationReleased, rw_releasedAt := Some (ms releasedAt)\<rparr>) st)
              else Inr (r, st)))"

record reconciliation =
  expiredReservationIds :: "string list"
  activeReservations :: "reservation list"

definition of_tenant :: "string \<Rightarrow> reservation_row \<Rightarrow> bool" where
  "of_tenant t r \<longleftrightarrow> rw_tenantId r = t"

definition reconcile ::
    "(string \<Rightarrow> nat list) \<Rightarrow> string \<Rightarrow> string \<Rightarrow> reservation_store \<Rightarrow> (reservation_error, reconciliation \<times> reservation_store) result" where
  "reconcile collation t now st =
     guard_result (safe_id_pattern t \<and> instant now) InvalidReservation (
     let expired = filter (\<lambda>r. of_tenant t r \<and> rw_state r = ReservationActive \<and> rw_expiresAt r \<le> ms now) (rt_rows st);
         st' = expire_rows (of_tenant t) (ms now) st;
         active = sort_key (\<lambda>r. (collation (rw_resourceKey r), collation (rw_id r)))
           (filter (\<lambda>r. of_tenant t r \<and> rw_state r = ReservationActive \<and> rw_expiresAt r > ms now
              \<and> resource_head st' t (rw_resourceKey r) \<noteq> None) (rt_rows st'))
     in Inr (\<lparr>expiredReservationIds = sort (map rw_id expired),
        activeReservations = map (\<lambda>r. rowToReservation r (num_of_int (rh_capacityUnits (the (resource_head st' t (rw_resourceKey r)))))) active\<rparr>, st'))"

datatype reservation_command =
    Acquire reservation_request string
  | ReleaseReservation string string string
  | Reconcile string string

datatype reservation_answer = Acquired reservation bool | ReleasedReservation reservation | Reconciled reconciliation

fun reservation_transaction ::
    "(string \<Rightarrow> nat list) \<Rightarrow> (reservation_command, reservation_store, reservation_error, reservation_answer) transaction" where
  "reservation_transaction collation (Acquire v now) st =
     bind_result (acquire v now st) (\<lambda>r. Inr (Acquired (fst (fst r)) (snd (fst r)), snd r))"
| "reservation_transaction collation (ReleaseReservation t i at') st =
     bind_result (release_reservation t i at' st) (\<lambda>r. Inr (ReleasedReservation (fst r), snd r))"
| "reservation_transaction collation (Reconcile t now) st =
     bind_result (reconcile collation t now st) (\<lambda>r. Inr (Reconciled (fst r), snd r))"


section \<open>The invariant\<close>

definition held :: "string \<Rightarrow> string \<Rightarrow> reservation_row \<Rightarrow> bool" where
  "held t k r \<longleftrightarrow> of_resource t k r \<and> rw_state r = ReservationActive"

definition held_units :: "reservation_store \<Rightarrow> string \<Rightarrow> string \<Rightarrow> int" where
  "held_units st t k = total rw_units (held t k) (rt_rows st)"

definition resource_key :: "reservation_row \<Rightarrow> string \<times> string" where
  "resource_key r = (rw_tenantId r, rw_resourceKey r)"

definition head_key :: "reservation_head \<Rightarrow> string \<times> string" where
  "head_key b = (rh_tenantId b, rh_resourceKey b)"

definition reservation_inv :: "reservation_store \<Rightarrow> bool" where
  "reservation_inv st \<longleftrightarrow> distinct (map rw_id (rt_rows st)) \<and> (\<forall>r \<in> set (rt_rows st). 0 \<le> rw_units r)
     \<and> distinct (map head_key (rt_heads st)) \<and> (\<forall>r \<in> set (rt_rows st). resource_key r \<in> head_key ` set (rt_heads st))
     \<and> (\<forall>b \<in> set (rt_heads st). held_units st (rh_tenantId b) (rh_resourceKey b) \<le> rh_capacityUnits b)"

text \<open>Updates that keep every column but the state, and never reactivate a row, keep the invariant.\<close>

definition closing :: "(reservation_row \<Rightarrow> reservation_row) \<Rightarrow> bool" where
  "closing f \<longleftrightarrow> (\<forall>r. rw_id (f r) = rw_id r \<and> rw_tenantId (f r) = rw_tenantId r \<and> rw_resourceKey (f r) = rw_resourceKey r
     \<and> rw_units (f r) = rw_units r \<and> (rw_state (f r) = ReservationActive \<longrightarrow> rw_state r = ReservationActive))"

lemma closing_expire: "closing (expire_row P now)"
  by (auto simp: closing_def expire_row_def)

lemma closing_if:
  "closing f \<Longrightarrow> closing (\<lambda>r. if P r then f r else r)"
  by (auto simp: closing_def)

lemma closing_inv:
  assumes "closing f" and "reservation_inv st"
  shows "reservation_inv (st\<lparr>rt_rows := map f (rt_rows st)\<rparr>)" (is "reservation_inv ?st'")
proof -
  have keep: "rw_id (f r) = rw_id r" "rw_units (f r) = rw_units r" "resource_key (f r) = resource_key r"
    "held t k (f r) \<Longrightarrow> held t k r" for r t k
    using assms(1) by (auto simp: closing_def resource_key_def held_def of_resource_def)
  have "held_units ?st' t k \<le> held_units st t k" for t k
    unfolding held_units_def using assms(2) total_update_le [of "rt_rows st" rw_units f "held t k"] keep
    by (auto simp: reservation_inv_def)
  then show ?thesis using assms(2) unfolding reservation_inv_def
    by (fastforce simp: keep comp_def intro: order_trans)
qed

lemma expire_rows_inv: "reservation_inv st \<Longrightarrow> reservation_inv (expire_rows P now st)"
  unfolding expire_rows_def by (rule closing_inv [OF closing_expire])

lemma resource_head_mem:
  "resource_head st t k = Some b \<Longrightarrow> b \<in> set (rt_heads st) \<and> rh_tenantId b = t \<and> rh_resourceKey b = k"
  using find_SomeD unfolding resource_head_def by fastforce

lemma positive_safe_int:
  assumes "positive_safe n"
  shows "n = Fin (of_int (num_int n))" "0 < num_int n" "num_int n \<le> max_safe_integer"
proof -
  have "is_safe_integer n" "num_lt (Fin 0) n" using assms by (simp_all add: positive_safe_def)
  then show n: "n = Fin (of_int (num_int n))" "num_int n \<le> max_safe_integer" using safe_integer_int abs_le_D1 by blast+
  show "0 < num_int n" using \<open>num_lt (Fin 0) n\<close> n(1) by (metis num_lt.simps(1) of_int_0_less_iff)
qed

lemma ensure_resource_inv:
  assumes "reservation_inv st" and "valid_reservation v" and "ensure_resource v st = Inr st1"
  shows "reservation_inv st1"
proof (cases "resource_head st (rq_tenantId v) (rq_resourceKey v)")
  case (Some b)
  then show ?thesis using assms by (simp add: ensure_resource_def)
next
  case None
  let ?b = "\<lparr>rh_tenantId = rq_tenantId v, rh_resourceKey = rq_resourceKey v, rh_capacityUnits = num_int (rq_capacityUnits v)\<rparr>"
  have st1: "st1 = st\<lparr>rt_heads := rt_heads st @ [?b]\<rparr>" using None assms(3) by (simp add: ensure_resource_def split: if_splits)
  have new: "(rq_tenantId v, rq_resourceKey v) \<notin> head_key ` set (rt_heads st)"
    using None by (auto simp: resource_head_def find_None_iff head_key_def)
  then have "filter (held (rq_tenantId v) (rq_resourceKey v)) (rt_rows st) = []"
    using assms(1) unfolding reservation_inv_def filter_empty_conv held_def of_resource_def resource_key_def by metis
  moreover have "0 < num_int (rq_capacityUnits v)" using assms(2) positive_safe_int(2) by (simp add: valid_reservation_def)
  ultimately have "held_units st1 (rq_tenantId v) (rq_resourceKey v) \<le> num_int (rq_capacityUnits v)"
    by (simp add: held_units_def total_def st1)
  moreover have "held_units st1 t k = held_units st t k" for t k by (simp add: held_units_def st1)
  ultimately show ?thesis using assms(1) new unfolding reservation_inv_def st1 by (auto simp: head_key_def)
qed

lemma acquire_cases:
  assumes "acquire v now st = Inr ((r, replayed), st')"
  obtains (replay) st1 row where "valid_reservation v" "instant now" "ms (rq_acquiredAt v) \<le> ms now" "ms now < ms (rq_expiresAt v)"
      "ensure_resource v st = Inr st1" "capacity_matches v st1"
      "st' = expire_rows (of_resource (rq_tenantId v) (rq_resourceKey v)) (ms now) st1"
      "reservation_row_for st' (rq_tenantId v) (rq_id v) = Some row" "r = rowToReservation row (rq_capacityUnits v)"
      "sameReservation r v" "rs_state r = ReservationActive" "replayed"
    | (fresh) st1 st2 where "valid_reservation v" "instant now" "ms (rq_acquiredAt v) \<le> ms now" "ms now < ms (rq_expiresAt v)"
      "ensure_resource v st = Inr st1" "capacity_matches v st1"
      "st2 = expire_rows (of_resource (rq_tenantId v) (rq_resourceKey v)) (ms now) st1"
      "\<not> num_int (rq_capacityUnits v) < js_add (live_units st2 (rq_tenantId v) (rq_resourceKey v) (ms now)) (num_int (rq_units v))"
      "rq_id v \<notin> rw_id ` set (rt_rows st2)" "r = granted v" "\<not> replayed"
      "st' = st2\<lparr>rt_rows := rt_rows st2 @ [new_reservation_row v]\<rparr>"
proof -
  obtain st1 where st1: "valid_reservation v" "instant now" "ms (rq_acquiredAt v) \<le> ms now" "ms now < ms (rq_expiresAt v)"
    "ensure_resource v st = Inr st1" "capacity_matches v st1" using assms by (auto simp: acquire_def)
  let ?st2 = "expire_rows (of_resource (rq_tenantId v) (rq_resourceKey v)) (ms now) st1"
  show thesis
  proof (cases "reservation_row_for ?st2 (rq_tenantId v) (rq_id v)")
    case None
    then show thesis using assms st1 fresh by (auto simp: acquire_def Let_def split: if_splits)
  next
    case (Some row)
    then show thesis using assms st1 replay by (auto simp: acquire_def Let_def split: if_splits)
  qed
qed

text \<open>After the expiry of a resource's rows every active row of the resource is live.\<close>

lemma live_units_expired: "live_units (expire_rows (of_resource t k) now st) t k now = held_units (expire_rows (of_resource t k) now st) t k"
  unfolding live_units_def held_units_def
  by (rule total_cong) (auto simp: expire_rows_def expire_row_def held_def of_resource_def split: if_splits)

lemma held_units_new:
  "held_units (st\<lparr>rt_rows := rt_rows st @ [new_reservation_row v]\<rparr>) t k =
     held_units st t k + (if t = rq_tenantId v \<and> k = rq_resourceKey v then num_int (rq_units v) else 0)"
  by (auto simp: held_units_def total_Cons held_def of_resource_def new_reservation_row_def)

lemma held_units_nonneg: "reservation_inv st \<Longrightarrow> 0 \<le> held_units st t k"
  unfolding held_units_def reservation_inv_def by (blast intro: total_nonneg)

lemma new_row_inv:
  assumes inv: "reservation_inv st" and v: "valid_reservation v" and head: "capacity_matches v st"
    and limit: "\<not> num_int (rq_capacityUnits v) < js_add (held_units st (rq_tenantId v) (rq_resourceKey v)) (num_int (rq_units v))"
    and new: "rq_id v \<notin> rw_id ` set (rt_rows st)"
  shows "reservation_inv (st\<lparr>rt_rows := rt_rows st @ [new_reservation_row v]\<rparr>)" (is "reservation_inv ?st'")
proof -
  have units: "0 \<le> num_int (rq_units v)" "num_int (rq_capacityUnits v) \<le> max_safe_integer"
    using v positive_safe_int(2) [of "rq_units v"] positive_safe_int(3) by (auto simp: valid_reservation_def)
  obtain b where b: "resource_head st (rq_tenantId v) (rq_resourceKey v) = Some b" "num_of_int (rh_capacityUnits b) = rq_capacityUnits v"
    using head by (auto simp: capacity_matches_def split: option.splits)
  note mem = resource_head_mem [OF b(1)]
  have c: "rh_capacityUnits b = num_int (rq_capacityUnits v)" using b(2) [symmetric] by (simp add: num_of_int_def num_int_def)
  have limit': "held_units st (rq_tenantId v) (rq_resourceKey v) + num_int (rq_units v) \<le> num_int (rq_capacityUnits v)"
    using limit js_add_exceeds [OF held_units_nonneg [OF inv] units] by (simp add: not_less)
  have "held_units ?st' (rh_tenantId a) (rh_resourceKey a) \<le> rh_capacityUnits a" if a: "a \<in> set (rt_heads st)" for a
  proof (cases "rh_tenantId a = rq_tenantId v \<and> rh_resourceKey a = rq_resourceKey v")
    case True
    then have "a = b"
      using inv a mem distinct_key_eq [of head_key "rt_heads st" a b] unfolding reservation_inv_def by (simp add: head_key_def)
    then show ?thesis using limit' mem c by (simp add: held_units_new)
  next
    case False
    then show ?thesis using inv a unfolding reservation_inv_def by (auto simp: held_units_new)
  qed
  moreover have "resource_key (new_reservation_row v) \<in> head_key ` set (rt_heads st)"
    using mem by (force simp: new_reservation_row_def resource_key_def head_key_def)
  moreover have "rw_id (new_reservation_row v) = rq_id v" "0 \<le> rw_units (new_reservation_row v)"
    using units(1) by (simp_all add: new_reservation_row_def)
  ultimately show ?thesis using inv new unfolding reservation_inv_def by auto
qed

lemma capacity_matches_expire [simp]: "capacity_matches v (expire_rows P now st) = capacity_matches v st"
  by (simp add: capacity_matches_def resource_head_def expire_rows_def)

lemma acquire_inv:
  assumes "reservation_inv st" and "acquire v now st = Inr ((r, replayed), st')"
  shows "reservation_inv st'"
  using assms(2)
proof (cases rule: acquire_cases)
  case (replay st1 row)
  then show ?thesis using ensure_resource_inv [OF assms(1)] expire_rows_inv by blast
next
  case (fresh st1 st2)
  have "reservation_inv st2" using fresh ensure_resource_inv [OF assms(1)] expire_rows_inv by blast
  moreover have "\<not> num_int (rq_capacityUnits v) < js_add (held_units st2 (rq_tenantId v) (rq_resourceKey v)) (num_int (rq_units v))"
    using fresh(7,8) live_units_expired by metis
  ultimately show ?thesis using new_row_inv fresh by simp
qed

lemma closing_release: "closing (\<lambda>r. r\<lparr>rw_state := ReservationReleased, rw_releasedAt := x\<rparr>)" "closing (\<lambda>r. r\<lparr>rw_state := ReservationExpired\<rparr>)"
  by (auto simp: closing_def)

lemma release_cases:
  assumes "release_reservation t i at' st = Inr (r, st')"
  obtains (kept) row where "reservation_row_for st t i = Some row" "rw_state row \<noteq> ReservationActive" "st' = st"
    | (expired) row where "reservation_row_for st t i = Some row" "st' = set_row t i (\<lambda>r. r\<lparr>rw_state := ReservationExpired\<rparr>) st"
    | (released) row where "reservation_row_for st t i = Some row"
      "st' = set_row t i (\<lambda>r. r\<lparr>rw_state := ReservationReleased, rw_releasedAt := Some (ms at')\<rparr>) st"
proof -
  obtain row b where row: "reservation_row_for st t i = Some row" and b: "resource_head st t (rw_resourceKey row) = Some b"
    using assms by (auto simp: release_reservation_def split: option.splits)
  let ?r = "rowToReservation row (num_of_int (rh_capacityUnits b))"
  have state: "rs_state ?r = rw_state row" by (simp add: rowToReservation_def)
  have eq: "(if rw_state row = ReservationActive then
                if ms at' < ms (rs_acquiredAt ?r) then Inl InvalidReservation
                else if ms at' \<ge> ms (rs_expiresAt ?r)
                then Inr (?r\<lparr>rs_state := ReservationExpired\<rparr>, set_row t i (\<lambda>r. r\<lparr>rw_state := ReservationExpired\<rparr>) st)
                else Inr (?r\<lparr>rs_state := ReservationReleased, rs_releasedAt := Some at'\<rparr>,
                  set_row t i (\<lambda>r. r\<lparr>rw_state := ReservationReleased, rw_releasedAt := Some (ms at')\<rparr>) st)
              else Inr (?r, st)) = Inr (r, st')"
    using assms by (simp only: release_reservation_def row b Let_def option.case state guard_result_Inr_iff)
  consider "rw_state row \<noteq> ReservationActive" "st' = st"
    | "st' = set_row t i (\<lambda>r. r\<lparr>rw_state := ReservationExpired\<rparr>) st"
    | "st' = set_row t i (\<lambda>r. r\<lparr>rw_state := ReservationReleased, rw_releasedAt := Some (ms at')\<rparr>) st"
    using eq by (fastforce split: if_splits)
  then show thesis using row kept expired released by cases blast+
qed

lemma set_row_inv: "closing f \<Longrightarrow> reservation_inv st \<Longrightarrow> reservation_inv (set_row t i f st)"
  unfolding set_row_def by (rule closing_inv [OF closing_if])

lemma release_reservation_inv:
  assumes "reservation_inv st" and "release_reservation t i at' st = Inr (r, st')"
  shows "reservation_inv st'"
  using assms(2) by (cases rule: release_cases) (use assms(1) set_row_inv closing_release in blast)+

lemma reconcile_inv:
  "reservation_inv st \<Longrightarrow> reconcile collation t now st = Inr (r, st') \<Longrightarrow> reservation_inv st'"
  using expire_rows_inv by (auto simp: reconcile_def Let_def)

section \<open>Repetition\<close>

lemma expire_rows_idem: "expire_rows P now (expire_rows P now st) = expire_rows P now st"
  by (auto simp: expire_rows_def expire_row_def)

lemma ensure_resource_present:
  "resource_head st (rq_tenantId v) (rq_resourceKey v) = Some b \<Longrightarrow> ensure_resource v st = Inr st"
  by (simp add: ensure_resource_def)

lemma capacity_matches_present: "capacity_matches v st \<Longrightarrow> ensure_resource v st = Inr st"
  using ensure_resource_present by (auto simp: capacity_matches_def split: option.splits)

lemma instant_ms: "instant s \<Longrightarrow> toInstant (ms s) = s"
  using to_iso_parse by (fastforce simp: instant_iff toInstant_def ms_def)

lemma new_row_same:
  assumes "valid_reservation v"
  shows "sameReservation (rowToReservation (new_reservation_row v) (rq_capacityUnits v)) v"
proof -
  have "num_of_int (num_int (rq_units v)) = rq_units v" "rq_units v \<noteq> NaN" "rq_capacityUnits v \<noteq> NaN"
    using assms positive_safe_int(1) by (force simp: valid_reservation_def num_of_int_def positive_safe_def)+
  then show ?thesis using assms
    by (simp add: sameReservation_def rowToReservation_def new_reservation_row_def valid_reservation_def instant_ms num_eq_def)
qed

lemma acquire_again:
  assumes "valid_reservation v" "instant now" "ms (rq_acquiredAt v) \<le> ms now" "ms now < ms (rq_expiresAt v)" "capacity_matches v st"
    and "expire_rows (of_resource (rq_tenantId v) (rq_resourceKey v)) (ms now) st = st"
    and "reservation_row_for st (rq_tenantId v) (rq_id v) = Some row"
    and "sameReservation (rowToReservation row (rq_capacityUnits v)) v" and "rw_state row = ReservationActive"
  shows "acquire v now st = Inr ((rowToReservation row (rq_capacityUnits v), True), st)"
  using assms capacity_matches_present [OF assms(5)] by (simp add: acquire_def Let_def rowToReservation_def)

lemma acquire_repeat:
  assumes "acquire v now st = Inr ((r, replayed), st')"
  shows "\<exists>r'. acquire v now st' = Inr ((r', True), st')"
  using assms
proof (cases rule: acquire_cases)
  case (replay st1 row)
  have "rw_state row = ReservationActive" using replay by (simp add: rowToReservation_def)
  then show ?thesis using acquire_again [of v now st' row] replay by (auto simp: expire_rows_idem)
next
  case (fresh st1 st2)
  have "expire_rows (of_resource (rq_tenantId v) (rq_resourceKey v)) (ms now) st2 = st2"
    using fresh(7) by (simp add: expire_rows_idem)
  then have "expire_rows (of_resource (rq_tenantId v) (rq_resourceKey v)) (ms now) st' = st'"
    using fresh(4,12) by (auto simp: expire_rows_def expire_row_def new_reservation_row_def dest: arg_cong [of _ _ rt_rows])
  moreover have "capacity_matches v st'" using fresh by (simp add: capacity_matches_def resource_head_def expire_rows_def)
  moreover have "find (\<lambda>r. (rw_tenantId r, rw_id r) = (rq_tenantId v, rq_id v)) (rt_rows st2) = None"
    using fresh(9) by (auto simp: find_None_iff image_iff)
  then have "reservation_row_for st' (rq_tenantId v) (rq_id v) = Some (new_reservation_row v)"
    using fresh(12) by (simp add: reservation_row_for_def find_append new_reservation_row_def)
  ultimately show ?thesis
    using acquire_again [OF fresh(1-4), of st' "new_reservation_row v"] new_row_same [OF fresh(1)]
    by (auto simp: new_reservation_row_def)
qed

lemma row_for_set_row:
  assumes "closing f"
  shows "reservation_row_for (set_row t i f st) t i = map_option f (reservation_row_for st t i)"
proof -
  let ?g = "\<lambda>r. if (rw_tenantId r, rw_id r) = (t, i) then f r else r"
  have "(\<lambda>r. (rw_tenantId r, rw_id r) = (t, i)) \<circ> ?g = (\<lambda>r. (rw_tenantId r, rw_id r) = (t, i))"
    using assms by (auto simp: closing_def fun_eq_iff)
  then show ?thesis
    by (cases "find (\<lambda>r. (rw_tenantId r, rw_id r) = (t, i)) (rt_rows st)")
      (auto simp: reservation_row_for_def set_row_def find_map dest: find_SomeD)
qed

lemma release_closed:
  assumes "release_reservation t i at' st = Inr (r, st')" and "reservation_row_for st' t i = Some row"
    and "rw_state row \<noteq> ReservationActive" and "rt_heads st' = rt_heads st"
    and "\<And>row0. reservation_row_for st t i = Some row0 \<Longrightarrow> rw_resourceKey row = rw_resourceKey row0"
  shows "\<exists>r'. release_reservation t i at' st' = Inr (r', st')"
proof -
  obtain row0 b where "reservation_row_for st t i = Some row0" "resource_head st t (rw_resourceKey row0) = Some b"
    and g: "safe_id_pattern t \<and> safe_id_pattern i \<and> instant at'"
    using assms(1) by (auto simp: release_reservation_def split: option.splits)
  then have "resource_head st' t (rw_resourceKey row) = Some b" using assms(4,5) by (simp add: resource_head_def)
  then show ?thesis using assms(2,3) g by (simp add: release_reservation_def Let_def rowToReservation_def)
qed

lemma release_reservation_repeat:
  assumes "release_reservation t i at' st = Inr (r, st')"
  shows "\<exists>r'. release_reservation t i at' st' = Inr (r', st')"
  using assms
proof (cases rule: release_cases)
  case (kept row)
  then show ?thesis using assms by blast
next
  case (expired row)
  then show ?thesis
    using release_closed [OF assms, of "row\<lparr>rw_state := ReservationExpired\<rparr>"] row_for_set_row [OF closing_release(2), of t i st]
    by (simp add: set_row_def)
next
  case (released row)
  then show ?thesis
    using release_closed [OF assms, of "row\<lparr>rw_state := ReservationReleased, rw_releasedAt := Some (ms at')\<rparr>"]
      row_for_set_row [OF closing_release(1), of t i "Some (ms at')" st]
    by (simp add: set_row_def)
qed

lemma reconcile_repeat:
  "reconcile collation t now st = Inr (r, st') \<Longrightarrow> \<exists>r'. reconcile collation t now st' = Inr (r', st')"
  by (auto simp: reconcile_def Let_def expire_rows_idem)

lemma acquire_transaction_repeat:
  assumes "reservation_transaction collation (Acquire v now) st = Inr (a, st')"
  shows "\<exists>b. reservation_transaction collation (Acquire v now) st' = Inr (b, st')"
proof -
  obtain r replayed where "acquire v now st = Inr ((r, replayed), st')" using assms by auto
  from acquire_repeat [OF this] show ?thesis by auto
qed

lemma release_transaction_repeat:
  assumes "reservation_transaction collation (ReleaseReservation t i at') st = Inr (a, st')"
  shows "\<exists>b. reservation_transaction collation (ReleaseReservation t i at') st' = Inr (b, st')"
proof -
  obtain r where "release_reservation t i at' st = Inr (r, st')" using assms by auto
  from release_reservation_repeat [OF this] show ?thesis by auto
qed

lemma reconcile_transaction_repeat:
  assumes "reservation_transaction collation (Reconcile t now) st = Inr (a, st')"
  shows "\<exists>b. reservation_transaction collation (Reconcile t now) st' = Inr (b, st')"
proof -
  obtain r where "reconcile collation t now st = Inr (r, st')" using assms by auto
  from reconcile_repeat [OF this] show ?thesis by auto
qed

interpretation reservations: retry_safe_store "reservation_transaction collation" "empty_reservation_store tenants" reservation_inv
  for collation tenants
proof
  show "reservation_inv (empty_reservation_store tenants)"
    by (simp add: reservation_inv_def empty_reservation_store_def)
  show "reservation_inv st \<Longrightarrow> reservation_transaction collation c st = Inr (a, st') \<Longrightarrow> reservation_inv st'" for st c a st'
    by (cases c) (auto intro: acquire_inv release_reservation_inv reconcile_inv)
  show "reservation_inv st \<Longrightarrow> reservation_transaction collation c st = Inr (a, st') \<Longrightarrow>
      \<exists>b. reservation_transaction collation c st' = Inr (b, st')" for st c a st'
    using acquire_transaction_repeat release_transaction_repeat reconcile_transaction_repeat by (cases c) blast+
qed

section \<open>What the ledger guarantees\<close>

lemma reservation_inv_held:
  assumes "reservation_inv st"
  shows "held_units st t k \<le> (case resource_head st t k of None \<Rightarrow> 0 | Some b \<Rightarrow> rh_capacityUnits b)"
proof (cases "resource_head st t k")
  case None
  then have "(t, k) \<notin> head_key ` set (rt_heads st)" by (auto simp: resource_head_def find_None_iff head_key_def)
  then have "filter (held t k) (rt_rows st) = []"
    using assms unfolding reservation_inv_def filter_empty_conv held_def of_resource_def resource_key_def by metis
  then show ?thesis using None by (simp add: held_units_def total_def)
next
  case (Some b)
  then show ?thesis using assms resource_head_mem [OF Some] unfolding reservation_inv_def by auto
qed

text \<open>
  C37. A resource is never oversubscribed: whatever sequence of acquisitions, releases and
  reconciliations is attempted, by whatever tenants and with whatever clock readings, the units of the
  active reservations of a resource add up to at most the capacity recorded for it, and to nothing while
  no capacity is recorded.
\<close>

theorem resource_within_capacity:
  "held_units (run_commands (reservation_transaction collation) commands (empty_reservation_store tenants)) t k
    \<le> (case resource_head (run_commands (reservation_transaction collation) commands (empty_reservation_store tenants)) t k of
         None \<Rightarrow> 0 | Some b \<Rightarrow> rh_capacityUnits b)"
  by (rule reservation_inv_held [OF reservations.run_inv])

end
