(* ===== verification/Js_Number.thy ===== *)
theory Js_Number
  imports Canonical_Json
begin

text \<open>
  Arithmetic and sorting of the language where the scheduler uses them. A number is a double: each
  operation rounds the exact result to the nearest double, ties to an even significand, and to an
  infinity when the result is too large. The sign of a zero is not modelled; the modelled code does
  not observe it.

  \<open>Array.prototype.sort\<close> is stable. The locale \<open>comparator\<close> states what the comparison functions of
  the code must satisfy and proves what sorting by them gives; the components interpret it on their
  comparisons.
\<close>

section \<open>Doubles\<close>

function bit_length :: "int \<Rightarrow> int" where
  "bit_length n = (if n \<le> 0 then 0 else 1 + bit_length (n div 2))"
  by auto
termination by (relation "measure nat") auto

declare bit_length.simps [simp del]

text \<open>The quantum of the double next to a positive rational: significands have 53 bits, exponents at least \<open>-1074\<close>.\<close>

definition quantum_exponent :: "rat \<Rightarrow> int" where
  "quantum_exponent r =
     (let (p, q) = quotient_of r; e = bit_length p - bit_length q - 53
      in max (if r < 2 powi (e + 53) then e else e + 1) (- 1074))"

definition round_half_even :: "rat \<Rightarrow> int" where
  "round_half_even r =
     (let f = \<lfloor>r\<rfloor>; d = r - of_int f
      in if d < 1 / 2 then f else if d > 1 / 2 then f + 1 else if even f then f else f + 1)"

definition round_positive :: "rat \<Rightarrow> rat" where
  "round_positive r = (let e = quantum_exponent r in of_int (round_half_even (r / 2 powi e)) * 2 powi e)"

definition js_round :: "rat \<Rightarrow> jsnum" where
  "js_round r =
     (if r = 0 then Fin 0
      else let m = round_positive \<bar>r\<bar> in
        if m \<ge> 2 ^ 1024 then (if r > 0 then PosInf else NegInf) else Fin (if r > 0 then m else - m))"

fun js_plus :: "jsnum \<Rightarrow> jsnum \<Rightarrow> jsnum" where
  "js_plus (Fin a) (Fin b) = js_round (a + b)"
| "js_plus NaN _ = NaN"
| "js_plus _ NaN = NaN"
| "js_plus PosInf NegInf = NaN"
| "js_plus NegInf PosInf = NaN"
| "js_plus PosInf _ = PosInf"
| "js_plus NegInf _ = NegInf"
| "js_plus _ PosInf = PosInf"
| "js_plus _ NegInf = NegInf"

fun js_negate :: "jsnum \<Rightarrow> jsnum" where
  "js_negate (Fin a) = Fin (- a)"
| "js_negate PosInf = NegInf"
| "js_negate NegInf = PosInf"
| "js_negate NaN = NaN"

definition js_minus :: "jsnum \<Rightarrow> jsnum \<Rightarrow> jsnum" where
  "js_minus a b = js_plus a (js_negate b)"

text \<open>Scaling by a positive constant and dividing by one, which is all the code does.\<close>

fun js_scale :: "rat \<Rightarrow> jsnum \<Rightarrow> jsnum" where
  "js_scale k (Fin a) = js_round (a * k)"
| "js_scale k n = n"

fun js_unscale :: "rat \<Rightarrow> jsnum \<Rightarrow> jsnum" where
  "js_unscale k (Fin a) = js_round (a / k)"
| "js_unscale k n = n"

definition js_max :: "jsnum \<Rightarrow> jsnum \<Rightarrow> jsnum" where
  "js_max a b = (if a = NaN \<or> b = NaN then NaN else if num_lt a b then b else a)"

definition js_min :: "jsnum \<Rightarrow> jsnum \<Rightarrow> jsnum" where
  "js_min a b = (if a = NaN \<or> b = NaN then NaN else if num_lt b a then b else a)"

text \<open>\<open>Math.round\<close>: ties towards positive infinity.\<close>

fun math_round :: "jsnum \<Rightarrow> jsnum" where
  "math_round (Fin a) = num_of_int \<lfloor>a + 1 / 2\<rfloor>"
| "math_round n = n"

text \<open>\<open>toFixed(2)\<close> of a number below \<open>10 ^ 21\<close>.\<close>

definition two_digits :: "int \<Rightarrow> string" where
  "two_digits n = (if n < 10 then ''0'' @ int_text n else int_text n)"

definition to_fixed2 :: "rat \<Rightarrow> string" where
  "to_fixed2 r =
     (let n = \<lfloor>\<bar>r\<bar> * 100 + 1 / 2\<rfloor>
      in (if r < 0 then ''-'' else []) @ int_text (n div 100) @ ''.'' @ two_digits (n mod 100))"

lemma num_lt_linear: "a \<noteq> NaN \<Longrightarrow> b \<noteq> NaN \<Longrightarrow> num_lt a b \<or> a = b \<or> num_lt b a"
  by (cases a; cases b) auto

lemma js_scale_NaN [simp]: "a \<noteq> NaN \<Longrightarrow> js_scale k a \<noteq> NaN"
  by (cases a) (auto simp: js_round_def Let_def)

lemma js_round_not_NaN [simp]: "js_round r \<noteq> NaN"
  by (auto simp: js_round_def Let_def)


text \<open>Rounding at most doubles a positive number, so sums of moderate numbers stay finite.\<close>

lemma bit_length_bounds:
  "0 < n \<Longrightarrow> 0 < bit_length n \<and> 2 ^ nat (bit_length n - 1) \<le> n \<and> n < 2 ^ nat (bit_length n)"
proof (induction n rule: bit_length.induct)
  case (1 n)
  show ?case
  proof (cases "n = 1")
    case True
    then show ?thesis by (simp add: bit_length.simps)
  next
    case False
    then have half: "0 < n div 2" using 1(2) by linarith
    then have IH: "0 < bit_length (n div 2)" "2 ^ nat (bit_length (n div 2) - 1) \<le> n div 2" "n div 2 < 2 ^ nat (bit_length (n div 2))"
      using 1 by auto
    have b: "bit_length n = 1 + bit_length (n div 2)" using 1(2) by (simp add: bit_length.simps [of n])
    obtain k where k: "bit_length (n div 2) = int (Suc k)" using IH(1) by (metis gr0_implies_Suc zero_less_imp_eq_int)
    have p: "2 ^ k \<le> n div 2" "n div 2 < 2 ^ Suc k" using IH(2,3) k by (simp_all add: nat_add_distrib)
    have "nat (bit_length n - 1) = Suc k" "nat (bit_length n) = Suc (Suc k)" "0 < bit_length n" using b k by auto
    moreover have "2 ^ Suc k \<le> n" using p(1) by simp
    moreover have "n < 2 ^ Suc (Suc k)" using p(2) by simp
    ultimately show ?thesis by metis
  qed
qed

lemma int_power_powi: "0 \<le> k \<Longrightarrow> rat_of_int (2 ^ nat k) = 2 powi k"
  by (simp add: power_int_def)

lemma quantum_le:
  assumes "0 < r" shows "2 powi quantum_exponent r \<le> r + 1"
proof -
  obtain p q where pq: "quotient_of r = (p, q)" by fastforce
  then have q: "0 < q" and r: "r = of_int p / of_int q" by (simp_all add: quotient_of_denom_pos quotient_of_div)
  then have p: "0 < p" using assms by (simp add: zero_less_divide_iff)
  let ?e = "bit_length p - bit_length q - 53"
  note bp = bit_length_bounds [OF p] and bq = bit_length_bounds [OF q]
  have "2 powi (bit_length p - 1) \<le> rat_of_int p" using bp int_power_powi [of "bit_length p - 1"] by (simp del: of_int_power flip: of_int_le_iff)
  moreover have "rat_of_int q \<le> 2 powi bit_length q" using bq int_power_powi [of "bit_length q"] by (simp del: of_int_power flip: of_int_le_iff)
  ultimately have "2 powi (bit_length p - 1) / 2 powi bit_length q \<le> r"
    unfolding r using q p by (intro frac_le) simp_all
  then have "2 powi (bit_length p - 1 - bit_length q) \<le> r" by (simp add: power_int_diff)
  moreover have "(2 :: rat) powi (?e + 1) \<le> 2 powi (bit_length p - 1 - bit_length q)" by (rule power_int_increasing) simp_all
  ultimately have top: "2 powi (?e + 1) \<le> r" by linarith
  have low: "(2 :: rat) powi (- 1074) \<le> 1" by (simp add: power_int_minus)
  have "quantum_exponent r \<le> max (?e + 1) (- 1074)" by (auto simp: quantum_exponent_def pq Let_def)
  then have "(2 :: rat) powi quantum_exponent r \<le> 2 powi max (?e + 1) (- 1074)" by (rule power_int_increasing) simp_all
  also have "\<dots> \<le> r + 1" using top low assms by (auto simp: max_def)
  finally show ?thesis .
qed

lemma round_half_even_bounds: "of_int (round_half_even x) \<le> x + 1" "0 \<le> x \<Longrightarrow> 0 \<le> round_half_even x"
  by (auto simp: round_half_even_def Let_def) linarith+

lemma round_positive_bounds:
  assumes "0 < r" shows "0 \<le> round_positive r" "round_positive r \<le> 2 * r + 1"
proof -
  let ?q = "2 powi quantum_exponent r :: rat"
  have q: "0 < ?q" by simp
  show "0 \<le> round_positive r"
    using round_half_even_bounds(2) [of "r / ?q"] assms q by (simp add: round_positive_def Let_def)
  have "round_positive r \<le> (r / ?q + 1) * ?q"
    unfolding round_positive_def Let_def using round_half_even_bounds(1) q by (intro mult_right_mono) simp_all
  also have "\<dots> = r + ?q" using q by (simp add: field_simps)
  finally show "round_positive r \<le> 2 * r + 1" using quantum_le [OF assms] by linarith
qed

definition below :: "jsnum \<Rightarrow> rat \<Rightarrow> bool" where
  "below n b \<longleftrightarrow> (\<exists>r. n = Fin r \<and> 0 \<le> r \<and> r \<le> b)"

lemma below_js_round:
  assumes "0 \<le> r" and "r \<le> 2 ^ 64" shows "below (js_round r) (2 * r + 1)"
proof (cases "r = 0")
  case False
  then have r: "0 < r" using assms(1) by simp
  have "round_positive r \<le> 2 * 2 ^ 64 + 1" using round_positive_bounds(2) [OF r] assms(2) by linarith
  then have "\<not> 2 ^ 1024 \<le> round_positive r" by (simp add: not_le)
  then show ?thesis using r round_positive_bounds [OF r] by (simp add: js_round_def Let_def below_def)
qed (simp add: js_round_def below_def)

lemma below_mono: "below a A \<Longrightarrow> A \<le> B \<Longrightarrow> below a B"
  by (auto simp: below_def)

lemma below_plus:
  assumes "below a A" and "below b B" and "A + B \<le> 2 ^ 64" shows "below (js_plus a b) (2 * (A + B) + 1)"
proof -
  obtain r s where "a = Fin r" "b = Fin s" and rs: "0 \<le> r" "r \<le> A" "0 \<le> s" "s \<le> B" using assms by (auto simp: below_def)
  moreover have "below (js_round (r + s)) (2 * (r + s) + 1)" by (rule below_js_round) (use rs assms(3) in linarith)+
  ultimately show ?thesis using below_mono rs by (simp add: below_mono)
qed

lemma below_scale:
  assumes "below a A" and "0 \<le> k" and "k * A \<le> 2 ^ 64" shows "below (js_scale k a) (2 * (k * A) + 1)"
proof -
  obtain r where r: "a = Fin r" "0 \<le> r" "r \<le> A" using assms by (auto simp: below_def)
  then have le: "r * k \<le> k * A" using assms(2) by (metis mult.commute mult_left_mono)
  have "below (js_round (r * k)) (2 * (r * k) + 1)" by (rule below_js_round) (use r assms(2,3) le in simp_all)
  then have "below (js_round (r * k)) (2 * (k * A) + 1)" by (rule below_mono) (use le in linarith)
  then show ?thesis by (simp add: r(1))
qed

section \<open>Sorting\<close>

fun insort_by :: "('a \<Rightarrow> 'a \<Rightarrow> bool) \<Rightarrow> 'a \<Rightarrow> 'a list \<Rightarrow> 'a list" where
  "insort_by le x [] = [x]"
| "insort_by le x (y # ys) = (if le x y then x # y # ys else y # insort_by le x ys)"

fun js_sort :: "('a \<Rightarrow> 'a \<Rightarrow> bool) \<Rightarrow> 'a list \<Rightarrow> 'a list" where
  "js_sort le [] = []"
| "js_sort le (x # xs) = insort_by le x (js_sort le xs)"

lemma set_insort_by [simp]: "set (insort_by le x xs) = insert x (set xs)"
  by (induction xs) auto

lemma set_js_sort [simp]: "set (js_sort le xs) = set xs"
  by (induction xs) auto

lemma length_insort_by [simp]: "length (insort_by le x xs) = Suc (length xs)"
  by (induction xs) auto

lemma length_js_sort [simp]: "length (js_sort le xs) = length xs"
  by (induction xs) auto

lemma js_sort_Nil_iff [simp]: "js_sort le xs = [] \<longleftrightarrow> xs = []"
  by (metis length_0_conv length_js_sort)

lemma distinct_insort_by [simp]: "distinct (insort_by le x xs) \<longleftrightarrow> x \<notin> set xs \<and> distinct xs"
  by (induction xs) auto

lemma distinct_js_sort [simp]: "distinct (js_sort le xs) = distinct xs"
  by (induction xs) auto

text \<open>A symmetric relation between all elements does not depend on the order.\<close>

lemma sorted_wrt_insort_by:
  "(\<And>a b. R a b = R b a) \<Longrightarrow> sorted_wrt R (insort_by le x xs) \<longleftrightarrow> (\<forall>y \<in> set xs. R x y) \<and> sorted_wrt R xs"
  by (induction xs) auto

lemma sorted_wrt_js_sort: "(\<And>a b. R a b = R b a) \<Longrightarrow> sorted_wrt R (js_sort le xs) = sorted_wrt R xs"
  by (induction xs) (simp_all add: sorted_wrt_insort_by)

locale comparator =
  fixes le :: "'a \<Rightarrow> 'a \<Rightarrow> bool" and ok :: "'a \<Rightarrow> bool"
  assumes le_total: "ok x \<Longrightarrow> ok y \<Longrightarrow> le x y \<or> le y x"
    and le_trans: "ok x \<Longrightarrow> ok y \<Longrightarrow> ok z \<Longrightarrow> le x y \<Longrightarrow> le y z \<Longrightarrow> le x z"
begin

lemma sorted_insort_by:
  "ok x \<Longrightarrow> (\<And>y. y \<in> set xs \<Longrightarrow> ok y) \<Longrightarrow> sorted_wrt le xs \<Longrightarrow> sorted_wrt le (insort_by le x xs)"
proof (induction xs)
  case (Cons y ys)
  show ?case
  proof (cases "le x y")
    case True
    then have "le x z" if "z \<in> set ys" for z using Cons.prems le_trans that by (metis list.set_intros sorted_wrt.simps(2))
    with True Cons.prems show ?thesis by simp
  next
    case False
    then have "le y x" using Cons.prems le_total by (metis list.set_intros(1))
    with False Cons show ?thesis by simp
  qed
qed simp

lemma sorted_js_sort: "(\<And>x. x \<in> set xs \<Longrightarrow> ok x) \<Longrightarrow> sorted_wrt le (js_sort le xs)"
proof (induction xs)
  case (Cons x xs)
  then show ?case using sorted_insort_by [of x "js_sort le xs"] by simp
qed simp

text \<open>The first element of the sorted list comes before every element.\<close>

lemma hd_js_sort:
  assumes "\<And>x. x \<in> set xs \<Longrightarrow> ok x" and "js_sort le xs = y # ys" and "x \<in> set xs"
  shows "le y x"
proof -
  have "x = y \<or> x \<in> set ys" using assms(2,3) set_js_sort [of le xs] by auto
  moreover have "ok y" using assms(1,2) set_js_sort [of le xs] by auto
  moreover have "sorted_wrt le (y # ys)" using sorted_js_sort [of xs] assms(1,2) by simp
  ultimately show ?thesis using le_total by auto
qed

end

text \<open>Ordering by one comparison, then by another where the first does not decide.\<close>

definition then_by :: "('a \<Rightarrow> 'a \<Rightarrow> bool) \<Rightarrow> ('a \<Rightarrow> 'a \<Rightarrow> bool) \<Rightarrow> 'a \<Rightarrow> 'a \<Rightarrow> bool" where
  "then_by le le' x y \<longleftrightarrow> le x y \<and> (le y x \<longrightarrow> le' x y)"

lemma comparator_then_by:
  assumes "comparator le ok" and "comparator le' ok"
  shows "comparator (then_by le le') ok"
proof -
  note a = comparator.le_total [OF assms(1)] comparator.le_trans [OF assms(1)]
    comparator.le_total [OF assms(2)] comparator.le_trans [OF assms(2)]
  show ?thesis
  proof
    show "ok x \<Longrightarrow> ok y \<Longrightarrow> then_by le le' x y \<or> then_by le le' y x" for x y
      using a unfolding then_by_def by blast
    show "ok x \<Longrightarrow> ok y \<Longrightarrow> ok z \<Longrightarrow> then_by le le' x y \<Longrightarrow> then_by le le' y z \<Longrightarrow> then_by le le' x z" for x y z
      using a unfolding then_by_def by meson
  qed
qed

lemma comparator_key: "comparator (\<lambda>x y. f x \<le> (f y :: 'k :: linorder)) ok"
  by unfold_locales auto

lemma comparator_key_desc: "comparator (\<lambda>x y. f y \<le> (f x :: 'k :: linorder)) ok"
  by unfold_locales auto

lemma comparator_desc_num:
  "(\<And>x. ok x \<Longrightarrow> f x \<noteq> NaN) \<Longrightarrow> comparator (\<lambda>x y. num_le (f y) (f x)) ok"
proof
  assume nan: "\<And>x. ok x \<Longrightarrow> f x \<noteq> NaN"
  show "ok x \<Longrightarrow> ok y \<Longrightarrow> num_le (f y) (f x) \<or> num_le (f x) (f y)" for x y
    using nan not_num_lt_le num_lt_linear unfolding num_le_def num_eq_def by blast
  show "ok x \<Longrightarrow> ok y \<Longrightarrow> ok z \<Longrightarrow> num_le (f y) (f x) \<Longrightarrow> num_le (f z) (f y) \<Longrightarrow> num_le (f z) (f x)" for x y z
    using num_le_trans by blast
qed

end
