(* ===== verification/Scheduling.thy ===== *)
theory Scheduling
  imports Js_Number Ledger "HOL-Library.Product_Lexorder"
begin

text \<open>
  The scheduling facts: \<open>src/scheduler/v1/constraints.ts\<close>, \<open>placement.ts\<close>, \<open>availability.ts\<close> and
  \<open>bottleneck.ts\<close>. Fields that the code checks against a list of words are texts; rejections are the
  words of the source. \<open>localeCompare\<close> compares collation keys; the keys are the parameter \<open>collate\<close>.
\<close>

definition safe_int :: "jsnum \<Rightarrow> bool" where
  "safe_int n = is_safe_integer n"

definition negative :: "jsnum \<Rightarrow> bool" where
  "negative n = num_lt n (Fin 0)"

text \<open>\<open>Date.parse\<close> of a text the code has checked to be an instant.\<close>

definition at_ms :: "string \<Rightarrow> int" where
  "at_ms v = the (date_parse v)"


section \<open>Constraints\<close>

definition privacyClassesV1 :: "string list" where
  "privacyClassesV1 = [''local'', ''private_tenant'', ''approved_provider'']"

definition qualityClassesV1 :: "string list" where
  "qualityClassesV1 = [''unavailable'', ''provisional'', ''verified'']"

type_synonym rejection = string

record cost_fact =
  cf_estimatedMicrousd :: jsnum
  cf_limitMicrousd :: jsnum

record privacy_fact =
  pf_privacyClass :: string
  pf_allowedPrivacyClasses :: "string list"

record quality_fact =
  qf_observed :: string
  qf_minimum :: string

record deadline_fact =
  df_predictedFinishAt :: string
  df_deadlineAt :: string
  df_enforcement :: string

record scheduling_constraints =
  sc_cost :: "cost_fact option"
  sc_privacy :: "privacy_fact option"
  sc_quality :: "quality_fact option"
  sc_deadline :: "deadline_fact option"
  sc_resourceState :: "string option"

definition invalid_constraints :: "scheduling_constraints \<Rightarrow> bool" where
  "invalid_constraints c \<longleftrightarrow>
     (case sc_cost c of None \<Rightarrow> False | Some x \<Rightarrow>
        \<not> safe_int (cf_estimatedMicrousd x) \<or> negative (cf_estimatedMicrousd x)
        \<or> \<not> safe_int (cf_limitMicrousd x) \<or> negative (cf_limitMicrousd x))
     \<or> (case sc_privacy c of None \<Rightarrow> False | Some x \<Rightarrow>
          pf_privacyClass x \<notin> set privacyClassesV1 \<or> pf_allowedPrivacyClasses x = []
          \<or> \<not> distinct (pf_allowedPrivacyClasses x) \<or> \<not> list_all (\<lambda>v. v \<in> set privacyClassesV1) (pf_allowedPrivacyClasses x))
     \<or> (case sc_quality c of None \<Rightarrow> False | Some x \<Rightarrow>
          qf_observed x \<notin> set qualityClassesV1 \<or> qf_minimum x \<notin> set qualityClassesV1)
     \<or> (case sc_deadline c of None \<Rightarrow> False | Some x \<Rightarrow>
          \<not> instant (df_predictedFinishAt x) \<or> \<not> instant (df_deadlineAt x) \<or> df_enforcement x \<notin> {''soft'', ''hard''})
     \<or> (truthy_text (sc_resourceState c) \<and> the (sc_resourceState c) \<notin> {''available'', ''maintenance'', ''draining''})"

fun index_of :: "'a \<Rightarrow> 'a list \<Rightarrow> int" where
  "index_of x [] = - 1"
| "index_of x (y # ys) = (if x = y then 0 else if index_of x ys = - 1 then - 1 else index_of x ys + 1)"

definition push_if :: "bool \<Rightarrow> 'a \<Rightarrow> 'a list" where
  "push_if b x = (if b then [x] else [])"

lemma set_push_if [simp]: "set (push_if b x) = (if b then {x} else {})"
  by (cases b) (simp_all add: push_if_def)

lemma push_if_Nil [simp]: "push_if b x = [] \<longleftrightarrow> \<not> b"
  by (cases b) (simp_all add: push_if_def)

definition cost_exceeded :: "scheduling_constraints \<Rightarrow> bool" where
  "cost_exceeded c = (case sc_cost c of None \<Rightarrow> False | Some x \<Rightarrow> num_lt (cf_limitMicrousd x) (cf_estimatedMicrousd x))"

definition privacy_denied :: "scheduling_constraints \<Rightarrow> bool" where
  "privacy_denied c = (case sc_privacy c of None \<Rightarrow> False | Some x \<Rightarrow> pf_privacyClass x \<notin> set (pf_allowedPrivacyClasses x))"

definition quality_insufficient :: "scheduling_constraints \<Rightarrow> bool" where
  "quality_insufficient c = (case sc_quality c of None \<Rightarrow> False | Some x \<Rightarrow>
     index_of (qf_observed x) qualityClassesV1 < index_of (qf_minimum x) qualityClassesV1)"

definition deadline_missed :: "scheduling_constraints \<Rightarrow> bool" where
  "deadline_missed c = (case sc_deadline c of None \<Rightarrow> False | Some x \<Rightarrow>
     df_enforcement x = ''hard'' \<and> at_ms (df_deadlineAt x) < at_ms (df_predictedFinishAt x))"

definition evaluateSchedulingConstraintsV1 :: "scheduling_constraints \<Rightarrow> rejection list" where
  "evaluateSchedulingConstraintsV1 c =
     (if invalid_constraints c then [''invalid_candidate'']
      else sort (push_if (cost_exceeded c) ''cost_limit_exceeded'' @ push_if (privacy_denied c) ''privacy_denied''
        @ push_if (quality_insufficient c) ''quality_insufficient'' @ push_if (deadline_missed c) ''deadline_missed''
        @ push_if (sc_resourceState c = Some ''maintenance'') ''maintenance''
        @ push_if (sc_resourceState c = Some ''draining'') ''resource_draining''))"


section \<open>Placement\<close>

definition placementModesV1 :: "string list" where
  "placementModesV1 = [''exclusive'', ''preferred'', ''shared'', ''opportunistic'', ''manual'']"

record placement_subject =
  ps_projectId :: string
  ps_workItemId :: string
  ps_routeId :: string

record placement_constraint =
  pc_resourceKey :: string
  pc_mode :: string
  pc_draining :: "bool option"
  pc_exclusiveProjectId :: "string option"
  pc_preferredProjectIds :: "string list option"
  pc_projectsWithEligibleWaitingWork :: "string list option"
  pc_normalEligibleWorkWaiting :: "bool option"
  pc_manualAssignment :: "placement_subject option"

definition validIds :: "string list option \<Rightarrow> bool" where
  "validIds values = (case values of None \<Rightarrow> True | Some vs \<Rightarrow> distinct vs \<and> list_all safe_id_pattern vs)"

definition subject_ids :: "placement_subject \<Rightarrow> string list" where
  "subject_ids s = [ps_projectId s, ps_workItemId s, ps_routeId s]"

definition invalid_placement :: "placement_subject \<Rightarrow> placement_constraint \<Rightarrow> bool" where
  "invalid_placement s p \<longleftrightarrow>
     \<not> list_all safe_id_pattern (subject_ids s @ [pc_resourceKey p])
     \<or> pc_mode p \<notin> set placementModesV1
     \<or> \<not> validIds (pc_preferredProjectIds p) \<or> \<not> validIds (pc_projectsWithEligibleWaitingWork p)
     \<or> (case pc_exclusiveProjectId p of None \<Rightarrow> False | Some v \<Rightarrow> \<not> safe_id_pattern v)
     \<or> (case pc_manualAssignment p of None \<Rightarrow> False | Some a \<Rightarrow> \<not> list_all safe_id_pattern (subject_ids a))
     \<or> (pc_mode p = ''exclusive'' \<and> \<not> truthy_text (pc_exclusiveProjectId p))
     \<or> (pc_mode p = ''preferred'' \<and> (case pc_preferredProjectIds p of None \<Rightarrow> True | Some vs \<Rightarrow> vs = []))
     \<or> (pc_mode p = ''opportunistic'' \<and> pc_normalEligibleWorkWaiting p = None)"

definition default :: "'a \<Rightarrow> 'a option \<Rightarrow> 'a" where
  "default d x = (case x of None \<Rightarrow> d | Some v \<Rightarrow> v)"

definition placementRejectionV1 :: "placement_subject \<Rightarrow> placement_constraint \<Rightarrow> rejection option" where
  "placementRejectionV1 s p =
     (if invalid_placement s p then Some ''invalid_candidate''
      else if pc_draining p = Some True then Some ''resource_draining''
      else if pc_mode p = ''exclusive'' then
        (if Some (ps_projectId s) = pc_exclusiveProjectId p then None else Some ''exclusive_resource_owned'')
      else if pc_mode p = ''preferred'' then
        (let preferred = default [] (pc_preferredProjectIds p) in
         if ps_projectId s \<in> set preferred then None
         else if list_ex (\<lambda>v. v \<in> set (default [] (pc_projectsWithEligibleWaitingWork p))) preferred
         then Some ''preferred_resource_reserved'' else None)
      else if pc_mode p = ''shared'' then None
      else if pc_mode p = ''opportunistic'' then
        (if pc_normalEligibleWorkWaiting p = Some True then Some ''opportunistic_work_deferred'' else None)
      else (if pc_manualAssignment p = Some s then None else Some ''manual_assignment_required''))"


section \<open>Availability\<close>

record availability_window =
  aw_startsAt :: string
  aw_endsAt :: string
  aw_capacityUnits :: jsnum

record availability_request =
  aq_resourceKey :: string
  aq_requestedFrom :: string
  aq_requestedUntil :: string
  aq_units :: jsnum
  aq_windows :: "availability_window list"

record availability_decision =
  ad_eligible :: bool
  ad_reason :: "rejection option"
  ad_matchedWindow :: "availability_window option"
  ad_explanation :: string

definition positive_units :: "jsnum \<Rightarrow> bool" where
  "positive_units n \<longleftrightarrow> is_safe_integer n \<and> num_lt (Fin 0) n"

definition bad_window :: "availability_window \<Rightarrow> bool" where
  "bad_window w \<longleftrightarrow> \<not> instant (aw_startsAt w) \<or> \<not> instant (aw_endsAt w) \<or> at_ms (aw_endsAt w) \<le> at_ms (aw_startsAt w)
     \<or> \<not> positive_units (aw_capacityUnits w)"

definition window_before :: "availability_window \<Rightarrow> availability_window \<Rightarrow> bool" where
  "window_before = then_by (\<lambda>a b. at_ms (aw_startsAt a) \<le> at_ms (aw_startsAt b)) (\<lambda>a b. at_ms (aw_endsAt a) \<le> at_ms (aw_endsAt b))"

fun overlapping :: "availability_window list \<Rightarrow> bool" where
  "overlapping (a # b # ws) \<longleftrightarrow> at_ms (aw_startsAt b) < at_ms (aw_endsAt a) \<or> overlapping (b # ws)"
| "overlapping _ \<longleftrightarrow> False"

definition normalizedWindows :: "availability_window list \<Rightarrow> availability_window list option" where
  "normalizedWindows ws =
     (if ws = [] \<or> list_ex bad_window ws then None
      else let sorted = js_sort window_before ws in if overlapping sorted then None else Some sorted)"

definition units_text :: "jsnum \<Rightarrow> string" where
  "units_text n = num_text (num_value n)"

definition contains_interval :: "availability_request \<Rightarrow> availability_window \<Rightarrow> bool" where
  "contains_interval q w \<longleftrightarrow> at_ms (aw_startsAt w) \<le> at_ms (aq_requestedFrom q) \<and> at_ms (aq_requestedUntil q) \<le> at_ms (aw_endsAt w)"

definition valid_request :: "availability_request \<Rightarrow> bool" where
  "valid_request q \<longleftrightarrow> safe_id_pattern (aq_resourceKey q) \<and> instant (aq_requestedFrom q) \<and> instant (aq_requestedUntil q)
     \<and> at_ms (aq_requestedFrom q) < at_ms (aq_requestedUntil q) \<and> positive_units (aq_units q)"

definition evaluateResourceAvailabilityV1 :: "availability_request \<Rightarrow> availability_decision" where
  "evaluateResourceAvailabilityV1 q =
     (case normalizedWindows (aq_windows q) of
        None \<Rightarrow> \<lparr>ad_eligible = False, ad_reason = Some ''invalid_candidate'', ad_matchedWindow = None,
          ad_explanation = ''Resource availability facts are invalid or ambiguous.''\<rparr>
      | Some windows \<Rightarrow>
          if \<not> valid_request q
          then \<lparr>ad_eligible = False, ad_reason = Some ''invalid_candidate'', ad_matchedWindow = None,
            ad_explanation = ''Resource availability facts are invalid or ambiguous.''\<rparr>
          else case find (contains_interval q) windows of
            None \<Rightarrow> \<lparr>ad_eligible = False, ad_reason = Some ''outside_availability_window'', ad_matchedWindow = None,
              ad_explanation = aq_resourceKey q @ '' is not declared available for the complete requested interval.''\<rparr>
          | Some w \<Rightarrow>
              if num_lt (aw_capacityUnits w) (aq_units q)
              then \<lparr>ad_eligible = False, ad_reason = Some ''insufficient_window_capacity'', ad_matchedWindow = Some w,
                ad_explanation = aq_resourceKey q @ '' has '' @ units_text (aw_capacityUnits w)
                  @ '' declared units during the requested interval; '' @ units_text (aq_units q) @ '' are required.''\<rparr>
              else \<lparr>ad_eligible = True, ad_reason = None, ad_matchedWindow = Some w,
                ad_explanation = aq_resourceKey q @ '' has '' @ units_text (aw_capacityUnits w)
                  @ '' declared units for the complete requested interval.''\<rparr>)"


section \<open>Bottlenecks and relief\<close>

record resource_pressure =
  rp_resourceKey :: string
  rp_capacityUnits :: jsnum
  rp_reservedUnits :: jsnum
  rp_blockedWorkItemIds :: "string list"

record bottleneck =
  bn_resourceKey :: string
  bn_utilizationPercent :: jsnum
  bn_blockedWorkItemIds :: "string list"
  bn_explanation :: string

definition pressure_counts :: "resource_pressure \<Rightarrow> bool" where
  "pressure_counts r \<longleftrightarrow> safe_id_pattern (rp_resourceKey r) \<and> list_all safe_id_pattern (rp_blockedWorkItemIds r)
     \<and> positive_units (rp_capacityUnits r) \<and> is_safe_integer (rp_reservedUnits r) \<and> \<not> negative (rp_reservedUnits r)
     \<and> \<not> num_lt (rp_capacityUnits r) (rp_reservedUnits r) \<and> rp_blockedWorkItemIds r \<noteq> []"

definition utilization :: "resource_pressure \<Rightarrow> jsnum" where
  "utilization r = js_unscale 100 (math_round (js_scale 10000 (js_unscale (num_value (rp_capacityUnits r)) (rp_reservedUnits r))))"

definition measured :: "resource_pressure \<Rightarrow> bottleneck" where
  "measured r =
     (let blocked = sort (remdups (rp_blockedWorkItemIds r)) in
      \<lparr>bn_resourceKey = rp_resourceKey r, bn_utilizationPercent = utilization r, bn_blockedWorkItemIds = blocked,
       bn_explanation = rp_resourceKey r @ '' is '' @ to_fixed2 (num_value (utilization r)) @ ''% reserved and is blocking ''
         @ int_text (int (length blocked)) @ '' waiting work item'' @ (if length blocked = 1 then [] else ''s'') @ ''.''\<rparr>)"

definition tighter :: "(string \<Rightarrow> nat list) \<Rightarrow> bottleneck \<Rightarrow> bottleneck \<Rightarrow> bool" where
  "tighter collate = then_by (\<lambda>a b. num_le (bn_utilizationPercent b) (bn_utilizationPercent a))
     (then_by (\<lambda>a b. length (bn_blockedWorkItemIds b) \<le> length (bn_blockedWorkItemIds a))
        (\<lambda>a b. collate (bn_resourceKey a) \<le> collate (bn_resourceKey b)))"

definition findBottleneckV1 :: "(string \<Rightarrow> nat list) \<Rightarrow> resource_pressure list \<Rightarrow> bottleneck option" where
  "findBottleneckV1 collate resources =
     (case js_sort (tighter collate) (map measured (filter pressure_counts resources)) of [] \<Rightarrow> None | b # _ \<Rightarrow> Some b)"

record waiting_demand =
  wd_workItemId :: string
  wd_units :: jsnum
  wd_queuePosition :: jsnum
  wd_downstreamUnlockCount :: jsnum

record relief_scenario =
  rl_resourceKey :: string
  rl_capacityUnits :: jsnum
  rl_reservedUnits :: jsnum
  rl_releasedUnits :: jsnum
  rl_waiting :: "waiting_demand list"

record relief_projection =
  rj_resourceKey :: string
  rj_availableUnitsAfterRelease :: int
  rj_newlyFeasibleWorkItemIds :: "string list"
  rj_downstreamItemsUnlocked :: jsnum
  rj_explanation :: string

fun feasibleWork :: "waiting_demand list \<Rightarrow> int \<Rightarrow> string list" where
  "feasibleWork [] remaining = []"
| "feasibleWork (d # ds) remaining =
     (if num_int (wd_units d) \<le> remaining then wd_workItemId d # feasibleWork ds (remaining - num_int (wd_units d))
      else feasibleWork ds remaining)"

definition nonnegative_safe :: "jsnum \<Rightarrow> bool" where
  "nonnegative_safe n \<longleftrightarrow> is_safe_integer n \<and> \<not> negative n"

definition valid_demand :: "waiting_demand \<Rightarrow> bool" where
  "valid_demand d \<longleftrightarrow> safe_id_pattern (wd_workItemId d) \<and> positive_units (wd_units d)
     \<and> nonnegative_safe (wd_queuePosition d) \<and> nonnegative_safe (wd_downstreamUnlockCount d)"

definition valid_scenario :: "relief_scenario \<Rightarrow> bool" where
  "valid_scenario s \<longleftrightarrow> safe_id_pattern (rl_resourceKey s)
     \<and> list_all is_safe_integer [rl_capacityUnits s, rl_reservedUnits s, rl_releasedUnits s]
     \<and> num_lt (Fin 0) (rl_capacityUnits s) \<and> \<not> negative (rl_reservedUnits s) \<and> \<not> num_lt (rl_capacityUnits s) (rl_reservedUnits s)
     \<and> num_lt (Fin 0) (rl_releasedUnits s) \<and> \<not> num_lt (rl_reservedUnits s) (rl_releasedUnits s) \<and> rl_waiting s \<noteq> []
     \<and> distinct (map wd_workItemId (rl_waiting s)) \<and> list_all valid_demand (rl_waiting s)"

definition queue_before :: "(string \<Rightarrow> nat list) \<Rightarrow> waiting_demand \<Rightarrow> waiting_demand \<Rightarrow> bool" where
  "queue_before collate = then_by (\<lambda>a b. num_int (wd_queuePosition a) \<le> num_int (wd_queuePosition b))
     (\<lambda>a b. collate (wd_workItemId a) \<le> collate (wd_workItemId b))"

text \<open>Sums of unlock counts may exceed the safe integers, where the additions of the code round.\<close>

definition unlocked :: "waiting_demand list \<Rightarrow> jsnum" where
  "unlocked ds = foldl (\<lambda>total d. js_plus total (wd_downstreamUnlockCount d)) (Fin 0) ds"

definition projectResourceReliefV1 :: "(string \<Rightarrow> nat list) \<Rightarrow> relief_scenario \<Rightarrow> relief_projection option" where
  "projectResourceReliefV1 collate s =
     (if \<not> valid_scenario s then None
      else
        let waiting = js_sort (queue_before collate) (rl_waiting s);
            free = num_int (rl_capacityUnits s) - num_int (rl_reservedUnits s);
            before = feasibleWork waiting free;
            available = free + num_int (rl_releasedUnits s);
            after = feasibleWork waiting available;
            newly = filter (\<lambda>d. wd_workItemId d \<in> set after \<and> wd_workItemId d \<notin> set before) waiting
        in Some \<lparr>rj_resourceKey = rl_resourceKey s, rj_availableUnitsAfterRelease = available,
             rj_newlyFeasibleWorkItemIds = map wd_workItemId newly, rj_downstreamItemsUnlocked = unlocked newly,
             rj_explanation = ''If '' @ units_text (rl_releasedUnits s) @ '' declared reserved unit''
               @ (if num_int (rl_releasedUnits s) = 1 then '' is'' else ''s are'') @ '' released at a safe boundary, ''
               @ int_text (int (length newly)) @ '' additional waiting work item''
               @ (if length newly = 1 then '' becomes'' else ''s become'')
               @ '' feasible under the declared queue order. This is a projection, not a release instruction.''\<rparr>)"


section \<open>What the facts decide\<close>

interpretation windows: comparator window_before ok for ok
  unfolding window_before_def by (intro comparator_then_by comparator_key)

interpretation queue: comparator "queue_before collate" ok for collate ok
  unfolding queue_before_def by (intro comparator_then_by comparator_key)

interpretation pressure: comparator "tighter collate" "\<lambda>b. bn_utilizationPercent b \<noteq> NaN" for collate
  unfolding tighter_def by (intro comparator_then_by comparator_key comparator_key_desc comparator_desc_num)

text \<open>Windows that are sorted and do not overlap are disjoint in order, so at most one contains an interval.\<close>

lemma overlapping_Cons: "overlapping (a # ws) \<longleftrightarrow> (case ws of [] \<Rightarrow> False | b # _ \<Rightarrow> at_ms (aw_startsAt b) < at_ms (aw_endsAt a) \<or> overlapping ws)"
  by (cases ws) simp_all

lemma disjoint_windows:
  assumes "\<not> overlapping (w # ws)" and "\<And>x. x \<in> set (w # ws) \<Longrightarrow> at_ms (aw_startsAt x) < at_ms (aw_endsAt x)" and "v \<in> set ws"
  shows "at_ms (aw_endsAt w) \<le> at_ms (aw_startsAt v)"
  using assms
proof (induction ws arbitrary: w)
  case (Cons x xs)
  have step: "at_ms (aw_endsAt w) \<le> at_ms (aw_startsAt x)" using Cons.prems(1) by simp
  show ?case
  proof (cases "v = x")
    case False
    then have "v \<in> set xs" using Cons.prems(3) by simp
    then have "at_ms (aw_endsAt x) \<le> at_ms (aw_startsAt v)" using Cons.IH [of x] Cons.prems(1,2) by simp
    moreover have "at_ms (aw_startsAt x) < at_ms (aw_endsAt x)" using Cons.prems(2) by simp
    ultimately show ?thesis using step by linarith
  qed (use step in simp)
qed simp

lemma containing_unique:
  assumes "\<not> overlapping ws" and "\<And>x. x \<in> set ws \<Longrightarrow> at_ms (aw_startsAt x) < at_ms (aw_endsAt x)"
    and "at_ms (aq_requestedFrom q) < at_ms (aq_requestedUntil q)"
    and "v \<in> set ws" and "contains_interval q v" and "find (contains_interval q) ws = Some w"
  shows "w = v"
  using assms
proof (induction ws)
  case (Cons x xs)
  show ?case
  proof (cases "contains_interval q x")
    case True
    then have w: "w = x" using Cons.prems(6) by simp
    have False if "v \<in> set xs"
      using disjoint_windows [OF Cons.prems(1,2) that] True Cons.prems(3,5) by (auto simp: contains_interval_def)
    then show ?thesis using w Cons.prems(4) by auto
  next
    case False
    then have "find (contains_interval q) xs = Some w" "v \<in> set xs" using Cons.prems(4,5,6) by auto
    moreover have "\<not> overlapping xs" using Cons.prems(1) by (cases xs) simp_all
    ultimately show ?thesis using Cons by simp
  qed
qed simp

definition apart :: "availability_window \<Rightarrow> availability_window \<Rightarrow> bool" where
  "apart v w \<longleftrightarrow> at_ms (aw_endsAt v) \<le> at_ms (aw_startsAt w) \<or> at_ms (aw_endsAt w) \<le> at_ms (aw_startsAt v)"

definition declared_windows :: "availability_window list \<Rightarrow> bool" where
  "declared_windows ws \<longleftrightarrow> ws \<noteq> [] \<and> (\<forall>w \<in> set ws. \<not> bad_window w) \<and> sorted_wrt apart ws"

lemma overlapping_iff_apart:
  assumes "sorted_wrt window_before ws" and "\<And>x. x \<in> set ws \<Longrightarrow> at_ms (aw_startsAt x) < at_ms (aw_endsAt x)"
  shows "\<not> overlapping ws \<longleftrightarrow> sorted_wrt apart ws"
  using assms
proof (induction ws)
  case (Cons w ws)
  have IH: "\<not> overlapping ws \<longleftrightarrow> sorted_wrt apart ws" using Cons by simp
  have first: "at_ms (aw_startsAt w) \<le> at_ms (aw_startsAt v)" if "v \<in> set ws" for v
    using Cons.prems(1) that by (simp add: window_before_def then_by_def)
  show ?case
  proof
    assume no: "\<not> overlapping (w # ws)"
    then have "apart w v" if "v \<in> set ws" for v using disjoint_windows [OF no Cons.prems(2) that] by (simp add: apart_def)
    moreover have "\<not> overlapping ws" using no by (cases ws) simp_all
    ultimately show "sorted_wrt apart (w # ws)" using IH by simp
  next
    assume ap: "sorted_wrt apart (w # ws)"
    have "\<not> at_ms (aw_startsAt v) < at_ms (aw_endsAt w)" if "v \<in> set ws" for v
      using ap first [OF that] Cons.prems(2) [of v] that by (auto simp: apart_def)
    then show "\<not> overlapping (w # ws)" using ap IH by (cases ws) auto
  qed
qed simp

lemma normalizedWindows_Some: "normalizedWindows ws = Some ws' \<longleftrightarrow> declared_windows ws \<and> ws' = js_sort window_before ws"
proof -
  have "\<not> overlapping (js_sort window_before ws) \<longleftrightarrow> sorted_wrt apart ws" if "\<forall>w \<in> set ws. \<not> bad_window w"
  proof -
    have "\<not> overlapping (js_sort window_before ws) \<longleftrightarrow> sorted_wrt apart (js_sort window_before ws)"
      by (rule overlapping_iff_apart [OF windows.sorted_js_sort [where ok = "\<lambda>_. True"]]) (use that in \<open>auto simp: bad_window_def\<close>)
    then show ?thesis by (simp add: sorted_wrt_js_sort apart_def disj_commute)
  qed
  then show ?thesis by (auto simp: normalizedWindows_def declared_windows_def Let_def list_ex_iff)
qed

text \<open>
  Availability is exact: a request is eligible if and only if its own facts are well formed, the
  declared windows are well formed and pairwise disjoint, and one of them contains the whole requested interval
  with at least the requested units. The order in which the windows are declared does not matter, and no
  request is turned away because another window was looked at first.
\<close>

lemma availability_exact:
  "ad_eligible (evaluateResourceAvailabilityV1 q) \<longleftrightarrow>
     valid_request q \<and> declared_windows (aq_windows q)
     \<and> (\<exists>w \<in> set (aq_windows q). contains_interval q w \<and> num_le (aq_units q) (aw_capacityUnits w))"
proof (cases "normalizedWindows (aq_windows q)")
  case None
  then have "\<not> declared_windows (aq_windows q)" using normalizedWindows_Some by (metis option.distinct(1))
  with None show ?thesis by (simp add: evaluateResourceAvailabilityV1_def)
next
  case (Some ws')
  then have sorted: "declared_windows (aq_windows q)" "ws' = js_sort window_before (aq_windows q)"
    by (simp_all add: normalizedWindows_Some)
  have start: "at_ms (aw_startsAt x) < at_ms (aw_endsAt x)" "aw_capacityUnits x \<noteq> NaN" if "x \<in> set ws'" for x
    using that sorted by (auto simp: declared_windows_def bad_window_def positive_units_def)
  have nolap: "\<not> overlapping ws'" using Some by (auto simp: normalizedWindows_def Let_def split: if_splits)
  have lt: "num_lt a b \<longleftrightarrow> \<not> num_le b a" if "a \<noteq> NaN" "b \<noteq> NaN" for a b
    using that not_num_lt_le num_le_not_lt by blast
  show ?thesis
  proof (cases "valid_request q")
    case False
    then show ?thesis using Some by (simp add: evaluateResourceAvailabilityV1_def)
  next
    case True
    then have q: "at_ms (aq_requestedFrom q) < at_ms (aq_requestedUntil q)" "aq_units q \<noteq> NaN"
      by (auto simp: valid_request_def positive_units_def)
    show ?thesis
    proof (cases "find (contains_interval q) ws'")
      case None
      then have "\<not> contains_interval q v" if "v \<in> set (aq_windows q)" for v
        using that sorted(2) by (auto simp: find_None_iff)
      moreover have "\<not> ad_eligible (evaluateResourceAvailabilityV1 q)"
        using Some None True by (simp add: evaluateResourceAvailabilityV1_def)
      ultimately show ?thesis by blast
    next
      case (Some w)
      have w: "w \<in> set ws'" "contains_interval q w" using find_SomeD [OF Some] by auto
      have mem: "set ws' = set (aq_windows q)" using sorted(2) by simp
      have "v = w" if "v \<in> set (aq_windows q)" "contains_interval q v" for v
        using containing_unique [OF nolap start(1) q(1) that(1) [folded mem] that(2) Some] by simp
      then have "(\<exists>v \<in> set (aq_windows q). contains_interval q v \<and> num_le (aq_units q) (aw_capacityUnits v))
          \<longleftrightarrow> num_le (aq_units q) (aw_capacityUnits w)" using w mem by blast
      moreover have "ad_eligible (evaluateResourceAvailabilityV1 q) \<longleftrightarrow> \<not> num_lt (aw_capacityUnits w) (aq_units q)"
        using \<open>normalizedWindows (aq_windows q) = Some ws'\<close> Some True by (simp add: evaluateResourceAvailabilityV1_def)
      ultimately show ?thesis using lt [OF start(2) [OF w(1)] q(2)] True sorted(1) by blast
    qed
  qed
qed

text \<open>The work found feasible fits into the units that are available.\<close>

lemma feasibleWork_subset: "set (feasibleWork ds n) \<subseteq> wd_workItemId ` set ds"
  by (induction ds n rule: feasibleWork.induct) auto

lemma feasibleWork_fits:
  assumes "distinct (map wd_workItemId ds)" and "0 \<le> n"
  shows "sum_list (map (\<lambda>d. num_int (wd_units d)) (filter (\<lambda>d. wd_workItemId d \<in> set (feasibleWork ds n)) ds)) \<le> n"
  using assms
proof (induction ds n rule: feasibleWork.induct)
  case (2 d ds remaining)
  have other: "filter (\<lambda>x. wd_workItemId x = wd_workItemId d \<or> P x) ds = filter P ds" for P
    using 2(3) by (intro filter_cong) (auto simp: image_iff)
  have notin: "wd_workItemId d \<notin> set (feasibleWork ds m)" for m using 2(3) feasibleWork_subset by fastforce
  show ?case using 2 notin by (auto simp: other)
qed simp

end
