(* ===== verification/Allocation.thy ===== *)
theory Allocation
  imports Scheduling
begin

text \<open>
  The allocation order: \<open>src/scheduler/v1/allocation.ts\<close>. A candidate carries the facts of the other
  scheduler components; the choice is made among those no fact rejects. Scores are doubles, computed
  operation by operation as the code computes them. \<open>localeCompare\<close> compares the collation keys given
  by the parameter \<open>collate\<close>.
\<close>

record allocation_candidate =
  ac_projectId :: string
  ac_workItemId :: string
  ac_routeId :: string
  ac_targetShare :: jsnum
  ac_recentShareUsed :: jsnum
  ac_priority :: jsnum
  ac_queueAgeMinutes :: jsnum
  ac_downstreamUnlockCount :: jsnum
  ac_deadlineRisk :: jsnum
  ac_estimatedCostUsd :: jsnum
  ac_availability :: "availability_request option"
  ac_constraints :: "scheduling_constraints option"
  ac_placement :: "placement_constraint option"
  ac_exclusions :: "rejection list option"

record rejected_candidate =
  rc_subject :: placement_subject
  rc_reasons :: "rejection list"

record allocation_decision =
  al_selected :: "placement_subject option"
  al_score :: "jsnum option"
  al_explanation :: "string list"
  al_rejected :: "rejected_candidate list"

definition STARVATION_BOUND_MINUTES_V1 :: rat where
  "STARVATION_BOUND_MINUTES_V1 = 1440"

definition candidate_subject :: "allocation_candidate \<Rightarrow> placement_subject" where
  "candidate_subject c = \<lparr>ps_projectId = ac_projectId c, ps_workItemId = ac_workItemId c, ps_routeId = ac_routeId c\<rparr>"

definition bounded :: "jsnum \<Rightarrow> rat \<Rightarrow> bool" where
  "bounded n upper \<longleftrightarrow> \<not> negative n \<and> \<not> num_lt (Fin upper) n"

definition invalid_candidate :: "allocation_candidate \<Rightarrow> bool" where
  "invalid_candidate c \<longleftrightarrow> \<not> list_all safe_id_pattern (subject_ids (candidate_subject c))
     \<or> (case (ac_availability c, ac_placement c) of
          (Some a, Some p) \<Rightarrow> aq_resourceKey a \<noteq> pc_resourceKey p | _ \<Rightarrow> False)
     \<or> \<not> is_finite (ac_targetShare c) \<or> \<not> bounded (ac_targetShare c) 100
     \<or> \<not> is_finite (ac_recentShareUsed c) \<or> \<not> bounded (ac_recentShareUsed c) 1000
     \<or> \<not> is_integer (ac_priority c) \<or> \<not> bounded (ac_priority c) 100
     \<or> \<not> is_finite (ac_queueAgeMinutes c) \<or> negative (ac_queueAgeMinutes c)
     \<or> \<not> is_safe_integer (ac_downstreamUnlockCount c) \<or> negative (ac_downstreamUnlockCount c)
     \<or> \<not> is_finite (ac_deadlineRisk c) \<or> \<not> bounded (ac_deadlineRisk c) 1
     \<or> \<not> is_finite (ac_estimatedCostUsd c) \<or> negative (ac_estimatedCostUsd c)"

definition placementReason :: "allocation_candidate \<Rightarrow> rejection option" where
  "placementReason c =
     (case ac_placement c of None \<Rightarrow> None | Some p \<Rightarrow> placementRejectionV1 (candidate_subject c) p)"

definition option_list :: "'a option \<Rightarrow> 'a list" where
  "option_list x = (case x of None \<Rightarrow> [] | Some v \<Rightarrow> [v])"

definition reasons :: "allocation_candidate \<Rightarrow> rejection list" where
  "reasons c =
     (if invalid_candidate c then [''invalid_candidate'']
      else sort (remdups (default [] (ac_exclusions c)
        @ (case ac_availability c of None \<Rightarrow> [] | Some a \<Rightarrow> option_list (ad_reason (evaluateResourceAvailabilityV1 a)))
        @ (case ac_constraints c of None \<Rightarrow> [] | Some k \<Rightarrow> evaluateSchedulingConstraintsV1 k)
        @ option_list (placementReason c))))"

definition subject_key :: "placement_subject \<Rightarrow> string" where
  "subject_key s = ps_projectId s @ '':'' @ ps_workItemId s @ '':'' @ ps_routeId s"

definition fairShareDebt :: "allocation_candidate \<Rightarrow> jsnum" where
  "fairShareDebt c = js_max (Fin 0) (js_minus (ac_targetShare c) (ac_recentShareUsed c))"

text \<open>The constant \<open>0.02\<close> of the source is the double next to it; the other factors are exact.\<close>

definition two_hundredths :: rat where
  "two_hundredths = num_value (js_round (2 / 100))"

definition score :: "allocation_candidate \<Rightarrow> jsnum" where
  "score c =
     js_minus (js_plus (js_plus (js_plus (js_plus (js_scale 2 (fairShareDebt c)) (js_scale (3 / 2) (ac_priority c)))
        (js_scale two_hundredths (js_min (ac_queueAgeMinutes c) (Fin 1440))))
        (js_scale 4 (ac_downstreamUnlockCount c))) (js_scale 10 (ac_deadlineRisk c)))
        (js_scale 20 (ac_estimatedCostUsd c))"

definition stable_before :: "(string \<Rightarrow> nat list) \<Rightarrow> allocation_candidate \<Rightarrow> allocation_candidate \<Rightarrow> bool" where
  "stable_before collate a b \<longleftrightarrow> collate (subject_key (candidate_subject a)) \<le> collate (subject_key (candidate_subject b))"

definition older :: "(string \<Rightarrow> nat list) \<Rightarrow> allocation_candidate \<Rightarrow> allocation_candidate \<Rightarrow> bool" where
  "older collate = then_by (\<lambda>a b. num_le (ac_queueAgeMinutes b) (ac_queueAgeMinutes a)) (stable_before collate)"

definition better :: "(string \<Rightarrow> nat list) \<Rightarrow> allocation_candidate \<Rightarrow> allocation_candidate \<Rightarrow> bool" where
  "better collate = then_by (\<lambda>a b. num_le (score b) (score a)) (stable_before collate)"

definition rejection_before :: "(string \<Rightarrow> nat list) \<Rightarrow> rejected_candidate \<Rightarrow> rejected_candidate \<Rightarrow> bool" where
  "rejection_before collate a b \<longleftrightarrow> collate (subject_key (rc_subject a)) \<le> collate (subject_key (rc_subject b))"

definition starved :: "allocation_candidate \<Rightarrow> bool" where
  "starved c = num_le (Fin STARVATION_BOUND_MINUTES_V1) (ac_queueAgeMinutes c)"

definition eligible_candidates :: "allocation_candidate list \<Rightarrow> allocation_candidate list" where
  "eligible_candidates cs = filter (\<lambda>c. reasons c = []) cs"

definition allocation_winner :: "(string \<Rightarrow> nat list) \<Rightarrow> allocation_candidate list \<Rightarrow> allocation_candidate option" where
  "allocation_winner collate cs =
     (case js_sort (older collate) (filter starved (eligible_candidates cs)) of
        c # _ \<Rightarrow> Some c
      | [] \<Rightarrow> (case js_sort (better collate) (eligible_candidates cs) of c # _ \<Rightarrow> Some c | [] \<Rightarrow> None))"

definition rejected_candidates :: "(string \<Rightarrow> nat list) \<Rightarrow> allocation_candidate list \<Rightarrow> rejected_candidate list" where
  "rejected_candidates collate cs =
     js_sort (rejection_before collate)
       (map (\<lambda>c. \<lparr>rc_subject = candidate_subject c, rc_reasons = reasons c\<rparr>) (filter (\<lambda>c. reasons c \<noteq> []) cs))"

definition chooseAllocationV1 :: "(string \<Rightarrow> nat list) \<Rightarrow> allocation_candidate list \<Rightarrow> allocation_decision" where
  "chooseAllocationV1 collate cs =
     (case allocation_winner collate cs of
        None \<Rightarrow> \<lparr>al_selected = None, al_score = None,
          al_explanation = [''No candidate satisfies the hard scheduling rules.''], al_rejected = rejected_candidates collate cs\<rparr>
      | Some w \<Rightarrow> \<lparr>al_selected = Some (candidate_subject w),
          al_score = Some (js_unscale 100 (math_round (js_scale 100 (score w)))),
          al_explanation =
            (if filter starved (eligible_candidates cs) \<noteq> []
             then [''Starvation bound reached after 1440 queued minutes; the oldest eligible work wins.''] else [])
            @ [''Selected after '' @ to_fixed2 (num_value (fairShareDebt w)) @ '' fair-share debt points.'',
               ''Priority, deadline risk, queue age, downstream impact, and estimated cost were scored after hard exclusions.'',
               ''This decision is not an execution grant or resource reservation.''],
          al_rejected = rejected_candidates collate cs\<rparr>)"


section \<open>Scores are numbers\<close>

lemma below_fairShareDebt:
  assumes "\<not> invalid_candidate c" shows "below (fairShareDebt c) 201"
proof -
  obtain a b where ab: "ac_targetShare c = Fin a" "ac_recentShareUsed c = Fin b" "a \<le> 100" "0 \<le> b"
    using assms by (auto simp: invalid_candidate_def bounded_def negative_def is_finite_cases)
  show ?thesis
  proof (cases "0 \<le> a - b")
    case True
    then have "below (js_round (a - b)) (2 * (a - b) + 1)" by (rule below_js_round) (use ab in simp)
    then show ?thesis using ab by (auto simp: fairShareDebt_def js_minus_def js_max_def below_def)
  next
    case False
    then have "js_round (a - b) = NegInf \<or> (\<exists>r. js_round (a - b) = Fin r \<and> r \<le> 0)"
      using round_positive_bounds(1) [of "- (a - b)"] by (auto simp: js_round_def Let_def abs_if)
    then show ?thesis using ab by (auto simp: fairShareDebt_def js_minus_def js_max_def below_def)
  qed
qed

lemma below_terms:
  assumes "\<not> invalid_candidate c"
  shows "below (ac_priority c) 100" "below (ac_downstreamUnlockCount c) 9007199254740991" "below (ac_deadlineRisk c) 1"
    "below (js_min (ac_queueAgeMinutes c) (Fin 1440)) 1440" "\<exists>r. ac_estimatedCostUsd c = Fin r \<and> 0 \<le> r"
proof -
  have fin: "is_finite (ac_priority c)" "is_finite (ac_downstreamUnlockCount c)" "is_finite (ac_deadlineRisk c)"
    "is_finite (ac_queueAgeMinutes c)" "is_finite (ac_estimatedCostUsd c)"
    using assms is_integer_finite is_safe_integer_integer by (auto simp: invalid_candidate_def)
  show "below (ac_priority c) 100" "below (ac_deadlineRisk c) 1"
    using assms fin by (auto simp: invalid_candidate_def bounded_def negative_def is_finite_cases below_def)
  show "below (ac_downstreamUnlockCount c) 9007199254740991"
    using assms fin by (auto simp: invalid_candidate_def bounded_def negative_def is_finite_cases below_def)
  show "below (js_min (ac_queueAgeMinutes c) (Fin 1440)) 1440"
    using assms fin by (auto simp: invalid_candidate_def bounded_def negative_def is_finite_cases below_def js_min_def)
  show "\<exists>r. ac_estimatedCostUsd c = Fin r \<and> 0 \<le> r"
    using assms fin by (auto simp: invalid_candidate_def negative_def is_finite_cases)
qed

lemma below_two_hundredths: "0 \<le> two_hundredths" "two_hundredths \<le> 2"
proof -
  have "below (js_round (2 / 100)) (2 * (2 / 100) + 1)" by (rule below_js_round) simp_all
  then show "0 \<le> two_hundredths" "two_hundredths \<le> 2" by (auto simp: two_hundredths_def below_def)
qed

lemma score_number:
  assumes "\<not> invalid_candidate c" shows "score c \<noteq> NaN"
proof -
  note t = below_terms [OF assms]
  have age: "below (js_scale two_hundredths (js_min (ac_queueAgeMinutes c) (Fin 1440))) 6000"
    using below_mono [OF below_scale [OF t(4) below_two_hundredths(1)]] below_two_hundredths(2) by simp
  have a1: "below (js_plus (js_scale 2 (fairShareDebt c)) (js_scale (3 / 2) (ac_priority c))) 10000"
    by (rule below_mono [OF below_plus [OF below_scale [OF below_fairShareDebt [OF assms]] below_scale [OF t(1)]]]) simp_all
  have a2: "below (js_plus (js_plus (js_scale 2 (fairShareDebt c)) (js_scale (3 / 2) (ac_priority c)))
      (js_scale two_hundredths (js_min (ac_queueAgeMinutes c) (Fin 1440)))) 100000"
    by (rule below_mono [OF below_plus [OF a1 age]]) simp_all
  have a3: "below (js_plus (js_plus (js_plus (js_scale 2 (fairShareDebt c)) (js_scale (3 / 2) (ac_priority c)))
      (js_scale two_hundredths (js_min (ac_queueAgeMinutes c) (Fin 1440)))) (js_scale 4 (ac_downstreamUnlockCount c))) (2 ^ 60)"
    by (rule below_mono [OF below_plus [OF a2 below_scale [OF t(2)]]]) simp_all
  have "below (js_plus (js_plus (js_plus (js_plus (js_scale 2 (fairShareDebt c)) (js_scale (3 / 2) (ac_priority c)))
      (js_scale two_hundredths (js_min (ac_queueAgeMinutes c) (Fin 1440)))) (js_scale 4 (ac_downstreamUnlockCount c)))
      (js_scale 10 (ac_deadlineRisk c))) (2 ^ 62)"
    by (rule below_mono [OF below_plus [OF a3 below_scale [OF t(3)]]]) simp_all
  then obtain s where s: "js_plus (js_plus (js_plus (js_plus (js_scale 2 (fairShareDebt c)) (js_scale (3 / 2) (ac_priority c)))
      (js_scale two_hundredths (js_min (ac_queueAgeMinutes c) (Fin 1440)))) (js_scale 4 (ac_downstreamUnlockCount c)))
      (js_scale 10 (ac_deadlineRisk c)) = Fin s" by (auto simp: below_def)
  obtain r where r: "ac_estimatedCostUsd c = Fin r" using t(5) by blast
  show ?thesis unfolding score_def s r js_minus_def by (cases "js_round (r * 20)") simp_all
qed

section \<open>The choice\<close>

lemma comparator_stable: "comparator (stable_before collate) ok"
  unfolding stable_before_def by (rule comparator_key)

interpretation by_age: comparator "older collate" "\<lambda>c. ac_queueAgeMinutes c \<noteq> NaN" for collate
  unfolding older_def by (intro comparator_then_by comparator_desc_num comparator_stable)

interpretation by_score: comparator "better collate" "\<lambda>c. score c \<noteq> NaN" for collate
  unfolding better_def by (intro comparator_then_by comparator_desc_num comparator_stable)

interpretation by_subject: comparator "rejection_before collate" ok for collate ok
  unfolding rejection_before_def by (rule comparator_key)

lemma availability_reason: "ad_reason (evaluateResourceAvailabilityV1 q) = None \<longleftrightarrow> ad_eligible (evaluateResourceAvailabilityV1 q)"
  by (simp add: evaluateResourceAvailabilityV1_def split: option.splits)

text \<open>A candidate without reasons for rejection satisfies every hard rule.\<close>

definition satisfies_rules :: "allocation_candidate \<Rightarrow> bool" where
  "satisfies_rules c \<longleftrightarrow> \<not> invalid_candidate c \<and> default [] (ac_exclusions c) = []
     \<and> opt_all (\<lambda>a. ad_eligible (evaluateResourceAvailabilityV1 a)) (ac_availability c)
     \<and> opt_all (\<lambda>k. \<not> invalid_constraints k \<and> \<not> cost_exceeded k \<and> \<not> privacy_denied k \<and> \<not> quality_insufficient k \<and> \<not> deadline_missed k
          \<and> sc_resourceState k \<noteq> Some ''maintenance'' \<and> sc_resourceState k \<noteq> Some ''draining'') (ac_constraints c)
     \<and> opt_all (\<lambda>p. placementRejectionV1 (candidate_subject c) p = None) (ac_placement c)"

lemma sort_Nil_iff: "sort xs = [] \<longleftrightarrow> xs = ([] :: string list)"
  by (metis length_0_conv length_sort)

lemma constraints_Nil:
  "evaluateSchedulingConstraintsV1 k = [] \<longleftrightarrow> \<not> invalid_constraints k \<and> \<not> cost_exceeded k \<and> \<not> privacy_denied k
     \<and> \<not> quality_insufficient k \<and> \<not> deadline_missed k \<and> sc_resourceState k \<noteq> Some ''maintenance'' \<and> sc_resourceState k \<noteq> Some ''draining''"
  by (simp add: evaluateSchedulingConstraintsV1_def sort_Nil_iff)

lemma option_list_Nil [simp]: "option_list x = [] \<longleftrightarrow> x = None"
  by (cases x) (simp_all add: option_list_def)

lemma reasons_Nil: "reasons c = [] \<longleftrightarrow> satisfies_rules c"
  by (cases "ac_availability c"; cases "ac_constraints c"; cases "ac_placement c")
    (simp_all add: reasons_def satisfies_rules_def sort_Nil_iff constraints_Nil availability_reason placementReason_def)

lemma eligible_number:
  assumes "c \<in> set (eligible_candidates cs)" shows "score c \<noteq> NaN" "ac_queueAgeMinutes c \<noteq> NaN"
proof -
  have "\<not> invalid_candidate c" using assms by (auto simp: eligible_candidates_def reasons_Nil satisfies_rules_def)
  then show "score c \<noteq> NaN" "ac_queueAgeMinutes c \<noteq> NaN" using score_number by (auto simp: invalid_candidate_def)
qed

lemma older_age: "older collate a b \<Longrightarrow> num_le (ac_queueAgeMinutes b) (ac_queueAgeMinutes a)"
  by (simp add: older_def then_by_def)

lemma better_score: "better collate a b \<Longrightarrow> num_le (score b) (score a)"
  by (simp add: better_def then_by_def)

lemma winner_starved:
  assumes "js_sort (older collate) (filter starved (eligible_candidates cs)) = w # ws"
  shows "allocation_winner collate cs = Some w" "w \<in> set (eligible_candidates cs)" "starved w"
    "d \<in> set (eligible_candidates cs) \<Longrightarrow> starved d \<Longrightarrow> num_le (ac_queueAgeMinutes d) (ac_queueAgeMinutes w)"
proof -
  have "w \<in> set (filter starved (eligible_candidates cs))" using assms set_js_sort by (metis list.set_intros(1))
  then show "w \<in> set (eligible_candidates cs)" "starved w" by auto
  show "allocation_winner collate cs = Some w" using assms by (simp add: allocation_winner_def)
  show "d \<in> set (eligible_candidates cs) \<Longrightarrow> starved d \<Longrightarrow> num_le (ac_queueAgeMinutes d) (ac_queueAgeMinutes w)"
    using by_age.hd_js_sort [OF _ assms, of d] eligible_number(2) older_age by fastforce
qed

lemma winner_scored:
  assumes "filter starved (eligible_candidates cs) = []" and "js_sort (better collate) (eligible_candidates cs) = w # ws"
  shows "allocation_winner collate cs = Some w" "w \<in> set (eligible_candidates cs)"
    "d \<in> set (eligible_candidates cs) \<Longrightarrow> num_le (score d) (score w)"
proof -
  show "w \<in> set (eligible_candidates cs)" using assms(2) set_js_sort by (metis list.set_intros(1))
  show "allocation_winner collate cs = Some w" using assms by (simp add: allocation_winner_def)
  show "d \<in> set (eligible_candidates cs) \<Longrightarrow> num_le (score d) (score w)"
    using by_score.hd_js_sort [OF _ assms(2), of d] eligible_number(1) better_score by blast
qed

lemma winner_cases:
  obtains (none) "eligible_candidates cs = []" "allocation_winner collate cs = None"
    | (starved) w where "allocation_winner collate cs = Some w" "w \<in> set (eligible_candidates cs)" "starved w"
      "\<And>d. d \<in> set (eligible_candidates cs) \<Longrightarrow> starved d \<Longrightarrow> num_le (ac_queueAgeMinutes d) (ac_queueAgeMinutes w)"
    | (scored) w where "allocation_winner collate cs = Some w" "w \<in> set (eligible_candidates cs)"
      "\<And>d. d \<in> set (eligible_candidates cs) \<Longrightarrow> \<not> starved d"
      "\<And>d. d \<in> set (eligible_candidates cs) \<Longrightarrow> num_le (score d) (score w)"
proof (cases "js_sort (older collate) (filter starved (eligible_candidates cs))")
  case (Cons w ws)
  then show thesis using winner_starved [OF Cons] that(2) by blast
next
  case Nil
  then have no: "filter starved (eligible_candidates cs) = []" by simp
  show thesis
  proof (cases "js_sort (better collate) (eligible_candidates cs)")
    case Nil
    then show thesis using no that(1) by (simp add: allocation_winner_def)
  next
    case (Cons w ws)
    then show thesis using winner_scored [OF no Cons] no that(3) [of w] by (auto simp: filter_empty_conv)
  qed
qed

text \<open>
  C39. The allocator selects admissible work and, among it, the right one. Nothing is selected exactly when
  every candidate is rejected. Otherwise the selected candidate satisfies every hard rule: well-formed
  facts, no exclusion, an availability window, the cost, privacy, quality and deadline constraints, and
  its placement; and either some admissible candidate has reached the starvation bound and none of
  those is older than the selected one, or none has and no admissible candidate has a higher score.
\<close>

theorem allocation_selects_admissible:
  "case al_selected (chooseAllocationV1 collate cs) of
     None \<Rightarrow> \<forall>c \<in> set cs. \<not> satisfies_rules c
   | Some s \<Rightarrow> \<exists>w \<in> set cs. candidate_subject w = s \<and> satisfies_rules w
       \<and> (if \<exists>d \<in> set cs. satisfies_rules d \<and> starved d
          then starved w \<and> (\<forall>d \<in> set cs. satisfies_rules d \<and> starved d \<longrightarrow> num_le (ac_queueAgeMinutes d) (ac_queueAgeMinutes w))
          else \<forall>d \<in> set cs. satisfies_rules d \<longrightarrow> num_le (score d) (score w))"
proof -
  have mem: "d \<in> set (eligible_candidates cs) \<longleftrightarrow> d \<in> set cs \<and> satisfies_rules d" for d
    by (simp add: eligible_candidates_def reasons_Nil)
  show ?thesis
  proof (cases rule: winner_cases [of cs collate])
    case none
    then have "\<not> satisfies_rules c" if "c \<in> set cs" for c using mem [of c] that by simp
    with none show ?thesis by (simp add: chooseAllocationV1_def)
  next
    case (starved w)
    then have "w \<in> set cs" "satisfies_rules w" using mem by auto
    moreover have "al_selected (chooseAllocationV1 collate cs) = Some (candidate_subject w)"
      using starved(1) by (simp add: chooseAllocationV1_def)
    ultimately show ?thesis using starved(3,4) mem by auto
  next
    case (scored w)
    then have "w \<in> set cs" "satisfies_rules w" using mem by auto
    moreover have "al_selected (chooseAllocationV1 collate cs) = Some (candidate_subject w)"
      using scored(1) by (simp add: chooseAllocationV1_def)
    ultimately show ?thesis using scored(3,4) mem by auto
  qed
qed

definition sample_candidate :: "string \<Rightarrow> rat \<Rightarrow> allocation_candidate" where
  "sample_candidate i age = \<lparr>ac_projectId = ''project:1'', ac_workItemId = i, ac_routeId = ''route:1'', ac_targetShare = Fin 50,
     ac_recentShareUsed = Fin 20, ac_priority = Fin 10, ac_queueAgeMinutes = Fin age, ac_downstreamUnlockCount = Fin 0,
     ac_deadlineRisk = Fin 0, ac_estimatedCostUsd = Fin 0, ac_availability = None, ac_constraints = None, ac_placement = None,
     ac_exclusions = None\<rparr>"

lemma sample_candidate_rules: "i \<in> {''a'', ''b''} \<Longrightarrow> 0 \<le> age \<Longrightarrow> reasons (sample_candidate i age) = []"
  by (auto simp: reasons_def invalid_candidate_def sample_candidate_def subject_ids_def candidate_subject_def bounded_def negative_def
      placementReason_def option_list_def default_def is_id_char_def is_alnum_def is_lower_def is_upper_def is_digit_def less_eq_char_def)

lemma sample_candidates:
  "al_selected (chooseAllocationV1 (\<lambda>s. []) [sample_candidate ''a'' 10, sample_candidate ''b'' 2000])
     = Some \<lparr>ps_projectId = ''project:1'', ps_workItemId = ''b'', ps_routeId = ''route:1''\<rparr>"
proof -
  have "starved (sample_candidate ''b'' 2000)" "\<not> starved (sample_candidate ''a'' 10)"
    by (simp_all add: starved_def STARVATION_BOUND_MINUTES_V1_def sample_candidate_def)
  then show ?thesis
    by (simp add: chooseAllocationV1_def allocation_winner_def eligible_candidates_def sample_candidate_rules)
      (simp add: candidate_subject_def sample_candidate_def)
qed

theorem allocation_selects_admissible_witness:
  "\<exists>w. candidate_subject w = \<lparr>ps_projectId = ''project:1'', ps_workItemId = ''b'', ps_routeId = ''route:1''\<rparr> \<and> satisfies_rules w"
  using allocation_selects_admissible [where collate = "\<lambda>s. []" and cs = "[sample_candidate ''a'' 10, sample_candidate ''b'' 2000]"]
  unfolding sample_candidates option.case by blast

end
