(* ===== verification/Completion_Records.thy ===== *)
theory Completion_Records
  imports Domain_Validators Redaction
begin

text \<open>
  The records of the completion gate: the types of \<open>src/completion-gate/v1/types.ts\<close>, their schemas
  (\<open>schemas.ts\<close>) and the independence of reviewers (\<open>reviewer-independence.ts\<close>). A field whose schema admits one
  literal only (the schema version, \<open>grantsApproval\<close>, \<open>grantsExecutionAuthority\<close>, the strong factor) has no counterpart
  in the records; it appears in their JSON.
\<close>

section \<open>Types\<close>

definition COMPLETION_GATE_SCHEMA_VERSION_V1 :: string where
  "COMPLETION_GATE_SCHEMA_VERSION_V1 = ''control-room-completion-gate/v1''"

datatype completion_target_kind = CodeTarget | MediaTarget | DocumentTarget | OperationTarget

record gate_principal =
  cp_actorId :: string
  cp_actorType :: actor_type
  cp_workerId :: "string option"
  cp_agentProfileId :: "string option"
  cp_harness :: "string option"
  cp_adapterId :: "string option"
  cp_modelFamily :: "string option"

record reviewer_separation =
  sep_actor :: bool
  sep_worker :: bool
  sep_agentProfile :: bool
  sep_harness :: bool
  sep_modelFamily :: bool

record acceptance_profile =
  qp_id :: string
  qp_tenantId :: string
  qp_projectId :: string
  qp_name :: string
  qp_targetKind :: completion_target_kind
  qp_requiredVerificationScenarioIds :: "string list"
  qp_minimumIndependentReviews :: rat
  qp_reviewerSeparation :: reviewer_separation
  qp_verificationRequiresProducerSeparation :: bool
  qp_minimumRisk :: risk_class
  qp_maximumRevisionRounds :: rat
  qp_automaticLowRiskDisposition :: bool
  qp_createdBy :: gate_principal
  qp_createdAt :: string

record review_target =
  qt_id :: string
  qt_tenantId :: string
  qt_projectId :: string
  qt_kind :: completion_target_kind
  qt_subjectId :: string
  qt_subjectDigest :: string
  qt_acceptanceProfileId :: string
  qt_acceptanceProfileDigest :: string
  qt_producer :: gate_principal
  qt_rootTargetId :: string
  qt_revisionNumber :: rat
  qt_supersedesTargetId :: "string option"
  qt_submittedAt :: string

record review_exception =
  qe_id :: string
  qe_statementDigest :: string
  qe_followUpJobId :: string

datatype review_authority = AdvisoryReview | GateReview

datatype review_decision = Commented | ReviewAccepted | AcceptedWithExceptions | ChangesRequested | ReviewRejected

record gate_review =
  qr_id :: string
  qr_tenantId :: string
  qr_projectId :: string
  qr_targetId :: string
  qr_targetDigest :: string
  qr_acceptanceProfileId :: string
  qr_acceptanceProfileDigest :: string
  qr_reviewer :: gate_principal
  qr_authority :: review_authority
  qr_decision :: review_decision
  qr_assessedRisk :: risk_class
  qr_effectiveRisk :: risk_class
  qr_evidenceDigests :: "string list"
  qr_findingIds :: "string list"
  qr_exceptions :: "review_exception list option"
  qr_reviewedAt :: string

datatype verification_outcome = VerificationPassed | VerificationFailed | VerificationBlocked | VerificationInconclusive

record gate_verification =
  qv_id :: string
  qv_tenantId :: string
  qv_projectId :: string
  qv_targetId :: string
  qv_targetDigest :: string
  qv_acceptanceProfileId :: string
  qv_acceptanceProfileDigest :: string
  qv_scenarioId :: string
  qv_outcome :: verification_outcome
  qv_verifier :: gate_principal
  qv_evidenceDigests :: "string list"
  qv_verifiedAt :: string

record gate_finding =
  fg_id :: string
  fg_tenantId :: string
  fg_projectId :: string
  fg_targetId :: string
  fg_targetDigest :: string
  fg_reviewId :: string
  fg_code :: string
  fg_severity :: risk_class
  fg_statementDigest :: string
  fg_evidenceDigests :: "string list"
  fg_raisedAt :: string

record gate_revision =
  qn_id :: string
  qn_tenantId :: string
  qn_projectId :: string
  qn_rootTargetId :: string
  qn_fromTargetId :: string
  qn_fromTargetDigest :: string
  qn_toTargetId :: string
  qn_toTargetDigest :: string
  qn_revisionNumber :: rat
  qn_resolvedFindingIds :: "string list"
  qn_revisedBy :: gate_principal
  qn_revisedAt :: string

record gate_preference =
  qs_id :: string
  qs_tenantId :: string
  qs_projectId :: string
  qs_subjectId :: string
  qs_subjectDigest :: string
  qs_optionDigests :: "string list"
  qs_selectedOptionDigest :: string
  qs_selectedBy :: gate_principal
  qs_selectedAt :: string
  qs_expiresAt :: "string option"

record gate_approval_request =
  qa_id :: string
  qa_tenantId :: string
  qa_projectId :: string
  qa_jobId :: string
  qa_attemptId :: string
  qa_effectIntentId :: string
  qa_operationDigest :: string
  qa_risk :: risk_class
  qa_requestedBy :: gate_principal
  qa_requestedAt :: string
  qa_expiresAt :: string

datatype approval_outcome = OutcomeApproved | OutcomeDenied

record gate_approval_decision =
  qd_id :: string
  qd_tenantId :: string
  qd_projectId :: string
  qd_requestId :: string
  qd_requestDigest :: string
  qd_operationDigest :: string
  qd_policyDecisionId :: string
  qd_decision :: approval_outcome
  qd_decidedBy :: gate_principal
  qd_authenticationEventDigest :: string
  qd_decidedAt :: string
  qd_expiresAt :: string
  qd_safeReasonCode :: string

datatype gate_record =
    ProfileRec acceptance_profile | TargetRec review_target | ReviewRec gate_review | VerificationRec gate_verification
  | FindingRec gate_finding | RevisionRec gate_revision | PreferenceRec gate_preference
  | RequestRec gate_approval_request | DecisionRec gate_approval_decision

datatype gate_kind = ProfileKind | TargetKind | ReviewKind | VerificationKind | FindingKind | RevisionKind
  | PreferenceKind | RequestKind | DecisionKind

fun record_kind :: "gate_record \<Rightarrow> gate_kind" where
  "record_kind (ProfileRec _) = ProfileKind"
| "record_kind (TargetRec _) = TargetKind"
| "record_kind (ReviewRec _) = ReviewKind"
| "record_kind (VerificationRec _) = VerificationKind"
| "record_kind (FindingRec _) = FindingKind"
| "record_kind (RevisionRec _) = RevisionKind"
| "record_kind (PreferenceRec _) = PreferenceKind"
| "record_kind (RequestRec _) = RequestKind"
| "record_kind (DecisionRec _) = DecisionKind"

fun kind_text :: "gate_kind \<Rightarrow> string" where
  "kind_text ProfileKind = ''profile''"
| "kind_text TargetKind = ''target''"
| "kind_text ReviewKind = ''review''"
| "kind_text VerificationKind = ''verification''"
| "kind_text FindingKind = ''finding''"
| "kind_text RevisionKind = ''revision''"
| "kind_text PreferenceKind = ''preference''"
| "kind_text RequestKind = ''approval_request''"
| "kind_text DecisionKind = ''approval_decision''"


section \<open>JSON of the records\<close>

fun actor_type_text :: "actor_type \<Rightarrow> string" where
  "actor_type_text Human = ''human''"
| "actor_type_text Agent = ''agent''"
| "actor_type_text Service = ''service''"
| "actor_type_text Node = ''node''"

fun completion_target_kind_text :: "completion_target_kind \<Rightarrow> string" where
  "completion_target_kind_text CodeTarget = ''code''"
| "completion_target_kind_text MediaTarget = ''media''"
| "completion_target_kind_text DocumentTarget = ''document''"
| "completion_target_kind_text OperationTarget = ''operation''"

fun review_authority_text :: "review_authority \<Rightarrow> string" where
  "review_authority_text AdvisoryReview = ''advisory''"
| "review_authority_text GateReview = ''completion_gate''"

fun review_decision_text :: "review_decision \<Rightarrow> string" where
  "review_decision_text Commented = ''commented''"
| "review_decision_text ReviewAccepted = ''accepted''"
| "review_decision_text AcceptedWithExceptions = ''accepted_with_exceptions''"
| "review_decision_text ChangesRequested = ''changes_requested''"
| "review_decision_text ReviewRejected = ''rejected''"

fun verification_outcome_text :: "verification_outcome \<Rightarrow> string" where
  "verification_outcome_text VerificationPassed = ''passed''"
| "verification_outcome_text VerificationFailed = ''failed''"
| "verification_outcome_text VerificationBlocked = ''blocked''"
| "verification_outcome_text VerificationInconclusive = ''inconclusive''"

fun approval_outcome_text :: "approval_outcome \<Rightarrow> string" where
  "approval_outcome_text OutcomeApproved = ''approved''"
| "approval_outcome_text OutcomeDenied = ''denied''"

definition principal_json :: "gate_principal \<Rightarrow> json" where
  "principal_json p = JObj ([(''actorId'', JStr (cp_actorId p)), (''actorType'', JStr (actor_type_text (cp_actorType p)))]
     @ opt_field ''workerId'' JStr (cp_workerId p) @ opt_field ''agentProfileId'' JStr (cp_agentProfileId p)
     @ opt_field ''harness'' JStr (cp_harness p) @ opt_field ''adapterId'' JStr (cp_adapterId p)
     @ opt_field ''modelFamily'' JStr (cp_modelFamily p))"

definition separation_json :: "reviewer_separation \<Rightarrow> json" where
  "separation_json s = JObj [(''actor'', JBool (sep_actor s)), (''worker'', JBool (sep_worker s)),
     (''agentProfile'', JBool (sep_agentProfile s)), (''harness'', JBool (sep_harness s)), (''modelFamily'', JBool (sep_modelFamily s))]"

definition exception_json :: "review_exception \<Rightarrow> json" where
  "exception_json e = JObj [(''id'', JStr (qe_id e)), (''statementDigest'', JStr (qe_statementDigest e)),
     (''followUpJobId'', JStr (qe_followUpJobId e))]"

definition gate_header :: "string \<Rightarrow> string \<Rightarrow> string \<Rightarrow> (string \<times> json) list" where
  "gate_header i t p = [(''schemaVersion'', JStr COMPLETION_GATE_SCHEMA_VERSION_V1), (''id'', JStr i), (''tenantId'', JStr t),
     (''projectId'', JStr p)]"

definition no_grants :: "(string \<times> json) list" where
  "no_grants = [(''grantsApproval'', JBool False), (''grantsExecutionAuthority'', JBool False)]"

definition profile_json :: "acceptance_profile \<Rightarrow> json" where
  "profile_json p = JObj (gate_header (qp_id p) (qp_tenantId p) (qp_projectId p)
     @ [(''name'', JStr (qp_name p)), (''targetKind'', JStr (completion_target_kind_text (qp_targetKind p))),
        (''requiredVerificationScenarioIds'', str_array (qp_requiredVerificationScenarioIds p)),
        (''minimumIndependentReviews'', JNum (qp_minimumIndependentReviews p)),
        (''reviewerSeparation'', separation_json (qp_reviewerSeparation p)),
        (''verificationRequiresProducerSeparation'', JBool (qp_verificationRequiresProducerSeparation p)),
        (''minimumRisk'', JStr (risk_text (qp_minimumRisk p))), (''maximumRevisionRounds'', JNum (qp_maximumRevisionRounds p)),
        (''automaticLowRiskDisposition'', JBool (qp_automaticLowRiskDisposition p)),
        (''createdBy'', principal_json (qp_createdBy p)), (''createdAt'', JStr (qp_createdAt p))])"

definition review_target_json :: "review_target \<Rightarrow> json" where
  "review_target_json t = JObj (gate_header (qt_id t) (qt_tenantId t) (qt_projectId t)
     @ [(''kind'', JStr (completion_target_kind_text (qt_kind t))), (''subjectId'', JStr (qt_subjectId t)),
        (''subjectDigest'', JStr (qt_subjectDigest t)), (''acceptanceProfileId'', JStr (qt_acceptanceProfileId t)),
        (''acceptanceProfileDigest'', JStr (qt_acceptanceProfileDigest t)), (''producer'', principal_json (qt_producer t)),
        (''rootTargetId'', JStr (qt_rootTargetId t)), (''revisionNumber'', JNum (qt_revisionNumber t))]
     @ opt_field ''supersedesTargetId'' JStr (qt_supersedesTargetId t) @ [(''submittedAt'', JStr (qt_submittedAt t))])"

definition review_json :: "gate_review \<Rightarrow> json" where
  "review_json r = JObj (gate_header (qr_id r) (qr_tenantId r) (qr_projectId r)
     @ [(''targetId'', JStr (qr_targetId r)), (''targetDigest'', JStr (qr_targetDigest r)),
        (''acceptanceProfileId'', JStr (qr_acceptanceProfileId r)), (''acceptanceProfileDigest'', JStr (qr_acceptanceProfileDigest r)),
        (''reviewer'', principal_json (qr_reviewer r)), (''authority'', JStr (review_authority_text (qr_authority r))),
        (''decision'', JStr (review_decision_text (qr_decision r))), (''assessedRisk'', JStr (risk_text (qr_assessedRisk r))),
        (''effectiveRisk'', JStr (risk_text (qr_effectiveRisk r))), (''evidenceDigests'', str_array (qr_evidenceDigests r)),
        (''findingIds'', str_array (qr_findingIds r))]
     @ opt_field ''exceptions'' (\<lambda>es. JArr (map exception_json es)) (qr_exceptions r)
     @ [(''reviewedAt'', JStr (qr_reviewedAt r))] @ no_grants)"

definition verification_json :: "gate_verification \<Rightarrow> json" where
  "verification_json v = JObj (gate_header (qv_id v) (qv_tenantId v) (qv_projectId v)
     @ [(''targetId'', JStr (qv_targetId v)), (''targetDigest'', JStr (qv_targetDigest v)),
        (''acceptanceProfileId'', JStr (qv_acceptanceProfileId v)), (''acceptanceProfileDigest'', JStr (qv_acceptanceProfileDigest v)),
        (''scenarioId'', JStr (qv_scenarioId v)), (''outcome'', JStr (verification_outcome_text (qv_outcome v))),
        (''verifier'', principal_json (qv_verifier v)), (''evidenceDigests'', str_array (qv_evidenceDigests v)),
        (''verifiedAt'', JStr (qv_verifiedAt v))] @ no_grants)"

definition finding_json :: "gate_finding \<Rightarrow> json" where
  "finding_json f = JObj (gate_header (fg_id f) (fg_tenantId f) (fg_projectId f)
     @ [(''targetId'', JStr (fg_targetId f)), (''targetDigest'', JStr (fg_targetDigest f)), (''reviewId'', JStr (fg_reviewId f)),
        (''code'', JStr (fg_code f)), (''severity'', JStr (risk_text (fg_severity f))),
        (''statementDigest'', JStr (fg_statementDigest f)), (''evidenceDigests'', str_array (fg_evidenceDigests f)),
        (''raisedAt'', JStr (fg_raisedAt f))])"

definition revision_json :: "gate_revision \<Rightarrow> json" where
  "revision_json n = JObj (gate_header (qn_id n) (qn_tenantId n) (qn_projectId n)
     @ [(''rootTargetId'', JStr (qn_rootTargetId n)), (''fromTargetId'', JStr (qn_fromTargetId n)),
        (''fromTargetDigest'', JStr (qn_fromTargetDigest n)), (''toTargetId'', JStr (qn_toTargetId n)),
        (''toTargetDigest'', JStr (qn_toTargetDigest n)), (''revisionNumber'', JNum (qn_revisionNumber n)),
        (''resolvedFindingIds'', str_array (qn_resolvedFindingIds n)), (''revisedBy'', principal_json (qn_revisedBy n)),
        (''revisedAt'', JStr (qn_revisedAt n))] @ no_grants)"

definition preference_json :: "gate_preference \<Rightarrow> json" where
  "preference_json s = JObj (gate_header (qs_id s) (qs_tenantId s) (qs_projectId s)
     @ [(''subjectId'', JStr (qs_subjectId s)), (''subjectDigest'', JStr (qs_subjectDigest s)),
        (''optionDigests'', str_array (qs_optionDigests s)), (''selectedOptionDigest'', JStr (qs_selectedOptionDigest s)),
        (''selectedBy'', principal_json (qs_selectedBy s)), (''selectedAt'', JStr (qs_selectedAt s))]
     @ opt_field ''expiresAt'' JStr (qs_expiresAt s) @ no_grants)"

definition approval_request_json :: "gate_approval_request \<Rightarrow> json" where
  "approval_request_json a = JObj (gate_header (qa_id a) (qa_tenantId a) (qa_projectId a)
     @ [(''jobId'', JStr (qa_jobId a)), (''attemptId'', JStr (qa_attemptId a)), (''effectIntentId'', JStr (qa_effectIntentId a)),
        (''operationDigest'', JStr (qa_operationDigest a)), (''risk'', JStr (risk_text (qa_risk a))),
        (''requestedBy'', principal_json (qa_requestedBy a)), (''requiredFactor'', JStr ''strong''),
        (''requestedAt'', JStr (qa_requestedAt a)), (''expiresAt'', JStr (qa_expiresAt a)),
        (''grantsExecutionAuthority'', JBool False)])"

definition approval_decision_json :: "gate_approval_decision \<Rightarrow> json" where
  "approval_decision_json d = JObj (gate_header (qd_id d) (qd_tenantId d) (qd_projectId d)
     @ [(''requestId'', JStr (qd_requestId d)), (''requestDigest'', JStr (qd_requestDigest d)),
        (''operationDigest'', JStr (qd_operationDigest d)), (''policyDecisionId'', JStr (qd_policyDecisionId d)),
        (''decision'', JStr (approval_outcome_text (qd_decision d))), (''decidedBy'', principal_json (qd_decidedBy d)),
        (''factor'', JStr ''strong''), (''authenticationEventDigest'', JStr (qd_authenticationEventDigest d)),
        (''decidedAt'', JStr (qd_decidedAt d)), (''expiresAt'', JStr (qd_expiresAt d)),
        (''safeReasonCode'', JStr (qd_safeReasonCode d)), (''grantsExecutionAuthority'', JBool False),
        (''requiresSeparateNodeAttestation'', JBool True)])"

fun record_json :: "gate_record \<Rightarrow> json" where
  "record_json (ProfileRec p) = profile_json p"
| "record_json (TargetRec t) = review_target_json t"
| "record_json (ReviewRec r) = review_json r"
| "record_json (VerificationRec v) = verification_json v"
| "record_json (FindingRec f) = finding_json f"
| "record_json (RevisionRec n) = revision_json n"
| "record_json (PreferenceRec s) = preference_json s"
| "record_json (RequestRec a) = approval_request_json a"
| "record_json (DecisionRec d) = approval_decision_json d"

text \<open>\<open>recordIdentity\<close>\<close>

fun record_id :: "gate_record \<Rightarrow> string" where
  "record_id (ProfileRec p) = qp_id p"
| "record_id (TargetRec t) = qt_id t"
| "record_id (ReviewRec r) = qr_id r"
| "record_id (VerificationRec v) = qv_id v"
| "record_id (FindingRec f) = fg_id f"
| "record_id (RevisionRec n) = qn_id n"
| "record_id (PreferenceRec s) = qs_id s"
| "record_id (RequestRec a) = qa_id a"
| "record_id (DecisionRec d) = qd_id d"

fun record_tenantId :: "gate_record \<Rightarrow> string" where
  "record_tenantId (ProfileRec p) = qp_tenantId p"
| "record_tenantId (TargetRec t) = qt_tenantId t"
| "record_tenantId (ReviewRec r) = qr_tenantId r"
| "record_tenantId (VerificationRec v) = qv_tenantId v"
| "record_tenantId (FindingRec f) = fg_tenantId f"
| "record_tenantId (RevisionRec n) = qn_tenantId n"
| "record_tenantId (PreferenceRec s) = qs_tenantId s"
| "record_tenantId (RequestRec a) = qa_tenantId a"
| "record_tenantId (DecisionRec d) = qd_tenantId d"

fun record_projectId :: "gate_record \<Rightarrow> string" where
  "record_projectId (ProfileRec p) = qp_projectId p"
| "record_projectId (TargetRec t) = qt_projectId t"
| "record_projectId (ReviewRec r) = qr_projectId r"
| "record_projectId (VerificationRec v) = qv_projectId v"
| "record_projectId (FindingRec f) = fg_projectId f"
| "record_projectId (RevisionRec n) = qn_projectId n"
| "record_projectId (PreferenceRec s) = qs_projectId s"
| "record_projectId (RequestRec a) = qa_projectId a"
| "record_projectId (DecisionRec d) = qd_projectId d"


section \<open>Schemas\<close>

text \<open>\<open>/^[a-zA-Z0-9][a-zA-Z0-9._:+ -]*$/\<close>\<close>

definition gateLabel :: "string \<Rightarrow> bool" where
  "gateLabel s \<longleftrightarrow> text_between 1 180 s \<and>
     (case s of [] \<Rightarrow> False | c # cs \<Rightarrow> is_alnum c \<and> list_all (\<lambda>d. is_alnum d \<or> d \<in> set ''._:+ -'') cs)"

definition uniqueSorted :: "(string \<Rightarrow> bool) \<Rightarrow> nat \<Rightarrow> nat \<Rightarrow> string list \<Rightarrow> bool" where
  "uniqueSorted P lo hi xs \<longleftrightarrow> lo \<le> length xs \<and> length xs \<le> hi \<and> list_all P xs \<and> distinct xs
     \<and> join_char (CHR ''|'') xs = join_char (CHR ''|'') (sort xs)"

definition completionPrincipalSchemaV1 :: "gate_principal \<Rightarrow> bool" where
  "completionPrincipalSchemaV1 p \<longleftrightarrow> safeId (cp_actorId p) \<and> cp_actorType p \<noteq> Node \<and> opt_all safeId (cp_workerId p)
     \<and> opt_all safeId (cp_agentProfileId p) \<and> opt_all safeId (cp_harness p) \<and> opt_all safeId (cp_adapterId p)
     \<and> opt_all safeId (cp_modelFamily p)"

definition gate_ids :: "string \<Rightarrow> string \<Rightarrow> string \<Rightarrow> bool" where
  "gate_ids i t p \<longleftrightarrow> safeId i \<and> safeId t \<and> safeId p"

definition int_between :: "rat \<Rightarrow> rat \<Rightarrow> rat \<Rightarrow> bool" where
  "int_between lo hi n \<longleftrightarrow> z_int n \<and> lo \<le> n \<and> n \<le> hi"

definition completionAcceptanceProfileSchemaV1 :: "host \<Rightarrow> acceptance_profile \<Rightarrow> bool" where
  "completionAcceptanceProfileSchemaV1 h p \<longleftrightarrow> gate_ids (qp_id p) (qp_tenantId p) (qp_projectId p) \<and> gateLabel (qp_name p)
     \<and> uniqueSorted safeId 1 50 (qp_requiredVerificationScenarioIds p) \<and> int_between 1 5 (qp_minimumIndependentReviews p)
     \<and> int_between 0 20 (qp_maximumRevisionRounds p) \<and> completionPrincipalSchemaV1 (qp_createdBy p) \<and> isoDate h (qp_createdAt p)
     \<and> sep_actor (qp_reviewerSeparation p) \<and> (qp_automaticLowRiskDisposition p \<longrightarrow> qp_minimumRisk p = Low)"

definition completionReviewTargetSchemaV1 :: "host \<Rightarrow> review_target \<Rightarrow> bool" where
  "completionReviewTargetSchemaV1 h t \<longleftrightarrow> gate_ids (qt_id t) (qt_tenantId t) (qt_projectId t) \<and> safeId (qt_subjectId t)
     \<and> digest_pattern (qt_subjectDigest t) \<and> safeId (qt_acceptanceProfileId t) \<and> digest_pattern (qt_acceptanceProfileDigest t)
     \<and> completionPrincipalSchemaV1 (qt_producer t) \<and> safeId (qt_rootTargetId t) \<and> int_between 0 20 (qt_revisionNumber t)
     \<and> opt_all safeId (qt_supersedesTargetId t) \<and> isoDate h (qt_submittedAt t)
     \<and> \<not> (qt_revisionNumber t = 0 \<and> (qt_rootTargetId t \<noteq> qt_id t \<or> truthy_text (qt_supersedesTargetId t)))
     \<and> \<not> (0 < qt_revisionNumber t \<and> (qt_rootTargetId t = qt_id t \<or> \<not> truthy_text (qt_supersedesTargetId t)
           \<or> qt_supersedesTargetId t = Some (qt_id t)))"

definition completionReviewExceptionSchemaV1 :: "review_exception \<Rightarrow> bool" where
  "completionReviewExceptionSchemaV1 e \<longleftrightarrow> safeId (qe_id e) \<and> digest_pattern (qe_statementDigest e) \<and> safeId (qe_followUpJobId e)"

definition accepting :: "review_decision \<Rightarrow> bool" where
  "accepting d \<longleftrightarrow> d = ReviewAccepted \<or> d = AcceptedWithExceptions"

definition completionReviewSchemaV1 :: "host \<Rightarrow> gate_review \<Rightarrow> bool" where
  "completionReviewSchemaV1 h r \<longleftrightarrow> gate_ids (qr_id r) (qr_tenantId r) (qr_projectId r) \<and> safeId (qr_targetId r)
     \<and> digest_pattern (qr_targetDigest r) \<and> safeId (qr_acceptanceProfileId r) \<and> digest_pattern (qr_acceptanceProfileDigest r)
     \<and> completionPrincipalSchemaV1 (qr_reviewer r) \<and> uniqueSorted digest_pattern 1 100 (qr_evidenceDigests r)
     \<and> uniqueSorted safeId 0 100 (qr_findingIds r)
     \<and> opt_all (\<lambda>es. list_all completionReviewExceptionSchemaV1 es \<and> 1 \<le> length es \<and> length es \<le> 10 \<and> distinct (map qe_id es))
         (qr_exceptions r)
     \<and> isoDate h (qr_reviewedAt r)
     \<and> (qr_authority r = AdvisoryReview) = (qr_decision r = Commented)
     \<and> \<not> (qr_authority r = AdvisoryReview \<and> qr_findingIds r \<noteq> [])
     \<and> \<not> (qr_decision r \<in> {ChangesRequested, ReviewRejected} \<and> qr_findingIds r = [])
     \<and> \<not> (accepting (qr_decision r) \<and> qr_findingIds r \<noteq> [])
     \<and> \<not> (qr_decision r = AcceptedWithExceptions \<and> qr_exceptions r = None)
     \<and> \<not> (qr_decision r \<noteq> AcceptedWithExceptions \<and> qr_exceptions r \<noteq> None)"

definition completionVerificationSchemaV1 :: "host \<Rightarrow> gate_verification \<Rightarrow> bool" where
  "completionVerificationSchemaV1 h v \<longleftrightarrow> gate_ids (qv_id v) (qv_tenantId v) (qv_projectId v) \<and> safeId (qv_targetId v)
     \<and> digest_pattern (qv_targetDigest v) \<and> safeId (qv_acceptanceProfileId v) \<and> digest_pattern (qv_acceptanceProfileDigest v)
     \<and> safeId (qv_scenarioId v) \<and> completionPrincipalSchemaV1 (qv_verifier v)
     \<and> uniqueSorted digest_pattern 1 100 (qv_evidenceDigests v) \<and> isoDate h (qv_verifiedAt v)"

definition completionFindingSchemaV1 :: "host \<Rightarrow> gate_finding \<Rightarrow> bool" where
  "completionFindingSchemaV1 h f \<longleftrightarrow> gate_ids (fg_id f) (fg_tenantId f) (fg_projectId f) \<and> safeId (fg_targetId f)
     \<and> digest_pattern (fg_targetDigest f) \<and> safeId (fg_reviewId f) \<and> safeId (fg_code f) \<and> digest_pattern (fg_statementDigest f)
     \<and> uniqueSorted digest_pattern 1 100 (fg_evidenceDigests f) \<and> isoDate h (fg_raisedAt f)"

definition completionRevisionSchemaV1 :: "host \<Rightarrow> gate_revision \<Rightarrow> bool" where
  "completionRevisionSchemaV1 h n \<longleftrightarrow> gate_ids (qn_id n) (qn_tenantId n) (qn_projectId n) \<and> safeId (qn_rootTargetId n)
     \<and> safeId (qn_fromTargetId n) \<and> digest_pattern (qn_fromTargetDigest n) \<and> safeId (qn_toTargetId n)
     \<and> digest_pattern (qn_toTargetDigest n) \<and> z_int (qn_revisionNumber n) \<and> 0 < qn_revisionNumber n \<and> qn_revisionNumber n \<le> 20
     \<and> uniqueSorted safeId 1 100 (qn_resolvedFindingIds n) \<and> completionPrincipalSchemaV1 (qn_revisedBy n)
     \<and> isoDate h (qn_revisedAt n) \<and> qn_fromTargetId n \<noteq> qn_toTargetId n"

definition completionPreferenceSchemaV1 :: "host \<Rightarrow> gate_preference \<Rightarrow> bool" where
  "completionPreferenceSchemaV1 h s \<longleftrightarrow> gate_ids (qs_id s) (qs_tenantId s) (qs_projectId s) \<and> safeId (qs_subjectId s)
     \<and> digest_pattern (qs_subjectDigest s) \<and> uniqueSorted digest_pattern 2 50 (qs_optionDigests s)
     \<and> digest_pattern (qs_selectedOptionDigest s) \<and> completionPrincipalSchemaV1 (qs_selectedBy s) \<and> isoDate h (qs_selectedAt s)
     \<and> opt_all (isoDate h) (qs_expiresAt s) \<and> qs_selectedOptionDigest s \<in> set (qs_optionDigests s)
     \<and> opt_all (\<lambda>e. \<not> ms_leq (date_parse e) (date_parse (qs_selectedAt s))) (qs_expiresAt s)"

definition consequentialApprovalRequestSchemaV1 :: "host \<Rightarrow> gate_approval_request \<Rightarrow> bool" where
  "consequentialApprovalRequestSchemaV1 h a \<longleftrightarrow> gate_ids (qa_id a) (qa_tenantId a) (qa_projectId a) \<and> safeId (qa_jobId a)
     \<and> safeId (qa_attemptId a) \<and> safeId (qa_effectIntentId a) \<and> digest_pattern (qa_operationDigest a)
     \<and> completionPrincipalSchemaV1 (qa_requestedBy a) \<and> isoDate h (qa_requestedAt a) \<and> isoDate h (qa_expiresAt a)
     \<and> ms_less (date_parse (qa_requestedAt a)) (date_parse (qa_expiresAt a))"

definition consequentialApprovalDecisionSchemaV1 :: "host \<Rightarrow> gate_approval_decision \<Rightarrow> bool" where
  "consequentialApprovalDecisionSchemaV1 h d \<longleftrightarrow> gate_ids (qd_id d) (qd_tenantId d) (qd_projectId d) \<and> safeId (qd_requestId d)
     \<and> digest_pattern (qd_requestDigest d) \<and> digest_pattern (qd_operationDigest d) \<and> safeId (qd_policyDecisionId d)
     \<and> completionPrincipalSchemaV1 (qd_decidedBy d) \<and> cp_actorType (qd_decidedBy d) = Human
     \<and> digest_pattern (qd_authenticationEventDigest d) \<and> isoDate h (qd_decidedAt d) \<and> isoDate h (qd_expiresAt d)
     \<and> safeId (qd_safeReasonCode d) \<and> ms_less (date_parse (qd_decidedAt d)) (date_parse (qd_expiresAt d))"

fun gateRecordSchema :: "host \<Rightarrow> gate_record \<Rightarrow> bool" where
  "gateRecordSchema h (ProfileRec p) = completionAcceptanceProfileSchemaV1 h p"
| "gateRecordSchema h (TargetRec t) = completionReviewTargetSchemaV1 h t"
| "gateRecordSchema h (ReviewRec r) = completionReviewSchemaV1 h r"
| "gateRecordSchema h (VerificationRec v) = completionVerificationSchemaV1 h v"
| "gateRecordSchema h (FindingRec f) = completionFindingSchemaV1 h f"
| "gateRecordSchema h (RevisionRec n) = completionRevisionSchemaV1 h n"
| "gateRecordSchema h (PreferenceRec s) = completionPreferenceSchemaV1 h s"
| "gateRecordSchema h (RequestRec a) = consequentialApprovalRequestSchemaV1 h a"
| "gateRecordSchema h (DecisionRec d) = consequentialApprovalDecisionSchemaV1 h d"


section \<open>Reviewer independence\<close>

datatype independence_policy = DifferentWorker | DifferentModelFamily

definition reviewerSeparationForPolicyV1 :: "independence_policy \<Rightarrow> reviewer_separation" where
  "reviewerSeparationForPolicyV1 policy = \<lparr>sep_actor = True, sep_worker = True, sep_agentProfile = True, sep_harness = True,
     sep_modelFamily = (policy = DifferentModelFamily)\<rparr>"

datatype independence_error = ReviewerNotIndependent | ReviewerProvenanceMissing

text \<open>One axis of separation: is it configured, is it waived for people, and the two values it compares.\<close>

fun independent_axes :: "bool \<Rightarrow> (bool \<times> bool \<times> string option \<times> string option) list \<Rightarrow> (independence_error, unit) result" where
  "independent_axes human [] = Inr ()"
| "independent_axes human ((configured, waived, source, candidate) # axes) =
     (if \<not> configured \<or> human \<and> waived then independent_axes human axes
      else if source = None \<or> candidate = None then Inl ReviewerProvenanceMissing
      else if source = candidate then Inl ReviewerNotIndependent
      else independent_axes human axes)"

definition assertReviewerIndependentV1 ::
    "gate_principal \<Rightarrow> gate_principal \<Rightarrow> reviewer_separation \<Rightarrow> (independence_error, unit) result" where
  "assertReviewerIndependentV1 producer reviewer separation =
     independent_axes (cp_actorType reviewer = Human)
       [(sep_actor separation, False, Some (cp_actorId producer), Some (cp_actorId reviewer)),
        (sep_worker separation, True, cp_workerId producer, cp_workerId reviewer),
        (sep_agentProfile separation, True, cp_agentProfileId producer, cp_agentProfileId reviewer),
        (sep_harness separation, True, cp_harness producer, cp_harness reviewer),
        (sep_modelFamily separation, True, cp_modelFamily producer, cp_modelFamily reviewer)]"

text \<open>What independence means: on every configured axis both values are known and differ; people are only compared by actor.\<close>

definition known_different :: "string option \<Rightarrow> string option \<Rightarrow> bool" where
  "known_different a b \<longleftrightarrow> a \<noteq> None \<and> b \<noteq> None \<and> a \<noteq> b"

definition independent_of :: "reviewer_separation \<Rightarrow> gate_principal \<Rightarrow> gate_principal \<Rightarrow> bool" where
  "independent_of s producer reviewer \<longleftrightarrow>
     (sep_actor s \<longrightarrow> cp_actorId producer \<noteq> cp_actorId reviewer)
     \<and> (cp_actorType reviewer \<noteq> Human \<longrightarrow>
          (sep_worker s \<longrightarrow> known_different (cp_workerId producer) (cp_workerId reviewer))
        \<and> (sep_agentProfile s \<longrightarrow> known_different (cp_agentProfileId producer) (cp_agentProfileId reviewer))
        \<and> (sep_harness s \<longrightarrow> known_different (cp_harness producer) (cp_harness reviewer))
        \<and> (sep_modelFamily s \<longrightarrow> known_different (cp_modelFamily producer) (cp_modelFamily reviewer)))"

lemma independent_axes_iff:
  "independent_axes human axes = Inr () \<longleftrightarrow> (\<forall>(configured, waived, a, b) \<in> set axes. configured \<and> \<not> (human \<and> waived) \<longrightarrow> known_different a b)"
  by (induction human axes rule: independent_axes.induct) (auto simp: known_different_def)

lemma assertReviewerIndependentV1_iff:
  "assertReviewerIndependentV1 p r s = Inr () \<longleftrightarrow> independent_of s p r"
  unfolding assertReviewerIndependentV1_def independent_axes_iff independent_of_def by (simp add: known_different_def) blast

end
