(* ===== verification/Completion_Gate.thy ===== *)
theory Completion_Gate
  imports Completion_Records Rollback_Checkpoint Step_Monad Js_Number
begin

text \<open>
  The completion gate store: \<open>src/completion-gate/v1/store.ts\<close>. Records are appended to one table; each row carries a
  digest of its record and a tag under the store's key, and one row per tenant carries the digest of all of them. The
  revision of that row is also kept in a checkpoint outside the database (\<open>Rollback_Checkpoint\<close>). Every operation first
  checks the rows, the tenant's row and the checkpoint against each other.

  An operation is a step on the database and the checkpoints. Its body runs in a transaction: an error restores
  the database, but not a checkpoint that was advanced before the error. Operations on one tenant are serialised by the lock
  on its integrity row, so they run one after another. The column \<open>occurred_at\<close> holds the ISO text of its instant; the
  JSON payload holds the record it parses to (\<open>None\<close> when no schema accepts it). Rows are ordered by kind and
  identifier in code point order, which stands for the collation of the database. The tables of other components that the
  store reads (tenants, projects, effect intents with their jobs, policy decisions with their identities, role grants) and
  the clock are an environment given with each operation. Not modelled: cancellation signals, and the reviewer-role
  commit, which is a function of the database (\<open>commit_agent_review\<close>).
\<close>

section \<open>State\<close>

datatype gate_error = InvalidRecord | RecordConflict | RecordNotFound | ScopeMismatch | ProfileMismatch
  | GateNotIndependent | GateProvenanceMissing | RiskFloorMismatch | VerificationScenarioInvalid | TargetSuperseded
  | RevisionInvalid | ApprovalBindingInvalid | IntegrityFailed | GateThrown

record gate_row =
  gr_id :: string
  gr_tenantId :: string
  gr_projectId :: string
  gr_kind :: gate_kind
  gr_recordKey :: string
  gr_subjectId :: string
  gr_parentId :: "string option"
  gr_recordDigest :: string
  gr_recordAuthTag :: string
  gr_payload :: "gate_record option"
  gr_occurredAt :: string

record integrity_row =
  gi_tenantId :: string
  gi_revision :: rat
  gi_recordCount :: rat
  gi_stateDigest :: string
  gi_stateAuthTag :: string

record gate_db =
  gd_records :: "gate_row list"
  gd_integrity :: "integrity_row list"

record gate_state =
  gs_db :: gate_db
  gs_checkpoints :: checkpoint_store

definition empty_gate :: gate_state where
  "empty_gate = \<lparr>gs_db = \<lparr>gd_records = [], gd_integrity = []\<rparr>, gs_checkpoints = Map.empty\<rparr>"

record approval_policy_row =
  pw_identityId :: string
  pw_action :: string
  pw_resourceType :: string
  pw_resourceId :: string
  pw_projectId :: "string option"
  pw_risk :: risk_class
  pw_externalEffect :: bool
  pw_allowed :: bool
  pw_grantIds :: "string list"
  pw_strongFactorEvidenceId :: "string option"
  pw_requestDigest :: string
  pw_decidedAt :: int
  pw_expiresAt :: int
  pw_actorType :: string
  pw_identityState :: string

record approval_grant_row =
  gw_id :: string
  gw_roleKey :: string
  gw_allowedActions :: "string list"
  gw_projectIds :: "string list"
  gw_riskCeiling :: risk_class
  gw_allowExternalEffects :: bool
  gw_expiresAt :: "int option"
  gw_revokedAt :: "int option"

record gate_env =
  ge_tenants :: "string list"
  ge_projects :: "(string \<times> string) list"
  ge_effect :: "string \<Rightarrow> string \<Rightarrow> (effect_intent_record \<times> job_record) option"
  ge_policy :: "string \<Rightarrow> string \<Rightarrow> approval_policy_row option"
  ge_grants :: "string \<Rightarrow> string \<Rightarrow> approval_grant_row list"
  ge_now :: string

text \<open>The store's integrity key and the HMAC of \<open>node:crypto\<close>.\<close>

record gate_keys =
  gk_integrityKey :: string
  gk_hmac :: "string \<Rightarrow> string \<Rightarrow> string"

type_synonym 'a gate_step = "(gate_state, gate_error, 'a) effect_step"

definition gate_transaction :: "'a gate_step \<Rightarrow> 'a gate_step" where
  "gate_transaction m = transaction_step (\<lambda>s s'. s'\<lparr>gs_db := gs_db s\<rparr>) m"

definition hmacSha256Tag :: "gate_keys \<Rightarrow> json \<Rightarrow> (gate_error, string) result" where
  "hmacSha256Tag k v = (if length (gk_integrityKey k) < 32 then Inl IntegrityFailed
     else Inr (''hmac-sha256:'' @ gk_hmac k (gk_integrityKey k) (canonicalJson v)))"

text \<open>The constructor refuses a key it cannot use; a store that exists tags with it.\<close>

definition gate_constructor :: "gate_keys \<Rightarrow> (gate_error, gate_keys) result" where
  "gate_constructor k = bind_result (hmacSha256Tag k (JObj [(''purpose'', JStr ''completion-gate-key-check'')])) (\<lambda>_. Inr k)"

definition gate_tag :: "gate_keys \<Rightarrow> json \<Rightarrow> string" where
  "gate_tag k v = ''hmac-sha256:'' @ gk_hmac k (gk_integrityKey k) (canonicalJson v)"

definition iso_of_text :: "string \<Rightarrow> (gate_error, string) result" where
  "iso_of_text t = (case Option.bind (date_parse t) to_iso of None \<Rightarrow> Inl GateThrown | Some s \<Rightarrow> Inr s)"

definition gate_safe :: "json \<Rightarrow> (gate_error, unit) result" where
  "gate_safe v = (case assertNoSecretMaterial v ''completion gate record'' of Inl _ \<Rightarrow> Inl InvalidRecord | Inr _ \<Rightarrow> Inr ())"

definition exactSorted :: "string list \<Rightarrow> string list \<Rightarrow> bool" where
  "exactSorted l r \<longleftrightarrow> join_char (CHR ''|'') l = join_char (CHR ''|'') r"


section \<open>Rows\<close>

record gate_metadata =
  md_recordKey :: string
  md_subjectId :: string
  md_parentId :: "string option"
  md_occurredAt :: string

fun describe :: "host \<Rightarrow> gate_record \<Rightarrow> gate_metadata" where
  "describe h (ProfileRec p) = \<lparr>md_recordKey = qp_id p, md_subjectId = qp_id p, md_parentId = None, md_occurredAt = qp_createdAt p\<rparr>"
| "describe h (TargetRec t) = \<lparr>md_recordKey = sha256Digest h (JObj [(''kind'', JStr ''target''), (''subjectId'', JStr (qt_subjectId t)),
       (''revisionNumber'', JNum (qt_revisionNumber t))]),
     md_subjectId = qt_subjectId t, md_parentId = Some (qt_acceptanceProfileId t), md_occurredAt = qt_submittedAt t\<rparr>"
| "describe h (ReviewRec r) = \<lparr>md_recordKey = sha256Digest h (JObj [(''kind'', JStr ''review''), (''targetId'', JStr (qr_targetId r)),
       (''authority'', JStr (review_authority_text (qr_authority r))), (''reviewerActorId'', JStr (cp_actorId (qr_reviewer r)))]),
     md_subjectId = qr_targetId r, md_parentId = Some (qr_targetId r), md_occurredAt = qr_reviewedAt r\<rparr>"
| "describe h (VerificationRec v) = \<lparr>md_recordKey = sha256Digest h (JObj [(''kind'', JStr ''verification''),
       (''targetId'', JStr (qv_targetId v)), (''scenarioId'', JStr (qv_scenarioId v))]),
     md_subjectId = qv_targetId v, md_parentId = Some (qv_targetId v), md_occurredAt = qv_verifiedAt v\<rparr>"
| "describe h (FindingRec f) = \<lparr>md_recordKey = fg_id f, md_subjectId = fg_targetId f, md_parentId = Some (fg_reviewId f),
     md_occurredAt = fg_raisedAt f\<rparr>"
| "describe h (RevisionRec n) = \<lparr>md_recordKey = qn_fromTargetId n, md_subjectId = qn_rootTargetId n,
     md_parentId = Some (qn_fromTargetId n), md_occurredAt = qn_revisedAt n\<rparr>"
| "describe h (PreferenceRec s) = \<lparr>md_recordKey = qs_id s, md_subjectId = qs_subjectId s, md_parentId = None,
     md_occurredAt = qs_selectedAt s\<rparr>"
| "describe h (RequestRec a) = \<lparr>md_recordKey = qa_effectIntentId a, md_subjectId = qa_effectIntentId a,
     md_parentId = Some (qa_effectIntentId a), md_occurredAt = qa_requestedAt a\<rparr>"
| "describe h (DecisionRec d) = \<lparr>md_recordKey = qd_requestId d, md_subjectId = qd_requestId d,
     md_parentId = Some (qd_requestId d), md_occurredAt = qd_decidedAt d\<rparr>"

definition rowAuthMaterial :: "gate_row \<Rightarrow> json" where
  "rowAuthMaterial row = JObj [(''id'', JStr (gr_id row)), (''tenantId'', JStr (gr_tenantId row)), (''projectId'', JStr (gr_projectId row)),
     (''kind'', JStr (kind_text (gr_kind row))), (''recordKey'', JStr (gr_recordKey row)), (''subjectId'', JStr (gr_subjectId row)),
     (''parentId'', case gr_parentId row of None \<Rightarrow> JNull | Some p \<Rightarrow> JStr p), (''recordDigest'', JStr (gr_recordDigest row)),
     (''occurredAt'', JStr (gr_occurredAt row))]"

text \<open>\<open>schemaFor(row.kind).parse(row.payload)\<close>\<close>

definition parse_payload :: "host \<Rightarrow> gate_row \<Rightarrow> gate_record option" where
  "parse_payload h row = (case gr_payload row of None \<Rightarrow> None
     | Some r \<Rightarrow> if record_kind r = gr_kind row \<and> gateRecordSchema h r then Some r else None)"

definition verifiedRow :: "host \<Rightarrow> gate_keys \<Rightarrow> gate_row \<Rightarrow> (gate_error, gate_record) result" where
  "verifiedRow h k row =
     (case parse_payload h row of None \<Rightarrow> Inl IntegrityFailed
      | Some r \<Rightarrow>
          (if record_id r \<noteq> gr_id row \<or> record_tenantId r \<noteq> gr_tenantId row \<or> record_projectId r \<noteq> gr_projectId row
             \<or> md_recordKey (describe h r) \<noteq> gr_recordKey row \<or> md_subjectId (describe h r) \<noteq> gr_subjectId row
             \<or> md_parentId (describe h r) \<noteq> gr_parentId row \<or> md_occurredAt (describe h r) \<noteq> gr_occurredAt row
             \<or> sha256Digest h (record_json r) \<noteq> gr_recordDigest row \<or> gate_tag k (rowAuthMaterial row) \<noteq> gr_recordAuthTag row
           then Inl IntegrityFailed
           else bind_result (gate_safe (record_json r)) (\<lambda>_. Inr r)))"

fun verified_rows :: "host \<Rightarrow> gate_keys \<Rightarrow> gate_row list \<Rightarrow> (gate_error, (gate_kind \<times> gate_record) list) result" where
  "verified_rows h k [] = Inr []"
| "verified_rows h k (row # rows) = bind_result (verifiedRow h k row) (\<lambda>r.
     bind_result (verified_rows h k rows) (\<lambda>rs. Inr ((gr_kind row, r) # rs)))"


section \<open>The tenant's state and its checkpoint\<close>

definition checkpointScope :: "string \<Rightarrow> string" where
  "checkpointScope tenantId = ''completion-gate:'' @ tenantId"

definition tenantStateTag :: "gate_keys \<Rightarrow> string \<Rightarrow> rat \<Rightarrow> rat \<Rightarrow> string \<Rightarrow> string" where
  "tenantStateTag k tenantId revision recordCount stateDigest = gate_tag k (JObj [(''module'', JStr ''completion-gate''),
     (''tenantId'', JStr tenantId), (''revision'', JNum revision), (''recordCount'', JNum recordCount), (''stateDigest'', JStr stateDigest)])"

definition gate_checkpoint :: "string \<Rightarrow> rat \<Rightarrow> rat \<Rightarrow> string \<Rightarrow> string \<Rightarrow> rollback_checkpoint" where
  "gate_checkpoint tenantId revision recordCount stateDigest stateAuthTag =
     \<lparr>ck_schema = ROLLBACK_CHECKPOINT_SCHEMA_V1, ck_scope = checkpointScope tenantId, ck_revision = Fin revision,
      ck_recordCount = Fin recordCount, ck_stateDigest = stateDigest, ck_stateAuthTag = stateAuthTag\<rparr>"

definition integrity_checkpoint :: "string \<Rightarrow> integrity_row \<Rightarrow> rollback_checkpoint" where
  "integrity_checkpoint tenantId row = gate_checkpoint tenantId (gi_revision row) (gi_recordCount row) (gi_stateDigest row) (gi_stateAuthTag row)"

definition state_row_json :: "gate_row \<Rightarrow> json" where
  "state_row_json row = JObj [(''id'', JStr (gr_id row)), (''projectId'', JStr (gr_projectId row)), (''kind'', JStr (kind_text (gr_kind row))),
     (''recordKey'', JStr (gr_recordKey row)), (''subjectId'', JStr (gr_subjectId row)),
     (''parentId'', case gr_parentId row of None \<Rightarrow> JNull | Some p \<Rightarrow> JStr p), (''recordDigest'', JStr (gr_recordDigest row)),
     (''recordAuthTag'', JStr (gr_recordAuthTag row)), (''occurredAt'', JStr (gr_occurredAt row))]"

definition tenant_state_json :: "string \<Rightarrow> gate_row list \<Rightarrow> json" where
  "tenant_state_json tenantId rows = JObj [(''tenantId'', JStr tenantId), (''records'', JArr (map state_row_json rows))]"

definition row_before :: "gate_row \<Rightarrow> gate_row \<Rightarrow> bool" where
  "row_before a b \<longleftrightarrow> kind_text (gr_kind a) < kind_text (gr_kind b) \<or> gr_kind a = gr_kind b \<and> gr_id a \<le> gr_id b"

definition tenant_rows :: "string \<Rightarrow> gate_row list \<Rightarrow> gate_row list" where
  "tenant_rows tenantId rows = js_sort row_before (filter (\<lambda>r. gr_tenantId r = tenantId) rows)"

record computed_state =
  gc_recordCount :: rat
  gc_stateDigest :: string
  gc_verified :: "(gate_kind \<times> gate_record) list"

definition computedTenantState :: "host \<Rightarrow> gate_keys \<Rightarrow> string \<Rightarrow> gate_db \<Rightarrow> (gate_error, computed_state) result" where
  "computedTenantState h k tenantId db =
     (let rows = tenant_rows tenantId (gd_records db) in
      bind_result (verified_rows h k rows) (\<lambda>verified.
      Inr \<lparr>gc_recordCount = of_nat (length rows), gc_stateDigest = sha256Digest h (tenant_state_json tenantId rows),
           gc_verified = verified\<rparr>))"

definition integrity_for :: "string \<Rightarrow> gate_db \<Rightarrow> integrity_row option" where
  "integrity_for tenantId db = find (\<lambda>r. gi_tenantId r = tenantId) (gd_integrity db)"

text \<open>Two checkpoints agree when both are valid and have the same digest.\<close>

definition same_checkpoint :: "host \<Rightarrow> rollback_checkpoint \<Rightarrow> rollback_checkpoint \<Rightarrow> bool" where
  "same_checkpoint h a b \<longleftrightarrow> (case rollbackCheckpointDigestV1 h a of Inl _ \<Rightarrow> False
     | Inr x \<Rightarrow> rollbackCheckpointDigestV1 h b = Inr x)"

definition assertCheckpoint :: "host \<Rightarrow> string \<Rightarrow> integrity_row \<Rightarrow> checkpoint_store \<Rightarrow> (gate_error, rollback_checkpoint) result" where
  "assertCheckpoint h tenantId row checkpoints =
     (let expected = integrity_checkpoint tenantId row in
      case checkpoint_read checkpoints (checkpointScope tenantId) of
        None \<Rightarrow> Inl IntegrityFailed
      | Some known \<Rightarrow> if same_checkpoint h known expected then Inr expected else Inl IntegrityFailed)"

definition lockAndVerifyTenantState ::
    "host \<Rightarrow> gate_keys \<Rightarrow> string \<Rightarrow> gate_state \<Rightarrow> (gate_error, (gate_kind \<times> gate_record) list) result" where
  "lockAndVerifyTenantState h k tenantId s =
     bind_result (computedTenantState h k tenantId (gs_db s)) (\<lambda>computed.
     case integrity_for tenantId (gs_db s) of None \<Rightarrow> Inl IntegrityFailed
     | Some integrity \<Rightarrow>
         (if gi_revision integrity < 1 \<or> gi_recordCount integrity \<noteq> gc_recordCount computed
            \<or> gi_stateDigest integrity \<noteq> gc_stateDigest computed
            \<or> gi_stateAuthTag integrity \<noteq> tenantStateTag k tenantId (gi_revision integrity) (gc_recordCount computed) (gc_stateDigest computed)
          then Inl IntegrityFailed
          else bind_result (assertCheckpoint h tenantId integrity (gs_checkpoints s)) (\<lambda>_. Inr (gc_verified computed))))"

definition integrity_checks :: "integrity_row \<Rightarrow> bool" where
  "integrity_checks row \<longleftrightarrow> 0 \<le> gi_recordCount row \<and> digest_pattern (gi_stateDigest row) \<and> hmac_pattern (gi_stateAuthTag row)"

definition set_integrity :: "integrity_row \<Rightarrow> gate_state \<Rightarrow> gate_state" where
  "set_integrity row s = s\<lparr>gs_db := (gs_db s)\<lparr>gd_integrity :=
     map (\<lambda>r. if gi_tenantId r = gi_tenantId row then row else r) (gd_integrity (gs_db s))\<rparr>\<rparr>"

definition checkpoint_write :: "(checkpoint_store \<Rightarrow> (checkpoint_error, checkpoint_store) result) \<Rightarrow> unit gate_step" where
  "checkpoint_write f s = (case f (gs_checkpoints s) of Inl _ \<Rightarrow> (Inl IntegrityFailed, s) | Inr c \<Rightarrow> (Inr (), s\<lparr>gs_checkpoints := c\<rparr>))"

definition write_integrity :: "integrity_row \<Rightarrow> unit gate_step" where
  "write_integrity row s = (if integrity_checks row then (Inr (), set_integrity row s) else (Inl GateThrown, s))"

definition checkpointAdvance :: "host \<Rightarrow> rollback_checkpoint \<Rightarrow> rollback_checkpoint \<Rightarrow> unit gate_step" where
  "checkpointAdvance h expected next s = (case rollbackCheckpointDigestV1 h expected of Inl _ \<Rightarrow> (Inl IntegrityFailed, s)
     | Inr d \<Rightarrow> checkpoint_write (advance h d next) s)"

definition refreshTenantState :: "host \<Rightarrow> gate_keys \<Rightarrow> string \<Rightarrow> unit gate_step" where
  "refreshTenantState h k tenantId =
     bind_step (query_step (\<lambda>s. case integrity_for tenantId (gs_db s) of None \<Rightarrow> Inl IntegrityFailed | Some prior \<Rightarrow> Inr prior)) (\<lambda>prior.
     bind_step (query_step (\<lambda>s. assertCheckpoint h tenantId prior (gs_checkpoints s))) (\<lambda>expected.
     bind_step (query_step (\<lambda>s. computedTenantState h k tenantId (gs_db s))) (\<lambda>computed.
     let row = \<lparr>gi_tenantId = tenantId, gi_revision = gi_revision prior + 1, gi_recordCount = gc_recordCount computed,
        gi_stateDigest = gc_stateDigest computed,
        gi_stateAuthTag = tenantStateTag k tenantId (gi_revision prior + 1) (gc_recordCount computed) (gc_stateDigest computed)\<rparr> in
     bind_step (write_integrity row) (\<lambda>_. checkpointAdvance h expected (integrity_checkpoint tenantId row)))))"


section \<open>Provisioning\<close>

definition genesis_row :: "host \<Rightarrow> gate_keys \<Rightarrow> string \<Rightarrow> integrity_row" where
  "genesis_row h k tenantId = (let d = sha256Digest h (tenant_state_json tenantId []) in
     \<lparr>gi_tenantId = tenantId, gi_revision = 1, gi_recordCount = 0, gi_stateDigest = d, gi_stateAuthTag = tenantStateTag k tenantId 1 0 d\<rparr>)"

definition genesisIntegrityForKeyV1 :: "host \<Rightarrow> gate_keys \<Rightarrow> string \<Rightarrow> (gate_error, integrity_row) result" where
  "genesisIntegrityForKeyV1 h k tenantId = guard_result (tenantId \<noteq> []) ScopeMismatch (
     guard_result (32 \<le> length (gk_integrityKey k)) IntegrityFailed (Inr (genesis_row h k tenantId)))"

datatype provisioning = CheckpointCreated | CheckpointPresent

definition completeProvisionedTenantV1 :: "host \<Rightarrow> gate_keys \<Rightarrow> string \<Rightarrow> provisioning gate_step" where
  "completeProvisionedTenantV1 h k tenantId =
     bind_step (lift_step (genesisIntegrityForKeyV1 h k tenantId)) (\<lambda>genesis.
     bind_step (gate_transaction (query_step (\<lambda>s.
       if filter (\<lambda>r. gi_tenantId r = tenantId) (gd_integrity (gs_db s)) = [genesis]
          \<and> filter (\<lambda>r. gr_tenantId r = tenantId) (gd_records (gs_db s)) = [] then Inr () else Inl IntegrityFailed))) (\<lambda>_.
     let expected = integrity_checkpoint tenantId genesis in
     bind_step (query_step (\<lambda>s. Inr (checkpoint_read (gs_checkpoints s) (checkpointScope tenantId)))) (\<lambda>existing.
     case existing of
       Some known \<Rightarrow> if same_checkpoint h known expected then return_step CheckpointPresent else fail_step IntegrityFailed
     | None \<Rightarrow> bind_step (checkpoint_write (initialize expected)) (\<lambda>_. return_step CheckpointCreated))))"

definition verifyProvisionedTenantV1 :: "host \<Rightarrow> gate_keys \<Rightarrow> string \<Rightarrow> unit gate_step" where
  "verifyProvisionedTenantV1 h k tenantId = gate_transaction (query_step (\<lambda>s.
     case filter (\<lambda>r. gi_tenantId r = tenantId) (gd_integrity (gs_db s)) of
       [row] \<Rightarrow>
         bind_result (assertCheckpoint h tenantId row (gs_checkpoints s)) (\<lambda>_.
         bind_result (computedTenantState h k tenantId (gs_db s)) (\<lambda>computed.
         if gc_recordCount computed \<noteq> gi_recordCount row \<or> gc_stateDigest computed \<noteq> gi_stateDigest row
           \<or> tenantStateTag k tenantId (gi_revision row) (gc_recordCount computed) (gc_stateDigest computed) \<noteq> gi_stateAuthTag row
         then Inl IntegrityFailed else Inr ()))
     | _ \<Rightarrow> Inl IntegrityFailed))"

definition insert_integrity :: "integrity_row \<Rightarrow> unit gate_step" where
  "insert_integrity row s = (if integrity_checks row
     then (Inr (), s\<lparr>gs_db := (gs_db s)\<lparr>gd_integrity := gd_integrity (gs_db s) @ [row]\<rparr>\<rparr>) else (Inl GateThrown, s))"

definition provisionTenant :: "host \<Rightarrow> gate_keys \<Rightarrow> gate_env \<Rightarrow> string \<Rightarrow> unit gate_step" where
  "provisionTenant h k env tenantId = gate_transaction (
     bind_step (check_step (tenantId \<in> set (ge_tenants env)) ScopeMismatch) (\<lambda>_.
     bind_step (query_step (\<lambda>s. bind_result (computedTenantState h k tenantId (gs_db s)) (\<lambda>computed.
       if integrity_for tenantId (gs_db s) \<noteq> None \<or> gc_recordCount computed \<noteq> 0
          \<or> checkpoint_read (gs_checkpoints s) (checkpointScope tenantId) \<noteq> None
       then Inl IntegrityFailed else Inr computed))) (\<lambda>computed.
     let row = \<lparr>gi_tenantId = tenantId, gi_revision = 1, gi_recordCount = gc_recordCount computed, gi_stateDigest = gc_stateDigest computed,
        gi_stateAuthTag = tenantStateTag k tenantId 1 (gc_recordCount computed) (gc_stateDigest computed)\<rparr> in
     bind_step (insert_integrity row) (\<lambda>_. checkpoint_write (initialize (integrity_checkpoint tenantId row))))))"


section \<open>Finding and inserting records\<close>

definition findExisting :: "host \<Rightarrow> gate_keys \<Rightarrow> gate_record \<Rightarrow> gate_db \<Rightarrow> (gate_error, gate_record option) result" where
  "findExisting h k record db =
     (case find (\<lambda>r. gr_tenantId r = record_tenantId record
          \<and> (gr_id r = record_id record \<or> gr_kind r = record_kind record \<and> gr_recordKey r = md_recordKey (describe h record))) (gd_records db) of
        None \<Rightarrow> Inr None
      | Some row \<Rightarrow> bind_result (verifiedRow h k row) (\<lambda>verified.
          if gr_kind row \<noteq> record_kind record \<or> gr_recordDigest row \<noteq> sha256Digest h (record_json record)
          then Inl RecordConflict else Inr (Some verified)))"

definition new_row :: "host \<Rightarrow> gate_keys \<Rightarrow> gate_record \<Rightarrow> string \<Rightarrow> gate_row" where
  "new_row h k record occurredAt =
     (let row = \<lparr>gr_id = record_id record, gr_tenantId = record_tenantId record, gr_projectId = record_projectId record,
        gr_kind = record_kind record, gr_recordKey = md_recordKey (describe h record), gr_subjectId = md_subjectId (describe h record),
        gr_parentId = md_parentId (describe h record), gr_recordDigest = sha256Digest h (record_json record), gr_recordAuthTag = [],
        gr_payload = Some record, gr_occurredAt = occurredAt\<rparr>
      in row\<lparr>gr_recordAuthTag := gate_tag k (rowAuthMaterial row)\<rparr>)"

text \<open>The insertion fails on a missing project or a column check; \<open>findExisting\<close> has excluded a conflict of keys.\<close>

definition insert_row :: "gate_env \<Rightarrow> gate_row \<Rightarrow> unit gate_step" where
  "insert_row env row s =
     (if (gr_tenantId row, gr_projectId row) \<in> set (ge_projects env) \<and> digest_pattern (gr_recordDigest row) \<and> hmac_pattern (gr_recordAuthTag row)
      then (Inr (), s\<lparr>gs_db := (gs_db s)\<lparr>gd_records := gd_records (gs_db s) @ [row]\<rparr>\<rparr>) else (Inl GateThrown, s))"

definition insert_record :: "host \<Rightarrow> gate_keys \<Rightarrow> gate_env \<Rightarrow> gate_record \<Rightarrow> (gate_record \<times> bool) gate_step" where
  "insert_record h k env record =
     bind_step (query_step (\<lambda>s. findExisting h k record (gs_db s))) (\<lambda>existing.
     case existing of
       Some r \<Rightarrow> return_step (r, True)
     | None \<Rightarrow>
         bind_step (lift_step (iso_of_text (md_occurredAt (describe h record)))) (\<lambda>occurredAt.
         bind_step (insert_row env (new_row h k record occurredAt)) (\<lambda>_.
         bind_step (refreshTenantState h k (record_tenantId record)) (\<lambda>_. return_step (record, False)))))"

definition requireRecord :: "host \<Rightarrow> gate_keys \<Rightarrow> string \<Rightarrow> string \<Rightarrow> gate_kind \<Rightarrow> gate_db \<Rightarrow> (gate_error, gate_record) result" where
  "requireRecord h k tenantId i kind db =
     (case find (\<lambda>r. gr_tenantId r = tenantId \<and> gr_id r = i \<and> gr_kind r = kind) (gd_records db) of
        None \<Rightarrow> Inl RecordNotFound | Some row \<Rightarrow> verifiedRow h k row)"

fun as_profile :: "gate_record \<Rightarrow> (gate_error, acceptance_profile) result" where
  "as_profile (ProfileRec p) = Inr p"
| "as_profile _ = Inl IntegrityFailed"

fun as_target :: "gate_record \<Rightarrow> (gate_error, review_target) result" where
  "as_target (TargetRec t) = Inr t"
| "as_target _ = Inl IntegrityFailed"

fun as_request :: "gate_record \<Rightarrow> (gate_error, gate_approval_request) result" where
  "as_request (RequestRec a) = Inr a"
| "as_request _ = Inl IntegrityFailed"

definition requireProfile :: "host \<Rightarrow> gate_keys \<Rightarrow> string \<Rightarrow> string \<Rightarrow> gate_db \<Rightarrow> (gate_error, acceptance_profile) result" where
  "requireProfile h k tenantId i db = bind_result (requireRecord h k tenantId i ProfileKind db) as_profile"

definition requireTarget :: "host \<Rightarrow> gate_keys \<Rightarrow> string \<Rightarrow> string \<Rightarrow> gate_db \<Rightarrow> (gate_error, review_target) result" where
  "requireTarget h k tenantId i db = bind_result (requireRecord h k tenantId i TargetKind db) as_target"

text \<open>The rows of a kind under a parent or subject, in the order of their time and identifier.\<close>

definition time_before :: "gate_row \<Rightarrow> gate_row \<Rightarrow> bool" where
  "time_before a b \<longleftrightarrow> ms_less (date_parse (gr_occurredAt a)) (date_parse (gr_occurredAt b))
     \<or> date_parse (gr_occurredAt a) = date_parse (gr_occurredAt b) \<and> gr_id a \<le> gr_id b"

definition listByParent ::
    "host \<Rightarrow> gate_keys \<Rightarrow> string \<Rightarrow> string \<Rightarrow> gate_kind \<Rightarrow> string \<Rightarrow> gate_db \<Rightarrow> (gate_error, gate_record list) result" where
  "listByParent h k tenantId projectId kind parentId db =
     bind_result (verified_rows h k (js_sort time_before (filter (\<lambda>r. gr_tenantId r = tenantId \<and> gr_projectId r = projectId
       \<and> gr_kind r = kind \<and> gr_parentId r = Some parentId) (gd_records db)))) (\<lambda>rs. Inr (map snd rs))"

definition listBySubject ::
    "host \<Rightarrow> gate_keys \<Rightarrow> string \<Rightarrow> string \<Rightarrow> gate_kind \<Rightarrow> string \<Rightarrow> gate_db \<Rightarrow> (gate_error, gate_record list) result" where
  "listBySubject h k tenantId projectId kind subjectId db =
     bind_result (verified_rows h k (js_sort time_before (filter (\<lambda>r. gr_tenantId r = tenantId \<and> gr_projectId r = projectId
       \<and> gr_kind r = kind \<and> gr_subjectId r = subjectId) (gd_records db)))) (\<lambda>rs. Inr (map snd rs))"

definition reviews_in :: "gate_record list \<Rightarrow> gate_review list" where
  "reviews_in rs = concat (map (\<lambda>r. case r of ReviewRec v \<Rightarrow> [v] | _ \<Rightarrow> []) rs)"

definition verifications_in :: "gate_record list \<Rightarrow> gate_verification list" where
  "verifications_in rs = concat (map (\<lambda>r. case r of VerificationRec v \<Rightarrow> [v] | _ \<Rightarrow> []) rs)"

definition findings_in :: "gate_record list \<Rightarrow> gate_finding list" where
  "findings_in rs = concat (map (\<lambda>r. case r of FindingRec f \<Rightarrow> [f] | _ \<Rightarrow> []) rs)"


section \<open>Guards\<close>

definition assertTargetProfile :: "host \<Rightarrow> review_target \<Rightarrow> acceptance_profile \<Rightarrow> (gate_error, unit) result" where
  "assertTargetProfile h t p = guard_result (\<not> (qt_tenantId t \<noteq> qp_tenantId p \<or> qt_projectId t \<noteq> qp_projectId p
     \<or> qt_kind t \<noteq> qp_targetKind p \<or> qt_acceptanceProfileDigest t \<noteq> sha256Digest h (profile_json p))) ProfileMismatch (Inr ())"

definition assertReviewBindings :: "host \<Rightarrow> gate_review \<Rightarrow> review_target \<Rightarrow> acceptance_profile \<Rightarrow> (gate_error, unit) result" where
  "assertReviewBindings h r t p = guard_result (\<not> (qr_tenantId r \<noteq> qt_tenantId t \<or> qr_projectId r \<noteq> qt_projectId t
     \<or> qr_targetDigest r \<noteq> sha256Digest h (review_target_json t) \<or> qr_acceptanceProfileId r \<noteq> qp_id p
     \<or> qr_acceptanceProfileDigest r \<noteq> sha256Digest h (profile_json p)
     \<or> ms_less (date_parse (qr_reviewedAt r)) (date_parse (qt_submittedAt t)))) ProfileMismatch (Inr ())"

definition assertIndependent :: "gate_principal \<Rightarrow> gate_principal \<Rightarrow> acceptance_profile \<Rightarrow> (gate_error, unit) result" where
  "assertIndependent producer reviewer p =
     (case assertReviewerIndependentV1 producer reviewer (qp_reviewerSeparation p) of
        Inl ReviewerNotIndependent \<Rightarrow> Inl GateNotIndependent
      | Inl ReviewerProvenanceMissing \<Rightarrow> Inl GateProvenanceMissing
      | Inr _ \<Rightarrow> Inr ())"

fun assert_all_independent :: "gate_principal list \<Rightarrow> gate_principal \<Rightarrow> acceptance_profile \<Rightarrow> (gate_error, unit) result" where
  "assert_all_independent [] reviewer p = Inr ()"
| "assert_all_independent (q # qs) reviewer p = bind_result (assertIndependent q reviewer p) (\<lambda>_. assert_all_independent qs reviewer p)"

definition expected_risk :: "risk_class \<Rightarrow> risk_class \<Rightarrow> risk_class" where
  "expected_risk floor_risk assessed = (if riskRank assessed < riskRank floor_risk then floor_risk else assessed)"

definition finding_matches :: "gate_review \<Rightarrow> gate_finding \<Rightarrow> bool" where
  "finding_matches r f \<longleftrightarrow> fg_tenantId f = qr_tenantId r \<and> fg_projectId f = qr_projectId r \<and> fg_targetId f = qr_targetId r
     \<and> fg_targetDigest f = qr_targetDigest r \<and> fg_reviewId f = qr_id r \<and> \<not> ms_less (date_parse (fg_raisedAt f)) (date_parse (qr_reviewedAt r))"

definition requireProject :: "gate_env \<Rightarrow> string \<Rightarrow> string \<Rightarrow> (gate_error, unit) result" where
  "requireProject env tenantId projectId = guard_result ((tenantId, projectId) \<in> set (ge_projects env)) ScopeMismatch (Inr ())"

definition gate_currentTime :: "gate_env \<Rightarrow> (gate_error, int) result" where
  "gate_currentTime env = (case date_parse (ge_now env) of None \<Rightarrow> Inl ApprovalBindingInvalid | Some t \<Rightarrow> Inr t)"

definition requireApprovableEffect :: "host \<Rightarrow> gate_env \<Rightarrow> gate_approval_request \<Rightarrow> (gate_error, unit) result" where
  "requireApprovableEffect h env a =
     (case ge_effect env (qa_tenantId a) (qa_effectIntentId a) of
        None \<Rightarrow> Inl ApprovalBindingInvalid
      | Some (effect, job) \<Rightarrow>
          guard_result (effectIntentRecordSchema h effect \<and> jobRecordSchema h job) ApprovalBindingInvalid (
          guard_result (\<not> (rec_tenantId job \<noteq> qa_tenantId a \<or> rec_tenantId effect \<noteq> qa_tenantId a \<or> jb_projectId job \<noteq> qa_projectId a
            \<or> ef_jobId effect \<noteq> qa_jobId a \<or> ef_attemptId effect \<noteq> qa_attemptId a \<or> ef_operationDigest effect \<noteq> qa_operationDigest a
            \<or> ef_operationDigest effect \<noteq> computeEffectOperationDigest h effect (jb_projectId job)
            \<or> ae_digest (jb_authority job) \<noteq> computeAuthorityDigest h (jb_authority job)
            \<or> effectPolicy (jb_authority job) \<noteq> ApprovalRequired \<or> ef_operation effect \<notin> set (allowedOperations (jb_authority job))
            \<or> riskRank (maxRisk (jb_authority job)) < riskRank (ef_risk effect) \<or> ef_risk effect \<noteq> qa_risk a \<or> ef_state effect \<noteq> EffProposed
            \<or> ef_approvalId effect \<noteq> None \<or> jb_state job \<notin> {JobLeased, JobRunning, JobWaitingApproval}
            \<or> ms_less (date_parse (qa_requestedAt a)) (date_parse (createdAt effect))
            \<or> ms_leq (date_parse (ae_expiresAt (jb_authority job))) (date_parse (qa_requestedAt a))
            \<or> ms_less (date_parse (ae_expiresAt (jb_authority job))) (date_parse (qa_expiresAt a)))) ApprovalBindingInvalid (Inr ())))"

definition authorization_request_json :: "gate_approval_request \<Rightarrow> gate_approval_decision \<Rightarrow> json" where
  "authorization_request_json a d = JObj [(''tenantId'', JStr (qd_tenantId d)), (''action'', JStr ''approval.decide''),
     (''resourceType'', JStr ''effect_intent''), (''resourceId'', JStr (qa_effectIntentId a)), (''projectId'', JStr (qa_projectId a)),
     (''risk'', JStr (risk_text (qa_risk a))), (''externalEffect'', JBool True), (''occurredAt'', JStr (qd_decidedAt d))]"

definition approval_grant_active :: "gate_approval_request \<Rightarrow> gate_approval_decision \<Rightarrow> int \<Rightarrow> string list \<Rightarrow> approval_grant_row \<Rightarrow> bool" where
  "approval_grant_active a d now matched g \<longleftrightarrow> gw_id g \<in> set matched \<and> gw_roleKey g \<in> {''owner'', ''operator''}
     \<and> (''*'' \<in> set (gw_allowedActions g) \<or> ''approval.decide'' \<in> set (gw_allowedActions g))
     \<and> (''*'' \<in> set (gw_projectIds g) \<or> qa_projectId a \<in> set (gw_projectIds g)) \<and> gw_allowExternalEffects g
     \<and> riskRank (qa_risk a) \<le> riskRank (gw_riskCeiling g)
     \<and> opt_all (\<lambda>t. ms_leq (date_parse (qd_expiresAt d)) (Some t)) (gw_expiresAt g) \<and> opt_all (\<lambda>t. now < t) (gw_revokedAt g)"

definition requireStrongFactorDecision ::
    "host \<Rightarrow> gate_env \<Rightarrow> gate_approval_request \<Rightarrow> gate_approval_decision \<Rightarrow> int \<Rightarrow> (gate_error, unit) result" where
  "requireStrongFactorDecision h env a d now =
     (case ge_policy env (qd_tenantId d) (qd_policyDecisionId d) of
        None \<Rightarrow> Inl ApprovalBindingInvalid
      | Some policy \<Rightarrow>
          guard_result (pw_allowed policy \<and> pw_identityState policy = ''active'' \<and> pw_actorType policy = ''human''
            \<and> pw_identityId policy = cp_actorId (qd_decidedBy d) \<and> pw_action policy = ''approval.decide'' \<and> pw_resourceType policy = ''effect_intent''
            \<and> pw_resourceId policy = qa_effectIntentId a \<and> pw_projectId policy = Some (qa_projectId a) \<and> pw_risk policy = qa_risk a
            \<and> pw_externalEffect policy \<and> pw_requestDigest policy = sha256Digest h (authorization_request_json a d)
            \<and> to_iso (pw_decidedAt policy) = Some (qd_decidedAt d) \<and> \<not> ms_less (Some (pw_expiresAt policy)) (date_parse (qd_expiresAt d))
            \<and> truthy_text (pw_strongFactorEvidenceId policy)
            \<and> qd_authenticationEventDigest d = sha256Digest h (JObj [(''evidenceId'', JStr (the (pw_strongFactorEvidenceId policy)))]))
            ApprovalBindingInvalid (
          guard_result (list_ex (approval_grant_active a d now (pw_grantIds policy)) (ge_grants env (qd_tenantId d) (pw_identityId policy)))
            ApprovalBindingInvalid (Inr ())))"


section \<open>Operations\<close>

definition begin_operation :: "host \<Rightarrow> gate_keys \<Rightarrow> string \<Rightarrow> unit gate_step" where
  "begin_operation h k tenantId = query_step (\<lambda>s. bind_result (lockAndVerifyTenantState h k tenantId s) (\<lambda>_. Inr ()))"

definition parse_input :: "host \<Rightarrow> gate_record \<Rightarrow> (gate_error, unit) result" where
  "parse_input h r = guard_result (gateRecordSchema h r) InvalidRecord (gate_safe (record_json r))"

definition registerProfile :: "host \<Rightarrow> gate_keys \<Rightarrow> gate_env \<Rightarrow> acceptance_profile \<Rightarrow> (gate_record \<times> bool) gate_step" where
  "registerProfile h k env p =
     bind_step (lift_step (parse_input h (ProfileRec p))) (\<lambda>_.
     gate_transaction (
       bind_step (begin_operation h k (qp_tenantId p)) (\<lambda>_.
       bind_step (lift_step (requireProject env (qp_tenantId p) (qp_projectId p))) (\<lambda>_.
       insert_record h k env (ProfileRec p)))))"

definition registerTarget :: "host \<Rightarrow> gate_keys \<Rightarrow> gate_env \<Rightarrow> review_target \<Rightarrow> (gate_record \<times> bool) gate_step" where
  "registerTarget h k env t =
     bind_step (lift_step (parse_input h (TargetRec t))) (\<lambda>_.
     bind_step (check_step (qt_revisionNumber t = 0) RevisionInvalid) (\<lambda>_.
     gate_transaction (
       bind_step (begin_operation h k (qt_tenantId t)) (\<lambda>_.
       bind_step (query_step (\<lambda>s. requireProfile h k (qt_tenantId t) (qt_acceptanceProfileId t) (gs_db s))) (\<lambda>p.
       bind_step (lift_step (assertTargetProfile h t p)) (\<lambda>_.
       insert_record h k env (TargetRec t)))))))"

fun insert_findings :: "host \<Rightarrow> gate_keys \<Rightarrow> gate_env \<Rightarrow> gate_finding list \<Rightarrow> (gate_record \<times> bool) list gate_step" where
  "insert_findings h k env [] = return_step []"
| "insert_findings h k env (f # fs) =
     bind_step (insert_record h k env (FindingRec f)) (\<lambda>r. bind_step (insert_findings h k env fs) (\<lambda>rs. return_step (r # rs)))"

text \<open>In a replay a finding that was not stored before is an integrity failure.\<close>

fun replay_findings :: "host \<Rightarrow> gate_keys \<Rightarrow> gate_env \<Rightarrow> gate_finding list \<Rightarrow> gate_record list gate_step" where
  "replay_findings h k env [] = return_step []"
| "replay_findings h k env (f # fs) =
     bind_step (insert_record h k env (FindingRec f)) (\<lambda>r. bind_step (check_step (snd r) IntegrityFailed) (\<lambda>_.
     bind_step (replay_findings h k env fs) (\<lambda>rs. return_step (fst r # rs))))"

definition review_fresh :: "host \<Rightarrow> gate_keys \<Rightarrow> gate_review \<Rightarrow> review_target \<Rightarrow> acceptance_profile \<Rightarrow> gate_db \<Rightarrow> (gate_error, unit) result" where
  "review_fresh h k r t p db =
     bind_result (listByParent h k (qt_tenantId t) (qt_projectId t) RevisionKind (qt_id t) db) (\<lambda>revisions.
     guard_result (revisions = []) TargetSuperseded (
     bind_result (listBySubject h k (qr_tenantId r) (qr_projectId r) FindingKind (qr_targetId r) db) (\<lambda>existingFindings.
     guard_result (\<not> (accepting (qr_decision r) \<and> existingFindings \<noteq> [])) InvalidRecord (
     if qr_authority r = GateReview
     then bind_result (listByParent h k (qr_tenantId r) (qr_projectId r) ReviewKind (qr_targetId r) db) (\<lambda>existing.
       assert_all_independent (map qr_reviewer (filter (\<lambda>v. qr_authority v = GateReview) (reviews_in existing))) (qr_reviewer r) p)
     else Inr ()))))"

definition review_admissible :: "host \<Rightarrow> gate_review \<Rightarrow> gate_finding list \<Rightarrow> review_target \<Rightarrow> acceptance_profile \<Rightarrow> (gate_error, unit) result" where
  "review_admissible h r fs t p =
     bind_result (assertReviewBindings h r t p) (\<lambda>_.
     bind_result (if qr_authority r = GateReview then assertIndependent (qt_producer t) (qr_reviewer r) p else Inr ()) (\<lambda>_.
     guard_result (qr_effectiveRisk r = expected_risk (qp_minimumRisk p) (qr_assessedRisk r)) RiskFloorMismatch (
     guard_result (list_all (finding_matches r) fs) InvalidRecord (Inr ()))))"

definition recordReview ::
    "host \<Rightarrow> gate_keys \<Rightarrow> gate_env \<Rightarrow> gate_review \<Rightarrow> gate_finding list \<Rightarrow> (gate_record \<times> gate_record list \<times> bool) gate_step" where
  "recordReview h k env r fs =
     bind_step (lift_step (guard_result (completionReviewSchemaV1 h r \<and> list_all (completionFindingSchemaV1 h) fs) InvalidRecord (
       bind_result (gate_safe (review_json r)) (\<lambda>_. gate_safe (JArr (map finding_json fs)))))) (\<lambda>_.
     bind_step (check_step (exactSorted (qr_findingIds r) (sort (map fg_id fs))) InvalidRecord) (\<lambda>_.
     gate_transaction (
       bind_step (begin_operation h k (qr_tenantId r)) (\<lambda>_.
       bind_step (query_step (\<lambda>s. requireTarget h k (qr_tenantId r) (qr_targetId r) (gs_db s))) (\<lambda>t.
       bind_step (query_step (\<lambda>s. requireProfile h k (qr_tenantId r) (qt_acceptanceProfileId t) (gs_db s))) (\<lambda>p.
       bind_step (lift_step (review_admissible h r fs t p)) (\<lambda>_.
       bind_step (query_step (\<lambda>s. findExisting h k (ReviewRec r) (gs_db s))) (\<lambda>replay.
       case replay of
         Some stored \<Rightarrow> bind_step (replay_findings h k env fs) (\<lambda>stored_findings. return_step (stored, stored_findings, True))
       | None \<Rightarrow>
           bind_step (query_step (\<lambda>s. review_fresh h k r t p (gs_db s))) (\<lambda>_.
           bind_step (insert_record h k env (ReviewRec r)) (\<lambda>stored.
           bind_step (insert_findings h k env fs) (\<lambda>stored_findings.
           return_step (fst stored, map fst stored_findings, snd stored \<and> list_all snd stored_findings))))))))))))"

definition verification_admissible :: "host \<Rightarrow> gate_verification \<Rightarrow> review_target \<Rightarrow> acceptance_profile \<Rightarrow> (gate_error, unit) result" where
  "verification_admissible h v t p =
     guard_result (\<not> (qv_tenantId v \<noteq> qt_tenantId t \<or> qv_projectId v \<noteq> qt_projectId t \<or> qv_targetDigest v \<noteq> sha256Digest h (review_target_json t)
       \<or> qv_acceptanceProfileId v \<noteq> qp_id p \<or> qv_acceptanceProfileDigest v \<noteq> sha256Digest h (profile_json p))) ProfileMismatch (
     guard_result (qv_scenarioId v \<in> set (qp_requiredVerificationScenarioIds p)) VerificationScenarioInvalid (
     guard_result (\<not> (qp_verificationRequiresProducerSeparation p \<and> cp_actorId (qv_verifier v) = cp_actorId (qt_producer t))) GateNotIndependent (
     guard_result (\<not> ms_less (date_parse (qv_verifiedAt v)) (date_parse (qt_submittedAt t))) InvalidRecord (Inr ()))))"

definition recordVerification :: "host \<Rightarrow> gate_keys \<Rightarrow> gate_env \<Rightarrow> gate_verification \<Rightarrow> (gate_record \<times> bool) gate_step" where
  "recordVerification h k env v =
     bind_step (lift_step (parse_input h (VerificationRec v))) (\<lambda>_.
     gate_transaction (
       bind_step (begin_operation h k (qv_tenantId v)) (\<lambda>_.
       bind_step (query_step (\<lambda>s. requireTarget h k (qv_tenantId v) (qv_targetId v) (gs_db s))) (\<lambda>t.
       bind_step (query_step (\<lambda>s. requireProfile h k (qv_tenantId v) (qt_acceptanceProfileId t) (gs_db s))) (\<lambda>p.
       bind_step (lift_step (verification_admissible h v t p)) (\<lambda>_.
       bind_step (query_step (\<lambda>s. findExisting h k (VerificationRec v) (gs_db s))) (\<lambda>replay.
       case replay of
         Some stored \<Rightarrow> return_step (stored, True)
       | None \<Rightarrow>
           bind_step (query_step (\<lambda>s. bind_result (listByParent h k (qt_tenantId t) (qt_projectId t) RevisionKind (qt_id t) (gs_db s))
             (\<lambda>revisions. guard_result (revisions = []) TargetSuperseded (Inr ())))) (\<lambda>_.
           insert_record h k env (VerificationRec v)))))))))"

definition revision_admissible :: "host \<Rightarrow> gate_revision \<Rightarrow> review_target \<Rightarrow> review_target \<Rightarrow> acceptance_profile \<Rightarrow> bool" where
  "revision_admissible h n t prior p \<longleftrightarrow> qn_tenantId n = qt_tenantId prior \<and> qn_projectId n = qt_projectId prior
     \<and> qn_rootTargetId n = qt_rootTargetId prior \<and> qn_fromTargetDigest n = sha256Digest h (review_target_json prior) \<and> qn_toTargetId n = qt_id t
     \<and> qn_toTargetDigest n = sha256Digest h (review_target_json t) \<and> qn_revisionNumber n = qt_revisionNumber prior + 1
     \<and> qt_revisionNumber t = qn_revisionNumber n \<and> qt_rootTargetId t = qt_rootTargetId prior \<and> qt_supersedesTargetId t = Some (qt_id prior)
     \<and> qt_subjectId t = qt_subjectId prior \<and> qt_kind t = qt_kind prior \<and> qt_acceptanceProfileId t = qt_acceptanceProfileId prior
     \<and> qt_acceptanceProfileDigest t = qt_acceptanceProfileDigest prior \<and> qt_tenantId t = qt_tenantId prior \<and> qt_projectId t = qt_projectId prior
     \<and> sha256Digest h (principal_json (qt_producer t)) = sha256Digest h (principal_json (qn_revisedBy n))
     \<and> qt_submittedAt t = qn_revisedAt n \<and> qt_subjectDigest t \<noteq> qt_subjectDigest prior
     \<and> qn_revisionNumber n \<le> qp_maximumRevisionRounds p"

definition revision_fresh :: "host \<Rightarrow> gate_keys \<Rightarrow> gate_revision \<Rightarrow> review_target \<Rightarrow> gate_db \<Rightarrow> (gate_error, unit) result" where
  "revision_fresh h k n prior db =
     bind_result (listByParent h k (qt_tenantId prior) (qt_projectId prior) RevisionKind (qt_id prior) db) (\<lambda>revisions.
     guard_result (revisions = []) RevisionInvalid (
     bind_result (listBySubject h k (qt_tenantId prior) (qt_projectId prior) FindingKind (qt_id prior) db) (\<lambda>rows.
     let findings = findings_in rows; findingIds = sort (map fg_id findings) in
     guard_result (\<not> (findingIds = [] \<or> \<not> exactSorted (qn_resolvedFindingIds n) findingIds
       \<or> list_all (\<lambda>f. date_parse (fg_raisedAt f) \<noteq> None) findings \<and> list_ex (\<lambda>f. ms_less (date_parse (qn_revisedAt n)) (date_parse (fg_raisedAt f))) findings))
       RevisionInvalid (Inr ()))))"

definition recordRevision ::
    "host \<Rightarrow> gate_keys \<Rightarrow> gate_env \<Rightarrow> gate_revision \<Rightarrow> review_target \<Rightarrow> (gate_record \<times> gate_record \<times> bool) gate_step" where
  "recordRevision h k env n t =
     bind_step (lift_step (guard_result (completionRevisionSchemaV1 h n \<and> completionReviewTargetSchemaV1 h t) InvalidRecord (
       bind_result (gate_safe (revision_json n)) (\<lambda>_. gate_safe (review_target_json t))))) (\<lambda>_.
     gate_transaction (
       bind_step (begin_operation h k (qn_tenantId n)) (\<lambda>_.
       bind_step (query_step (\<lambda>s. requireTarget h k (qn_tenantId n) (qn_fromTargetId n) (gs_db s))) (\<lambda>prior.
       bind_step (query_step (\<lambda>s. requireProfile h k (qn_tenantId n) (qt_acceptanceProfileId prior) (gs_db s))) (\<lambda>p.
       bind_step (check_step (revision_admissible h n t prior p) RevisionInvalid) (\<lambda>_.
       bind_step (query_step (\<lambda>s. findExisting h k (RevisionRec n) (gs_db s))) (\<lambda>replay.
       bind_step (query_step (\<lambda>s. findExisting h k (TargetRec t) (gs_db s))) (\<lambda>replayTarget.
       case replay of
         Some stored \<Rightarrow> (case replayTarget of None \<Rightarrow> fail_step IntegrityFailed | Some target \<Rightarrow> return_step (stored, target, True))
       | None \<Rightarrow>
           bind_step (check_step (replayTarget = None) IntegrityFailed) (\<lambda>_.
           bind_step (query_step (\<lambda>s. revision_fresh h k n prior (gs_db s))) (\<lambda>_.
           bind_step (insert_record h k env (TargetRec t)) (\<lambda>target.
           bind_step (insert_record h k env (RevisionRec n)) (\<lambda>revision.
           return_step (fst revision, fst target, snd target \<and> snd revision)))))))))))))"

definition recordPreference :: "host \<Rightarrow> gate_keys \<Rightarrow> gate_env \<Rightarrow> gate_preference \<Rightarrow> (gate_record \<times> bool) gate_step" where
  "recordPreference h k env q =
     bind_step (lift_step (parse_input h (PreferenceRec q))) (\<lambda>_.
     gate_transaction (
       bind_step (begin_operation h k (qs_tenantId q)) (\<lambda>_.
       bind_step (lift_step (requireProject env (qs_tenantId q) (qs_projectId q))) (\<lambda>_.
       insert_record h k env (PreferenceRec q)))))"

definition requestApproval :: "host \<Rightarrow> gate_keys \<Rightarrow> gate_env \<Rightarrow> gate_approval_request \<Rightarrow> (gate_record \<times> bool) gate_step" where
  "requestApproval h k env a =
     bind_step (lift_step (parse_input h (RequestRec a))) (\<lambda>_.
     gate_transaction (
       bind_step (begin_operation h k (qa_tenantId a)) (\<lambda>_.
       bind_step (query_step (\<lambda>s. findExisting h k (RequestRec a) (gs_db s))) (\<lambda>replay.
       case replay of
         Some stored \<Rightarrow> return_step (stored, True)
       | None \<Rightarrow>
           bind_step (lift_step (gate_currentTime env)) (\<lambda>now.
           bind_step (check_step (\<not> (ms_less (Some now) (date_parse (qa_requestedAt a)) \<or> ms_leq (date_parse (qa_expiresAt a)) (Some now)))
             ApprovalBindingInvalid) (\<lambda>_.
           bind_step (lift_step (requireApprovableEffect h env a)) (\<lambda>_.
           insert_record h k env (RequestRec a))))))))"

definition decision_matches :: "host \<Rightarrow> gate_approval_request \<Rightarrow> gate_approval_decision \<Rightarrow> bool" where
  "decision_matches h a d \<longleftrightarrow> qd_projectId d = qa_projectId a \<and> qd_requestDigest d = sha256Digest h (approval_request_json a)
     \<and> qd_operationDigest d = qa_operationDigest a \<and> \<not> ms_less (date_parse (qd_decidedAt d)) (date_parse (qa_requestedAt a))
     \<and> \<not> ms_leq (date_parse (qa_expiresAt a)) (date_parse (qd_decidedAt d)) \<and> \<not> ms_less (date_parse (qa_expiresAt a)) (date_parse (qd_expiresAt d))"

definition decideApproval :: "host \<Rightarrow> gate_keys \<Rightarrow> gate_env \<Rightarrow> gate_approval_decision \<Rightarrow> (gate_record \<times> bool) gate_step" where
  "decideApproval h k env d =
     bind_step (lift_step (parse_input h (DecisionRec d))) (\<lambda>_.
     gate_transaction (
       bind_step (begin_operation h k (qd_tenantId d)) (\<lambda>_.
       bind_step (query_step (\<lambda>s. bind_result (requireRecord h k (qd_tenantId d) (qd_requestId d) RequestKind (gs_db s)) as_request)) (\<lambda>a.
       bind_step (query_step (\<lambda>s. findExisting h k (DecisionRec d) (gs_db s))) (\<lambda>replay.
       case replay of
         Some stored \<Rightarrow> return_step (stored, True)
       | None \<Rightarrow>
           bind_step (check_step (decision_matches h a d) ApprovalBindingInvalid) (\<lambda>_.
           bind_step (lift_step (gate_currentTime env)) (\<lambda>now.
           bind_step (check_step (\<not> (ms_less (Some now) (date_parse (qd_decidedAt d)) \<or> ms_leq (date_parse (qd_expiresAt d)) (Some now)
             \<or> ms_leq (date_parse (qa_expiresAt a)) (Some now))) ApprovalBindingInvalid) (\<lambda>_.
           bind_step (lift_step (requireApprovableEffect h env a)) (\<lambda>_.
           bind_step (lift_step (requireStrongFactorDecision h env a d now)) (\<lambda>_.
           insert_record h k env (DecisionRec d)))))))))))"


section \<open>The verdict on a target\<close>

datatype gate_status = GatePending | GateChangesRequested | GateVerificationBlocked | GateRevisionLimit | GateReady | GateSuperseded

record gate_snapshot =
  gv_target :: review_target
  gv_targetDigest :: string
  gv_status :: gate_status
  gv_acceptedReviewIds :: "string list"
  gv_missingScenarioIds :: "string list"
  gv_openFindingIds :: "string list"

definition gate_verdict ::
    "host \<Rightarrow> review_target \<Rightarrow> acceptance_profile \<Rightarrow> gate_review list \<Rightarrow> gate_verification list \<Rightarrow> gate_finding list \<Rightarrow> bool \<Rightarrow> gate_snapshot" where
  "gate_verdict h t p reviews verifications findings superseded =
     (let accepted = sort (remdups (map qr_id (filter (\<lambda>r. qr_authority r = GateReview \<and> accepting (qr_decision r)) reviews)));
          passed = map qv_scenarioId (filter (\<lambda>v. qv_outcome v = VerificationPassed) verifications);
          missing = filter (\<lambda>s. s \<notin> set passed) (qp_requiredVerificationScenarioIds p);
          blocked = list_ex (\<lambda>v. qv_scenarioId v \<in> set (qp_requiredVerificationScenarioIds p) \<and> qv_outcome v \<noteq> VerificationPassed) verifications;
          openFindings = sort (map fg_id findings)
      in \<lparr>gv_target = t, gv_targetDigest = sha256Digest h (review_target_json t),
          gv_status = (if superseded then GateSuperseded
            else if openFindings \<noteq> [] \<and> qp_maximumRevisionRounds p \<le> qt_revisionNumber t then GateRevisionLimit
            else if openFindings \<noteq> [] then GateChangesRequested
            else if blocked then GateVerificationBlocked
            else if missing = [] \<and> qp_minimumIndependentReviews p \<le> of_nat (length accepted) then GateReady
            else GatePending),
          gv_acceptedReviewIds = accepted, gv_missingScenarioIds = missing, gv_openFindingIds = openFindings\<rparr>)"

definition snapshotWith :: "host \<Rightarrow> gate_keys \<Rightarrow> string \<Rightarrow> review_target \<Rightarrow> gate_db \<Rightarrow> (gate_error, gate_snapshot) result" where
  "snapshotWith h k tenantId t db =
     bind_result (requireProfile h k tenantId (qt_acceptanceProfileId t) db) (\<lambda>p.
     bind_result (listByParent h k tenantId (qt_projectId t) ReviewKind (qt_id t) db) (\<lambda>reviews.
     bind_result (listByParent h k tenantId (qt_projectId t) VerificationKind (qt_id t) db) (\<lambda>verifications.
     bind_result (listBySubject h k tenantId (qt_projectId t) FindingKind (qt_id t) db) (\<lambda>findings.
     bind_result (listByParent h k tenantId (qt_projectId t) RevisionKind (qt_id t) db) (\<lambda>revisions.
     Inr (gate_verdict h t p (reviews_in reviews) (verifications_in verifications) (findings_in findings) (revisions \<noteq> [])))))))"

definition snapshot :: "host \<Rightarrow> gate_keys \<Rightarrow> string \<Rightarrow> string \<Rightarrow> gate_state \<Rightarrow> (gate_error, gate_snapshot) result" where
  "snapshot h k tenantId targetId s =
     bind_result (lockAndVerifyTenantState h k tenantId s) (\<lambda>_.
     bind_result (requireTarget h k tenantId targetId (gs_db s)) (\<lambda>t. snapshotWith h k tenantId t (gs_db s)))"

definition getRecord :: "host \<Rightarrow> gate_keys \<Rightarrow> string \<Rightarrow> string \<Rightarrow> gate_kind \<Rightarrow> gate_state \<Rightarrow> (gate_error, gate_record option) result" where
  "getRecord h k tenantId i kind s =
     bind_result (lockAndVerifyTenantState h k tenantId s) (\<lambda>_.
     case find (\<lambda>r. gr_tenantId r = tenantId \<and> gr_id r = i \<and> gr_kind r = kind) (gd_records (gs_db s)) of
       None \<Rightarrow> Inr None | Some row \<Rightarrow> bind_result (verifiedRow h k row) (\<lambda>r. Inr (Some r)))"

text \<open>A map from identifiers, in the order in which the records were read.\<close>

definition getRecords ::
    "host \<Rightarrow> gate_keys \<Rightarrow> string \<Rightarrow> string list \<Rightarrow> gate_kind \<Rightarrow> gate_state \<Rightarrow> (gate_error, (string \<times> gate_record) list) result" where
  "getRecords h k tenantId ids kind s =
     bind_result (lockAndVerifyTenantState h k tenantId s) (\<lambda>records.
     Inr (map (\<lambda>(k', r). (record_id r, r)) (filter (\<lambda>(k', r). k' = kind \<and> record_id r \<in> set ids) records)))"

text \<open>
  Context for a consumer of accepted work. Identifiers are compared with \<open>localeCompare\<close>, whose order is the
  platform's (\<open>collate a b\<close>: \<open>a\<close> sorts before \<open>b\<close> or equal to it).
\<close>

record accepted_context =
  ax_target :: review_target
  ax_snapshot :: gate_snapshot
  ax_reviews :: "gate_review list"
  ax_verifications :: "gate_verification list"

definition acceptedContextInSession ::
    "host \<Rightarrow> gate_keys \<Rightarrow> (string \<Rightarrow> string \<Rightarrow> bool) \<Rightarrow> string \<Rightarrow> string \<Rightarrow> string \<Rightarrow> gate_state \<Rightarrow> (gate_error, accepted_context) result" where
  "acceptedContextInSession h k collate tenantId projectId targetId s =
     bind_result (lockAndVerifyTenantState h k tenantId s) (\<lambda>_.
     bind_result (requireTarget h k tenantId targetId (gs_db s)) (\<lambda>t.
     guard_result (qt_projectId t = projectId) ScopeMismatch (
     bind_result (snapshotWith h k tenantId t (gs_db s)) (\<lambda>snap.
     guard_result (gv_status snap = GateReady) RecordNotFound (
     bind_result (listByParent h k tenantId projectId ReviewKind (qt_id t) (gs_db s)) (\<lambda>reviews.
     bind_result (listByParent h k tenantId projectId VerificationKind (qt_id t) (gs_db s)) (\<lambda>verifications.
     let accepted = js_sort (\<lambda>a b. collate (qr_id a) (qr_id b))
           (filter (\<lambda>r. qr_authority r = GateReview \<and> accepting (qr_decision r)) (reviews_in reviews));
         passed = js_sort (\<lambda>a b. collate (qv_id a) (qv_id b))
           (filter (\<lambda>v. qv_outcome v = VerificationPassed) (verifications_in verifications))
     in guard_result (exactSorted (map qr_id accepted) (gv_acceptedReviewIds snap) \<and> passed \<noteq> []) RecordNotFound
          (Inr \<lparr>ax_target = t, ax_snapshot = snap, ax_reviews = accepted, ax_verifications = passed\<rparr>))))))))"


section \<open>Reading many targets at once\<close>

record target_evidence =
  te_snapshot :: gate_snapshot
  te_reviews :: "gate_review list"
  te_verifications :: "gate_verification list"
  te_findings :: "gate_finding list"
  te_omitted :: bool

definition last_items :: "nat \<Rightarrow> 'a list \<Rightarrow> 'a list" where
  "last_items n xs = drop (length xs - n) xs"

definition by_time_and_id :: "(string \<Rightarrow> string \<Rightarrow> bool) \<Rightarrow> ('a \<Rightarrow> string) \<Rightarrow> ('a \<Rightarrow> string) \<Rightarrow> 'a \<Rightarrow> 'a \<Rightarrow> bool" where
  "by_time_and_id collate time i = then_by (\<lambda>a b. collate (time a) (time b)) (\<lambda>a b. collate (i a) (i b))"

definition inspectTargetFromRecords ::
    "host \<Rightarrow> (string \<Rightarrow> string \<Rightarrow> bool) \<Rightarrow> (gate_kind \<times> gate_record) list \<Rightarrow> review_target \<Rightarrow> acceptance_profile \<Rightarrow> target_evidence" where
  "inspectTargetFromRecords h collate records t p =
     (let rs = map snd records;
          reviews = js_sort (by_time_and_id collate qr_reviewedAt qr_id)
            (filter (\<lambda>r. qr_projectId r = qt_projectId t \<and> qr_targetId r = qt_id t) (reviews_in rs));
          verifications = js_sort (by_time_and_id collate qv_verifiedAt qv_id)
            (filter (\<lambda>v. qv_projectId v = qt_projectId t \<and> qv_targetId v = qt_id t) (verifications_in rs));
          findings = js_sort (by_time_and_id collate fg_raisedAt fg_id)
            (filter (\<lambda>f. fg_projectId f = qt_projectId t \<and> fg_targetId f = qt_id t) (findings_in rs));
          superseded = list_ex (\<lambda>r. case r of RevisionRec n \<Rightarrow> qn_projectId n = qt_projectId t \<and> qn_fromTargetId n = qt_id t | _ \<Rightarrow> False) rs
      in \<lparr>te_snapshot = gate_verdict h t p reviews verifications findings superseded,
          te_reviews = last_items 50 reviews, te_verifications = last_items 50 verifications, te_findings = last_items 100 findings,
          te_omitted = (50 < length reviews \<or> 50 < length verifications \<or> 100 < length findings)\<rparr>)"

definition profile_in :: "string \<Rightarrow> (gate_kind \<times> gate_record) list \<Rightarrow> acceptance_profile option" where
  "profile_in i records = (case find (\<lambda>(kind, r). kind = ProfileKind \<and> record_id r = i) records of
     Some (_, ProfileRec p) \<Rightarrow> Some p | _ \<Rightarrow> None)"

definition target_in :: "string \<Rightarrow> (gate_kind \<times> gate_record) list \<Rightarrow> review_target option" where
  "target_in i records = (case find (\<lambda>(kind, r). kind = TargetKind \<and> record_id r = i) records of
     Some (_, TargetRec t) \<Rightarrow> Some t | _ \<Rightarrow> None)"

definition inspectTargetContext ::
    "host \<Rightarrow> gate_keys \<Rightarrow> (string \<Rightarrow> string \<Rightarrow> bool) \<Rightarrow> string \<Rightarrow> string \<Rightarrow> gate_state
       \<Rightarrow> (gate_error, gate_snapshot \<times> acceptance_profile \<times> (gate_kind \<times> gate_record) list) result" where
  "inspectTargetContext h k collate tenantId targetId s =
     bind_result (lockAndVerifyTenantState h k tenantId s) (\<lambda>records.
     case target_in targetId records of None \<Rightarrow> Inl RecordNotFound
     | Some t \<Rightarrow> (case profile_in (qt_acceptanceProfileId t) records of None \<Rightarrow> Inl RecordNotFound
         | Some p \<Rightarrow> Inr (te_snapshot (inspectTargetFromRecords h collate records t p), p, records)))"

fun inspect_targets ::
    "host \<Rightarrow> (string \<Rightarrow> string \<Rightarrow> bool) \<Rightarrow> (gate_kind \<times> gate_record) list \<Rightarrow> review_target list \<Rightarrow> (gate_error, target_evidence list) result" where
  "inspect_targets h collate records [] = Inr []"
| "inspect_targets h collate records (t # ts) =
     (case profile_in (qt_acceptanceProfileId t) records of None \<Rightarrow> Inl RecordNotFound
      | Some p \<Rightarrow> bind_result (inspect_targets h collate records ts) (\<lambda>es. Inr (inspectTargetFromRecords h collate records t p # es)))"

definition targets_of :: "(string \<Rightarrow> string \<Rightarrow> bool) \<Rightarrow> (gate_kind \<times> gate_record) list \<Rightarrow> string \<times> string \<Rightarrow> review_target list" where
  "targets_of collate records subject = js_sort (by_time_and_id (\<lambda>a b. collate b a) qt_submittedAt qt_id)
     (concat (map (\<lambda>(kind, r). case r of TargetRec t \<Rightarrow> if qt_projectId t = fst subject \<and> qt_subjectId t = snd subject then [t] else []
        | _ \<Rightarrow> []) records))"

fun inspectSubjectsFromRecords ::
    "host \<Rightarrow> (string \<Rightarrow> string \<Rightarrow> bool) \<Rightarrow> (gate_kind \<times> gate_record) list \<Rightarrow> (string \<times> string) list
       \<Rightarrow> (gate_error, ((string \<times> string) \<times> target_evidence list \<times> bool) list) result" where
  "inspectSubjectsFromRecords h collate records [] = Inr []"
| "inspectSubjectsFromRecords h collate records (q # qs) =
     bind_result (inspect_targets h collate records (take 20 (targets_of collate records q))) (\<lambda>projected.
     bind_result (inspectSubjectsFromRecords h collate records qs) (\<lambda>rest.
     Inr ((q, projected, 20 < length (targets_of collate records q)) # rest)))"

text \<open>Repeated subjects are asked once, at the place of their first occurrence.\<close>

definition inspectSubjects ::
    "host \<Rightarrow> gate_keys \<Rightarrow> (string \<Rightarrow> string \<Rightarrow> bool) \<Rightarrow> string \<Rightarrow> (string \<times> string) list \<Rightarrow> gate_state
       \<Rightarrow> (gate_error, ((string \<times> string) \<times> target_evidence list \<times> bool) list) result" where
  "inspectSubjects h k collate tenantId subjects s =
     bind_result (lockAndVerifyTenantState h k tenantId s) (\<lambda>records.
     inspectSubjectsFromRecords h collate records (rev (remdups (rev subjects))))"

definition inspectSubjectsAndRecords ::
    "host \<Rightarrow> gate_keys \<Rightarrow> (string \<Rightarrow> string \<Rightarrow> bool) \<Rightarrow> string \<Rightarrow> (string \<times> string) list \<Rightarrow> string list \<Rightarrow> gate_kind \<Rightarrow> gate_state
       \<Rightarrow> (gate_error, ((string \<times> string) \<times> target_evidence list \<times> bool) list \<times> (string \<times> gate_record) list) result" where
  "inspectSubjectsAndRecords h k collate tenantId subjects ids kind s =
     bind_result (lockAndVerifyTenantState h k tenantId s) (\<lambda>records.
     bind_result (inspectSubjectsFromRecords h collate records (rev (remdups (rev subjects)))) (\<lambda>inspected.
     Inr (inspected, map (\<lambda>(k', r). (record_id r, r)) (filter (\<lambda>(k', r). k' = kind \<and> record_id r \<in> set ids) records))))"

definition inspectSubject ::
    "host \<Rightarrow> gate_keys \<Rightarrow> (string \<Rightarrow> string \<Rightarrow> bool) \<Rightarrow> string \<Rightarrow> string \<times> string \<Rightarrow> gate_state
       \<Rightarrow> (gate_error, target_evidence list \<times> bool) result" where
  "inspectSubject h k collate tenantId subject s =
     bind_result (inspectSubjects h k collate tenantId [subject] s) (\<lambda>results.
     Inr (case map_of results subject of None \<Rightarrow> ([], False) | Some r \<Rightarrow> r))"

end
