(* ===== verification/Completion_Log.thy ===== *)
theory Completion_Log
  imports Completion_Gate
begin

text \<open>
  What the completion gate promises, without rows, digests of states or checkpoints: an append-only log of records, each
  admitted by what was recorded before it. The consequences drawn here (a target's accepting reviewers are pairwise
  different actors, the revisions of a subject are consecutive and bounded, an effect is decided once) hold for every such
  log.
\<close>

section \<open>The log\<close>

definition profiles_in :: "gate_record list \<Rightarrow> acceptance_profile list" where
  "profiles_in recs = concat (map (\<lambda>r. case r of ProfileRec p \<Rightarrow> [p] | _ \<Rightarrow> []) recs)"

definition targets_in :: "gate_record list \<Rightarrow> review_target list" where
  "targets_in recs = concat (map (\<lambda>r. case r of TargetRec t \<Rightarrow> [t] | _ \<Rightarrow> []) recs)"

definition revisions_in :: "gate_record list \<Rightarrow> gate_revision list" where
  "revisions_in recs = concat (map (\<lambda>r. case r of RevisionRec n \<Rightarrow> [n] | _ \<Rightarrow> []) recs)"

definition requests_in :: "gate_record list \<Rightarrow> gate_approval_request list" where
  "requests_in recs = concat (map (\<lambda>r. case r of RequestRec a \<Rightarrow> [a] | _ \<Rightarrow> []) recs)"

definition decisions_in :: "gate_record list \<Rightarrow> gate_approval_decision list" where
  "decisions_in recs = concat (map (\<lambda>r. case r of DecisionRec d \<Rightarrow> [d] | _ \<Rightarrow> []) recs)"

lemma in_record_lists [simp]:
  "p \<in> set (profiles_in recs) \<longleftrightarrow> ProfileRec p \<in> set recs"
  "t \<in> set (targets_in recs) \<longleftrightarrow> TargetRec t \<in> set recs"
  "r \<in> set (reviews_in recs) \<longleftrightarrow> ReviewRec r \<in> set recs"
  "v \<in> set (verifications_in recs) \<longleftrightarrow> VerificationRec v \<in> set recs"
  "f \<in> set (findings_in recs) \<longleftrightarrow> FindingRec f \<in> set recs"
  "n \<in> set (revisions_in recs) \<longleftrightarrow> RevisionRec n \<in> set recs"
  "a \<in> set (requests_in recs) \<longleftrightarrow> RequestRec a \<in> set recs"
  "d \<in> set (decisions_in recs) \<longleftrightarrow> DecisionRec d \<in> set recs"
  by (auto simp: profiles_in_def targets_in_def reviews_in_def verifications_in_def findings_in_def revisions_in_def
      requests_in_def decisions_in_def split: gate_record.splits)

definition profile_of :: "acceptance_profile \<Rightarrow> review_target \<Rightarrow> bool" where
  "profile_of p t \<longleftrightarrow> qp_tenantId p = qt_tenantId t \<and> qp_id p = qt_acceptanceProfileId t"

definition target_of_review :: "review_target \<Rightarrow> gate_review \<Rightarrow> bool" where
  "target_of_review t r \<longleftrightarrow> qt_tenantId t = qr_tenantId r \<and> qt_projectId t = qr_projectId r \<and> qt_id t = qr_targetId r"

definition target_of_verification :: "review_target \<Rightarrow> gate_verification \<Rightarrow> bool" where
  "target_of_verification t v \<longleftrightarrow> qt_tenantId t = qv_tenantId v \<and> qt_projectId t = qv_projectId v \<and> qt_id t = qv_targetId v"

definition finding_on :: "review_target \<Rightarrow> gate_finding \<Rightarrow> bool" where
  "finding_on t f \<longleftrightarrow> qt_tenantId t = fg_tenantId f \<and> qt_projectId t = fg_projectId f \<and> qt_id t = fg_targetId f"

definition revises :: "gate_revision \<Rightarrow> review_target \<Rightarrow> bool" where
  "revises n t \<longleftrightarrow> qn_tenantId n = qt_tenantId t \<and> qn_projectId n = qt_projectId t \<and> qn_fromTargetId n = qt_id t"

definition revised :: "gate_record list \<Rightarrow> review_target \<Rightarrow> bool" where
  "revised recs t \<longleftrightarrow> (\<exists>n \<in> set (revisions_in recs). revises n t)"

text \<open>The conditions under which a record may follow a log.\<close>

definition review_admitted :: "host \<Rightarrow> gate_record list \<Rightarrow> gate_review \<Rightarrow> review_target \<Rightarrow> acceptance_profile \<Rightarrow> bool" where
  "review_admitted h recs r t p \<longleftrightarrow> target_of_review t r \<and> profile_of p t
     \<and> qr_targetDigest r = sha256Digest h (review_target_json t) \<and> qr_acceptanceProfileDigest r = sha256Digest h (profile_json p)
     \<and> \<not> ms_less (date_parse (qr_reviewedAt r)) (date_parse (qt_submittedAt t))
     \<and> qr_effectiveRisk r = expected_risk (qp_minimumRisk p) (qr_assessedRisk r)
     \<and> \<not> revised recs t \<and> \<not> (accepting (qr_decision r) \<and> (\<exists>f \<in> set (findings_in recs). finding_on t f))
     \<and> (qr_authority r = GateReview \<longrightarrow> independent_of (qp_reviewerSeparation p) (qt_producer t) (qr_reviewer r)
          \<and> (\<forall>q \<in> set (reviews_in recs). target_of_review t q \<and> qr_authority q = GateReview
               \<longrightarrow> independent_of (qp_reviewerSeparation p) (qr_reviewer q) (qr_reviewer r)))"

definition verification_admitted :: "host \<Rightarrow> gate_record list \<Rightarrow> gate_verification \<Rightarrow> review_target \<Rightarrow> acceptance_profile \<Rightarrow> bool" where
  "verification_admitted h recs v t p \<longleftrightarrow> target_of_verification t v \<and> profile_of p t
     \<and> qv_targetDigest v = sha256Digest h (review_target_json t) \<and> qv_acceptanceProfileDigest v = sha256Digest h (profile_json p)
     \<and> qv_scenarioId v \<in> set (qp_requiredVerificationScenarioIds p)
     \<and> (qp_verificationRequiresProducerSeparation p \<longrightarrow> cp_actorId (qv_verifier v) \<noteq> cp_actorId (qt_producer t))
     \<and> \<not> revised recs t"

definition revision_follows :: "host \<Rightarrow> gate_record list \<Rightarrow> review_target \<Rightarrow> review_target \<Rightarrow> acceptance_profile \<Rightarrow> bool" where
  "revision_follows h recs t prior p \<longleftrightarrow> qt_tenantId t = qt_tenantId prior \<and> qt_projectId t = qt_projectId prior
     \<and> qt_subjectId t = qt_subjectId prior \<and> qt_rootTargetId t = qt_rootTargetId prior \<and> qt_supersedesTargetId t = Some (qt_id prior)
     \<and> qt_revisionNumber t = qt_revisionNumber prior + 1 \<and> qt_acceptanceProfileId t = qt_acceptanceProfileId prior
     \<and> qt_subjectDigest t \<noteq> qt_subjectDigest prior
     \<and> profile_of p prior \<and> qt_revisionNumber t \<le> qp_maximumRevisionRounds p
     \<and> \<not> revised recs prior \<and> (\<exists>f \<in> set (findings_in recs). finding_on prior f)"

fun admits :: "host \<Rightarrow> gate_record list \<Rightarrow> gate_record \<Rightarrow> bool" where
  "admits h recs (TargetRec t) = (if qt_revisionNumber t = 0 then \<exists>p \<in> set (profiles_in recs). profile_of p t
     else \<exists>prior \<in> set (targets_in recs). \<exists>p \<in> set (profiles_in recs). revision_follows h recs t prior p)"
| "admits h recs (ReviewRec r) = (\<exists>t \<in> set (targets_in recs). \<exists>p \<in> set (profiles_in recs). review_admitted h recs r t p)"
| "admits h recs (VerificationRec v) = (\<exists>t \<in> set (targets_in recs). \<exists>p \<in> set (profiles_in recs). verification_admitted h recs v t p)"
| "admits h recs (FindingRec f) = (\<exists>r \<in> set (reviews_in recs). finding_matches r f)"
| "admits h recs (RevisionRec n) = (\<exists>prior \<in> set (targets_in recs). \<exists>t \<in> set (targets_in recs). \<exists>p \<in> set (profiles_in recs).
     revises n prior \<and> profile_of p prior \<and> revision_admissible h n t prior p \<and> \<not> revised recs prior
     \<and> (\<forall>f \<in> set (findings_in recs). finding_on prior f \<longrightarrow> fg_id f \<in> set (qn_resolvedFindingIds n)))"
| "admits h recs (DecisionRec d) = (\<exists>a \<in> set (requests_in recs). qa_tenantId a = qd_tenantId d \<and> qa_id a = qd_requestId d \<and> decision_matches h a d)"
| "admits h recs (ProfileRec p) = True"
| "admits h recs (PreferenceRec q) = True"
| "admits h recs (RequestRec a) = True"

definition clashes :: "host \<Rightarrow> gate_record \<Rightarrow> gate_record \<Rightarrow> bool" where
  "clashes h a b \<longleftrightarrow> record_tenantId a = record_tenantId b
     \<and> (record_id a = record_id b \<or> record_kind a = record_kind b \<and> md_recordKey (describe h a) = md_recordKey (describe h b))"

inductive gate_log :: "host \<Rightarrow> gate_record list \<Rightarrow> bool" for h where
  log_empty: "gate_log h []"
| log_append: "gate_log h recs \<Longrightarrow> gateRecordSchema h r \<Longrightarrow> list_all (\<lambda>q. \<not> clashes h q r) recs \<Longrightarrow> admits h recs r \<Longrightarrow> gate_log h (recs @ [r])"

inductive_cases gate_log_snocE: "gate_log h (recs @ [r])"


section \<open>Records of a log\<close>

lemma clashes_sym: "clashes h a b = clashes h b a"
  by (auto simp: clashes_def)

text \<open>Two records of a log that clash are one record.\<close>

lemma log_unique:
  assumes "gate_log h recs" and "a \<in> set recs" and "b \<in> set recs" and "clashes h a b" shows "a = b"
  using assms
proof (induction arbitrary: a b rule: gate_log.induct)
  case (log_append recs r)
  then show ?case by (auto simp: list_all_iff clashes_sym [of h r])
qed simp

lemma log_same_id:
  assumes "gate_log h recs" and "a \<in> set recs" and "b \<in> set recs" and "record_tenantId a = record_tenantId b" and "record_id a = record_id b"
  shows "a = b"
  using log_unique [OF assms(1-3)] assms(4,5) by (simp add: clashes_def)

lemma log_schema: "gate_log h recs \<Longrightarrow> r \<in> set recs \<Longrightarrow> gateRecordSchema h r"
  by (induction rule: gate_log.induct) auto

lemma log_one_profile:
  "gate_log h recs \<Longrightarrow> ProfileRec p \<in> set recs \<Longrightarrow> ProfileRec p' \<in> set recs \<Longrightarrow> profile_of p t \<Longrightarrow> profile_of p' t \<Longrightarrow> p = p'"
  using log_same_id [of h recs "ProfileRec p" "ProfileRec p'"] by (simp add: profile_of_def)

lemma log_one_target:
  "gate_log h recs \<Longrightarrow> TargetRec t \<in> set recs \<Longrightarrow> TargetRec t' \<in> set recs \<Longrightarrow> target_of_review t r \<Longrightarrow> target_of_review t' r \<Longrightarrow> t = t'"
  using log_same_id [of h recs "TargetRec t" "TargetRec t'"] by (simp add: target_of_review_def)

lemma log_one_target':
  "gate_log h recs \<Longrightarrow> TargetRec t \<in> set recs \<Longrightarrow> TargetRec t' \<in> set recs \<Longrightarrow> target_of_verification t r \<Longrightarrow> target_of_verification t' r \<Longrightarrow> t = t'"
  using log_same_id [of h recs "TargetRec t" "TargetRec t'"] by (simp add: target_of_verification_def)

text \<open>Every record was admitted by the records before it.\<close>

lemma log_admitted:
  assumes "gate_log h recs" and "r \<in> set recs"
  obtains pre post where "recs = pre @ r # post" and "gate_log h pre" and "admits h pre r"
proof -
  have "\<exists>pre post. recs = pre @ r # post \<and> gate_log h pre \<and> admits h pre r" using assms
  proof (induction rule: gate_log.induct)
    case (log_append recs q)
    show ?case
    proof (cases "r \<in> set recs")
      case True
      then obtain pre post where "recs = pre @ r # post" "gate_log h pre" "admits h pre r" using log_append.IH by blast
      then show ?thesis by (intro exI [of _ pre] exI [of _ "post @ [q]"]) simp
    next
      case False
      then show ?thesis using log_append by (intro exI [of _ recs] exI [of _ "[]"]) simp
    qed
  qed simp
  then show thesis using that by blast
qed


section \<open>Accepted work\<close>

definition accepted_reviews :: "gate_record list \<Rightarrow> review_target \<Rightarrow> gate_review list" where
  "accepted_reviews recs t = filter (\<lambda>r. target_of_review t r \<and> qr_authority r = GateReview \<and> accepting (qr_decision r)) (reviews_in recs)"

lemma independent_actor: "independent_of s a b \<Longrightarrow> sep_actor s \<Longrightarrow> cp_actorId a \<noteq> cp_actorId b"
  by (simp add: independent_of_def)

lemma log_profile_separates: "gate_log h recs \<Longrightarrow> ProfileRec p \<in> set recs \<Longrightarrow> sep_actor (qp_reviewerSeparation p)"
  using log_schema [of h recs "ProfileRec p"] by (simp add: completionAcceptanceProfileSchemaV1_def)

lemma log_review_admitted:
  assumes "gate_log h recs" and "ReviewRec r \<in> set recs" and "TargetRec t \<in> set recs" and "target_of_review t r"
    and "ProfileRec p \<in> set recs" and "profile_of p t"
  obtains pre post where "recs = pre @ ReviewRec r # post" and "review_admitted h pre r t p"
proof -
  obtain pre post where recs: "recs = pre @ ReviewRec r # post" and ad: "admits h pre (ReviewRec r)"
    using log_admitted [OF assms(1,2)] by metis
  then obtain t' p' where t': "TargetRec t' \<in> set pre" "ProfileRec p' \<in> set pre" "review_admitted h pre r t' p'" by auto
  have "t' = t" using log_one_target [OF assms(1), of t' t r] assms(3,4) t' recs by (auto simp: review_admitted_def)
  moreover have "p' = p" using log_one_profile [OF assms(1), of p' p t] assms(5,6) t' recs \<open>t' = t\<close> by (auto simp: review_admitted_def)
  ultimately show thesis using that recs t' by blast
qed

text \<open>Of two gate reviews of a target the later one is independent of the earlier.\<close>

lemma log_reviewers_differ:
  assumes "gate_log h recs" and "ReviewRec r \<in> set recs" and "ReviewRec q \<in> set recs" and "r \<noteq> q"
    and "TargetRec t \<in> set recs" and "ProfileRec p \<in> set recs" and "profile_of p t"
    and "target_of_review t r" and "target_of_review t q" and "qr_authority r = GateReview" and "qr_authority q = GateReview"
  shows "cp_actorId (qr_reviewer r) \<noteq> cp_actorId (qr_reviewer q)"
proof -
  have later: "cp_actorId (qr_reviewer x) \<noteq> cp_actorId (qr_reviewer y)"
    if "recs = pre @ ReviewRec x # post" "ReviewRec y \<in> set pre" "review_admitted h pre x t p"
      "target_of_review t y" "qr_authority x = GateReview" "qr_authority y = GateReview" for x y pre post
    using that independent_actor log_profile_separates [OF assms(1,6)] by (fastforce simp: review_admitted_def)
  obtain a b where a: "recs = a @ ReviewRec r # b" "review_admitted h a r t p"
    using log_review_admitted [OF assms(1,2,5,8,6,7)] by metis
  obtain c d where c: "recs = c @ ReviewRec q # d" "review_admitted h c q t p"
    using log_review_admitted [OF assms(1,3,5,9,6,7)] by metis
  have "ReviewRec q \<in> set a \<or> ReviewRec r \<in> set c"
    using a(1) c(1) assms(4) by (auto simp: append_eq_append_conv2 append_eq_Cons_conv Cons_eq_append_conv)
  then show ?thesis using later [OF a(1) _ a(2)] later [OF c(1) _ c(2)] assms by metis
qed

lemma accepted_actors_card:
  assumes "gate_log h recs" and "TargetRec t \<in> set recs" and "ProfileRec p \<in> set recs" and "profile_of p t"
  shows "card ((\<lambda>r. cp_actorId (qr_reviewer r)) ` set (accepted_reviews recs t)) = card (qr_id ` set (accepted_reviews recs t))"
proof -
  have "inj_on (\<lambda>r. cp_actorId (qr_reviewer r)) (set (accepted_reviews recs t))"
    using log_reviewers_differ [OF assms(1) _ _ _ assms(2-4)] by (auto simp: inj_on_def accepted_reviews_def)
  moreover have "inj_on qr_id (set (accepted_reviews recs t))"
    using log_same_id [OF assms(1), of "ReviewRec _" "ReviewRec _"]
    by (fastforce simp: inj_on_def accepted_reviews_def target_of_review_def)
  ultimately show ?thesis by (simp add: card_image)
qed

lemma log_verification_admitted:
  assumes "gate_log h recs" and "VerificationRec v \<in> set recs" and "TargetRec t \<in> set recs" and "target_of_verification t v"
    and "ProfileRec p \<in> set recs" and "profile_of p t"
  shows "\<exists>pre. verification_admitted h pre v t p"
proof -
  obtain pre post where recs: "recs = pre @ VerificationRec v # post" and ad: "admits h pre (VerificationRec v)"
    using log_admitted [OF assms(1,2)] by metis
  then obtain t' p' where t': "TargetRec t' \<in> set pre" "ProfileRec p' \<in> set pre" "verification_admitted h pre v t' p'" by auto
  have "t' = t" using log_one_target' [OF assms(1), of t' t v] assms(3,4) t' recs by (auto simp: verification_admitted_def)
  moreover have "p' = p" using log_one_profile [OF assms(1), of p' p t] assms(5,6) t' recs \<open>t' = t\<close> by (auto simp: verification_admitted_def)
  ultimately show ?thesis using t' by blast
qed


section \<open>Revisions of a subject\<close>

definition revision_numbers :: "gate_record list \<Rightarrow> string \<Rightarrow> string \<Rightarrow> rat set" where
  "revision_numbers recs tenantId subjectId = {qt_revisionNumber t |t. TargetRec t \<in> set recs \<and> qt_tenantId t = tenantId \<and> qt_subjectId t = subjectId}"

text \<open>A target of a log has a profile, and a revision a predecessor.\<close>

lemma log_target:
  assumes "gate_log h recs" and "TargetRec t \<in> set recs"
  shows "\<exists>p. ProfileRec p \<in> set recs \<and> profile_of p t \<and> (qt_revisionNumber t \<noteq> 0 \<longrightarrow> qt_revisionNumber t \<le> qp_maximumRevisionRounds p
     \<and> (\<exists>prior. TargetRec prior \<in> set recs \<and> qt_tenantId prior = qt_tenantId t \<and> qt_subjectId prior = qt_subjectId t
          \<and> qt_supersedesTargetId t = Some (qt_id prior) \<and> qt_revisionNumber prior + 1 = qt_revisionNumber t))"
proof -
  obtain pre post where recs: "recs = pre @ TargetRec t # post" and ad: "admits h pre (TargetRec t)"
    using log_admitted [OF assms] by metis
  show ?thesis
  proof (cases "qt_revisionNumber t = 0")
    case True
    then show ?thesis using ad recs by auto
  next
    case False
    then obtain prior p where "TargetRec prior \<in> set pre" "ProfileRec p \<in> set pre" "revision_follows h pre t prior p" using ad by auto
    then show ?thesis using recs by (intro exI [of _ p] conjI impI exI [of _ prior]) (auto simp: revision_follows_def profile_of_def)
  qed
qed

lemma log_revision_integer:
  assumes "gate_log h recs" and "TargetRec t \<in> set recs"
  obtains n where "qt_revisionNumber t = of_nat n"
proof -
  have "int_between 0 20 (qt_revisionNumber t)"
    using log_schema [OF assms] by (simp add: completionReviewTargetSchemaV1_def)
  then have "qt_revisionNumber t = of_int \<lfloor>qt_revisionNumber t\<rfloor>" "0 \<le> \<lfloor>qt_revisionNumber t\<rfloor>"
    by (auto simp: int_between_def z_int_def)
  then have "qt_revisionNumber t = of_nat (nat \<lfloor>qt_revisionNumber t\<rfloor>)" by (metis of_int_of_nat_eq nat_0_le)
  then show thesis by (rule that)
qed

lemma log_revisions_down:
  assumes "gate_log h recs" and "TargetRec t \<in> set recs" and "qt_revisionNumber t = of_nat n" and "m \<le> n"
  shows "of_nat m \<in> revision_numbers recs (qt_tenantId t) (qt_subjectId t)"
  using assms(2-4)
proof (induction n arbitrary: t)
  case 0
  then show ?case by (auto simp: revision_numbers_def intro: exI [of _ t])
next
  case (Suc n)
  show ?case
  proof (cases "m = Suc n")
    case True
    then show ?thesis using Suc.prems by (auto simp: revision_numbers_def intro: exI [of _ t])
  next
    case False
    have "qt_revisionNumber t \<noteq> 0" using Suc.prems(2) by simp
    then obtain prior where prior: "TargetRec prior \<in> set recs" "qt_tenantId prior = qt_tenantId t" "qt_subjectId prior = qt_subjectId t"
        "qt_revisionNumber prior + 1 = qt_revisionNumber t"
      using log_target [OF assms(1) Suc.prems(1)] by blast
    then have "qt_revisionNumber prior = of_nat n" using Suc.prems(2) by simp
    then show ?thesis using Suc.IH [OF prior(1)] Suc.prems(3) False prior(2,3) by simp
  qed
qed

lemma log_one_revision:
  assumes "gate_log h recs" and "TargetRec t \<in> set recs" and "TargetRec t' \<in> set recs" and "qt_tenantId t = qt_tenantId t'"
    and "qt_subjectId t = qt_subjectId t'" and "qt_revisionNumber t = qt_revisionNumber t'"
  shows "t = t'"
  using log_unique [OF assms(1-3)] assms(4-6) by (simp add: clashes_def)


section \<open>Decisions on an effect\<close>

lemma log_decision:
  assumes "gate_log h recs" and "DecisionRec d \<in> set recs"
  obtains a where "RequestRec a \<in> set recs" and "qa_tenantId a = qd_tenantId d" and "qa_id a = qd_requestId d" and "decision_matches h a d"
proof -
  obtain pre post where "recs = pre @ DecisionRec d # post" "admits h pre (DecisionRec d)" using log_admitted [OF assms] by metis
  moreover from this obtain a where "RequestRec a \<in> set pre" "qa_tenantId a = qd_tenantId d" "qa_id a = qd_requestId d" "decision_matches h a d"
    by auto
  ultimately show thesis using that [of a] by simp
qed

lemma log_one_decision:
  assumes "gate_log h recs" and "DecisionRec d \<in> set recs" and "DecisionRec d' \<in> set recs"
    and "RequestRec a \<in> set recs" and "RequestRec a' \<in> set recs" and "qa_tenantId a = qa_tenantId a'" and "qa_effectIntentId a = qa_effectIntentId a'"
    and "qd_tenantId d = qa_tenantId a" and "qd_requestId d = qa_id a" and "qd_tenantId d' = qa_tenantId a'" and "qd_requestId d' = qa_id a'"
  shows "a = a' \<and> d = d'"
proof -
  have "a = a'" using log_unique [OF assms(1,4,5)] assms(6,7) by (simp add: clashes_def)
  then show ?thesis using log_unique [OF assms(1-3)] assms(8-11) by (simp add: clashes_def)
qed

end
