(* ===== verification/Completion_Refinement.thy ===== *)
theory Completion_Refinement
  imports Completion_Log
begin

text \<open>
  The completion gate store refines the log of \<open>Completion_Log\<close>: whatever operations are requested, in whatever
  environments and however they fail, the table holds the rows of an admitted log.
\<close>

section \<open>Rows and their records\<close>

definition row_record :: "gate_row \<Rightarrow> gate_record" where
  "row_record row = the (gr_payload row)"

definition good_row :: "host \<Rightarrow> gate_keys \<Rightarrow> gate_row \<Rightarrow> bool" where
  "good_row h k row \<longleftrightarrow> verifiedRow h k row = Inr (row_record row)"

definition stored_records :: "gate_state \<Rightarrow> gate_record list" where
  "stored_records s = map row_record (gd_records (gs_db s))"

definition gate_inv :: "host \<Rightarrow> gate_keys \<Rightarrow> gate_state \<Rightarrow> bool" where
  "gate_inv h k s \<longleftrightarrow> list_all (good_row h k) (gd_records (gs_db s)) \<and> gate_log h (stored_records s)"

lemma verifiedRow_Inr:
  "verifiedRow h k row = Inr r \<longleftrightarrow> gr_payload row = Some r \<and> record_kind r = gr_kind row \<and> gateRecordSchema h r \<and> record_id r = gr_id row
     \<and> record_tenantId r = gr_tenantId row \<and> record_projectId r = gr_projectId row \<and> md_recordKey (describe h r) = gr_recordKey row
     \<and> md_subjectId (describe h r) = gr_subjectId row \<and> md_parentId (describe h r) = gr_parentId row
     \<and> md_occurredAt (describe h r) = gr_occurredAt row \<and> sha256Digest h (record_json r) = gr_recordDigest row
     \<and> gate_tag k (rowAuthMaterial row) = gr_recordAuthTag row \<and> gate_safe (record_json r) = Inr ()"
  by (auto simp: verifiedRow_def parse_payload_def bind_result_Inr_iff split: option.splits if_splits)

lemma verified_is_good: "verifiedRow h k row = Inr r \<Longrightarrow> good_row h k row \<and> row_record row = r"
  using verifiedRow_Inr [of h k row r] by (simp add: good_row_def row_record_def)

lemma good_row_fields:
  assumes "good_row h k row"
  shows "record_kind (row_record row) = gr_kind row" "record_id (row_record row) = gr_id row"
    "record_tenantId (row_record row) = gr_tenantId row" "record_projectId (row_record row) = gr_projectId row"
    "md_recordKey (describe h (row_record row)) = gr_recordKey row" "md_subjectId (describe h (row_record row)) = gr_subjectId row"
    "md_parentId (describe h (row_record row)) = gr_parentId row" "gateRecordSchema h (row_record row)"
  using assms unfolding good_row_def verifiedRow_Inr by simp_all

lemma verified_rows_good:
  "list_all (good_row h k) rows \<Longrightarrow> verified_rows h k rows = Inr (map (\<lambda>row. (gr_kind row, row_record row)) rows)"
  by (induction rows) (simp_all add: good_row_def)

lemma verified_rows_Inr:
  "verified_rows h k rows = Inr rs \<Longrightarrow> list_all (good_row h k) rows \<and> rs = map (\<lambda>row. (gr_kind row, row_record row)) rows"
  by (induction rows arbitrary: rs) (auto simp: bind_result_Inr_iff dest: verified_is_good)


section \<open>Queries\<close>

lemma requireRecord_Inr:
  assumes "requireRecord h k tenantId i kind db = Inr r"
  shows "r \<in> row_record ` set (gd_records db) \<and> record_tenantId r = tenantId \<and> record_id r = i \<and> record_kind r = kind"
proof -
  obtain row where row: "row \<in> set (gd_records db)" "gr_tenantId row = tenantId" "gr_id row = i" "gr_kind row = kind" "verifiedRow h k row = Inr r"
    using assms by (auto simp: requireRecord_def dest: find_SomeD split: option.splits)
  then show ?thesis using verified_is_good [OF row(5)] good_row_fields [of h k row] by auto
qed

lemma as_record_Inr:
  "as_target r = Inr t \<longleftrightarrow> r = TargetRec t" "as_profile r = Inr p \<longleftrightarrow> r = ProfileRec p" "as_request r = Inr a \<longleftrightarrow> r = RequestRec a"
  by (cases r; auto)+

lemma requireTarget_Inr:
  "requireTarget h k tenantId i (gs_db s) = Inr t \<Longrightarrow> TargetRec t \<in> set (stored_records s) \<and> qt_tenantId t = tenantId \<and> qt_id t = i"
  using requireRecord_Inr [of h k tenantId i TargetKind "gs_db s" "TargetRec t"]
  by (auto simp: requireTarget_def bind_result_Inr_iff as_record_Inr stored_records_def)

lemma requireProfile_Inr:
  "requireProfile h k tenantId i (gs_db s) = Inr p \<Longrightarrow> ProfileRec p \<in> set (stored_records s) \<and> qp_tenantId p = tenantId \<and> qp_id p = i"
  using requireRecord_Inr [of h k tenantId i ProfileKind "gs_db s" "ProfileRec p"]
  by (auto simp: requireProfile_def bind_result_Inr_iff as_record_Inr stored_records_def)

lemma listByParent_Inr:
  assumes "listByParent h k tenantId projectId kind parentId (gs_db s) = Inr rs" and "gate_inv h k s"
  shows "set rs = {r \<in> set (stored_records s). record_tenantId r = tenantId \<and> record_projectId r = projectId \<and> record_kind r = kind
     \<and> md_parentId (describe h r) = Some parentId}"
  using assms good_row_fields(1,3,4,7) [of h k]
  by (auto simp: listByParent_def bind_result_Inr_iff gate_inv_def stored_records_def list_all_iff image_iff dest!: verified_rows_Inr)

lemma listBySubject_Inr:
  assumes "listBySubject h k tenantId projectId kind subjectId (gs_db s) = Inr rs" and "gate_inv h k s"
  shows "set rs = {r \<in> set (stored_records s). record_tenantId r = tenantId \<and> record_projectId r = projectId \<and> record_kind r = kind
     \<and> md_subjectId (describe h r) = subjectId}"
  using assms good_row_fields(1,3,4,6) [of h k]
  by (auto simp: listBySubject_def bind_result_Inr_iff gate_inv_def stored_records_def list_all_iff image_iff dest!: verified_rows_Inr)

lemma findExisting_None:
  assumes "findExisting h k r (gs_db s) = Inr None" and "gate_inv h k s"
  shows "list_all (\<lambda>q. \<not> clashes h q r) (stored_records s)"
proof -
  have "\<not> (gr_tenantId row = record_tenantId r \<and> (gr_id row = record_id r
      \<or> gr_kind row = record_kind r \<and> gr_recordKey row = md_recordKey (describe h r)))" if "row \<in> set (gd_records (gs_db s))" for row
    using assms(1) that by (auto simp: findExisting_def find_None_iff bind_result_Inr_iff split: option.splits if_splits)
  then show ?thesis
    using assms(2) good_row_fields [of h k] by (auto simp: gate_inv_def list_all_iff stored_records_def clashes_def)
qed


section \<open>Insertion\<close>

lemma refresh_records:
  assumes "refreshTenantState h k tenantId s = (Inr u, s')"
  shows "gd_records (gs_db s') = gd_records (gs_db s) \<and> (\<exists>c. computedTenantState h k tenantId (gs_db s) = Inr c)"
  using assms
  by (auto simp: refreshTenantState_def bind_step_Inr Let_def write_integrity_def set_integrity_def checkpointAdvance_def checkpoint_write_def
      split: if_splits sum.splits option.splits)

lemma computed_good:
  assumes "computedTenantState h k tenantId db = Inr c" and "row \<in> set (gd_records db)" and "gr_tenantId row = tenantId"
  shows "good_row h k row"
  using assms verified_rows_Inr [of h k "tenant_rows tenantId (gd_records db)"]
  by (auto simp: computedTenantState_def Let_def bind_result_Inr_iff tenant_rows_def list_all_iff)

text \<open>A record is either there already, or it was not there in any form and its row is appended and verified.\<close>

lemma insert_record_Inr:
  assumes "insert_record h k env r s = (Inr (r', replayed), s')"
  shows "replayed \<and> s' = s \<or> \<not> replayed \<and> r' = r \<and> findExisting h k r (gs_db s) = Inr None
     \<and> (\<exists>row. gd_records (gs_db s') = gd_records (gs_db s) @ [row] \<and> row_record row = r \<and> good_row h k row)"
proof (cases "findExisting h k r (gs_db s)")
  case (Inr existing)
  show ?thesis
  proof (cases existing)
    case None
    then obtain t s1 s2 where t: "insert_row env (new_row h k r t) s = (Inr (), s1)"
        and s2: "refreshTenantState h k (record_tenantId r) s1 = (Inr (), s2)" and r: "r' = r" "\<not> replayed" "s' = s2"
      using assms Inr by (auto simp: insert_record_def bind_step_Inr)
    let ?row = "new_row h k r t"
    have rows: "gd_records (gs_db s1) = gd_records (gs_db s) @ [?row]" using t by (auto simp: insert_row_def split: if_splits)
    have row: "gr_tenantId ?row = record_tenantId r" "gr_payload ?row = Some r" by (simp_all add: new_row_def Let_def)
    then have "good_row h k ?row" using refresh_records [OF s2] computed_good [of h k "record_tenantId r" "gs_db s1" _ ?row] rows by auto
    then show ?thesis using refresh_records [OF s2] rows r row Inr None by (auto simp: row_record_def)
  qed (use assms Inr in \<open>auto simp: insert_record_def bind_step_Inr\<close>)
qed (use assms in \<open>auto simp: insert_record_def bind_step_Inr\<close>)

lemma insert_record_keeps:
  assumes "insert_record h k env r s = (Inr (r', replayed), s')" and "gate_inv h k s"
    and "findExisting h k r (gs_db s) = Inr None \<Longrightarrow> admits h (stored_records s) r"
  shows "gate_inv h k s' \<and> stored_records s' = stored_records s @ (if replayed then [] else [r])"
  using insert_record_Inr [OF assms(1)]
proof (elim disjE conjE exE)
  fix row
  assume n: "\<not> replayed" "findExisting h k r (gs_db s) = Inr None" and rows: "gd_records (gs_db s') = gd_records (gs_db s) @ [row]"
    and row: "row_record row = r" "good_row h k row"
  have "gate_log h (stored_records s @ [r])"
    using assms(2) n findExisting_None [OF n(2) assms(2)] assms(3) [OF n(2)] row good_row_fields(8) [OF row(2)]
    by (intro log_append) (simp_all add: gate_inv_def)
  then show ?thesis using rows row n assms(2) by (simp add: gate_inv_def stored_records_def)
qed (use assms(2) in simp)

lemma insert_findings_keeps:
  assumes "insert_findings h k env fs s = (Inr rs, s')" and "gate_inv h k s" and "ReviewRec r \<in> set (stored_records s)"
    and "list_all (finding_matches r) fs"
  shows "gate_inv h k s'"
  using assms
proof (induction fs arbitrary: s rs)
  case (Cons f fs)
  then obtain q b s1 rs' where q: "insert_record h k env (FindingRec f) s = (Inr (q, b), s1)" "insert_findings h k env fs s1 = (Inr rs', s')"
    by (auto simp: bind_step_Inr)
  have "gate_inv h k s1 \<and> stored_records s1 = stored_records s @ (if b then [] else [FindingRec f])"
    using Cons.prems by (intro insert_record_keeps [OF q(1)]) auto
  then show ?case using Cons.IH [OF q(2)] Cons.prems by auto
qed simp

lemma replay_findings_same:
  "replay_findings h k env fs s = (Inr rs, s') \<Longrightarrow> s' = s"
proof (induction fs arbitrary: rs)
  case (Cons f fs)
  then show ?case by (auto simp: bind_step_Inr check_step_Inr dest!: insert_record_Inr)
qed simp


section \<open>Every operation appends admitted records\<close>

lemma safeId_no_bar: "safeId i \<Longrightarrow> CHR ''|'' \<notin> set i"
proof -
  have "\<not> is_alnum (CHR ''|'')" "\<not> is_id_char (CHR ''|'')" by code_simp+
  then show "safeId i \<Longrightarrow> CHR ''|'' \<notin> set i" by (cases i) (auto simp: safeId_def list_all_iff)
qed

lemma assertIndependent_Inr: "assertIndependent q r p = Inr u \<longleftrightarrow> independent_of (qp_reviewerSeparation p) q r"
  unfolding assertReviewerIndependentV1_iff [symmetric] assertIndependent_def by (auto split: sum.splits independence_error.splits)

lemma assert_all_independent_Inr:
  "assert_all_independent qs r p = Inr u \<longleftrightarrow> (\<forall>q \<in> set qs. independent_of (qp_reviewerSeparation p) q r)"
  by (induction qs) (auto simp: bind_result_Inr_iff assertIndependent_Inr)

lemma not_revised:
  assumes "listByParent h k (qt_tenantId t) (qt_projectId t) RevisionKind (qt_id t) (gs_db s) = Inr []" and "gate_inv h k s"
  shows "\<not> revised (stored_records s) t"
proof
  assume "revised (stored_records s) t"
  then obtain n where "RevisionRec n \<in> set (stored_records s)" "revises n t" by (auto simp: revised_def)
  then have "RevisionRec n \<in> set []" unfolding listByParent_Inr [OF assms] by (simp add: revises_def)
  then show False by simp
qed

lemma review_is_admitted:
  assumes "review_admissible h r fs t p = Inr u" and "review_fresh h k r t p (gs_db s) = Inr v" and "gate_inv h k s"
    and "qt_tenantId t = qr_tenantId r" and "qt_id t = qr_targetId r" and "profile_of p t"
  shows "review_admitted h (stored_records s) r t p"
proof -
  have a: "target_of_review t r" "qr_targetDigest r = sha256Digest h (review_target_json t)" "qr_acceptanceProfileDigest r = sha256Digest h (profile_json p)"
    "\<not> ms_less (date_parse (qr_reviewedAt r)) (date_parse (qt_submittedAt t))" "qr_effectiveRisk r = expected_risk (qp_minimumRisk p) (qr_assessedRisk r)"
    "qr_authority r = GateReview \<longrightarrow> independent_of (qp_reviewerSeparation p) (qt_producer t) (qr_reviewer r)"
    using assms(1,4,5) by (auto simp: review_admissible_def assertReviewBindings_def bind_result_Inr_iff guard_result_Inr_iff
        assertIndependent_Inr target_of_review_def)
  obtain fs' where f: "listByParent h k (qt_tenantId t) (qt_projectId t) RevisionKind (qt_id t) (gs_db s) = Inr []"
    "listBySubject h k (qr_tenantId r) (qr_projectId r) FindingKind (qr_targetId r) (gs_db s) = Inr fs'"
    "\<not> (accepting (qr_decision r) \<and> fs' \<noteq> [])"
    using assms(2) by (auto simp: review_fresh_def bind_result_Inr_iff guard_result_Inr_iff)
  have "FindingRec x \<in> set fs'" if "FindingRec x \<in> set (stored_records s)" "finding_on t x" for x
    using that listBySubject_Inr [OF f(2) assms(3)] a(1) by (auto simp: finding_on_def target_of_review_def)
  then have "\<not> (accepting (qr_decision r) \<and> (\<exists>x \<in> set (findings_in (stored_records s)). finding_on t x))" using f(3) by fastforce
  moreover have "independent_of (qp_reviewerSeparation p) (qr_reviewer q) (qr_reviewer r)"
    if g: "qr_authority r = GateReview" "ReviewRec q \<in> set (stored_records s)" "target_of_review t q" "qr_authority q = GateReview" for q
  proof -
    obtain es where es: "listByParent h k (qr_tenantId r) (qr_projectId r) ReviewKind (qr_targetId r) (gs_db s) = Inr es"
      "assert_all_independent (map qr_reviewer (filter (\<lambda>v. qr_authority v = GateReview) (reviews_in es))) (qr_reviewer r) p = Inr v"
      using assms(2) g(1) by (auto simp: review_fresh_def bind_result_Inr_iff guard_result_Inr_iff)
    have "ReviewRec q \<in> set es" using g listByParent_Inr [OF es(1) assms(3)] a(1) by (auto simp: target_of_review_def)
    then show ?thesis using es(2) g(4) unfolding assert_all_independent_Inr by auto
  qed
  ultimately show ?thesis using a not_revised [OF f(1) assms(3)] assms(6) by (simp add: review_admitted_def)
qed

lemma begin_operation_Inr: "begin_operation h k tenantId s = (Inr u, s') \<Longrightarrow> s' = s"
  by (simp add: begin_operation_def)

lemma query_same: "query_step q s = (Inr a, t) \<Longrightarrow> q s = Inr a \<and> t = s"
  by simp

lemmas operation_simps = bind_step_Inr check_step_Inr gate_transaction_def begin_operation_def bind_result_Inr_iff

lemma registerProfile_keeps:
  "registerProfile h k env p s = (Inr (r, b), s') \<Longrightarrow> gate_inv h k s \<Longrightarrow> gate_inv h k s'"
  by (auto simp: registerProfile_def operation_simps dest!: insert_record_keeps)

lemma recordPreference_keeps:
  "recordPreference h k env p s = (Inr (r, b), s') \<Longrightarrow> gate_inv h k s \<Longrightarrow> gate_inv h k s'"
  by (auto simp: recordPreference_def operation_simps dest!: insert_record_keeps)

lemma registerTarget_keeps:
  assumes "registerTarget h k env t s = (Inr (r, b), s')" and "gate_inv h k s" shows "gate_inv h k s'"
proof -
  obtain p where p: "requireProfile h k (qt_tenantId t) (qt_acceptanceProfileId t) (gs_db s) = Inr p" "qt_revisionNumber t = 0"
      and i: "insert_record h k env (TargetRec t) s = (Inr (r, b), s')"
    using assms(1) by (auto simp: registerTarget_def operation_simps)
  show ?thesis using requireProfile_Inr [OF p(1)] p(2) by (intro conjunct1 [OF insert_record_keeps [OF i assms(2)]]) (auto simp: profile_of_def)
qed

lemma recordReview_keeps:
  assumes "recordReview h k env r fs s = (Inr x, s')" and inv: "gate_inv h k s" shows "gate_inv h k s'"
proof -
  obtain replay where replay: "findExisting h k (ReviewRec r) (gs_db s) = Inr replay"
    using assms(1) by (auto simp: recordReview_def operation_simps)
  show ?thesis
  proof (cases replay)
    case None
    obtain t p q b s1 rs where t: "requireTarget h k (qr_tenantId r) (qr_targetId r) (gs_db s) = Inr t"
        and p: "requireProfile h k (qr_tenantId r) (qt_acceptanceProfileId t) (gs_db s) = Inr p"
        and ok: "review_admissible h r fs t p = Inr ()" and fresh: "review_fresh h k r t p (gs_db s) = Inr ()"
        and q: "insert_record h k env (ReviewRec r) s = (Inr (q, b), s1)" and rs: "insert_findings h k env fs s1 = (Inr rs, s')"
      using assms(1) replay None by (auto simp: recordReview_def operation_simps)
    have pt: "profile_of p t" using requireTarget_Inr [OF t] requireProfile_Inr [OF p] by (simp add: profile_of_def)
    have "review_admitted h (stored_records s) r t p"
      using review_is_admitted [OF ok fresh inv] requireTarget_Inr [OF t] pt by simp
    then have "admits h (stored_records s) (ReviewRec r)"
      using requireTarget_Inr [OF t] requireProfile_Inr [OF p] by (auto intro!: bexI [of _ t] bexI [of _ p])
    then have "gate_inv h k s1 \<and> stored_records s1 = stored_records s @ (if b then [] else [ReviewRec r])"
      by (intro insert_record_keeps [OF q inv])
    moreover have "\<not> b" using q replay None by (auto simp: insert_record_def bind_step_Inr)
    ultimately show ?thesis using insert_findings_keeps [OF rs, of r] ok
      by (auto simp: review_admissible_def bind_result_Inr_iff guard_result_Inr_iff)
  next
    case (Some stored)
    then show ?thesis using assms replay by (auto simp: recordReview_def operation_simps dest!: replay_findings_same)
  qed
qed

lemma recordVerification_keeps:
  assumes "recordVerification h k env v s = (Inr x, s')" and inv: "gate_inv h k s" shows "gate_inv h k s'"
proof -
  obtain replay where replay: "findExisting h k (VerificationRec v) (gs_db s) = Inr replay"
    using assms(1) by (auto simp: recordVerification_def operation_simps)
  show ?thesis
  proof (cases replay)
    case None
    obtain t p where t: "requireTarget h k (qv_tenantId v) (qv_targetId v) (gs_db s) = Inr t"
        and p: "requireProfile h k (qv_tenantId v) (qt_acceptanceProfileId t) (gs_db s) = Inr p"
        and ok: "verification_admissible h v t p = Inr ()"
        and n: "listByParent h k (qt_tenantId t) (qt_projectId t) RevisionKind (qt_id t) (gs_db s) = Inr []"
        and i: "insert_record h k env (VerificationRec v) s = (Inr x, s')"
      using assms(1) replay None by (auto simp: recordVerification_def operation_simps guard_result_Inr_iff)
    have "verification_admitted h (stored_records s) v t p"
      using ok not_revised [OF n inv] requireTarget_Inr [OF t] requireProfile_Inr [OF p]
      by (auto simp: verification_admissible_def guard_result_Inr_iff verification_admitted_def target_of_verification_def profile_of_def)
    then have "admits h (stored_records s) (VerificationRec v)"
      using requireTarget_Inr [OF t] requireProfile_Inr [OF p] by (auto intro!: bexI [of _ t] bexI [of _ p])
    then show ?thesis using insert_record_keeps i inv by (cases x) blast
  next
    case (Some stored)
    then show ?thesis using assms replay by (auto simp: recordVerification_def operation_simps)
  qed
qed

lemma revision_is_admitted:
  assumes "revision_fresh h k n prior (gs_db s) = Inr u" and "gate_inv h k s" and "revision_admissible h n t prior p" and "completionRevisionSchemaV1 h n"
  shows "\<not> revised (stored_records s) prior \<and> (\<exists>f \<in> set (findings_in (stored_records s)). finding_on prior f)
     \<and> (\<forall>f \<in> set (findings_in (stored_records s)). finding_on prior f \<longrightarrow> fg_id f \<in> set (qn_resolvedFindingIds n))"
proof -
  obtain rows where l: "listByParent h k (qt_tenantId prior) (qt_projectId prior) RevisionKind (qt_id prior) (gs_db s) = Inr []"
    and rows: "listBySubject h k (qt_tenantId prior) (qt_projectId prior) FindingKind (qt_id prior) (gs_db s) = Inr rows"
    and ids: "sort (map fg_id (findings_in rows)) \<noteq> []" "exactSorted (qn_resolvedFindingIds n) (sort (map fg_id (findings_in rows)))"
    using assms(1) by (auto simp: revision_fresh_def bind_result_Inr_iff guard_result_Inr_iff Let_def)
  have on: "f \<in> set (findings_in rows) \<longleftrightarrow> FindingRec f \<in> set (stored_records s) \<and> finding_on prior f" for f
    unfolding in_record_lists listBySubject_Inr [OF rows assms(2)] by (auto simp: finding_on_def)
  have ne: "qn_resolvedFindingIds n \<noteq> []" "\<forall>i \<in> set (qn_resolvedFindingIds n). CHR ''|'' \<notin> set i"
    using assms(4) safeId_no_bar by (auto simp: completionRevisionSchemaV1_def uniqueSorted_def list_all_iff)
  have "CHR ''|'' \<notin> set (fg_id f)" if "f \<in> set (findings_in rows)" for f
    using log_schema [of h "stored_records s" "FindingRec f"] that on [of f] assms(2)
    by (intro safeId_no_bar) (simp add: gate_inv_def completionFindingSchemaV1_def gate_ids_def)
  then have "\<forall>i \<in> set (sort (map fg_id (findings_in rows))). CHR ''|'' \<notin> set i" by auto
  then have "split_char (CHR ''|'') (join_char (CHR ''|'') (sort (map fg_id (findings_in rows)))) = sort (map fg_id (findings_in rows))"
    using ids(1) by (intro split_join_char)
  moreover have "split_char (CHR ''|'') (join_char (CHR ''|'') (qn_resolvedFindingIds n)) = qn_resolvedFindingIds n"
    using ne by (intro split_join_char)
  ultimately have "qn_resolvedFindingIds n = sort (map fg_id (findings_in rows))"
    using ids(2) unfolding exactSorted_def by metis
  moreover obtain f where "f \<in> set (findings_in rows)" using ids(1) by (cases "findings_in rows") auto
  ultimately show ?thesis using on not_revised [OF l assms(2)] by auto
qed

lemma recordRevision_keeps:
  assumes "recordRevision h k env n t s = (Inr x, s')" and inv: "gate_inv h k s" shows "gate_inv h k s'"
proof -
  obtain replay where replay: "findExisting h k (RevisionRec n) (gs_db s) = Inr replay"
    using assms(1) by (auto simp: recordRevision_def operation_simps)
  show ?thesis
  proof (cases replay)
    case None
    obtain prior p q b s1 q' b' where prior: "requireTarget h k (qn_tenantId n) (qn_fromTargetId n) (gs_db s) = Inr prior"
        and p: "requireProfile h k (qn_tenantId n) (qt_acceptanceProfileId prior) (gs_db s) = Inr p"
        and ok: "revision_admissible h n t prior p" and fresh: "revision_fresh h k n prior (gs_db s) = Inr ()"
        and sch: "completionRevisionSchemaV1 h n" and t: "findExisting h k (TargetRec t) (gs_db s) = Inr None"
        and q: "insert_record h k env (TargetRec t) s = (Inr (q, b), s1)" and q': "insert_record h k env (RevisionRec n) s1 = (Inr (q', b'), s')"
      using assms(1) replay None by (auto simp: recordRevision_def operation_simps guard_result_Inr_iff)
    note adm = revision_is_admitted [OF fresh inv ok sch]
    have pp: "profile_of p prior" "revises n prior" "TargetRec prior \<in> set (stored_records s)" "ProfileRec p \<in> set (stored_records s)"
      using requireTarget_Inr [OF prior] requireProfile_Inr [OF p] ok by (auto simp: profile_of_def revises_def revision_admissible_def)
    have "qt_revisionNumber t \<noteq> 0" using sch ok by (simp add: completionRevisionSchemaV1_def revision_admissible_def)
    moreover have "revision_follows h (stored_records s) t prior p"
      using ok adm pp(1) by (auto simp: revision_follows_def revision_admissible_def)
    ultimately have "admits h (stored_records s) (TargetRec t)" using pp by (auto intro!: bexI [of _ prior] bexI [of _ p])
    then have s1: "gate_inv h k s1 \<and> stored_records s1 = stored_records s @ (if b then [] else [TargetRec t])"
      by (intro insert_record_keeps [OF q inv])
    have "\<not> b" using q t by (auto simp: insert_record_def bind_step_Inr)
    have "admits h (stored_records s1) (RevisionRec n)"
      unfolding admits.simps
      by (rule bexI [of _ prior], rule bexI [of _ t], rule bexI [of _ p]) (use s1 \<open>\<not> b\<close> pp ok adm in \<open>auto simp: revised_def\<close>)
    then show ?thesis using insert_record_keeps [OF q'] s1 by simp
  next
    case (Some stored)
    then show ?thesis using assms replay by (auto simp: recordRevision_def operation_simps split: option.splits)
  qed
qed

lemma requestApproval_keeps:
  assumes "requestApproval h k env a s = (Inr (r, b), s')" and "gate_inv h k s" shows "gate_inv h k s'"
proof -
  obtain replay where replay: "findExisting h k (RequestRec a) (gs_db s) = Inr replay"
    using assms(1) by (auto simp: requestApproval_def operation_simps)
  show ?thesis using assms replay
    by (cases replay) (auto simp: requestApproval_def operation_simps dest!: insert_record_keeps)
qed

lemma decideApproval_keeps:
  assumes "decideApproval h k env d s = (Inr (r, b), s')" and "gate_inv h k s" shows "gate_inv h k s'"
proof -
  obtain a replay where a: "requireRecord h k (qd_tenantId d) (qd_requestId d) RequestKind (gs_db s) = Inr (RequestRec a)"
      and replay: "findExisting h k (DecisionRec d) (gs_db s) = Inr replay"
    using assms(1) by (auto simp: decideApproval_def operation_simps as_record_Inr)
  show ?thesis
  proof (cases replay)
    case None
    have "decision_matches h a d" and i: "insert_record h k env (DecisionRec d) s = (Inr (r, b), s')"
      using assms(1) a replay None by (auto simp: decideApproval_def operation_simps)
    then have "admits h (stored_records s) (DecisionRec d)"
      using requireRecord_Inr [OF a] by (auto simp: stored_records_def intro!: bexI [of _ a])
    then show ?thesis using insert_record_keeps [OF i assms(2)] by blast
  qed (use assms a replay in \<open>auto simp: decideApproval_def operation_simps\<close>)
qed


section \<open>Runs of the store\<close>

datatype gate_command =
    ProvisionTenant gate_env string | CompleteProvisioning string | VerifyProvisioning string
  | RegisterProfile gate_env acceptance_profile | RegisterTarget gate_env review_target
  | RecordReview gate_env gate_review "gate_finding list" | RecordVerification gate_env gate_verification
  | RecordRevision gate_env gate_revision review_target | RecordPreference gate_env gate_preference
  | RequestApproval gate_env gate_approval_request | DecideApproval gate_env gate_approval_decision

fun after_gate :: "host \<Rightarrow> gate_keys \<Rightarrow> gate_command \<Rightarrow> gate_state \<Rightarrow> gate_state" where
  "after_gate h k (ProvisionTenant env t) s = snd (provisionTenant h k env t s)"
| "after_gate h k (CompleteProvisioning t) s = snd (completeProvisionedTenantV1 h k t s)"
| "after_gate h k (VerifyProvisioning t) s = snd (verifyProvisionedTenantV1 h k t s)"
| "after_gate h k (RegisterProfile env p) s = snd (registerProfile h k env p s)"
| "after_gate h k (RegisterTarget env t) s = snd (registerTarget h k env t s)"
| "after_gate h k (RecordReview env r fs) s = snd (recordReview h k env r fs s)"
| "after_gate h k (RecordVerification env v) s = snd (recordVerification h k env v s)"
| "after_gate h k (RecordRevision env n t) s = snd (recordRevision h k env n t s)"
| "after_gate h k (RecordPreference env q) s = snd (recordPreference h k env q s)"
| "after_gate h k (RequestApproval env a) s = snd (requestApproval h k env a s)"
| "after_gate h k (DecideApproval env d) s = snd (decideApproval h k env d s)"

definition run_gate :: "host \<Rightarrow> gate_keys \<Rightarrow> gate_command list \<Rightarrow> gate_state" where
  "run_gate h k cs = fold (after_gate h k) cs empty_gate"

text \<open>An error leaves the database as it was.\<close>

lemma transaction_error: "gate_transaction m s = (Inl e, s') \<Longrightarrow> gs_db s' = gs_db s"
  by (auto simp: gate_transaction_def transaction_step_def split: prod.splits sum.splits)

lemma lifted_error: "bind_step (lift_step x) f s = (Inl e, s') \<Longrightarrow> (\<And>a. f a s = (Inl e, s') \<Longrightarrow> gs_db s' = gs_db s) \<Longrightarrow> gs_db s' = gs_db s"
  by (auto simp: bind_step_def lift_step_def split: sum.splits)

lemma checked_error: "bind_step (check_step x e') f s = (Inl e, s') \<Longrightarrow> (\<And>a. f a s = (Inl e, s') \<Longrightarrow> gs_db s' = gs_db s) \<Longrightarrow> gs_db s' = gs_db s"
  by (auto simp: bind_step_def check_step_def split: if_splits)

lemma operation_errors:
  "registerProfile h k env p s = (Inl e, s') \<Longrightarrow> gs_db s' = gs_db s"
  "registerTarget h k env t s = (Inl e, s') \<Longrightarrow> gs_db s' = gs_db s"
  "recordReview h k env r fs s = (Inl e, s') \<Longrightarrow> gs_db s' = gs_db s"
  "recordVerification h k env v s = (Inl e, s') \<Longrightarrow> gs_db s' = gs_db s"
  "recordRevision h k env n t s = (Inl e, s') \<Longrightarrow> gs_db s' = gs_db s"
  "recordPreference h k env q s = (Inl e, s') \<Longrightarrow> gs_db s' = gs_db s"
  "requestApproval h k env a s = (Inl e, s') \<Longrightarrow> gs_db s' = gs_db s"
  "decideApproval h k env d s = (Inl e, s') \<Longrightarrow> gs_db s' = gs_db s"
  unfolding registerProfile_def registerTarget_def recordReview_def recordVerification_def recordRevision_def recordPreference_def
    requestApproval_def decideApproval_def
  by (erule lifted_error, (erule checked_error)?, erule transaction_error)+

lemma provisioning_records:
  "gd_records (gs_db (snd (provisionTenant h k env t s))) = gd_records (gs_db s)"
  "gs_db (snd (completeProvisionedTenantV1 h k t s)) = gs_db s"
  "snd (verifyProvisionedTenantV1 h k t s) = s"
proof -
  show "gd_records (gs_db (snd (provisionTenant h k env t s))) = gd_records (gs_db s)"
  proof (cases "provisionTenant h k env t s")
    case (Pair r s')
    show ?thesis
    proof (cases r)
      case (Inl e)
      then have "gs_db s' = gs_db s" using Pair unfolding provisionTenant_def by (intro transaction_error) simp
      then show ?thesis using Pair by simp
    next
      case (Inr u)
      then have "gd_records (gs_db s') = gd_records (gs_db s)"
        using Pair by (auto simp: provisionTenant_def operation_simps Let_def insert_integrity_def checkpoint_write_def split: if_splits sum.splits)
      then show ?thesis using Pair by simp
    qed
  qed
  show "gs_db (snd (completeProvisionedTenantV1 h k t s)) = gs_db s"
    by (auto simp: completeProvisionedTenantV1_def bind_step_def lift_step_def gate_transaction_def transaction_step_def query_step_def
        return_step_def fail_step_def checkpoint_write_def Let_def split: sum.splits option.splits prod.splits)
  show "snd (verifyProvisionedTenantV1 h k t s) = s"
    by (simp add: verifyProvisionedTenantV1_def gate_transaction_def transaction_step_def query_step_def split: sum.splits)
qed

lemma gate_inv_records: "gate_inv h k s \<Longrightarrow> gd_records (gs_db s') = gd_records (gs_db s) \<Longrightarrow> gate_inv h k s'"
  by (simp add: gate_inv_def stored_records_def)

lemma outcome_keeps:
  assumes "gate_inv h k s" and "\<And>a t. m s = (Inr a, t) \<Longrightarrow> gate_inv h k s \<Longrightarrow> gate_inv h k t"
    and "\<And>e t. m s = (Inl e, t) \<Longrightarrow> gs_db t = gs_db s"
  shows "gate_inv h k (snd (m s))"
proof (cases "m s")
  case (Pair r t)
  show ?thesis
  proof (cases r)
    case (Inl e)
    then have "gs_db t = gs_db s" using Pair assms(3) by simp
    then show ?thesis using gate_inv_records [OF assms(1), of t] Pair by simp
  next
    case (Inr a)
    then show ?thesis using Pair assms(1) assms(2) [of a t] by simp
  qed
qed

interpretation gate_runs: stepwise_store "after_gate h k" empty_gate "gate_inv h k" for h k
proof
  show "gate_inv h k empty_gate" by (simp add: gate_inv_def empty_gate_def stored_records_def log_empty)
  show "gate_inv h k (after_gate h k c s)" if inv: "gate_inv h k s" for c s
  proof (cases c)
    case (ProvisionTenant env t)
    then show ?thesis using gate_inv_records [OF inv] provisioning_records(1) by simp
  next
    case (CompleteProvisioning t)
    then show ?thesis using gate_inv_records [OF inv] provisioning_records(2) by simp
  next
    case (VerifyProvisioning t)
    then show ?thesis using inv provisioning_records(3) by simp
  next
    case (RegisterProfile env p)
    have "gate_inv h k (snd (registerProfile h k env p s))"
      by (rule outcome_keeps [OF inv]) (auto elim: registerProfile_keeps operation_errors(1))
    then show ?thesis using RegisterProfile by simp
  next
    case (RegisterTarget env t)
    have "gate_inv h k (snd (registerTarget h k env t s))"
      by (rule outcome_keeps [OF inv]) (auto elim: registerTarget_keeps operation_errors(2))
    then show ?thesis using RegisterTarget by simp
  next
    case (RecordReview env r fs)
    have "gate_inv h k (snd (recordReview h k env r fs s))"
      by (rule outcome_keeps [OF inv]) (auto elim: recordReview_keeps operation_errors(3))
    then show ?thesis using RecordReview by simp
  next
    case (RecordVerification env v)
    have "gate_inv h k (snd (recordVerification h k env v s))"
      by (rule outcome_keeps [OF inv]) (auto elim: recordVerification_keeps operation_errors(4))
    then show ?thesis using RecordVerification by simp
  next
    case (RecordRevision env n t)
    have "gate_inv h k (snd (recordRevision h k env n t s))"
      by (rule outcome_keeps [OF inv]) (auto elim: recordRevision_keeps operation_errors(5))
    then show ?thesis using RecordRevision by simp
  next
    case (RecordPreference env q)
    have "gate_inv h k (snd (recordPreference h k env q s))"
      by (rule outcome_keeps [OF inv]) (auto elim: recordPreference_keeps operation_errors(6))
    then show ?thesis using RecordPreference by simp
  next
    case (RequestApproval env a)
    have "gate_inv h k (snd (requestApproval h k env a s))"
      by (rule outcome_keeps [OF inv]) (auto elim: requestApproval_keeps operation_errors(7))
    then show ?thesis using RequestApproval by simp
  next
    case (DecideApproval env d)
    have "gate_inv h k (snd (decideApproval h k env d s))"
      by (rule outcome_keeps [OF inv]) (auto elim: decideApproval_keeps operation_errors(8))
    then show ?thesis using DecideApproval by simp
  qed
qed

lemma run_gate_inv: "gate_inv h k (run_gate h k cs)"
  unfolding run_gate_def by (rule gate_runs.fold_inv)

text \<open>
  C5. The store refines the log: after any sequence of requested operations, in any environments and whatever fails, every
  row of the table verifies and the records of the table form an admitted log: each record was admitted by those recorded before it.
\<close>

theorem gate_store_refines_log:
  "gate_log h (stored_records (run_gate h k cs)) \<and> list_all (good_row h k) (gd_records (gs_db (run_gate h k cs)))"
  using run_gate_inv [of h k cs] by (simp add: gate_inv_def)

end
