(* ===== verification/Completion_Progress.thy ===== *)
theory Completion_Progress
  imports Completion_Refinement Policy_Guarantees
begin

text \<open>
  When the completion gate store makes progress. A tenant is in step when its integrity row describes its records and the
  checkpoint outside the database is that row's; the rows of other tenants play no part. In step, a fresh record that fits its schema is stored, and the
  tenant is in step again, one revision on: the store never locks itself out. The sample tenant at the end is provisioned and
  carries a target from its profile to acceptance.
\<close>

section \<open>Verifying a tenant\<close>

lemma assertCheckpoint_Inr:
  "assertCheckpoint h tenantId row cks = Inr e \<longleftrightarrow> e = integrity_checkpoint tenantId row
     \<and> (\<exists>c. checkpoint_read cks (checkpointScope tenantId) = Some c \<and> same_checkpoint h c (integrity_checkpoint tenantId row))"
  by (auto simp: assertCheckpoint_def Let_def split: option.splits)

definition integrity_matches :: "gate_keys \<Rightarrow> string \<Rightarrow> computed_state \<Rightarrow> integrity_row \<Rightarrow> bool" where
  "integrity_matches k tenantId c row \<longleftrightarrow> 1 \<le> gi_revision row \<and> gi_recordCount row = gc_recordCount c \<and> gi_stateDigest row = gc_stateDigest c
     \<and> gi_stateAuthTag row = tenantStateTag k tenantId (gi_revision row) (gc_recordCount c) (gc_stateDigest c)"

lemma lockAndVerify_iff:
  "lockAndVerifyTenantState h k tenantId s = Inr v \<longleftrightarrow> (\<exists>c row. computedTenantState h k tenantId (gs_db s) = Inr c
     \<and> integrity_for tenantId (gs_db s) = Some row \<and> integrity_matches k tenantId c row
     \<and> assertCheckpoint h tenantId row (gs_checkpoints s) = Inr (integrity_checkpoint tenantId row) \<and> v = gc_verified c)"
proof (cases "computedTenantState h k tenantId (gs_db s)")
  case (Inr c)
  show ?thesis
  proof (cases "integrity_for tenantId (gs_db s)")
    case (Some row)
    then show ?thesis using Inr
      by (auto simp: lockAndVerifyTenantState_def integrity_matches_def bind_result_Inr_iff assertCheckpoint_Inr)
  qed (simp add: lockAndVerifyTenantState_def Inr)
qed (simp add: lockAndVerifyTenantState_def)


definition in_step :: "host \<Rightarrow> gate_keys \<Rightarrow> string \<Rightarrow> nat \<Rightarrow> gate_state \<Rightarrow> bool" where
  "in_step h k tenantId n s \<longleftrightarrow> (\<exists>row c. integrity_for tenantId (gs_db s) = Some row \<and> computedTenantState h k tenantId (gs_db s) = Inr c
     \<and> integrity_matches k tenantId c row \<and> gi_tenantId row = tenantId \<and> gi_revision row = of_nat (Suc n) \<and> gi_recordCount row = of_nat n
     \<and> valid_checkpoint (integrity_checkpoint tenantId row)
     \<and> checkpoint_read (gs_checkpoints s) (checkpointScope tenantId) = Some (integrity_checkpoint tenantId row))"

lemma same_checkpoint_refl: "valid_checkpoint c \<Longrightarrow> same_checkpoint h c c"
  by (simp add: same_checkpoint_def rollbackCheckpointDigestV1_def parseRollbackCheckpointV1_def)

lemma in_step_verifies:
  assumes "in_step h k tenantId n s"
  shows "\<exists>v. lockAndVerifyTenantState h k tenantId s = Inr v"
  using assms unfolding in_step_def lockAndVerify_iff assertCheckpoint_Inr by (blast intro: same_checkpoint_refl)

lemma in_step_begins: "in_step h k tenantId n s \<Longrightarrow> begin_operation h k tenantId s = (Inr (), s)"
  using in_step_verifies [of h k tenantId n s] by (auto simp: begin_operation_def query_step_def)


section \<open>A fresh record is stored\<close>

text \<open>What the host's hash and the key's tags have to be: hexadecimal, of the length of SHA-256.\<close>

definition hex_host :: "host \<Rightarrow> gate_keys \<Rightarrow> bool" where
  "hex_host h k \<longleftrightarrow> (\<forall>v. digest_pattern (sha256Digest h v)) \<and> (\<forall>v. hmac_pattern (gate_tag k v))"

definition storable :: "host \<Rightarrow> gate_env \<Rightarrow> gate_record \<Rightarrow> bool" where
  "storable h env r \<longleftrightarrow> gateRecordSchema h r \<and> gate_safe (record_json r) = Inr () \<and> iso_of_text (md_occurredAt (describe h r)) = Inr (md_occurredAt (describe h r))
     \<and> (record_tenantId r, record_projectId r) \<in> set (ge_projects env)"

definition stored_row :: "host \<Rightarrow> gate_keys \<Rightarrow> gate_record \<Rightarrow> gate_row" where
  "stored_row h k r = new_row h k r (md_occurredAt (describe h r))"

lemma stored_row_good: "storable h env r \<Longrightarrow> good_row h k (stored_row h k r) \<and> row_record (stored_row h k r) = r"
  by (simp add: good_row_def verifiedRow_Inr row_record_def stored_row_def new_row_def Let_def storable_def rowAuthMaterial_def)

lemma computed_append:
  assumes "computedTenantState h k tenantId db = Inr c" and "good_row h k row" and "gr_tenantId row = tenantId"
    and "gd_records db' = gd_records db @ [row]"
  shows "\<exists>c'. computedTenantState h k tenantId db' = Inr c' \<and> gc_recordCount c' = gc_recordCount c + 1"
proof -
  have "list_all (good_row h k) (tenant_rows tenantId (gd_records db'))"
    using assms computed_good [OF assms(1)] by (auto simp: tenant_rows_def list_all_iff)
  then have "computedTenantState h k tenantId db' = Inr \<lparr>gc_recordCount = of_nat (length (tenant_rows tenantId (gd_records db'))),
      gc_stateDigest = sha256Digest h (tenant_state_json tenantId (tenant_rows tenantId (gd_records db'))),
      gc_verified = map (\<lambda>row. (gr_kind row, row_record row)) (tenant_rows tenantId (gd_records db'))\<rparr>"
    by (simp add: computedTenantState_def Let_def verified_rows_good)
  moreover have "gc_recordCount c = of_nat (length (tenant_rows tenantId (gd_records db)))"
    using assms(1) by (auto simp: computedTenantState_def Let_def bind_result_Inr_iff)
  moreover have "length (tenant_rows tenantId (gd_records db')) = Suc (length (tenant_rows tenantId (gd_records db)))"
    using assms(3,4) by (simp add: tenant_rows_def)
  ultimately show ?thesis by simp
qed

lemma valid_gate_checkpoint:
  assumes "hex_host h k" and "length tenantId \<le> 200" and "n < 1000000"
  shows "valid_checkpoint (gate_checkpoint tenantId (of_nat (Suc n)) (of_nat n) (sha256Digest h v) (tenantStateTag k tenantId a b d))"
proof -
  have "is_safe_integer (Fin (of_nat m))" if "m \<le> 1000000" for m
    using that by (simp add: max_safe_integer_def)
  then show ?thesis using assms
    by (simp add: valid_checkpoint_def gate_checkpoint_def hex_host_def tenantStateTag_def checkpointScope_def)
qed

lemma find_updated:
  "find (\<lambda>r. f r = t) rows \<noteq> None \<Longrightarrow> f new = t \<Longrightarrow> find (\<lambda>r. f r = t) (map (\<lambda>r. if f r = t then new else r) rows) = Some new"
  by (induction rows) auto

lemma insert_record_progress:
  assumes s: "in_step h k tenantId n s" and r: "storable h env r" "record_tenantId r = tenantId" "findExisting h k r (gs_db s) = Inr None"
    and h: "hex_host h k" "length tenantId \<le> 200" "Suc n < 1000000"
  shows "\<exists>s'. insert_record h k env r s = (Inr (r, False), s') \<and> gd_records (gs_db s') = gd_records (gs_db s) @ [stored_row h k r]
     \<and> in_step h k tenantId (Suc n) s'"
proof -
  obtain row c where row: "integrity_for tenantId (gs_db s) = Some row" "computedTenantState h k tenantId (gs_db s) = Inr c"
      "integrity_matches k tenantId c row" "gi_tenantId row = tenantId" "gi_revision row = of_nat (Suc n)" "gi_recordCount row = of_nat n"
      "valid_checkpoint (integrity_checkpoint tenantId row)"
      "checkpoint_read (gs_checkpoints s) (checkpointScope tenantId) = Some (integrity_checkpoint tenantId row)"
    using s unfolding in_step_def by blast
  let ?r = "stored_row h k r"
  define s1 where "s1 = s\<lparr>gs_db := (gs_db s)\<lparr>gd_records := gd_records (gs_db s) @ [?r]\<rparr>\<rparr>"
  have good: "good_row h k ?r" and tenant: "gr_tenantId ?r = tenantId"
    using stored_row_good [OF r(1)] r(2) by (simp_all add: stored_row_def new_row_def Let_def)
  obtain c' where c': "computedTenantState h k tenantId (gs_db s1) = Inr c'" "gc_recordCount c' = of_nat (Suc n)"
    using computed_append [OF row(2) good tenant, of "gs_db s1"] row(3,6) by (auto simp: s1_def integrity_matches_def add.commute)
  obtain v where v: "gc_stateDigest c' = sha256Digest h v" using c'(1) by (auto simp: computedTenantState_def Let_def bind_result_Inr_iff)
  define row' where "row' = \<lparr>gi_tenantId = tenantId, gi_revision = of_nat (Suc (Suc n)), gi_recordCount = of_nat (Suc n),
    gi_stateDigest = gc_stateDigest c', gi_stateAuthTag = tenantStateTag k tenantId (of_nat (Suc (Suc n))) (of_nat (Suc n)) (gc_stateDigest c')\<rparr>"
  have tenant': "gi_tenantId row' = tenantId" by (simp add: row'_def)
  define s2 where "s2 = (set_integrity row' s1)\<lparr>gs_checkpoints := (gs_checkpoints s)(checkpointScope tenantId \<mapsto> integrity_checkpoint tenantId row')\<rparr>"
  have valid': "valid_checkpoint (integrity_checkpoint tenantId row')"
    using valid_gate_checkpoint [OF h, of v] v by (simp add: integrity_checkpoint_def row'_def)
  have "insert_row env ?r s = (Inr (), s1)"
    using r h by (simp add: insert_row_def s1_def stored_row_def new_row_def Let_def storable_def hex_host_def)
  moreover have "refreshTenantState h k tenantId s1 = (Inr (), s2)"
  proof -
    have "integrity_for tenantId (gs_db s1) = Some row" "gs_checkpoints s1 = gs_checkpoints s" using row(1) by (simp_all add: s1_def integrity_for_def)
    moreover have "assertCheckpoint h tenantId row (gs_checkpoints s) = Inr (integrity_checkpoint tenantId row)"
      unfolding assertCheckpoint_Inr using row(7,8) same_checkpoint_refl by blast
    moreover have "write_integrity row' s1 = (Inr (), set_integrity row' s1)"
      using h v by (simp add: write_integrity_def integrity_checks_def row'_def hex_host_def tenantStateTag_def)
    moreover have "checkpointAdvance h (integrity_checkpoint tenantId row) (integrity_checkpoint tenantId row') (set_integrity row' s1) = (Inr (), s2)"
      using row(5,7,8) valid'
      by (simp add: checkpointAdvance_def rollbackCheckpointDigestV1_def parseRollbackCheckpointV1_def checkpoint_write_def advance_def s2_def s1_def
          set_integrity_def integrity_checkpoint_def gate_checkpoint_def row'_def checkpoint_read_def successor_def num_eq_def add.commute)
    ultimately show ?thesis
      using c' row(5) by (simp add: refreshTenantState_def bind_step_def query_step_def Let_def row'_def add.commute)
  qed
  ultimately have "insert_record h k env r s = (Inr (r, False), s2)"
    using r by (simp add: insert_record_def bind_step_def query_step_def lift_step_def storable_def stored_row_def return_step_def)
  moreover have "in_step h k tenantId (Suc n) s2"
  proof -
    have "integrity_for tenantId (gs_db s2) = Some row'"
      using row(1) find_updated [of gi_tenantId tenantId "gd_integrity (gs_db s)" row'] tenant'
      by (simp add: s2_def s1_def set_integrity_def integrity_for_def)
    moreover have "computedTenantState h k tenantId (gs_db s2) = Inr c'"
      using c'(1) by (simp add: s2_def set_integrity_def computedTenantState_def)
    moreover have "integrity_matches k tenantId c' row'" using c'(2) by (simp add: integrity_matches_def row'_def)
    moreover have "checkpoint_read (gs_checkpoints s2) (checkpointScope tenantId) = Some (integrity_checkpoint tenantId row')"
      by (simp add: s2_def checkpoint_read_def)
    ultimately show ?thesis using valid' unfolding in_step_def by (auto simp: row'_def)
  qed
  moreover have "gd_records (gs_db s2) = gd_records (gs_db s) @ [?r]" by (simp add: s2_def s1_def set_integrity_def)
  ultimately show ?thesis by blast
qed


section \<open>A tenant and the records it holds\<close>

text \<open>
  The rows of the tenant, among those of all tenants, are the rows of these records, in this order, and the tenant is in step.
  Nothing is said of the rows of other tenants: they may be missing, damaged or out of step.
\<close>

definition tenant_holds :: "host \<Rightarrow> gate_keys \<Rightarrow> string \<Rightarrow> gate_record list \<Rightarrow> gate_state \<Rightarrow> bool" where
  "tenant_holds h k tenantId recs s \<longleftrightarrow> filter (\<lambda>row. gr_tenantId row = tenantId) (gd_records (gs_db s)) = map (stored_row h k) recs
     \<and> in_step h k tenantId (length recs) s
     \<and> list_all (\<lambda>r. record_tenantId r = tenantId \<and> good_row h k (stored_row h k r)) recs"

lemma stored_row_fields [simp]:
  "gr_id (stored_row h k r) = record_id r" "gr_tenantId (stored_row h k r) = record_tenantId r" "gr_projectId (stored_row h k r) = record_projectId r"
  "gr_kind (stored_row h k r) = record_kind r" "gr_recordKey (stored_row h k r) = md_recordKey (describe h r)"
  "gr_subjectId (stored_row h k r) = md_subjectId (describe h r)" "gr_parentId (stored_row h k r) = md_parentId (describe h r)"
  "row_record (stored_row h k r) = r"
  by (simp_all add: stored_row_def new_row_def Let_def row_record_def)

lemma holds_begins: "tenant_holds h k tenantId recs s \<Longrightarrow> begin_operation h k tenantId s = (Inr (), s)"
  unfolding tenant_holds_def by (blast intro: in_step_begins)

lemma holds_stored: "tenant_holds h k tenantId recs s \<Longrightarrow> set recs \<subseteq> set (stored_records s)"
proof
  fix r assume "tenant_holds h k tenantId recs s" "r \<in> set recs"
  then have "stored_row h k r \<in> set (filter (\<lambda>row. gr_tenantId row = tenantId) (gd_records (gs_db s)))" by (simp add: tenant_holds_def)
  then have "row_record (stored_row h k r) \<in> set (stored_records s)" unfolding stored_records_def set_map by (intro imageI) simp
  then show "r \<in> set (stored_records s)" by simp
qed

text \<open>A query for rows of the tenant reads the tenant's rows only.\<close>

lemma find_in_tenant: "find (\<lambda>row. f row = t \<and> Q row) rows = find (\<lambda>row. f row = t \<and> Q row) (filter (\<lambda>row. f row = t) rows)"
  by (induction rows) auto

lemma filter_in_tenant: "filter (\<lambda>row. f row = t \<and> Q row) rows = filter Q (filter (\<lambda>row. f row = t) rows)"
  by (induction rows) auto

lemma holds_other_rows:
  assumes "tenant_holds h k tenantId recs s" and "list_all (\<lambda>row. gr_tenantId row \<noteq> tenantId) rows"
  shows "tenant_holds h k tenantId recs (s\<lparr>gs_db := (gs_db s)\<lparr>gd_records := gd_records (gs_db s) @ rows\<rparr>\<rparr>)"
proof -
  have "filter (\<lambda>row. gr_tenantId row = tenantId) rows = []" using assms(2) by (simp add: filter_empty_conv list_all_iff)
  then have "computedTenantState h k tenantId ((gs_db s)\<lparr>gd_records := gd_records (gs_db s) @ rows\<rparr>) = computedTenantState h k tenantId (gs_db s)"
      "filter (\<lambda>row. gr_tenantId row = tenantId) (gd_records (gs_db s) @ rows) = filter (\<lambda>row. gr_tenantId row = tenantId) (gd_records (gs_db s))"
    by (simp_all add: computedTenantState_def tenant_rows_def)
  then show ?thesis using assms(1) by (simp add: tenant_holds_def in_step_def integrity_for_def)
qed

lemma holds_fresh:
  assumes "tenant_holds h k tenantId recs s" and "list_all (\<lambda>q. \<not> clashes h q r) recs"
    and "record_tenantId r = tenantId"
  shows "findExisting h k r (gs_db s) = Inr None"
proof -
  have "find (\<lambda>q. gr_tenantId q = record_tenantId r \<and> (gr_id q = record_id r \<or> gr_kind q = record_kind r \<and> gr_recordKey q = md_recordKey (describe h r)))
      (map (stored_row h k) recs) = None"
    using assms(2) by (auto simp: find_None_iff list_all_iff clashes_def)
  then show ?thesis using assms(1,3) unfolding findExisting_def tenant_holds_def by (subst find_in_tenant) simp
qed

lemma holds_require:
  assumes "tenant_holds h k tenantId recs s" and "r \<in> set recs" and "record_id r = i" and "record_kind r = kind"
    and one: "\<And>q. q \<in> set recs \<Longrightarrow> record_id q = i \<Longrightarrow> q = r"
  shows "requireRecord h k tenantId i kind (gs_db s) = Inr r"
proof (cases "find (\<lambda>q. gr_tenantId q = tenantId \<and> gr_id q = i \<and> gr_kind q = kind) (map (stored_row h k) recs)")
  case None
  have "stored_row h k r \<in> set (map (stored_row h k) recs)" "gr_tenantId (stored_row h k r) = tenantId"
    using assms(1,2) by (simp_all add: tenant_holds_def list_all_iff)
  then have False using None assms(3,4) unfolding find_None_iff by (metis stored_row_fields(1,4))
  then show ?thesis ..
next
  case (Some row)
  have "row \<in> set (map (stored_row h k) recs)" "gr_id row = i" using find_SomeD [OF Some] by blast+
  then obtain q where q: "q \<in> set recs" "row = stored_row h k q" "record_id q = i" using that by fastforce
  have "q = r" by (rule one [OF q(1,3)])
  moreover have "good_row h k (stored_row h k q)" using assms(1) q(1) unfolding tenant_holds_def list_all_iff by blast
  ultimately have "verifiedRow h k row = Inr r" using q(2) by (simp add: good_row_def)
  then show ?thesis using Some assms(1) unfolding requireRecord_def tenant_holds_def by (subst find_in_tenant) simp
qed

lemma holds_lists:
  assumes "tenant_holds h k tenantId recs s"
  shows "\<exists>rs. listByParent h k tenantId projectId kind i (gs_db s) = Inr rs
       \<and> set rs = {r \<in> set recs. record_projectId r = projectId \<and> record_kind r = kind \<and> md_parentId (describe h r) = Some i}"
    and "\<exists>rs. listBySubject h k tenantId projectId kind i (gs_db s) = Inr rs
       \<and> set rs = {r \<in> set recs. record_projectId r = projectId \<and> record_kind r = kind \<and> md_subjectId (describe h r) = i}"
proof -
  have rows: "filter (\<lambda>row. gr_tenantId row = tenantId \<and> Q row) (gd_records (gs_db s)) = filter Q (map (stored_row h k) recs)" for Q
    using assms unfolding filter_in_tenant by (simp add: tenant_holds_def)
  have good: "verified_rows h k (js_sort time_before (filter Q (map (stored_row h k) recs)))
      = Inr (map (\<lambda>row. (gr_kind row, row_record row)) (js_sort time_before (filter Q (map (stored_row h k) recs))))" for Q
    using assms by (intro verified_rows_good) (auto simp: list_all_iff tenant_holds_def)
  have read: "row_record ` {row \<in> stored_row h k ` set recs. Q row} = {r \<in> set recs. Q (stored_row h k r)}" for Q
    by (force simp: image_iff)
  show "\<exists>rs. listByParent h k tenantId projectId kind i (gs_db s) = Inr rs
       \<and> set rs = {r \<in> set recs. record_projectId r = projectId \<and> record_kind r = kind \<and> md_parentId (describe h r) = Some i}"
    by (simp add: listByParent_def rows good image_image read)
  show "\<exists>rs. listBySubject h k tenantId projectId kind i (gs_db s) = Inr rs
       \<and> set rs = {r \<in> set recs. record_projectId r = projectId \<and> record_kind r = kind \<and> md_subjectId (describe h r) = i}"
    by (simp add: listBySubject_def rows good image_image read)
qed

lemma holds_insert:
  assumes "tenant_holds h k tenantId recs s" and "storable h env r" and "record_tenantId r = tenantId" and "list_all (\<lambda>q. \<not> clashes h q r) recs"
    and "hex_host h k" and "length tenantId \<le> 200" and "Suc (length recs) < 1000000"
  shows "\<exists>s'. insert_record h k env r s = (Inr (r, False), s') \<and> tenant_holds h k tenantId (recs @ [r]) s'"
  using insert_record_progress [of h k tenantId "length recs" s env r] holds_fresh [OF assms(1,4,3)] stored_row_good [OF assms(2)] assms
  by (fastforce simp: tenant_holds_def)

lemma holds_require_record:
  assumes "tenant_holds h k tenantId recs s" and "distinct (map record_id recs)"
  shows "TargetRec t \<in> set recs \<Longrightarrow> requireTarget h k tenantId (qt_id t) (gs_db s) = Inr t"
    and "ProfileRec p \<in> set recs \<Longrightarrow> requireProfile h k tenantId (qp_id p) (gs_db s) = Inr p"
proof -
  have one: "q = r" if "q \<in> set recs" "r \<in> set recs" "record_id q = record_id r" for q r
    using assms(2) that unfolding distinct_map inj_on_def by blast
  show "requireTarget h k tenantId (qt_id t) (gs_db s) = Inr t" if t: "TargetRec t \<in> set recs"
  proof -
    have "requireRecord h k tenantId (qt_id t) TargetKind (gs_db s) = Inr (TargetRec t)"
      by (rule holds_require [OF assms(1) t]) (simp_all add: one [OF _ t])
    then show ?thesis by (simp add: requireTarget_def)
  qed
  show "requireProfile h k tenantId (qp_id p) (gs_db s) = Inr p" if p: "ProfileRec p \<in> set recs"
  proof -
    have "requireRecord h k tenantId (qp_id p) ProfileKind (gs_db s) = Inr (ProfileRec p)"
      by (rule holds_require [OF assms(1) p]) (simp_all add: one [OF _ p])
    then show ?thesis by (simp add: requireProfile_def)
  qed
qed

lemma holds_not_revised:
  assumes "tenant_holds h k (qt_tenantId t) recs s" and "\<not> revised recs t"
  shows "listByParent h k (qt_tenantId t) (qt_projectId t) RevisionKind (qt_id t) (gs_db s) = Inr []"
proof -
  obtain rs where rs: "listByParent h k (qt_tenantId t) (qt_projectId t) RevisionKind (qt_id t) (gs_db s) = Inr rs"
    "set rs = {r \<in> set recs. record_projectId r = qt_projectId t \<and> record_kind r = RevisionKind \<and> md_parentId (describe h r) = Some (qt_id t)}"
    using holds_lists(1) [OF assms(1)] by blast
  have "r \<notin> set rs" for r
  proof
    assume "r \<in> set rs"
    then obtain n where "RevisionRec n \<in> set recs" "qn_projectId n = qt_projectId t" "qn_fromTargetId n = qt_id t"
      unfolding rs(2) by (cases r) auto
    moreover from this have "qn_tenantId n = qt_tenantId t" using assms(1) by (auto simp: tenant_holds_def list_all_iff)
    ultimately show False using assms(2) by (auto simp: revised_def revises_def)
  qed
  then have "rs = []" by (cases rs) auto
  then show ?thesis using rs(1) by simp
qed

lemma holds_review_fresh:
  assumes held: "tenant_holds h k (qt_tenantId t) recs s" and a: "review_admitted h recs r t p"
  shows "review_fresh h k r t p (gs_db s) = Inr ()"
proof -
  note t = a [unfolded review_admitted_def target_of_review_def]
  have mine: "record_tenantId x = qt_tenantId t" if "x \<in> set recs" for x using held that by (simp add: tenant_holds_def list_all_iff)
  obtain fs where fs: "listBySubject h k (qr_tenantId r) (qr_projectId r) FindingKind (qr_targetId r) (gs_db s) = Inr fs"
    "set fs = {x \<in> set recs. record_projectId x = qr_projectId r \<and> record_kind x = FindingKind \<and> md_subjectId (describe h x) = qr_targetId r}"
    using holds_lists(2) [OF held] t by metis
  have "\<exists>f \<in> set (findings_in recs). finding_on t f" if "fs \<noteq> []"
  proof -
    from \<open>fs \<noteq> []\<close> obtain x where "x \<in> set fs" using hd_in_set by blast
    then obtain f where "FindingRec f \<in> set recs" "fg_projectId f = qr_projectId r" "fg_targetId f = qr_targetId r"
      unfolding fs(2) by (cases x) auto
    then show ?thesis using mine [of "FindingRec f"] t by (intro bexI [of _ f]) (simp_all add: finding_on_def)
  qed
  then have "\<not> (accepting (qr_decision r) \<and> fs \<noteq> [])" using t by blast
  moreover obtain es where es: "listByParent h k (qr_tenantId r) (qr_projectId r) ReviewKind (qr_targetId r) (gs_db s) = Inr es"
    "set es = {x \<in> set recs. record_projectId x = qr_projectId r \<and> record_kind x = ReviewKind \<and> md_parentId (describe h x) = Some (qr_targetId r)}"
    using holds_lists(1) [OF held] t by metis
  moreover have "assert_all_independent (map qr_reviewer (filter (\<lambda>v. qr_authority v = GateReview) (reviews_in es))) (qr_reviewer r) p = Inr ()"
    if "qr_authority r = GateReview"
    unfolding assert_all_independent_Inr
  proof
    fix q assume "q \<in> set (map qr_reviewer (filter (\<lambda>v. qr_authority v = GateReview) (reviews_in es)))"
    then obtain v where v: "ReviewRec v \<in> set es" "qr_authority v = GateReview" "q = qr_reviewer v" by auto
    then have "target_of_review t v" using mine [of "ReviewRec v"] t unfolding es(2) by (simp add: target_of_review_def)
    moreover have "v \<in> set (reviews_in recs)" using v(1) es(2) by simp
    ultimately show "independent_of (qp_reviewerSeparation p) q (qr_reviewer r)" using a v(2,3) that by (simp add: review_admitted_def)
  qed
  ultimately show ?thesis
    using fs(1) es(1) holds_not_revised [OF held] t by (simp add: review_fresh_def)
qed


section \<open>Operations that succeed\<close>

text \<open>The tenant has room for one more record, which is new and fits.\<close>

definition accepts :: "host \<Rightarrow> gate_keys \<Rightarrow> gate_env \<Rightarrow> string \<Rightarrow> gate_record list \<Rightarrow> gate_record \<Rightarrow> bool" where
  "accepts h k env tenantId recs r \<longleftrightarrow> storable h env r \<and> record_tenantId r = tenantId \<and> list_all (\<lambda>q. \<not> clashes h q r) recs
     \<and> hex_host h k \<and> length tenantId \<le> 200 \<and> Suc (length recs) < 1000000"

lemma accepts_input: "accepts h k env tenantId recs r \<Longrightarrow> parse_input h r = Inr ()"
  by (simp add: accepts_def parse_input_def storable_def)

lemma accepts_insert:
  "tenant_holds h k tenantId recs s \<Longrightarrow> accepts h k env tenantId recs r \<Longrightarrow>
     \<exists>s'. insert_record h k env r s = (Inr (r, False), s') \<and> tenant_holds h k tenantId (recs @ [r]) s'"
  unfolding accepts_def by (blast intro: holds_insert)

lemmas run_step = bind_step_def lift_step_def query_step_def check_step_def return_step_def gate_transaction_def transaction_step_def

lemma registerProfile_progress:
  assumes "tenant_holds h k (qp_tenantId p) recs s" and "accepts h k env (qp_tenantId p) recs (ProfileRec p)"
  shows "\<exists>s'. registerProfile h k env p s = (Inr (ProfileRec p, False), s') \<and> tenant_holds h k (qp_tenantId p) (recs @ [ProfileRec p]) s'"
  using accepts_insert [OF assms] holds_begins [OF assms(1)] accepts_input [OF assms(2)] assms(2)
  by (auto simp: registerProfile_def run_step requireProject_def accepts_def storable_def)

lemma registerTarget_progress:
  assumes "tenant_holds h k (qt_tenantId t) recs s" and "accepts h k env (qt_tenantId t) recs (TargetRec t)" and "distinct (map record_id recs)"
    and "ProfileRec p \<in> set recs" and "profile_of p t" and "assertTargetProfile h t p = Inr ()" and "qt_revisionNumber t = 0"
  shows "\<exists>s'. registerTarget h k env t s = (Inr (TargetRec t, False), s') \<and> tenant_holds h k (qt_tenantId t) (recs @ [TargetRec t]) s'"
  using accepts_insert [OF assms(1,2)] holds_begins [OF assms(1)] accepts_input [OF assms(2)] holds_require_record(2) [OF assms(1,3,4)] assms(5-7)
  by (auto simp: registerTarget_def run_step profile_of_def)

lemma no_findings_safe: "gate_safe (JArr []) = Inr ()"
  by (simp add: gate_safe_def assertNoSecretMaterial_def containsSecretMaterial_def)

lemma recordReview_progress:
  assumes held: "tenant_holds h k (qt_tenantId t) recs s" and acc: "accepts h k env (qt_tenantId t) recs (ReviewRec r)" and one: "distinct (map record_id recs)"
    and t: "TargetRec t \<in> set recs" and p: "ProfileRec p \<in> set recs" and a: "review_admitted h recs r t p"
    and "qr_acceptanceProfileId r = qp_id p" and "qr_findingIds r = []"
  shows "\<exists>s'. recordReview h k env r [] s = (Inr (ReviewRec r, [], False), s') \<and> tenant_holds h k (qt_tenantId t) (recs @ [ReviewRec r]) s'"
proof -
  obtain s' where s': "insert_record h k env (ReviewRec r) s = (Inr (ReviewRec r, False), s')" "tenant_holds h k (qt_tenantId t) (recs @ [ReviewRec r]) s'"
    using accepts_insert [OF held acc] by blast
  have ids: "qr_tenantId r = qt_tenantId t" "qr_projectId r = qt_projectId t" "qr_targetId r = qt_id t" "qt_acceptanceProfileId t = qp_id p"
    using a by (simp_all add: review_admitted_def target_of_review_def profile_of_def)
  have "assertIndependent (qt_producer t) (qr_reviewer r) p = Inr ()" if "qr_authority r = GateReview"
    unfolding assertIndependent_Inr using a that by (simp add: review_admitted_def)
  then have "review_admissible h r [] t p = Inr ()"
    using a ids assms(7) by (simp add: review_admissible_def assertReviewBindings_def review_admitted_def)
  moreover have "findExisting h k (ReviewRec r) (gs_db s) = Inr None" using holds_fresh [OF held] acc by (simp add: accepts_def)
  moreover have "completionReviewSchemaV1 h r" "gate_safe (review_json r) = Inr ()" using acc by (simp_all add: accepts_def storable_def)
  ultimately show ?thesis
    using s' ids assms(8) holds_begins [OF held] holds_require_record(1) [OF held one t] holds_require_record(2) [OF held one p] holds_review_fresh [OF held a]
    by (simp add: recordReview_def run_step exactSorted_def no_findings_safe)
qed

lemma recordVerification_progress:
  assumes held: "tenant_holds h k (qt_tenantId t) recs s" and acc: "accepts h k env (qt_tenantId t) recs (VerificationRec v)" and one: "distinct (map record_id recs)"
    and t: "TargetRec t \<in> set recs" and p: "ProfileRec p \<in> set recs" and a: "verification_admitted h recs v t p"
    and "verification_admissible h v t p = Inr ()"
  shows "\<exists>s'. recordVerification h k env v s = (Inr (VerificationRec v, False), s')
     \<and> tenant_holds h k (qt_tenantId t) (recs @ [VerificationRec v]) s'"
proof -
  obtain s' where s': "insert_record h k env (VerificationRec v) s = (Inr (VerificationRec v, False), s')"
    "tenant_holds h k (qt_tenantId t) (recs @ [VerificationRec v]) s'"
    using accepts_insert [OF held acc] by blast
  have ids: "qv_tenantId v = qt_tenantId t" "qv_targetId v = qt_id t" "qt_acceptanceProfileId t = qp_id p" "\<not> revised recs t"
    using a by (simp_all add: verification_admitted_def target_of_verification_def profile_of_def)
  moreover have "findExisting h k (VerificationRec v) (gs_db s) = Inr None" using holds_fresh [OF held] acc by (simp add: accepts_def)
  ultimately show ?thesis
    using s' assms(7) accepts_input [OF acc] holds_begins [OF held] holds_require_record(1) [OF held one t] holds_require_record(2) [OF held one p]
      holds_not_revised [OF held]
    by (simp add: recordVerification_def run_step)
qed

lemma provisioned_holds:
  assumes "hex_host h k" and "length tenantId \<le> 200" and "tenantId \<in> set (ge_tenants env)"
  shows "tenant_holds h k tenantId [] (snd (provisionTenant h k env tenantId empty_gate))"
proof -
  define row where "row = genesis_row h k tenantId"
  have "valid_checkpoint (integrity_checkpoint tenantId row)"
    using valid_gate_checkpoint [OF assms(1,2), of 0] by (simp add: integrity_checkpoint_def row_def genesis_row_def Let_def)
  moreover have "integrity_checks row" using assms(1) by (simp add: integrity_checks_def row_def genesis_row_def Let_def hex_host_def tenantStateTag_def)
  ultimately show ?thesis using assms(3)
    by (simp add: provisionTenant_def run_step empty_gate_def computedTenantState_def tenant_rows_def insert_integrity_def checkpoint_write_def initialize_def
        parseRollbackCheckpointV1_def checkpoint_read_def integrity_for_def tenant_holds_def in_step_def integrity_matches_def row_def genesis_row_def Let_def
        integrity_checkpoint_def gate_checkpoint_def num_eq_def)
qed


section \<open>Readiness\<close>

lemma verdict_is_ready:
  assumes "findings = []" and "\<not> superseded" and "\<forall>v \<in> set verifications. qv_outcome v = VerificationPassed"
    and "\<forall>i \<in> set (qp_requiredVerificationScenarioIds p). \<exists>v \<in> set verifications. qv_scenarioId v = i \<and> qv_outcome v = VerificationPassed"
    and "qp_minimumIndependentReviews p \<le> of_nat (card (qr_id ` {r \<in> set reviews. qr_authority r = GateReview \<and> accepting (qr_decision r)}))"
  shows "gv_status (gate_verdict h t p reviews verifications findings superseded) = GateReady"
proof -
  let ?accepted = "map qr_id (filter (\<lambda>r. qr_authority r = GateReview \<and> accepting (qr_decision r)) reviews)"
  have "set ?accepted = qr_id ` {r \<in> set reviews. qr_authority r = GateReview \<and> accepting (qr_decision r)}" by auto
  then have "qp_minimumIndependentReviews p \<le> of_nat (length (sort (remdups ?accepted)))" using assms(5) by (simp add: length_remdups_card_conv)
  moreover have "filter (\<lambda>s. s \<notin> set (map qv_scenarioId (filter (\<lambda>v. qv_outcome v = VerificationPassed) verifications))) (qp_requiredVerificationScenarioIds p) = []"
    using assms(4) unfolding filter_empty_conv by fastforce
  ultimately show ?thesis using assms(1-3) by (simp add: gate_verdict_def Let_def list_ex_iff)
qed

lemma target_ready:
  assumes held: "tenant_holds h k (qt_tenantId t) recs s" and one: "distinct (map record_id recs)"
    and t: "TargetRec t \<in> set recs" and p: "ProfileRec p \<in> set recs" "profile_of p t"
    and reviews: "qp_minimumIndependentReviews p \<le> of_nat (card (qr_id ` set (accepted_reviews recs t)))"
    and scenarios: "\<forall>i \<in> set (qp_requiredVerificationScenarioIds p). \<exists>v \<in> set (verifications_in recs). target_of_verification t v \<and> qv_scenarioId v = i"
    and passed: "\<forall>v \<in> set (verifications_in recs). target_of_verification t v \<longrightarrow> qv_outcome v = VerificationPassed"
    and unopposed: "\<forall>f \<in> set (findings_in recs). \<not> finding_on t f" "\<not> revised recs t"
  shows "\<exists>v. snapshot h k (qt_tenantId t) (qt_id t) s = Inr v \<and> gv_target v = t \<and> gv_status v = GateReady"
proof -
  have mine: "record_tenantId x = qt_tenantId t" if "x \<in> set recs" for x using held that by (simp add: tenant_holds_def list_all_iff)
  obtain verified where verified: "lockAndVerifyTenantState h k (qt_tenantId t) s = Inr verified"
    using in_step_verifies [of h k "qt_tenantId t" "length recs" s] held unfolding tenant_holds_def by blast
  obtain rs where rs: "listByParent h k (qt_tenantId t) (qt_projectId t) ReviewKind (qt_id t) (gs_db s) = Inr rs"
    "set rs = {x \<in> set recs. record_projectId x = qt_projectId t \<and> record_kind x = ReviewKind \<and> md_parentId (describe h x) = Some (qt_id t)}"
    using holds_lists(1) [OF held] by blast
  obtain vs where vs: "listByParent h k (qt_tenantId t) (qt_projectId t) VerificationKind (qt_id t) (gs_db s) = Inr vs"
    "set vs = {x \<in> set recs. record_projectId x = qt_projectId t \<and> record_kind x = VerificationKind \<and> md_parentId (describe h x) = Some (qt_id t)}"
    using holds_lists(1) [OF held] by blast
  obtain fs where fs: "listBySubject h k (qt_tenantId t) (qt_projectId t) FindingKind (qt_id t) (gs_db s) = Inr fs"
    "set fs = {x \<in> set recs. record_projectId x = qt_projectId t \<and> record_kind x = FindingKind \<and> md_subjectId (describe h x) = qt_id t}"
    using holds_lists(2) [OF held] by blast
  have "r \<in> set (reviews_in rs) \<longleftrightarrow> ReviewRec r \<in> set recs \<and> target_of_review t r" for r
    using mine [of "ReviewRec r"] unfolding in_record_lists rs(2) by (auto simp: target_of_review_def)
  then have acc: "{r \<in> set (reviews_in rs). qr_authority r = GateReview \<and> accepting (qr_decision r)} = set (accepted_reviews recs t)"
    unfolding accepted_reviews_def by auto
  have ver: "v \<in> set (verifications_in vs) \<longleftrightarrow> VerificationRec v \<in> set recs \<and> target_of_verification t v" for v
    using mine [of "VerificationRec v"] unfolding in_record_lists vs(2) by (auto simp: target_of_verification_def)
  have "f \<notin> set (findings_in fs)" for f
    using mine [of "FindingRec f"] unopposed(1) [rule_format, of f] unfolding in_record_lists fs(2) by (auto simp: finding_on_def)
  then have none: "findings_in fs = []" by (cases "findings_in fs") auto
  let ?v = "gate_verdict h t p (reviews_in rs) (verifications_in vs) (findings_in fs) False"
  have "\<forall>v \<in> set (verifications_in vs). qv_outcome v = VerificationPassed"
    "\<forall>i \<in> set (qp_requiredVerificationScenarioIds p). \<exists>v \<in> set (verifications_in vs). qv_scenarioId v = i \<and> qv_outcome v = VerificationPassed"
    using scenarios passed ver in_record_lists(4) by blast+
  then have "gv_status ?v = GateReady" by (intro verdict_is_ready) (use reviews [folded acc] in \<open>simp_all add: none\<close>)
  moreover have "snapshot h k (qt_tenantId t) (qt_id t) s = Inr ?v"
    using verified holds_require_record(1) [OF held one t] holds_require_record(2) [OF held one p(1)] p(2) rs(1) vs(1) fs(1) holds_not_revised [OF held unopposed(2)]
    by (simp add: snapshot_def snapshotWith_def profile_of_def)
  ultimately show ?thesis by (auto simp: gate_verdict_def Let_def)
qed


section \<open>A sample tenant\<close>

definition gate_time :: string where "gate_time = ''2025-06-01T00:10:00.000Z''"

definition sample_keys :: gate_keys where
  "sample_keys = \<lparr>gk_integrityKey = replicate 32 CHR ''k'', gk_hmac = (\<lambda>key t. replicate 64 CHR ''0'')\<rparr>"

definition sample_env :: gate_env where
  "sample_env = \<lparr>ge_tenants = [''tenant:1''], ge_projects = [(''tenant:1'', ''project:1'')], ge_effect = (\<lambda>t i. None), ge_policy = (\<lambda>t i. None),
     ge_grants = (\<lambda>t i. []), ge_now = gate_time\<rparr>"

definition sample_actor :: "string \<Rightarrow> gate_principal" where
  "sample_actor i = \<lparr>cp_actorId = i, cp_actorType = Human, cp_workerId = None, cp_agentProfileId = None, cp_harness = None, cp_adapterId = None,
     cp_modelFamily = None\<rparr>"

definition sample_profile :: acceptance_profile where
  "sample_profile = \<lparr>qp_id = ''profile:1'', qp_tenantId = ''tenant:1'', qp_projectId = ''project:1'', qp_name = ''Code'', qp_targetKind = CodeTarget,
     qp_requiredVerificationScenarioIds = [''scenario:1''], qp_minimumIndependentReviews = 1,
     qp_reviewerSeparation = \<lparr>sep_actor = True, sep_worker = False, sep_agentProfile = False, sep_harness = False, sep_modelFamily = False\<rparr>,
     qp_verificationRequiresProducerSeparation = True, qp_minimumRisk = Low, qp_maximumRevisionRounds = 3, qp_automaticLowRiskDisposition = False,
     qp_createdBy = sample_actor ''actor:1'', qp_createdAt = gate_time\<rparr>"

definition sample_target :: review_target where
  "sample_target = \<lparr>qt_id = ''target:1'', qt_tenantId = ''tenant:1'', qt_projectId = ''project:1'', qt_kind = CodeTarget, qt_subjectId = ''subject:1'',
     qt_subjectDigest = d0, qt_acceptanceProfileId = ''profile:1'', qt_acceptanceProfileDigest = d0, qt_producer = sample_actor ''actor:1'',
     qt_rootTargetId = ''target:1'', qt_revisionNumber = 0, qt_supersedesTargetId = None, qt_submittedAt = gate_time\<rparr>"

definition sample_review :: gate_review where
  "sample_review = \<lparr>qr_id = ''review:1'', qr_tenantId = ''tenant:1'', qr_projectId = ''project:1'', qr_targetId = ''target:1'', qr_targetDigest = d0,
     qr_acceptanceProfileId = ''profile:1'', qr_acceptanceProfileDigest = d0, qr_reviewer = sample_actor ''actor:2'', qr_authority = GateReview,
     qr_decision = ReviewAccepted, qr_assessedRisk = Low, qr_effectiveRisk = Low, qr_evidenceDigests = [d0], qr_findingIds = [], qr_exceptions = None,
     qr_reviewedAt = gate_time\<rparr>"

definition sample_verification :: gate_verification where
  "sample_verification = \<lparr>qv_id = ''verification:1'', qv_tenantId = ''tenant:1'', qv_projectId = ''project:1'', qv_targetId = ''target:1'',
     qv_targetDigest = d0, qv_acceptanceProfileId = ''profile:1'', qv_acceptanceProfileDigest = d0, qv_scenarioId = ''scenario:1'',
     qv_outcome = VerificationPassed, qv_verifier = sample_actor ''actor:2'', qv_evidenceDigests = [d0], qv_verifiedAt = gate_time\<rparr>"

lemma gate_time_facts [simp]:
  "date_parse gate_time = Some 1748736600000" "to_iso 1748736600000 = Some gate_time" "isoDate sample_host gate_time" "iso_of_text gate_time = Inr gate_time"
proof -
  show d: "date_parse gate_time = Some 1748736600000" "to_iso 1748736600000 = Some gate_time" by (simp_all add: gate_time_def date_eval)
  show "isoDate sample_host gate_time" "iso_of_text gate_time = Inr gate_time" by (simp_all add: isoDate_def sample_host_def iso_of_text_def d)
qed

lemma gate_ids_safe [simp]:
  "list_all safeId [''tenant:1'', ''project:1'', ''profile:1'', ''target:1'', ''subject:1'', ''review:1'', ''verification:1'', ''scenario:1'', ''actor:1'', ''actor:2'']"
  by (simp add: id_eval)

lemma gate_texts_clean:
  "list_all (\<lambda>t. \<not> secret_text t) [COMPLETION_GATE_SCHEMA_VERSION_V1, gate_time, d0, ''tenant:1'', ''project:1'', ''profile:1'', ''target:1'', ''subject:1'', ''review:1'',
     ''verification:1'', ''scenario:1'', ''actor:1'', ''actor:2'', ''Code'', ''code'', ''low'', ''human'', ''completion_gate'', ''accepted'', ''passed'']"
  by (rule plain_texts_clean) code_simp

lemma gate_names_clean:
  "list_all (\<lambda>k. \<not> keyCarriesSecret k) [''schemaVersion'', ''id'', ''tenantId'', ''projectId'', ''name'', ''targetKind'', ''requiredVerificationScenarioIds'',
     ''minimumIndependentReviews'', ''reviewerSeparation'', ''verificationRequiresProducerSeparation'', ''minimumRisk'', ''maximumRevisionRounds'',
     ''automaticLowRiskDisposition'', ''createdBy'', ''createdAt'', ''actor'', ''worker'', ''agentProfile'', ''harness'', ''modelFamily'', ''actorId'', ''actorType'',
     ''kind'', ''subjectId'', ''subjectDigest'', ''acceptanceProfileId'', ''acceptanceProfileDigest'', ''producer'', ''rootTargetId'', ''revisionNumber'', ''submittedAt'',
     ''targetId'', ''targetDigest'', ''reviewer'', ''authority'', ''decision'', ''assessedRisk'', ''effectiveRisk'', ''evidenceDigests'', ''findingIds'', ''reviewedAt'',
     ''grantsApproval'', ''grantsExecutionAuthority'', ''scenarioId'', ''outcome'', ''verifier'', ''verifiedAt'']"
  by (rule plain_keys_clean) code_simp

lemmas gate_samples = sample_profile_def sample_target_def sample_review_def sample_verification_def sample_actor_def sample_env_def

lemma sample_records_safe:
  "gate_safe (profile_json sample_profile) = Inr ()" "gate_safe (review_target_json sample_target) = Inr ()"
  "gate_safe (review_json sample_review) = Inr ()" "gate_safe (verification_json sample_verification) = Inr ()"
  using gate_texts_clean gate_names_clean
  by (simp_all add: gate_safe_def assertNoSecretMaterial_def containsSecretMaterial_def gate_samples profile_json_def review_target_json_def review_json_def verification_json_def
      gate_header_def no_grants_def principal_json_def separation_json_def str_array_def opt_field_def)

lemma sample_hex: "hex_host sample_host sample_keys"
  by (simp add: hex_host_def gate_tag_def sample_keys_def hmac_pattern_def is_hex_def is_digit_def less_eq_char_def list_all_iff)

lemma sample_schemas:
  "gateRecordSchema sample_host (ProfileRec sample_profile)" "gateRecordSchema sample_host (TargetRec sample_target)"
  "gateRecordSchema sample_host (ReviewRec sample_review)" "gateRecordSchema sample_host (VerificationRec sample_verification)"
  using gate_ids_safe
  by (simp_all add: completionAcceptanceProfileSchemaV1_def completionReviewTargetSchemaV1_def completionReviewSchemaV1_def completionVerificationSchemaV1_def
      gate_samples gate_ids_def completionPrincipalSchemaV1_def uniqueSorted_def int_between_def z_int_def gateLabel_def text_between_def accepting_def
      is_alnum_def is_lower_def is_upper_def is_digit_def less_eq_char_def)

lemma sample_storable:
  "storable sample_host sample_env (ProfileRec sample_profile)" "storable sample_host sample_env (TargetRec sample_target)"
  "storable sample_host sample_env (ReviewRec sample_review)" "storable sample_host sample_env (VerificationRec sample_verification)"
  using sample_records_safe sample_schemas by (simp_all add: storable_def, simp_all add: gate_samples)

definition sample_commands :: "gate_command list" where
  "sample_commands = [ProvisionTenant sample_env ''tenant:1'', RegisterProfile sample_env sample_profile, RegisterTarget sample_env sample_target,
     RecordReview sample_env sample_review [], RecordVerification sample_env sample_verification]"

definition sample_log :: "gate_record list" where
  "sample_log = [ProfileRec sample_profile, TargetRec sample_target, ReviewRec sample_review, VerificationRec sample_verification]"

lemma gate_log_steps:
  assumes "tenant_holds sample_host sample_keys ''tenant:1'' recs s"
  shows "recs = [] \<Longrightarrow> tenant_holds sample_host sample_keys ''tenant:1'' [ProfileRec sample_profile] (snd (registerProfile sample_host sample_keys sample_env sample_profile s))"
    and "recs = [ProfileRec sample_profile] \<Longrightarrow>
      tenant_holds sample_host sample_keys ''tenant:1'' (recs @ [TargetRec sample_target]) (snd (registerTarget sample_host sample_keys sample_env sample_target s))"
    and "recs = [ProfileRec sample_profile, TargetRec sample_target] \<Longrightarrow>
      tenant_holds sample_host sample_keys ''tenant:1'' (recs @ [ReviewRec sample_review]) (snd (recordReview sample_host sample_keys sample_env sample_review [] s))"
    and "recs = [ProfileRec sample_profile, TargetRec sample_target, ReviewRec sample_review] \<Longrightarrow>
      tenant_holds sample_host sample_keys ''tenant:1'' (recs @ [VerificationRec sample_verification])
        (snd (recordVerification sample_host sample_keys sample_env sample_verification s))"
proof -
  have tenant: "qp_tenantId sample_profile = ''tenant:1''" "qt_tenantId sample_target = ''tenant:1''" by (simp_all add: gate_samples)
  have acc: "accepts sample_host sample_keys sample_env ''tenant:1'' recs r"
    if "storable sample_host sample_env r" "record_tenantId r = ''tenant:1''" "list_all (\<lambda>q. \<not> clashes sample_host q r) recs" "length recs < 10" for recs r
    using that sample_hex by (simp add: accepts_def)
  show "tenant_holds sample_host sample_keys ''tenant:1'' [ProfileRec sample_profile] (snd (registerProfile sample_host sample_keys sample_env sample_profile s))"
    if "recs = []"
    using registerProfile_progress [of sample_host sample_keys sample_profile "[]" s sample_env] acc [OF sample_storable(1), of "[]"] assms that tenant by auto
  show "tenant_holds sample_host sample_keys ''tenant:1'' (recs @ [TargetRec sample_target]) (snd (registerTarget sample_host sample_keys sample_env sample_target s))"
    if r: "recs = [ProfileRec sample_profile]"
  proof -
    have "accepts sample_host sample_keys sample_env ''tenant:1'' recs (TargetRec sample_target)"
      by (rule acc [OF sample_storable(2)]) (simp_all add: r tenant clashes_def, simp_all add: gate_samples)
    moreover have "profile_of sample_profile sample_target" "assertTargetProfile sample_host sample_target sample_profile = Inr ()" "qt_revisionNumber sample_target = 0"
      by (simp_all add: profile_of_def assertTargetProfile_def) (simp_all add: gate_samples)
    ultimately show ?thesis
      using registerTarget_progress [of sample_host sample_keys sample_target recs s sample_env sample_profile] assms r tenant by auto
  qed
  show "tenant_holds sample_host sample_keys ''tenant:1'' (recs @ [ReviewRec sample_review]) (snd (recordReview sample_host sample_keys sample_env sample_review [] s))"
    if r: "recs = [ProfileRec sample_profile, TargetRec sample_target]"
  proof -
    have "accepts sample_host sample_keys sample_env ''tenant:1'' recs (ReviewRec sample_review)"
      by (rule acc [OF sample_storable(3)]) (simp_all add: r clashes_def, simp_all add: gate_samples)
    moreover have "review_admitted sample_host recs sample_review sample_target sample_profile" "distinct (map record_id recs)"
      "qr_acceptanceProfileId sample_review = qp_id sample_profile" "qr_findingIds sample_review = []"
      by (simp_all add: r review_admitted_def revised_def revisions_in_def findings_in_def reviews_in_def)
        (simp_all add: gate_samples target_of_review_def profile_of_def expected_risk_def independent_of_def)
    ultimately show ?thesis
      using recordReview_progress [of sample_host sample_keys sample_target recs s sample_env sample_review sample_profile] assms r tenant by auto
  qed
  show "tenant_holds sample_host sample_keys ''tenant:1'' (recs @ [VerificationRec sample_verification])
      (snd (recordVerification sample_host sample_keys sample_env sample_verification s))"
    if r: "recs = [ProfileRec sample_profile, TargetRec sample_target, ReviewRec sample_review]"
  proof -
    have "accepts sample_host sample_keys sample_env ''tenant:1'' recs (VerificationRec sample_verification)"
      by (rule acc [OF sample_storable(4)]) (simp_all add: r clashes_def, simp_all add: gate_samples)
    moreover have "verification_admitted sample_host recs sample_verification sample_target sample_profile" "distinct (map record_id recs)"
      "verification_admissible sample_host sample_verification sample_target sample_profile = Inr ()"
      by (simp_all add: r verification_admitted_def verification_admissible_def revised_def revisions_in_def)
        (simp_all add: gate_samples target_of_verification_def profile_of_def)
    ultimately show ?thesis
      using recordVerification_progress [of sample_host sample_keys sample_target recs s sample_env sample_verification sample_profile] assms r tenant by auto
  qed
qed

lemma sample_run: "tenant_holds sample_host sample_keys ''tenant:1'' sample_log (run_gate sample_host sample_keys sample_commands)"
proof -
  have "tenant_holds sample_host sample_keys ''tenant:1'' [] (snd (provisionTenant sample_host sample_keys sample_env ''tenant:1'' empty_gate))"
    by (rule provisioned_holds [OF sample_hex]) (simp_all add: sample_env_def)
  from gate_log_steps(4) [OF gate_log_steps(3) [OF gate_log_steps(2) [OF gate_log_steps(1) [OF this refl] refl], simplified], simplified]
  show ?thesis by (simp add: run_gate_def sample_commands_def sample_log_def)
qed

lemma sample_log_ready:
  "distinct (map record_id sample_log)" "qp_minimumIndependentReviews sample_profile \<le> of_nat (card (qr_id ` set (accepted_reviews sample_log sample_target)))"
  "\<forall>i \<in> set (qp_requiredVerificationScenarioIds sample_profile). \<exists>v \<in> set (verifications_in sample_log). target_of_verification sample_target v \<and> qv_scenarioId v = i"
  "\<forall>v \<in> set (verifications_in sample_log). target_of_verification sample_target v \<longrightarrow> qv_outcome v = VerificationPassed"
  "\<forall>f \<in> set (findings_in sample_log). \<not> finding_on sample_target f" "\<not> revised sample_log sample_target"
  by (simp_all add: sample_log_def accepted_reviews_def reviews_in_def verifications_in_def findings_in_def revised_def revisions_in_def accepting_def)
    (simp_all add: gate_samples target_of_review_def target_of_verification_def)

text \<open>
  C19. A target that has been accepted and verified is reported ready. Let the tenant's rows be those of some records with different
  identifiers, and its integrity row and its checkpoint describe exactly them, whatever rows, integrity rows and checkpoints other
  tenants have. If among these records the profile's minimum of gate reviews accepts the target, every required scenario has a
  verification, every verification of the target passed, no finding is open on it and no revision replaces it, then the
  snapshot of the target succeeds and says ready.
\<close>

theorem accepted_target_is_ready:
  assumes held: "tenant_holds h k (qt_tenantId t) recs s" and one: "distinct (map record_id recs)"
    and t: "TargetRec t \<in> set recs" and p: "ProfileRec p \<in> set recs" "profile_of p t"
    and reviews: "qp_minimumIndependentReviews p \<le> of_nat (card (qr_id ` set (accepted_reviews recs t)))"
    and scenarios: "\<forall>i \<in> set (qp_requiredVerificationScenarioIds p). \<exists>v \<in> set (verifications_in recs). target_of_verification t v \<and> qv_scenarioId v = i"
    and passed: "\<forall>v \<in> set (verifications_in recs). target_of_verification t v \<longrightarrow> qv_outcome v = VerificationPassed"
    and unopposed: "\<forall>f \<in> set (findings_in recs). \<not> finding_on t f" "\<not> revised recs t"
  shows "\<exists>v. snapshot h k (qt_tenantId t) (qt_id t) s = Inr v \<and> gv_target v = t \<and> gv_status v = GateReady"
  by (rule target_ready [OF assms])

text \<open>The sample tenant beside a row of another tenant that has the same identifiers and is not authentic.\<close>

definition shared_gate :: gate_state where
  "shared_gate = (let s = run_gate sample_host sample_keys sample_commands in
     s\<lparr>gs_db := (gs_db s)\<lparr>gd_records := gd_records (gs_db s) @ [(stored_row sample_host sample_keys (TargetRec sample_target))\<lparr>gr_tenantId := ''tenant:2'', gr_payload := None\<rparr>]\<rparr>\<rparr>)"

theorem accepted_target_is_ready_witness:
  "\<exists>v. snapshot sample_host sample_keys ''tenant:1'' ''target:1'' shared_gate = Inr v \<and> gv_status v = GateReady"
proof -
  have t: "qt_tenantId sample_target = ''tenant:1''" "qt_id sample_target = ''target:1''" "profile_of sample_profile sample_target"
    by (simp_all add: gate_samples profile_of_def)
  have "tenant_holds sample_host sample_keys ''tenant:1'' sample_log shared_gate"
    unfolding shared_gate_def Let_def by (rule holds_other_rows [OF sample_run]) simp
  from accepted_target_is_ready [of sample_host sample_keys sample_target sample_log shared_gate sample_profile,
      unfolded t(1,2), OF this sample_log_ready(1) _ _ t(3) sample_log_ready(2-)]
  show ?thesis by (auto simp: sample_log_def)
qed

lemma sample_verdict:
  "\<exists>v. snapshot sample_host sample_keys ''tenant:1'' ''target:1'' (run_gate sample_host sample_keys sample_commands) = Inr v \<and> gv_status v = GateReady"
proof -
  have t: "qt_tenantId sample_target = ''tenant:1''" "qt_id sample_target = ''target:1''" "profile_of sample_profile sample_target"
    by (simp_all add: gate_samples profile_of_def)
  from target_ready [of sample_host sample_keys sample_target sample_log "run_gate sample_host sample_keys sample_commands" sample_profile,
      unfolded t(1,2), OF sample_run sample_log_ready(1) _ _ t(3) sample_log_ready(2-)]
  show ?thesis by (auto simp: sample_log_def)
qed

end
