(* ===== verification/Completion_Guarantees.thy ===== *)
theory Completion_Guarantees
  imports Completion_Progress
begin

text \<open>
  What the completion gate store guarantees. The store refines the log of \<open>Completion_Log\<close>, so what holds of every admitted
  log holds of its verdicts: a target that is reported ready was accepted by enough independent reviewers and verified, and the
  revisions of a subject are consecutive and bounded. A database that was replaced by an earlier one is
  refused once the checkpoint has moved on. Reading many targets at once gives the verdicts that reading them one by one gives.
\<close>

section \<open>Ready means independently accepted and verified\<close>

lemma revision_kind: "record_kind r = RevisionKind \<longleftrightarrow> (\<exists>n. r = RevisionRec n)"
  by (cases r) auto

lemma snapshot_Inr:
  assumes "snapshot h k tenantId targetId s = Inr v" and "gate_inv h k s"
  obtains t p reviews verifications findings superseded where
    "TargetRec t \<in> set (stored_records s)" "qt_tenantId t = tenantId" "qt_id t = targetId" "ProfileRec p \<in> set (stored_records s)" "profile_of p t"
    "v = gate_verdict h t p reviews verifications findings superseded"
    "set reviews = {r. ReviewRec r \<in> set (stored_records s) \<and> target_of_review t r}"
    "set verifications = {x. VerificationRec x \<in> set (stored_records s) \<and> target_of_verification t x}"
    "set findings = {f. FindingRec f \<in> set (stored_records s) \<and> finding_on t f}"
    "superseded = revised (stored_records s) t"
proof -
  obtain t p rs vs fs ns where t: "requireTarget h k tenantId targetId (gs_db s) = Inr t"
      and p: "requireProfile h k tenantId (qt_acceptanceProfileId t) (gs_db s) = Inr p"
      and rs: "listByParent h k tenantId (qt_projectId t) ReviewKind (qt_id t) (gs_db s) = Inr rs"
      and vs: "listByParent h k tenantId (qt_projectId t) VerificationKind (qt_id t) (gs_db s) = Inr vs"
      and fs: "listBySubject h k tenantId (qt_projectId t) FindingKind (qt_id t) (gs_db s) = Inr fs"
      and ns: "listByParent h k tenantId (qt_projectId t) RevisionKind (qt_id t) (gs_db s) = Inr ns"
      and v: "v = gate_verdict h t p (reviews_in rs) (verifications_in vs) (findings_in fs) (ns \<noteq> [])"
    using assms(1) by (auto simp: snapshot_def snapshotWith_def bind_result_Inr_iff)
  note t' = requireTarget_Inr [OF t] and p' = requireProfile_Inr [OF p]
  have "set (reviews_in rs) = {r. ReviewRec r \<in> set (stored_records s) \<and> target_of_review t r}"
    by (intro set_eqI, unfold in_record_lists mem_Collect_eq listByParent_Inr [OF rs assms(2)]) (use t' in \<open>auto simp: target_of_review_def\<close>)
  moreover have "set (verifications_in vs) = {x. VerificationRec x \<in> set (stored_records s) \<and> target_of_verification t x}"
    by (intro set_eqI, unfold in_record_lists mem_Collect_eq listByParent_Inr [OF vs assms(2)]) (use t' in \<open>auto simp: target_of_verification_def\<close>)
  moreover have "set (findings_in fs) = {f. FindingRec f \<in> set (stored_records s) \<and> finding_on t f}"
    by (intro set_eqI, unfold in_record_lists mem_Collect_eq listBySubject_Inr [OF fs assms(2)]) (use t' in \<open>auto simp: finding_on_def\<close>)
  moreover have "(ns \<noteq> []) = revised (stored_records s) t"
  proof -
    have on: "RevisionRec n \<in> set ns \<longleftrightarrow> RevisionRec n \<in> set (stored_records s) \<and> revises n t" for n
      unfolding listByParent_Inr [OF ns assms(2)] using t' by (auto simp: revises_def)
    have "r \<in> set ns \<Longrightarrow> \<exists>n. r = RevisionRec n" for r
      unfolding listByParent_Inr [OF ns assms(2)] revision_kind by blast
    then have "ns \<noteq> [] \<longleftrightarrow> (\<exists>n. RevisionRec n \<in> set ns)" by (cases ns) auto
    also have "\<dots> \<longleftrightarrow> (\<exists>n. RevisionRec n \<in> set (stored_records s) \<and> revises n t)" using on by blast
    finally show ?thesis by (auto simp: revised_def)
  qed
  ultimately show thesis using that [of t p "reviews_in rs" "verifications_in vs" "findings_in fs" "ns \<noteq> []"] t' p' v by (simp add: profile_of_def)
qed


lemma verdict_ready:
  assumes "gv_status (gate_verdict h t p reviews verifications findings superseded) = GateReady"
  shows "\<not> superseded" and "findings = []"
    and "v \<in> set verifications \<Longrightarrow> qv_scenarioId v \<in> set (qp_requiredVerificationScenarioIds p) \<Longrightarrow> qv_outcome v = VerificationPassed"
    and "i \<in> set (qp_requiredVerificationScenarioIds p) \<Longrightarrow> \<exists>v \<in> set verifications. qv_scenarioId v = i \<and> qv_outcome v = VerificationPassed"
    and "qp_minimumIndependentReviews p \<le> of_nat (card (qr_id ` {r \<in> set reviews. qr_authority r = GateReview \<and> accepting (qr_decision r)}))"
proof -
  let ?accepted = "map qr_id (filter (\<lambda>r. qr_authority r = GateReview \<and> accepting (qr_decision r)) reviews)"
  have "length (sort (remdups ?accepted)) = card (set ?accepted)" by (simp add: length_remdups_card_conv)
  moreover have "set ?accepted = qr_id ` {r \<in> set reviews. qr_authority r = GateReview \<and> accepting (qr_decision r)}" by auto
  ultimately show "qp_minimumIndependentReviews p \<le> of_nat (card (qr_id ` {r \<in> set reviews. qr_authority r = GateReview \<and> accepting (qr_decision r)}))"
    using assms by (simp add: gate_verdict_def Let_def split: if_splits)
  show "\<not> superseded" using assms by (simp add: gate_verdict_def Let_def split: if_splits)
  have "sort (map fg_id findings) = []" using assms by (simp add: gate_verdict_def Let_def split: if_splits)
  then show "findings = []" by (metis length_0_conv length_map length_sort)
  show "v \<in> set verifications \<Longrightarrow> qv_scenarioId v \<in> set (qp_requiredVerificationScenarioIds p) \<Longrightarrow> qv_outcome v = VerificationPassed"
    using assms by (auto simp: gate_verdict_def Let_def list_ex_iff split: if_splits)
  show "i \<in> set (qp_requiredVerificationScenarioIds p) \<Longrightarrow> \<exists>v \<in> set verifications. qv_scenarioId v = i \<and> qv_outcome v = VerificationPassed"
    using assms by (auto simp: gate_verdict_def Let_def filter_empty_conv split: if_splits)
qed

text \<open>
  C2. A target is reported ready only when it was accepted independently and verified. After any sequence of operations, if
  the snapshot of a target says ready, then the target and its acceptance profile are recorded, at least the profile's minimum of
  different actors (and so at least one) accepted exactly this target under exactly this profile, none of them is the
  producer, and each is independent of the producer on every axis the profile separates; every required scenario
  passed, none of its verifications says otherwise, and by someone other than the producer where the profile asks for it; no
  finding is open and no revision supersedes the target.
\<close>

theorem ready_means_independently_accepted:
  assumes "snapshot h k tenantId targetId (run_gate h k cs) = Inr v" and "gv_status v = GateReady"
  shows "\<exists>t p recs. recs = stored_records (run_gate h k cs) \<and> gv_target v = t \<and> TargetRec t \<in> set recs \<and> qt_tenantId t = tenantId
     \<and> qt_id t = targetId \<and> ProfileRec p \<in> set recs \<and> profile_of p t \<and> 1 \<le> qp_minimumIndependentReviews p
     \<and> qp_minimumIndependentReviews p \<le> of_nat (card ((\<lambda>r. cp_actorId (qr_reviewer r)) ` set (accepted_reviews recs t)))
     \<and> (\<forall>r \<in> set (accepted_reviews recs t). cp_actorId (qr_reviewer r) \<noteq> cp_actorId (qt_producer t)
          \<and> independent_of (qp_reviewerSeparation p) (qt_producer t) (qr_reviewer r)
          \<and> qr_targetDigest r = sha256Digest h (review_target_json t) \<and> qr_acceptanceProfileDigest r = sha256Digest h (profile_json p))
     \<and> (\<forall>i \<in> set (qp_requiredVerificationScenarioIds p). \<exists>x \<in> set (verifications_in recs). target_of_verification t x
          \<and> qv_scenarioId x = i \<and> qv_outcome x = VerificationPassed
          \<and> (qp_verificationRequiresProducerSeparation p \<longrightarrow> cp_actorId (qv_verifier x) \<noteq> cp_actorId (qt_producer t)))
     \<and> (\<forall>x \<in> set (verifications_in recs). target_of_verification t x \<longrightarrow> qv_outcome x = VerificationPassed)
     \<and> (\<forall>f \<in> set (findings_in recs). \<not> finding_on t f) \<and> \<not> revised recs t"
proof -
  let ?s = "run_gate h k cs"
  have inv: "gate_inv h k ?s" by (rule run_gate_inv)
  then have gl: "gate_log h (stored_records ?s)" by (simp add: gate_inv_def)
  obtain t p reviews verifications findings superseded where t: "TargetRec t \<in> set (stored_records ?s)" "qt_tenantId t = tenantId" "qt_id t = targetId"
    and p: "ProfileRec p \<in> set (stored_records ?s)" "profile_of p t"
    and v: "v = gate_verdict h t p reviews verifications findings superseded"
    and rs: "set reviews = {r. ReviewRec r \<in> set (stored_records ?s) \<and> target_of_review t r}"
    and vs: "set verifications = {x. VerificationRec x \<in> set (stored_records ?s) \<and> target_of_verification t x}"
    and fs: "set findings = {f. FindingRec f \<in> set (stored_records ?s) \<and> finding_on t f}"
    and sup: "superseded = revised (stored_records ?s) t"
    by (rule snapshot_Inr [OF assms(1) inv])
  note ready = verdict_ready [OF assms(2) [unfolded v]]
  have acc: "{r \<in> set reviews. qr_authority r = GateReview \<and> accepting (qr_decision r)} = set (accepted_reviews (stored_records ?s) t)"
    unfolding rs accepted_reviews_def by auto
  have ind: "independent_of (qp_reviewerSeparation p) (qt_producer t) (qr_reviewer r)" "qr_targetDigest r = sha256Digest h (review_target_json t)"
    "qr_acceptanceProfileDigest r = sha256Digest h (profile_json p)" if "r \<in> set (accepted_reviews (stored_records ?s) t)" for r
    using that log_review_admitted [OF gl, of r t p] t(1) p by (auto simp: accepted_reviews_def review_admitted_def)
  have ver: "qv_scenarioId x \<in> set (qp_requiredVerificationScenarioIds p)"
    "qp_verificationRequiresProducerSeparation p \<longrightarrow> cp_actorId (qv_verifier x) \<noteq> cp_actorId (qt_producer t)" if "x \<in> set verifications" for x
    using that log_verification_admitted [OF gl, of x t p] t(1) p unfolding vs by (auto simp: verification_admitted_def)
  have min1: "1 \<le> qp_minimumIndependentReviews p"
    using log_schema [OF gl p(1)] by (simp add: completionAcceptanceProfileSchemaV1_def int_between_def)
  have passed: "\<forall>x \<in> set verifications. qv_outcome x = VerificationPassed" using ready(3) ver(1) by blast
  show ?thesis
  proof (intro exI [of _ t] exI [of _ p] exI [of _ "stored_records ?s"] conjI ballI impI)
    show "gv_target v = t" by (simp add: v gate_verdict_def Let_def)
    show "qp_minimumIndependentReviews p \<le> of_nat (card ((\<lambda>r. cp_actorId (qr_reviewer r)) ` set (accepted_reviews (stored_records ?s) t)))"
      unfolding accepted_actors_card [OF gl t(1) p] using ready(5) unfolding acc .
    show "cp_actorId (qr_reviewer r) \<noteq> cp_actorId (qt_producer t)" if "r \<in> set (accepted_reviews (stored_records ?s) t)" for r
      using independent_actor [OF ind(1) [OF that] log_profile_separates [OF gl p(1)]] by simp
    show "\<exists>x \<in> set (verifications_in (stored_records ?s)). target_of_verification t x \<and> qv_scenarioId x = i \<and> qv_outcome x = VerificationPassed
        \<and> (qp_verificationRequiresProducerSeparation p \<longrightarrow> cp_actorId (qv_verifier x) \<noteq> cp_actorId (qt_producer t))"
      if "i \<in> set (qp_requiredVerificationScenarioIds p)" for i
      using ready(4) [OF that] ver(2) vs by auto
    show "qv_outcome x = VerificationPassed" if "x \<in> set (verifications_in (stored_records ?s))" "target_of_verification t x" for x
      using passed that vs by simp
    show "\<not> finding_on t f" if "f \<in> set (findings_in (stored_records ?s))" for f
      using ready(2) fs that by auto
    show "\<not> revised (stored_records ?s) t" using ready(1) sup by simp
  qed (use t p ind min1 in simp_all)
qed


theorem ready_means_independently_accepted_witness:
  "\<exists>t p. TargetRec t \<in> set (stored_records (run_gate sample_host sample_keys sample_commands)) \<and> qt_id t = ''target:1''
     \<and> ProfileRec p \<in> set (stored_records (run_gate sample_host sample_keys sample_commands))
     \<and> 1 \<le> card ((\<lambda>r. cp_actorId (qr_reviewer r)) ` set (accepted_reviews (stored_records (run_gate sample_host sample_keys sample_commands)) t))"
proof -
  obtain v where v: "snapshot sample_host sample_keys ''tenant:1'' ''target:1'' (run_gate sample_host sample_keys sample_commands) = Inr v" "gv_status v = GateReady"
    using sample_verdict by blast
  from ready_means_independently_accepted [OF v] show ?thesis
  proof (elim exE conjE)
    fix t p recs
    assume recs: "recs = stored_records (run_gate sample_host sample_keys sample_commands)"
      and t: "TargetRec t \<in> set recs" "qt_id t = ''target:1''" "ProfileRec p \<in> set recs"
      and n: "1 \<le> qp_minimumIndependentReviews p" "qp_minimumIndependentReviews p \<le> of_nat (card ((\<lambda>r. cp_actorId (qr_reviewer r)) ` set (accepted_reviews recs t)))"
    have "of_nat 1 \<le> (of_nat (card ((\<lambda>r. cp_actorId (qr_reviewer r)) ` set (accepted_reviews recs t))) :: rat)" using order_trans [OF n] by simp
    then have "1 \<le> card ((\<lambda>r. cp_actorId (qr_reviewer r)) ` set (accepted_reviews recs t))" unfolding of_nat_le_iff .
    then show ?thesis using t unfolding recs by blast
  qed
qed


section \<open>Revisions are consecutive and bounded\<close>

text \<open>
  C20. The targets registered for a subject are numbered without gaps and without repetition from the initial one, and the number
  of revisions is bounded: whatever operations ran, two targets of a subject with the same number are one target; the
  numbers of a subject's targets are closed downwards; and a revision's number is at most the maximum of its profile.
\<close>

theorem revisions_consecutive_and_bounded:
  assumes "TargetRec t \<in> set (stored_records (run_gate h k cs))"
  shows "\<exists>n p. qt_revisionNumber t = of_nat n \<and> ProfileRec p \<in> set (stored_records (run_gate h k cs)) \<and> profile_of p t
     \<and> of_nat n \<le> qp_maximumRevisionRounds p \<and> qp_maximumRevisionRounds p \<le> 20
     \<and> of_nat ` {..n} \<subseteq> revision_numbers (stored_records (run_gate h k cs)) (qt_tenantId t) (qt_subjectId t)
     \<and> {u. TargetRec u \<in> set (stored_records (run_gate h k cs)) \<and> qt_tenantId u = qt_tenantId t \<and> qt_subjectId u = qt_subjectId t
          \<and> qt_revisionNumber u = of_nat n} = {t}"
proof -
  let ?recs = "stored_records (run_gate h k cs)"
  have gl: "gate_log h ?recs" using run_gate_inv [of h k cs] by (simp add: gate_inv_def)
  obtain n where n: "qt_revisionNumber t = of_nat n" by (rule log_revision_integer [OF gl assms])
  obtain p where p: "ProfileRec p \<in> set ?recs" "profile_of p t" "qt_revisionNumber t \<noteq> 0 \<longrightarrow> qt_revisionNumber t \<le> qp_maximumRevisionRounds p"
    using log_target [OF gl assms] by blast
  have "0 \<le> qp_maximumRevisionRounds p \<and> qp_maximumRevisionRounds p \<le> 20"
    using log_schema [OF gl p(1)] by (simp add: completionAcceptanceProfileSchemaV1_def int_between_def)
  moreover have "of_nat n \<le> qp_maximumRevisionRounds p" using p(3) n calculation by (cases "n = 0") auto
  moreover have "of_nat ` {..n} \<subseteq> revision_numbers ?recs (qt_tenantId t) (qt_subjectId t)" using log_revisions_down [OF gl assms n] by auto
  moreover have "{u. TargetRec u \<in> set ?recs \<and> qt_tenantId u = qt_tenantId t \<and> qt_subjectId u = qt_subjectId t \<and> qt_revisionNumber u = of_nat n} = {t}"
    using log_one_revision [OF gl _ assms] assms n by auto
  ultimately show ?thesis using n p(1,2) by blast
qed

theorem revisions_consecutive_and_bounded_witness:
  "\<exists>n. qt_revisionNumber sample_target = of_nat n \<and> of_nat ` {..n} \<subseteq> revision_numbers (stored_records (run_gate sample_host sample_keys sample_commands))
     (qt_tenantId sample_target) (qt_subjectId sample_target)"
proof -
  have "TargetRec sample_target \<in> set (stored_records (run_gate sample_host sample_keys sample_commands))"
    using holds_stored [OF sample_run] by (simp add: sample_log_def)
  from revisions_consecutive_and_bounded [OF this] show ?thesis by blast
qed


section \<open>A database that was put back is refused\<close>

definition gate_forward :: "gate_state \<Rightarrow> gate_state \<Rightarrow> bool" where
  "gate_forward s s' \<longleftrightarrow> forward (gs_checkpoints s) (gs_checkpoints s')"

interpretation gate_steps: step_relation gate_forward
  by unfold_locales (auto simp: gate_forward_def intro: forward_trans, simp add: forward_def)

lemma respects_transaction: "step_respects gate_forward m \<Longrightarrow> step_respects gate_forward (gate_transaction m)"
  unfolding step_respects_def gate_transaction_def by (intro allI gate_steps.transaction) (simp_all add: gate_forward_def)

lemma respects_checkpoint_writes:
  "step_respects gate_forward (checkpoint_write (initialize c))" "step_respects gate_forward (checkpoint_write (advance h d c))"
  using checkpoint_transaction_forward [of h "Initialize c"] checkpoint_transaction_forward [of h "Advance d c"] gate_steps.refl
  by (auto simp: step_respects_def checkpoint_write_def gate_forward_def forward_def split: sum.splits)

lemma respects_checkpointAdvance: "step_respects gate_forward (checkpointAdvance h expected next)"
  using respects_checkpoint_writes(2) gate_steps.refl by (auto simp: step_respects_def checkpointAdvance_def split: sum.splits)

lemma respects_database_writes:
  "step_respects gate_forward (write_integrity row)" "step_respects gate_forward (insert_integrity row)" "step_respects gate_forward (insert_row env r)"
  using gate_steps.refl by (auto simp: step_respects_def write_integrity_def insert_integrity_def insert_row_def set_integrity_def gate_forward_def)

lemmas forward_rules = gate_steps.respects_rules respects_transaction respects_checkpoint_writes respects_checkpointAdvance respects_database_writes

lemma respects_insert: "step_respects gate_forward (insert_record h k env r)"
  unfolding insert_record_def refreshTenantState_def Let_def by (intro forward_rules)

lemma respects_findings:
  "step_respects gate_forward (insert_findings h k env fs)" "step_respects gate_forward (replay_findings h k env fs)"
  by (induction fs) (auto intro!: forward_rules respects_insert)

lemma operations_forward:
  "step_respects gate_forward (provisionTenant h k env i)" "step_respects gate_forward (completeProvisionedTenantV1 h k i)"
  "step_respects gate_forward (verifyProvisionedTenantV1 h k i)" "step_respects gate_forward (registerProfile h k env p)"
  "step_respects gate_forward (registerTarget h k env t)" "step_respects gate_forward (recordReview h k env r fs)"
  "step_respects gate_forward (recordVerification h k env v)" "step_respects gate_forward (recordRevision h k env n t)"
  "step_respects gate_forward (recordPreference h k env q)" "step_respects gate_forward (requestApproval h k env a)"
  "step_respects gate_forward (decideApproval h k env d)"
  unfolding provisionTenant_def completeProvisionedTenantV1_def verifyProvisionedTenantV1_def registerProfile_def registerTarget_def
    recordReview_def recordVerification_def recordRevision_def recordPreference_def requestApproval_def decideApproval_def begin_operation_def Let_def
  by (intro forward_rules respects_insert respects_findings)+

lemma after_gate_forward: "gate_forward s (after_gate h k c s)"
  using operations_forward by (cases c) (simp_all add: step_respects_def)

lemma fold_forward: "gate_forward s (fold (after_gate h k) cs s)"
  by (induction cs arbitrary: s) (auto intro: gate_steps.refl gate_steps.trans after_gate_forward)


lemma lockAndVerify_Inr:
  "lockAndVerifyTenantState h k tenantId s = Inr v \<Longrightarrow>
     \<exists>row c. integrity_for tenantId (gs_db s) = Some row \<and> checkpoint_read (gs_checkpoints s) (checkpointScope tenantId) = Some c
       \<and> same_checkpoint h c (integrity_checkpoint tenantId row)"
  unfolding lockAndVerify_iff assertCheckpoint_Inr by blast

text \<open>The checkpoint is the last thing compared: with the same database only its refusal can differ.\<close>

lemma lockAndVerify_checkpoint:
  assumes "lockAndVerifyTenantState h k tenantId s = Inr v" and "gs_db s' = gs_db s"
  shows "lockAndVerifyTenantState h k tenantId s' = Inr v \<or> lockAndVerifyTenantState h k tenantId s' = Inl IntegrityFailed"
proof -
  obtain c row where c: "computedTenantState h k tenantId (gs_db s') = Inr c" "integrity_for tenantId (gs_db s') = Some row"
    "integrity_matches k tenantId c row" "v = gc_verified c"
    using assms unfolding lockAndVerify_iff by auto
  then have "lockAndVerifyTenantState h k tenantId s' = bind_result (assertCheckpoint h tenantId row (gs_checkpoints s')) (\<lambda>_. Inr v)"
    by (simp add: lockAndVerifyTenantState_def integrity_matches_def)
  then show ?thesis by (simp add: assertCheckpoint_def Let_def split: option.splits)
qed

lemma same_checkpoint_digest:
  "same_checkpoint h a b \<Longrightarrow> valid_checkpoint a \<and> valid_checkpoint b \<and> sha256Digest h (checkpoint_json a) = sha256Digest h (checkpoint_json b)"
  by (auto simp: same_checkpoint_def rollbackCheckpointDigestV1_def parseRollbackCheckpointV1_def bind_result_Inr_iff split: sum.splits if_splits)

lemma checkpoint_json_plain: "valid_checkpoint c \<Longrightarrow> plain_numbers (checkpoint_json c)"
  by (cases "ck_revision c"; cases "ck_recordCount c") (auto simp: valid_checkpoint_def checkpoint_json_def)

lemma checkpoint_digest_revision:
  assumes "valid_checkpoint a" and "valid_checkpoint b" and "sha256Digest h (checkpoint_json a) = sha256Digest h (checkpoint_json b)"
    and "\<not> hash_collision h (checkpoint_json a) (checkpoint_json b)"
  shows "ck_revision a = ck_revision b"
proof -
  have "json_field (checkpoint_json a) ''revision'' = json_field (checkpoint_json b) ''revision''"
    using digest_fields_agree [OF assms(3,4) [unfolded checkpoint_json_def], of "''revision''"] checkpoint_json_plain assms(1,2)
    by (simp add: checkpoint_json_def)
  then have "num_value (ck_revision a) = num_value (ck_revision b)" by (simp add: checkpoint_json_def json_field_def)
  then show ?thesis using assms(1,2) by (cases "ck_revision a"; cases "ck_revision b") (auto simp: valid_checkpoint_def)
qed


text \<open>A host whose hash tells the checkpoint of one record from the others.\<close>

definition counting_host :: host where
  "counting_host = sample_host\<lparr>sha256_hex := (\<lambda>t. replicate 64 (if take 16 t = ''{\"recordCount\":1'' then CHR ''1'' else CHR ''0''))\<rparr>"

lemma counting_hex: "hex_host counting_host sample_keys"
  using sample_hex by (simp add: hex_host_def sha256Digest_def counting_host_def digest_pattern_def is_hex_def is_digit_def less_eq_char_def list_all_iff)

lemma counting_profile: "accepts counting_host sample_keys sample_env ''tenant:1'' [] (ProfileRec sample_profile)"
proof -
  have "isoDate counting_host = isoDate sample_host" by (simp add: isoDate_def counting_host_def fun_eq_iff)
  then have "storable counting_host sample_env (ProfileRec sample_profile)"
    using sample_storable(1) by (simp add: storable_def completionAcceptanceProfileSchemaV1_def)
  then show ?thesis using counting_hex by (simp add: accepts_def) (simp add: sample_profile_def)
qed

lemma in_step_checkpoint:
  assumes "in_step h k tenantId n s"
  obtains c where "checkpoint_read (gs_checkpoints s) (checkpointScope tenantId) = Some c" "ck_revision c = Fin (of_nat (Suc n))" "ck_recordCount c = Fin (of_nat n)"
  using assms that by (auto simp: in_step_def integrity_checkpoint_def gate_checkpoint_def)

lemma checkpoint_text: "\<exists>t. canonicalJson (checkpoint_json c) = ''{\"recordCount\":'' @ num_text (num_value (ck_recordCount c)) @ t"
  by (simp add: canonicalJson_def checkpoint_json_def less_char_def quote_text_def escape_char_def)



section \<open>Reading many targets agrees with the snapshot\<close>

lemma verdict_cong:
  assumes "set rs = set rs'" and "set vs = set vs'" and "mset (map fg_id fs) = mset (map fg_id fs')"
  shows "gate_verdict h t p rs vs fs x = gate_verdict h t p rs' vs' fs' x"
proof -
  have "sort (remdups (map qr_id (filter P rs))) = sort (remdups (map qr_id (filter P rs')))" for P
    using assms(1) by (intro sorted_distinct_set_unique) auto
  moreover have "sort (map fg_id fs) = sort (map fg_id fs')" by (metis assms(3) sorted_list_of_multiset_mset)
  moreover have "list_ex P vs = list_ex P vs'" for P using assms(2) by (auto simp: list_ex_iff)
  moreover have "set (map qv_scenarioId (filter P vs)) = set (map qv_scenarioId (filter P vs'))" for P using assms(2) by auto
  ultimately show ?thesis unfolding gate_verdict_def Let_def by presburger
qed

lemma find_same:
  assumes "{x \<in> set xs. P x} = {x \<in> set ys. Q x}" and "\<And>x y. x \<in> set xs \<Longrightarrow> P x \<Longrightarrow> y \<in> set xs \<Longrightarrow> P y \<Longrightarrow> x = y"
  shows "find P xs = find Q ys"
proof (cases "find P xs")
  case None
  then have "{x \<in> set ys. Q x} = {}" using assms(1) by (auto simp: find_None_iff)
  then have "find Q ys = None" by (auto simp: find_None_iff)
  then show ?thesis using None by simp
next
  case (Some x)
  then have x: "x \<in> set xs" "P x" using find_SomeD by fast+
  then have "find Q ys \<noteq> None" using assms(1) by (auto simp: find_None_iff)
  then obtain y where y: "find Q ys = Some y" by blast
  then have "y \<in> {x \<in> set xs. P x}" using find_SomeD [OF y] unfolding assms(1) by blast
  then show ?thesis using assms(2) [of x y] x y Some by simp
qed

lemma verified_records:
  assumes "lockAndVerifyTenantState h k tenantId s = Inr v" and "gate_inv h k s"
  shows "v = map (\<lambda>row. (gr_kind row, row_record row)) (tenant_rows tenantId (gd_records (gs_db s)))"
  using assms(1) unfolding lockAndVerify_iff
  by (auto simp: computedTenantState_def Let_def bind_result_Inr_iff dest!: verified_rows_Inr)

lemma inv_good: "gate_inv h k s \<Longrightarrow> row \<in> set (gd_records (gs_db s)) \<Longrightarrow> good_row h k row"
  by (simp add: gate_inv_def list_all_iff)

text \<open>Looking a record up in the table and among the verified records finds the same one.\<close>

lemma find_in_map: "find P (map f xs) = map_option f (find (\<lambda>x. P (f x)) xs)"
  by (induction xs) auto

lemma find_same_test: "(\<And>x. x \<in> set xs \<Longrightarrow> P x = Q x) \<Longrightarrow> find P xs = find Q xs"
  by (induction xs) auto

lemma require_in_verified:
  assumes v: "lockAndVerifyTenantState h k tenantId s = Inr v" and inv: "gate_inv h k s"
  shows "requireRecord h k tenantId i kind (gs_db s)
     = (case map_option snd (find (\<lambda>(kd, r). kd = kind \<and> record_id r = i) v) of None \<Rightarrow> Inl RecordNotFound | Some r \<Rightarrow> Inr r)"
proof -
  let ?rows = "gd_records (gs_db s)" and ?mine = "tenant_rows tenantId (gd_records (gs_db s))"
  let ?P = "\<lambda>row. gr_tenantId row = tenantId \<and> gr_id row = i \<and> gr_kind row = kind"
  let ?R = "\<lambda>r. record_tenantId r = tenantId \<and> record_id r = i \<and> record_kind r = kind"
  have good: "good_row h k row" if "row \<in> set ?rows" for row using inv_good [OF inv that] .
  have mine: "set ?mine = {row \<in> set ?rows. gr_tenantId row = tenantId}" by (auto simp: tenant_rows_def)
  have "map_option row_record (find ?P ?rows) = map_option row_record (find (\<lambda>row. ?R (row_record row)) ?rows)"
    using good_row_fields(1-3) [OF good] by (intro arg_cong [of _ _ "map_option row_record"] find_same_test) auto
  also have "\<dots> = find ?R (map row_record ?rows)" by (simp add: find_in_map)
  also have "\<dots> = find (\<lambda>r. record_kind r = kind \<and> record_id r = i) (map row_record ?mine)"
  proof (rule find_same)
    show "{r \<in> set (map row_record ?rows). ?R r} = {r \<in> set (map row_record ?mine). record_kind r = kind \<and> record_id r = i}"
      using good_row_fields(3) [OF good] unfolding set_map mine by auto
    show "a = b" if "a \<in> set (map row_record ?rows)" "?R a" "b \<in> set (map row_record ?rows)" "?R b" for a b
      using log_same_id [of h "map row_record ?rows" a b] that inv by (simp add: gate_inv_def stored_records_def)
  qed
  also have "\<dots> = map_option snd (find (\<lambda>(kd, r). kd = kind \<and> record_id r = i) v)"
  proof -
    have "find (\<lambda>row. gr_kind row = kind \<and> record_id (row_record row) = i) ?mine = find (\<lambda>row. record_kind (row_record row) = kind \<and> record_id (row_record row) = i) ?mine"
      using good_row_fields(1) [OF good] by (intro find_same_test) (auto simp: mine)
    then show ?thesis unfolding verified_records [OF v inv] by (simp add: find_in_map option.map_comp comp_def)
  qed
  finally have found: "map_option row_record (find ?P ?rows) = map_option snd (find (\<lambda>(kd, r). kd = kind \<and> record_id r = i) v)" .
  have "requireRecord h k tenantId i kind (gs_db s) = (case map_option row_record (find ?P ?rows) of None \<Rightarrow> Inl RecordNotFound | Some r \<Rightarrow> Inr r)"
  proof (cases "find ?P ?rows")
    case (Some row)
    then have "verifiedRow h k row = Inr (row_record row)" using good [of row] find_SomeD [OF Some] by (simp add: good_row_def)
    then show ?thesis using Some by (simp add: requireRecord_def)
  qed (simp add: requireRecord_def)
  then show ?thesis unfolding found .
qed

lemma mset_findings_in: "mset xs = mset ys \<Longrightarrow> mset (findings_in xs) = mset (findings_in ys)"
  unfolding findings_in_def mset_concat by (metis mset_map sum_mset_sum_list)

lemma mset_js_sort [simp]: "mset (js_sort le xs) = mset xs"
proof -
  have "mset (insort_by le x ys) = add_mset x (mset ys)" for x ys by (induction ys) auto
  then show ?thesis by (induction xs) auto
qed

lemma inv_lists:
  assumes "gate_inv h k s"
  shows "listByParent h k tenantId projectId kind i (gs_db s) = Inr (map row_record (js_sort time_before (filter (\<lambda>r. gr_tenantId r = tenantId
       \<and> gr_projectId r = projectId \<and> gr_kind r = kind \<and> gr_parentId r = Some i) (gd_records (gs_db s)))))"
    and "listBySubject h k tenantId projectId kind i (gs_db s) = Inr (map row_record (js_sort time_before (filter (\<lambda>r. gr_tenantId r = tenantId
       \<and> gr_projectId r = projectId \<and> gr_kind r = kind \<and> gr_subjectId r = i) (gd_records (gs_db s)))))"
proof -
  have "verified_rows h k (js_sort time_before (filter Q (gd_records (gs_db s))))
      = Inr (map (\<lambda>row. (gr_kind row, row_record row)) (js_sort time_before (filter Q (gd_records (gs_db s)))))" for Q
    using inv_good [OF assms] by (intro verified_rows_good) (auto simp: list_all_iff)
  then show "listByParent h k tenantId projectId kind i (gs_db s) = Inr (map row_record (js_sort time_before (filter (\<lambda>r. gr_tenantId r = tenantId
       \<and> gr_projectId r = projectId \<and> gr_kind r = kind \<and> gr_parentId r = Some i) (gd_records (gs_db s)))))"
    and "listBySubject h k tenantId projectId kind i (gs_db s) = Inr (map row_record (js_sort time_before (filter (\<lambda>r. gr_tenantId r = tenantId
       \<and> gr_projectId r = projectId \<and> gr_kind r = kind \<and> gr_subjectId r = i) (gd_records (gs_db s)))))"
    by (simp_all add: listByParent_def listBySubject_def comp_def)
qed

text \<open>The findings on a target, filtered among the rows or among the records.\<close>

lemma findings_in_Cons: "findings_in (r # rs) = (case r of FindingRec f \<Rightarrow> f # findings_in rs | _ \<Rightarrow> findings_in rs)"
  by (cases r) (simp_all add: findings_in_def)

lemma findings_of_rows:
  assumes "\<And>row. row \<in> set rows \<Longrightarrow> good_row h k row"
  shows "findings_in (map row_record (filter (\<lambda>r. gr_tenantId r = tenantId \<and> gr_projectId r = projectId \<and> gr_kind r = FindingKind \<and> gr_subjectId r = i) rows))
     = filter (\<lambda>f. fg_projectId f = projectId \<and> fg_targetId f = i) (findings_in (map row_record (filter (\<lambda>r. gr_tenantId r = tenantId) rows)))"
  using assms
proof (induction rows)
  case (Cons row rows)
  have g: "record_kind (row_record row) = gr_kind row" "record_projectId (row_record row) = gr_projectId row" "md_subjectId (describe h (row_record row)) = gr_subjectId row"
    using good_row_fields [of h k row] Cons.prems [of row] by simp_all
  have IH: "findings_in (map row_record (filter (\<lambda>r. gr_tenantId r = tenantId \<and> gr_projectId r = projectId \<and> gr_kind r = FindingKind \<and> gr_subjectId r = i) rows))
      = filter (\<lambda>f. fg_projectId f = projectId \<and> fg_targetId f = i) (findings_in (map row_record (filter (\<lambda>r. gr_tenantId r = tenantId) rows)))"
    using Cons by simp
  show ?case
  proof (cases "\<exists>f. row_record row = FindingRec f")
    case True
    then obtain f where f: "row_record row = FindingRec f" by blast
    with g have "gr_kind row = FindingKind" "gr_projectId row = fg_projectId f" "gr_subjectId row = fg_targetId f" by simp_all
    then show ?thesis by (simp add: f findings_in_Cons IH)
  next
    case False
    then have "gr_kind row \<noteq> FindingKind" and skip: "findings_in (row_record row # rs) = findings_in rs" for rs
      using g(1) by (cases "row_record row"; simp add: findings_in_Cons)+
    then show ?thesis by (simp add: IH)
  qed
qed (simp add: findings_in_def)

lemma verified_kinds:
  assumes "lockAndVerifyTenantState h k tenantId s = Inr v" and "gate_inv h k s" and "(kd, r) \<in> set v"
  shows "record_kind r = kd"
  using assms(3) verified_records [OF assms(1,2)] good_row_fields(1) inv_good [OF assms(2)] by (auto simp: tenant_rows_def)

lemma require_kinds:
  assumes v: "lockAndVerifyTenantState h k tenantId s = Inr v" and inv: "gate_inv h k s"
  shows "requireTarget h k tenantId i (gs_db s) = (case target_in i v of None \<Rightarrow> Inl RecordNotFound | Some t \<Rightarrow> Inr t)"
    and "requireProfile h k tenantId i (gs_db s) = (case profile_in i v of None \<Rightarrow> Inl RecordNotFound | Some p \<Rightarrow> Inr p)"
proof -
  have kind: "record_kind r = kind" if "find (\<lambda>(kd, r). kd = kind \<and> record_id r = i) v = Some (kd, r)" for kind kd r
    using find_SomeD [OF that] verified_kinds [OF v inv, of kd r] by auto
  show "requireTarget h k tenantId i (gs_db s) = (case target_in i v of None \<Rightarrow> Inl RecordNotFound | Some t \<Rightarrow> Inr t)"
  proof (cases "find (\<lambda>(kd, r). kd = TargetKind \<and> record_id r = i) v")
    case (Some x)
    obtain kd r where x: "x = (kd, r)" by (cases x)
    show ?thesis using kind [OF Some [unfolded x]] Some x by (cases r) (simp_all add: requireTarget_def require_in_verified [OF v inv] target_in_def)
  qed (simp add: requireTarget_def require_in_verified [OF v inv] target_in_def)
  show "requireProfile h k tenantId i (gs_db s) = (case profile_in i v of None \<Rightarrow> Inl RecordNotFound | Some p \<Rightarrow> Inr p)"
  proof (cases "find (\<lambda>(kd, r). kd = ProfileKind \<and> record_id r = i) v")
    case (Some x)
    obtain kd r where x: "x = (kd, r)" by (cases x)
    show ?thesis using kind [OF Some [unfolded x]] Some x by (cases r) (simp_all add: requireProfile_def require_in_verified [OF v inv] profile_in_def)
  qed (simp add: requireProfile_def require_in_verified [OF v inv] profile_in_def)
qed

text \<open>The records of a kind under a parent, filtered among the rows or among the records.\<close>

lemma records_of_rows:
  assumes "\<And>row. row \<in> set rows \<Longrightarrow> good_row h k row"
  shows "r \<in> row_record ` {row \<in> set rows. gr_tenantId row = tenantId \<and> gr_projectId row = projectId \<and> gr_kind row = kind \<and> gr_parentId row = Some i}
     \<longleftrightarrow> r \<in> row_record ` {row \<in> set rows. gr_tenantId row = tenantId} \<and> record_projectId r = projectId \<and> record_kind r = kind
       \<and> md_parentId (describe h r) = Some i"
  using good_row_fields(1,4,7) [OF assms] by force

lemma verdict_from_records:
  assumes Inr: "lockAndVerifyTenantState h k tenantId s = Inr v" and inv: "gate_inv h k s"
    and that: "snapshotWith h k tenantId t (gs_db s) = Inr x" "requireProfile h k tenantId (qt_acceptanceProfileId t) (gs_db s) = Inr p"
  shows "te_snapshot (inspectTargetFromRecords h collate v t p) = x"
proof -
  let ?rows = "gd_records (gs_db s)"
  note good = inv_good [OF inv] and lists = inv_lists [OF inv]
  have v: "map snd v = map row_record (tenant_rows tenantId ?rows)" using verified_records [OF Inr inv] by (simp add: comp_def)
  have held: "set (map snd v) = row_record ` {row \<in> set ?rows. gr_tenantId row = tenantId}" unfolding v by (auto simp: tenant_rows_def)
  let ?P = "\<lambda>kind row. gr_tenantId row = tenantId \<and> gr_projectId row = qt_projectId t \<and> gr_kind row = kind \<and> gr_parentId row = Some (qt_id t)"
  let ?under = "\<lambda>kind. map row_record (js_sort time_before (filter (?P kind) ?rows))"
  let ?found = "map row_record (js_sort time_before (filter (\<lambda>r. gr_tenantId r = tenantId \<and> gr_projectId r = qt_projectId t \<and> gr_kind r = FindingKind
    \<and> gr_subjectId r = qt_id t) ?rows))"
  have x: "x = gate_verdict h t p (reviews_in (?under ReviewKind)) (verifications_in (?under VerificationKind)) (findings_in ?found) (?under RevisionKind \<noteq> [])"
    using that by (simp add: snapshotWith_def lists)
  have under: "r \<in> set (?under kind) \<longleftrightarrow> r \<in> set (map snd v) \<and> record_projectId r = qt_projectId t \<and> record_kind r = kind \<and> md_parentId (describe h r) = Some (qt_id t)" for r kind
    using records_of_rows [OF good, of ?rows r tenantId "qt_projectId t" kind "qt_id t"] unfolding held by simp
  have same_reviews: "set (reviews_in (?under ReviewKind)) = set (js_sort (by_time_and_id collate qr_reviewedAt qr_id)
      (filter (\<lambda>r. qr_projectId r = qt_projectId t \<and> qr_targetId r = qt_id t) (reviews_in (map snd v))))"
    by (intro set_eqI, unfold set_js_sort set_filter mem_Collect_eq in_record_lists under) auto
  have same_verifications: "set (verifications_in (?under VerificationKind)) = set (js_sort (by_time_and_id collate qv_verifiedAt qv_id)
      (filter (\<lambda>r. qv_projectId r = qt_projectId t \<and> qv_targetId r = qt_id t) (verifications_in (map snd v))))"
    by (intro set_eqI, unfold set_js_sort set_filter mem_Collect_eq in_record_lists under) auto
  have same_findings: "mset (map fg_id (findings_in ?found)) = mset (map fg_id (js_sort (by_time_and_id collate fg_raisedAt fg_id)
      (filter (\<lambda>f. fg_projectId f = qt_projectId t \<and> fg_targetId f = qt_id t) (findings_in (map snd v)))))"
  proof -
    have "mset (findings_in ?found) = mset (filter (\<lambda>f. fg_projectId f = qt_projectId t \<and> fg_targetId f = qt_id t) (findings_in (map row_record (filter (\<lambda>r. gr_tenantId r = tenantId) ?rows))))"
      using findings_of_rows [of ?rows h k tenantId "qt_projectId t" "qt_id t"] good mset_findings_in [of ?found "map row_record (filter (\<lambda>r. gr_tenantId r = tenantId
        \<and> gr_projectId r = qt_projectId t \<and> gr_kind r = FindingKind \<and> gr_subjectId r = qt_id t) ?rows)"] by simp
    also have "\<dots> = mset (filter (\<lambda>f. fg_projectId f = qt_projectId t \<and> fg_targetId f = qt_id t) (findings_in (map snd v)))"
      unfolding v mset_filter by (intro arg_cong [of _ _ "filter_mset _"] mset_findings_in) (simp add: tenant_rows_def)
    finally show ?thesis by simp
  qed
  have same_revisions: "(?under RevisionKind \<noteq> []) = list_ex (\<lambda>r. case r of RevisionRec n \<Rightarrow> qn_projectId n = qt_projectId t \<and> qn_fromTargetId n = qt_id t | _ \<Rightarrow> False) (map snd v)"
  proof -
    have some: "ys \<noteq> [] \<longleftrightarrow> (\<exists>r. r \<in> set ys)" for ys :: "gate_record list" by (cases ys) auto
    have "?under RevisionKind \<noteq> [] \<longleftrightarrow> (\<exists>r. r \<in> set (?under RevisionKind))" by (rule some)
    also have "\<dots> \<longleftrightarrow> (\<exists>r \<in> set (map snd v). record_projectId r = qt_projectId t \<and> record_kind r = RevisionKind \<and> md_parentId (describe h r) = Some (qt_id t))"
      unfolding under by blast
    also have "\<dots> \<longleftrightarrow> list_ex (\<lambda>r. case r of RevisionRec n \<Rightarrow> qn_projectId n = qt_projectId t \<and> qn_fromTargetId n = qt_id t | _ \<Rightarrow> False) (map snd v)"
      unfolding list_ex_iff by (intro bex_cong refl) (auto split: gate_record.splits)
    finally show ?thesis .
  qed
  show ?thesis
    unfolding x inspectTargetFromRecords_def Let_def target_evidence.select_convs verdict_cong [OF same_reviews same_verifications same_findings] same_revisions ..
qed

text \<open>
  C21. Reading a target among the verified records gives the verdict of its snapshot. The store has two ways to judge a target: the
  snapshot queries the tables row by row, the inspection of targets and subjects works on the list of the tenant's verified
  records. In every state the store can reach, both give the same verdict, or both fail with the same error.
\<close>

theorem inspection_agrees_with_snapshot:
  "bind_result (inspectTargetContext h k collate tenantId targetId (run_gate h k cs)) (\<lambda>(verdict, profile, records). Inr verdict)
     = snapshot h k tenantId targetId (run_gate h k cs)"
proof (cases "lockAndVerifyTenantState h k tenantId (run_gate h k cs)")
  case (Inr v)
  have inv: "gate_inv h k (run_gate h k cs)" by (rule run_gate_inv)
  show ?thesis
    using Inr verdict_from_records [OF Inr inv]
    by (auto simp: inspectTargetContext_def snapshot_def require_kinds [OF Inr inv] snapshotWith_def inv_lists [OF inv] split: option.splits)
qed (simp add: inspectTargetContext_def snapshot_def)

end
