(* ===== verification/Completion_Approvals.thy ===== *)
theory Completion_Approvals
  imports Completion_Progress
begin

text \<open>
  Approvals of consequential effects through the completion gate: an effect is decided once, by a person, on the request that is on
  record; when the request and the decision are recorded; and which requests never are.
\<close>

section \<open>Approvals that are recorded\<close>

lemma requestApproval_progress:
  assumes "tenant_holds h k (qa_tenantId a) recs s" and "accepts h k env (qa_tenantId a) recs (RequestRec a)"
    and "date_parse (ge_now env) = Some now" and "\<not> ms_less (Some now) (date_parse (qa_requestedAt a))" and "\<not> ms_leq (date_parse (qa_expiresAt a)) (Some now)"
    and "requireApprovableEffect h env a = Inr ()"
  shows "\<exists>s'. requestApproval h k env a s = (Inr (RequestRec a, False), s') \<and> tenant_holds h k (qa_tenantId a) (recs @ [RequestRec a]) s'"
proof -
  have "findExisting h k (RequestRec a) (gs_db s) = Inr None" using holds_fresh [OF assms(1)] assms(2) by (simp add: accepts_def)
  then show ?thesis
    using accepts_insert [OF assms(1,2)] holds_begins [OF assms(1)] accepts_input [OF assms(2)] assms(3-6)
    by (auto simp: requestApproval_def run_step gate_currentTime_def)
qed

lemma decideApproval_progress:
  assumes held: "tenant_holds h k (qd_tenantId d) recs s" and acc: "accepts h k env (qd_tenantId d) recs (DecisionRec d)"
    and one: "distinct (map record_id recs)" and a: "RequestRec a \<in> set recs" "qd_requestId d = qa_id a" "decision_matches h a d"
    and now: "date_parse (ge_now env) = Some now" "\<not> ms_less (Some now) (date_parse (qd_decidedAt d))" "\<not> ms_leq (date_parse (qd_expiresAt d)) (Some now)"
      "\<not> ms_leq (date_parse (qa_expiresAt a)) (Some now)"
    and ok: "requireApprovableEffect h env a = Inr ()" "requireStrongFactorDecision h env a d now = Inr ()"
  shows "\<exists>s'. decideApproval h k env d s = (Inr (DecisionRec d, False), s') \<and> tenant_holds h k (qd_tenantId d) (recs @ [DecisionRec d]) s'"
proof -
  have "q = RequestRec a" if "q \<in> set recs" "record_id q = qa_id a" for q
    using one a(1) that unfolding distinct_map inj_on_def by (metis record_id.simps(8))
  then have "requireRecord h k (qd_tenantId d) (qd_requestId d) RequestKind (gs_db s) = Inr (RequestRec a)"
    using a(2) by (intro holds_require [OF held a(1)]) simp_all
  moreover have "findExisting h k (DecisionRec d) (gs_db s) = Inr None" using holds_fresh [OF held] acc by (simp add: accepts_def)
  ultimately show ?thesis
    using accepts_insert [OF held acc] holds_begins [OF held] accepts_input [OF acc] a(3) now ok
    by (auto simp: decideApproval_def run_step gate_currentTime_def)
qed

text \<open>A decision after its request, and what both of them need to be recorded.\<close>

lemma approval_progress:
  assumes held: "tenant_holds h k (qa_tenantId a) recs s" and one: "distinct (map record_id recs)"
    and request: "accepts h k env (qa_tenantId a) recs (RequestRec a)" "date_parse (ge_now env) = Some now"
      "\<not> ms_less (Some now) (date_parse (qa_requestedAt a))" "\<not> ms_leq (date_parse (qa_expiresAt a)) (Some now)" "requireApprovableEffect h env a = Inr ()"
    and d: "qd_tenantId d = qa_tenantId a" "qd_requestId d = qa_id a" "decision_matches h a d"
    and decision: "accepts h k env' (qa_tenantId a) (recs @ [RequestRec a]) (DecisionRec d)" "date_parse (ge_now env') = Some now'"
      "\<not> ms_less (Some now') (date_parse (qd_decidedAt d))" "\<not> ms_leq (date_parse (qd_expiresAt d)) (Some now')"
      "\<not> ms_leq (date_parse (qa_expiresAt a)) (Some now')" "requireApprovableEffect h env' a = Inr ()" "requireStrongFactorDecision h env' a d now' = Inr ()"
  shows "\<exists>s1 s2. requestApproval h k env a s = (Inr (RequestRec a, False), s1) \<and> decideApproval h k env' d s1 = (Inr (DecisionRec d, False), s2)
     \<and> tenant_holds h k (qa_tenantId a) (recs @ [RequestRec a, DecisionRec d]) s2"
proof -
  obtain s1 where s1: "requestApproval h k env a s = (Inr (RequestRec a, False), s1)" "tenant_holds h k (qa_tenantId a) (recs @ [RequestRec a]) s1"
    using requestApproval_progress [OF held request] by blast
  have "record_id (RequestRec a) \<noteq> record_id q" if "q \<in> set recs" for q
    using request(1) held that by (auto simp: accepts_def list_all_iff clashes_def tenant_holds_def)
  then have "distinct (map record_id (recs @ [RequestRec a]))" using one by auto
  then show ?thesis
    using decideApproval_progress [of h k d "recs @ [RequestRec a]" s1 env' a now'] s1 d decision by auto
qed

text \<open>A sample effect, its job, and the policy decision and grant that let the owner decide on it.\<close>

definition approval_until :: string where "approval_until = ''2025-06-01T00:20:00.000Z''"

definition sample_intent :: effect_intent_record where
  "sample_intent = \<lparr>contractVersion = DOMAIN_CONTRACT_VERSION, rec_id = ''effect:1'', rec_tenantId = ''tenant:1'', rec_version = 1, createdAt = gate_time,
     updatedAt = gate_time, ef_jobId = ''job:1'', ef_attemptId = ''attempt:1'', ef_operation = ''task.run'', ef_operationDigest = d0,
     ef_destination = ''target:1'', ef_idempotencyKey = ''idempotency-1'', ef_risk = Medium, ef_state = EffProposed, ef_approvalId = None,
     ef_destinationReceipt = None, ef_safeFailureCode = None\<rparr>"

definition sample_job :: job_record where
  "sample_job = \<lparr>contractVersion = DOMAIN_CONTRACT_VERSION, rec_id = ''job:1'', rec_tenantId = ''tenant:1'', rec_version = 1, createdAt = gate_time,
     updatedAt = gate_time, jb_workflowId = ''workflow:1'', jb_projectId = ''project:1'', jb_jobType = ''task'', jb_specVersion = ''1'', jb_inputDigest = d0,
     jb_state = JobRunning, jb_priority = 1, jb_requiredCapability = ''task.run'', jb_dependsOnJobIds = [], jb_authority = sample_root_authority,
     jb_retryPolicy = \<lparr>maxAttempts = 1, backoffSeconds = 0, retryableFailureCodes = [], retryAfterOrphan = False, ambiguousEffectPolicy = Attention\<rparr>\<rparr>"

definition sample_policy_row :: approval_policy_row where
  "sample_policy_row = \<lparr>pw_identityId = ''actor:2'', pw_action = ''approval.decide'', pw_resourceType = ''effect_intent'', pw_resourceId = ''effect:1'',
     pw_projectId = Some ''project:1'', pw_risk = Medium, pw_externalEffect = True, pw_allowed = True, pw_grantIds = [''grant:1''],
     pw_strongFactorEvidenceId = Some ''evidence:1'', pw_requestDigest = d0, pw_decidedAt = 1748736600000, pw_expiresAt = 1748737200000,
     pw_actorType = ''human'', pw_identityState = ''active''\<rparr>"

definition approval_env :: gate_env where
  "approval_env = sample_env\<lparr>ge_effect := (\<lambda>t i. Some (sample_intent, sample_job)), ge_policy := (\<lambda>t i. Some sample_policy_row),
     ge_grants := (\<lambda>t i. [\<lparr>gw_id = ''grant:1'', gw_roleKey = ''owner'', gw_allowedActions = [''*''], gw_projectIds = [''*''], gw_riskCeiling = High,
       gw_allowExternalEffects = True, gw_expiresAt = None, gw_revokedAt = None\<rparr>])\<rparr>"

definition sample_approval_request :: gate_approval_request where
  "sample_approval_request = \<lparr>qa_id = ''request:1'', qa_tenantId = ''tenant:1'', qa_projectId = ''project:1'', qa_jobId = ''job:1'', qa_attemptId = ''attempt:1'',
     qa_effectIntentId = ''effect:1'', qa_operationDigest = d0, qa_risk = Medium, qa_requestedBy = sample_actor ''actor:1'', qa_requestedAt = gate_time,
     qa_expiresAt = approval_until\<rparr>"

definition sample_decision :: gate_approval_decision where
  "sample_decision = \<lparr>qd_id = ''decision:1'', qd_tenantId = ''tenant:1'', qd_projectId = ''project:1'', qd_requestId = ''request:1'', qd_requestDigest = d0,
     qd_operationDigest = d0, qd_policyDecisionId = ''policy:1'', qd_decision = OutcomeApproved, qd_decidedBy = sample_actor ''actor:2'',
     qd_authenticationEventDigest = d0, qd_decidedAt = gate_time, qd_expiresAt = approval_until, qd_safeReasonCode = ''owner.approved''\<rparr>"

lemmas approval_samples = sample_intent_def sample_job_def sample_policy_row_def approval_env_def sample_env_def sample_approval_request_def sample_decision_def
  sample_actor_def

lemma approval_until_facts [simp]:
  "date_parse approval_until = Some 1748737200000" "to_iso 1748737200000 = Some approval_until" "isoDate sample_host approval_until"
proof -
  show d: "date_parse approval_until = Some 1748737200000" "to_iso 1748737200000 = Some approval_until" by (simp_all add: approval_until_def date_eval)
  show "isoDate sample_host approval_until" by (simp add: isoDate_def sample_host_def d)
qed

lemma approval_ids_safe:
  "list_all safeId [''request:1'', ''decision:1'', ''job:1'', ''attempt:1'', ''effect:1'', ''policy:1'', ''owner.approved'', ''task'', ''task.run'', ''workflow:1'']"
  by (simp add: id_eval)

lemma approval_texts_clean:
  "list_all (\<lambda>t. \<not> secret_text t) [''request:1'', ''decision:1'', ''job:1'', ''attempt:1'', ''effect:1'', ''policy:1'', ''owner.approved'', ''medium'', ''strong'',
     ''approved'', approval_until]"
  by (rule plain_texts_clean) code_simp

lemma approval_names_clean:
  "list_all (\<lambda>k. \<not> keyCarriesSecret k) [''jobId'', ''attemptId'', ''effectIntentId'', ''operationDigest'', ''risk'', ''requestedBy'', ''requiredFactor'',
     ''requestedAt'', ''expiresAt'', ''requestId'', ''requestDigest'', ''policyDecisionId'', ''decidedBy'', ''factor'', ''authenticationEventDigest'',
     ''decidedAt'', ''safeReasonCode'', ''requiresSeparateNodeAttestation'']"
  by (rule plain_keys_clean) code_simp

lemma approval_records_safe: "gate_safe (approval_request_json sample_approval_request) = Inr ()" "gate_safe (approval_decision_json sample_decision) = Inr ()"
  using gate_texts_clean gate_names_clean approval_texts_clean approval_names_clean
  by (simp_all add: gate_safe_def assertNoSecretMaterial_def containsSecretMaterial_def approval_samples approval_request_json_def approval_decision_json_def
      gate_header_def principal_json_def opt_field_def)

lemma approval_storable: "storable sample_host approval_env (RequestRec sample_approval_request)" "storable sample_host approval_env (DecisionRec sample_decision)"
  using approval_records_safe gate_ids_safe approval_ids_safe
  by (simp_all add: storable_def consequentialApprovalRequestSchemaV1_def consequentialApprovalDecisionSchemaV1_def)
    (simp_all add: approval_samples gate_ids_def completionPrincipalSchemaV1_def)

lemma sample_job_valid: "jobRecordSchema sample_host sample_job"
proof -
  have "authorityEnvelopeSchema sample_host sample_root_authority"
    using sample_chain_valid by (simp add: validAuthorityChain_def validAuthority_def sample_lease_def Let_def split: if_splits)
  then show ?thesis using gate_ids_safe approval_ids_safe
    by (simp add: jobRecordSchema_def orderedRecord_def baseRecordShape_def sample_job_def retryPolicySchema_def safeLabel_def text_between_def z_int_def)
      (simp add: sample_root_authority_def sample_envelope_def)
qed

lemma sample_effect_valid: "effectIntentRecordSchema sample_host sample_intent"
  using gate_ids_safe approval_ids_safe
  by (simp add: effectIntentRecordSchema_def orderedRecord_def baseRecordShape_def sample_intent_def text_between_def z_int_def)

lemma sample_effect_approvable: "requireApprovableEffect sample_host approval_env sample_approval_request = Inr ()"
proof -
  have "date_parse (ae_expiresAt sample_root_authority) = Some 1767225600000" by (simp add: sample_root_authority_def sample_envelope_def date_eval)
  then show ?thesis using sample_job_valid sample_effect_valid
    by (simp add: requireApprovableEffect_def approval_env_def) (simp add: approval_samples computeEffectOperationDigest_def computeAuthorityDigest_def
      sample_root_authority_def sample_envelope_def)
qed

lemma sample_strong_factor: "requireStrongFactorDecision sample_host approval_env sample_approval_request sample_decision 1748736600000 = Inr ()"
  by (simp add: requireStrongFactorDecision_def approval_samples approval_grant_active_def truthy_text_def)

definition approval_commands :: "gate_command list" where
  "approval_commands = [ProvisionTenant approval_env ''tenant:1'', RequestApproval approval_env sample_approval_request, DecideApproval approval_env sample_decision]"

lemma approval_facts:
  "qa_tenantId sample_approval_request = ''tenant:1''" "qd_tenantId sample_decision = ''tenant:1''"
  "accepts sample_host sample_keys approval_env ''tenant:1'' [] (RequestRec sample_approval_request)"
  "accepts sample_host sample_keys approval_env ''tenant:1'' [RequestRec sample_approval_request] (DecisionRec sample_decision)"
  "date_parse (ge_now approval_env) = Some 1748736600000" "decision_matches sample_host sample_approval_request sample_decision"
proof -
  show tenant: "qa_tenantId sample_approval_request = ''tenant:1''" "qd_tenantId sample_decision = ''tenant:1''" by (simp_all add: approval_samples)
  show "accepts sample_host sample_keys approval_env ''tenant:1'' [] (RequestRec sample_approval_request)"
    using approval_storable(1) sample_hex tenant by (simp add: accepts_def)
  show "accepts sample_host sample_keys approval_env ''tenant:1'' [RequestRec sample_approval_request] (DecisionRec sample_decision)"
    using approval_storable(2) sample_hex tenant by (simp add: accepts_def clashes_def) (simp add: approval_samples)
  show "date_parse (ge_now approval_env) = Some 1748736600000" by (simp add: approval_env_def sample_env_def)
  show "decision_matches sample_host sample_approval_request sample_decision" by (simp add: decision_matches_def) (simp add: approval_samples)
qed

lemma approval_run:
  "tenant_holds sample_host sample_keys ''tenant:1'' [RequestRec sample_approval_request, DecisionRec sample_decision] (run_gate sample_host sample_keys approval_commands)"
proof -
  let ?h = sample_host and ?k = sample_keys and ?r = "RequestRec sample_approval_request" and ?d = "DecisionRec sample_decision"
  define s0 where "s0 = snd (provisionTenant ?h ?k approval_env ''tenant:1'' empty_gate)"
  note ok = approval_facts
  have held0: "tenant_holds ?h ?k ''tenant:1'' [] s0"
    unfolding s0_def by (rule provisioned_holds [OF sample_hex]) (simp_all add: approval_env_def sample_env_def)
  have "\<exists>s1 s2. requestApproval ?h ?k approval_env sample_approval_request s0 = (Inr (?r, False), s1)
      \<and> decideApproval ?h ?k approval_env sample_decision s1 = (Inr (?d, False), s2) \<and> tenant_holds ?h ?k ''tenant:1'' [?r, ?d] s2"
    using approval_progress [of ?h ?k sample_approval_request "[]" s0 approval_env 1748736600000 sample_decision approval_env 1748736600000, unfolded ok(1,2),
      OF held0 _ ok(3) ok(5) _ _ sample_effect_approvable refl _ ok(6) _ ok(5) _ _ _ sample_effect_approvable sample_strong_factor] ok(4)
    by (auto simp: approval_samples)
  then show ?thesis by (auto simp: run_gate_def approval_commands_def s0_def)
qed




section \<open>An effect is decided once\<close>

text \<open>
  Only an authorised decision adds a decision to the records. An operation adds records at the end of those it finds; \<open>adds\<close> says what
  kind of record they can be.
\<close>

definition adds :: "(gate_record \<Rightarrow> bool) \<Rightarrow> gate_state \<Rightarrow> gate_state \<Rightarrow> bool" where
  "adds P s s' \<longleftrightarrow> (\<exists>rs. stored_records s' = stored_records s @ rs \<and> list_all P rs)"

fun no_decision :: "gate_record \<Rightarrow> bool" where
  "no_decision (DecisionRec d) \<longleftrightarrow> False"
| "no_decision r \<longleftrightarrow> True"

lemma adds_same: "gd_records (gs_db s') = gd_records (gs_db s) \<Longrightarrow> adds P s s'"
  by (simp add: adds_def stored_records_def)

lemma adds_trans: "adds P s t \<Longrightarrow> adds P t u \<Longrightarrow> adds P s u"
  by (auto simp: adds_def)

lemma insert_adds: "insert_record h k env r s = (Inr x, s') \<Longrightarrow> P r \<Longrightarrow> adds P s s'"
  using insert_record_Inr [of h k env r s "fst x" "snd x" s'] by (auto simp: adds_def stored_records_def)

lemma insert_findings_adds: "insert_findings h k env fs s = (Inr x, s') \<Longrightarrow> adds no_decision s s'"
proof (induction fs arbitrary: s x)
  case Nil
  then show ?case by (simp add: adds_same)
next
  case (Cons f fs)
  then obtain y s1 z where "insert_record h k env (FindingRec f) s = (Inr y, s1)" "insert_findings h k env fs s1 = (Inr z, s')"
    by (auto simp: bind_step_Inr)
  then show ?case using Cons.IH insert_adds [of h k env "FindingRec f" s y s1 no_decision] by (auto intro: adds_trans)
qed

lemmas adds_intros = insert_adds [where P = no_decision] insert_findings_adds adds_same

lemma operations_add_no_decision:
  "registerProfile h k env p s = (Inr u1, s') \<Longrightarrow> adds no_decision s s'"
  "registerTarget h k env t s = (Inr u2, s') \<Longrightarrow> adds no_decision s s'"
  "recordReview h k env r fs s = (Inr u3, s') \<Longrightarrow> adds no_decision s s'"
  "recordVerification h k env v s = (Inr u4, s') \<Longrightarrow> adds no_decision s s'"
  "recordRevision h k env n t s = (Inr u5, s') \<Longrightarrow> adds no_decision s s'"
  "recordPreference h k env q s = (Inr u6, s') \<Longrightarrow> adds no_decision s s'"
  "requestApproval h k env a s = (Inr u7, s') \<Longrightarrow> adds no_decision s s'"
proof -
  show "registerProfile h k env p s = (Inr u1, s') \<Longrightarrow> adds no_decision s s'" "registerTarget h k env t s = (Inr u2, s') \<Longrightarrow> adds no_decision s s'"
    "recordPreference h k env q s = (Inr u6, s') \<Longrightarrow> adds no_decision s s'"
    by (auto simp: registerProfile_def registerTarget_def recordPreference_def operation_simps intro: adds_intros)
  show "adds no_decision s s'" if ok: "recordReview h k env r fs s = (Inr u3, s')"
  proof -
    obtain replay where replay: "findExisting h k (ReviewRec r) (gs_db s) = Inr replay" using ok by (auto simp: recordReview_def operation_simps)
    show ?thesis
    proof (cases replay)
      case None
      obtain x u y where "insert_record h k env (ReviewRec r) s = (Inr x, u)" "insert_findings h k env fs u = (Inr y, s')"
        using ok replay None by (auto simp: recordReview_def operation_simps)
      then have "adds no_decision s u" "adds no_decision u s'" by (auto intro: insert_adds insert_findings_adds)
      then show ?thesis by (rule adds_trans)
    next
      case (Some stored)
      then have "s' = s" using ok replay by (auto simp: recordReview_def operation_simps dest!: replay_findings_same)
      then show ?thesis by (simp add: adds_same)
    qed
  qed
  show "recordVerification h k env v s = (Inr u4, s') \<Longrightarrow> adds no_decision s s'"
    by (auto simp: recordVerification_def operation_simps split: option.splits intro: adds_intros)
  show "adds no_decision s s'" if ok: "recordRevision h k env n t s = (Inr u5, s')"
  proof -
    consider "s' = s"
      | x u y where "insert_record h k env (TargetRec t) s = (Inr x, u)" "insert_record h k env (RevisionRec n) u = (Inr y, s')"
      using ok by (auto simp: recordRevision_def operation_simps split: option.splits)
    then show ?thesis
    proof cases
      case 1
      then show ?thesis by (simp add: adds_same)
    next
      case (2 x u y)
      have "adds no_decision s u" "adds no_decision u s'" using 2 by (auto intro: insert_adds)
      then show ?thesis by (rule adds_trans)
    qed
  qed
  show "requestApproval h k env a s = (Inr u7, s') \<Longrightarrow> adds no_decision s s'"
    by (auto simp: requestApproval_def operation_simps split: option.splits intro: adds_intros)
qed

definition decision_authorised :: "host \<Rightarrow> gate_env \<Rightarrow> gate_record list \<Rightarrow> gate_approval_decision \<Rightarrow> bool" where
  "decision_authorised h env recs d \<longleftrightarrow> (\<exists>a now. RequestRec a \<in> set recs \<and> qa_tenantId a = qd_tenantId d \<and> qa_id a = qd_requestId d
     \<and> date_parse (ge_now env) = Some now \<and> \<not> ms_less (Some now) (date_parse (qd_decidedAt d)) \<and> \<not> ms_leq (date_parse (qd_expiresAt d)) (Some now)
     \<and> requireApprovableEffect h env a = Inr () \<and> requireStrongFactorDecision h env a d now = Inr ())"

lemma decideApproval_authorised:
  assumes "decideApproval h k env d s = (Inr x, s')"
  shows "adds (\<lambda>r. r = DecisionRec d \<and> decision_authorised h env (stored_records s) d) s s'"
proof -
  obtain a replay where a: "requireRecord h k (qd_tenantId d) (qd_requestId d) RequestKind (gs_db s) = Inr (RequestRec a)"
      and replay: "findExisting h k (DecisionRec d) (gs_db s) = Inr replay"
    using assms by (auto simp: decideApproval_def operation_simps as_record_Inr)
  show ?thesis
  proof (cases replay)
    case None
    obtain now where now: "gate_currentTime env = Inr now" "\<not> ms_less (Some now) (date_parse (qd_decidedAt d))" "\<not> ms_leq (date_parse (qd_expiresAt d)) (Some now)"
        "requireApprovableEffect h env a = Inr ()" "requireStrongFactorDecision h env a d now = Inr ()"
      and i: "insert_record h k env (DecisionRec d) s = (Inr x, s')"
      using assms a replay None by (auto simp: decideApproval_def operation_simps)
    have "RequestRec a \<in> set (stored_records s)" "qa_tenantId a = qd_tenantId d" "qa_id a = qd_requestId d"
      using requireRecord_Inr [OF a] by (auto simp: stored_records_def)
    moreover have "date_parse (ge_now env) = Some now" using now(1) by (auto simp: gate_currentTime_def split: option.splits)
    ultimately have "decision_authorised h env (stored_records s) d" unfolding decision_authorised_def using now(2-) by blast
    then show ?thesis by (intro insert_adds [OF i]) simp
  qed (use assms a replay in \<open>auto simp: decideApproval_def operation_simps adds_same\<close>)
qed

lemma outcome_adds:
  assumes "\<And>x s'. m s = (Inr x, s') \<Longrightarrow> adds P s s'" and "\<And>e s'. m s = (Inl e, s') \<Longrightarrow> gs_db s' = gs_db s"
  shows "adds P s (snd (m s))"
proof (cases "m s")
  case (Pair r s')
  show ?thesis
  proof (cases r)
    case (Inl e)
    then have "gs_db s' = gs_db s" using assms(2) [of e s'] Pair by simp
    then show ?thesis using Pair by (simp add: adds_same)
  next
    case (Inr x)
    then show ?thesis using assms(1) [of x s'] Pair by simp
  qed
qed

lemma after_gate_adds:
  "adds (\<lambda>r. no_decision r \<or> (\<exists>env d. c = DecideApproval env d \<and> r = DecisionRec d \<and> decision_authorised h env (stored_records s) d)) s (after_gate h k c s)"
proof -
  have weaken: "adds Q s s'" if "adds P s s'" "\<And>r. P r \<Longrightarrow> Q r" for P Q s' using that by (auto simp: adds_def list_all_iff)
  note plain = outcome_adds [OF operations_add_no_decision(1) operation_errors(1)] outcome_adds [OF operations_add_no_decision(2) operation_errors(2)]
    outcome_adds [OF operations_add_no_decision(3) operation_errors(3)] outcome_adds [OF operations_add_no_decision(4) operation_errors(4)]
    outcome_adds [OF operations_add_no_decision(5) operation_errors(5)] outcome_adds [OF operations_add_no_decision(6) operation_errors(6)]
    outcome_adds [OF operations_add_no_decision(7) operation_errors(7)]
  show ?thesis
  proof (cases c)
    case (DecideApproval env d)
    have "adds (\<lambda>r. r = DecisionRec d \<and> decision_authorised h env (stored_records s) d) s (snd (decideApproval h k env d s))"
      using decideApproval_authorised operation_errors(8) by (rule outcome_adds)
    then show ?thesis unfolding DecideApproval after_gate.simps by (rule weaken) blast
  qed (simp_all add: plain adds_same provisioning_records)
qed

lemma run_gate_snoc: "run_gate h k (cs @ [c]) = after_gate h k c (run_gate h k cs)"
  by (simp add: run_gate_def)

lemma recorded_decision_authorised:
  "DecisionRec d \<in> set (stored_records (run_gate h k cs)) \<Longrightarrow>
     \<exists>env. DecideApproval env d \<in> set cs \<and> decision_authorised h env (stored_records (run_gate h k cs)) d"
proof (induction cs rule: rev_induct)
  case Nil
  then show ?case by (simp add: run_gate_def empty_gate_def stored_records_def)
next
  case (snoc c cs)
  let ?s = "run_gate h k cs"
  obtain rs where rs: "stored_records (run_gate h k (cs @ [c])) = stored_records ?s @ rs"
      "list_all (\<lambda>r. no_decision r \<or> (\<exists>env d. c = DecideApproval env d \<and> r = DecisionRec d \<and> decision_authorised h env (stored_records ?s) d)) rs"
    using after_gate_adds [of c h ?s k] unfolding run_gate_snoc adds_def by blast
  have "\<exists>env. DecideApproval env d \<in> set (cs @ [c]) \<and> decision_authorised h env (stored_records ?s) d"
    using snoc rs by (auto simp: list_all_iff)
  then show ?case unfolding rs(1) decision_authorised_def by auto
qed

lemma requireApprovableEffect_Inr:
  assumes "requireApprovableEffect h env a = Inr ()"
  obtains effect job where "ge_effect env (qa_tenantId a) (qa_effectIntentId a) = Some (effect, job)" "ef_operationDigest effect = qa_operationDigest a"
    "ef_state effect = EffProposed" "ef_risk effect = qa_risk a" "ef_operation effect \<in> set (allowedOperations (jb_authority job))"
    "riskRank (ef_risk effect) \<le> riskRank (maxRisk (jb_authority job))" "jb_state job \<in> {JobLeased, JobRunning, JobWaitingApproval}"
  using assms by (auto simp: requireApprovableEffect_def guard_result_Inr_iff split: option.splits)

lemma requireStrongFactorDecision_Inr:
  assumes "requireStrongFactorDecision h env a d now = Inr ()"
  obtains policy g where "ge_policy env (qd_tenantId d) (qd_policyDecisionId d) = Some policy" "pw_allowed policy" "pw_identityState policy = ''active''"
    "pw_identityId policy = cp_actorId (qd_decidedBy d)" "pw_action policy = ''approval.decide''" "pw_resourceId policy = qa_effectIntentId a"
    "pw_strongFactorEvidenceId policy \<notin> {None, Some []}" "g \<in> set (ge_grants env (qd_tenantId d) (cp_actorId (qd_decidedBy d)))"
    "approval_grant_active a d now (pw_grantIds policy) g"
  using assms by (auto simp: requireStrongFactorDecision_def guard_result_Inr_iff list_ex_iff truthy_text_def split: option.splits)

lemma decision_found:
  assumes "DecisionRec d \<in> set (stored_records (run_gate h k cs))" and "RequestRec a \<in> set (stored_records (run_gate h k cs))"
    and "qa_tenantId a = qd_tenantId d" and "qa_id a = qd_requestId d"
  shows "\<exists>env now effect job policy g. DecideApproval env d \<in> set cs \<and> date_parse (ge_now env) = Some now
     \<and> ge_effect env (qa_tenantId a) (qa_effectIntentId a) = Some (effect, job) \<and> ef_state effect = EffProposed
     \<and> ef_operationDigest effect = qa_operationDigest a \<and> ef_risk effect = qa_risk a \<and> ef_operation effect \<in> set (allowedOperations (jb_authority job))
     \<and> riskRank (ef_risk effect) \<le> riskRank (maxRisk (jb_authority job)) \<and> jb_state job \<in> {JobLeased, JobRunning, JobWaitingApproval}
     \<and> ge_policy env (qd_tenantId d) (qd_policyDecisionId d) = Some policy \<and> pw_allowed policy \<and> pw_identityState policy = ''active''
     \<and> pw_identityId policy = cp_actorId (qd_decidedBy d) \<and> pw_action policy = ''approval.decide'' \<and> pw_resourceId policy = qa_effectIntentId a
     \<and> pw_strongFactorEvidenceId policy \<notin> {None, Some []}
     \<and> g \<in> set (ge_grants env (qd_tenantId d) (cp_actorId (qd_decidedBy d))) \<and> approval_grant_active a d now (pw_grantIds policy) g"
proof -
  have gl: "gate_log h (stored_records (run_gate h k cs))" using run_gate_inv [of h k cs] by (simp add: gate_inv_def)
  obtain env a' now where env: "DecideApproval env d \<in> set cs" "RequestRec a' \<in> set (stored_records (run_gate h k cs))" "qa_tenantId a' = qd_tenantId d" "qa_id a' = qd_requestId d"
      "date_parse (ge_now env) = Some now" "requireApprovableEffect h env a' = Inr ()" "requireStrongFactorDecision h env a' d now = Inr ()"
    using recorded_decision_authorised [OF assms(1)] unfolding decision_authorised_def by blast
  have "a' = a" using log_same_id [OF gl env(2) assms(2)] env(3,4) assms(3,4) by simp
  then show ?thesis
    using env(1,5) requireApprovableEffect_Inr [OF env(6)] requireStrongFactorDecision_Inr [OF env(7)] by metis
qed

lemma decision_matches_times:
  assumes "decision_matches h a d" and "consequentialApprovalDecisionSchemaV1 h d" and "consequentialApprovalRequestSchemaV1 h a"
  shows "ms_leq (date_parse (qa_requestedAt a)) (date_parse (qd_decidedAt d))" and "ms_less (date_parse (qd_decidedAt d)) (date_parse (qa_expiresAt a))"
    and "ms_less (date_parse (qd_decidedAt d)) (date_parse (qd_expiresAt d))" and "ms_leq (date_parse (qd_expiresAt d)) (date_parse (qa_expiresAt a))"
  using assms unfolding consequentialApprovalDecisionSchemaV1_def consequentialApprovalRequestSchemaV1_def decision_matches_def ms_less_iff ms_leq_iff
  by auto

text \<open>
  C11. A consequential effect is decided at most once. After any sequence of operations, the decisions on record for one effect intent
  of a tenant are one and the same; it was made by a person, on the one recorded request for that effect, in the request's project,
  for exactly the requested operation, and within the request's lifetime: not before the request was made and before it expired,
  with an expiry after the decision and no later than the request's. It was recorded by a command of the run that found the
  effect still proposed, with the requested operation and risk, inside the authority of a live job, and found an allowing policy decision on
  that effect for the deciding person, with strong-factor evidence and an active grant of that person.
\<close>

theorem effect_decided_once:
  assumes "DecisionRec d \<in> set (stored_records (run_gate h k cs))"
  shows "\<exists>a. RequestRec a \<in> set (stored_records (run_gate h k cs)) \<and> qa_tenantId a = qd_tenantId d \<and> qa_id a = qd_requestId d
     \<and> qd_projectId d = qa_projectId a
     \<and> cp_actorType (qd_decidedBy d) = Human \<and> qd_requestDigest d = sha256Digest h (approval_request_json a) \<and> qd_operationDigest d = qa_operationDigest a
     \<and> ms_leq (date_parse (qa_requestedAt a)) (date_parse (qd_decidedAt d)) \<and> ms_less (date_parse (qd_decidedAt d)) (date_parse (qa_expiresAt a))
     \<and> ms_less (date_parse (qd_decidedAt d)) (date_parse (qd_expiresAt d)) \<and> ms_leq (date_parse (qd_expiresAt d)) (date_parse (qa_expiresAt a))
     \<and> (\<exists>env now effect job policy g. DecideApproval env d \<in> set cs \<and> date_parse (ge_now env) = Some now
          \<and> ge_effect env (qa_tenantId a) (qa_effectIntentId a) = Some (effect, job) \<and> ef_state effect = EffProposed
          \<and> ef_operationDigest effect = qa_operationDigest a \<and> ef_risk effect = qa_risk a \<and> ef_operation effect \<in> set (allowedOperations (jb_authority job))
          \<and> riskRank (ef_risk effect) \<le> riskRank (maxRisk (jb_authority job)) \<and> jb_state job \<in> {JobLeased, JobRunning, JobWaitingApproval}
          \<and> ge_policy env (qd_tenantId d) (qd_policyDecisionId d) = Some policy \<and> pw_allowed policy \<and> pw_identityState policy = ''active''
          \<and> pw_identityId policy = cp_actorId (qd_decidedBy d) \<and> pw_action policy = ''approval.decide'' \<and> pw_resourceId policy = qa_effectIntentId a
          \<and> pw_strongFactorEvidenceId policy \<notin> {None, Some []}
          \<and> g \<in> set (ge_grants env (qd_tenantId d) (cp_actorId (qd_decidedBy d))) \<and> approval_grant_active a d now (pw_grantIds policy) g)
     \<and> (\<forall>d' a'. DecisionRec d' \<in> set (stored_records (run_gate h k cs)) \<and> RequestRec a' \<in> set (stored_records (run_gate h k cs))
          \<and> qa_tenantId a' = qd_tenantId d' \<and> qa_id a' = qd_requestId d' \<and> qa_tenantId a' = qa_tenantId a
          \<and> qa_effectIntentId a' = qa_effectIntentId a \<longrightarrow> a' = a \<and> d' = d)"
proof -
  let ?recs = "stored_records (run_gate h k cs)"
  have gl: "gate_log h ?recs" using run_gate_inv [of h k cs] by (simp add: gate_inv_def)
  obtain a where a: "RequestRec a \<in> set ?recs" "qa_tenantId a = qd_tenantId d" "qa_id a = qd_requestId d" "decision_matches h a d"
    by (rule log_decision [OF gl assms])
  have schemas: "consequentialApprovalDecisionSchemaV1 h d" "consequentialApprovalRequestSchemaV1 h a"
    using log_schema [OF gl assms] log_schema [OF gl a(1)] by simp_all
  have human: "cp_actorType (qd_decidedBy d) = Human" using schemas(1) by (simp add: consequentialApprovalDecisionSchemaV1_def)
  have one: "a' = a \<and> d' = d" if "DecisionRec d' \<in> set ?recs" "RequestRec a' \<in> set ?recs" "qa_tenantId a' = qd_tenantId d'"
    "qa_id a' = qd_requestId d'" "qa_tenantId a' = qa_tenantId a" "qa_effectIntentId a' = qa_effectIntentId a" for d' a'
    by (rule log_one_decision [OF gl that(1) assms that(2) a(1) that(5,6) that(3) [symmetric] that(4) [symmetric] a(2) [symmetric] a(3) [symmetric]])
  have "\<forall>d' a'. DecisionRec d' \<in> set ?recs \<and> RequestRec a' \<in> set ?recs \<and> qa_tenantId a' = qd_tenantId d' \<and> qa_id a' = qd_requestId d'
      \<and> qa_tenantId a' = qa_tenantId a \<and> qa_effectIntentId a' = qa_effectIntentId a \<longrightarrow> a' = a \<and> d' = d"
    by (intro allI impI, elim conjE) (rule one)
  moreover have "qd_projectId d = qa_projectId a" "qd_requestDigest d = sha256Digest h (approval_request_json a)" "qd_operationDigest d = qa_operationDigest a"
    using a(4) by (simp_all add: decision_matches_def)
  moreover note decision_found [OF assms a(1-3)]
  ultimately show ?thesis using a(1-3) human decision_matches_times [OF a(4) schemas] by blast
qed

theorem effect_decided_once_witness:
  "\<exists>a. RequestRec a \<in> set (stored_records (run_gate sample_host sample_keys approval_commands)) \<and> qa_id a = ''request:1''
     \<and> ms_less (date_parse (qd_decidedAt sample_decision)) (date_parse (qa_expiresAt a))"
proof -
  have "DecisionRec sample_decision \<in> set (stored_records (run_gate sample_host sample_keys approval_commands))"
    using holds_stored [OF approval_run] by simp
  moreover have "qd_requestId sample_decision = ''request:1''" by (simp add: sample_decision_def)
  ultimately show ?thesis using effect_decided_once [of sample_decision sample_host sample_keys approval_commands] by metis
qed


section \<open>Requests that are never recorded\<close>

text \<open>
  As the code stands, no request for the approval of a high or critical effect is recorded: the schema of a stored effect demands an
  approval of such an effect, and the gate demands that the effect has none.
\<close>

lemma high_risk_approval_refused:
  assumes "qa_risk a = High \<or> qa_risk a = Critical"
  shows "requireApprovableEffect h env a = Inl ApprovalBindingInvalid"
    and "requestApproval h k env a s \<noteq> (Inr (RequestRec a, False), s')"
proof -
  show refused: "requireApprovableEffect h env a = Inl ApprovalBindingInvalid"
    using assms by (auto simp: requireApprovableEffect_def guard_result_def effectIntentRecordSchema_def truthy_text_def split: option.splits)
  then show "requestApproval h k env a s \<noteq> (Inr (RequestRec a, False), s')" by (auto simp: requestApproval_def operation_simps split: option.splits)
qed

end
