(* ===== verification/Node_Protocol.thy ===== *)
theory Node_Protocol
  imports Security_State "HOL-Library.AList"
begin

text \<open>
  The node protocol: frames and their envelope schema (\<open>src/node-protocol/v1/types.ts\<close>, \<open>schemas.ts\<close>), version
  negotiation (\<open>versioning.ts\<close>), signatures (\<open>crypto.ts\<close>), the rate limiter (\<open>rate-limit.ts\<close>), the database replay guard
  (\<open>persistence.ts\<close>) and the authenticator that puts them together (\<open>authentication.ts\<close>).

  What a message body may hold is contracted by the components that exchange it (jobs, harnesses, fleet signals); those
  contracts are the parameter \<open>frame_bodies\<close>: the schema of the body of a type, and what a body must share with its frame. The
  bytes of a frame are given by their number and the value \<open>JSON.parse\<close> reads from them. A timestamp column holds an instant in
  milliseconds. The keys and checks of a table that an insertion can violate are branches of the insertion; its references to nodes and
  node keys are not, since a frame gets that far only with a resolved key.
\<close>

section \<open>Frames\<close>

definition NODE_PROTOCOL_V1 :: string where
  "NODE_PROTOCOL_V1 = ''control-room-node/v1''"

definition NODE_PROTOCOL_SUPPORTED_VERSIONS :: "string list" where
  "NODE_PROTOCOL_SUPPORTED_VERSIONS = [NODE_PROTOCOL_V1]"

datatype protocol_direction = NodeToServer | ServerToNode
datatype sender_kind = NodeSender | ControlRoomSender

fun direction_text :: "protocol_direction \<Rightarrow> string" where
  "direction_text NodeToServer = ''node_to_server''"
| "direction_text ServerToNode = ''server_to_node''"

fun sender_text :: "sender_kind \<Rightarrow> string" where
  "sender_text NodeSender = ''node''"
| "sender_text ControlRoomSender = ''control_room''"

record node_frame =
  fr_protocol :: string
  fr_direction :: protocol_direction
  fr_messageId :: string
  fr_correlationId :: string
  fr_causationId :: "string option"
  fr_tenantId :: string
  fr_actorId :: string
  fr_senderKind :: sender_kind
  fr_keyId :: string
  fr_connectionId :: string
  fr_sequence :: rat
  fr_sentAt :: string
  fr_expiresAt :: string
  fr_nonce :: string
  fr_type :: string
  fr_body :: json
  fr_bodyDigest :: string
  fr_signature :: string

text \<open>\<open>frameSigningMaterial\<close>: everything but the signature.\<close>

definition frameSigningMaterial :: "node_frame \<Rightarrow> (string \<times> json) list" where
  "frameSigningMaterial f = [(''protocol'', JStr (fr_protocol f)), (''direction'', JStr (direction_text (fr_direction f))),
     (''messageId'', JStr (fr_messageId f)), (''correlationId'', JStr (fr_correlationId f))]
     @ opt_field ''causationId'' JStr (fr_causationId f)
     @ [(''tenantId'', JStr (fr_tenantId f)), (''actorId'', JStr (fr_actorId f)), (''senderKind'', JStr (sender_text (fr_senderKind f))),
        (''keyId'', JStr (fr_keyId f)), (''connectionId'', JStr (fr_connectionId f)), (''sequence'', JNum (fr_sequence f)),
        (''sentAt'', JStr (fr_sentAt f)), (''expiresAt'', JStr (fr_expiresAt f)), (''nonce'', JStr (fr_nonce f)),
        (''type'', JStr (fr_type f)), (''body'', fr_body f), (''bodyDigest'', JStr (fr_bodyDigest f))]"

definition frame_json :: "node_frame \<Rightarrow> json" where
  "frame_json f = JObj (frameSigningMaterial f @ [(''signature'', JStr (fr_signature f))])"

definition frame_keys :: "string list" where
  "frame_keys = [''protocol'', ''direction'', ''messageId'', ''correlationId'', ''causationId'', ''tenantId'', ''actorId'', ''senderKind'', ''keyId'',
     ''connectionId'', ''sequence'', ''sentAt'', ''expiresAt'', ''nonce'', ''type'', ''body'', ''bodyDigest'', ''signature'']"

definition text_of :: "(string \<times> json) list \<Rightarrow> string \<Rightarrow> string option" where
  "text_of kvs key = (case map_of kvs key of Some (JStr s) \<Rightarrow> Some s | _ \<Rightarrow> None)"

definition direction_of :: "string option \<Rightarrow> protocol_direction option" where
  "direction_of t = (if t = Some ''node_to_server'' then Some NodeToServer else if t = Some ''server_to_node'' then Some ServerToNode else None)"

definition sender_of :: "string option \<Rightarrow> sender_kind option" where
  "sender_of t = (if t = Some ''node'' then Some NodeSender else if t = Some ''control_room'' then Some ControlRoomSender else None)"

definition number_of :: "(string \<times> json) list \<Rightarrow> string \<Rightarrow> rat option" where
  "number_of kvs key = (case map_of kvs key of Some (JNum n) \<Rightarrow> Some n | _ \<Rightarrow> None)"

text \<open>The strict object: no other key, every required field of its type, an optional cause that is a text if it is there.\<close>

definition frame_of_json :: "json \<Rightarrow> node_frame option" where
  "frame_of_json v = (case v of JObj kvs \<Rightarrow>
       (if \<not> set (map fst kvs) \<subseteq> set frame_keys \<or> map_of kvs ''causationId'' \<noteq> None \<and> text_of kvs ''causationId'' = None then None
        else Option.bind (text_of kvs ''protocol'') (\<lambda>protocol.
          Option.bind (direction_of (text_of kvs ''direction'')) (\<lambda>direction.
          Option.bind (text_of kvs ''messageId'') (\<lambda>messageId.
          Option.bind (text_of kvs ''correlationId'') (\<lambda>correlationId.
          Option.bind (text_of kvs ''tenantId'') (\<lambda>tenantId.
          Option.bind (text_of kvs ''actorId'') (\<lambda>actorId.
          Option.bind (sender_of (text_of kvs ''senderKind'')) (\<lambda>senderKind.
          Option.bind (text_of kvs ''keyId'') (\<lambda>keyId.
          Option.bind (text_of kvs ''connectionId'') (\<lambda>connectionId.
          Option.bind (number_of kvs ''sequence'') (\<lambda>sequence.
          Option.bind (text_of kvs ''sentAt'') (\<lambda>sentAt.
          Option.bind (text_of kvs ''expiresAt'') (\<lambda>expiresAt.
          Option.bind (text_of kvs ''nonce'') (\<lambda>nonce.
          Option.bind (text_of kvs ''type'') (\<lambda>type.
          Option.bind (map_of kvs ''body'') (\<lambda>body.
          Option.bind (text_of kvs ''bodyDigest'') (\<lambda>bodyDigest.
          Option.bind (text_of kvs ''signature'') (\<lambda>signature.
          Some \<lparr>fr_protocol = protocol, fr_direction = direction, fr_messageId = messageId, fr_correlationId = correlationId,
            fr_causationId = text_of kvs ''causationId'', fr_tenantId = tenantId, fr_actorId = actorId, fr_senderKind = senderKind, fr_keyId = keyId,
            fr_connectionId = connectionId, fr_sequence = sequence, fr_sentAt = sentAt, fr_expiresAt = expiresAt, fr_nonce = nonce,
            fr_type = type, fr_body = body, fr_bodyDigest = bodyDigest, fr_signature = signature\<rparr>))))))))))))))))))
     | _ \<Rightarrow> None)"

text \<open>The message types, with the direction and the signer that the schema of some of them fixes.\<close>

definition from_node :: "(protocol_direction \<times> sender_kind) option" where
  "from_node = Some (NodeToServer, NodeSender)"

definition from_server :: "(protocol_direction \<times> sender_kind) option" where
  "from_server = Some (ServerToNode, ControlRoomSender)"

definition frame_types :: "(string \<times> (protocol_direction \<times> sender_kind) option) list" where
  "frame_types = [(''connection.hello'', None), (''connection.accepted'', None), (''connection.enrollment.deliver'', from_node),
     (''node.heartbeat'', None), (''node.fleet.signal'', None), (''job.offer'', None), (''job.offer.decision'', None), (''job.lease.grant'', None),
     (''job.lease.renew.request'', from_node), (''job.lease.renewed'', None), (''job.event'', None), (''harness.native.snapshot'', from_node),
     (''harness.native.dispatch'', from_server), (''harness.native.dispatch.receipt'', from_node), (''harness.codex.dispatch'', from_server),
     (''harness.codex.dispatch.receipt'', from_node), (''harness.codex.dispatch.activation'', from_server),
     (''harness.codex.current-admission.read'', from_node), (''harness.codex.current-admission.read.response'', from_server),
     (''harness.codex.result.return'', from_node), (''harness.codex.result.return.receipt'', from_server), (''controller.worker.delivery'', from_server),
     (''controller.worker.delivery.receipt'', from_node), (''controller.worker.delivery.receipt.recovery'', from_node),
     (''controller.worker.result.progress'', from_node), (''controller.worker.result.terminal'', from_node), (''job.cancel'', None),
     (''job.cancel.ack'', None), (''node.reconciliation.request'', None), (''node.reconciliation.report'', None), (''node.operation.request'', None),
     (''node.operation.ack'', None), (''protocol.ack'', None), (''protocol.error'', None)]"

definition nodeToServerTypes :: "string list" where
  "nodeToServerTypes = [''connection.hello'', ''connection.enrollment.deliver'', ''node.heartbeat'', ''node.fleet.signal'', ''job.offer.decision'',
     ''job.lease.renew.request'', ''job.event'', ''harness.native.snapshot'', ''harness.native.dispatch.receipt'', ''harness.codex.dispatch.receipt'',
     ''harness.codex.current-admission.read'', ''harness.codex.result.return'', ''controller.worker.delivery.receipt'',
     ''controller.worker.delivery.receipt.recovery'', ''controller.worker.result.progress'', ''controller.worker.result.terminal'', ''job.cancel.ack'',
     ''node.reconciliation.report'', ''node.operation.ack'', ''protocol.ack'', ''protocol.error'']"

definition serverToNodeTypes :: "string list" where
  "serverToNodeTypes = [''connection.accepted'', ''job.offer'', ''job.lease.grant'', ''job.lease.renewed'', ''job.cancel'', ''harness.native.dispatch'',
     ''harness.codex.dispatch'', ''harness.codex.dispatch.activation'', ''harness.codex.current-admission.read.response'',
     ''harness.codex.result.return.receipt'', ''controller.worker.delivery'', ''node.reconciliation.request'', ''node.operation.request'',
     ''protocol.ack'', ''protocol.error'']"

record frame_bodies =
  fb_schema :: "string \<Rightarrow> json \<Rightarrow> bool"
  fb_binding :: "node_frame \<Rightarrow> bool"

definition protocolId :: "string \<Rightarrow> bool" where
  "protocolId s \<longleftrightarrow> text_between 1 160 s \<and> safe_id_pattern s"

definition protocolBase64url :: "string \<Rightarrow> bool" where
  "protocolBase64url s \<longleftrightarrow> text_between 16 16384 s \<and> base64url_pattern s"

definition baseFrame :: "host \<Rightarrow> node_frame \<Rightarrow> bool" where
  "baseFrame h f \<longleftrightarrow> fr_protocol f = NODE_PROTOCOL_V1 \<and> protocolId (fr_messageId f) \<and> protocolId (fr_correlationId f)
     \<and> opt_all protocolId (fr_causationId f) \<and> protocolId (fr_tenantId f) \<and> protocolId (fr_actorId f) \<and> protocolId (fr_keyId f)
     \<and> protocolId (fr_connectionId f) \<and> z_int (fr_sequence f) \<and> 0 < fr_sequence f \<and> isoDate h (fr_sentAt f) \<and> isoDate h (fr_expiresAt f)
     \<and> protocolBase64url (fr_nonce f) \<and> digest_pattern (fr_bodyDigest f) \<and> protocolBase64url (fr_signature f)"

definition signedNodeFrameSchema :: "host \<Rightarrow> frame_bodies \<Rightarrow> node_frame \<Rightarrow> bool" where
  "signedNodeFrameSchema h bodies f \<longleftrightarrow> baseFrame h f
     \<and> (case map_of frame_types (fr_type f) of None \<Rightarrow> False
        | Some authority \<Rightarrow> opt_all (\<lambda>a. fr_direction f = fst a \<and> fr_senderKind f = snd a) authority)
     \<and> fb_schema bodies (fr_type f) (fr_body f)
     \<and> \<not> ms_leq (date_parse (fr_expiresAt f)) (date_parse (fr_sentAt f))
     \<and> \<not> (fr_direction f = NodeToServer \<and> fr_senderKind f \<noteq> NodeSender)
     \<and> \<not> (fr_direction f = ServerToNode \<and> fr_senderKind f \<noteq> ControlRoomSender)
     \<and> fb_binding bodies f"


section \<open>Versions, digests and signatures\<close>

definition negotiateProtocolVersion :: "string list \<Rightarrow> string list \<Rightarrow> string option" where
  "negotiateProtocolVersion remote versions = find (\<lambda>v. v \<in> set remote) versions"

definition opaqueTokenDigest :: "host \<Rightarrow> string \<Rightarrow> string" where
  "opaqueTokenDigest h token = ''sha256:'' @ sha256_hex h token"

definition opaqueTokenMatches :: "host \<Rightarrow> string \<Rightarrow> string \<Rightarrow> bool" where
  "opaqueTokenMatches h token expected \<longleftrightarrow> opaqueTokenDigest h token = expected"

text \<open>\<open>None\<close> where reading the key or verifying throws.\<close>

definition verifyNodeFrameSignature :: "host \<Rightarrow> node_frame \<Rightarrow> string \<Rightarrow> bool option" where
  "verifyNodeFrameSignature h f spki = ed25519_verify h spki (fr_signature f) (canonicalJson (JObj (frameSigningMaterial f)))"


section \<open>The rate limiter\<close>

record rate_bucket =
  rb_windowStartMs :: int
  rb_count :: int

type_synonym rate_buckets = "(string \<times> rate_bucket) list"

record rate_config =
  rf_maximum :: int
  rf_windowSeconds :: int
  rf_maximumBuckets :: int

definition rate_constructor :: "rate_config \<Rightarrow> bool" where
  "rate_constructor c \<longleftrightarrow> 1 \<le> rf_maximum c \<and> 1 \<le> rf_windowSeconds c \<and> 1 \<le> rf_maximumBuckets c"

definition rate_windowMs :: "rate_config \<Rightarrow> int" where
  "rate_windowMs c = rf_windowSeconds c * 1000"

definition rate_key :: "string \<Rightarrow> protocol_direction \<Rightarrow> string" where
  "rate_key transportIdentity direction = transportIdentity @ CHR 0x00 # direction_text direction"

definition rate_prune :: "int \<Rightarrow> int \<Rightarrow> rate_buckets \<Rightarrow> rate_buckets" where
  "rate_prune now windowMs bs = filter (\<lambda>(key, b). \<not> windowMs \<le> now - rb_windowStartMs b) bs"

datatype rate_error = InvalidTransportIdentity | InvalidRateTimestamp | RateCapacityReached | RateLimitExceeded

definition rate_consume :: "rate_config \<Rightarrow> string \<Rightarrow> protocol_direction \<Rightarrow> string \<Rightarrow> rate_buckets \<Rightarrow> (rate_error, unit) result \<times> rate_buckets" where
  "rate_consume c transportIdentity direction receivedAt bs =
     (if transportIdentity = [] \<or> 256 < length transportIdentity then (Inl InvalidTransportIdentity, bs)
      else case date_parse receivedAt of None \<Rightarrow> (Inl InvalidRateTimestamp, bs)
      | Some now \<Rightarrow>
          let key = rate_key transportIdentity direction; windowMs = rate_windowMs c in
          case map_of bs key of
            Some b \<Rightarrow>
              if windowMs \<le> now - rb_windowStartMs b then (Inr (), AList.update key \<lparr>rb_windowStartMs = now, rb_count = 1\<rparr> bs)
              else if rf_maximum c \<le> rb_count b then (Inl RateLimitExceeded, bs)
              else (Inr (), AList.update key (b\<lparr>rb_count := rb_count b + 1\<rparr>) bs)
          | None \<Rightarrow>
              let bs' = (if rf_maximumBuckets c \<le> int (length bs) then rate_prune now windowMs bs else bs) in
              if rf_maximumBuckets c \<le> int (length bs') then (Inl RateCapacityReached, bs')
              else (Inr (), AList.update key \<lparr>rb_windowStartMs = now, rb_count = 1\<rparr> bs'))"


section \<open>The replay guard\<close>

record connection_row =
  cx_tenantId :: string
  cx_nodeId :: string
  cx_connectionId :: string
  cx_direction :: protocol_direction
  cx_lastSequence :: rat
  cx_lastMessageId :: string

record replay_row =
  ry_tenantId :: string
  ry_nodeId :: string
  ry_keyId :: string
  ry_direction :: protocol_direction
  ry_messageId :: string
  ry_nonceDigest :: string
  ry_connectionId :: string
  ry_sequence :: rat
  ry_receivedAt :: int
  ry_expiresAt :: int
  ry_frameDigest :: string

record replay_db =
  rd_connections :: "connection_row list"
  rd_replay :: "replay_row list"

definition empty_replay :: replay_db where
  "empty_replay = \<lparr>rd_connections = [], rd_replay = []\<rparr>"

datatype delivery = DeliveryAccepted | DeliveryDuplicate

datatype replay_error = ReplayNotNode | ReplayConflict | ReplayNoHello | ReplayOutOfSequence | ReplayConstraint

definition prior_rows :: "node_frame \<Rightarrow> string \<Rightarrow> replay_db \<Rightarrow> replay_row list" where
  "prior_rows f nonceDigest db = filter (\<lambda>r. ry_tenantId r = fr_tenantId f \<and> ry_nodeId r = fr_actorId f \<and> ry_keyId r = fr_keyId f
     \<and> (ry_messageId r = fr_messageId f \<or> ry_nonceDigest r = nonceDigest)) (rd_replay db)"

definition connection_of :: "node_frame \<Rightarrow> connection_row \<Rightarrow> bool" where
  "connection_of f c \<longleftrightarrow> cx_tenantId c = fr_tenantId f \<and> cx_nodeId c = fr_actorId f \<and> cx_connectionId c = fr_connectionId f
     \<and> cx_direction c = fr_direction f"

text \<open>The keys of the replay table: the message in its direction, the nonce under a key, the sequence number of a connection.\<close>

definition replay_clash :: "replay_row \<Rightarrow> replay_row \<Rightarrow> bool" where
  "replay_clash a b \<longleftrightarrow> ry_tenantId a = ry_tenantId b \<and> ry_nodeId a = ry_nodeId b
     \<and> (ry_direction a = ry_direction b \<and> ry_messageId a = ry_messageId b \<or> ry_keyId a = ry_keyId b \<and> ry_nonceDigest a = ry_nonceDigest b
        \<or> ry_connectionId a = ry_connectionId b \<and> ry_direction a = ry_direction b \<and> ry_sequence a = ry_sequence b)"

definition insert_replay :: "replay_row \<Rightarrow> replay_db \<Rightarrow> (replay_error, replay_db) result" where
  "insert_replay row db = (if list_ex (replay_clash row) (rd_replay db) \<or> ry_expiresAt row < ry_receivedAt row then Inl ReplayConstraint
     else Inr (db\<lparr>rd_replay := rd_replay db @ [row]\<rparr>))"

definition advance_connection :: "node_frame \<Rightarrow> replay_db \<Rightarrow> (replay_error, replay_db) result" where
  "advance_connection f db =
     (case find (connection_of f) (rd_connections db) of
        None \<Rightarrow>
          (if fr_sequence f \<noteq> 1 \<or> fr_type f \<noteq> ''connection.hello'' then Inl ReplayNoHello
           else Inr (db\<lparr>rd_connections := rd_connections db @ [\<lparr>cx_tenantId = fr_tenantId f, cx_nodeId = fr_actorId f,
             cx_connectionId = fr_connectionId f, cx_direction = fr_direction f, cx_lastSequence = fr_sequence f, cx_lastMessageId = fr_messageId f\<rparr>]\<rparr>))
      | Some c \<Rightarrow>
          (if fr_sequence f \<noteq> cx_lastSequence c + 1 then Inl ReplayOutOfSequence
           else Inr (db\<lparr>rd_connections := map (\<lambda>c. if connection_of f c
             then c\<lparr>cx_lastSequence := fr_sequence f, cx_lastMessageId := fr_messageId f\<rparr> else c) (rd_connections db)\<rparr>)))"

definition replay_consume :: "host \<Rightarrow> node_frame \<Rightarrow> int \<Rightarrow> replay_db \<Rightarrow> (replay_error, delivery \<times> replay_db) result" where
  "replay_consume h f receivedAt db =
     guard_result (fr_senderKind f = NodeSender) ReplayNotNode (
     let frameDigest = sha256Digest h (frame_json f); nonceDigest = opaqueTokenDigest h (fr_nonce f) in
     case prior_rows f nonceDigest db of
       [] \<Rightarrow>
         bind_result (advance_connection f db) (\<lambda>db'.
         bind_result (insert_replay \<lparr>ry_tenantId = fr_tenantId f, ry_nodeId = fr_actorId f, ry_keyId = fr_keyId f, ry_direction = fr_direction f,
           ry_messageId = fr_messageId f, ry_nonceDigest = nonceDigest, ry_connectionId = fr_connectionId f, ry_sequence = fr_sequence f,
           ry_receivedAt = receivedAt, ry_expiresAt = (case date_parse (fr_expiresAt f) of None \<Rightarrow> 0 | Some t \<Rightarrow> t), ry_frameDigest = frameDigest\<rparr> db') (\<lambda>db''.
         Inr (DeliveryAccepted, db'')))
     | [p] \<Rightarrow>
         (if ry_messageId p = fr_messageId f \<and> ry_nonceDigest p = nonceDigest \<and> ry_connectionId p = fr_connectionId f
            \<and> ry_sequence p = fr_sequence f \<and> ry_frameDigest p = frameDigest
          then Inr (DeliveryDuplicate, db) else Inl ReplayConflict)
     | _ \<Rightarrow> Inl ReplayConflict)"

definition pruneExpired :: "int \<Rightarrow> replay_db \<Rightarrow> nat \<times> replay_db" where
  "pruneExpired before db = (length (filter (\<lambda>r. ry_expiresAt r < before) (rd_replay db)),
     db\<lparr>rd_replay := filter (\<lambda>r. \<not> ry_expiresAt r < before) (rd_replay db)\<rparr>)"


section \<open>The authenticator\<close>

datatype auth_code = MalformedFrame | UnsupportedVersion | FrameExpired | Unauthenticated | Forbidden | Replayed | RateLimited

datatype protocol_key_state = ProtocolKeyActive | ProtocolKeyRetired | ProtocolKeyRevoked

record trusted_key =
  nk_tenantId :: string
  nk_actorId :: string
  nk_senderKind :: sender_kind
  nk_keyId :: string
  nk_publicKeySpki :: string
  nk_keyState :: protocol_key_state
  nk_principalState :: node_state
  nk_validFrom :: string
  nk_validUntil :: "string option"

type_synonym key_resolver = "string \<Rightarrow> string \<Rightarrow> sender_kind \<Rightarrow> string \<Rightarrow> trusted_key option"

record verify_options =
  vo_expectedDirection :: protocol_direction
  vo_receivedAt :: string
  vo_maxFrameBytes :: int
  vo_maxClockSkewSeconds :: int
  vo_maxLifetimeSeconds :: int
  vo_transportIdentity :: string
  vo_expectedConnectionId :: "string option"

definition default_options :: "protocol_direction \<Rightarrow> string \<Rightarrow> string \<Rightarrow> verify_options" where
  "default_options direction receivedAt transportIdentity = \<lparr>vo_expectedDirection = direction, vo_receivedAt = receivedAt,
     vo_maxFrameBytes = 1048576, vo_maxClockSkewSeconds = 30, vo_maxLifetimeSeconds = 300, vo_transportIdentity = transportIdentity,
     vo_expectedConnectionId = None\<rparr>"

record raw_frame =
  rx_bytes :: int
  rx_json :: "json option"

record auth_state =
  au_buckets :: rate_buckets
  au_replay :: replay_db

type_synonym 'a auth_step = "(auth_state, auth_code, 'a) effect_step"

definition offered_protocol :: "json \<Rightarrow> string option" where
  "offered_protocol v = (case v of JObj kvs \<Rightarrow> text_of kvs ''protocol'' | _ \<Rightarrow> None)"

definition parse_frame :: "host \<Rightarrow> frame_bodies \<Rightarrow> verify_options \<Rightarrow> raw_frame \<Rightarrow> (auth_code, node_frame) result" where
  "parse_frame h bodies opts raw =
     guard_result (\<not> vo_maxFrameBytes opts < rx_bytes raw) MalformedFrame (
     case rx_json raw of None \<Rightarrow> Inl MalformedFrame
     | Some v \<Rightarrow>
         guard_result (opt_all (\<lambda>p. p \<in> set NODE_PROTOCOL_SUPPORTED_VERSIONS) (offered_protocol v)) UnsupportedVersion (
         case frame_of_json v of None \<Rightarrow> Inl MalformedFrame
         | Some f \<Rightarrow> guard_result (signedNodeFrameSchema h bodies f) MalformedFrame (Inr f)))"

definition frame_expected :: "verify_options \<Rightarrow> node_frame \<Rightarrow> bool" where
  "frame_expected opts f \<longleftrightarrow> \<not> (truthy_text (vo_expectedConnectionId opts) \<and> vo_expectedConnectionId opts \<noteq> Some (fr_connectionId f))
     \<and> fr_direction f = vo_expectedDirection opts
     \<and> fr_type f \<in> set (if fr_direction f = NodeToServer then nodeToServerTypes else serverToNodeTypes)"

text \<open>The window of a frame; a date that does not parse compares false.\<close>

definition frame_window :: "verify_options \<Rightarrow> node_frame \<Rightarrow> (auth_code, int) result" where
  "frame_window opts f =
     (case date_parse (vo_receivedAt opts) of None \<Rightarrow> Inl FrameExpired
      | Some received \<Rightarrow>
          guard_result (\<not> (ms_less (date_parse (fr_expiresAt f)) (Some received)
            \<or> ms_less (Some (received + vo_maxClockSkewSeconds opts * 1000)) (date_parse (fr_sentAt f))
            \<or> ms_less (map_option (\<lambda>t. t + vo_maxLifetimeSeconds opts * 1000) (date_parse (fr_sentAt f))) (date_parse (fr_expiresAt f)))) FrameExpired
          (Inr received))"

definition key_permits :: "node_frame \<Rightarrow> int \<Rightarrow> trusted_key option \<Rightarrow> (auth_code, trusted_key) result" where
  "key_permits f received key =
     (case key of None \<Rightarrow> Inl Unauthenticated
      | Some t \<Rightarrow>
          guard_result (nk_tenantId t = fr_tenantId f \<and> nk_actorId t = fr_actorId f \<and> nk_senderKind t = fr_senderKind f \<and> nk_keyId t = fr_keyId f)
            Unauthenticated (
          guard_result (nk_keyState t = ProtocolKeyActive \<and> nk_principalState t \<notin> {NodePendingEnrollment, NodeQuarantined, NodeRevoked}) Forbidden (
          guard_result (\<not> (date_parse (nk_validFrom t) = None \<or> truthy_text (nk_validUntil t) \<and> date_parse (the (nk_validUntil t)) = None
            \<or> ms_less (Some received) (date_parse (nk_validFrom t))
            \<or> truthy_text (nk_validUntil t) \<and> ms_leq (date_parse (the (nk_validUntil t))) (Some received))) Unauthenticated (Inr t))))"

definition consume_rate :: "rate_config \<Rightarrow> verify_options \<Rightarrow> node_frame \<Rightarrow> string \<Rightarrow> unit auth_step" where
  "consume_rate c opts f receivedAt s =
     (case rate_consume c (vo_transportIdentity opts) (fr_direction f) receivedAt (au_buckets s) of
        (Inl _, bs) \<Rightarrow> (Inl RateLimited, s\<lparr>au_buckets := bs\<rparr>) | (Inr _, bs) \<Rightarrow> (Inr (), s\<lparr>au_buckets := bs\<rparr>))"

definition consume_replay :: "host \<Rightarrow> node_frame \<Rightarrow> int \<Rightarrow> delivery auth_step" where
  "consume_replay h f received s =
     (case replay_consume h f received (au_replay s) of Inl _ \<Rightarrow> (Inl Replayed, s) | Inr (d, db) \<Rightarrow> (Inr d, s\<lparr>au_replay := db\<rparr>))"

definition verify_frame :: "host \<Rightarrow> frame_bodies \<Rightarrow> rate_config \<Rightarrow> key_resolver \<Rightarrow> verify_options \<Rightarrow> raw_frame \<Rightarrow> (node_frame \<times> delivery) auth_step" where
  "verify_frame h bodies c resolve opts raw =
     bind_step (lift_step (parse_frame h bodies opts raw)) (\<lambda>f.
     bind_step (check_step (frame_expected opts f) Forbidden) (\<lambda>_.
     bind_step (lift_step (frame_window opts f)) (\<lambda>received.
     bind_step (lift_step (case to_iso received of None \<Rightarrow> Inl RateLimited | Some t \<Rightarrow> Inr t)) (\<lambda>receivedAt.
     bind_step (consume_rate c opts f receivedAt) (\<lambda>_.
     bind_step (check_step (digestMatches h (fr_body f) (fr_bodyDigest f)) Unauthenticated) (\<lambda>_.
     bind_step (lift_step (case assertNoSecretMaterial (fr_body f) ''protocol body'' of Inl _ \<Rightarrow> Inl Forbidden | Inr _ \<Rightarrow> Inr ())) (\<lambda>_.
     bind_step (lift_step (key_permits f received (resolve (fr_tenantId f) (fr_actorId f) (fr_senderKind f) (fr_keyId f)))) (\<lambda>key.
     bind_step (check_step (verifyNodeFrameSignature h f (nk_publicKeySpki key) = Some True) Unauthenticated) (\<lambda>_.
     bind_step (consume_replay h f received) (\<lambda>d. return_step (f, d)))))))))))"

end
