(* ===== verification/Node_Rate_Limit.thy ===== *)
theory Node_Rate_Limit
  imports Node_Protocol
begin

text \<open>
  What the fixed-window rate limiter of the node protocol guarantees to a transport, when its clock does not go backwards.
\<close>

section \<open>Counting\<close>

definition how_many :: "('a \<Rightarrow> bool) \<Rightarrow> 'a list \<Rightarrow> int" where
  "how_many P ts = int (length (filter P ts))"

lemma how_many_simps [simp]:
  "how_many P [] = 0" "how_many P (ts @ us) = how_many P ts + how_many P us" "how_many P [t] = (if P t then 1 else 0)" "0 \<le> how_many P ts"
  by (simp_all add: how_many_def)

lemma how_many_mono: "(\<And>t. t \<in> set ts \<Longrightarrow> P t \<Longrightarrow> Q t) \<Longrightarrow> how_many P ts \<le> how_many Q ts"
  by (induction ts) (auto simp: how_many_def)

lemma how_many_cover: "(\<And>t. t \<in> set ts \<Longrightarrow> P t \<Longrightarrow> Q t \<or> R t) \<Longrightarrow> how_many P ts \<le> how_many Q ts + how_many R ts"
  by (induction ts) (auto simp: how_many_def)


section \<open>One bucket\<close>

text \<open>The times at which a transport was let through, up to the time \<open>latest\<close>, against its bucket.\<close>

definition metered :: "rate_config \<Rightarrow> int \<Rightarrow> rate_bucket option \<Rightarrow> int list \<Rightarrow> bool" where
  "metered c latest bucket ts \<longleftrightarrow> (\<forall>a. how_many (\<lambda>t. a \<le> t \<and> t < a + rate_windowMs c) ts \<le> 2 * rf_maximum c) \<and>
     (case bucket of
        None \<Rightarrow> (\<forall>t \<in> set ts. t < latest) \<and> how_many (\<lambda>t. latest - rate_windowMs c < t) ts \<le> rf_maximum c
      | Some b \<Rightarrow> (\<forall>t \<in> set ts. t < rb_windowStartMs b + rate_windowMs c) \<and> rb_windowStartMs b \<le> latest \<and> rb_count b \<le> rf_maximum c
          \<and> how_many (\<lambda>t. rb_windowStartMs b \<le> t) ts = rb_count b
          \<and> how_many (\<lambda>t. rb_windowStartMs b - rate_windowMs c < t \<and> t < rb_windowStartMs b) ts \<le> rf_maximum c)"

lemma metered_later: "metered c latest bucket ts \<Longrightarrow> latest \<le> now \<Longrightarrow> metered c now bucket ts"
  using how_many_mono [of ts "\<lambda>t. now - rate_windowMs c < t" "\<lambda>t. latest - rate_windowMs c < t"]
  by (auto simp: metered_def split: option.splits)

lemma metered_drop:
  assumes "metered c now (Some b) ts" and "rate_windowMs c \<le> now - rb_windowStartMs b"
  shows "metered c now None ts"
  using assms how_many_mono [of ts "\<lambda>t. now - rate_windowMs c < t" "\<lambda>t. rb_windowStartMs b \<le> t"] by (fastforce simp: metered_def)

lemma metered_open:
  assumes m: "metered c now None ts" and c: "rate_constructor c"
  shows "metered c now (Some \<lparr>rb_windowStartMs = now, rb_count = 1\<rparr>) (ts @ [now])"
proof -
  let ?W = "rate_windowMs c"
  have W: "0 < ?W" "1 \<le> rf_maximum c" using c by (simp_all add: rate_constructor_def rate_windowMs_def)
  have before: "\<forall>t \<in> set ts. t < now" and recent: "how_many (\<lambda>t. now - ?W < t) ts \<le> rf_maximum c" using m by (simp_all add: metered_def)
  have "how_many (\<lambda>t. a \<le> t \<and> t < a + ?W) (ts @ [now]) \<le> 2 * rf_maximum c" for a
  proof (cases "a \<le> now \<and> now < a + ?W")
    case True
    then have "how_many (\<lambda>t. a \<le> t \<and> t < a + ?W) ts \<le> how_many (\<lambda>t. now - ?W < t) ts" by (intro how_many_mono) auto
    then show ?thesis using recent W True by simp
  next
    case False
    then show ?thesis using m by (auto simp: metered_def)
  qed
  moreover have "how_many (\<lambda>t. now \<le> t) ts = 0" using before by (auto simp: how_many_def filter_empty_conv)
  moreover have "how_many (\<lambda>t. now - ?W < t \<and> t < now) ts \<le> rf_maximum c"
    using how_many_mono [of ts "\<lambda>t. now - ?W < t \<and> t < now" "\<lambda>t. now - ?W < t"] recent by simp
  ultimately show ?thesis using W before by (fastforce simp: metered_def)
qed

lemma metered_count:
  assumes m: "metered c now (Some b) ts" and room: "\<not> rf_maximum c \<le> rb_count b" and open_window: "\<not> rate_windowMs c \<le> now - rb_windowStartMs b"
  shows "metered c now (Some (b\<lparr>rb_count := rb_count b + 1\<rparr>)) (ts @ [now])"
proof -
  let ?W = "rate_windowMs c" and ?s = "rb_windowStartMs b"
  have b: "?s \<le> now" "how_many (\<lambda>t. ?s \<le> t) ts = rb_count b" "how_many (\<lambda>t. ?s - ?W < t \<and> t < ?s) ts \<le> rf_maximum c"
    using m by (simp_all add: metered_def)
  have "how_many (\<lambda>t. a \<le> t \<and> t < a + ?W) (ts @ [now]) \<le> 2 * rf_maximum c" for a
  proof (cases "a \<le> now \<and> now < a + ?W")
    case True
    then have "how_many (\<lambda>t. a \<le> t \<and> t < a + ?W) ts \<le> how_many (\<lambda>t. ?s \<le> t) ts + how_many (\<lambda>t. ?s - ?W < t \<and> t < ?s) ts"
      using b(1) by (intro how_many_cover) auto
    then show ?thesis using b room True by simp
  next
    case False
    then show ?thesis using m by (auto simp: metered_def)
  qed
  then show ?thesis using m room open_window b by (auto simp: metered_def)
qed


section \<open>All buckets\<close>

type_synonym rate_request = "string \<times> protocol_direction \<times> string"

text \<open>The times at which the requests of one transport and direction are let through.\<close>

fun passed_at :: "rate_config \<Rightarrow> string \<Rightarrow> rate_request list \<Rightarrow> rate_buckets \<Rightarrow> int list" where
  "passed_at c key [] bs = []"
| "passed_at c key ((transport, direction, receivedAt) # rs) bs =
     (case rate_consume c transport direction receivedAt bs of
        (Inl _, bs') \<Rightarrow> passed_at c key rs bs'
      | (Inr _, bs') \<Rightarrow> (if rate_key transport direction = key then [the (date_parse receivedAt)] else []) @ passed_at c key rs bs')"

definition clock_readings :: "rate_request list \<Rightarrow> int list" where
  "clock_readings rs = List.map_filter (\<lambda>(transport, direction, receivedAt). date_parse receivedAt) rs"

lemma map_of_filter_value:
  "distinct (map fst xs) \<Longrightarrow> map_of (filter (\<lambda>(k, v). P v) xs) k = (case map_of xs k of None \<Rightarrow> None | Some v \<Rightarrow> if P v then Some v else None)"
  by (induction xs) (auto simp: map_of_eq_None_iff split: option.splits)

lemma metered_prune:
  assumes "metered c now (map_of bs key) ts" and "distinct (map fst bs)"
  shows "metered c now (map_of (rate_prune now (rate_windowMs c) bs) key) ts"
  using assms metered_drop unfolding rate_prune_def
  by (auto simp: map_of_filter_value [where P = "\<lambda>b. \<not> rate_windowMs c \<le> now - rb_windowStartMs b"] split: option.splits)

lemma distinct_prune: "distinct (map fst bs) \<Longrightarrow> distinct (map fst (rate_prune now w bs))"
  by (induction bs) (auto simp: rate_prune_def)

lemma metered_consume:
  assumes m: "metered c now (map_of bs key) ts" and d: "distinct (map fst bs)" and c: "rate_constructor c" and now: "date_parse receivedAt = Some now"
    and r: "rate_consume c transport direction receivedAt bs = (r, bs')"
  shows "distinct (map fst bs')
     \<and> metered c now (map_of bs' key) (ts @ (if r = Inr () \<and> rate_key transport direction = key then [now] else []))"
proof -
  let ?k = "rate_key transport direction" and ?W = "rate_windowMs c"
  consider (invalid) "transport = [] \<or> 256 < length transport" | (known) b where "\<not> (transport = [] \<or> 256 < length transport)" "map_of bs ?k = Some b"
    | (fresh) "\<not> (transport = [] \<or> 256 < length transport)" "map_of bs ?k = None"
    by (cases "map_of bs ?k") auto
  then show ?thesis
  proof cases
    case invalid
    then show ?thesis using m d r by (auto simp: rate_consume_def)
  next
    case known
    have old: "metered c now (Some b) ts" if "?k = key" using m known that by simp
    show ?thesis
    proof (cases "?W \<le> now - rb_windowStartMs b")
      case True
      then have "r = Inr ()" "bs' = AList.update ?k \<lparr>rb_windowStartMs = now, rb_count = 1\<rparr> bs" using r known now by (auto simp: rate_consume_def)
      then show ?thesis using m d metered_open [OF metered_drop [OF old True] c] by (auto simp: update_conv' distinct_update)
    next
      case False
      then have "r = Inl RateLimitExceeded \<and> bs' = bs \<or> r = Inr () \<and> \<not> rf_maximum c \<le> rb_count b \<and> bs' = AList.update ?k (b\<lparr>rb_count := rb_count b + 1\<rparr>) bs"
        using r known now by (auto simp: rate_consume_def split: if_splits)
      then show ?thesis using m d metered_count [OF old _ False] by (auto simp: update_conv' distinct_update)
    qed
  next
    case fresh
    define pruned where "pruned = (if rf_maximumBuckets c \<le> int (length bs) then rate_prune now ?W bs else bs)"
    have p: "metered c now (map_of pruned key) ts" "distinct (map fst pruned)" "map_of pruned ?k = None"
      using metered_prune [OF m d] m d fresh distinct_prune [OF d]
      by (auto simp: pruned_def rate_prune_def map_of_filter_value [OF d, where P = "\<lambda>b. \<not> ?W \<le> now - rb_windowStartMs b"])
    have "r = Inl RateCapacityReached \<and> bs' = pruned \<or> r = Inr () \<and> bs' = AList.update ?k \<lparr>rb_windowStartMs = now, rb_count = 1\<rparr> pruned"
      using r fresh now by (auto simp: rate_consume_def pruned_def Let_def split: if_splits)
    moreover have "metered c now (Some \<lparr>rb_windowStartMs = now, rb_count = 1\<rparr>) (ts @ [now])" if "?k = key"
      using metered_open [OF _ c, of now ts] p(1,3) that by simp
    ultimately show ?thesis using p(1,2) by (auto simp: update_conv' distinct_update)
  qed
qed

lemma metered_granted:
  assumes "rate_constructor c" and "metered c latest (map_of bs key) ts" and "distinct (map fst bs)"
    and "sorted (clock_readings rs)" and "\<forall>t \<in> set (clock_readings rs). latest \<le> t"
  shows "how_many (\<lambda>t. a \<le> t \<and> t < a + rate_windowMs c) (ts @ passed_at c key rs bs) \<le> 2 * rf_maximum c"
  using assms(2-)
proof (induction rs arbitrary: latest bs ts)
  case Nil
  then show ?case by (simp add: metered_def)
next
  case (Cons request rs)
  obtain transport direction receivedAt where req: "request = (transport, direction, receivedAt)" by (cases request)
  obtain r bs' where r: "rate_consume c transport direction receivedAt bs = (r, bs')" by (cases "rate_consume c transport direction receivedAt bs")
  show ?case
  proof (cases "date_parse receivedAt")
    case None
    then have "bs' = bs" "\<exists>e. r = Inl e" using r by (auto simp: rate_consume_def split: if_splits)
    then show ?thesis using Cons.IH [OF Cons.prems(1,2)] Cons.prems(3,4) None r req by (auto simp: clock_readings_def List.map_filter_simps)
  next
    case (Some now)
    then have later: "latest \<le> now" "sorted (clock_readings rs)" "\<forall>t \<in> set (clock_readings rs). now \<le> t"
      using Cons.prems(3,4) req by (auto simp: clock_readings_def List.map_filter_simps)
    note step = metered_consume [OF metered_later [OF Cons.prems(1) later(1)] Cons.prems(2) assms(1) Some r]
    show ?thesis using Cons.IH [OF step [THEN conjunct2] step [THEN conjunct1] later(2,3)] r req Some by (cases r) (auto split: if_splits)
  qed
qed

text \<open>
  C30. A transport gets at most twice its rate in any window. However many requests arrive, with whatever claimed identities, if the
  clock does not go backwards then in every span of time as long as the window at most twice the configured maximum of requests of one
  transport and direction is let through, also when the table of buckets overflows and is pruned.
\<close>

theorem rate_limit_bounds_every_window:
  assumes "rate_constructor c" and "sorted (clock_readings rs)"
  shows "int (length (filter (\<lambda>t. a \<le> t \<and> t < a + rate_windowMs c) (passed_at c key rs []))) \<le> 2 * rf_maximum c"
proof -
  obtain latest where latest: "\<forall>t \<in> set (clock_readings rs). latest \<le> t"
    by (cases "clock_readings rs") (use assms(2) in auto)
  have "metered c latest (map_of [] key) []" using assms(1) by (simp add: metered_def rate_constructor_def)
  from metered_granted [OF assms(1) this _ assms(2) latest] show ?thesis by (simp add: how_many_def)
qed

theorem rate_limit_bounds_every_window_witness:
  "int (length (filter (\<lambda>t. 1748736600000 \<le> t \<and> t < 1748736600000 + rate_windowMs \<lparr>rf_maximum = 2, rf_windowSeconds = 60, rf_maximumBuckets = 10\<rparr>)
     (passed_at \<lparr>rf_maximum = 2, rf_windowSeconds = 60, rf_maximumBuckets = 10\<rparr> (rate_key ''peer:1'' NodeToServer)
       (replicate 5 (''peer:1'', NodeToServer, ''2025-06-01T00:10:00.000Z'')) []))) \<le> 4"
  using rate_limit_bounds_every_window [of "\<lparr>rf_maximum = 2, rf_windowSeconds = 60, rf_maximumBuckets = 10\<rparr>"
      "replicate 5 (''peer:1'', NodeToServer, ''2025-06-01T00:10:00.000Z'')" 1748736600000 "rate_key ''peer:1'' NodeToServer"]
  by (simp add: rate_constructor_def clock_readings_def List.map_filter_def filter_replicate)

end
