(* ===== verification/Node_Enrollment.thy ===== *)
theory Node_Enrollment
  imports Node_Protocol Guarded_Store
begin

text \<open>
  Enrolling a node: the store of \<open>src/node-protocol/v1/persistence.ts\<close> (tokens, challenges, proofs), the schemas it parses with
  (\<open>schemas.ts\<close>), the proof's signature (\<open>crypto.ts\<close>) and the resolver that finds the key of an enrolled node. Random tokens,
  nonces and identifiers are arguments. The fingerprint of a public key is read by \<open>node:crypto\<close>; it is the parameter
  \<open>fingerprint\<close>, \<open>None\<close> where the key cannot be read or is not an Ed25519 key. A timestamp column holds an instant in
  milliseconds. A failed transaction leaves the tables as they were, so an operation returns new tables or an error.
\<close>

section \<open>Requests, challenges and proofs\<close>

definition is_control_char :: "char \<Rightarrow> bool" where
  "is_control_char c \<longleftrightarrow> (of_char c :: nat) \<le> 31 \<or> (of_char c :: nat) = 127"

definition protocolLabel :: "string \<Rightarrow> bool" where
  "protocolLabel s \<longleftrightarrow> text_between 1 200 s \<and> \<not> list_ex is_control_char s"

definition protocolList :: "string list \<Rightarrow> bool" where
  "protocolList ps \<longleftrightarrow> list_all protocolLabel ps \<and> 1 \<le> length ps \<and> length ps \<le> 16 \<and> distinct ps"

record advertised_key =
  sk_keyId :: string
  sk_algorithm :: string
  sk_spki :: string

record issue_input =
  ii_tenantId :: string
  ii_nodeClass :: string
  ii_createdBy :: string
  ii_createdAt :: string
  ii_expiresAt :: "string option"
  ii_tokenId :: "string option"

record challenge_request =
  cq_tokenId :: string
  cq_token :: string
  cq_nodeClass :: string
  cq_supportedProtocols :: "string list"

record enrollment_challenge =
  ec_challengeId :: string
  ec_challengeNonce :: string
  ec_issuedAt :: string
  ec_expiresAt :: string
  ec_supportedProtocols :: "string list"
  ec_serverTrustKeys :: "advertised_key list"

record platform_facts =
  pf_platform :: platform
  pf_architecture :: string
  pf_hardwareFingerprint :: string
  pf_softwareFingerprint :: string
  pf_bridgeVersion :: string
  pf_attestation :: "(string \<times> string) list"

record enrollment_proof =
  ep_challengeId :: string
  ep_challengeNonce :: string
  ep_nodeId :: string
  ep_displayName :: string
  ep_nodeClass :: string
  ep_keyId :: string
  ep_spki :: string
  ep_platformFacts :: platform_facts
  ep_supportedProtocols :: "string list"
  ep_signature :: string

definition issueEnrollmentTokenSchema :: "host \<Rightarrow> issue_input \<Rightarrow> bool" where
  "issueEnrollmentTokenSchema h i \<longleftrightarrow> protocolId (ii_tenantId i) \<and> protocolId (ii_nodeClass i) \<and> protocolId (ii_createdBy i) \<and> isoDate h (ii_createdAt i)
     \<and> opt_all (isoDate h) (ii_expiresAt i) \<and> opt_all protocolId (ii_tokenId i)"

definition enrollmentChallengeRequestSchema :: "challenge_request \<Rightarrow> bool" where
  "enrollmentChallengeRequestSchema r \<longleftrightarrow> protocolId (cq_tokenId r) \<and> text_between 32 512 (cq_token r) \<and> base64url_pattern (cq_token r)
     \<and> protocolId (cq_nodeClass r) \<and> protocolList (cq_supportedProtocols r)"

definition enrollmentChallengeSchema :: "host \<Rightarrow> enrollment_challenge \<Rightarrow> bool" where
  "enrollmentChallengeSchema h c \<longleftrightarrow> protocolId (ec_challengeId c) \<and> protocolBase64url (ec_challengeNonce c) \<and> isoDate h (ec_issuedAt c)
     \<and> isoDate h (ec_expiresAt c) \<and> protocolList (ec_supportedProtocols c)
     \<and> list_all (\<lambda>k. protocolId (sk_keyId k) \<and> sk_algorithm k = ''ed25519'' \<and> protocolBase64url (sk_spki k)) (ec_serverTrustKeys c)
     \<and> 1 \<le> length (ec_serverTrustKeys c) \<and> length (ec_serverTrustKeys c) \<le> 8 \<and> ms_less (date_parse (ec_issuedAt c)) (date_parse (ec_expiresAt c))"

definition platformFactsSchema :: "platform_facts \<Rightarrow> bool" where
  "platformFactsSchema f \<longleftrightarrow> protocolLabel (pf_architecture f) \<and> digest_pattern (pf_hardwareFingerprint f) \<and> digest_pattern (pf_softwareFingerprint f)
     \<and> protocolLabel (pf_bridgeVersion f) \<and> list_all (\<lambda>(k, v). protocolId k \<and> protocolLabel v) (pf_attestation f) \<and> length (pf_attestation f) \<le> 32"

definition enrollmentProofSchema :: "enrollment_proof \<Rightarrow> bool" where
  "enrollmentProofSchema p \<longleftrightarrow> protocolId (ep_challengeId p) \<and> protocolBase64url (ep_challengeNonce p) \<and> protocolId (ep_nodeId p)
     \<and> protocolLabel (ep_displayName p) \<and> protocolId (ep_nodeClass p) \<and> protocolId (ep_keyId p) \<and> protocolBase64url (ep_spki p)
     \<and> platformFactsSchema (ep_platformFacts p) \<and> protocolList (ep_supportedProtocols p) \<and> protocolBase64url (ep_signature p)"

fun platform_text :: "platform \<Rightarrow> string" where
  "platform_text Windows = ''windows''"
| "platform_text Macos = ''macos''"
| "platform_text Linux = ''linux''"
| "platform_text Cloud = ''cloud''"

definition platform_json :: "platform_facts \<Rightarrow> json" where
  "platform_json f = JObj [(''platform'', JStr (platform_text (pf_platform f))), (''architecture'', JStr (pf_architecture f)),
     (''hardwareFingerprint'', JStr (pf_hardwareFingerprint f)), (''softwareFingerprint'', JStr (pf_softwareFingerprint f)),
     (''bridgeVersion'', JStr (pf_bridgeVersion f)), (''attestation'', JObj (map (\<lambda>(k, v). (k, JStr v)) (pf_attestation f)))]"

definition enrollmentProofMaterial :: "enrollment_proof \<Rightarrow> json" where
  "enrollmentProofMaterial p = JObj [(''challengeId'', JStr (ep_challengeId p)), (''challengeNonce'', JStr (ep_challengeNonce p)),
     (''nodeId'', JStr (ep_nodeId p)), (''displayName'', JStr (ep_displayName p)), (''nodeClass'', JStr (ep_nodeClass p)),
     (''publicKey'', JObj [(''keyId'', JStr (ep_keyId p)), (''algorithm'', JStr ''ed25519''), (''spki'', JStr (ep_spki p))]),
     (''platformFacts'', platform_json (ep_platformFacts p)), (''supportedProtocols'', str_array (ep_supportedProtocols p))]"

definition verifyEnrollmentProof :: "host \<Rightarrow> enrollment_proof \<Rightarrow> bool option" where
  "verifyEnrollmentProof h p = ed25519_verify h (ep_spki p) (ep_signature p) (canonicalJson (enrollmentProofMaterial p))"


section \<open>The tables\<close>

datatype enrollment_state = Issued | Consumed

record token_row =
  et_id :: string
  et_tenantId :: string
  et_tokenDigest :: string
  et_nodeClass :: string
  et_state :: enrollment_state
  et_createdBy :: string
  et_createdAt :: int
  et_expiresAt :: int

record challenge_row =
  eh_id :: string
  eh_tenantId :: string
  eh_tokenId :: string
  eh_nonce :: string
  eh_nodeClass :: string
  eh_supportedProtocols :: "string list"
  eh_serverTrustKeys :: "advertised_key list"
  eh_state :: enrollment_state
  eh_createdAt :: int
  eh_expiresAt :: int

record node_row =
  en_id :: string
  en_tenantId :: string
  en_state :: node_state
  en_identityKeyId :: string
  en_payload :: node_record

record key_row =
  ek_id :: string
  ek_tenantId :: string
  ek_nodeId :: string
  ek_spki :: string
  ek_fingerprint :: string
  ek_state :: protocol_key_state
  ek_validFrom :: int
  ek_validUntil :: "int option"

text \<open>A row of the transition events or of the outbox: what is written here of either.\<close>

record notice_row =
  ev_id :: string
  ev_tenantId :: string
  ev_nodeId :: string
  ev_idempotencyKey :: string
  ev_metadata :: json

record enrollment_db =
  ed_tenants :: "string list"
  ed_tokens :: "token_row list"
  ed_challenges :: "challenge_row list"
  ed_nodes :: "node_row list"
  ed_keys :: "key_row list"
  ed_events :: "notice_row list"
  ed_outbox :: "notice_row list"

datatype enrollment_error = InvalidEnrollment | ExpiredEnrollment | UnsupportedProtocol | IdentityConflict | EnrollmentThrown

definition insert_token :: "token_row \<Rightarrow> enrollment_db \<Rightarrow> (enrollment_error, enrollment_db) result" where
  "insert_token t db = guard_result (et_tenantId t \<in> set (ed_tenants db) \<and> digest_pattern (et_tokenDigest t) \<and> et_createdAt t < et_expiresAt t
       \<and> et_expiresAt t \<le> et_createdAt t + 900000
       \<and> \<not> list_ex (\<lambda>r. et_id r = et_id t \<or> et_tenantId r = et_tenantId t \<and> et_tokenDigest r = et_tokenDigest t) (ed_tokens db))
     EnrollmentThrown (Inr (db\<lparr>ed_tokens := ed_tokens db @ [t]\<rparr>))"

definition insert_challenge :: "challenge_row \<Rightarrow> enrollment_db \<Rightarrow> (enrollment_error, enrollment_db) result" where
  "insert_challenge c db = guard_result (eh_createdAt c < eh_expiresAt c \<and> eh_expiresAt c \<le> eh_createdAt c + 300000
       \<and> \<not> list_ex (\<lambda>r. eh_id r = eh_id c \<or> eh_tenantId r = eh_tenantId c \<and> (eh_tokenId r = eh_tokenId c \<or> eh_nonce r = eh_nonce c)) (ed_challenges db))
     EnrollmentThrown (Inr (db\<lparr>ed_challenges := ed_challenges db @ [c]\<rparr>))"

definition insert_node :: "node_row \<Rightarrow> enrollment_db \<Rightarrow> (enrollment_error, enrollment_db) result" where
  "insert_node n db = guard_result (\<not> list_ex (\<lambda>r. en_id r = en_id n) (ed_nodes db)) EnrollmentThrown (Inr (db\<lparr>ed_nodes := ed_nodes db @ [n]\<rparr>))"

definition insert_key :: "key_row \<Rightarrow> enrollment_db \<Rightarrow> (enrollment_error, enrollment_db) result" where
  "insert_key k db = guard_result (digest_pattern (ek_fingerprint k)
       \<and> \<not> list_ex (\<lambda>r. ek_tenantId r = ek_tenantId k \<and> (ek_id r = ek_id k \<or> ek_fingerprint r = ek_fingerprint k
            \<or> ek_nodeId r = ek_nodeId k \<and> ek_state r = ProtocolKeyActive \<and> ek_state k = ProtocolKeyActive)) (ed_keys db))
     EnrollmentThrown (Inr (db\<lparr>ed_keys := ed_keys db @ [k]\<rparr>))"

text \<open>The identifier is made of the idempotency key, so the tables' other key cannot be violated alone.\<close>

definition notice_fits :: "notice_row \<Rightarrow> notice_row list \<Rightarrow> bool" where
  "notice_fits e es \<longleftrightarrow> \<not> list_ex (\<lambda>r. ev_id r = ev_id e) es"


section \<open>Operations\<close>

definition enrollment_constructor :: "(string \<Rightarrow> string option) \<Rightarrow> advertised_key list \<Rightarrow> bool" where
  "enrollment_constructor fingerprint keys \<longleftrightarrow> 1 \<le> length keys \<and> length keys \<le> 8 \<and> distinct (map sk_keyId keys)
     \<and> list_all (\<lambda>k. sk_algorithm k = ''ed25519'' \<and> fingerprint (sk_spki k) \<noteq> None) keys"

definition plusSeconds :: "string \<Rightarrow> int \<Rightarrow> string option" where
  "plusSeconds t seconds = Option.bind (date_parse t) (\<lambda>ms. to_iso (ms + seconds * 1000))"

definition issueToken :: "host \<Rightarrow> issue_input \<Rightarrow> string \<Rightarrow> string \<Rightarrow> enrollment_db \<Rightarrow> (enrollment_error, (string \<times> string \<times> string) \<times> enrollment_db) result" where
  "issueToken h i randomId token db =
     guard_result (issueEnrollmentTokenSchema h i) EnrollmentThrown (
     let tokenId = (case ii_tokenId i of None \<Rightarrow> ''enrollment:'' @ randomId | Some t \<Rightarrow> t) in
     case (case ii_expiresAt i of None \<Rightarrow> plusSeconds (ii_createdAt i) 900 | Some t \<Rightarrow> Some t) of None \<Rightarrow> Inl EnrollmentThrown
     | Some expiresAt \<Rightarrow>
         (case (date_parse (ii_createdAt i), date_parse expiresAt) of
            (Some created, Some expires) \<Rightarrow>
              guard_result (0 < expires - created \<and> expires - created \<le> 900000) EnrollmentThrown (
              bind_result (insert_token \<lparr>et_id = tokenId, et_tenantId = ii_tenantId i, et_tokenDigest = opaqueTokenDigest h token, et_nodeClass = ii_nodeClass i,
                et_state = Issued, et_createdBy = ii_createdBy i, et_createdAt = created, et_expiresAt = expires\<rparr> db) (\<lambda>db'.
              Inr ((tokenId, token, expiresAt), db')))
          | _ \<Rightarrow> Inl EnrollmentThrown))"

definition createChallenge ::
    "host \<Rightarrow> advertised_key list \<Rightarrow> challenge_request \<Rightarrow> string \<Rightarrow> string \<Rightarrow> string \<Rightarrow> enrollment_db \<Rightarrow> (enrollment_error, enrollment_challenge \<times> enrollment_db) result" where
  "createChallenge h keys r now challengeId nonce db =
     guard_result (enrollmentChallengeRequestSchema r) EnrollmentThrown (
     case find (\<lambda>t. et_id t = cq_tokenId r) (ed_tokens db) of None \<Rightarrow> Inl InvalidEnrollment
     | Some t \<Rightarrow>
         guard_result (et_state t = Issued \<and> opaqueTokenMatches h (cq_token r) (et_tokenDigest t) \<and> et_nodeClass t = cq_nodeClass r) InvalidEnrollment (
         guard_result (\<not> ms_leq (Some (et_expiresAt t)) (date_parse now)) ExpiredEnrollment (
         guard_result (negotiateProtocolVersion (cq_supportedProtocols r) NODE_PROTOCOL_SUPPORTED_VERSIONS \<noteq> None) UnsupportedProtocol (
         case date_parse now of None \<Rightarrow> Inl EnrollmentThrown
         | Some t0 \<Rightarrow>
             let expires = min (t0 + 300000) (et_expiresAt t) in
             (case to_iso expires of None \<Rightarrow> Inl EnrollmentThrown
              | Some expiresAt \<Rightarrow>
                  let challenge = \<lparr>ec_challengeId = challengeId, ec_challengeNonce = nonce, ec_issuedAt = now, ec_expiresAt = expiresAt,
                    ec_supportedProtocols = NODE_PROTOCOL_SUPPORTED_VERSIONS, ec_serverTrustKeys = keys\<rparr> in
                  guard_result (enrollmentChallengeSchema h challenge) EnrollmentThrown (
                  bind_result (insert_challenge \<lparr>eh_id = challengeId, eh_tenantId = et_tenantId t, eh_tokenId = cq_tokenId r, eh_nonce = nonce,
                    eh_nodeClass = et_nodeClass t, eh_supportedProtocols = NODE_PROTOCOL_SUPPORTED_VERSIONS, eh_serverTrustKeys = keys, eh_state = Issued,
                    eh_createdAt = t0, eh_expiresAt = expires\<rparr> db) (\<lambda>db'. Inr (challenge, db'))))))))"

record complete_options =
  co_now :: string
  co_policyVersion :: string
  co_initialGrant :: json

record enrollment_result =
  er_nodeId :: string
  er_keyId :: string
  er_selectedProtocol :: string
  er_initialGrant :: json
  er_initialGrantDigest :: string
  er_serverTrustKeys :: "advertised_key list"
  er_enrolledAt :: string

definition collides :: "enrollment_proof \<Rightarrow> string \<Rightarrow> string \<Rightarrow> enrollment_db \<Rightarrow> bool" where
  "collides p tenantId fp db \<longleftrightarrow> list_ex (\<lambda>n. en_id n = ep_nodeId p \<or> en_tenantId n = tenantId \<and> en_identityKeyId n = ep_keyId p) (ed_nodes db)
     \<or> list_ex (\<lambda>k. ek_tenantId k = tenantId \<and> ek_fingerprint k = fp) (ed_keys db)"

definition enrolled_node :: "enrollment_proof \<Rightarrow> complete_options \<Rightarrow> string \<Rightarrow> string \<Rightarrow> node_record" where
  "enrolled_node p opts tenantId selectedProtocol = \<lparr>contractVersion = DOMAIN_CONTRACT_VERSION, rec_id = ep_nodeId p, rec_tenantId = tenantId, rec_version = 1,
     createdAt = co_now opts, updatedAt = co_now opts, nd_displayName = ep_displayName p, nd_state = NodeActive, nd_platform = pf_platform (ep_platformFacts p),
     nd_architecture = pf_architecture (ep_platformFacts p), nd_identityKeyId = ep_keyId p,
     nd_hardwareFingerprint = pf_hardwareFingerprint (ep_platformFacts p), nd_softwareFingerprint = pf_softwareFingerprint (ep_platformFacts p),
     nd_policyVersion = co_policyVersion opts, nd_minimumProtocolVersion = selectedProtocol, nd_enrolledAt = Some (co_now opts), nd_lastSeenAt = None,
     nd_quarantineReasonCode = None\<rparr>"

definition consume_challenge :: "string \<Rightarrow> string \<Rightarrow> enrollment_db \<Rightarrow> enrollment_db" where
  "consume_challenge tenantId i db = db\<lparr>ed_challenges :=
     map (\<lambda>c. if eh_tenantId c = tenantId \<and> eh_id c = i \<and> eh_state c = Issued then c\<lparr>eh_state := Consumed\<rparr> else c) (ed_challenges db)\<rparr>"

definition consume_token :: "string \<Rightarrow> string \<Rightarrow> enrollment_db \<Rightarrow> enrollment_db" where
  "consume_token tenantId i db = db\<lparr>ed_tokens :=
     map (\<lambda>t. if et_tenantId t = tenantId \<and> et_id t = i \<and> et_state t = Issued then t\<lparr>et_state := Consumed\<rparr> else t) (ed_tokens db)\<rparr>"

definition insertEnrolledNode ::
    "host \<Rightarrow> node_record \<Rightarrow> string \<Rightarrow> string \<Rightarrow> string \<Rightarrow> string \<Rightarrow> int \<Rightarrow> string \<Rightarrow> enrollment_db \<Rightarrow> (enrollment_error, enrollment_db) result" where
  "insertEnrolledNode h node spki fp tokenId challengeId now grantDigest db =
     (let enrollmentKey = ''node-enroll:'' @ sha256_hex h challengeId;
          metadata = JObj [(''keyId'', JStr (nd_identityKeyId node)), (''grantDigest'', JStr grantDigest)];
          event = \<lparr>ev_id = ''transition:'' @ enrollmentKey, ev_tenantId = rec_tenantId node, ev_nodeId = rec_id node, ev_idempotencyKey = enrollmentKey, ev_metadata = metadata\<rparr>;
          message = \<lparr>ev_id = ''outbox:'' @ enrollmentKey, ev_tenantId = rec_tenantId node, ev_nodeId = rec_id node, ev_idempotencyKey = enrollmentKey,
            ev_metadata = JObj [(''nodeId'', JStr (rec_id node)), (''keyId'', JStr (nd_identityKeyId node)), (''grantDigest'', JStr grantDigest),
              (''enrolledAt'', JStr (createdAt node))]\<rparr> in
      bind_result (insert_node \<lparr>en_id = rec_id node, en_tenantId = rec_tenantId node, en_state = NodeActive, en_identityKeyId = nd_identityKeyId node,
        en_payload = node\<rparr> db) (\<lambda>db1.
      bind_result (insert_key \<lparr>ek_id = nd_identityKeyId node, ek_tenantId = rec_tenantId node, ek_nodeId = rec_id node, ek_spki = spki, ek_fingerprint = fp,
        ek_state = ProtocolKeyActive, ek_validFrom = now, ek_validUntil = None\<rparr> db1) (\<lambda>db2.
      let db3 = consume_token (rec_tenantId node) tokenId (consume_challenge (rec_tenantId node) challengeId db2) in
      guard_result (notice_fits event (ed_events db3)) EnrollmentThrown (
      guard_result (notice_fits message (ed_outbox db3)) EnrollmentThrown (
      Inr (db3\<lparr>ed_events := ed_events db3 @ [event], ed_outbox := ed_outbox db3 @ [message]\<rparr>))))))"

definition complete_enrollment ::
    "host \<Rightarrow> (string \<Rightarrow> string option) \<Rightarrow> enrollment_proof \<Rightarrow> complete_options \<Rightarrow> enrollment_db \<Rightarrow> (enrollment_error, enrollment_result \<times> enrollment_db) result" where
  "complete_enrollment h fingerprint p opts db =
     guard_result (enrollmentProofSchema p \<and> assertNoSecretMaterial (co_initialGrant opts) ''initial node grant'' = Inr ()) EnrollmentThrown (
     case find (\<lambda>c. eh_id c = ep_challengeId p) (ed_challenges db) of None \<Rightarrow> Inl InvalidEnrollment
     | Some c \<Rightarrow>
     (case find (\<lambda>t. et_tenantId t = eh_tenantId c \<and> et_id t = eh_tokenId c) (ed_tokens db) of None \<Rightarrow> Inl InvalidEnrollment
     | Some t \<Rightarrow>
         guard_result (eh_state c = Issued \<and> et_state t = Issued \<and> eh_nonce c = ep_challengeNonce p \<and> eh_nodeClass c = ep_nodeClass p) InvalidEnrollment (
         guard_result (\<not> (ms_leq (Some (eh_expiresAt c)) (date_parse (co_now opts)) \<or> ms_leq (Some (et_expiresAt t)) (date_parse (co_now opts)))) ExpiredEnrollment (
         guard_result (verifyEnrollmentProof h p = Some True) InvalidEnrollment (
         case fingerprint (ep_spki p) of None \<Rightarrow> Inl InvalidEnrollment
         | Some fp \<Rightarrow>
         (case negotiateProtocolVersion (ep_supportedProtocols p) NODE_PROTOCOL_SUPPORTED_VERSIONS of None \<Rightarrow> Inl UnsupportedProtocol
         | Some selected \<Rightarrow>
             guard_result (selected \<in> set (eh_supportedProtocols c)) UnsupportedProtocol (
             guard_result (\<not> collides p (eh_tenantId c) fp db) IdentityConflict (
             let node = enrolled_node p opts (eh_tenantId c) selected; grantDigest = sha256Digest h (co_initialGrant opts) in
             guard_result (nodeRecordSchema h node) EnrollmentThrown (
             case date_parse (co_now opts) of None \<Rightarrow> Inl EnrollmentThrown
             | Some now \<Rightarrow>
                 bind_result (insertEnrolledNode h node (ep_spki p) fp (eh_tokenId c) (ep_challengeId p) now grantDigest db) (\<lambda>db'.
                 Inr (\<lparr>er_nodeId = rec_id node, er_keyId = nd_identityKeyId node, er_selectedProtocol = selected, er_initialGrant = co_initialGrant opts,
                   er_initialGrantDigest = grantDigest, er_serverTrustKeys = eh_serverTrustKeys c, er_enrolledAt = co_now opts\<rparr>, db')))))))))))"

text \<open>\<open>DatabaseNodeKeyResolver\<close>\<close>

definition resolve_node_key :: "enrollment_db \<Rightarrow> key_resolver" where
  "resolve_node_key db tenantId actor senderKind keyId =
     (if senderKind \<noteq> NodeSender then None
      else case find (\<lambda>k. ek_tenantId k = tenantId \<and> ek_nodeId k = actor \<and> ek_id k = keyId) (ed_keys db) of None \<Rightarrow> None
      | Some k \<Rightarrow>
          (case find (\<lambda>n. en_tenantId n = ek_tenantId k \<and> en_id n = ek_nodeId k) (ed_nodes db) of None \<Rightarrow> None
           | Some n \<Rightarrow> Some \<lparr>nk_tenantId = ek_tenantId k, nk_actorId = ek_nodeId k, nk_senderKind = NodeSender, nk_keyId = ek_id k, nk_publicKeySpki = ek_spki k,
               nk_keyState = ek_state k, nk_principalState = en_state n, nk_validFrom = (case to_iso (ek_validFrom k) of None \<Rightarrow> [] | Some s \<Rightarrow> s),
               nk_validUntil = Option.bind (ek_validUntil k) to_iso\<rparr>))"

end
