(* ===== verification/Node_Guarantees.thy ===== *)
theory Node_Guarantees
  imports Node_Protocol Policy_Guarantees Guarded_Store
begin

text \<open>
  What the node protocol guarantees: an authenticated frame is what its active key signed, the frames of a connection are
  delivered in order and once, a redelivered frame is recognised, and a transport cannot get more than its rate.
\<close>

section \<open>Authenticated frames are genuine\<close>

lemma parse_frame_Inr:
  "parse_frame h bodies opts raw = Inr f \<longleftrightarrow> rx_bytes raw \<le> vo_maxFrameBytes opts \<and> Option.bind (rx_json raw) frame_of_json = Some f
     \<and> signedNodeFrameSchema h bodies f \<and> opt_all (\<lambda>p. p \<in> set NODE_PROTOCOL_SUPPORTED_VERSIONS) (Option.bind (rx_json raw) offered_protocol)"
  by (auto simp: parse_frame_def guard_result_Inr_iff split: option.splits)

lemma frame_window_Inr:
  "frame_window opts f = Inr received \<longleftrightarrow> date_parse (vo_receivedAt opts) = Some received
     \<and> \<not> ms_less (date_parse (fr_expiresAt f)) (Some received)
     \<and> \<not> ms_less (Some (received + vo_maxClockSkewSeconds opts * 1000)) (date_parse (fr_sentAt f))
     \<and> \<not> ms_less (map_option (\<lambda>t. t + vo_maxLifetimeSeconds opts * 1000) (date_parse (fr_sentAt f))) (date_parse (fr_expiresAt f))"
  by (auto simp: frame_window_def guard_result_Inr_iff split: option.splits)

lemma key_permits_Inr:
  "key_permits f received key = Inr t \<longleftrightarrow> key = Some t \<and> nk_tenantId t = fr_tenantId f \<and> nk_actorId t = fr_actorId f \<and> nk_senderKind t = fr_senderKind f
     \<and> nk_keyId t = fr_keyId f \<and> nk_keyState t = ProtocolKeyActive \<and> nk_principalState t \<notin> {NodePendingEnrollment, NodeQuarantined, NodeRevoked}
     \<and> date_parse (nk_validFrom t) \<noteq> None \<and> \<not> ms_less (Some received) (date_parse (nk_validFrom t))
     \<and> (truthy_text (nk_validUntil t) \<longrightarrow> date_parse (the (nk_validUntil t)) \<noteq> None \<and> \<not> ms_leq (date_parse (the (nk_validUntil t))) (Some received))"
  by (auto simp: key_permits_def guard_result_Inr_iff split: option.splits)

lemma verify_frame_Inr:
  assumes "verify_frame h bodies c resolve opts raw s = (Inr (f, d), s')"
  obtains received key where "parse_frame h bodies opts raw = Inr f" "frame_expected opts f" "frame_window opts f = Inr received"
    "digestMatches h (fr_body f) (fr_bodyDigest f)" "assertNoSecretMaterial (fr_body f) ''protocol body'' = Inr ()"
    "key_permits f received (resolve (fr_tenantId f) (fr_actorId f) (fr_senderKind f) (fr_keyId f)) = Inr key"
    "verifyNodeFrameSignature h f (nk_publicKeySpki key) = Some True"
    "\<exists>db. replay_consume h f received (au_replay s) = Inr (d, db) \<and> au_replay s' = db"
proof -
  obtain received receivedAt s1 u key where steps: "parse_frame h bodies opts raw = Inr f" "frame_expected opts f" "frame_window opts f = Inr received"
      "digestMatches h (fr_body f) (fr_bodyDigest f)"
      "(case assertNoSecretMaterial (fr_body f) ''protocol body'' of Inl _ \<Rightarrow> Inl Forbidden | Inr _ \<Rightarrow> Inr ()) = (Inr u :: (auth_code, unit) result)"
      "key_permits f received (resolve (fr_tenantId f) (fr_actorId f) (fr_senderKind f) (fr_keyId f)) = Inr key"
      "verifyNodeFrameSignature h f (nk_publicKeySpki key) = Some True"
    and rate: "consume_rate c opts f receivedAt s = (Inr (), s1)" and replay: "consume_replay h f received s1 = (Inr d, s')"
    using assms unfolding verify_frame_def bind_step_Inr lift_step_Inr check_step_Inr return_step_Inr by auto
  have "au_replay s1 = au_replay s" using rate by (auto simp: consume_rate_def split: prod.splits sum.splits)
  then have "\<exists>db. replay_consume h f received (au_replay s) = Inr (d, db) \<and> au_replay s' = db"
    using replay by (auto simp: consume_replay_def split: sum.splits prod.splits)
  moreover have "assertNoSecretMaterial (fr_body f) ''protocol body'' = Inr ()" using steps(5) by (auto split: sum.splits)
  ultimately show thesis using that steps by blast
qed

text \<open>Reading back a printed frame gives the frame.\<close>

lemma frame_roundtrip: "frame_of_json (frame_json f) = Some f"
proof -
  have "direction_of (Some (direction_text d)) = Some d" for d by (cases d) (simp_all add: direction_of_def)
  moreover have "sender_of (Some (sender_text k)) = Some k" for k by (cases k) (simp_all add: sender_of_def)
  ultimately show ?thesis
    by (cases "fr_causationId f") (simp_all add: frame_of_json_def frame_json_def frameSigningMaterial_def frame_keys_def text_of_def number_of_def opt_field_def)
qed

text \<open>A sample frame and the key that verifies it.\<close>

definition sample_frame :: node_frame where
  "sample_frame = \<lparr>fr_protocol = NODE_PROTOCOL_V1, fr_direction = NodeToServer, fr_messageId = ''message:1'', fr_correlationId = ''correlation:1'',
     fr_causationId = None, fr_tenantId = ''tenant:1'', fr_actorId = ''node:1'', fr_senderKind = NodeSender, fr_keyId = ''key:1'',
     fr_connectionId = ''connection:1'', fr_sequence = 1, fr_sentAt = ''2025-06-01T00:10:00.000Z'', fr_expiresAt = ''2025-06-01T00:12:00.000Z'',
     fr_nonce = ''nonce-0123456789'', fr_type = ''connection.hello'', fr_body = JObj [], fr_bodyDigest = d0, fr_signature = ''signature-0123456789''\<rparr>"

definition sample_bodies :: frame_bodies where
  "sample_bodies = \<lparr>fb_schema = (\<lambda>t v. True), fb_binding = (\<lambda>f. True)\<rparr>"

definition sample_rate :: rate_config where
  "sample_rate = \<lparr>rf_maximum = 2, rf_windowSeconds = 60, rf_maximumBuckets = 10\<rparr>"

definition sample_resolve :: key_resolver where
  "sample_resolve t a k i = Some \<lparr>nk_tenantId = t, nk_actorId = a, nk_senderKind = k, nk_keyId = i, nk_publicKeySpki = ''spki'', nk_keyState = ProtocolKeyActive,
     nk_principalState = NodeActive, nk_validFrom = ''2025-06-01T00:10:00.000Z'', nk_validUntil = Some ''2025-06-01T00:12:00.000Z''\<rparr>"

definition sample_options :: verify_options where
  "sample_options = default_options NodeToServer ''2025-06-01T00:10:00.000Z'' ''peer:1''"

definition sample_auth :: auth_state where
  "sample_auth = \<lparr>au_buckets = [], au_replay = empty_replay\<rparr>"

lemma sample_instants [simp]:
  "date_parse ''2025-06-01T00:10:00.000Z'' = Some 1748736600000" "to_iso 1748736600000 = Some ''2025-06-01T00:10:00.000Z''"
  "date_parse ''2025-06-01T00:12:00.000Z'' = Some 1748736720000"
  by (simp_all add: date_eval)

lemma sample_frame_valid: "signedNodeFrameSchema sample_host sample_bodies sample_frame"
  by (simp add: signedNodeFrameSchema_def baseFrame_def sample_frame_def sample_bodies_def protocolId_def protocolBase64url_def text_between_def
      frame_types_def z_int_def isoDate_def sample_host_def [THEN arg_cong, of zod_datetime] id_eval from_node_def from_server_def)

lemma sample_delivery: "\<exists>db. replay_consume sample_host sample_frame t empty_replay = Inr (DeliveryAccepted, db)"
  if "t \<le> 1748736720000"
  using that by (simp add: replay_consume_def Let_def empty_replay_def prior_rows_def advance_connection_def insert_replay_def sample_frame_def guard_result_def)

lemma sample_verified:
  "\<exists>s'. verify_frame sample_host sample_bodies sample_rate sample_resolve sample_options \<lparr>rx_bytes = 700, rx_json = Some (frame_json sample_frame)\<rparr> sample_auth
     = (Inr (sample_frame, DeliveryAccepted), s')"
proof -
  have "offered_protocol (frame_json sample_frame) = Some NODE_PROTOCOL_V1"
    by (simp add: offered_protocol_def frame_json_def frameSigningMaterial_def text_of_def sample_frame_def)
  then have "parse_frame sample_host sample_bodies sample_options \<lparr>rx_bytes = 700, rx_json = Some (frame_json sample_frame)\<rparr> = Inr sample_frame"
    unfolding parse_frame_Inr using sample_frame_valid
    by (simp add: frame_roundtrip sample_options_def default_options_def NODE_PROTOCOL_SUPPORTED_VERSIONS_def)
  moreover have "frame_expected sample_options sample_frame"
    by (simp add: frame_expected_def sample_options_def default_options_def sample_frame_def nodeToServerTypes_def truthy_text_def)
  moreover have "frame_window sample_options sample_frame = Inr 1748736600000"
    by (simp add: frame_window_Inr sample_options_def default_options_def sample_frame_def)
  moreover have "consume_rate sample_rate sample_options sample_frame ''2025-06-01T00:10:00.000Z'' sample_auth
      = (Inr (), sample_auth\<lparr>au_buckets := [(rate_key ''peer:1'' NodeToServer, \<lparr>rb_windowStartMs = 1748736600000, rb_count = 1\<rparr>)]\<rparr>)"
    by (simp add: consume_rate_def rate_consume_def sample_options_def default_options_def sample_auth_def sample_frame_def sample_rate_def Let_def)
  moreover have "key_permits sample_frame 1748736600000 (sample_resolve (fr_tenantId sample_frame) (fr_actorId sample_frame) (fr_senderKind sample_frame) (fr_keyId sample_frame))
      = Inr (the (sample_resolve (fr_tenantId sample_frame) (fr_actorId sample_frame) (fr_senderKind sample_frame) (fr_keyId sample_frame)))"
    by (simp add: key_permits_Inr sample_resolve_def truthy_text_def)
  moreover have "digestMatches sample_host (fr_body sample_frame) (fr_bodyDigest sample_frame)" "assertNoSecretMaterial (fr_body sample_frame) l = Inr ()" for l
    by (simp_all add: digestMatches_def sample_frame_def assertNoSecretMaterial_def containsSecretMaterial_def)
  moreover have "verifyNodeFrameSignature sample_host sample_frame k = Some True" for k by (simp add: verifyNodeFrameSignature_def sample_host_def)
  moreover obtain db where "replay_consume sample_host sample_frame 1748736600000 empty_replay = Inr (DeliveryAccepted, db)"
    using sample_delivery [of 1748736600000] by auto
  ultimately show ?thesis
    by (simp add: verify_frame_def bind_step_def lift_step_def check_step_def return_step_def consume_replay_def sample_auth_def)
qed

lemma frame_window_dated:
  assumes "frame_window opts f = Inr received" and "signedNodeFrameSchema h bodies f" and "\<And>b t. zod_datetime h b t \<Longrightarrow> date_parse t \<noteq> None"
  shows "\<exists>sent expires. date_parse (fr_sentAt f) = Some sent \<and> date_parse (fr_expiresAt f) = Some expires \<and> sent < expires
     \<and> sent \<le> received + vo_maxClockSkewSeconds opts * 1000 \<and> received \<le> expires \<and> expires - sent \<le> vo_maxLifetimeSeconds opts * 1000"
proof -
  have "isoDate h (fr_sentAt f)" "isoDate h (fr_expiresAt f)" using assms(2) by (simp_all add: signedNodeFrameSchema_def baseFrame_def)
  then obtain sent expires where d: "date_parse (fr_sentAt f) = Some sent" "date_parse (fr_expiresAt f) = Some expires"
    using assms(3) unfolding isoDate_def by blast
  have "sent < expires" using assms(2) by (simp add: signedNodeFrameSchema_def d)
  then show ?thesis using assms(1) by (simp add: frame_window_Inr d)
qed

lemma key_permits_validity:
  assumes "key_permits f received key = Inr t"
  shows "\<exists>since. date_parse (nk_validFrom t) = Some since \<and> since \<le> received"
    and "case nk_validUntil t of None \<Rightarrow> True | Some u \<Rightarrow> u = [] \<or> (\<exists>until. date_parse u = Some until \<and> received < until)"
  using assms by (auto simp: key_permits_Inr truthy_text_def split: option.splits)

text \<open>
  C3. An authenticated frame is genuine. A frame that the authenticator returns is the well-formed value that was received, within the
  byte limit, on the expected connection if any, in the expected direction and of a type that direction allows; it has not expired, is not from the
  future beyond the skew and lives no longer than the permitted lifetime (as the source tests it, where a date that does not parse passes,
  and as inequalities when the schema library accepts only dates that parse); its body has the digest the frame carries and no secret material;
  the key the resolver names for this tenant, actor, sender and key identifier is active, its principal neither pending, quarantined nor revoked,
  already valid at reception and not at the end of its validity, if it has one, and verifies the signature over all of the frame but the signature; and
  the replay store took the frame at that time with the reported delivery.
\<close>

theorem authenticated_frame_genuine:
  assumes "verify_frame h bodies c resolve opts raw s = (Inr (f, d), s')"
  shows "\<exists>received key. Option.bind (rx_json raw) frame_of_json = Some f \<and> rx_bytes raw \<le> vo_maxFrameBytes opts \<and> signedNodeFrameSchema h bodies f
     \<and> (vo_expectedConnectionId opts \<in> {None, Some [], Some (fr_connectionId f)})
     \<and> fr_direction f = vo_expectedDirection opts \<and> fr_type f \<in> set (if fr_direction f = NodeToServer then nodeToServerTypes else serverToNodeTypes)
     \<and> date_parse (vo_receivedAt opts) = Some received \<and> \<not> ms_less (date_parse (fr_expiresAt f)) (Some received)
     \<and> \<not> ms_less (Some (received + vo_maxClockSkewSeconds opts * 1000)) (date_parse (fr_sentAt f))
     \<and> \<not> ms_less (map_option (\<lambda>t. t + vo_maxLifetimeSeconds opts * 1000) (date_parse (fr_sentAt f))) (date_parse (fr_expiresAt f))
     \<and> ((\<forall>b t. zod_datetime h b t \<longrightarrow> date_parse t \<noteq> None) \<longrightarrow>
          (\<exists>sent expires. date_parse (fr_sentAt f) = Some sent \<and> date_parse (fr_expiresAt f) = Some expires \<and> sent < expires
             \<and> sent \<le> received + vo_maxClockSkewSeconds opts * 1000 \<and> received \<le> expires \<and> expires - sent \<le> vo_maxLifetimeSeconds opts * 1000))
     \<and> fr_bodyDigest f = sha256Digest h (fr_body f) \<and> assertNoSecretMaterial (fr_body f) ''protocol body'' = Inr ()
     \<and> resolve (fr_tenantId f) (fr_actorId f) (fr_senderKind f) (fr_keyId f) = Some key
     \<and> nk_tenantId key = fr_tenantId f \<and> nk_actorId key = fr_actorId f \<and> nk_senderKind key = fr_senderKind f \<and> nk_keyId key = fr_keyId f
     \<and> nk_keyState key = ProtocolKeyActive \<and> nk_principalState key \<notin> {NodePendingEnrollment, NodeQuarantined, NodeRevoked}
     \<and> (\<exists>since. date_parse (nk_validFrom key) = Some since \<and> since \<le> received)
     \<and> (case nk_validUntil key of None \<Rightarrow> True | Some u \<Rightarrow> u = [] \<or> (\<exists>until. date_parse u = Some until \<and> received < until))
     \<and> ed25519_verify h (nk_publicKeySpki key) (fr_signature f) (canonicalJson (JObj (frameSigningMaterial f))) = Some True
     \<and> replay_consume h f received (au_replay s) = Inr (d, au_replay s')"
proof -
  obtain received key where v: "parse_frame h bodies opts raw = Inr f" "frame_expected opts f" "frame_window opts f = Inr received"
    "digestMatches h (fr_body f) (fr_bodyDigest f)" "assertNoSecretMaterial (fr_body f) ''protocol body'' = Inr ()"
    "key_permits f received (resolve (fr_tenantId f) (fr_actorId f) (fr_senderKind f) (fr_keyId f)) = Inr key"
    "verifyNodeFrameSignature h f (nk_publicKeySpki key) = Some True" "replay_consume h f received (au_replay s) = Inr (d, au_replay s')"
    by (rule verify_frame_Inr [OF assms]) blast
  have schema: "signedNodeFrameSchema h bodies f" "Option.bind (rx_json raw) frame_of_json = Some f" "rx_bytes raw \<le> vo_maxFrameBytes opts"
    using v(1) by (simp_all add: parse_frame_Inr)
  have expected: "vo_expectedConnectionId opts \<in> {None, Some [], Some (fr_connectionId f)}" "fr_direction f = vo_expectedDirection opts"
      "fr_type f \<in> set (if fr_direction f = NodeToServer then nodeToServerTypes else serverToNodeTypes)"
    using v(2) by (auto simp: frame_expected_def truthy_text_def split: option.splits)
  have digest: "fr_bodyDigest f = sha256Digest h (fr_body f)" using v(4) by (simp add: digestMatches_def)
  show ?thesis
    by (rule exI [of _ received], rule exI [of _ key], intro conjI)
      (use schema expected v(3) [unfolded frame_window_Inr] frame_window_dated [OF v(3) schema(1)] digest v(5) v(6) [unfolded key_permits_Inr]
        key_permits_validity [OF v(6)] v(7) [unfolded verifyNodeFrameSignature_def] v(8) in \<open>blast+\<close>)
qed

theorem authenticated_frame_genuine_witness:
  "\<exists>received key until. sample_resolve ''tenant:1'' ''node:1'' NodeSender ''key:1'' = Some key \<and> nk_keyState key = ProtocolKeyActive
     \<and> date_parse ''2025-06-01T00:10:00.000Z'' = Some received \<and> date_parse ''2025-06-01T00:12:00.000Z'' = Some until \<and> received < until
     \<and> ed25519_verify sample_host (nk_publicKeySpki key) (fr_signature sample_frame) (canonicalJson (JObj (frameSigningMaterial sample_frame))) = Some True"
proof -
  obtain s' where v: "verify_frame sample_host sample_bodies sample_rate sample_resolve sample_options \<lparr>rx_bytes = 700, rx_json = Some (frame_json sample_frame)\<rparr> sample_auth
      = (Inr (sample_frame, DeliveryAccepted), s')" using sample_verified by blast
  have ids: "fr_tenantId sample_frame = ''tenant:1''" "fr_actorId sample_frame = ''node:1''" "fr_senderKind sample_frame = NodeSender" "fr_keyId sample_frame = ''key:1''"
    by (simp_all add: sample_frame_def)
  have opts: "vo_receivedAt sample_options = ''2025-06-01T00:10:00.000Z''" by (simp add: sample_options_def default_options_def)
  from authenticated_frame_genuine [OF v, unfolded ids opts] obtain received key where k: "sample_resolve ''tenant:1'' ''node:1'' NodeSender ''key:1'' = Some key"
      "nk_keyState key = ProtocolKeyActive" "date_parse ''2025-06-01T00:10:00.000Z'' = Some received"
      "case nk_validUntil key of None \<Rightarrow> True | Some u \<Rightarrow> u = [] \<or> (\<exists>until. date_parse u = Some until \<and> received < until)"
      "ed25519_verify sample_host (nk_publicKeySpki key) (fr_signature sample_frame) (canonicalJson (JObj (frameSigningMaterial sample_frame))) = Some True"
    by blast
  moreover have "nk_validUntil key = Some ''2025-06-01T00:12:00.000Z''" using k(1) by (auto simp: sample_resolve_def)
  ultimately show ?thesis by auto
qed


section \<open>Frames are delivered in order and once\<close>

type_synonym connection_key = "string \<times> string \<times> string \<times> protocol_direction"

definition frame_key :: "node_frame \<Rightarrow> connection_key" where
  "frame_key f = (fr_tenantId f, fr_actorId f, fr_connectionId f, fr_direction f)"

definition row_key :: "connection_row \<Rightarrow> connection_key" where
  "row_key c = (cx_tenantId c, cx_nodeId c, cx_connectionId c, cx_direction c)"

definition last_sequence :: "connection_key \<Rightarrow> replay_db \<Rightarrow> rat option" where
  "last_sequence key db = map_option cx_lastSequence (find (\<lambda>c. row_key c = key) (rd_connections db))"

lemma connection_of_key: "connection_of f = (\<lambda>c. row_key c = frame_key f)"
  by (auto simp: connection_of_def row_key_def frame_key_def fun_eq_iff)

lemma find_map_key:
  assumes "\<And>c. row_key (g c) = row_key c"
  shows "find (\<lambda>c. row_key c = key) (map g cs) = map_option g (find (\<lambda>c. row_key c = key) cs)"
  by (induction cs) (simp_all add: assms)

lemma advance_connection_Inr:
  assumes "advance_connection f db = Inr db'"
  shows "rd_replay db' = rd_replay db" and "last_sequence key db' = (if key = frame_key f then Some (fr_sequence f) else last_sequence key db)"
    and "case last_sequence (frame_key f) db of None \<Rightarrow> fr_sequence f = 1 \<and> fr_type f = ''connection.hello'' | Some n \<Rightarrow> fr_sequence f = n + 1"
proof -
  have new: "row_key \<lparr>cx_tenantId = fr_tenantId f, cx_nodeId = fr_actorId f, cx_connectionId = fr_connectionId f, cx_direction = fr_direction f,
      cx_lastSequence = n, cx_lastMessageId = m\<rparr> = frame_key f" for n m
    by (simp add: row_key_def frame_key_def)
  have upd: "row_key (if row_key c = frame_key f then c\<lparr>cx_lastSequence := n, cx_lastMessageId := m\<rparr> else c) = row_key c" for c n m
    by (simp add: row_key_def)
  show "rd_replay db' = rd_replay db" using assms by (auto simp: advance_connection_def split: option.splits if_splits)
  show "case last_sequence (frame_key f) db of None \<Rightarrow> fr_sequence f = 1 \<and> fr_type f = ''connection.hello'' | Some n \<Rightarrow> fr_sequence f = n + 1"
    using assms by (auto simp: advance_connection_def last_sequence_def connection_of_key split: option.splits if_splits)
  show "last_sequence key db' = (if key = frame_key f then Some (fr_sequence f) else last_sequence key db)"
  proof (cases "find (\<lambda>c. row_key c = frame_key f) (rd_connections db)")
    case None
    then show ?thesis using assms
      by (auto simp: advance_connection_def last_sequence_def connection_of_key find_append new split: option.splits if_splits)
  next
    case (Some c)
    define g where "g c = (if row_key c = frame_key f then c\<lparr>cx_lastSequence := fr_sequence f, cx_lastMessageId := fr_messageId f\<rparr> else c)" for c
    have "rd_connections db' = map g (rd_connections db)"
      using assms Some by (auto simp: advance_connection_def connection_of_key g_def fun_eq_iff split: if_splits)
    then have found: "last_sequence key db' = map_option (\<lambda>c. cx_lastSequence (g c)) (find (\<lambda>c. row_key c = key) (rd_connections db))"
      using find_map_key [of g key "rd_connections db"] upd by (simp add: last_sequence_def g_def option.map_comp comp_def)
    have "map_option (\<lambda>c. cx_lastSequence (g c)) (find (\<lambda>c. row_key c = key) (rd_connections db))
        = (if key = frame_key f then Some (fr_sequence f) else map_option cx_lastSequence (find (\<lambda>c. row_key c = key) (rd_connections db)))"
      using Some find_SomeD [of "\<lambda>c. row_key c = key" "rd_connections db"]
      by (cases "find (\<lambda>c. row_key c = key) (rd_connections db)") (auto simp: g_def)
    then show ?thesis using found by (simp add: last_sequence_def)
  qed
qed

lemma replay_consume_accepted:
  assumes "replay_consume h f received db = Inr (DeliveryAccepted, db')"
  obtains row where "prior_rows f (opaqueTokenDigest h (fr_nonce f)) db = []" "rd_replay db' = rd_replay db @ [row]"
    "ry_tenantId row = fr_tenantId f" "ry_nodeId row = fr_actorId f" "ry_keyId row = fr_keyId f" "ry_messageId row = fr_messageId f"
    "ry_nonceDigest row = opaqueTokenDigest h (fr_nonce f)" "ry_connectionId row = fr_connectionId f" "ry_sequence row = fr_sequence f"
    "ry_frameDigest row = sha256Digest h (frame_json f)" "fr_senderKind f = NodeSender"
    "\<exists>db1. advance_connection f db = Inr db1 \<and> (\<forall>key. last_sequence key db' = last_sequence key db1)"
proof (cases "prior_rows f (opaqueTokenDigest h (fr_nonce f)) db")
  case Nil
  then obtain db1 where db1: "advance_connection f db = Inr db1" and ins: "\<exists>row. insert_replay row db1 = Inr db' \<and> ry_tenantId row = fr_tenantId f
      \<and> ry_nodeId row = fr_actorId f \<and> ry_keyId row = fr_keyId f \<and> ry_messageId row = fr_messageId f \<and> ry_nonceDigest row = opaqueTokenDigest h (fr_nonce f)
      \<and> ry_connectionId row = fr_connectionId f \<and> ry_sequence row = fr_sequence f \<and> ry_frameDigest row = sha256Digest h (frame_json f)"
    and sender: "fr_senderKind f = NodeSender"
    using assms by (fastforce simp: replay_consume_def Let_def guard_result_Inr_iff bind_result_Inr_iff)
  then obtain row where row: "insert_replay row db1 = Inr db'" "ry_tenantId row = fr_tenantId f" "ry_nodeId row = fr_actorId f" "ry_keyId row = fr_keyId f"
      "ry_messageId row = fr_messageId f" "ry_nonceDigest row = opaqueTokenDigest h (fr_nonce f)" "ry_connectionId row = fr_connectionId f"
      "ry_sequence row = fr_sequence f" "ry_frameDigest row = sha256Digest h (frame_json f)" by blast
  then have "rd_replay db' = rd_replay db @ [row]" "\<forall>key. last_sequence key db' = last_sequence key db1"
    using advance_connection_Inr(1) [OF db1] by (auto simp: insert_replay_def last_sequence_def split: if_splits)
  then show thesis using that [of row] Nil row db1 sender by blast
qed (use assms in \<open>auto simp: replay_consume_def Let_def guard_result_Inr_iff split: list.splits if_splits\<close>)

text \<open>What the authenticator does to the replay tables: nothing, unless it accepts the frame.\<close>

lemma bind_step_Inl:
  "bind_step m f s = (Inl e, u) \<longleftrightarrow> m s = (Inl e, u) \<or> (\<exists>a t. m s = (Inr a, t) \<and> f a t = (Inl e, u))"
  by (cases "m s") (auto simp: bind_step_def split: sum.splits)

lemma consume_rate_replay: "consume_rate c opts f receivedAt s = (r, s') \<Longrightarrow> au_replay s' = au_replay s"
  by (auto simp: consume_rate_def split: prod.splits sum.splits)

lemma step_errors:
  "check_step ok e' s = (Inl e, t) \<Longrightarrow> t = s" "lift_step r s = (Inl e, t) \<Longrightarrow> t = s"
  by (auto simp: check_step_def lift_step_def split: if_splits)

lemma consume_replay_Inl: "consume_replay h f received s = (Inl e, s') \<Longrightarrow> s' = s"
  by (auto simp: consume_replay_def split: sum.splits prod.splits)

lemma verify_frame_refused:
  assumes "verify_frame h bodies c resolve opts raw s = (Inl e, s')" shows "au_replay s' = au_replay s"
proof -
  note Inr_simps = bind_step_Inl lift_step_Inr check_step_Inr return_step_Inr
  show ?thesis
    using assms unfolding verify_frame_def Inr_simps
    by (elim disjE exE conjE) (auto dest!: step_errors consume_rate_replay consume_replay_Inl simp: return_step_def)
qed

lemma replay_duplicate: "replay_consume h f received db = Inr (DeliveryDuplicate, db') \<Longrightarrow> db' = db"
  by (auto simp: replay_consume_def Let_def guard_result_Inr_iff bind_result_Inr_iff split: list.splits if_splits)

datatype node_event = ReceiveFrame key_resolver verify_options raw_frame | PruneReplay int

fun after_node :: "host \<Rightarrow> frame_bodies \<Rightarrow> rate_config \<Rightarrow> node_event \<Rightarrow> auth_state \<Rightarrow> auth_state" where
  "after_node h bodies c (ReceiveFrame resolve opts raw) s = snd (verify_frame h bodies c resolve opts raw s)"
| "after_node h bodies c (PruneReplay before) s = s\<lparr>au_replay := snd (pruneExpired before (au_replay s))\<rparr>"

fun accepted_of :: "(auth_code, node_frame \<times> delivery) result \<Rightarrow> node_frame list" where
  "accepted_of (Inr (f, DeliveryAccepted)) = [f]"
| "accepted_of _ = []"

fun delivered :: "host \<Rightarrow> frame_bodies \<Rightarrow> rate_config \<Rightarrow> node_event list \<Rightarrow> auth_state \<Rightarrow> node_frame list" where
  "delivered h bodies c [] s = []"
| "delivered h bodies c (ReceiveFrame resolve opts raw # es) s =
     accepted_of (fst (verify_frame h bodies c resolve opts raw s)) @ delivered h bodies c es (after_node h bodies c (ReceiveFrame resolve opts raw) s)"
| "delivered h bodies c (PruneReplay before # es) s = delivered h bodies c es (after_node h bodies c (PruneReplay before) s)"

definition session_frames :: "host \<Rightarrow> frame_bodies \<Rightarrow> rate_config \<Rightarrow> node_event list \<Rightarrow> node_frame list" where
  "session_frames h bodies c es = delivered h bodies c es \<lparr>au_buckets = [], au_replay = empty_replay\<rparr>"

definition on_connection :: "connection_key \<Rightarrow> node_frame list \<Rightarrow> node_frame list" where
  "on_connection key fs = filter (\<lambda>f. frame_key f = key) fs"

text \<open>The frames delivered so far, connection by connection, against the last sequence numbers in the table.\<close>

definition numbered :: "node_frame list \<Rightarrow> replay_db \<Rightarrow> bool" where
  "numbered fs db \<longleftrightarrow> (\<forall>key. map fr_sequence (on_connection key fs) = map of_nat [1..<Suc (length (on_connection key fs))]
     \<and> (on_connection key fs = [] \<or> fr_type (hd (on_connection key fs)) = ''connection.hello'')
     \<and> last_sequence key db = (if on_connection key fs = [] then None else Some (of_nat (length (on_connection key fs)))))"

lemma numbered_accept:
  assumes "numbered fs db" and "replay_consume h f received db = Inr (DeliveryAccepted, db')"
  shows "numbered (fs @ [f]) db'"
  unfolding numbered_def
proof
  fix key
  obtain db1 where db1: "advance_connection f db = Inr db1" "\<forall>key. last_sequence key db' = last_sequence key db1"
    by (rule replay_consume_accepted [OF assms(2)]) blast
  note prior = assms(1) [unfolded numbered_def, rule_format, of key]
  have seq: "last_sequence key db' = (if key = frame_key f then Some (fr_sequence f) else last_sequence key db)"
    using advance_connection_Inr(2) [OF db1(1), of key] db1(2) by metis
  show "map fr_sequence (on_connection key (fs @ [f])) = map of_nat [1..<Suc (length (on_connection key (fs @ [f])))]
     \<and> (on_connection key (fs @ [f]) = [] \<or> fr_type (hd (on_connection key (fs @ [f]))) = ''connection.hello'')
     \<and> last_sequence key db' = (if on_connection key (fs @ [f]) = [] then None else Some (of_nat (length (on_connection key (fs @ [f])))))"
  proof (cases "key = frame_key f")
    case True
    then have snoc: "on_connection key (fs @ [f]) = on_connection key fs @ [f]" by (simp add: on_connection_def)
    have "fr_sequence f = of_nat (Suc (length (on_connection key fs)))" using advance_connection_Inr(3) [OF db1(1)] prior True by (auto split: if_splits)
    then show ?thesis using prior seq True advance_connection_Inr(3) [OF db1(1)] unfolding snoc by (cases "on_connection key fs") (auto simp: hd_append)
  next
    case False
    then have "on_connection key (fs @ [f]) = on_connection key fs" by (simp add: on_connection_def)
    then show ?thesis using prior seq False by simp
  qed
qed

lemma numbered_delivered:
  assumes "numbered fs (au_replay s)"
  shows "\<exists>db. numbered (fs @ delivered h bodies c es s) db"
  using assms
proof (induction es arbitrary: fs s)
  case Nil
  then show ?case by auto
next
  case (Cons e es)
  show ?case
  proof (cases e)
    case (PruneReplay before)
    have "numbered fs (au_replay (after_node h bodies c e s))"
      using Cons.prems PruneReplay by (simp add: numbered_def last_sequence_def pruneExpired_def)
    then show ?thesis using Cons.IH PruneReplay by simp
  next
    case (ReceiveFrame resolve opts raw)
    obtain r s' where v: "verify_frame h bodies c resolve opts raw s = (r, s')" by (cases "verify_frame h bodies c resolve opts raw s")
    have "numbered (fs @ accepted_of r) (au_replay s')"
    proof (cases r)
      case (Inl x)
      then show ?thesis using Cons.prems verify_frame_refused v by simp
    next
      case (Inr fd)
      obtain f d where fd: "fd = (f, d)" by (cases fd)
      obtain received where "replay_consume h f received (au_replay s) = Inr (d, au_replay s')"
        using v unfolding Inr fd by (auto elim!: verify_frame_Inr)
      then show ?thesis using Cons.prems Inr fd numbered_accept by (cases d) (auto dest!: replay_duplicate)
    qed
    then show ?thesis using Cons.IH [of "fs @ accepted_of r" s'] v ReceiveFrame by simp
  qed
qed

lemma distinct_map_imp: "distinct (map f xs) \<Longrightarrow> distinct xs"
  by (simp add: distinct_map)

lemma distinct_by_filters: "(\<And>k. distinct (filter (\<lambda>x. f x = k) xs)) \<Longrightarrow> distinct xs"
proof (induction xs)
  case (Cons x xs)
  have "distinct (filter (\<lambda>y. f y = k) xs)" for k using Cons.prems [of k] by (simp split: if_splits)
  moreover have "x \<notin> set xs" using Cons.prems [of "f x"] by simp
  ultimately show ?case using Cons.IH by simp
qed simp

text \<open>
  C13. Frames are delivered in order and once. Whatever is received, under whatever keys, and however often the replay table is
  pruned, the frames accepted on a connection of a node carry the numbers 1, 2, 3 and so on in the order of their acceptance, the
  first is the greeting, and no frame is accepted twice.
\<close>

theorem frames_delivered_in_order:
  "map fr_sequence (on_connection key (session_frames h bodies c es)) = map of_nat [1..<Suc (length (on_connection key (session_frames h bodies c es)))]
     \<and> (on_connection key (session_frames h bodies c es) = [] \<or> fr_type (hd (on_connection key (session_frames h bodies c es))) = ''connection.hello'')
     \<and> distinct (session_frames h bodies c es)"
proof -
  let ?fs = "session_frames h bodies c es"
  have "numbered [] (au_replay \<lparr>au_buckets = [], au_replay = empty_replay\<rparr>)"
    by (simp add: numbered_def on_connection_def last_sequence_def empty_replay_def)
  then obtain db where n: "numbered ?fs db" using numbered_delivered [of "[]"] unfolding session_frames_def by (metis append_Nil)
  have "distinct (on_connection key ?fs)" for key
  proof -
    have "map fr_sequence (on_connection key ?fs) = map of_nat [1..<Suc (length (on_connection key ?fs))]" using n unfolding numbered_def by blast
    moreover have "distinct (map (of_nat :: nat \<Rightarrow> rat) [1..<Suc (length (on_connection key ?fs))])" by (simp add: distinct_map inj_on_def)
    ultimately have "distinct (map fr_sequence (on_connection key ?fs))" by (simp only:)
    then show ?thesis by (rule distinct_map_imp)
  qed
  then have "distinct ?fs" unfolding on_connection_def by (rule distinct_by_filters)
  then show ?thesis using n unfolding numbered_def by blast
qed


section \<open>A redelivered frame is recognised\<close>

fun replay_after :: "host \<Rightarrow> (node_frame \<times> int) list \<Rightarrow> replay_db \<Rightarrow> replay_db" where
  "replay_after h [] db = db"
| "replay_after h ((g, t) # gs) db = replay_after h gs (case replay_consume h g t db of Inl _ \<Rightarrow> db | Inr (_, db') \<Rightarrow> db')"

definition recorded_as :: "host \<Rightarrow> node_frame \<Rightarrow> replay_row \<Rightarrow> bool" where
  "recorded_as h f row \<longleftrightarrow> ry_tenantId row = fr_tenantId f \<and> ry_nodeId row = fr_actorId f \<and> ry_keyId row = fr_keyId f \<and> ry_messageId row = fr_messageId f
     \<and> ry_nonceDigest row = opaqueTokenDigest h (fr_nonce f) \<and> ry_connectionId row = fr_connectionId f \<and> ry_sequence row = fr_sequence f
     \<and> ry_frameDigest row = sha256Digest h (frame_json f)"

definition known_frame :: "host \<Rightarrow> node_frame \<Rightarrow> replay_db \<Rightarrow> bool" where
  "known_frame h f db \<longleftrightarrow> fr_senderKind f = NodeSender \<and> (\<exists>row. prior_rows f (opaqueTokenDigest h (fr_nonce f)) db = [row] \<and> recorded_as h f row)"

lemma known_is_duplicate: "known_frame h f db \<Longrightarrow> replay_consume h f t db = Inr (DeliveryDuplicate, db)"
  by (auto simp: known_frame_def recorded_as_def replay_consume_def Let_def guard_result_def)

lemma accepted_is_known:
  assumes "replay_consume h f t db = Inr (DeliveryAccepted, db')"
  shows "known_frame h f db'"
proof -
  obtain row where "prior_rows f (opaqueTokenDigest h (fr_nonce f)) db = []" "rd_replay db' = rd_replay db @ [row]" "recorded_as h f row"
      "fr_senderKind f = NodeSender"
    by (rule replay_consume_accepted [OF assms]) (auto simp: recorded_as_def)
  then show ?thesis by (auto simp: known_frame_def prior_rows_def recorded_as_def)
qed

text \<open>An accepted frame shares neither message nor nonce with a row that is there, so it leaves the rows of others alone.\<close>

lemma known_stays:
  assumes "known_frame h f db" and "replay_consume h g t db = Inr (d, db')"
  shows "known_frame h f db'"
proof (cases d)
  case DeliveryDuplicate
  then show ?thesis using assms replay_duplicate by fastforce
next
  case DeliveryAccepted
  obtain row where row: "prior_rows f (opaqueTokenDigest h (fr_nonce f)) db = [row]" "recorded_as h f row" "fr_senderKind f = NodeSender"
    using assms(1) unfolding known_frame_def by blast
  obtain new where new: "prior_rows g (opaqueTokenDigest h (fr_nonce g)) db = []" "rd_replay db' = rd_replay db @ [new]" "recorded_as h g new"
    by (rule replay_consume_accepted [OF assms(2) [unfolded DeliveryAccepted]]) (auto simp: recorded_as_def)
  have "row \<in> set (prior_rows f (opaqueTokenDigest h (fr_nonce f)) db)" unfolding row(1) by simp
  then have "row \<in> set (rd_replay db)" unfolding prior_rows_def by simp
  have apart: "\<not> (ry_tenantId new = fr_tenantId f \<and> ry_nodeId new = fr_actorId f \<and> ry_keyId new = fr_keyId f
      \<and> (ry_messageId new = fr_messageId f \<or> ry_nonceDigest new = opaqueTokenDigest h (fr_nonce f)))"
  proof
    assume "ry_tenantId new = fr_tenantId f \<and> ry_nodeId new = fr_actorId f \<and> ry_keyId new = fr_keyId f
      \<and> (ry_messageId new = fr_messageId f \<or> ry_nonceDigest new = opaqueTokenDigest h (fr_nonce f))"
    then have "row \<in> set (prior_rows g (opaqueTokenDigest h (fr_nonce g)) db)"
      using \<open>row \<in> set (rd_replay db)\<close> row(2) new(3) unfolding prior_rows_def recorded_as_def set_filter mem_Collect_eq by metis
    then show False using new(1) by simp
  qed
  have "prior_rows f (opaqueTokenDigest h (fr_nonce f)) db' = [row]"
    using row(1) unfolding prior_rows_def new(2) filter_append using apart by simp
  then show ?thesis using row(2,3) unfolding known_frame_def by blast
qed

text \<open>
  A frame that is delivered again is recognised. Once a frame has been accepted, and until its row is pruned, the guard answers
  that it is a duplicate and changes nothing, whatever other frames came in between.
\<close>

lemma redelivery_is_recognised:
  assumes "replay_consume h f t db = Inr (DeliveryAccepted, db')"
  shows "replay_consume h f t' (replay_after h gs db') = Inr (DeliveryDuplicate, replay_after h gs db')"
proof -
  have "known_frame h f db \<Longrightarrow> known_frame h f (replay_after h gs db)" for db
  proof (induction gs arbitrary: db)
    case (Cons gt gs)
    then show ?case using known_stays [OF Cons.prems] by (cases gt) (auto split: sum.splits)
  qed simp
  then show ?thesis using known_is_duplicate accepted_is_known [OF assms] by blast
qed

end
