(* ===== verification/Enrollment_Guarantees.thy ===== *)
theory Enrollment_Guarantees
  imports Node_Enrollment Node_Guarantees
begin

text \<open>
  What enrollment guarantees: a token enrolls at most one node, only within its lifetime and only for a proof of possession
  of the enrolled key; and the enrolled key is the one the authenticator resolves from then on.
\<close>

section \<open>A completed enrollment\<close>

lemma insertEnrolledNode_Inr:
  assumes "insertEnrolledNode h node spki fp tokenId challengeId now grantDigest db = Inr db'"
  shows "ed_nodes db' = ed_nodes db @ [\<lparr>en_id = rec_id node, en_tenantId = rec_tenantId node, en_state = NodeActive, en_identityKeyId = nd_identityKeyId node,
       en_payload = node\<rparr>]"
    and "ed_keys db' = ed_keys db @ [\<lparr>ek_id = nd_identityKeyId node, ek_tenantId = rec_tenantId node, ek_nodeId = rec_id node, ek_spki = spki, ek_fingerprint = fp,
       ek_state = ProtocolKeyActive, ek_validFrom = now, ek_validUntil = None\<rparr>]"
    and "ed_tokens db' = ed_tokens (consume_token (rec_tenantId node) tokenId db)"
    and "\<not> list_ex (\<lambda>r. en_id r = rec_id node) (ed_nodes db)"
    and "\<not> list_ex (\<lambda>r. ek_tenantId r = rec_tenantId node \<and> ek_id r = nd_identityKeyId node) (ed_keys db)"
  using assms
  by (auto simp: insertEnrolledNode_def Let_def bind_result_Inr_iff guard_result_Inr_iff insert_node_def insert_key_def consume_token_def consume_challenge_def
      list_ex_iff)

lemma complete_enrollment_Inr:
  assumes "complete_enrollment h fingerprint p opts db = Inr (r, db')"
  obtains c t fp selected now where "c \<in> set (ed_challenges db)" "eh_id c = ep_challengeId p" "eh_state c = Issued" "eh_nonce c = ep_challengeNonce p"
    "t \<in> set (ed_tokens db)" "et_tenantId t = eh_tenantId c" "et_id t = eh_tokenId c" "et_state t = Issued"
    "now < eh_expiresAt c" "now < et_expiresAt t" "verifyEnrollmentProof h p = Some True" "date_parse (co_now opts) = Some now"
    "insertEnrolledNode h (enrolled_node p opts (eh_tenantId c) selected) (ep_spki p) fp (eh_tokenId c) (ep_challengeId p) now (sha256Digest h (co_initialGrant opts)) db = Inr db'"
    "er_nodeId r = ep_nodeId p" "er_keyId r = ep_keyId p" "find (\<lambda>c. eh_id c = ep_challengeId p) (ed_challenges db) = Some c"
proof -
  obtain c where c: "find (\<lambda>c. eh_id c = ep_challengeId p) (ed_challenges db) = Some c"
    using assms by (auto simp: complete_enrollment_def guard_result_Inr_iff split: option.splits)
  obtain t where t: "find (\<lambda>t. et_tenantId t = eh_tenantId c \<and> et_id t = eh_tokenId c) (ed_tokens db) = Some t"
    using assms c by (auto simp: complete_enrollment_def guard_result_Inr_iff split: option.splits)
  obtain fp selected now where "eh_state c = Issued" "eh_nonce c = ep_challengeNonce p" "et_state t = Issued"
      "\<not> ms_leq (Some (eh_expiresAt c)) (Some now)" "\<not> ms_leq (Some (et_expiresAt t)) (Some now)" "verifyEnrollmentProof h p = Some True"
      "date_parse (co_now opts) = Some now"
      "insertEnrolledNode h (enrolled_node p opts (eh_tenantId c) selected) (ep_spki p) fp (eh_tokenId c) (ep_challengeId p) now (sha256Digest h (co_initialGrant opts)) db = Inr db'"
      "er_nodeId r = ep_nodeId p" "er_keyId r = ep_keyId p"
    using assms c t by (auto simp: complete_enrollment_def guard_result_Inr_iff bind_result_Inr_iff Let_def enrolled_node_def split: option.splits)
  then show thesis using that [of c t now selected fp] find_SomeD [OF c] find_SomeD [OF t] c by (auto simp: ms_leq_def)
qed


section \<open>The enrolled key resolves\<close>

lemma find_last:
  assumes "\<not> list_ex P xs" and "P x" shows "find P (xs @ [x]) = Some x"
  using assms by (induction xs) auto

lemma enrolled_key_found:
  assumes "insertEnrolledNode h node spki fp tokenId challengeId now grantDigest db = Inr db'"
  shows "resolve_node_key db' (rec_tenantId node) (rec_id node) NodeSender (nd_identityKeyId node) = Some \<lparr>nk_tenantId = rec_tenantId node, nk_actorId = rec_id node,
     nk_senderKind = NodeSender, nk_keyId = nd_identityKeyId node, nk_publicKeySpki = spki, nk_keyState = ProtocolKeyActive, nk_principalState = NodeActive,
     nk_validFrom = (case to_iso now of None \<Rightarrow> [] | Some s \<Rightarrow> s), nk_validUntil = None\<rparr>"
proof -
  note ins = insertEnrolledNode_Inr [OF assms]
  let ?k = "\<lparr>ek_id = nd_identityKeyId node, ek_tenantId = rec_tenantId node, ek_nodeId = rec_id node, ek_spki = spki, ek_fingerprint = fp,
    ek_state = ProtocolKeyActive, ek_validFrom = now, ek_validUntil = None\<rparr>"
  let ?n = "\<lparr>en_id = rec_id node, en_tenantId = rec_tenantId node, en_state = NodeActive, en_identityKeyId = nd_identityKeyId node, en_payload = node\<rparr>"
  have "find (\<lambda>k. ek_tenantId k = rec_tenantId node \<and> ek_nodeId k = rec_id node \<and> ek_id k = nd_identityKeyId node) (ed_keys db') = Some ?k"
    unfolding ins(2) by (rule find_last) (use ins(5) in \<open>auto simp: list_ex_iff\<close>)
  moreover have "find (\<lambda>n. en_tenantId n = rec_tenantId node \<and> en_id n = rec_id node) (ed_nodes db') = Some ?n"
    unfolding ins(1) by (rule find_last) (use ins(4) in \<open>auto simp: list_ex_iff\<close>)
  ultimately show ?thesis by (simp add: resolve_node_key_def)
qed

text \<open>
  C14. The enrolled key is the key that authenticates the node. When an enrollment completes, the proof was signed with the
  private key of the public key it names, the challenge and its token had been issued and had not expired; and from then on the
  resolver answers for this node and key with exactly that public key, in a state in which the authenticator accepts frames received at
  or after the time of the enrollment.
\<close>

theorem enrolled_key_authenticates:
  assumes "complete_enrollment h fingerprint p opts db = Inr (r, db')"
  shows "\<exists>c \<in> set (ed_challenges db). \<exists>t \<in> set (ed_tokens db). \<exists>now key. eh_id c = ep_challengeId p \<and> eh_state c = Issued \<and> et_id t = eh_tokenId c \<and> et_state t = Issued
     \<and> date_parse (co_now opts) = Some now \<and> now < eh_expiresAt c \<and> now < et_expiresAt t
     \<and> ed25519_verify h (ep_spki p) (ep_signature p) (canonicalJson (enrollmentProofMaterial p)) = Some True
     \<and> nk_publicKeySpki key = ep_spki p
     \<and> (\<forall>f received. fr_tenantId f = eh_tenantId c \<and> fr_actorId f = er_nodeId r \<and> fr_senderKind f = NodeSender \<and> fr_keyId f = er_keyId r \<and> now \<le> received
          \<longrightarrow> key_permits f received (resolve_node_key db' (fr_tenantId f) (fr_actorId f) (fr_senderKind f) (fr_keyId f)) = Inr key)"
proof -
  obtain c t fp selected now where c: "c \<in> set (ed_challenges db)" "eh_id c = ep_challengeId p" "eh_state c = Issued"
      and t: "t \<in> set (ed_tokens db)" "et_id t = eh_tokenId c" "et_state t = Issued" "now < eh_expiresAt c" "now < et_expiresAt t"
      and proof_ok: "verifyEnrollmentProof h p = Some True" and now: "date_parse (co_now opts) = Some now"
      and ins: "insertEnrolledNode h (enrolled_node p opts (eh_tenantId c) selected) (ep_spki p) fp (eh_tokenId c) (ep_challengeId p) now (sha256Digest h (co_initialGrant opts)) db = Inr db'"
      and r: "er_nodeId r = ep_nodeId p" "er_keyId r = ep_keyId p"
    by (rule complete_enrollment_Inr [OF assms])
  obtain s where s: "to_iso now = Some s" "date_parse s = Some now" using date_parse_to_iso [OF date_parse_valid [OF now]] by blast
  let ?key = "\<lparr>nk_tenantId = eh_tenantId c, nk_actorId = ep_nodeId p, nk_senderKind = NodeSender, nk_keyId = ep_keyId p, nk_publicKeySpki = ep_spki p,
    nk_keyState = ProtocolKeyActive, nk_principalState = NodeActive, nk_validFrom = s, nk_validUntil = None\<rparr>"
  have "resolve_node_key db' (eh_tenantId c) (ep_nodeId p) NodeSender (ep_keyId p) = Some ?key"
    using enrolled_key_found [OF ins] s(1) by (simp add: enrolled_node_def)
  then have "key_permits f received (resolve_node_key db' (fr_tenantId f) (fr_actorId f) (fr_senderKind f) (fr_keyId f)) = Inr ?key"
    if "fr_tenantId f = eh_tenantId c" "fr_actorId f = er_nodeId r" "fr_senderKind f = NodeSender" "fr_keyId f = er_keyId r" "now \<le> received" for f received
    using that r s(2) by (simp add: key_permits_Inr ms_less_def truthy_text_def)
  then show ?thesis
    using c t proof_ok now by (intro bexI [of _ c] bexI [of _ t] exI [of _ now] exI [of _ ?key]) (auto simp: verifyEnrollmentProof_def)
qed

text \<open>A sample enrollment: a token is issued, challenged and completed.\<close>

definition enrollment_time :: string where "enrollment_time = ''2025-06-01T00:10:00.000Z''"

definition sample_server_key :: advertised_key where
  "sample_server_key = \<lparr>sk_keyId = ''key:server'', sk_algorithm = ''ed25519'', sk_spki = ''server-spki-0123456789''\<rparr>"

definition sample_issue :: issue_input where
  "sample_issue = \<lparr>ii_tenantId = ''tenant:1'', ii_nodeClass = ''class:1'', ii_createdBy = ''actor:1'', ii_createdAt = enrollment_time, ii_expiresAt = None,
     ii_tokenId = Some ''token:1''\<rparr>"

definition sample_challenge_request :: challenge_request where
  "sample_challenge_request = \<lparr>cq_tokenId = ''token:1'', cq_token = ''0123456789012345678901234567890123456789012'', cq_nodeClass = ''class:1'',
     cq_supportedProtocols = [NODE_PROTOCOL_V1]\<rparr>"

definition sample_proof :: enrollment_proof where
  "sample_proof = \<lparr>ep_challengeId = ''challenge:1'', ep_challengeNonce = ''nonce-0123456789'', ep_nodeId = ''node:1'', ep_displayName = ''Node'', ep_nodeClass = ''class:1'',
     ep_keyId = ''key:1'', ep_spki = ''node-spki-0123456789'',
     ep_platformFacts = \<lparr>pf_platform = Linux, pf_architecture = ''x64'', pf_hardwareFingerprint = d0, pf_softwareFingerprint = d0, pf_bridgeVersion = ''1'', pf_attestation = []\<rparr>,
     ep_supportedProtocols = [NODE_PROTOCOL_V1], ep_signature = ''signature-0123456789''\<rparr>"

definition sample_complete_options :: complete_options where
  "sample_complete_options = \<lparr>co_now = enrollment_time, co_policyVersion = ''1'', co_initialGrant = JObj []\<rparr>"

definition sample_issued :: enrollment_db where
  "sample_issued = \<lparr>ed_tenants = [''tenant:1''],
     ed_tokens = [\<lparr>et_id = ''token:1'', et_tenantId = ''tenant:1'', et_tokenDigest = d0, et_nodeClass = ''class:1'', et_state = Issued, et_createdBy = ''actor:1'',
       et_createdAt = 1748736600000, et_expiresAt = 1748737500000\<rparr>],
     ed_challenges = [], ed_nodes = [], ed_keys = [], ed_events = [], ed_outbox = []\<rparr>"

definition sample_challenged :: enrollment_db where
  "sample_challenged = sample_issued\<lparr>ed_challenges := [\<lparr>eh_id = ''challenge:1'', eh_tenantId = ''tenant:1'', eh_tokenId = ''token:1'', eh_nonce = ''nonce-0123456789'',
     eh_nodeClass = ''class:1'', eh_supportedProtocols = [NODE_PROTOCOL_V1], eh_serverTrustKeys = [sample_server_key], eh_state = Issued,
     eh_createdAt = 1748736600000, eh_expiresAt = 1748736900000\<rparr>]\<rparr>"

lemma enrollment_time_facts [simp]:
  "date_parse enrollment_time = Some 1748736600000" "isoDate sample_host enrollment_time"
  "to_iso 1748737500000 = Some ''2025-06-01T00:25:00.000Z''" "to_iso 1748736900000 = Some ''2025-06-01T00:15:00.000Z''"
  "date_parse ''2025-06-01T00:25:00.000Z'' = Some 1748737500000" "date_parse ''2025-06-01T00:15:00.000Z'' = Some 1748736900000"
  by (simp_all add: enrollment_time_def isoDate_def sample_host_def date_eval)

lemma enrollment_ids:
  "list_all protocolId [''tenant:1'', ''class:1'', ''actor:1'', ''token:1'', ''challenge:1'', ''node:1'', ''key:1'', ''key:server'']"
  "list_all protocolBase64url [''nonce-0123456789'', ''node-spki-0123456789'', ''server-spki-0123456789'', ''signature-0123456789'']"
  "list_all safeId [''tenant:1'', ''node:1'', ''key:1'']" "list_all protocolLabel [''Node'', ''x64'', ''1'', NODE_PROTOCOL_V1]"
  by (simp_all add: protocolId_def protocolBase64url_def protocolLabel_def id_eval is_control_char_def NODE_PROTOCOL_V1_def)

lemma sample_token_digest: "opaqueTokenDigest sample_host token = d0"
  by (simp add: opaqueTokenDigest_def sample_host_def d0_def sample_digest_def)

lemma sample_issue_run:
  "issueToken sample_host sample_issue ''1'' ''0123456789012345678901234567890123456789012'' (sample_issued\<lparr>ed_tokens := []\<rparr>)
     = Inr ((''token:1'', ''0123456789012345678901234567890123456789012'', ''2025-06-01T00:25:00.000Z''), sample_issued)"
  using enrollment_ids
  by (simp add: issueToken_def guard_result_def issueEnrollmentTokenSchema_def sample_issue_def plusSeconds_def sample_token_digest insert_token_def sample_issued_def Let_def)

lemma sample_challenge_run:
  "\<exists>c. createChallenge sample_host [sample_server_key] sample_challenge_request enrollment_time ''challenge:1'' ''nonce-0123456789'' sample_issued = Inr (c, sample_challenged)"
proof -
  have "text_between 32 512 (cq_token sample_challenge_request)" "base64url_pattern (cq_token sample_challenge_request)"
    by (simp_all add: sample_challenge_request_def id_eval)
  then have "enrollmentChallengeRequestSchema sample_challenge_request"
    using enrollment_ids by (simp add: enrollmentChallengeRequestSchema_def sample_challenge_request_def protocolList_def)
  moreover have "isoDate sample_host ''2025-06-01T00:15:00.000Z''" by (simp add: isoDate_def sample_host_def)
  ultimately show ?thesis using enrollment_ids
    by (simp add: createChallenge_def guard_result_def sample_issued_def) (simp add: sample_challenge_request_def opaqueTokenMatches_def sample_token_digest ms_leq_def
      negotiateProtocolVersion_def NODE_PROTOCOL_SUPPORTED_VERSIONS_def enrollmentChallengeSchema_def protocolList_def sample_server_key_def ms_less_def
      insert_challenge_def sample_challenged_def sample_issued_def)
qed

lemma sample_enrollment: "\<exists>r db. complete_enrollment sample_host (\<lambda>k. Some d0) sample_proof sample_complete_options sample_challenged = Inr (r, db)
     \<and> er_nodeId r = ''node:1'' \<and> er_keyId r = ''key:1''"
proof -
  have "enrollmentProofSchema sample_proof"
    using enrollment_ids by (simp add: enrollmentProofSchema_def sample_proof_def platformFactsSchema_def protocolList_def)
  moreover have "nodeRecordSchema sample_host (enrolled_node sample_proof sample_complete_options ''tenant:1'' NODE_PROTOCOL_V1)"
    using enrollment_ids by (simp add: nodeRecordSchema_def orderedRecord_def baseRecordShape_def enrolled_node_def sample_proof_def sample_complete_options_def safeLabel_def
        text_between_def z_int_def truthy_text_def NODE_PROTOCOL_V1_def ms_leq_def) (simp add: enrollment_time_def)
  moreover have "verifyEnrollmentProof sample_host sample_proof = Some True" by (simp add: verifyEnrollmentProof_def sample_host_def)
  moreover have "assertNoSecretMaterial (co_initialGrant sample_complete_options) l = Inr ()" for l
    by (simp add: sample_complete_options_def assertNoSecretMaterial_def containsSecretMaterial_def)
  ultimately show ?thesis
    by (simp add: complete_enrollment_def guard_result_def sample_challenged_def sample_issued_def)
      (simp add: sample_proof_def sample_complete_options_def ms_leq_def negotiateProtocolVersion_def NODE_PROTOCOL_SUPPORTED_VERSIONS_def collides_def
        insertEnrolledNode_def insert_node_def insert_key_def guard_result_def enrolled_node_def notice_fits_def consume_token_def consume_challenge_def Let_def)
qed

theorem enrolled_key_authenticates_witness:
  "\<exists>r db key. complete_enrollment sample_host (\<lambda>k. Some d0) sample_proof sample_complete_options sample_challenged = Inr (r, db)
     \<and> key_permits (sample_frame\<lparr>fr_actorId := er_nodeId r, fr_keyId := er_keyId r\<rparr>) 1748736600000 (resolve_node_key db ''tenant:1'' ''node:1'' NodeSender ''key:1'') = Inr key"
proof -
  obtain r db where e: "complete_enrollment sample_host (\<lambda>k. Some d0) sample_proof sample_complete_options sample_challenged = Inr (r, db)"
    "er_nodeId r = ''node:1''" "er_keyId r = ''key:1''" using sample_enrollment by blast
  let ?f = "sample_frame\<lparr>fr_actorId := er_nodeId r, fr_keyId := er_keyId r\<rparr>"
  have f: "fr_tenantId ?f = ''tenant:1''" "fr_actorId ?f = ''node:1''" "fr_senderKind ?f = NodeSender" "fr_keyId ?f = ''key:1''"
    using e by (simp_all add: sample_frame_def)
  from enrolled_key_authenticates [OF e(1)] show ?thesis
  proof (elim bexE exE conjE)
    fix c t now key
    assume c: "c \<in> set (ed_challenges sample_challenged)" and now: "date_parse (co_now sample_complete_options) = Some now"
      and ok: "\<forall>f received. fr_tenantId f = eh_tenantId c \<and> fr_actorId f = er_nodeId r \<and> fr_senderKind f = NodeSender \<and> fr_keyId f = er_keyId r \<and> now \<le> received
        \<longrightarrow> key_permits f received (resolve_node_key db (fr_tenantId f) (fr_actorId f) (fr_senderKind f) (fr_keyId f)) = Inr key"
    have "eh_tenantId c = ''tenant:1''" "now = 1748736600000" using c now by (simp_all add: sample_challenged_def sample_complete_options_def)
    then have "key_permits ?f 1748736600000 (resolve_node_key db ''tenant:1'' ''node:1'' NodeSender ''key:1'') = Inr key"
      using ok [rule_format, of ?f 1748736600000] f e(2,3) by simp
    then show ?thesis using e(1) by blast
  qed
qed


section \<open>A token enrolls at most one node\<close>

datatype enrollment_command =
    IssueToken issue_input string string
  | CreateChallenge challenge_request string string string
  | CompleteEnrollment enrollment_proof complete_options

definition tables_of :: "enrollment_db \<Rightarrow> ('e, 'a \<times> enrollment_db) result \<Rightarrow> enrollment_db" where
  "tables_of db r = (case r of Inl _ \<Rightarrow> db | Inr (_, db') \<Rightarrow> db')"

fun after_enrollment :: "host \<Rightarrow> advertised_key list \<Rightarrow> (string \<Rightarrow> string option) \<Rightarrow> enrollment_command \<Rightarrow> enrollment_db \<Rightarrow> enrollment_db" where
  "after_enrollment h keys fingerprint (IssueToken i randomId token) db = tables_of db (issueToken h i randomId token db)"
| "after_enrollment h keys fingerprint (CreateChallenge r now challengeId nonce) db = tables_of db (createChallenge h keys r now challengeId nonce db)"
| "after_enrollment h keys fingerprint (CompleteEnrollment p opts) db = tables_of db (complete_enrollment h fingerprint p opts db)"

definition challenge_token :: "enrollment_proof \<Rightarrow> enrollment_db \<Rightarrow> string" where
  "challenge_token p db = (case find (\<lambda>c. eh_id c = ep_challengeId p) (ed_challenges db) of None \<Rightarrow> [] | Some c \<Rightarrow> eh_tokenId c)"

text \<open>The token and the node of every enrollment that completed.\<close>

fun enrolled_by :: "host \<Rightarrow> (string \<Rightarrow> string option) \<Rightarrow> enrollment_command \<Rightarrow> enrollment_db \<Rightarrow> (string \<times> string) list" where
  "enrolled_by h fingerprint (CompleteEnrollment p opts) db =
     (case complete_enrollment h fingerprint p opts db of Inl _ \<Rightarrow> [] | Inr (r, _) \<Rightarrow> [(challenge_token p db, er_nodeId r)])"
| "enrolled_by h fingerprint _ db = []"

fun enrollments :: "host \<Rightarrow> advertised_key list \<Rightarrow> (string \<Rightarrow> string option) \<Rightarrow> enrollment_command list \<Rightarrow> enrollment_db \<Rightarrow> (string \<times> string) list" where
  "enrollments h keys fingerprint [] db = []"
| "enrollments h keys fingerprint (cmd # cmds) db =
     enrolled_by h fingerprint cmd db @ enrollments h keys fingerprint cmds (after_enrollment h keys fingerprint cmd db)"

definition accounted :: "(string \<times> string) list \<Rightarrow> enrollment_db \<Rightarrow> bool" where
  "accounted es db \<longleftrightarrow> distinct (map fst es) \<and> distinct (map snd es) \<and> distinct (map et_id (ed_tokens db))
     \<and> (\<forall>(i, n) \<in> set es. (\<exists>t \<in> set (ed_tokens db). et_id t = i \<and> et_state t = Consumed) \<and> (\<exists>r \<in> set (ed_nodes db). en_id r = n))"

lemma accounted_complete:
  assumes a: "accounted es db" and "complete_enrollment h fingerprint p opts db = Inr (r, db')"
  shows "accounted (es @ [(challenge_token p db, er_nodeId r)]) db'"
proof -
  obtain c t fp selected now where t: "t \<in> set (ed_tokens db)" "et_tenantId t = eh_tenantId c" "et_id t = eh_tokenId c" "et_state t = Issued"
      and ins: "insertEnrolledNode h (enrolled_node p opts (eh_tenantId c) selected) (ep_spki p) fp (eh_tokenId c) (ep_challengeId p) now (sha256Digest h (co_initialGrant opts)) db = Inr db'"
      and r: "er_nodeId r = ep_nodeId p" and found: "find (\<lambda>c. eh_id c = ep_challengeId p) (ed_challenges db) = Some c"
    by (rule complete_enrollment_Inr [OF assms(2)])
  let ?g = "\<lambda>t. if et_tenantId t = eh_tenantId c \<and> et_id t = eh_tokenId c \<and> et_state t = Issued then t\<lparr>et_state := Consumed\<rparr> else t"
  have c: "challenge_token p db = eh_tokenId c" using found by (simp add: challenge_token_def)
  have tokens: "ed_tokens db' = map ?g (ed_tokens db)" using insertEnrolledNode_Inr(3) [OF ins] by (simp add: consume_token_def enrolled_node_def)
  obtain new where nodes: "ed_nodes db' = ed_nodes db @ [new]" "en_id new = ep_nodeId p" using insertEnrolledNode_Inr(1) [OF ins] by (auto simp: enrolled_node_def)
  have other: "\<forall>n \<in> set (ed_nodes db). en_id n \<noteq> ep_nodeId p" using insertEnrolledNode_Inr(4) [OF ins] by (auto simp: list_ex_iff enrolled_node_def)
  have ids: "map et_id (ed_tokens db') = map et_id (ed_tokens db)" unfolding tokens by simp
  have one: "u = t" if "u \<in> set (ed_tokens db)" "et_id u = et_id t" for u
    using a that t(1) unfolding accounted_def distinct_map inj_on_def by blast
  have "eh_tokenId c \<notin> fst ` set es"
  proof
    assume "eh_tokenId c \<in> fst ` set es"
    then obtain u where "u \<in> set (ed_tokens db)" "et_id u = eh_tokenId c" "et_state u = Consumed" using a unfolding accounted_def by force
    then show False using one [of u] t by simp
  qed
  moreover have "ep_nodeId p \<notin> snd ` set es" using a other unfolding accounted_def by force
  moreover have "\<exists>u \<in> set (ed_tokens db'). et_id u = i \<and> et_state u = Consumed" if "u \<in> set (ed_tokens db)" "et_id u = i" "et_state u = Consumed" for i u
    using that unfolding tokens by (intro bexI [of _ "?g u"]) auto
  moreover have "\<exists>u \<in> set (ed_tokens db'). et_id u = eh_tokenId c \<and> et_state u = Consumed"
    using t unfolding tokens by (intro bexI [of _ "?g t"]) auto
  ultimately show ?thesis using a unfolding accounted_def ids by (fastforce simp: nodes c r)
qed

lemma accounted_step:
  assumes "accounted es db"
  shows "accounted (es @ enrolled_by h fingerprint cmd db) (after_enrollment h keys fingerprint cmd db)"
proof (cases cmd)
  case (IssueToken i randomId token)
  have "ed_nodes db' = ed_nodes db \<and> (\<exists>t. ed_tokens db' = ed_tokens db @ [t] \<and> et_id t \<notin> et_id ` set (ed_tokens db))"
    if "issueToken h i randomId token db = Inr (x, db')" for x db'
    using that by (fastforce simp: issueToken_def insert_token_def guard_result_Inr_iff bind_result_Inr_iff Let_def list_ex_iff split: option.splits prod.splits)
  then show ?thesis using assms IssueToken by (fastforce simp: tables_of_def accounted_def split: sum.splits prod.splits)
next
  case (CreateChallenge r now challengeId nonce)
  have "ed_nodes db' = ed_nodes db \<and> ed_tokens db' = ed_tokens db" if "createChallenge h keys r now challengeId nonce db = Inr (x, db')" for x db'
    using that by (auto simp: createChallenge_def insert_challenge_def guard_result_Inr_iff bind_result_Inr_iff Let_def split: option.splits)
  then show ?thesis using assms CreateChallenge by (fastforce simp: tables_of_def accounted_def split: sum.splits prod.splits)
next
  case (CompleteEnrollment p opts)
  then show ?thesis using assms accounted_complete [OF assms, of h fingerprint p opts] by (auto simp: tables_of_def split: sum.splits prod.splits)
qed

lemma accounted_run: "accounted es db \<Longrightarrow> \<exists>db'. accounted (es @ enrollments h keys fingerprint cmds db) db'"
proof (induction cmds arbitrary: es db)
  case (Cons cmd cmds)
  show ?case using Cons.IH [OF accounted_step [OF Cons.prems, of h fingerprint cmd keys]] by simp
qed auto

definition no_enrollments :: "string list \<Rightarrow> enrollment_db" where
  "no_enrollments tenants = \<lparr>ed_tenants = tenants, ed_tokens = [], ed_challenges = [], ed_nodes = [], ed_keys = [], ed_events = [], ed_outbox = []\<rparr>"

text \<open>
  C15. A token enrolls at most one node. In every sequence of issued tokens, challenges and proofs, however they interleave and fail,
  no two completed enrollments come from the same token, and no two enroll the same node.
\<close>

theorem token_enrolls_one_node:
  "distinct (map fst (enrollments h keys fingerprint cmds (no_enrollments tenants)))
     \<and> distinct (map snd (enrollments h keys fingerprint cmds (no_enrollments tenants)))"
proof -
  have "accounted [] (no_enrollments tenants)" by (simp add: accounted_def no_enrollments_def)
  from accounted_run [OF this, of h keys fingerprint cmds] show ?thesis by (auto simp: accounted_def)
qed

end
