(* ===== verification/Spec2Isabelle.thy ===== *)
theory Spec2Isabelle
  imports
    State_Machines Policy_Scopes Policy_Guarantees Execution_Store_Guarantees Effect_Store_Guarantees
    Security_Constraints Network_Guarantees Admission_Store Safe_Responses Access_Policy Rollback_Checkpoint
    Budget_Store Reservation_Store Allocation
    Completion_Guarantees Completion_Approvals Node_Rate_Limit Enrollment_Guarantees
begin

text \<open>
  \<^bold>\<open>Agent Control Room: the authority and durability core.\<close>

  The program schedules work on nodes and lets agents act on the world only under delegated, attenuated
  and owner-approved authority. This library models the parts of \<open>src/src\<close> that decide whether an action may
  happen, that record what was decided, that account for what is reserved, that authenticate what nodes send, and that decide when
  work counts as complete. Every definition is a
  translation of the file named by its theory; identifiers keep the names of the source, record fields carry
  a two-letter prefix.

  \<^bold>\<open>How the parts interact.\<close> A node enrolls with a single-use token and a signed proof; from then on the server authenticates every frame
  it sends by its enrolled key, within a rate limit, once and in the order of its connection (\<open>node-protocol/v1\<close>). A server leases a job to a node under an authority envelope that was delegated from
  a project root through a chain of envelopes (\<open>domain/v1\<close>). The node validates the signed artifacts
  (\<open>node-policy/v1/schemas.ts\<close>, \<open>crypto.ts\<close>), evaluates the request against the chain, its own ceiling, the
  executor's capability and the owner's approval (\<open>policy-evaluator.ts\<close>), records the decision
  (\<open>admission-store.ts\<close>), opens an execution whose deadline is the least of everything that limits it
  (\<open>execution-authority.ts\<close>, persisted by \<open>execution-state-store.ts\<close>), and guards each external effect with a
  claim that is fired at most once (\<open>effect-claim.ts\<close>, persisted by \<open>effect-claim-store.ts\<close>). Digests over canonical JSON bind these records to each
  other (\<open>security/digest.ts\<close>), and nothing that carries secret material is stored (\<open>security/redaction.ts\<close>). The
  scheduler decides which work is offered next and keeps the ledgers of budgets and resources (\<open>scheduler/v1\<close>).
  The ceiling and the keys of the server come from the owner and are kept in two databases, one of artifacts and one of
  high-water marks (\<open>persistent-security-state.ts\<close>, \<open>owner-pins.ts\<close>); an outgoing connection is pinned to addresses that were checked
  when its host was resolved (\<open>network-target-guard.ts\<close>).
  Finished work is submitted to the completion gate, which counts independent reviews and verifications, bounds the rounds of
  revision, and records an owner's decision on an effect (\<open>completion-gate/v1\<close>); every row and the state of a tenant are tagged, and
  a checkpoint outside the database detects its rollback (\<open>security/rollback-checkpoint.ts\<close>). Operators are authorised by roles
  (\<open>security/policy.ts\<close>).

  \<^bold>\<open>Conventions.\<close> Texts are lists of characters below 256. Numbers are rationals where the code reads them
  from JSON, \<open>jsnum\<close> where it checks for \<open>NaN\<close>, infinities or safe integers, and doubles with explicit rounding
  (\<open>Js_Number\<close>) where it computes with them. A thrown error is the left value of a sum. A database transaction is a
  function from the tables to a sum, so that a rolled-back transaction leaves no trace; JSON columns hold the value
  they encode. Instants are texts, parsed and printed by \<open>Js_Date\<close>, which covers the formats of the ECMAScript
  specification. The code the repository only calls is a parameter: the record \<open>host\<close> holds SHA-256, Ed25519
  verification, the URL parser and zod's date-time format; \<open>gate_keys\<close> holds the HMAC; \<open>frame_bodies\<close> holds the contracts of the message
  bodies, most of which belong to components that are not modelled; the collations of the database and of \<open>localeCompare\<close> are
  functions to sort keys. Theorems that need a property of a parameter state it as a hypothesis
  (that a date-time accepted by zod parses) or carry the alternative in their conclusion (a collision of the hash).

  \<^bold>\<open>The theories.\<close>
  \<^item> \<open>Prelude\<close>: results, numbers, character classes, options. \<open>Js_Date\<close>: \<open>Date.parse\<close> and \<open>toISOString\<close>, with the
    interface \<open>instant_codec\<close>. \<open>Js_Number\<close>: doubles and stable sorting, with the interface \<open>comparator\<close>.
  \<^item> \<open>Canonical_Json\<close> (\<open>security/digest.ts\<close>, \<open>canonical-digest.ts\<close>): canonical text is injective, so digests bind.
  \<^item> \<open>Domain_Model\<close>, \<open>State_Machines\<close> (\<open>domain/v1/types.ts\<close>, \<open>state-machines.ts\<close>): the thirteen lifecycles, each an
    interpretation of the interface \<open>lifecycle\<close>; order of states in every history, finality, bounded progress.
  \<^item> \<open>Authority\<close>, \<open>Domain_Validators\<close> (\<open>domain/v1/authority.ts\<close>, \<open>proposal-authority.ts\<close>, \<open>validators.ts\<close>): delegation
    attenuates along whole chains; a proposal delegates no execution.
  \<^item> \<open>Node_Policy_Types\<close>, \<open>Node_Policy_Schemas\<close>, \<open>Policy_Evaluator\<close>, \<open>Policy_Scopes\<close>, \<open>Policy_Guarantees\<close>
    (\<open>node-policy/v1\<close>): what is accepted lies within the chain, the ceiling and the approval; path containment and
    money are measured exactly; the evaluation always answers.
  \<^item> \<open>Execution_Authority\<close>, \<open>Execution_Guarantees\<close> (\<open>execution-authority.ts\<close>): the step relation \<open>execution\<close>, its
    invariants by rule induction: deadlines never move past what admission fixed, recovery, effect rechecks.
  \<^item> \<open>Effect_Claim\<close>, \<open>Effect_Guarantees\<close> (\<open>effect-claim.ts\<close>): at most one firing, settlement only by evidence, and every claim ends after at most
    three events.
  \<^item> \<open>Redaction\<close> (\<open>security/redaction.ts\<close>): detection and redaction agree (interface \<open>redactor\<close>). \<open>Word_Scan\<close> scans sample texts for all
    secret words at once, to evaluate the detection.
  \<^item> \<open>Event_Machine\<close>, \<open>Execution_Store\<close>, \<open>Execution_Store_Guarantees\<close> (\<open>execution-state-store.ts\<close>): the store
    refines the machine: what is loaded is the replay of what was logged.
  \<^item> \<open>Effect_Claim_Store\<close>, \<open>Effect_Store_Guarantees\<close> (\<open>effect-claim-store.ts\<close>): claims, markers, settlements, recovery and
    compaction over five tables; an effect is dispatched and marked at most once over every sequence of
    operations, the store refines the claim machine, and a tampered claim is not loaded.
  \<^item> \<open>Step_Monad\<close>: operations that keep part of their effect when they fail, with the interfaces \<open>step_relation\<close> (a relation that
    every step respects) and \<open>stepwise_store\<close> (an invariant that every command of a store keeps).
  \<^item> \<open>Security_State\<close>, \<open>Security_Guarantees\<close>, \<open>Security_Constraints\<close> (\<open>persistent-security-state.ts\<close>, \<open>owner-pins.ts\<close>): every step with
    the points where it may be interrupted; interpretations of the interface \<open>step_relation\<close> show that marks and trust only move
    forward and that the table constraints hold; an interrupted adoption is completed by repeating it.
  \<^item> \<open>Ip_Address\<close>, \<open>Network_Guard\<close>, \<open>Network_Guarantees\<close> (\<open>network-target-guard.ts\<close>, \<open>node-bridge/native-https-destination.ts\<close>): address
    texts and 32-bit and 128-bit words; no address of the special-purpose registries is classified as global, however it is spelled, and an accepted
    peer is public or named literally.
  \<^item> \<open>Guarded_Store\<close>: the interfaces \<open>guarded_store\<close>, \<open>retry_safe_store\<close> and \<open>fires_once_store\<close> of the durable stores.
    \<open>Admission_Store\<close> (\<open>admission-store.ts\<close>), \<open>Ledger\<close>, \<open>Budget_Store\<close>, \<open>Reservation_Store\<close>
    (\<open>scheduler/v1/budget-store.ts\<close>, \<open>reservation-store.ts\<close>) and \<open>Rollback_Checkpoint\<close> interpret them.
  \<^item> \<open>Scheduling\<close>, \<open>Allocation\<close> (the other files of \<open>scheduler/v1\<close>): availability is exact, the allocator selects
    admissible work and bounds starvation.
  \<^item> \<open>Completion_Records\<close> (\<open>completion-gate/v1/types.ts\<close>, \<open>schemas.ts\<close>, \<open>reviewer-independence.ts\<close>), \<open>Completion_Gate\<close>
    (\<open>completion-gate/v1/store.ts\<close>): the records and the store over its two tables and the checkpoints.
    \<open>Completion_Log\<close> is the abstract specification: an append-only log with the rule by which each record is admitted, and what holds
    of every admitted log. \<open>Completion_Refinement\<close>: the store implements the log, over every sequence of operations, failed and repeated
    ones included. \<open>Completion_Guarantees\<close>: ready targets, revisions, restored databases, inspections. \<open>Completion_Progress\<close> and
    \<open>Completion_Approvals\<close>: what the store must accept for a tenant, whatever other tenants hold, from the first provisioning to the
    decision on an effect; and that an effect is decided once, in time and by an authorised person.
  \<^item> \<open>Node_Protocol\<close>, \<open>Node_Guarantees\<close>, \<open>Node_Rate_Limit\<close> (\<open>node-protocol/v1/authentication.ts\<close>, \<open>schemas.ts\<close>, \<open>crypto.ts\<close>,
    \<open>rate-limit.ts\<close>, the replay guard of \<open>persistence.ts\<close>): an accepted frame was signed by the key of its sender and is delivered
    once and in order; the limiter bounds what passes in every window of time.
  \<^item> \<open>Node_Enrollment\<close>, \<open>Enrollment_Guarantees\<close> (the enrollment store and the key resolver of \<open>persistence.ts\<close>): a token enrolls one
    node, and the key it enrolled authenticates the node's frames.
  \<^item> \<open>Access_Policy\<close>, \<open>Safe_Responses\<close> (\<open>security/policy.ts\<close>, \<open>safe-error.ts\<close>, \<open>denial-receipt.ts\<close>).

  \<^bold>\<open>Loops and bounds.\<close> All recursion is structural or has a termination proof; there is no fuel except in the
  shortest decimal text of a number (\<open>decimal_parts\<close>): 400 rounds, as the shortest text of a finite double
  has fewer than 400 decimals.

  \<^bold>\<open>Not modelled.\<close> Live JavaScript objects (proxies, accessors, prototypes), files, sockets, processes, key stores and
  signatures with private keys; opening and migrating databases; the web application, the installer and updater, the
  harness around external agents, the idea lab and the connectors, whose behaviour lies in the services they call.
  Of the completion gate, the reviewer-role commit (a function of the database) and cancellation signals; of the node protocol, the
  contracts of the message bodies. Texts beyond Latin-1 and date formats outside the ECMAScript specification are outside the model.

  \<^bold>\<open>Where the model is coarser than the platform.\<close> The key resolver prints the two instants of a key's validity as \<open>toISOString\<close> does, whereas
  the text the database driver returns is not modelled. The rows of budgets and reservations hold any instant \<open>Js_Date\<close> prints, without
  the range of the database's timestamps. Version counters of executions and claims are unbounded integers. The rows behind the state digest of
  a tenant are read in the order of code points, not of the database's collation.
\<close>


section \<open>Properties that span the stores\<close>

text \<open>
  C38. Redelivery is harmless in every ledger: when each command of a sequence is delivered any number of
  times in a row, the admissions, the project budgets and the resource reservations end in the same
  tables as if each command had been delivered once.
\<close>

theorem durable_stores_redelivery:
  "run_commands (record_admission h) (concat (map (\<lambda>(i, n). replicate (Suc n) i) inputs)) empty_admission_store
     = run_commands (record_admission h) (map fst inputs) empty_admission_store
   \<and> run_commands budget_transaction (concat (map (\<lambda>(c, n). replicate (Suc n) c) budgets)) (empty_budget_store tenants)
     = run_commands budget_transaction (map fst budgets) (empty_budget_store tenants)
   \<and> run_commands (reservation_transaction collation) (concat (map (\<lambda>(c, n). replicate (Suc n) c) reservations)) (empty_reservation_store tenants)
     = run_commands (reservation_transaction collation) (map fst reservations) (empty_reservation_store tenants)"
  by (intro conjI admissions.run_redelivered budgets.run_redelivered reservations.run_redelivered)

end
